(* ===== verification/Prelude.thy ===== *)
theory Prelude
  imports Main "HOL-Library.Word" "HOL-Library.Sublist" "HOL-Library.Multiset"
    "HOL-Library.AList" "HOL-Library.Char_ord" "HOL-Library.List_Lexorder"
begin

text \<open>
  Shared vocabulary of the development: the fragments of the Go language and of its standard
  library that the network enforcer uses (fixed-width integers, the functions of the packages
  strings, strconv and slices that occur in the source, Go maps), together with the generic
  lemmas the components rest on.

  Conventions. A Go string is a byte string, so it is a HOL \<open>string\<close>. An \<open>int32\<close> is a
  \<open>32 word\<close>, an \<open>int64\<close> a \<open>64 word\<close>, both read with \<open>sint\<close>. A pointer that may be nil is an
  \<open>option\<close>. A Go map is an association list in the order in which one iteration visits it, so
  that a theorem about every list is a theorem about every iteration order; a nil map and an
  empty map, which the code never tells apart, are both the empty list. An error result is a
  sum with the error on the left, a panic is \<open>None\<close>.
\<close>

section \<open>Collections of facts\<close>

named_theorems go_string \<open>facts about the string functions\<close>
named_theorems frame \<open>what an operation leaves unchanged\<close>

section \<open>Types\<close>

type_synonym int32 = "32 word"
type_synonym int64 = "64 word"
type_synonym strmap = "(string \<times> string) list"
type_synonym time = int

section \<open>Definitions\<close>

subsection \<open>Integers\<close>

text \<open>The value a 64-bit signed addition leaves in its destination, and Go's remainder.\<close>

definition wrap64 :: "int \<Rightarrow> int" where
  "wrap64 i = (i + 2 ^ 63) mod 2 ^ 64 - 2 ^ 63"

definition go_rem :: "int \<Rightarrow> int \<Rightarrow> int" where
  "go_rem a b = sgn a * (\<bar>a\<bar> mod \<bar>b\<bar>)"

subsection \<open>Strings\<close>

text \<open>\<open>strings.Cut\<close> for a separator of one byte: the part before it, the part after it, found.\<close>

fun str_cut :: "char \<Rightarrow> string \<Rightarrow> string \<times> string \<times> bool" where
  "str_cut c [] = ([], [], False)"
| "str_cut c (x # xs) =
     (if x = c then ([], xs, True)
      else (case str_cut c xs of (b, a, f) \<Rightarrow> (x # b, a, f)))"

definition has_prefix :: "string \<Rightarrow> string \<Rightarrow> bool" where
  "has_prefix s p \<longleftrightarrow> take (length p) s = p"

definition has_suffix :: "string \<Rightarrow> string \<Rightarrow> bool" where
  "has_suffix s t \<longleftrightarrow> length t \<le> length s \<and> drop (length s - length t) s = t"

definition trim_prefix :: "string \<Rightarrow> string \<Rightarrow> string" where
  "trim_prefix s p = (if has_prefix s p then drop (length p) s else s)"

definition trim_suffix :: "string \<Rightarrow> string \<Rightarrow> string" where
  "trim_suffix s t = (if has_suffix s t then take (length s - length t) s else s)"

definition cut_prefix :: "string \<Rightarrow> string \<Rightarrow> string \<times> bool" where
  "cut_prefix s p = (if has_prefix s p then (drop (length p) s, True) else (s, False))"

definition cut_suffix :: "string \<Rightarrow> string \<Rightarrow> string \<times> bool" where
  "cut_suffix s t = (if has_suffix s t then (take (length s - length t) s, True) else (s, False))"

text \<open>Case mapping of the ASCII letters; the strings it is applied to are kinds, directions and
  protocol names.\<close>

definition lower_char :: "char \<Rightarrow> char" where
  "lower_char c = (let n = (of_char c :: nat) in if 65 \<le> n \<and> n \<le> 90 then char_of (n + 32) else c)"

definition upper_char :: "char \<Rightarrow> char" where
  "upper_char c = (let n = (of_char c :: nat) in if 97 \<le> n \<and> n \<le> 122 then char_of (n - 32) else c)"

definition to_lower :: "string \<Rightarrow> string" where
  "to_lower s = map lower_char s"

definition to_upper :: "string \<Rightarrow> string" where
  "to_upper s = map upper_char s"

fun str_join :: "string list \<Rightarrow> string \<Rightarrow> string" where
  "str_join [] sep = []"
| "str_join [x] sep = x"
| "str_join (x # y # zs) sep = x @ sep @ str_join (y # zs) sep"

text \<open>The two parts around the last occurrence of a byte (\<open>strings.LastIndexByte\<close>), and
  \<open>net.SplitHostPort\<close>, whose several errors are one to the callers.\<close>

fun last_cut :: "char \<Rightarrow> string \<Rightarrow> (string \<times> string) option" where
  "last_cut c [] = None"
| "last_cut c (x # xs) =
     (case last_cut c xs of
        Some (b, a) \<Rightarrow> Some (x # b, a)
      | None \<Rightarrow> if x = c then Some ([], xs) else None)"

definition split_host_port :: "string \<Rightarrow> (string \<times> string) option" where
  "split_host_port s =
     (case last_cut CHR '':'' s of
        None \<Rightarrow> None
      | Some (b, p) \<Rightarrow>
          if hd s = CHR ''['' then
            (case str_cut CHR '']'' s of (h, rest, found) \<Rightarrow>
               if \<not> found \<or> rest \<noteq> CHR '':'' # p then None
               else if CHR ''['' \<in> set (tl s) \<or> CHR '']'' \<in> set p then None
               else Some (tl h, p))
          else if CHR '':'' \<in> set b \<or> CHR ''['' \<in> set s \<or> CHR '']'' \<in> set s then None
          else Some (b, p))"

subsection \<open>Decimal numerals\<close>

definition is_digit :: "char \<Rightarrow> bool" where
  "is_digit c \<longleftrightarrow> 48 \<le> (of_char c :: nat) \<and> (of_char c :: nat) \<le> 57"

definition digit_val :: "char \<Rightarrow> nat" where
  "digit_val c = of_char c - 48"

fun parse_digits :: "nat \<Rightarrow> string \<Rightarrow> nat option" where
  "parse_digits acc [] = Some acc"
| "parse_digits acc (c # cs) =
     (if is_digit c then parse_digits (10 * acc + digit_val c) cs else None)"

definition parse_uint :: "string \<Rightarrow> nat option" where
  "parse_uint s = (if s = [] then None else parse_digits 0 s)"

text \<open>\<open>strconv.ParseInt(s, 10, bits)\<close>: an optional sign, at least one digit, and the value in the
  range of a signed integer of that many bits. All its errors are one to the callers.\<close>

definition parse_int :: "nat \<Rightarrow> string \<Rightarrow> int option" where
  "parse_int bits s =
     (let neg = (s \<noteq> [] \<and> hd s = CHR ''-'');
          body = (if s \<noteq> [] \<and> (hd s = CHR ''-'' \<or> hd s = CHR ''+'') then tl s else s)
      in case parse_uint body of
           None \<Rightarrow> None
         | Some n \<Rightarrow>
             if neg then (if n \<le> 2 ^ (bits - 1) then Some (- int n) else None)
             else (if n < 2 ^ (bits - 1) then Some (int n) else None))"

fun fmt_nat :: "nat \<Rightarrow> string" where
  "fmt_nat n =
     (if n < 10 then [char_of (48 + n)] else fmt_nat (n div 10) @ [char_of (48 + n mod 10)])"

declare fmt_nat.simps [simp del]

text \<open>\<open>strconv.FormatInt(i, 10)\<close>.\<close>

definition fmt_int :: "int \<Rightarrow> string" where
  "fmt_int i = (if i < 0 then CHR ''-'' # fmt_nat (nat (- i)) else fmt_nat (nat i))"

subsection \<open>Slices and maps\<close>

text \<open>\<open>slices.SortStableFunc\<close> with a comparison that puts the later time first.\<close>

definition newest_first :: "('a \<Rightarrow> time) \<Rightarrow> 'a list \<Rightarrow> 'a list" where
  "newest_first t xs = sort_key (\<lambda>x. - t x) xs"

text \<open>The lookup \<open>m[k]\<close> of a Go map with string values: the empty string for a missing key.\<close>

definition map_get0 :: "('k \<times> string) list \<Rightarrow> 'k \<Rightarrow> string" where
  "map_get0 m k = (case map_of m k of None \<Rightarrow> [] | Some v \<Rightarrow> v)"

section \<open>Lemmas\<close>

subsection \<open>Integer lemmas\<close>

lemma wrap64_id: "- (2 ^ 63) \<le> i \<Longrightarrow> i < 2 ^ 63 \<Longrightarrow> wrap64 i = i"
  by (simp add: wrap64_def)

lemma go_rem_nonneg: "0 \<le> a \<Longrightarrow> 0 < b \<Longrightarrow> go_rem a b = a mod b"
  by (cases "a = 0") (auto simp: go_rem_def sgn_if)

subsection \<open>String lemmas\<close>

lemma str_cut_found: "str_cut c s = (b, a, True) \<Longrightarrow> s = b @ c # a \<and> c \<notin> set b"
  by (induction s arbitrary: b) (auto split: if_splits prod.splits)

lemma str_cut_not_found: "str_cut c s = (b, a, False) \<Longrightarrow> b = s \<and> a = [] \<and> c \<notin> set s"
  by (induction s arbitrary: b) (auto split: if_splits prod.splits)

lemma str_cut_append [go_string]: "c \<notin> set b \<Longrightarrow> str_cut c (b @ c # a) = (b, a, True)"
  by (induction b) auto

lemma str_cut_no_sep [go_string]: "c \<notin> set s \<Longrightarrow> str_cut c s = (s, [], False)"
  by (induction s) auto

lemma has_prefix_append [go_string]: "has_prefix (p @ s) p"
  by (simp add: has_prefix_def)

lemma has_prefix_iff: "has_prefix s p \<longleftrightarrow> (\<exists>r. s = p @ r)"
  unfolding has_prefix_def by (metis append_eq_conv_conj append_take_drop_id)

lemma has_suffix_append [go_string]: "has_suffix (s @ t) t"
  by (simp add: has_suffix_def)

lemma has_suffix_iff: "has_suffix s t \<longleftrightarrow> (\<exists>r. s = r @ t)"
proof
  assume "has_suffix s t"
  then show "\<exists>r. s = r @ t"
    unfolding has_suffix_def by (metis append_take_drop_id)
next
  assume "\<exists>r. s = r @ t"
  then show "has_suffix s t" by (auto simp: has_suffix_def)
qed

lemma trim_prefix_append [go_string]: "trim_prefix (p @ s) p = s"
  by (simp add: trim_prefix_def has_prefix_append)

lemma trim_suffix_append [go_string]: "trim_suffix (s @ t) t = s"
  by (simp add: trim_suffix_def has_suffix_append)

lemma cut_prefix_append [go_string]: "cut_prefix (p @ s) p = (s, True)"
  by (simp add: cut_prefix_def has_prefix_append)

lemma cut_prefix_found: "cut_prefix s p = (r, True) \<Longrightarrow> s = p @ r"
  by (auto simp: cut_prefix_def has_prefix_iff split: if_splits)

lemma cut_suffix_append [go_string]: "cut_suffix (s @ t) t = (s, True)"
  by (simp add: cut_suffix_def has_suffix_append)

lemma cut_suffix_found: "cut_suffix s t = (r, True) \<Longrightarrow> s = r @ t"
  by (auto simp: cut_suffix_def has_suffix_iff split: if_splits)

lemma last_cut_None: "last_cut c s = None \<longleftrightarrow> c \<notin> set s"
  by (induction s) (auto split: option.splits)

lemma last_cut_Some: "last_cut c s = Some (b, a) \<longleftrightarrow> s = b @ c # a \<and> c \<notin> set a"
proof (induction s arbitrary: a b)
  case (Cons x xs)
  show ?case
  proof (cases "last_cut c xs")
    case None
    then have "c \<notin> set xs" by (simp add: last_cut_None)
    with None show ?thesis by (auto simp: Cons_eq_append_conv)
  next
    case (Some q)
    obtain d e where q: "q = (d, e)" by (cases q)
    from Some q Cons.IH [of d e] have "xs = d @ c # e" "c \<notin> set e" by auto
    with Some q show ?thesis using Cons.IH by (auto simp: Cons_eq_append_conv)
  qed
qed simp

lemma split_host_port_plain:
  assumes "CHR '':'' \<notin> set host \<union> set port" and "CHR ''['' \<notin> set host \<union> set port" and "CHR '']'' \<notin> set host \<union> set port"
  shows "split_host_port (host @ '':'' @ port) = Some (host, port)"
proof -
  have "last_cut CHR '':'' (host @ CHR '':'' # port) = Some (host, port)"
    using assms(1) by (subst last_cut_Some) simp
  moreover have "hd (host @ CHR '':'' # port) \<noteq> CHR ''[''" using assms(2) by (cases host) auto
  ultimately show ?thesis using assms by (simp add: split_host_port_def)
qed

lemma split_host_port_bracketed:
  assumes "CHR ''['' \<notin> set host \<union> set port" and "CHR '']'' \<notin> set host \<union> set port" and "CHR '':'' \<notin> set port"
  shows "split_host_port (''['' @ host @ '']:'' @ port) = Some (host, port)"
proof -
  have "last_cut CHR '':'' ((''['' @ host @ '']'') @ CHR '':'' # port) = Some (''['' @ host @ '']'', port)"
    using assms(3) by (subst last_cut_Some) simp
  moreover have "str_cut CHR '']'' ((''['' @ host) @ CHR '']'' # (CHR '':'' # port)) = (''['' @ host, CHR '':'' # port, True)"
    by (rule str_cut_append) (use assms in auto)
  ultimately show ?thesis using assms by (simp add: split_host_port_def)
qed

subsection \<open>Numeral lemmas\<close>

lemma parse_digits_append:
  "parse_digits acc (xs @ ys) =
     (case parse_digits acc xs of None \<Rightarrow> None | Some a \<Rightarrow> parse_digits a ys)"
  by (induction xs arbitrary: acc) auto

lemma of_char_digit: "d < 10 \<Longrightarrow> (of_char (char_of (48 + d :: nat) :: char) :: nat) = 48 + d"
  by (simp add: of_char_of)

lemma digit_char: "d < 10 \<Longrightarrow> is_digit (char_of (48 + d)) \<and> digit_val (char_of (48 + d)) = d"
  by (simp add: is_digit_def digit_val_def of_char_digit)

lemma fmt_nat_nonempty [simp]: "fmt_nat n \<noteq> []"
  by (subst fmt_nat.simps) simp

lemma parse_digits_fmt_nat: "parse_digits 0 (fmt_nat n) = Some n"
proof (induction n rule: fmt_nat.induct)
  case (1 n)
  show ?case
  proof (cases "n < 10")
    case True
    then show ?thesis by (simp add: fmt_nat.simps [of n] digit_char)
  next
    case False
    have "n mod 10 < 10" by simp
    with False 1 show ?thesis
      by (simp add: fmt_nat.simps [of n] parse_digits_append digit_char)
  qed
qed

lemma fmt_nat_digits: "c \<in> set (fmt_nat n) \<Longrightarrow> is_digit c"
proof (induction n rule: fmt_nat.induct)
  case (1 n)
  have "n mod 10 < 10" by simp
  with 1 show ?case
    by (cases "n < 10") (auto simp: fmt_nat.simps [of n] digit_char)
qed

lemma not_digit_sign [simp]: "\<not> is_digit CHR ''-''" "\<not> is_digit CHR ''+''"
  by (simp_all add: is_digit_def)

lemma parse_uint_fmt_nat [simp]: "parse_uint (fmt_nat n) = Some n"
  by (simp add: parse_uint_def parse_digits_fmt_nat)

lemma fmt_nat_hd: "is_digit (hd (fmt_nat n))"
  by (rule fmt_nat_digits [where n = n]) simp

lemma parse_int_fmt_nat: "n < 2 ^ (bits - 1) \<Longrightarrow> parse_int bits (fmt_nat n) = Some (int n)"
proof -
  assume "n < 2 ^ (bits - 1)"
  moreover have "hd (fmt_nat n) \<noteq> CHR ''-''" "hd (fmt_nat n) \<noteq> CHR ''+''"
    using fmt_nat_hd [of n] by auto
  ultimately show ?thesis by (simp add: parse_int_def)
qed

lemma parse_int_fmt_int:
  assumes "- (2 ^ (bits - 1)) \<le> i" and "i < 2 ^ (bits - 1)"
  shows "parse_int bits (fmt_int i) = Some i"
proof (cases "i < 0")
  case True
  with assms have "nat (- i) \<le> 2 ^ (bits - 1)"
    by (simp add: nat_le_iff)
  with True show ?thesis by (simp add: fmt_int_def parse_int_def)
next
  case False
  with assms have "nat i < 2 ^ (bits - 1)"
    by (simp add: nat_less_iff)
  with False show ?thesis by (simp add: fmt_int_def parse_int_fmt_nat)
qed

lemma parse_int_range:
  "parse_int bits s = Some i \<Longrightarrow> - (2 ^ (bits - 1)) \<le> i \<and> i < 2 ^ (bits - 1)"
proof -
  assume "parse_int bits s = Some i"
  then obtain n :: nat where
    "(i = - int n \<and> n \<le> 2 ^ (bits - 1)) \<or> (i = int n \<and> n < 2 ^ (bits - 1))"
    by (auto simp: parse_int_def Let_def split: option.splits if_splits)
  then have "(i = - int n \<and> int n \<le> int (2 ^ (bits - 1))) \<or> (i = int n \<and> int n < int (2 ^ (bits - 1)))"
    by (simp only: of_nat_le_iff of_nat_less_iff)
  moreover have "(0 :: int) < 2 ^ (bits - 1)" and "int (2 ^ (bits - 1)) = 2 ^ (bits - 1)"
    by simp_all
  ultimately show ?thesis by (elim disjE conjE) linarith+
qed

lemma fmt_nat_inj: "fmt_nat m = fmt_nat n \<Longrightarrow> m = n"
  by (metis option.inject parse_digits_fmt_nat)

subsection \<open>Slices\<close>

lemma set_newest_first [simp]: "set (newest_first t xs) = set xs"
  by (simp add: newest_first_def)

lemma mset_newest_first [simp]: "mset (newest_first t xs) = mset xs"
  by (simp add: newest_first_def)

lemma length_newest_first [simp]: "length (newest_first t xs) = length xs"
  by (simp add: newest_first_def)

lemma distinct_map_newest_first [simp]: "distinct (map f (newest_first t xs)) \<longleftrightarrow> distinct (map f xs)"
proof -
  have "mset (map f (newest_first t xs)) = mset (map f xs)" by simp
  then show ?thesis by (metis mset_eq_imp_distinct_iff)
qed

lemma newest_first_sorted: "sorted_wrt (\<lambda>a b. t b \<le> t a) (newest_first t xs)"
proof -
  have "sorted (map (\<lambda>x. - t x) (newest_first t xs))"
    by (simp add: newest_first_def)
  then show ?thesis by (simp add: sorted_wrt_map)
qed

lemma newest_first_stable: "filter (\<lambda>y. t y = k) (newest_first t xs) = filter (\<lambda>y. t y = k) xs"
proof -
  have "filter (\<lambda>y. - t y = - k) (sort_key (\<lambda>x. - t x) xs) = filter (\<lambda>y. - t y = - k) xs"
    by (rule sort_key_stable)
  then show ?thesis by (simp add: newest_first_def)
qed

lemma sorted_wrt_take_filter:
  "sorted_wrt P xs \<Longrightarrow> sorted_wrt P (filter Q (take n xs))"
  by (simp add: sorted_wrt_take sorted_wrt_filter)

lemma distinct_map_take_filter:
  assumes "distinct (map f xs)"
  shows "distinct (map f (filter Q (take n xs)))"
  using assms by (metis distinct_map_filter distinct_take take_map)

text \<open>The elements a bounded newest-first list drops are no newer than those it keeps.\<close>

lemma sorted_wrt_take_drop:
  "sorted_wrt P xs \<Longrightarrow> x \<in> set (take n xs) \<Longrightarrow> y \<in> set (drop n xs) \<Longrightarrow> P x y"
  by (metis append_take_drop_id sorted_wrt_append)

subsection \<open>Maps\<close>

lemma map_get0_Some: "map_of m k = Some v \<Longrightarrow> map_get0 m k = v"
  by (simp add: map_get0_def)

lemma map_get0_update: "map_get0 (AList.update k v m) j = (if j = k then v else map_get0 m j)"
  by (simp add: map_get0_def update_conv')

end
