(* ===== verification/RingBuf.thy ===== *)
theory RingBuf
  imports Prelude
begin

text \<open>
  The thread-safe ring buffer of \<^verbatim>\<open>internal/ringbuf/buffer.go\<close>, which carries violation
  observations from the scrapers and the learning controller to the status sync. Every method
  holds the mutex from its first line to its return, so an execution is a sequence of whole
  calls. \<open>pos\<close> counts the records since the last drain in an \<open>int\<close>; an index out of range and a
  negative capacity given to \<open>make\<close> are panics, written \<open>None\<close>.

  The buffer is shown to implement a bounded newest-first list (locale \<open>bounded_recorder\<close>), which
  is all its clients use.
\<close>

section \<open>Model\<close>

definition maxBufferEntries :: int where
  "maxBufferEntries = 10000"

record 'a Buffer =
  buf :: "'a list"
  pos :: int
  capacity :: int

text \<open>\<open>make([]T, size)\<close> fills the slice with the zero value of the element type. That it panics for a
  size beyond the memory of the machine is not modelled.\<close>

definition NewWithSize :: "'a \<Rightarrow> int \<Rightarrow> 'a Buffer" where
  "NewWithSize zero sz =
     (let sz' = (if sz \<le> 0 then maxBufferEntries else sz)
      in \<lparr>buf = replicate (nat sz') zero, pos = 0, capacity = sz'\<rparr>)"

definition New :: "'a \<Rightarrow> 'a Buffer" where
  "New zero = NewWithSize zero maxBufferEntries"

text \<open>Reading and writing \<open>b.buf[i]\<close>.\<close>

definition buf_read :: "'a Buffer \<Rightarrow> int \<Rightarrow> 'a option" where
  "buf_read b i = (if 0 \<le> i \<and> i < int (length (buf b)) then Some (buf b ! nat i) else None)"

definition buf_write :: "'a Buffer \<Rightarrow> int \<Rightarrow> 'a \<Rightarrow> 'a Buffer option" where
  "buf_write b i x =
     (if 0 \<le> i \<and> i < int (length (buf b)) then Some (b\<lparr>buf := (buf b)[nat i := x]\<rparr>) else None)"

definition Record :: "'a Buffer \<Rightarrow> 'a \<Rightarrow> (bool \<times> 'a Buffer) option" where
  "Record b x =
     (let dropped = (pos b \<ge> capacity b)
      in if capacity b = 0 then None
         else case buf_write b (go_rem (pos b) (capacity b)) x of
                None \<Rightarrow> None
              | Some b' \<Rightarrow> Some (dropped, b'\<lparr>pos := wrap64 (pos b' + 1)\<rparr>))"

definition Drain :: "'a Buffer \<Rightarrow> ('a list \<times> 'a Buffer) option" where
  "Drain b =
     (let n = min (pos b) (capacity b)
      in if n = 0 then Some ([], b)
         else if n < 0 then None
         else case those (map (\<lambda>i. buf_read b (go_rem (pos b - 1 - int i) (capacity b))) [0..<nat n]) of
                None \<Rightarrow> None
              | Some records \<Rightarrow> Some (records, b\<lparr>pos := 0\<rparr>))"

text \<open>A run of calls to \<open>Record\<close>.\<close>

fun record_all :: "'a Buffer \<Rightarrow> 'a list \<Rightarrow> 'a Buffer option" where
  "record_all b [] = Some b"
| "record_all b (x # xs) =
     (case Record b x of None \<Rightarrow> None | Some (_, b') \<Rightarrow> record_all b' xs)"

text \<open>A history of calls by the recorders and the drainer, in the order they get the mutex, with what
  each call returns.\<close>

datatype 'a call = CallRecord 'a | CallDrain

datatype 'a ret = Dropped bool | Drained "'a list"

fun run_calls :: "'a Buffer \<Rightarrow> 'a call list \<Rightarrow> 'a ret list option" where
  "run_calls b [] = Some []"
| "run_calls b (CallRecord x # cs) =
     (case Record b x of
        None \<Rightarrow> None
      | Some (dropped, b') \<Rightarrow> map_option (Cons (Dropped dropped)) (run_calls b' cs))"
| "run_calls b (CallDrain # cs) =
     (case Drain b of
        None \<Rightarrow> None
      | Some (records, b') \<Rightarrow> map_option (Cons (Drained records)) (run_calls b' cs))"

text \<open>The specification: a newest-first list of at most \<open>k\<close> elements.\<close>

fun spec_calls :: "nat \<Rightarrow> 'a list \<Rightarrow> 'a call list \<Rightarrow> 'a ret list" where
  "spec_calls k l [] = []"
| "spec_calls k l (CallRecord x # cs) = Dropped (length l = k) # spec_calls k (take k (x # l)) cs"
| "spec_calls k l (CallDrain # cs) = Drained l # spec_calls k [] cs"

section \<open>Abstraction\<close>

definition rb_inv :: "'a Buffer \<Rightarrow> bool" where
  "rb_inv b \<longleftrightarrow> 0 < capacity b \<and> int (length (buf b)) = capacity b \<and> 0 \<le> pos b \<and> pos b < 2 ^ 63"

text \<open>How many records fit before the 64-bit counter would wrap.\<close>

definition rb_room :: "'a Buffer \<Rightarrow> nat" where
  "rb_room b = nat (2 ^ 63 - 1 - pos b)"

definition rb_contents :: "'a Buffer \<Rightarrow> 'a list" where
  "rb_contents b =
     map (\<lambda>i. buf b ! nat ((pos b - 1 - int i) mod capacity b)) [0..<nat (min (pos b) (capacity b))]"

section \<open>The contract of a bounded recorder\<close>

locale bounded_recorder =
  fixes rec1 :: "'b \<Rightarrow> 'a \<Rightarrow> (bool \<times> 'b) option"
    and drain :: "'b \<Rightarrow> ('a list \<times> 'b) option"
    and inv :: "'b \<Rightarrow> bool"
    and view :: "'b \<Rightarrow> 'a list"
    and cap :: "'b \<Rightarrow> nat"
    and room :: "'b \<Rightarrow> nat"
  assumes rec1_ok: "inv b \<Longrightarrow> 0 < room b \<Longrightarrow>
      \<exists>b'. rec1 b x = Some (length (view b) = cap b, b') \<and> inv b' \<and> cap b' = cap b \<and>
           view b' = take (cap b) (x # view b) \<and> room b' = room b - 1"
    and drain_ok: "inv b \<Longrightarrow>
      \<exists>b'. drain b = Some (view b, b') \<and> inv b' \<and> cap b' = cap b \<and> view b' = [] \<and> room b \<le> room b'"
    and view_bounded: "inv b \<Longrightarrow> length (view b) \<le> cap b"
begin

fun rec_all :: "'b \<Rightarrow> 'a list \<Rightarrow> 'b option" where
  "rec_all b [] = Some b"
| "rec_all b (x # xs) = (case rec1 b x of None \<Rightarrow> None | Some (_, b') \<Rightarrow> rec_all b' xs)"

lemma rec_all_ok:
  assumes "inv b" and "length xs \<le> room b"
  shows "\<exists>b'. rec_all b xs = Some b' \<and> inv b' \<and> cap b' = cap b \<and>
              view b' = take (cap b) (rev xs @ view b) \<and> room b' = room b - length xs"
  using assms
proof (induction xs arbitrary: b)
  case Nil
  then show ?case using view_bounded [of b] by simp
next
  case (Cons x xs)
  from Cons.prems obtain c where c: "rec1 b x = Some (length (view b) = cap b, c)" "inv c"
      "cap c = cap b" "view c = take (cap b) (x # view b)" "room c = room b - 1"
    using rec1_ok [of b x] by fastforce
  from Cons.prems c have "length xs \<le> room c" by simp
  with Cons.IH [OF \<open>inv c\<close>] obtain d where d: "rec_all c xs = Some d" "inv d" "cap d = cap c"
      "view d = take (cap c) (rev xs @ view c)" "room d = room c - length xs"
    by blast
  have "take (cap b) (rev xs @ take (cap b) (x # view b)) = take (cap b) (rev (x # xs) @ view b)"
    by simp
  with c d show ?case by auto
qed

lemma drain_after:
  assumes "inv b" and "view b = []" and "length xs \<le> room b"
  shows "\<exists>c d. rec_all b xs = Some c \<and> drain c = Some (take (cap b) (rev xs), d) \<and> inv d \<and>
               cap d = cap b \<and> view d = []"
proof -
  from rec_all_ok [OF assms(1,3)] assms(2) obtain c where
    c: "rec_all b xs = Some c" "inv c" "cap c = cap b" "view c = take (cap b) (rev xs)"
    by auto
  from drain_ok [OF \<open>inv c\<close>] c show ?thesis by auto
qed

fun run :: "'b \<Rightarrow> 'a call list \<Rightarrow> 'a ret list option" where
  "run b [] = Some []"
| "run b (CallRecord x # cs) =
     (case rec1 b x of None \<Rightarrow> None | Some (d, b') \<Rightarrow> map_option (Cons (Dropped d)) (run b' cs))"
| "run b (CallDrain # cs) =
     (case drain b of None \<Rightarrow> None | Some (xs, b') \<Rightarrow> map_option (Cons (Drained xs)) (run b' cs))"

lemma run_refines:
  "inv b \<Longrightarrow> length cs \<le> room b \<Longrightarrow> run b cs = Some (spec_calls (cap b) (view b) cs)"
proof (induction cs arbitrary: b)
  case Nil
  then show ?case by simp
next
  case (Cons c cs)
  show ?case
  proof (cases c)
    case (CallRecord x)
    from Cons.prems rec1_ok [of b x] obtain b' where b': "rec1 b x = Some (length (view b) = cap b, b')"
      "inv b'" "cap b' = cap b" "view b' = take (cap b) (x # view b)" "room b' = room b - 1" by fastforce
    with Cons.prems Cons.IH [of b'] CallRecord show ?thesis by simp
  next
    case CallDrain
    from Cons.prems drain_ok [of b] obtain b' where b': "drain b = Some (view b, b')"
      "inv b'" "cap b' = cap b" "view b' = []" "room b \<le> room b'" by blast
    with Cons.prems Cons.IH [of b'] CallDrain show ?thesis by simp
  qed
qed

end

section \<open>The ring buffer implements the contract\<close>

lemma those_map_Some: "(\<And>x. x \<in> set xs \<Longrightarrow> f x = Some (g x)) \<Longrightarrow> those (map f xs) = Some (map g xs)"
  by (induction xs) auto

lemma length_rb_contents: "length (rb_contents b) = nat (min (pos b) (capacity b))"
  by (simp add: rb_contents_def)

lemma rb_contents_nth:
  "i < nat (min (pos b) (capacity b)) \<Longrightarrow>
     rb_contents b ! i = buf b ! nat ((pos b - 1 - int i) mod capacity b)"
  by (simp add: rb_contents_def)

lemma mod_neq_near:
  fixes p c :: int
  assumes "0 < c" and "0 \<le> i" and "i + 1 < c"
  shows "(p - 1 - i) mod c \<noteq> p mod c"
proof
  assume "(p - 1 - i) mod c = p mod c"
  then have "c dvd (1 + i)"
    by (metis add_diff_cancel_left' diff_diff_eq2 diff_zero dvd_minus_iff minus_diff_eq mod_eq_dvd_iff
        add.commute diff_diff_add)
  with assms show False using zdvd_imp_le [of c "1 + i"] by simp
qed

lemma Record_ok:
  assumes inv: "rb_inv b" and room: "0 < rb_room b"
  shows "\<exists>b'. Record b x = Some (length (rb_contents b) = nat (capacity b), b') \<and> rb_inv b' \<and>
      nat (capacity b') = nat (capacity b) \<and>
      rb_contents b' = take (nat (capacity b)) (x # rb_contents b) \<and> rb_room b' = rb_room b - 1"
proof -
  let ?c = "capacity b" and ?p = "pos b"
  let ?i = "nat (?p mod ?c)"
  define b' where "b' = b\<lparr>buf := (buf b)[?i := x], pos := ?p + 1\<rparr>"
  from inv room have c: "0 < ?c" "int (length (buf b)) = ?c" "0 \<le> ?p" "?p + 1 < 2 ^ 63"
    by (auto simp: rb_inv_def rb_room_def)
  then have i: "?i < length (buf b)" by (simp add: nat_less_iff)
  have rec: "Record b x = Some (?p \<ge> ?c, b')"
    using c i by (simp add: Record_def buf_write_def go_rem_nonneg wrap64_id b'_def Let_def)
  have "rb_contents b' = take (nat ?c) (x # rb_contents b)"
  proof (rule nth_equalityI)
    show "length (rb_contents b') = length (take (nat ?c) (x # rb_contents b))"
      using c by (simp add: length_rb_contents b'_def)
  next
    fix k assume "k < length (rb_contents b')"
    then have k: "k < nat (min (?p + 1) ?c)" by (simp add: length_rb_contents b'_def)
    then have *: "rb_contents b' ! k = (buf b)[?i := x] ! nat ((?p - int k) mod ?c)"
      using rb_contents_nth [of k b'] by (simp add: b'_def)
    show "rb_contents b' ! k = take (nat ?c) (x # rb_contents b) ! k"
    proof (cases k)
      case 0
      with * i c show ?thesis by simp
    next
      case (Suc j)
      with k c have "(?p - 1 - int j) mod ?c \<noteq> ?p mod ?c"
        by (intro mod_neq_near) auto
      then have "nat ((?p - 1 - int j) mod ?c) \<noteq> ?i" using c by (simp add: eq_nat_nat_iff)
      moreover have "j < nat (min ?p ?c)" using k Suc by auto
      ultimately show ?thesis using * Suc k c rb_contents_nth [of j b]
        by (simp add: algebra_simps)
    qed
  qed
  moreover have "(?p \<ge> ?c) = (length (rb_contents b) = nat ?c)"
    using c by (auto simp: length_rb_contents)
  moreover have "rb_inv b'" using c by (simp add: rb_inv_def b'_def)
  moreover have "rb_room b' = rb_room b - 1" using c by (simp add: rb_room_def b'_def nat_diff_distrib')
  ultimately show ?thesis using rec by (auto simp: b'_def)
qed

lemma Drain_ok:
  assumes inv: "rb_inv b"
  shows "\<exists>b'. Drain b = Some (rb_contents b, b') \<and> rb_inv b' \<and> nat (capacity b') = nat (capacity b) \<and>
      rb_contents b' = [] \<and> rb_room b \<le> rb_room b'"
proof (cases "pos b = 0")
  case True
  with inv show ?thesis by (auto simp: Drain_def rb_contents_def rb_inv_def)
next
  case False
  let ?n = "min (pos b) (capacity b)"
  from inv False have c: "0 < capacity b" "int (length (buf b)) = capacity b" "0 < pos b" "0 < ?n"
    by (auto simp: rb_inv_def)
  have "those (map (\<lambda>i. buf_read b (go_rem (pos b - 1 - int i) (capacity b))) [0..<nat ?n]) =
        Some (rb_contents b)"
    unfolding rb_contents_def using c by (intro those_map_Some) (auto simp: buf_read_def go_rem_nonneg)
  with c have "Drain b = Some (rb_contents b, b\<lparr>pos := 0\<rparr>)" by (auto simp: Drain_def Let_def min_def)
  with inv show ?thesis by (auto simp: rb_inv_def rb_contents_def rb_room_def)
qed

interpretation ring: bounded_recorder Record Drain rb_inv rb_contents "\<lambda>b. nat (capacity b)" rb_room
proof unfold_locales
  fix b :: "'a Buffer" and x
  show "rb_inv b \<Longrightarrow> 0 < rb_room b \<Longrightarrow>
    \<exists>b'. Record b x = Some (length (rb_contents b) = nat (capacity b), b') \<and> rb_inv b' \<and>
      nat (capacity b') = nat (capacity b) \<and> rb_contents b' = take (nat (capacity b)) (x # rb_contents b) \<and>
      rb_room b' = rb_room b - 1"
    by (rule Record_ok)
  show "rb_inv b \<Longrightarrow> \<exists>b'. Drain b = Some (rb_contents b, b') \<and> rb_inv b' \<and>
      nat (capacity b') = nat (capacity b) \<and> rb_contents b' = [] \<and> rb_room b \<le> rb_room b'"
    by (rule Drain_ok)
  show "rb_inv b \<Longrightarrow> length (rb_contents b) \<le> nat (capacity b)"
    by (simp add: length_rb_contents)
qed

lemma record_all_eq: "record_all b xs = ring.rec_all b xs"
  by (induction xs arbitrary: b) (auto split: option.splits)

lemma run_calls_eq: "run_calls b cs = ring.run b cs"
  by (induction b cs rule: run_calls.induct) (auto split: option.splits)

definition effective_size :: "int \<Rightarrow> nat" where
  "effective_size sz = nat (if sz \<le> 0 then maxBufferEntries else sz)"

lemma NewWithSize_inv:
  "sz < 2 ^ 63 \<Longrightarrow> rb_inv (NewWithSize z sz) \<and> rb_contents (NewWithSize z sz) = [] \<and>
     nat (capacity (NewWithSize z sz)) = effective_size sz \<and> rb_room (NewWithSize z sz) = 2 ^ 63 - 1"
  by (auto simp: NewWithSize_def rb_inv_def rb_contents_def rb_room_def effective_size_def maxBufferEntries_def
      Let_def)

section \<open>Properties\<close>

text \<open>C34. Every history of fewer than \<open>2 ^ 63\<close> calls on a fresh buffer runs without a panic and returns,
  call by call, what a bounded newest-first list returns: \<open>Record\<close> reports a drop exactly when the list
  is full, the newest records survive, and \<open>Drain\<close> hands over everything and empties the buffer.\<close>

theorem ring_buffer_refines:
  assumes "sz < 2 ^ 63" and "length cs < 2 ^ 63"
  shows "run_calls (NewWithSize z sz) cs = Some (spec_calls (effective_size sz) [] cs)"
  using assms NewWithSize_inv [of sz z] ring.run_refines [of "NewWithSize z sz" cs]
  by (simp add: run_calls_eq)

theorem ring_buffer_refines_witness:
  "run_calls (NewWithSize (0 :: int) 2) [CallRecord 7, CallRecord 8, CallRecord 9, CallDrain, CallDrain] =
     Some [Dropped False, Dropped False, Dropped True, Drained [9, 8], Drained []]"
  by (subst ring_buffer_refines) (simp_all add: effective_size_def)

text \<open>Draining after any number of records below \<open>2 ^ 63\<close> yields the last records, newest first, at
  most as many as the buffer was made for, and a second drain yields nothing.\<close>

lemma ring_buffer_drain_newest:
  assumes "sz < 2 ^ 63" and "length xs < 2 ^ 63"
  shows "\<exists>b c. record_all (NewWithSize z sz) xs = Some b \<and>
           Drain b = Some (take (effective_size sz) (rev xs), c) \<and> Drain c = Some ([], c)"
proof -
  from assms NewWithSize_inv [of sz z] obtain b c where
    b: "record_all (NewWithSize z sz) xs = Some b" "Drain b = Some (take (effective_size sz) (rev xs), c)"
      "rb_inv c" "rb_contents c = []"
    using ring.drain_after [of "NewWithSize z sz" xs] by (auto simp: record_all_eq)
  from b(3,4) have "min (pos c) (capacity c) = 0"
    by (auto simp: rb_contents_def rb_inv_def)
  then have "Drain c = Some ([], c)" by (simp add: Drain_def)
  with b show ?thesis by blast
qed

lemma ring_buffer_drain_newest_witness:
  "\<exists>b c. record_all (NewWithSize (0 :: int) 2) [7, 8, 9] = Some b \<and> Drain b = Some ([9, 8], c) \<and>
     Drain c = Some ([], c)"
  using ring_buffer_drain_newest [of 2 "[7, 8, 9]" "0 :: int"] by (simp add: effective_size_def)

end
