(* ===== verification/ApiTypes.thy ===== *)
theory ApiTypes
  imports Prelude
begin

text \<open>
  The data model: the custom resources of \<^verbatim>\<open>api/v1alpha1\<close> and the part of the Kubernetes API
  objects that the program reads or writes, with the small methods of the API types. Enumerations
  of the source are Go string types and stay strings here, so a value outside the enumeration can
  be written down, as it can in the program.
\<close>

section \<open>Kubernetes objects\<close>

type_synonym PolicyType = string
type_synonym Protocol = string
type_synonym UID = string

definition PolicyTypeIngress :: PolicyType where [simp]: "PolicyTypeIngress = ''Ingress''"
definition PolicyTypeEgress :: PolicyType where [simp]: "PolicyTypeEgress = ''Egress''"
definition ProtocolTCP :: Protocol where [simp]: "ProtocolTCP = ''TCP''"
definition ProtocolUDP :: Protocol where [simp]: "ProtocolUDP = ''UDP''"
definition LabelMetadataName :: string where "LabelMetadataName = ''kubernetes.io/metadata.name''"

record LabelSelectorRequirement =
  lsr_Key :: string
  lsr_Operator :: string
  lsr_Values :: "string list"

record LabelSelector =
  MatchLabels :: strmap
  MatchExpressions :: "LabelSelectorRequirement list"

definition empty_selector :: LabelSelector where
  "empty_selector = \<lparr>MatchLabels = [], MatchExpressions = []\<rparr>"

record IPBlock =
  CIDR :: string
  Except :: "string list"

record NetworkPolicyPeer =
  npp_PodSelector :: "LabelSelector option"
  npp_NamespaceSelector :: "LabelSelector option"
  npp_IPBlock :: "IPBlock option"

datatype IntOrString = FromInt32 int32 | FromString string

record NetworkPolicyPort =
  port_Protocol :: "Protocol option"
  port_Port :: "IntOrString option"
  port_EndPort :: "int32 option"

record NetworkPolicyEgressRule =
  To :: "NetworkPolicyPeer list"
  egress_Ports :: "NetworkPolicyPort list"

record NetworkPolicyIngressRule =
  From :: "NetworkPolicyPeer list"
  ingress_Ports :: "NetworkPolicyPort list"

record NetworkPolicySpec =
  PodSelector :: LabelSelector
  Ingress :: "NetworkPolicyIngressRule list"
  Egress :: "NetworkPolicyEgressRule list"
  PolicyTypes :: "PolicyType list"

definition empty_np_spec :: NetworkPolicySpec where
  "empty_np_spec = \<lparr>PodSelector = empty_selector, Ingress = [], Egress = [], PolicyTypes = []\<rparr>"

record NamespacedName =
  nn_Namespace :: string
  nn_Name :: string

definition nn_zero :: NamespacedName where
  "nn_zero = \<lparr>nn_Namespace = [], nn_Name = []\<rparr>"

record OwnerReference =
  or_APIVersion :: string
  or_Kind :: string
  or_Name :: string
  or_UID :: UID
  or_Controller :: "bool option"
  or_BlockOwnerDeletion :: "bool option"

text \<open>\<open>CreationTimestamp\<close> and \<open>DeletionTimestamp\<close> are \<open>None\<close> when zero or nil.\<close>

record ObjectMeta =
  om_Name :: string
  om_GenerateName :: string
  om_Namespace :: string
  om_UID :: UID
  om_Generation :: int64
  om_CreationTimestamp :: "time option"
  om_DeletionTimestamp :: "time option"
  om_Labels :: strmap
  om_Annotations :: strmap
  om_OwnerReferences :: "OwnerReference list"

definition meta_named :: "string \<Rightarrow> string \<Rightarrow> ObjectMeta" where
  "meta_named ns n =
     \<lparr>om_Name = n, om_GenerateName = [], om_Namespace = ns, om_UID = [], om_Generation = 0,
      om_CreationTimestamp = None, om_DeletionTimestamp = None, om_Labels = [], om_Annotations = [],
      om_OwnerReferences = []\<rparr>"

definition meta_key :: "ObjectMeta \<Rightarrow> NamespacedName" where
  "meta_key m = \<lparr>nn_Namespace = om_Namespace m, nn_Name = om_Name m\<rparr>"

datatype ConditionStatus = ConditionTrue | ConditionFalse | ConditionUnknown

text \<open>A condition without \<open>LastTransitionTime\<close>, which \<open>meta.SetStatusCondition\<close> maintains and no code of the program reads.\<close>

record Condition =
  cond_Type :: string
  cond_Status :: "ConditionStatus option"
  cond_ObservedGeneration :: int64
  cond_Reason :: string
  cond_Message :: string

definition zero_condition :: Condition where
  "zero_condition = \<lparr>cond_Type = [], cond_Status = None, cond_ObservedGeneration = 0,
     cond_Reason = [], cond_Message = []\<rparr>"

section \<open>Constants of the API group\<close>

record GroupVersionInfo =
  gv_Group :: string
  gv_Version :: string

definition GroupVersion :: GroupVersionInfo where
  "GroupVersion = \<lparr>gv_Group = ''networkenforcer.kubewarden.io'', gv_Version = ''v1alpha1''\<rparr>"

definition gv_String :: "GroupVersionInfo \<Rightarrow> string" where
  "gv_String gv = gv_Group gv @ ''/'' @ gv_Version gv"

definition WorkloadNetworkPolicyKind :: string where
  "WorkloadNetworkPolicyKind = ''WorkloadNetworkPolicy''"

definition WorkloadNetworkPolicyProposalKind :: string where
  "WorkloadNetworkPolicyProposalKind = ''WorkloadNetworkPolicyProposal''"

definition ProposalPromoteLabelKey :: string where
  "ProposalPromoteLabelKey = ''networkenforcer.kubewarden.io/promote''"

definition PolicyPromotedFromLabelKey :: string where
  "PolicyPromotedFromLabelKey = ''networkenforcer.kubewarden.io/promoted-from''"

definition ViolationAcknowledgePrefix :: string where
  "ViolationAcknowledgePrefix = ''networkenforcer.kubewarden.io/acknowledge-''"

definition ManagedByLabelKey :: string where
  "ManagedByLabelKey = ''app.kubernetes.io/managed-by''"

definition ManagedByLabelValue :: string where
  "ManagedByLabelValue = ''network-enforcer''"

section \<open>Workload references\<close>

type_synonym WorkloadKind = string

definition WorkloadKindDeployment :: WorkloadKind where [simp]: "WorkloadKindDeployment = ''Deployment''"
definition WorkloadKindStatefulSet :: WorkloadKind where [simp]: "WorkloadKindStatefulSet = ''StatefulSet''"
definition WorkloadKindDaemonSet :: WorkloadKind where [simp]: "WorkloadKindDaemonSet = ''DaemonSet''"
definition WorkloadKindReplicaSet :: WorkloadKind where [simp]: "WorkloadKindReplicaSet = ''ReplicaSet''"
definition WorkloadKindPod :: WorkloadKind where [simp]: "WorkloadKindPod = ''Pod''"

record WorkloadRef =
  wr_Namespace :: string
  wr_OwnerKind :: WorkloadKind
  wr_OwnerName :: string
  wr_Identity :: string
  wr_Selector :: LabelSelector

definition wr_zero :: WorkloadRef where
  "wr_zero = \<lparr>wr_Namespace = [], wr_OwnerKind = [], wr_OwnerName = [], wr_Identity = [],
     wr_Selector = empty_selector\<rparr>"

definition IsSupported :: "WorkloadRef \<Rightarrow> bool" where
  "IsSupported r \<longleftrightarrow>
     wr_OwnerKind r \<in> {WorkloadKindDeployment, WorkloadKindStatefulSet, WorkloadKindDaemonSet}"

record WorkloadTargetRef =
  tr_Kind :: WorkloadKind
  tr_Name :: string

record WorkloadTargetingSpec =
  TargetRef :: WorkloadTargetRef
  Direction :: PolicyType

definition spiffeIdentity :: "string \<Rightarrow> string \<Rightarrow> string" where
  "spiffeIdentity ns serviceAccount =
     (let istioTrustDomain = ''cluster.local'';
          defaultServiceAccountName = ''default'';
          sa = (if serviceAccount = [] then defaultServiceAccountName else serviceAccount)
      in istioTrustDomain @ ''/ns/'' @ ns @ ''/sa/'' @ sa)"

definition SetIdentity :: "WorkloadRef \<Rightarrow> string \<Rightarrow> WorkloadRef" where
  "SetIdentity r serviceAccountName =
     r\<lparr>wr_Identity := spiffeIdentity (wr_Namespace r) serviceAccountName\<rparr>"

section \<open>Backend specifications\<close>

type_synonym PolicyBackend = string

definition PolicyBackendKubernetes :: PolicyBackend where [simp]: "PolicyBackendKubernetes = ''kubernetes''"
definition PolicyBackendIstio :: PolicyBackend where [simp]: "PolicyBackendIstio = ''istio''"

record IstioSource = Principals :: "string list"
record IstioFrom = Source :: IstioSource
record IstioOperation = Ports :: "string list"
record IstioTo = Operation :: IstioOperation

record IstioAuthorizationPolicyRule =
  rule_From :: "IstioFrom list"
  rule_To :: "IstioTo list"

record IstioAuthorizationPolicySpec =
  Selector :: LabelSelector
  Rules :: "IstioAuthorizationPolicyRule list"

record PolicyBackendSpec =
  Backend :: PolicyBackend
  Kubernetes :: "NetworkPolicySpec option"
  Istio :: "IstioAuthorizationPolicySpec option"

definition IsKubernetesBackend :: "PolicyBackendSpec \<Rightarrow> bool" where
  "IsKubernetesBackend s \<longleftrightarrow> Backend s = PolicyBackendKubernetes"

section \<open>Violations\<close>

type_synonym WorkloadNetworkPolicyMode = string

definition WorkloadNetworkPolicyModeMonitor :: WorkloadNetworkPolicyMode where [simp]:
  "WorkloadNetworkPolicyModeMonitor = ''monitor''"
definition WorkloadNetworkPolicyModeProtect :: WorkloadNetworkPolicyMode where [simp]:
  "WorkloadNetworkPolicyModeProtect = ''protect''"

record ViolationInfo =
  Timestamp :: time
  vi_Source :: WorkloadRef
  Dest :: WorkloadRef
  vi_Protocol :: Protocol
  DstPort :: int32
  Action :: WorkloadNetworkPolicyMode
  DenyingPolicyNamespace :: string
  DenyingPolicyName :: string

record ViolationRecord =
  Info :: ViolationInfo
  ID :: int64

record AcknowledgedViolationRecord =
  Violation :: ViolationRecord
  Reason :: string
  AcknowledgedAt :: time

section \<open>WorkloadNetworkPolicy\<close>

record WorkloadNetworkPolicySpec =
  spec_Backend :: PolicyBackendSpec
  spec_Targeting :: WorkloadTargetingSpec
  spec_Mode :: WorkloadNetworkPolicyMode

record WorkloadNetworkPolicyStatus =
  Conditions :: "Condition list"
  ObservedGeneration :: int64
  ViolationCount :: int64
  ActiveViolationCount :: int64
  Violations :: "ViolationRecord list"
  AcknowledgedViolations :: "AcknowledgedViolationRecord list"

record WorkloadNetworkPolicy =
  wnp_Meta :: ObjectMeta
  wnp_Spec :: WorkloadNetworkPolicySpec
  wnp_Status :: WorkloadNetworkPolicyStatus

abbreviation wnp_Name :: "WorkloadNetworkPolicy \<Rightarrow> string" where
  "wnp_Name w \<equiv> om_Name (wnp_Meta w)"
abbreviation wnp_Namespace :: "WorkloadNetworkPolicy \<Rightarrow> string" where
  "wnp_Namespace w \<equiv> om_Namespace (wnp_Meta w)"
abbreviation wnp_TargetRef :: "WorkloadNetworkPolicy \<Rightarrow> WorkloadTargetRef" where
  "wnp_TargetRef w \<equiv> TargetRef (spec_Targeting (wnp_Spec w))"
abbreviation wnp_Direction :: "WorkloadNetworkPolicy \<Rightarrow> PolicyType" where
  "wnp_Direction w \<equiv> Direction (spec_Targeting (wnp_Spec w))"
abbreviation wnp_Backend :: "WorkloadNetworkPolicy \<Rightarrow> PolicyBackendSpec" where
  "wnp_Backend w \<equiv> spec_Backend (wnp_Spec w)"
abbreviation wnp_Mode :: "WorkloadNetworkPolicy \<Rightarrow> WorkloadNetworkPolicyMode" where
  "wnp_Mode w \<equiv> spec_Mode (wnp_Spec w)"

definition empty_status :: WorkloadNetworkPolicyStatus where
  "empty_status = \<lparr>Conditions = [], ObservedGeneration = 0, ViolationCount = 0,
     ActiveViolationCount = 0, Violations = [], AcknowledgedViolations = []\<rparr>"

text \<open>The methods with a pointer receiver test it for nil: a nil policy is \<open>None\<close>.\<close>

definition wnp_NamespacedName :: "WorkloadNetworkPolicy option \<Rightarrow> NamespacedName" where
  "wnp_NamespacedName w = (case w of None \<Rightarrow> nn_zero | Some p \<Rightarrow> meta_key (wnp_Meta p))"

datatype ApiError =
    NilPolicy
  | ProposalNameTooLong string
  | NilKubernetesBackend
  | NilIstioBackend
  | UnsupportedBackend PolicyBackend

definition maxLabelValueLength :: nat where
  "maxLabelValueLength = 63"

definition SetPromotedLabel ::
    "WorkloadNetworkPolicy option \<Rightarrow> string \<Rightarrow> ApiError + WorkloadNetworkPolicy" where
  "SetPromotedLabel w proposalName =
     (case w of
        None \<Rightarrow> Inl NilPolicy
      | Some p \<Rightarrow>
          if length proposalName > maxLabelValueLength then Inl (ProposalNameTooLong proposalName)
          else Inr (p\<lparr>wnp_Meta := (wnp_Meta p)\<lparr>om_Labels :=
                   AList.update PolicyPromotedFromLabelKey proposalName (om_Labels (wnp_Meta p))\<rparr>\<rparr>))"

definition HasPromotedLabel :: "WorkloadNetworkPolicy option \<Rightarrow> string \<Rightarrow> bool" where
  "HasPromotedLabel w proposalName =
     (case w of
        None \<Rightarrow> False
      | Some p \<Rightarrow> map_get0 (om_Labels (wnp_Meta p)) PolicyPromotedFromLabelKey = proposalName)"

definition GetSelector :: "WorkloadNetworkPolicySpec option \<Rightarrow> ApiError + LabelSelector" where
  "GetSelector s =
     (case s of
        None \<Rightarrow> Inl NilPolicy
      | Some w \<Rightarrow>
          let b = spec_Backend w in
          if Backend b = PolicyBackendKubernetes then
            (case Kubernetes b of None \<Rightarrow> Inl NilKubernetesBackend | Some k \<Rightarrow> Inr (PodSelector k))
          else if Backend b = PolicyBackendIstio then
            (case Istio b of None \<Rightarrow> Inl NilIstioBackend | Some i \<Rightarrow> Inr (Selector i))
          else Inl (UnsupportedBackend (Backend b)))"

section \<open>WorkloadNetworkPolicyProposal\<close>

record WorkloadNetworkPolicyProposalSpec =
  pspec_Backend :: PolicyBackendSpec
  pspec_Targeting :: WorkloadTargetingSpec

record WorkloadNetworkPolicyProposal =
  wnpp_Meta :: ObjectMeta
  wnpp_Spec :: WorkloadNetworkPolicyProposalSpec
  wnpp_Conditions :: "Condition list"

abbreviation wnpp_Name :: "WorkloadNetworkPolicyProposal \<Rightarrow> string" where
  "wnpp_Name p \<equiv> om_Name (wnpp_Meta p)"
abbreviation wnpp_Namespace :: "WorkloadNetworkPolicyProposal \<Rightarrow> string" where
  "wnpp_Namespace p \<equiv> om_Namespace (wnpp_Meta p)"

definition wnpp_NamespacedName :: "WorkloadNetworkPolicyProposal option \<Rightarrow> NamespacedName" where
  "wnpp_NamespacedName p = (case p of None \<Rightarrow> nn_zero | Some q \<Rightarrow> meta_key (wnpp_Meta q))"

definition SetPromotionLabel ::
    "WorkloadNetworkPolicyProposal option \<Rightarrow> WorkloadNetworkPolicyMode \<Rightarrow>
     WorkloadNetworkPolicyProposal option" where
  "SetPromotionLabel p mode =
     map_option (\<lambda>q. q\<lparr>wnpp_Meta := (wnpp_Meta q)\<lparr>om_Labels :=
       AList.update ProposalPromoteLabelKey mode (om_Labels (wnpp_Meta q))\<rparr>\<rparr>) p"

definition HasPromotionLabel ::
    "WorkloadNetworkPolicyProposal option \<Rightarrow> WorkloadNetworkPolicyMode \<times> bool" where
  "HasPromotionLabel p =
     (case p of
        None \<Rightarrow> ([], False)
      | Some q \<Rightarrow>
          (case map_of (om_Labels (wnpp_Meta q)) ProposalPromoteLabelKey of
             None \<Rightarrow> ([], False)
           | Some val \<Rightarrow>
               if val = WorkloadNetworkPolicyModeMonitor then (WorkloadNetworkPolicyModeMonitor, True)
               else if val = WorkloadNetworkPolicyModeProtect then (WorkloadNetworkPolicyModeProtect, True)
               else ([], False)))"

section \<open>Well-formedness\<close>

text \<open>The CEL rules on \<open>PolicyBackendSpec\<close> and \<open>WorkloadTargetingSpec\<close>, which the API server checks
  before it stores an object: the backend names exactly one populated payload, whose selector is
  not empty; Istio has no egress policy; a Kubernetes payload has exactly the policy type of the
  direction.\<close>

definition selector_nonempty :: "LabelSelector \<Rightarrow> bool" where
  "selector_nonempty s \<longleftrightarrow> MatchLabels s \<noteq> [] \<or> MatchExpressions s \<noteq> []"

definition backend_valid :: "PolicyBackendSpec \<Rightarrow> bool" where
  "backend_valid b \<longleftrightarrow>
     (if Backend b = PolicyBackendKubernetes then
        (case (Kubernetes b, Istio b) of (Some k, None) \<Rightarrow> selector_nonempty (PodSelector k) | _ \<Rightarrow> False)
      else if Backend b = PolicyBackendIstio then
        (case (Istio b, Kubernetes b) of (Some i, None) \<Rightarrow> selector_nonempty (Selector i) | _ \<Rightarrow> False)
      else False)"

definition targeting_valid :: "PolicyBackendSpec \<Rightarrow> WorkloadTargetingSpec \<Rightarrow> bool" where
  "targeting_valid b t \<longleftrightarrow>
     (Backend b \<noteq> PolicyBackendIstio \<or> Direction t \<noteq> PolicyTypeEgress) \<and>
     (Backend b \<noteq> PolicyBackendKubernetes \<or>
       (case Kubernetes b of None \<Rightarrow> False | Some k \<Rightarrow> PolicyTypes k = [Direction t]))"

section \<open>Lemmas\<close>

lemma meta_key_simps [simp]:
  "nn_Name (meta_key m) = om_Name m" "nn_Namespace (meta_key m) = om_Namespace m"
  by (simp_all add: meta_key_def)

lemma meta_named_simps [simp]:
  "om_Name (meta_named ns n) = n" "om_Namespace (meta_named ns n) = ns"
  "om_Labels (meta_named ns n) = []" "om_OwnerReferences (meta_named ns n) = []"
  "meta_key (meta_named ns n) = \<lparr>nn_Namespace = ns, nn_Name = n\<rparr>"
  by (simp_all add: meta_named_def meta_key_def)

lemma backend_valid_selector:
  "backend_valid (spec_Backend s) \<Longrightarrow> \<exists>sel. GetSelector (Some s) = Inr sel \<and> selector_nonempty sel"
  by (auto simp: backend_valid_def GetSelector_def Let_def split: if_splits option.splits)

lemma SetPromotedLabel_HasPromotedLabel:
  "SetPromotedLabel w n = Inr p \<Longrightarrow> HasPromotedLabel (Some p) n"
  by (auto simp: SetPromotedLabel_def HasPromotedLabel_def map_get0_update split: option.splits if_splits)

lemma SetPromotionLabel_HasPromotionLabel:
  "mode \<in> {WorkloadNetworkPolicyModeMonitor, WorkloadNetworkPolicyModeProtect} \<Longrightarrow>
     HasPromotionLabel (SetPromotionLabel (Some p) mode) = (mode, True)"
  by (auto simp: SetPromotionLabel_def HasPromotionLabel_def update_conv')

text \<open>The two halves of a SPIFFE identity can be read back when the namespace has no slash, as
  every Kubernetes namespace name has none.\<close>

lemma spiffeIdentity_inj:
  assumes "CHR ''/'' \<notin> set ns1" and "CHR ''/'' \<notin> set ns2" and "sa1 \<noteq> []" and "sa2 \<noteq> []"
    and "spiffeIdentity ns1 sa1 = spiffeIdentity ns2 sa2"
  shows "ns1 = ns2 \<and> sa1 = sa2"
proof -
  from assms(3-5) have "ns1 @ CHR ''/'' # ''sa/'' @ sa1 = ns2 @ CHR ''/'' # ''sa/'' @ sa2"
    by (simp add: spiffeIdentity_def)
  then have "str_cut CHR ''/'' (ns1 @ CHR ''/'' # ''sa/'' @ sa1) =
             str_cut CHR ''/'' (ns2 @ CHR ''/'' # ''sa/'' @ sa2)" by simp
  with assms(1,2) show ?thesis by (simp add: str_cut_append)
qed

end
