(* ===== verification/PolicyHelpers.thy ===== *)
theory PolicyHelpers
  imports ApiTypes
begin

text \<open>
  The comparison helpers of \<^verbatim>\<open>api/v1alpha1/policy_helpers.go\<close>. \<open>metav1.FormatLabelSelector\<close> belongs
  to apimachinery and is the parameter \<open>fmt\<close>, a function of a possibly nil selector. Nothing is
  assumed of it: whatever it prints, the comparisons are equivalence relations, and
  \<open>EqualUnordered\<close> decides equality of multisets up to the given element equality
  (locale \<open>unordered_equality\<close>).
\<close>

section \<open>Model\<close>

type_synonym selector_format = "LabelSelector option \<Rightarrow> string"

definition SelectorEqual :: "selector_format \<Rightarrow> LabelSelector option \<Rightarrow> LabelSelector option \<Rightarrow> bool" where
  "SelectorEqual fmt a b \<longleftrightarrow> fmt a = fmt b"

text \<open>The inner loop: the first index that is free and equal, if any; then it is taken. The slice
  \<open>free\<close> of the source is the list of flags.\<close>

fun find_free :: "('a \<Rightarrow> 'a \<Rightarrow> bool) \<Rightarrow> 'a \<Rightarrow> 'a list \<Rightarrow> bool list \<Rightarrow> nat \<Rightarrow> nat option" where
  "find_free eq l (r # rs) (f # fs) j =
     (if f \<and> eq l r then Some j else find_free eq l rs fs (Suc j))"
| "find_free eq l _ _ j = None"

fun match_all :: "('a \<Rightarrow> 'a \<Rightarrow> bool) \<Rightarrow> 'a list \<Rightarrow> 'a list \<Rightarrow> bool list \<Rightarrow> bool" where
  "match_all eq [] right free = True"
| "match_all eq (l # ls) right free =
     (case find_free eq l right free 0 of
        None \<Rightarrow> False
      | Some m \<Rightarrow> match_all eq ls right (free[m := False]))"

definition EqualUnordered :: "'a list \<Rightarrow> 'a list \<Rightarrow> ('a \<Rightarrow> 'a \<Rightarrow> bool) \<Rightarrow> bool" where
  "EqualUnordered left right eq \<longleftrightarrow>
     (if length left \<noteq> length right then False
      else match_all eq left right (replicate (length right) True))"

definition IPBlockEqual :: "IPBlock option \<Rightarrow> IPBlock option \<Rightarrow> bool" where
  "IPBlockEqual a b =
     (case (a, b) of
        (Some x, Some y) \<Rightarrow>
          if CIDR x \<noteq> CIDR y then False else EqualUnordered (Except x) (Except y) (=)
      | _ \<Rightarrow> a = None \<and> b = None)"

definition PolicyPeerEqual :: "selector_format \<Rightarrow> NetworkPolicyPeer \<Rightarrow> NetworkPolicyPeer \<Rightarrow> bool" where
  "PolicyPeerEqual fmt a b \<longleftrightarrow>
     SelectorEqual fmt (npp_NamespaceSelector a) (npp_NamespaceSelector b) \<and>
     SelectorEqual fmt (npp_PodSelector a) (npp_PodSelector b) \<and>
     IPBlockEqual (npp_IPBlock a) (npp_IPBlock b)"

text \<open>\<open>reflect.DeepEqual\<close> on a \<open>NetworkPolicyPort\<close>, whose fields are pointers to scalars.\<close>

definition PolicyPortEqual :: "NetworkPolicyPort \<Rightarrow> NetworkPolicyPort \<Rightarrow> bool" where
  "PolicyPortEqual a b \<longleftrightarrow> a = b"

definition EgressRuleEqual ::
    "selector_format \<Rightarrow> NetworkPolicyEgressRule \<Rightarrow> NetworkPolicyEgressRule \<Rightarrow> bool" where
  "EgressRuleEqual fmt a b \<longleftrightarrow>
     EqualUnordered (To a) (To b) (PolicyPeerEqual fmt) \<and>
     EqualUnordered (egress_Ports a) (egress_Ports b) PolicyPortEqual"

definition IngressRuleEqual ::
    "selector_format \<Rightarrow> NetworkPolicyIngressRule \<Rightarrow> NetworkPolicyIngressRule \<Rightarrow> bool" where
  "IngressRuleEqual fmt a b \<longleftrightarrow>
     EqualUnordered (From a) (From b) (PolicyPeerEqual fmt) \<and>
     EqualUnordered (ingress_Ports a) (ingress_Ports b) PolicyPortEqual"

section \<open>The loop against a list of the free elements\<close>

definition live :: "'a list \<Rightarrow> bool list \<Rightarrow> 'a list" where
  "live xs fs = map fst (filter snd (zip xs fs))"

lemma live_Cons [simp]: "live (x # xs) (f # fs) = (if f then x # live xs fs else live xs fs)"
  by (simp add: live_def)

lemma live_Nil [simp]: "live [] fs = []" "live xs [] = []"
  by (simp_all add: live_def)

lemma live_all [simp]: "live xs (replicate (length xs) True) = xs"
  by (induction xs) auto

lemma find_free_shift:
  "find_free eq l xs fs (Suc j) = map_option Suc (find_free eq l xs fs j)"
  by (induction eq l xs fs j rule: find_free.induct) auto

lemma find_free_None: "length xs = length fs \<Longrightarrow>
    find_free eq l xs fs 0 = None \<longleftrightarrow> (\<forall>x \<in> set (live xs fs). \<not> eq l x)"
  by (induction xs fs rule: list_induct2) (auto simp: find_free_shift)

lemma find_free_Some:
  assumes "length xs = length fs" and "find_free eq l xs fs 0 = Some m"
  shows "m < length xs \<and> eq l (xs ! m) \<and> xs ! m \<in> set (live xs fs) \<and>
    mset (live xs (fs[m := False])) = mset (live xs fs) - {#xs ! m#}"
  using assms
proof (induction xs fs arbitrary: m rule: list_induct2)
  case Nil
  then show ?case by simp
next
  case (Cons x xs f fs)
  show ?case
  proof (cases "f \<and> eq l x")
    case True
    with Cons.prems show ?thesis by auto
  next
    case False
    then have "find_free eq l (x # xs) (f # fs) 0 = find_free eq l xs fs (Suc 0)" by auto
    with Cons.prems obtain k where k: "find_free eq l xs fs 0 = Some k" and m: "m = Suc k"
      by (metis find_free_shift map_option_eq_Some)
    from Cons.IH [OF k] m show ?thesis
      by (auto simp: diff_add_mset_swap)
  qed
qed

section \<open>The contract of the unordered comparison\<close>

locale unordered_equality =
  fixes eq :: "'a \<Rightarrow> 'a \<Rightarrow> bool" and cls :: "'a \<Rightarrow> 'c"
  assumes eq_iff: "eq a b \<longleftrightarrow> cls a = cls b"
begin

text \<open>With an equality that is the kernel of a classifying function, the greedy matching never
  has to backtrack.\<close>

lemma match_all_iff:
  assumes "length fs = length right"
  shows "match_all eq left right fs \<longleftrightarrow> image_mset cls (mset left) \<subseteq># image_mset cls (mset (live right fs))"
  using assms
proof (induction left arbitrary: fs)
  case Nil
  then show ?case by simp
next
  case (Cons l ls)
  show ?case
  proof (cases "find_free eq l right fs 0")
    case None
    then have "cls l \<notin># image_mset cls (mset (live right fs))"
      using Cons.prems by (auto simp: find_free_None eq_iff)
    with None show ?thesis
      by (auto dest!: mset_subset_eqD)
  next
    case (Some m)
    from find_free_Some [OF _ Some] Cons.prems have m: "cls l = cls (right ! m)"
      "right ! m \<in># mset (live right fs)"
      "mset (live right (fs[m := False])) = mset (live right fs) - {#right ! m#}"
      by (auto simp: eq_iff)
    then obtain rest where rest: "mset (live right fs) = add_mset (right ! m) rest"
      by (metis insert_DiffM)
    with m have "mset (live right (fs[m := False])) = rest" by simp
    with Some Cons.IH [of "fs[m := False]"] Cons.prems m rest show ?thesis by simp
  qed
qed

lemma equal_unordered_iff:
  "EqualUnordered left right eq \<longleftrightarrow> image_mset cls (mset left) = image_mset cls (mset right)"
proof (cases "length left = length right")
  case True
  then have "image_mset cls (mset left) \<subseteq># image_mset cls (mset right) \<longleftrightarrow>
             image_mset cls (mset left) = image_mset cls (mset right)"
    by (metis mset_subset_size size_image_mset size_mset subset_mset.le_less subset_mset.order_refl
        nat_neq_iff)
  with True show ?thesis by (simp add: EqualUnordered_def match_all_iff)
next
  case False
  then show ?thesis
    unfolding EqualUnordered_def by (metis size_image_mset size_mset)
qed

lemma equal_unordered_refl: "EqualUnordered xs xs eq"
  by (simp add: equal_unordered_iff)

lemma equal_unordered_sym: "EqualUnordered xs ys eq \<Longrightarrow> EqualUnordered ys xs eq"
  by (simp add: equal_unordered_iff)

lemma equal_unordered_trans:
  "EqualUnordered xs ys eq \<Longrightarrow> EqualUnordered ys zs eq \<Longrightarrow> EqualUnordered xs zs eq"
  by (simp add: equal_unordered_iff)

lemma equal_unordered_perm: "mset xs = mset ys \<Longrightarrow> EqualUnordered xs ys eq"
  by (simp add: equal_unordered_iff)

lemma equal_unordered_singleton: "EqualUnordered [x] ys eq \<longleftrightarrow> (\<exists>y. ys = [y] \<and> eq x y)"
  by (cases ys) (auto simp: equal_unordered_iff eq_iff)

end

section \<open>Its instances\<close>

interpretation string_eq: unordered_equality "(=) :: string \<Rightarrow> string \<Rightarrow> bool" id
  by unfold_locales simp

definition ip_class :: "IPBlock option \<Rightarrow> (string \<times> string multiset) option" where
  "ip_class b = map_option (\<lambda>x. (CIDR x, mset (Except x))) b"

lemma IPBlockEqual_iff: "IPBlockEqual a b \<longleftrightarrow> ip_class a = ip_class b"
  by (auto simp: IPBlockEqual_def ip_class_def string_eq.equal_unordered_iff split: option.splits)

definition peer_class ::
    "selector_format \<Rightarrow> NetworkPolicyPeer \<Rightarrow> string \<times> string \<times> (string \<times> string multiset) option" where
  "peer_class fmt p =
     (fmt (npp_NamespaceSelector p), fmt (npp_PodSelector p), ip_class (npp_IPBlock p))"

lemma PolicyPeerEqual_iff: "PolicyPeerEqual fmt a b \<longleftrightarrow> peer_class fmt a = peer_class fmt b"
  by (auto simp: PolicyPeerEqual_def peer_class_def SelectorEqual_def IPBlockEqual_iff)

interpretation peer_eq: unordered_equality "PolicyPeerEqual fmt" "peer_class fmt" for fmt
  by unfold_locales (rule PolicyPeerEqual_iff)

interpretation port_eq: unordered_equality PolicyPortEqual id
  by unfold_locales (simp add: PolicyPortEqual_def)

lemmas rule_equal_iff =
  EgressRuleEqual_def IngressRuleEqual_def peer_eq.equal_unordered_iff port_eq.equal_unordered_iff

lemma PolicyPeerEqual_refl [simp]: "PolicyPeerEqual fmt p p"
  by (simp add: PolicyPeerEqual_iff)

lemma PolicyPortEqual_refl [simp]: "PolicyPortEqual p p"
  by (simp add: PolicyPortEqual_def)

section \<open>Properties\<close>

text \<open>C38. The rule comparisons decide equality of multisets: two egress (ingress) rules are equal exactly
  when they have the same peers up to \<open>PolicyPeerEqual\<close> and the same ports, in any order and with
  the same multiplicities, so that the greedy matching of \<open>EqualUnordered\<close> never misses a pairing.\<close>

theorem rule_comparison_is_multiset_equality:
  "(EgressRuleEqual fmt a b \<longleftrightarrow>
      image_mset (peer_class fmt) (mset (To a)) = image_mset (peer_class fmt) (mset (To b)) \<and>
      mset (egress_Ports a) = mset (egress_Ports b)) \<and>
   (IngressRuleEqual fmt c d \<longleftrightarrow>
      image_mset (peer_class fmt) (mset (From c)) = image_mset (peer_class fmt) (mset (From d)) \<and>
      mset (ingress_Ports c) = mset (ingress_Ports d))"
  by (simp add: rule_equal_iff)

text \<open>Whatever the selector printer is, the rule comparisons are equivalence relations.\<close>

lemma rule_comparison_equivalence:
  "equivp (EgressRuleEqual fmt) \<and> equivp (IngressRuleEqual fmt)"
  by (intro conjI equivpI reflpI sympI transpI) (simp_all add: rule_equal_iff)

end
