(* ===== verification/ViolationRecords.thy ===== *)
theory ViolationRecords
  imports PolicyHelpers
begin

text \<open>
  The violation bookkeeping of \<^verbatim>\<open>api/v1alpha1/violation_record.go\<close>: merging scraped violations into
  the status with deduplication, clearing the violations that the policy now allows, moving
  acknowledged violations to their own list, and \<open>RecomputeStatus\<close>, which runs the three. A nil
  payload that the code would dereference is a panic (\<open>None\<close>).
\<close>

section \<open>Model\<close>

definition maxViolationRecords :: nat where
  "maxViolationRecords = 100"

record annotationInfo =
  annotationKey :: string
  reason :: string

record ViolationRecordKey =
  SrcNamespace :: string
  SrcOwnerKind :: string
  SrcOwnerName :: string
  SrcIdentity :: string
  DstNamespace :: string
  DstOwnerKind :: string
  DstOwnerName :: string
  DstIdentity :: string
  key_Protocol :: string
  key_DstPort :: int32
  key_Action :: WorkloadNetworkPolicyMode
  key_DenyingPolicyNamespace :: string
  key_DenyingPolicyName :: string

definition Key :: "ViolationRecord \<Rightarrow> ViolationRecordKey" where
  "Key v = (let i = Info v in
     \<lparr>SrcNamespace = wr_Namespace (vi_Source i),
      SrcOwnerKind = wr_OwnerKind (vi_Source i),
      SrcOwnerName = wr_OwnerName (vi_Source i),
      SrcIdentity = wr_Identity (vi_Source i),
      DstNamespace = wr_Namespace (Dest i),
      DstOwnerKind = wr_OwnerKind (Dest i),
      DstOwnerName = wr_OwnerName (Dest i),
      DstIdentity = wr_Identity (Dest i),
      key_Protocol = vi_Protocol i,
      key_DstPort = DstPort i,
      key_Action = Action i,
      key_DenyingPolicyNamespace = DenyingPolicyNamespace i,
      key_DenyingPolicyName = DenyingPolicyName i\<rparr>)"

abbreviation stamp :: "ViolationRecord \<Rightarrow> time" where
  "stamp v \<equiv> Timestamp (Info v)"

subsection \<open>Clearing\<close>

definition ToEgressRule :: "ViolationRecord \<Rightarrow> NetworkPolicyEgressRule" where
  "ToEgressRule v =
     \<lparr>To = [\<lparr>npp_PodSelector = None,
             npp_NamespaceSelector =
               Some \<lparr>MatchLabels = [(LabelMetadataName, wr_Namespace (Dest (Info v)))], MatchExpressions = []\<rparr>,
             npp_IPBlock = None\<rparr>],
      egress_Ports = [\<lparr>port_Protocol = Some (vi_Protocol (Info v)),
                       port_Port = Some (FromInt32 (DstPort (Info v))), port_EndPort = None\<rparr>]\<rparr>"

definition ToIngressRule :: "ViolationRecord \<Rightarrow> NetworkPolicyIngressRule" where
  "ToIngressRule v =
     \<lparr>From = [\<lparr>npp_PodSelector = None,
               npp_NamespaceSelector =
                 Some \<lparr>MatchLabels = [(LabelMetadataName, wr_Namespace (vi_Source (Info v)))], MatchExpressions = []\<rparr>,
               npp_IPBlock = None\<rparr>],
      ingress_Ports = [\<lparr>port_Protocol = Some (vi_Protocol (Info v)),
                        port_Port = Some (FromInt32 (DstPort (Info v))), port_EndPort = None\<rparr>]\<rparr>"

definition kubernetesAllows :: "selector_format \<Rightarrow> NetworkPolicySpec \<Rightarrow> ViolationRecord \<Rightarrow> bool" where
  "kubernetesAllows fmt policyTemplate v \<longleftrightarrow>
     (if list_ex (\<lambda>rule. IngressRuleEqual fmt (ToIngressRule v) rule) (Ingress policyTemplate) then True
      else if list_ex (\<lambda>rule. EgressRuleEqual fmt (ToEgressRule v) rule) (Egress policyTemplate) then True
      else False)"

definition istioRuleAllowsSource :: "IstioAuthorizationPolicyRule \<Rightarrow> WorkloadRef \<Rightarrow> bool" where
  "istioRuleAllowsSource rule src \<longleftrightarrow>
     (if rule_From rule = [] then True
      else list_ex (\<lambda>from.
             (if Principals (Source from) = [] then True
              else list_ex (\<lambda>principal. principal = ''*'' \<or> principal = wr_Identity src)
                     (Principals (Source from))))
           (rule_From rule))"

definition parseIstioPortRange :: "string \<Rightarrow> int32 \<times> int32 \<times> bool" where
  "parseIstioPortRange portSpec =
     (case str_cut CHR ''-'' portSpec of (loStr, hiStr, _) \<Rightarrow>
        (case parse_int 32 loStr of
           None \<Rightarrow> (0, 0, False)
         | Some lo \<Rightarrow>
             if hiStr = [] then (word_of_int lo, word_of_int lo, True)
             else (case parse_int 32 hiStr of
                     None \<Rightarrow> (0, 0, False)
                   | Some hi \<Rightarrow> (word_of_int lo, word_of_int hi, True))))"

definition istioPortMatches :: "string \<Rightarrow> int32 \<Rightarrow> bool" where
  "istioPortMatches portSpec dstPort =
     (case parseIstioPortRange portSpec of (lo, hi, ok) \<Rightarrow>
        if \<not> ok then False else sint dstPort \<ge> sint lo \<and> sint dstPort \<le> sint hi)"

definition istioRuleAllowsPort :: "IstioAuthorizationPolicyRule \<Rightarrow> int32 \<Rightarrow> bool" where
  "istioRuleAllowsPort rule dstPort \<longleftrightarrow>
     (if rule_To rule = [] then True
      else list_ex (\<lambda>to.
             (if Ports (Operation to) = [] then True
              else list_ex (\<lambda>port. istioPortMatches port dstPort) (Ports (Operation to))))
           (rule_To rule))"

definition istioAllows :: "IstioAuthorizationPolicySpec \<Rightarrow> ViolationRecord \<Rightarrow> bool" where
  "istioAllows spec v \<longleftrightarrow>
     list_ex (\<lambda>rule. istioRuleAllowsSource rule (vi_Source (Info v)) \<and>
                      istioRuleAllowsPort rule (DstPort (Info v))) (Rules spec)"

definition set_violations :: "WorkloadNetworkPolicy \<Rightarrow> ViolationRecord list \<Rightarrow> WorkloadNetworkPolicy" where
  "set_violations wnp vs = wnp\<lparr>wnp_Status := (wnp_Status wnp)\<lparr>Violations := vs\<rparr>\<rparr>"

text \<open>\<open>slices.DeleteFunc\<close> calls its predicate only when there is an element, so a nil template is
  dereferenced only then.\<close>

definition clearAllowedKubernetesViolations ::
    "selector_format \<Rightarrow> WorkloadNetworkPolicy \<Rightarrow> WorkloadNetworkPolicy option" where
  "clearAllowedKubernetesViolations fmt wnp =
     (let vs = Violations (wnp_Status wnp) in
      case Kubernetes (wnp_Backend wnp) of
        None \<Rightarrow> if vs = [] then Some wnp else None
      | Some policyTemplate \<Rightarrow>
          Some (set_violations wnp (filter (\<lambda>v. \<not> kubernetesAllows fmt policyTemplate v) vs)))"

definition clearAllowedIstioViolations :: "WorkloadNetworkPolicy \<Rightarrow> WorkloadNetworkPolicy" where
  "clearAllowedIstioViolations wnp =
     (case Istio (wnp_Backend wnp) of
        None \<Rightarrow> wnp
      | Some spec \<Rightarrow>
          set_violations wnp (filter (\<lambda>v. \<not> istioAllows spec v) (Violations (wnp_Status wnp))))"

definition clearAllowedViolations ::
    "selector_format \<Rightarrow> WorkloadNetworkPolicy \<Rightarrow> WorkloadNetworkPolicy option" where
  "clearAllowedViolations fmt wnp =
     (if Backend (wnp_Backend wnp) = PolicyBackendKubernetes then clearAllowedKubernetesViolations fmt wnp
      else if Backend (wnp_Backend wnp) = PolicyBackendIstio then Some (clearAllowedIstioViolations wnp)
      else Some wnp)"

subsection \<open>Merging\<close>

fun index_violations :: "ViolationRecord list \<Rightarrow> nat \<Rightarrow> (ViolationRecordKey \<rightharpoonup> nat) \<Rightarrow> (ViolationRecordKey \<rightharpoonup> nat)" where
  "index_violations [] i m = m"
| "index_violations (r # rs) i m = index_violations rs (Suc i) (m(Key r \<mapsto> i))"

definition refresh :: "ViolationRecord \<Rightarrow> ViolationRecord \<Rightarrow> ViolationRecord" where
  "refresh old v =
     (if stamp v > stamp old then old\<lparr>Info := (Info old)\<lparr>Timestamp := stamp v\<rparr>\<rparr> else old)"

fun merge_loop ::
    "ViolationRecord list \<Rightarrow> (ViolationRecordKey \<rightharpoonup> nat) \<Rightarrow> int64 \<Rightarrow> ViolationRecord list \<Rightarrow>
     ViolationRecord list \<times> int64" where
  "merge_loop vs indexByKey cnt [] = (vs, cnt)"
| "merge_loop vs indexByKey cnt (v # scraped) =
     (case indexByKey (Key v) of
        Some idx \<Rightarrow> merge_loop (vs[idx := refresh (vs ! idx) v]) indexByKey (cnt + 1) scraped
      | None \<Rightarrow>
          merge_loop (vs @ [v\<lparr>ID := cnt\<rparr>]) (indexByKey(Key v \<mapsto> length vs)) (cnt + 1) scraped)"

definition mergeScrapedViolations ::
    "WorkloadNetworkPolicyStatus \<Rightarrow> ViolationRecord list \<Rightarrow> WorkloadNetworkPolicyStatus" where
  "mergeScrapedViolations s scraped =
     (case merge_loop (Violations s) (index_violations (Violations s) 0 Map.empty) (ViolationCount s) scraped of
        (vs, cnt) \<Rightarrow>
          let sorted = newest_first stamp vs;
              kept = (if length sorted > maxViolationRecords then take maxViolationRecords sorted else sorted)
          in s\<lparr>Violations := kept, ViolationCount := cnt\<rparr>)"

subsection \<open>Acknowledging\<close>

definition ack_entry :: "string \<times> string \<Rightarrow> (int64 \<times> annotationInfo) option" where
  "ack_entry a =
     (case a of (k, r) \<Rightarrow>
        (case cut_prefix k ViolationAcknowledgePrefix of (idStr, found) \<Rightarrow>
           if \<not> found then None
           else (case parse_int 64 idStr of
                   None \<Rightarrow> None
                 | Some i \<Rightarrow> Some (word_of_int i, \<lparr>annotationKey = k, reason = r\<rparr>))))"

text \<open>The loop over the annotations in the order the iteration visits them; a later annotation with
  the same number replaces an earlier one.\<close>

fun collect_acks :: "(int64 \<times> annotationInfo) list \<Rightarrow> strmap \<Rightarrow> (int64 \<times> annotationInfo) list" where
  "collect_acks acc [] = acc"
| "collect_acks acc (a # as) =
     (case ack_entry a of
        None \<Rightarrow> collect_acks acc as
      | Some (i, info) \<Rightarrow> collect_acks (AList.update i info acc) as)"

fun ack_loop ::
    "(int64 \<times> annotationInfo) list \<Rightarrow> time \<Rightarrow> ViolationRecord list \<Rightarrow> strmap \<Rightarrow>
     ViolationRecord list \<times> strmap \<times> AcknowledgedViolationRecord list" where
  "ack_loop acknowledges now [] annotations = ([], annotations, [])"
| "ack_loop acknowledges now (v # vs) annotations =
     (case map_of acknowledges (ID v) of
        None \<Rightarrow>
          (case ack_loop acknowledges now vs annotations of (kept, ann, acks) \<Rightarrow> (v # kept, ann, acks))
      | Some info \<Rightarrow>
          (case ack_loop acknowledges now vs (AList.delete (annotationKey info) annotations) of
             (kept, ann, acks) \<Rightarrow>
               (kept, ann, \<lparr>Violation = v, Reason = reason info, AcknowledgedAt = now\<rparr> # acks)))"

definition acknowledgeViolationsFromAnnotations ::
    "WorkloadNetworkPolicy \<Rightarrow> time \<Rightarrow> WorkloadNetworkPolicy \<times> AcknowledgedViolationRecord list" where
  "acknowledgeViolationsFromAnnotations wnp now =
     (let annotations = om_Annotations (wnp_Meta wnp);
          acknowledges = collect_acks [] annotations;
          st = wnp_Status wnp
      in if annotations = [] then (wnp, [])
         else if acknowledges = [] then (wnp, [])
         else case ack_loop acknowledges now (Violations st) annotations of
           (kept, annotations', acks) \<Rightarrow>
             let sorted = newest_first AcknowledgedAt (AcknowledgedViolations st @ acks);
                 all = (if length sorted > maxViolationRecords then take maxViolationRecords sorted else sorted)
             in (wnp\<lparr>wnp_Status := st\<lparr>Violations := kept, AcknowledgedViolations := all\<rparr>,
                     wnp_Meta := (wnp_Meta wnp)\<lparr>om_Annotations := annotations'\<rparr>\<rparr>, acks))"

subsection \<open>Recomputing the status\<close>

definition recompute ::
    "selector_format \<Rightarrow> WorkloadNetworkPolicy \<Rightarrow> ViolationRecord list \<Rightarrow> time \<Rightarrow>
     (WorkloadNetworkPolicy \<times> AcknowledgedViolationRecord list) option" where
  "recompute fmt wnp scraped now =
     (let wnp1 = wnp\<lparr>wnp_Status := mergeScrapedViolations (wnp_Status wnp) scraped\<rparr> in
      case clearAllowedViolations fmt wnp1 of
        None \<Rightarrow> None
      | Some wnp2 \<Rightarrow>
          (case acknowledgeViolationsFromAnnotations wnp2 now of (wnp3, acknowledged) \<Rightarrow>
             let st = wnp_Status wnp3 in
             Some (wnp3\<lparr>wnp_Status := st\<lparr>ActiveViolationCount := of_nat (length (Violations st)),
                                          ObservedGeneration := om_Generation (wnp_Meta wnp3)\<rparr>\<rparr>,
                   acknowledged)))"

definition RecomputeStatus ::
    "selector_format \<Rightarrow> WorkloadNetworkPolicy option \<Rightarrow> ViolationRecord list \<Rightarrow> time \<Rightarrow>
     (WorkloadNetworkPolicy option \<times> AcknowledgedViolationRecord list) option" where
  "RecomputeStatus fmt wnp scraped now =
     (case wnp of
        None \<Rightarrow> Some (None, [])
      | Some p \<Rightarrow> map_option (\<lambda>(p', acks). (Some p', acks)) (recompute fmt p scraped now))"

section \<open>Invariants\<close>

definition ids_ok :: "ViolationRecord list \<Rightarrow> int64 \<Rightarrow> bool" where
  "ids_ok vs cnt \<longleftrightarrow> distinct (map ID vs) \<and> list_all (\<lambda>v. unat (ID v) < unat cnt) vs"

definition violations_ok :: "ViolationRecord list \<Rightarrow> int64 \<Rightarrow> bool" where
  "violations_ok vs cnt \<longleftrightarrow>
     distinct (map Key vs) \<and> ids_ok vs cnt \<and> sorted_wrt (\<lambda>a b. stamp b \<le> stamp a) vs \<and>
     length vs \<le> maxViolationRecords"

definition acks_ok :: "AcknowledgedViolationRecord list \<Rightarrow> bool" where
  "acks_ok as \<longleftrightarrow>
     sorted_wrt (\<lambda>a b. AcknowledgedAt b \<le> AcknowledgedAt a) as \<and> length as \<le> maxViolationRecords"

definition status_ok :: "WorkloadNetworkPolicyStatus \<Rightarrow> bool" where
  "status_ok s \<longleftrightarrow> violations_ok (Violations s) (ViolationCount s) \<and> acks_ok (AcknowledgedViolations s)"

definition stamps :: "ViolationRecordKey \<Rightarrow> ViolationRecord list \<Rightarrow> time set" where
  "stamps k vs = stamp ` {v \<in> set vs. Key v = k}"

section \<open>Merging: lemmas\<close>

lemma Key_ID [simp]: "Key (v\<lparr>ID := i\<rparr>) = Key v"
  by (simp add: Key_def)

lemma Key_refresh [simp]: "Key (refresh old v) = Key old"
  by (simp add: Key_def refresh_def Let_def)

lemma ID_refresh [simp]: "ID (refresh old v) = ID old"
  by (simp add: refresh_def)

lemma stamp_refresh [simp]: "stamp (refresh old v) = max (stamp old) (stamp v)"
  by (simp add: refresh_def max_def)

lemma stamp_ID [simp]: "stamp (v\<lparr>ID := i\<rparr>) = stamp v"
  by simp

text \<open>The index map of the source is right about the slice: it points at a record with that key,
  and has an entry for every key that occurs.\<close>

definition idx_ok :: "ViolationRecord list \<Rightarrow> (ViolationRecordKey \<rightharpoonup> nat) \<Rightarrow> bool" where
  "idx_ok vs m \<longleftrightarrow>
     (\<forall>k i. m k = Some i \<longrightarrow> i < length vs \<and> Key (vs ! i) = k) \<and>
     (\<forall>k. m k = None \<longrightarrow> k \<notin> Key ` set vs)"

lemma idx_ok_append:
  assumes "idx_ok vs m"
  shows "idx_ok (vs @ [w]) (m(Key w \<mapsto> length vs))"
proof -
  have "i < length (vs @ [w]) \<and> Key ((vs @ [w]) ! i) = k" if "(m(Key w \<mapsto> length vs)) k = Some i" for k i
  proof (cases "k = Key w")
    case True
    with that show ?thesis by auto
  next
    case False
    with that have "m k = Some i" by simp
    with assms have "i < length vs" "Key (vs ! i) = k" by (auto simp: idx_ok_def)
    then show ?thesis by (simp add: nth_append)
  qed
  moreover have "k \<notin> Key ` set (vs @ [w])" if "(m(Key w \<mapsto> length vs)) k = None" for k
    using that assms by (auto simp: idx_ok_def split: if_splits)
  ultimately show ?thesis unfolding idx_ok_def by blast
qed

lemma index_violations_ok:
  assumes "idx_ok pre m"
  shows "idx_ok (pre @ vs) (index_violations vs (length pre) m)"
  using assms
proof (induction vs arbitrary: pre m)
  case Nil
  then show ?case by simp
next
  case (Cons v vs)
  from Cons.IH [OF idx_ok_append [OF Cons.prems, of v]] show ?case by (simp del: fun_upd_apply)
qed

lemma idx_ok_init: "idx_ok vs (index_violations vs 0 Map.empty)"
  using index_violations_ok [of "[]" Map.empty vs] by (simp add: idx_ok_def)

lemma idx_ok_Some: "idx_ok vs m \<Longrightarrow> m (Key v) = Some i \<Longrightarrow> i < length vs \<and> Key (vs ! i) = Key v"
  by (auto simp: idx_ok_def)

lemma idx_ok_None: "idx_ok vs m \<Longrightarrow> m (Key v) = None \<Longrightarrow> Key v \<notin> Key ` set vs"
  unfolding idx_ok_def by blast

lemma idx_ok_refresh: "idx_ok vs m \<Longrightarrow> m k = Some i \<Longrightarrow> idx_ok (vs[i := refresh (vs ! i) v]) m"
proof -
  assume ok: "idx_ok vs m" and "m k = Some i"
  then have i: "i < length vs" by (auto simp: idx_ok_def)
  have "map Key (vs[i := refresh (vs ! i) v]) = map Key vs"
    using i by (simp add: map_update) (metis list_update_id nth_map)
  then have "Key ` set (vs[i := refresh (vs ! i) v]) = Key ` set vs"
    by (metis set_map)
  moreover have "Key (vs[i := refresh (vs ! i) v] ! j) = Key (vs ! j)" for j
    using i by (cases "j = i") simp_all
  ultimately show ?thesis using ok by (simp add: idx_ok_def)
qed

lemma idx_ok_append_ID:
  "idx_ok vs m \<Longrightarrow> idx_ok (vs @ [v\<lparr>ID := i\<rparr>]) (m(Key v \<mapsto> length vs))"
  using idx_ok_append [of vs m "v\<lparr>ID := i\<rparr>"] by simp

lemma map_Key_refresh: "i < length vs \<Longrightarrow> map Key (vs[i := refresh (vs ! i) v]) = map Key vs"
  by (simp add: map_update) (metis list_update_id nth_map)

lemma map_ID_refresh: "i < length vs \<Longrightarrow> map ID (vs[i := refresh (vs ! i) v]) = map ID vs"
  by (simp add: map_update) (metis list_update_id nth_map)

text \<open>The loop as an induction over the scraped records, with the index map kept right: the
  common shape of the proofs below.\<close>

lemma merge_loop_induct [consumes 1, case_names Nil Refresh Append]:
  assumes ok: "idx_ok vs m"
    and base: "\<And>vs m c. idx_ok vs m \<Longrightarrow> P vs m c []"
    and refresh: "\<And>vs m c v rest i. idx_ok vs m \<Longrightarrow> m (Key v) = Some i \<Longrightarrow> i < length vs \<Longrightarrow>
        Key (vs ! i) = Key v \<Longrightarrow> P (vs[i := refresh (vs ! i) v]) m (c + 1) rest \<Longrightarrow> P vs m c (v # rest)"
    and append: "\<And>vs m c v rest. idx_ok vs m \<Longrightarrow> m (Key v) = None \<Longrightarrow> Key v \<notin> Key ` set vs \<Longrightarrow>
        P (vs @ [v\<lparr>ID := c\<rparr>]) (m(Key v \<mapsto> length vs)) (c + 1) rest \<Longrightarrow> P vs m c (v # rest)"
  shows "P vs m c rest"
  using ok
proof (induction rest arbitrary: vs m c)
  case Nil
  then show ?case by (rule base)
next
  case (Cons v rest)
  show ?case
  proof (cases "m (Key v)")
    case None
    show ?thesis
      by (rule append [OF Cons.prems None idx_ok_None [OF Cons.prems None]])
        (rule Cons.IH [OF idx_ok_append_ID [OF Cons.prems]])
  next
    case (Some i)
    from idx_ok_Some [OF Cons.prems Some] show ?thesis
      by (intro refresh [OF Cons.prems Some]) (auto intro: Cons.IH [OF idx_ok_refresh [OF Cons.prems Some]])
  qed
qed

lemma merge_loop_count: "snd (merge_loop vs m c rest) = c + of_nat (length rest)"
  by (induction rest arbitrary: vs m c) (auto split: option.splits)

lemma merge_loop_keys:
  "idx_ok vs m \<Longrightarrow> Key ` set (fst (merge_loop vs m c rest)) = Key ` set vs \<union> Key ` set rest"
proof (induction vs m c rest rule: merge_loop_induct)
  case (Refresh vs m c v rest i)
  have "Key ` set (vs[i := refresh (vs ! i) v]) = Key ` set vs"
    using map_Key_refresh [OF Refresh(3), of v] by (metis set_map)
  moreover have "Key v \<in> Key ` set vs" using Refresh(3,4) by (metis image_eqI nth_mem)
  ultimately show ?case using Refresh by auto
qed (auto simp del: fun_upd_apply)

lemma merge_loop_distinct:
  "idx_ok vs m \<Longrightarrow> distinct (map Key vs) \<Longrightarrow> distinct (map Key (fst (merge_loop vs m c rest)))"
proof (induction vs m c rest rule: merge_loop_induct)
  case (Refresh vs m c v rest i)
  then show ?case by (simp add: map_Key_refresh)
qed (auto simp del: fun_upd_apply)

lemma ids_ok_append:
  "ids_ok vs c \<Longrightarrow> unat c + 1 < 2 ^ 64 \<Longrightarrow> ids_ok (vs @ [v\<lparr>ID := c\<rparr>]) (c + 1)"
proof -
  assume ok: "ids_ok vs c" and "unat c + 1 < 2 ^ 64"
  then have "unat (c + 1) = unat c + 1"
    by (simp add: unat_word_ariths)
  with ok show ?thesis
    by (auto simp: ids_ok_def list_all_iff)
qed

lemma ids_ok_mono:
  "ids_ok vs c \<Longrightarrow> unat c + 1 < 2 ^ 64 \<Longrightarrow> ids_ok vs (c + 1)"
proof -
  assume ok: "ids_ok vs c" and "unat c + 1 < 2 ^ 64"
  then have "unat (c + 1) = unat c + 1" by (simp add: unat_word_ariths)
  with ok show ?thesis by (auto simp: ids_ok_def list_all_iff)
qed

lemma ids_ok_map:
  "ids_ok vs c \<longleftrightarrow> distinct (map ID vs) \<and> list_all (\<lambda>i. unat i < unat c) (map ID vs)"
  by (simp add: ids_ok_def list.pred_map comp_def)

lemma ids_ok_refresh: "i < length vs \<Longrightarrow> ids_ok (vs[i := refresh (vs ! i) v]) c = ids_ok vs c"
  by (simp only: ids_ok_map map_ID_refresh)

lemma merge_loop_ids:
  "idx_ok vs m \<Longrightarrow> ids_ok vs c \<Longrightarrow> unat c + length rest < 2 ^ 64 \<Longrightarrow>
     ids_ok (fst (merge_loop vs m c rest)) (c + of_nat (length rest))"
proof (induction vs m c rest rule: merge_loop_induct)
  case (Nil vs m c)
  then show ?case by simp
next
  case (Refresh vs m c v rest i)
  then have "unat (c + 1) = unat c + 1" by (simp add: unat_word_ariths)
  moreover have "ids_ok (vs[i := refresh (vs ! i) v]) (c + 1)"
    using Refresh by (auto simp: ids_ok_refresh intro: ids_ok_mono)
  ultimately show ?case using Refresh by (simp add: algebra_simps)
next
  case (Append vs m c v rest)
  then have "unat (c + 1) = unat c + 1" by (simp add: unat_word_ariths)
  moreover have "ids_ok (vs @ [v\<lparr>ID := c\<rparr>]) (c + 1)"
    using Append by (intro ids_ok_append) auto
  ultimately show ?case using Append by (simp add: algebra_simps del: fun_upd_apply)
qed

text \<open>The time of a merged record is the latest time at which the violation was seen.\<close>

lemma stamps_append: "stamps k (xs @ ys) = stamps k xs \<union> stamps k ys"
  by (auto simp: stamps_def)

lemma stamps_Cons: "stamps k (x # xs) = (if Key x = k then insert (stamp x) (stamps k xs) else stamps k xs)"
  by (auto simp: stamps_def)

lemma finite_stamps [simp]: "finite (stamps k xs)"
  by (simp add: stamps_def)

lemma stamps_update:
  assumes "distinct (map Key vs)" and "i < length vs" and "Key w = Key (vs ! i)"
  shows "stamps k (vs[i := w]) = (if k = Key w then {stamp w} else stamps k vs)"
proof -
  have split: "vs = take i vs @ vs ! i # drop (Suc i) vs"
    using assms(2) by (rule id_take_nth_drop)
  have upd: "vs[i := w] = take i vs @ w # drop (Suc i) vs"
    using assms(2) by (rule upd_conv_take_nth_drop)
  have "distinct (map Key (take i vs @ vs ! i # drop (Suc i) vs))"
    using assms(1) split by simp
  then have "\<forall>x \<in> set (take i vs). Key x \<noteq> Key (vs ! i)" "\<forall>x \<in> set (drop (Suc i) vs). Key x \<noteq> Key (vs ! i)"
    by (auto simp: image_iff)
  then have "stamps (Key w) (take i vs) = {}" "stamps (Key w) (drop (Suc i) vs) = {}"
    using assms(3) by (auto simp: stamps_def)
  then show ?thesis
    by (subst (2) split, subst upd) (auto simp: stamps_append stamps_Cons assms(3))
qed

lemma Max_refresh:
  assumes "distinct (map Key vs)" and "i < length vs" and "Key (vs ! i) = Key v"
  shows "Max (stamps k (vs[i := refresh (vs ! i) v] @ rest)) = Max (stamps k (vs @ v # rest))"
proof (cases "k = Key v")
  case False
  with assms stamps_update [OF assms(1,2), of "refresh (vs ! i) v" k] show ?thesis
    by (simp add: stamps_append stamps_Cons)
next
  case True
  from stamps_update [OF assms(1,2), of "vs ! i" k] True assms have "stamps k vs = {stamp (vs ! i)}"
    by simp
  moreover from stamps_update [OF assms(1,2), of "refresh (vs ! i) v" k] True assms
  have "stamps k (vs[i := refresh (vs ! i) v]) = {max (stamp (vs ! i)) (stamp v)}" by simp
  ultimately show ?thesis using True
    by (cases "stamps k rest = {}") (simp_all add: stamps_append stamps_Cons max.assoc)
qed

lemma merge_loop_stamp:
  "idx_ok vs m \<Longrightarrow> distinct (map Key vs) \<Longrightarrow> r \<in> set (fst (merge_loop vs m c rest)) \<Longrightarrow>
     stamp r = Max (stamps (Key r) (vs @ rest))"
proof (induction vs m c rest rule: merge_loop_induct)
  case (Nil vs m c)
  then obtain i where "i < length vs" "vs ! i = r" by (auto simp: in_set_conv_nth)
  with stamps_update [OF Nil(2), of i r "Key r"] show ?case by auto
next
  case (Refresh vs m c v rest i)
  have "distinct (map Key (vs[i := refresh (vs ! i) v]))"
    using Refresh by (simp add: map_Key_refresh)
  with Refresh have "stamp r = Max (stamps (Key r) (vs[i := refresh (vs ! i) v] @ rest))" by simp
  with Refresh show ?case by (simp add: Max_refresh)
next
  case (Append vs m c v rest)
  then have "stamp r = Max (stamps (Key r) ((vs @ [v\<lparr>ID := c\<rparr>]) @ rest))"
    by (simp del: fun_upd_apply)
  moreover have "stamps (Key r) ((vs @ [v\<lparr>ID := c\<rparr>]) @ rest) = stamps (Key r) (vs @ v # rest)"
    by (simp add: stamps_append stamps_Cons)
  ultimately show ?case by simp
qed

text \<open>A known violation keeps its number, a new one gets the value of the counter when it was
  first seen.\<close>

lemma merge_loop_old_id:
  "idx_ok vs m \<Longrightarrow> distinct (map Key vs) \<Longrightarrow> v0 \<in> set vs \<Longrightarrow>
     \<exists>r \<in> set (fst (merge_loop vs m c rest)). Key r = Key v0 \<and> ID r = ID v0"
proof (induction vs m c rest arbitrary: v0 rule: merge_loop_induct)
  case (Nil vs m c)
  then show ?case by auto
next
  case (Refresh vs m c v rest i)
  from Refresh.prems(2) obtain j where j: "j < length vs" "vs ! j = v0" by (auto simp: in_set_conv_nth)
  let ?ws = "vs[i := refresh (vs ! i) v]"
  have "?ws ! j \<in> set ?ws" using j by simp
  moreover have "Key (?ws ! j) = Key v0" "ID (?ws ! j) = ID v0"
    using j Refresh(3) by (cases "j = i"; simp)+
  moreover have "distinct (map Key ?ws)" using Refresh by (simp add: map_Key_refresh)
  ultimately show ?case using Refresh(5) [of "?ws ! j"] Refresh(2) by simp
qed (auto simp del: fun_upd_apply)

text \<open>A violation whose key was not there before appears once, numbered by its first position.\<close>

lemma merge_loop_new_id:
  "idx_ok vs m \<Longrightarrow> distinct (map Key vs) \<Longrightarrow> i < length rest \<Longrightarrow> Key (rest ! i) \<notin> Key ` set vs \<Longrightarrow>
     Key (rest ! i) \<notin> Key ` set (take i rest) \<Longrightarrow>
     \<exists>r \<in> set (fst (merge_loop vs m c rest)). Key r = Key (rest ! i) \<and> ID r = c + of_nat i"
proof (induction vs m c rest arbitrary: i rule: merge_loop_induct)
  case (Nil vs m c)
  then show ?case by simp
next
  case (Refresh vs m c v rest j)
  have "Key v \<in> Key ` set vs" using Refresh(3,4) by (metis image_eqI nth_mem)
  with Refresh.prems obtain k where i: "i = Suc k" by (cases i) auto
  let ?ws = "vs[j := refresh (vs ! j) v]"
  have "Key ` set ?ws = Key ` set vs"
    using map_Key_refresh [OF Refresh(3), of v] by (metis set_map)
  with Refresh i have "\<exists>r \<in> set (fst (merge_loop ?ws m (c + 1) rest)). Key r = Key (rest ! k) \<and> ID r = c + 1 + of_nat k"
    by (intro Refresh(5)) (auto simp: map_Key_refresh)
  with Refresh(2) i show ?case by (simp add: algebra_simps)
next
  case (Append vs m c v rest)
  let ?ws = "vs @ [v\<lparr>ID := c\<rparr>]" and ?m = "m(Key v \<mapsto> length vs)"
  have ok: "idx_ok ?ws ?m" using Append(1) by (rule idx_ok_append_ID)
  have d: "distinct (map Key ?ws)" using Append by auto
  show ?case
  proof (cases i)
    case 0
    from merge_loop_old_id [OF ok d, of "v\<lparr>ID := c\<rparr>" "c + 1" rest] 0 Append(2) show ?thesis
      by (auto simp del: fun_upd_apply)
  next
    case (Suc k)
    with Append d have "\<exists>r \<in> set (fst (merge_loop ?ws ?m (c + 1) rest)). Key r = Key (rest ! k) \<and> ID r = c + 1 + of_nat k"
      by (intro Append(4)) (auto simp del: fun_upd_apply)
    with Append(2) Suc show ?thesis by (simp add: algebra_simps del: fun_upd_apply)
  qed
qed

section \<open>Merging: the whole operation\<close>

definition merged :: "WorkloadNetworkPolicyStatus \<Rightarrow> ViolationRecord list \<Rightarrow> ViolationRecord list" where
  "merged s scraped =
     fst (merge_loop (Violations s) (index_violations (Violations s) 0 Map.empty) (ViolationCount s) scraped)"

lemma mergeScrapedViolations_eq:
  "mergeScrapedViolations s scraped =
     s\<lparr>Violations := take maxViolationRecords (newest_first stamp (merged s scraped)),
       ViolationCount := ViolationCount s + of_nat (length scraped)\<rparr>"
  by (auto simp: mergeScrapedViolations_def merged_def Let_def split: prod.splits)
    (metis fst_conv merge_loop_count snd_conv)+

lemma merged_keys: "Key ` set (merged s scraped) = Key ` set (Violations s) \<union> Key ` set scraped"
  unfolding merged_def by (rule merge_loop_keys [OF idx_ok_init])

lemma merged_distinct: "distinct (map Key (Violations s)) \<Longrightarrow> distinct (map Key (merged s scraped))"
  unfolding merged_def by (rule merge_loop_distinct [OF idx_ok_init])

lemma ids_ok_sub: "ids_ok vs c \<Longrightarrow> distinct (map ID ws) \<Longrightarrow> set ws \<subseteq> set vs \<Longrightarrow> ids_ok ws c"
  by (auto simp: ids_ok_def list_all_iff)

lemma violations_ok_merge:
  assumes "violations_ok (Violations s) (ViolationCount s)"
    and "unat (ViolationCount s) + length scraped < 2 ^ 63"
  shows "violations_ok (Violations (mergeScrapedViolations s scraped))
           (ViolationCount (mergeScrapedViolations s scraped))"
proof -
  let ?m = "newest_first stamp (merged s scraped)"
  from assms have d: "distinct (map Key (merged s scraped))"
    by (auto simp: violations_ok_def intro: merged_distinct)
  have ids: "ids_ok (merged s scraped) (ViolationCount s + of_nat (length scraped))"
    unfolding merged_def using assms by (intro merge_loop_ids [OF idx_ok_init]) (auto simp: violations_ok_def)
  then have "distinct (map ID ?m)" by (simp add: ids_ok_def)
  then have "distinct (map ID (take maxViolationRecords ?m))" by (metis distinct_take take_map)
  then have "ids_ok (take maxViolationRecords ?m) (ViolationCount s + of_nat (length scraped))"
    by (rule ids_ok_sub [OF ids]) (auto dest: in_set_takeD)
  moreover have "distinct (map Key (take maxViolationRecords ?m))"
    using d by (metis distinct_map_newest_first distinct_take take_map)
  moreover have "sorted_wrt (\<lambda>a b. stamp b \<le> stamp a) (take maxViolationRecords ?m)"
    by (intro sorted_wrt_take newest_first_sorted)
  ultimately show ?thesis by (simp add: mergeScrapedViolations_eq violations_ok_def)
qed

lemma violations_ok_filter: "violations_ok vs c \<Longrightarrow> violations_ok (filter P vs) c"
  by (auto simp: violations_ok_def distinct_map_filter sorted_wrt_filter ids_ok_def list_all_iff
      intro: order_trans [OF length_filter_le])

lemma newest_first_id: "sorted_wrt (\<lambda>a b. t b \<le> t a) xs \<Longrightarrow> newest_first t xs = xs"
  unfolding newest_first_def by (rule sort_key_id_if_sorted) (simp add: sorted_map)

lemma merge_nothing:
  "violations_ok (Violations s) (ViolationCount s) \<Longrightarrow> mergeScrapedViolations s [] = s"
  by (simp add: mergeScrapedViolations_eq merged_def violations_ok_def newest_first_id)

section \<open>Acknowledging: lemmas\<close>

lemma delete_eq_filter: "AList.delete k xs = filter (\<lambda>a. fst a \<noteq> k) xs"
  by (auto simp: AList.delete_eq intro!: filter_cong)

lemma ack_loop_eq:
  "ack_loop A now vs ann =
     (filter (\<lambda>v. map_of A (ID v) = None) vs,
      filter (\<lambda>a. \<forall>v \<in> set vs. \<forall>i. map_of A (ID v) = Some i \<longrightarrow> fst a \<noteq> annotationKey i) ann,
      map (\<lambda>v. \<lparr>Violation = v, Reason = reason (the (map_of A (ID v))), AcknowledgedAt = now\<rparr>)
        (filter (\<lambda>v. map_of A (ID v) \<noteq> None) vs))"
proof (induction vs arbitrary: ann)
  case Nil
  then show ?case by simp
next
  case (Cons v vs)
  then show ?case
    by (cases "map_of A (ID v)") (auto simp: delete_eq_filter conj_commute intro!: filter_cong)
qed

lemma collect_acks_dom:
  "map_of (collect_acks acc ann) i \<noteq> None \<longleftrightarrow>
     map_of acc i \<noteq> None \<or> (\<exists>a \<in> set ann. \<exists>info. ack_entry a = Some (i, info))"
  by (induction ann arbitrary: acc) (auto simp: update_conv' split: option.splits)

lemma collect_acks_sub:
  "set ann' \<subseteq> set ann \<Longrightarrow> map_of (collect_acks [] ann) i = None \<Longrightarrow> map_of (collect_acks [] ann') i = None"
  using collect_acks_dom [of "[]" ann i] collect_acks_dom [of "[]" ann' i] by auto

text \<open>The value an entry ends with belongs to some annotation with that number.\<close>

lemma collect_acks_Some:
  "map_of (collect_acks acc ann) i = Some info \<Longrightarrow>
     map_of acc i = Some info \<or> (\<exists>a \<in> set ann. ack_entry a = Some (i, info))"
proof (induction ann arbitrary: acc)
  case Nil
  then show ?case by simp
next
  case (Cons a ann)
  show ?case
  proof (cases "ack_entry a")
    case None
    with Cons show ?thesis by auto
  next
    case (Some e)
    with Cons.prems have "map_of (collect_acks (AList.update (fst e) (snd e) acc) ann) i = Some info"
      by (simp split: prod.splits)
    from Cons.IH [OF this] Some show ?thesis
      by (cases e) (auto simp: update_conv' split: if_splits)
  qed
qed

definition acked :: "WorkloadNetworkPolicy \<Rightarrow> int64 \<Rightarrow> annotationInfo option" where
  "acked wnp i = map_of (collect_acks [] (om_Annotations (wnp_Meta wnp))) i"

definition ack_record :: "WorkloadNetworkPolicy \<Rightarrow> time \<Rightarrow> ViolationRecord \<Rightarrow> AcknowledgedViolationRecord" where
  "ack_record wnp now v =
     \<lparr>Violation = v, Reason = reason (the (acked wnp (ID v))), AcknowledgedAt = now\<rparr>"

lemma acked_none_if_empty: "collect_acks [] (om_Annotations (wnp_Meta wnp)) = [] \<Longrightarrow> acked wnp i = None"
  by (simp add: acked_def)

lemma acknowledge_violations:
  "Violations (wnp_Status (fst (acknowledgeViolationsFromAnnotations wnp now))) =
     filter (\<lambda>v. acked wnp (ID v) = None) (Violations (wnp_Status wnp))"
  by (auto simp: acknowledgeViolationsFromAnnotations_def Let_def ack_loop_eq acked_def)

lemma acknowledge_acks:
  "snd (acknowledgeViolationsFromAnnotations wnp now) =
     map (ack_record wnp now) (filter (\<lambda>v. acked wnp (ID v) \<noteq> None) (Violations (wnp_Status wnp)))"
  by (auto simp: acknowledgeViolationsFromAnnotations_def Let_def ack_loop_eq acked_def ack_record_def
      filter_empty_conv)

lemma acknowledge_annotations:
  "set (om_Annotations (wnp_Meta (fst (acknowledgeViolationsFromAnnotations wnp now)))) \<subseteq>
     set (om_Annotations (wnp_Meta wnp))"
  by (auto simp: acknowledgeViolationsFromAnnotations_def Let_def ack_loop_eq)

lemma acknowledge_annotations_eq:
  "om_Annotations (wnp_Meta (fst (acknowledgeViolationsFromAnnotations wnp now))) =
     filter (\<lambda>a. \<forall>v \<in> set (Violations (wnp_Status wnp)). \<forall>i. acked wnp (ID v) = Some i \<longrightarrow>
                  fst a \<noteq> annotationKey i) (om_Annotations (wnp_Meta wnp))"
  by (auto simp: acknowledgeViolationsFromAnnotations_def Let_def ack_loop_eq acked_def)

lemma acknowledge_ack_list:
  assumes "acks_ok (AcknowledgedViolations (wnp_Status wnp))"
  shows "AcknowledgedViolations (wnp_Status (fst (acknowledgeViolationsFromAnnotations wnp now))) =
     take maxViolationRecords (newest_first AcknowledgedAt
       (AcknowledgedViolations (wnp_Status wnp) @ snd (acknowledgeViolationsFromAnnotations wnp now)))"
proof -
  have "take maxViolationRecords (newest_first AcknowledgedAt (AcknowledgedViolations (wnp_Status wnp))) =
        AcknowledgedViolations (wnp_Status wnp)"
    using assms by (simp add: acks_ok_def newest_first_id)
  then show ?thesis
    by (auto simp: acknowledgeViolationsFromAnnotations_def Let_def ack_loop_eq)
qed

lemma acknowledge_frame [frame]:
  "wnp_Spec (fst (acknowledgeViolationsFromAnnotations wnp now)) = wnp_Spec wnp"
  "ViolationCount (wnp_Status (fst (acknowledgeViolationsFromAnnotations wnp now))) = ViolationCount (wnp_Status wnp)"
  "Conditions (wnp_Status (fst (acknowledgeViolationsFromAnnotations wnp now))) = Conditions (wnp_Status wnp)"
  "om_Generation (wnp_Meta (fst (acknowledgeViolationsFromAnnotations wnp now))) = om_Generation (wnp_Meta wnp)"
  by (auto simp: acknowledgeViolationsFromAnnotations_def Let_def split: prod.splits)

lemma acks_ok_take: "acks_ok (take maxViolationRecords (newest_first AcknowledgedAt xs))"
  by (simp add: acks_ok_def sorted_wrt_take newest_first_sorted)

section \<open>Clearing: lemmas\<close>

definition allows :: "selector_format \<Rightarrow> PolicyBackendSpec \<Rightarrow> ViolationRecord \<Rightarrow> bool" where
  "allows fmt b v =
     (if Backend b = PolicyBackendKubernetes then
        (case Kubernetes b of None \<Rightarrow> False | Some k \<Rightarrow> kubernetesAllows fmt k v)
      else if Backend b = PolicyBackendIstio then
        (case Istio b of None \<Rightarrow> False | Some i \<Rightarrow> istioAllows i v)
      else False)"

lemma set_violations_id [simp]: "set_violations wnp (Violations (wnp_Status wnp)) = wnp"
  by (simp add: set_violations_def)

lemma clearAllowedViolations_eq:
  assumes "backend_valid (wnp_Backend wnp)"
  shows "clearAllowedViolations fmt wnp =
    Some (set_violations wnp (filter (\<lambda>v. \<not> allows fmt (wnp_Backend wnp) v) (Violations (wnp_Status wnp))))"
  using assms
  by (auto simp: clearAllowedViolations_def clearAllowedKubernetesViolations_def clearAllowedIstioViolations_def
      backend_valid_def allows_def Let_def split: if_splits option.splits)

lemma istioRuleAllowsSource_iff:
  "istioRuleAllowsSource rule src \<longleftrightarrow>
     rule_From rule = [] \<or>
     (\<exists>from \<in> set (rule_From rule). Principals (Source from) = [] \<or> ''*'' \<in> set (Principals (Source from)) \<or>
        wr_Identity src \<in> set (Principals (Source from)))"
  unfolding istioRuleAllowsSource_def list_ex_iff by auto

lemma istioRuleAllowsPort_iff:
  "istioRuleAllowsPort rule p \<longleftrightarrow>
     rule_To rule = [] \<or>
     (\<exists>to \<in> set (rule_To rule). Ports (Operation to) = [] \<or> (\<exists>q \<in> set (Ports (Operation to)). istioPortMatches q p))"
  unfolding istioRuleAllowsPort_def list_ex_iff by auto

section \<open>Recomputing: lemmas\<close>

lemma recompute_eq:
  fixes fmt :: selector_format and wnp :: WorkloadNetworkPolicy and scraped :: "ViolationRecord list"
    and now :: time
  assumes "backend_valid (wnp_Backend wnp)"
  defines "m \<equiv> mergeScrapedViolations (wnp_Status wnp) scraped"
  defines "c \<equiv> set_violations (wnp\<lparr>wnp_Status := m\<rparr>)
                 (filter (\<lambda>v. \<not> allows fmt (wnp_Backend wnp) v) (Violations m))"
  defines "a \<equiv> acknowledgeViolationsFromAnnotations c now"
  shows "recompute fmt wnp scraped now =
    Some ((fst a)\<lparr>wnp_Status := (wnp_Status (fst a))
            \<lparr>ActiveViolationCount := of_nat (length (Violations (wnp_Status (fst a)))),
              ObservedGeneration := om_Generation (wnp_Meta (fst a))\<rparr>\<rparr>, snd a)"
  using assms(1) clearAllowedViolations_eq [of "wnp\<lparr>wnp_Status := m\<rparr>" fmt]
  by (simp add: recompute_def m_def c_def a_def Let_def case_prod_beta)

lemma clear_frame [frame]:
  "wnp_Meta (set_violations w vs) = wnp_Meta w" "wnp_Spec (set_violations w vs) = wnp_Spec w"
  "Violations (wnp_Status (set_violations w vs)) = vs"
  "ViolationCount (wnp_Status (set_violations w vs)) = ViolationCount (wnp_Status w)"
  "AcknowledgedViolations (wnp_Status (set_violations w vs)) = AcknowledgedViolations (wnp_Status w)"
  "acked (set_violations w vs) i = acked w i"
  by (simp_all add: set_violations_def acked_def)

lemma merge_frame [frame]:
  "AcknowledgedViolations (mergeScrapedViolations s sc) = AcknowledgedViolations s"
  "ViolationCount (mergeScrapedViolations s sc) = ViolationCount s + of_nat (length sc)"
  by (simp_all add: mergeScrapedViolations_eq)

lemma acked_status [simp]: "acked (w\<lparr>wnp_Status := s\<rparr>) i = acked w i"
  by (simp add: acked_def)

lemma recompute_ok:
  assumes "backend_valid (wnp_Backend wnp)" and "status_ok (wnp_Status wnp)"
    and "unat (ViolationCount (wnp_Status wnp)) + length scraped < 2 ^ 63"
  shows "\<exists>w acks. recompute fmt wnp scraped now = Some (w, acks) \<and> status_ok (wnp_Status w) \<and>
    wnp_Spec w = wnp_Spec wnp \<and>
    ActiveViolationCount (wnp_Status w) = of_nat (length (Violations (wnp_Status w))) \<and>
    ObservedGeneration (wnp_Status w) = om_Generation (wnp_Meta wnp) \<and>
    ViolationCount (wnp_Status w) = ViolationCount (wnp_Status wnp) + of_nat (length scraped) \<and>
    Violations (wnp_Status w) = filter (\<lambda>v. \<not> allows fmt (wnp_Backend wnp) v \<and> acked wnp (ID v) = None)
      (Violations (mergeScrapedViolations (wnp_Status wnp) scraped)) \<and>
    acks = map (ack_record wnp now) (filter (\<lambda>v. \<not> allows fmt (wnp_Backend wnp) v \<and> acked wnp (ID v) \<noteq> None)
      (Violations (mergeScrapedViolations (wnp_Status wnp) scraped)))"
proof -
  let ?m = "mergeScrapedViolations (wnp_Status wnp) scraped"
  let ?c = "set_violations (wnp\<lparr>wnp_Status := ?m\<rparr>)
                 (filter (\<lambda>v. \<not> allows fmt (wnp_Backend wnp) v) (Violations ?m))"
  from assms violations_ok_merge [of "wnp_Status wnp" scraped]
  have v: "violations_ok (Violations ?m) (ViolationCount (wnp_Status wnp) + of_nat (length scraped))"
    by (simp add: status_ok_def merge_frame)
  have "acks_ok (AcknowledgedViolations (wnp_Status ?c))"
    using assms(2) by (simp add: status_ok_def frame)
  then have a: "acks_ok (AcknowledgedViolations (wnp_Status (fst (acknowledgeViolationsFromAnnotations ?c now))))"
    by (simp add: acknowledge_ack_list acks_ok_take)
  have "ack_record ?c now = ack_record wnp now"
    by (simp add: ack_record_def frame fun_eq_iff)
  moreover have gen: "om_Generation (wnp_Meta (fst (acknowledgeViolationsFromAnnotations ?c now))) = om_Generation (wnp_Meta wnp)"
    by (simp add: frame)
  moreover have vs: "Violations (wnp_Status (fst (acknowledgeViolationsFromAnnotations ?c now))) =
      filter (\<lambda>v. \<not> allows fmt (wnp_Backend wnp) v \<and> acked wnp (ID v) = None) (Violations ?m)"
    by (simp add: acknowledge_violations frame)
  moreover have "violations_ok (Violations (wnp_Status (fst (acknowledgeViolationsFromAnnotations ?c now))))
      (ViolationCount (wnp_Status wnp) + of_nat (length scraped))"
    unfolding vs using v by (rule violations_ok_filter)
  ultimately show ?thesis using a
    by (simp add: recompute_eq [OF assms(1)] status_ok_def acknowledge_acks frame)
qed

lemma acknowledge_nothing:
  assumes "acks_ok (AcknowledgedViolations (wnp_Status wnp))"
    and "\<forall>v \<in> set (Violations (wnp_Status wnp)). acked wnp (ID v) = None"
  shows "acknowledgeViolationsFromAnnotations wnp now = (wnp, [])"
proof -
  have "filter (\<lambda>v. acked wnp (ID v) \<noteq> None) (Violations (wnp_Status wnp)) = []"
    "filter (\<lambda>v. acked wnp (ID v) = None) (Violations (wnp_Status wnp)) = Violations (wnp_Status wnp)"
    using assms(2) by (simp_all add: filter_empty_conv filter_id_conv)
  moreover have "take maxViolationRecords (newest_first AcknowledgedAt (AcknowledgedViolations (wnp_Status wnp))) =
        AcknowledgedViolations (wnp_Status wnp)"
    using assms(1) by (simp add: acks_ok_def newest_first_id)
  ultimately show ?thesis using assms(2)
    by (auto simp: acknowledgeViolationsFromAnnotations_def Let_def ack_loop_eq acked_def)
qed

lemma merged_stamp:
  "distinct (map Key (Violations s)) \<Longrightarrow> r \<in> set (merged s scraped) \<Longrightarrow>
     stamp r = Max (stamps (Key r) (Violations s @ scraped))"
  unfolding merged_def by (rule merge_loop_stamp [OF idx_ok_init])

lemma merged_old_id:
  "distinct (map Key (Violations s)) \<Longrightarrow> v \<in> set (Violations s) \<Longrightarrow>
     \<exists>r \<in> set (merged s scraped). Key r = Key v \<and> ID r = ID v"
  unfolding merged_def by (rule merge_loop_old_id [OF idx_ok_init])

lemma merged_new_id:
  "distinct (map Key (Violations s)) \<Longrightarrow> i < length scraped \<Longrightarrow> Key (scraped ! i) \<notin> Key ` set (Violations s) \<Longrightarrow>
     Key (scraped ! i) \<notin> Key ` set (take i scraped) \<Longrightarrow>
     \<exists>r \<in> set (merged s scraped). Key r = Key (scraped ! i) \<and> ID r = ViolationCount s + of_nat i"
  unfolding merged_def by (rule merge_loop_new_id [OF idx_ok_init])

lemma collect_acks_map_of:
  assumes "distinct (map fst (List.map_filter ack_entry ann))"
    and "set (map fst (List.map_filter ack_entry ann)) \<inter> fst ` set acc = {}"
  shows "map_of (collect_acks acc ann) = map_of acc ++ map_of (List.map_filter ack_entry ann)"
  using assms
proof (induction ann arbitrary: acc)
  case Nil
  then show ?case by (simp add: map_filter_simps)
next
  case (Cons a ann)
  let ?mf = "List.map_filter ack_entry"
  show ?case
  proof (cases "ack_entry a")
    case None
    with Cons show ?thesis by (simp add: map_filter_simps)
  next
    case (Some e)
    obtain i info where e: "e = (i, info)" by (cases e)
    with Some Cons have "map_of (collect_acks (AList.update i info acc) ann) =
        map_of (AList.update i info acc) ++ map_of (List.map_filter ack_entry ann)"
      by (intro Cons.IH) (auto simp: map_filter_simps dom_update)
    moreover have "i \<notin> fst ` set (?mf ann)" using Some e Cons.prems(1) by (simp add: map_filter_simps)
    then have "map_of (?mf ann) i = None" by (simp add: map_of_eq_None_iff)
    ultimately show ?thesis using Some e
      by (simp add: map_filter_simps update_conv' fun_eq_iff map_add_def split: option.splits)
  qed
qed

lemma acked_sub:
  "set (om_Annotations (wnp_Meta w)) \<subseteq> set (om_Annotations (wnp_Meta w')) \<Longrightarrow> acked w' i = None \<Longrightarrow> acked w i = None"
  unfolding acked_def by (rule collect_acks_sub)

lemma fmt_nat_no_dash: "CHR ''-'' \<notin> set (fmt_nat n)"
  using fmt_nat_digits [of "CHR ''-''" n] by auto

lemma parseIstioPortRange_single:
  "n < 2 ^ 31 \<Longrightarrow> parseIstioPortRange (fmt_nat n) = (word_of_nat n, word_of_nat n, True)"
  by (simp add: parseIstioPortRange_def str_cut_no_sep fmt_nat_no_dash parse_int_fmt_nat)

lemma parseIstioPortRange_range:
  "lo < 2 ^ 31 \<Longrightarrow> hi < 2 ^ 31 \<Longrightarrow>
     parseIstioPortRange (fmt_nat lo @ ''-'' @ fmt_nat hi) = (word_of_nat lo, word_of_nat hi, True)"
  by (simp add: parseIstioPortRange_def str_cut_append fmt_nat_no_dash parse_int_fmt_nat)

lemma sint_of_nat: "n < 2 ^ 31 \<Longrightarrow> sint (word_of_nat n :: int32) = int n"
  by (simp add: signed_of_nat signed_take_bit_int_eq_self)

section \<open>A concrete policy\<close>

definition sample_ref :: "string \<Rightarrow> string \<Rightarrow> WorkloadRef" where
  "sample_ref ns n = \<lparr>wr_Namespace = ns, wr_OwnerKind = ''Deployment'', wr_OwnerName = n,
     wr_Identity = spiffeIdentity ns n, wr_Selector = \<lparr>MatchLabels = [(''app'', n)], MatchExpressions = []\<rparr>\<rparr>"

definition sample_violation :: "string \<Rightarrow> time \<Rightarrow> int64 \<Rightarrow> ViolationRecord" where
  "sample_violation src t i =
     \<lparr>Info = \<lparr>Timestamp = t, vi_Source = sample_ref ''front'' src, Dest = sample_ref ''back'' ''api'',
       vi_Protocol = ''TCP'', DstPort = 8080, Action = ''protect'',
       DenyingPolicyNamespace = ''back'', DenyingPolicyName = ''p''\<rparr>, ID = i\<rparr>"

definition sample_istio :: IstioAuthorizationPolicySpec where
  "sample_istio = \<lparr>Selector = \<lparr>MatchLabels = [(''app'', ''api'')], MatchExpressions = []\<rparr>,
     Rules = [\<lparr>rule_From = [\<lparr>Source = \<lparr>Principals = [spiffeIdentity ''front'' ''ok'']\<rparr>\<rparr>],
               rule_To = [\<lparr>Operation = \<lparr>Ports = [''8000-8100'']\<rparr>\<rparr>]\<rparr>]\<rparr>"

definition sample_wnp :: WorkloadNetworkPolicy where
  "sample_wnp =
     \<lparr>wnp_Meta = (meta_named ''back'' ''p'')\<lparr>om_Annotations :=
        [(ViolationAcknowledgePrefix @ ''0'', ''known''), (''owner'', ''team'')]\<rparr>,
      wnp_Spec = \<lparr>spec_Backend = \<lparr>Backend = ''istio'', Kubernetes = None, Istio = Some sample_istio\<rparr>,
        spec_Targeting = \<lparr>TargetRef = \<lparr>tr_Kind = ''Deployment'', tr_Name = ''api''\<rparr>, Direction = ''Ingress''\<rparr>,
        spec_Mode = ''protect''\<rparr>,
      wnp_Status = empty_status\<lparr>Violations := [sample_violation ''a'' 5 0], ViolationCount := 1\<rparr>\<rparr>"

lemmas sample_simps = sample_wnp_def sample_violation_def sample_ref_def sample_istio_def empty_status_def

lemma sample_valid:
  "backend_valid (wnp_Backend sample_wnp)" "status_ok (wnp_Status sample_wnp)"
  "violations_ok (Violations (wnp_Status sample_wnp)) (ViolationCount (wnp_Status sample_wnp))"
  "acks_ok (AcknowledgedViolations (wnp_Status sample_wnp))"
  "unat (ViolationCount (wnp_Status sample_wnp)) = 1"
  by (simp_all add: sample_simps backend_valid_def selector_nonempty_def status_ok_def violations_ok_def
      ids_ok_def acks_ok_def maxViolationRecords_def)

definition sample_scrape :: "ViolationRecord list" where
  "sample_scrape = [sample_violation ''b'' 7 0, sample_violation ''a'' 6 0, sample_violation ''ok'' 8 0]"

lemma sample_scrape_length [simp]: "length sample_scrape = 3"
  by (simp add: sample_scrape_def)

section \<open>Properties\<close>

text \<open>C1. \<open>RecomputeStatus\<close> never panics on an object the API server admits, keeps the status invariant
  (distinct keys and identifiers below the counter, newest first, at most 100 records in each list),
  leaves the specification alone, and sets the counters: the violations that remain are exactly the
  merged ones that the policy does not allow and that no annotation acknowledges, the newly
  acknowledged ones are exactly those that an annotation names.\<close>

theorem RecomputeStatus_correct:
  assumes "backend_valid (wnp_Backend wnp)" and "status_ok (wnp_Status wnp)"
    and "unat (ViolationCount (wnp_Status wnp)) + length scraped < 2 ^ 63"
  shows "\<exists>w. RecomputeStatus fmt (Some wnp) scraped now =
      Some (Some w, map (ack_record wnp now) (filter (\<lambda>v. \<not> allows fmt (wnp_Backend wnp) v \<and> acked wnp (ID v) \<noteq> None)
        (Violations (mergeScrapedViolations (wnp_Status wnp) scraped)))) \<and>
    status_ok (wnp_Status w) \<and> wnp_Spec w = wnp_Spec wnp \<and>
    ActiveViolationCount (wnp_Status w) = of_nat (length (Violations (wnp_Status w))) \<and>
    ObservedGeneration (wnp_Status w) = om_Generation (wnp_Meta wnp) \<and>
    ViolationCount (wnp_Status w) = ViolationCount (wnp_Status wnp) + of_nat (length scraped) \<and>
    Violations (wnp_Status w) = filter (\<lambda>v. \<not> allows fmt (wnp_Backend wnp) v \<and> acked wnp (ID v) = None)
      (Violations (mergeScrapedViolations (wnp_Status wnp) scraped))"
  using recompute_ok [OF assms, of fmt now] by (auto simp: RecomputeStatus_def)

theorem RecomputeStatus_correct_witness:
  "\<exists>w acks. RecomputeStatus (\<lambda>_. []) (Some sample_wnp) sample_scrape 9 = Some (Some w, acks) \<and>
     status_ok (wnp_Status w) \<and> ViolationCount (wnp_Status w) = 4"
  using RecomputeStatus_correct [OF sample_valid(1,2), of sample_scrape "\<lambda>_. []" 9]
  by (auto simp: sample_valid(5)) (auto simp: sample_simps)

text \<open>C15. Merging loses no violation but the oldest: a record kept carries the latest time at which its
  key was seen, before or now; every key seen is kept unless the list is full, and then everything
  kept is at least as recent.\<close>

theorem merge_keeps_newest:
  assumes "violations_ok (Violations s) (ViolationCount s)"
  shows "(\<forall>r \<in> set (Violations (mergeScrapedViolations s scraped)).
            Key r \<in> Key ` set (Violations s @ scraped) \<and>
            stamp r = Max (stamps (Key r) (Violations s @ scraped))) \<and>
    (\<forall>v \<in> set (Violations s @ scraped).
        Key v \<in> Key ` set (Violations (mergeScrapedViolations s scraped)) \<or>
        length (Violations (mergeScrapedViolations s scraped)) = maxViolationRecords \<and>
        (\<forall>r \<in> set (Violations (mergeScrapedViolations s scraped)). stamp v \<le> stamp r))"
    (is "(\<forall>r \<in> set ?kept. _ r) \<and> _")
proof (intro conjI ballI)
  let ?m = "newest_first stamp (merged s scraped)"
  have d: "distinct (map Key (Violations s))" using assms(1) by (simp add: violations_ok_def)
  have kept: "?kept = take maxViolationRecords ?m" by (simp add: mergeScrapedViolations_eq)
  { fix r assume "r \<in> set ?kept"
    then have r: "r \<in> set (merged s scraped)" using kept by (auto dest: in_set_takeD)
    from r have "Key r \<in> Key ` set (merged s scraped)" by (rule imageI)
    then show "Key r \<in> Key ` set (Violations s @ scraped)" by (simp add: merged_keys image_Un)
    from d r show "stamp r = Max (stamps (Key r) (Violations s @ scraped))" by (rule merged_stamp) }
  fix v assume v: "v \<in> set (Violations s @ scraped)"
  then have "Key v \<in> Key ` set (merged s scraped)" by (auto simp: merged_keys)
  then obtain r where r: "r \<in> set (merged s scraped)" "Key r = Key v" by auto
  have le: "stamp v \<le> stamp r"
    using merged_stamp [OF d r(1)] v r(2) by (auto simp: stamps_def)
  have "r \<in> set ?kept \<or> r \<in> set (drop maxViolationRecords ?m)"
    using r(1) kept by (metis append_take_drop_id set_append set_newest_first Un_iff)
  then show "Key v \<in> Key ` set ?kept \<or>
        length ?kept = maxViolationRecords \<and> (\<forall>r \<in> set ?kept. stamp v \<le> stamp r)"
  proof
    assume "r \<in> set ?kept"
    with r(2) show ?thesis by (metis image_eqI)
  next
    assume rd: "r \<in> set (drop maxViolationRecords ?m)"
    then have "length ?m > maxViolationRecords" by (metis drop_all empty_iff empty_set not_le)
    moreover have "stamp r \<le> stamp x" if "x \<in> set ?kept" for x
      using sorted_wrt_take_drop [OF newest_first_sorted [of stamp "merged s scraped"], of x maxViolationRecords r]
        that rd kept by simp
    ultimately show ?thesis using le kept by fastforce
  qed
qed

theorem merge_keeps_newest_witness:
  "Key (sample_violation ''b'' 7 0) \<in>
     Key ` set (Violations (mergeScrapedViolations (wnp_Status sample_wnp) sample_scrape))"
proof -
  have "sample_violation ''b'' 7 0 \<in> set sample_scrape" by (simp add: sample_scrape_def)
  moreover have "length (Violations (mergeScrapedViolations (wnp_Status sample_wnp) sample_scrape)) \<noteq> maxViolationRecords"
    by code_simp
  ultimately show ?thesis
    using merge_keeps_newest [OF sample_valid(3), of sample_scrape] by auto
qed

text \<open>Identifiers are stable and fresh: a violation that was in the status and is still there keeps
  its identifier, and a violation whose key is new gets the counter's value at its first occurrence
  in the scrape, which no earlier record has.\<close>

lemma merge_ids_stable:
  assumes "violations_ok (Violations s) (ViolationCount s)"
    and "unat (ViolationCount s) + length scraped < 2 ^ 63"
    and "r \<in> set (Violations (mergeScrapedViolations s scraped))"
  shows "(\<forall>v \<in> set (Violations s). Key v = Key r \<longrightarrow> ID r = ID v) \<and>
    (\<forall>i < length scraped. Key (scraped ! i) = Key r \<and> Key r \<notin> Key ` set (Violations s) \<and>
       Key r \<notin> Key ` set (take i scraped) \<longrightarrow>
       ID r = ViolationCount s + of_nat i \<and> ID r \<notin> ID ` set (Violations s))"
proof -
  have d: "distinct (map Key (Violations s))" using assms(1) by (simp add: violations_ok_def)
  have r: "r \<in> set (merged s scraped)"
    using assms(3) by (auto simp: mergeScrapedViolations_eq dest: in_set_takeD)
  have same: "x = y" if "x \<in> set (merged s scraped)" "y \<in> set (merged s scraped)" "Key x = Key y" for x y
    using merged_distinct [OF d, of scraped] that by (auto simp: distinct_map dest: inj_onD)
  have "ID r = ID v" if "v \<in> set (Violations s)" "Key v = Key r" for v
    using merged_old_id [OF d that(1), of scraped] same [OF r] that(2) by metis
  moreover have "ID r = ViolationCount s + of_nat i \<and> ID r \<notin> ID ` set (Violations s)"
    if "i < length scraped" "Key (scraped ! i) = Key r" "Key r \<notin> Key ` set (Violations s)"
      "Key r \<notin> Key ` set (take i scraped)" for i
  proof -
    have "ID r = ViolationCount s + of_nat i"
      using merged_new_id [OF d that(1)] same [OF r] that(2-4) by metis
    moreover from assms(2) that(1) have "unat (ViolationCount s + of_nat i) = unat (ViolationCount s) + i"
      by (simp add: unat_word_ariths unat_of_nat)
    ultimately show ?thesis using assms(1) by (auto simp: violations_ok_def ids_ok_def list_all_iff)
  qed
  ultimately show ?thesis by blast
qed

lemma sample_merge:
  "sample_violation ''b'' 7 1 \<in> set (Violations (mergeScrapedViolations (wnp_Status sample_wnp) sample_scrape))"
  by code_simp

text \<open>Acknowledging partitions the violations: those an annotation names leave the list and are
  returned with the reason of such an annotation and the current time, in order; the others stay;
  the annotations that were used are removed and no other is touched; the acknowledged list holds
  the newest of what it held and what was added.\<close>

lemma acknowledge_partitions:
  assumes "acks_ok (AcknowledgedViolations (wnp_Status wnp))"
    and "acknowledgeViolationsFromAnnotations wnp now = (w, acks)"
  shows "Violations (wnp_Status w) = filter (\<lambda>v. acked wnp (ID v) = None) (Violations (wnp_Status wnp)) \<and>
    map Violation acks = filter (\<lambda>v. acked wnp (ID v) \<noteq> None) (Violations (wnp_Status wnp)) \<and>
    (\<forall>a \<in> set acks. AcknowledgedAt a = now \<and>
       (\<exists>k. (k, Reason a) \<in> set (om_Annotations (wnp_Meta wnp)) \<and>
            ack_entry (k, Reason a) = Some (ID (Violation a), \<lparr>annotationKey = k, reason = Reason a\<rparr>) \<and>
            (\<forall>r. (k, r) \<notin> set (om_Annotations (wnp_Meta w))))) \<and>
    set (om_Annotations (wnp_Meta w)) \<subseteq> set (om_Annotations (wnp_Meta wnp)) \<and>
    AcknowledgedViolations (wnp_Status w) =
      take maxViolationRecords (newest_first AcknowledgedAt (AcknowledgedViolations (wnp_Status wnp) @ acks))"
proof -
  have w: "w = fst (acknowledgeViolationsFromAnnotations wnp now)"
    and acks: "acks = snd (acknowledgeViolationsFromAnnotations wnp now)" using assms(2) by simp_all
  have "AcknowledgedAt a = now \<and>
       (\<exists>k. (k, Reason a) \<in> set (om_Annotations (wnp_Meta wnp)) \<and>
            ack_entry (k, Reason a) = Some (ID (Violation a), \<lparr>annotationKey = k, reason = Reason a\<rparr>) \<and>
            (\<forall>r. (k, r) \<notin> set (om_Annotations (wnp_Meta w))))" if "a \<in> set acks" for a
  proof -
    from that obtain v info where v: "v \<in> set (Violations (wnp_Status wnp))" "acked wnp (ID v) = Some info"
        "a = \<lparr>Violation = v, Reason = reason info, AcknowledgedAt = now\<rparr>"
      by (auto simp: acks acknowledge_acks ack_record_def)
    with collect_acks_Some [of "[]" "om_Annotations (wnp_Meta wnp)" "ID v" info]
    obtain b where b: "b \<in> set (om_Annotations (wnp_Meta wnp))" "ack_entry b = Some (ID v, info)"
      unfolding acked_def by fastforce
    from b(2) have "b = (annotationKey info, reason info)"
      by (auto simp: ack_entry_def split: prod.splits if_splits option.splits)
    with v b show ?thesis
      by (intro conjI exI [of _ "annotationKey info"]) (auto simp: w acknowledge_annotations_eq)
  qed
  moreover have "map Violation acks = filter (\<lambda>v. acked wnp (ID v) \<noteq> None) (Violations (wnp_Status wnp))"
    by (simp add: acks acknowledge_acks ack_record_def comp_def)
  ultimately show ?thesis
    using acknowledge_ack_list [OF assms(1), of now] acknowledge_annotations [of wnp now]
    by (simp add: w acknowledge_violations flip: acks)
qed

lemma sample_ack_entries:
  "List.map_filter ack_entry (om_Annotations (wnp_Meta sample_wnp)) =
     [(0, \<lparr>annotationKey = ViolationAcknowledgePrefix @ ''0'', reason = ''known''\<rparr>)]"
  by (simp add: sample_simps map_filter_simps ack_entry_def ViolationAcknowledgePrefix_def cut_prefix_def
      has_prefix_def parse_int_def parse_uint_def is_digit_def digit_val_def)

lemma sample_acked:
  "acked sample_wnp i =
     (if i = 0 then Some \<lparr>annotationKey = ViolationAcknowledgePrefix @ ''0'', reason = ''known''\<rparr> else None)"
  unfolding acked_def by (subst collect_acks_map_of) (simp_all add: sample_ack_entries)

text \<open>Recomputing is idempotent: running \<open>RecomputeStatus\<close> again on its own result, with nothing newly
  scraped, changes nothing and acknowledges nothing, at whatever time it runs.\<close>

lemma RecomputeStatus_idempotent:
  assumes "backend_valid (wnp_Backend wnp)" and "status_ok (wnp_Status wnp)"
    and "unat (ViolationCount (wnp_Status wnp)) + length scraped < 2 ^ 63"
    and "RecomputeStatus fmt (Some wnp) scraped now = Some (Some w, acks)"
  shows "RecomputeStatus fmt (Some w) [] later = Some (Some w, [])"
proof -
  from recompute_ok [OF assms(1-3), of fmt now] assms(4) have w: "recompute fmt wnp scraped now = Some (w, acks)"
      "status_ok (wnp_Status w)" "wnp_Spec w = wnp_Spec wnp"
      "ActiveViolationCount (wnp_Status w) = of_nat (length (Violations (wnp_Status w)))"
      "ObservedGeneration (wnp_Status w) = om_Generation (wnp_Meta wnp)"
      "Violations (wnp_Status w) = filter (\<lambda>v. \<not> allows fmt (wnp_Backend wnp) v \<and> acked wnp (ID v) = None)
        (Violations (mergeScrapedViolations (wnp_Status wnp) scraped))"
    by (auto simp: RecomputeStatus_def)
  have meta: "om_Generation (wnp_Meta w) = om_Generation (wnp_Meta wnp)"
    "set (om_Annotations (wnp_Meta w)) \<subseteq> set (om_Annotations (wnp_Meta wnp))"
    using w(1) assms(1) acknowledge_annotations by (fastforce simp: recompute_eq frame)+
  have m: "mergeScrapedViolations (wnp_Status w) [] = wnp_Status w"
    using w(2) by (intro merge_nothing) (simp add: status_ok_def)
  have f: "filter (\<lambda>v. \<not> allows fmt (wnp_Backend w) v) (Violations (wnp_Status w)) = Violations (wnp_Status w)"
    by (rule filter_True) (simp add: w(3,6))
  have "acknowledgeViolationsFromAnnotations w later = (w, [])"
    using w(2,6) meta(2) by (intro acknowledge_nothing) (auto simp: status_ok_def intro: acked_sub)
  then show ?thesis
    using assms(1) w(3-5) meta(1) m f by (simp add: RecomputeStatus_def recompute_eq)
qed

text \<open>The order in which Go iterates over the annotations does not matter as long as no two of them
  name the same violation: the status and the acknowledged records are the same.\<close>

lemma acknowledge_order_irrelevant:
  assumes "mset ann' = mset (om_Annotations (wnp_Meta wnp))"
    and "distinct (map fst (List.map_filter ack_entry (om_Annotations (wnp_Meta wnp))))"
  shows "let w = acknowledgeViolationsFromAnnotations wnp now;
             w' = acknowledgeViolationsFromAnnotations (wnp\<lparr>wnp_Meta := (wnp_Meta wnp)\<lparr>om_Annotations := ann'\<rparr>\<rparr>) now
         in wnp_Status (fst w') = wnp_Status (fst w) \<and> snd w' = snd w \<and>
            mset (om_Annotations (wnp_Meta (fst w'))) = mset (om_Annotations (wnp_Meta (fst w)))"
proof -
  let ?ann = "om_Annotations (wnp_Meta wnp)"
  let ?f = "List.map_filter ack_entry"
  have mf: "mset (?f ann') = mset (?f ?ann)"
    using assms(1) by (simp add: List.map_filter_def)
  then have "mset (map fst (?f ann')) = mset (map fst (?f ?ann))" by (metis mset_map)
  then have d': "distinct (map fst (?f ann'))" using assms(2) by (metis mset_eq_imp_distinct_iff)
  have "map_of (?f ann') = map_of (?f ?ann)"
    using d' assms(2) mf by (metis map_of_inject_set mset_eq_setD)
  then have A: "map_of (collect_acks [] ann') = map_of (collect_acks [] ?ann)"
    using assms(2) d' by (simp add: collect_acks_map_of)
  have e: "collect_acks [] ann' = [] \<longleftrightarrow> collect_acks [] ?ann = []"
    using A by (metis map_of.simps(1) map_of_eq_empty_iff)
  have "ann' = [] \<longleftrightarrow> ?ann = []" using assms(1) by (metis mset_zero_iff)
  moreover have "mset (filter P ann') = mset (filter P ?ann)" for P using assms(1) by (simp add: mset_filter)
  ultimately show ?thesis
    using A e assms(1) by (simp add: acknowledgeViolationsFromAnnotations_def Let_def ack_loop_eq)
qed

text \<open>Port specifications of an Istio rule: a printed port matches exactly itself, a printed range
  \<open>lo-hi\<close> exactly the ports between its ends.\<close>

lemma istioPortMatches_printed:
  assumes "lo < 2 ^ 31" and "hi < 2 ^ 31"
  shows "(istioPortMatches (fmt_nat lo) p \<longleftrightarrow> sint p = int lo) \<and>
    (istioPortMatches (fmt_nat lo @ ''-'' @ fmt_nat hi) p \<longleftrightarrow> int lo \<le> sint p \<and> sint p \<le> int hi)"
  unfolding istioPortMatches_def parseIstioPortRange_single [OF assms(1)] parseIstioPortRange_range [OF assms]
  using assms by (auto simp: sint_of_nat)

end
