(* ===== verification/KubeClient.thy ===== *)
theory KubeClient
  imports ApiTypes
begin

text \<open>
  The boundary to the Kubernetes API. The controller-runtime client, the API server behind it and the
  helpers of apimachinery are third-party code: they are the fields of the record \<open>client\<close>, functions
  over an abstract cluster state \<open>'w\<close>. A read returns an object or an error, a write returns the new
  cluster state and an outcome. Nothing is assumed of them here; a theorem that needs documented
  behaviour names it as a hypothesis (section "Documented behaviour"), and \<open>mem_client\<close>, a store kept
  in association lists, shows that the hypotheses can hold together.

  Also here: Go's error values as the source builds them (\<open>errors.New\<close>, \<open>fmt.Errorf\<close> with \<open>%w\<close>,
  \<open>errors.Join\<close>) and the predicates that look through the wrapping.
\<close>

section \<open>Errors\<close>

datatype api_reason = NotFound | AlreadyExists | Conflict | Invalid | InternalError | OtherReason

text \<open>\<open>Wrapped pre e post\<close> is \<open>fmt.Errorf(pre + "%w" + post, e)\<close>; \<open>Sentinel\<close> is a package-level error
  value compared by \<open>errors.Is\<close>; \<open>OwnershipConflict\<close> is the \<open>policyOwnershipConflictError\<close> of the
  policy controller.\<close>

datatype error =
    ApiStatus api_reason string
  | Plain string
  | Sentinel string
  | OwnershipConflict string NamespacedName
  | Wrapped string error string
  | Joined error error

definition nn_string :: "NamespacedName \<Rightarrow> string" where
  "nn_string k = nn_Namespace k @ ''/'' @ nn_Name k"

fun error_string :: "error \<Rightarrow> string" where
  "error_string (ApiStatus _ m) = m"
| "error_string (Plain m) = m"
| "error_string (Sentinel m) = m"
| "error_string (OwnershipConflict kind key) =
     kind @ '' '' @ nn_string key @ '' is not controlled by this WorkloadNetworkPolicy''"
| "error_string (Wrapped pre e post) = pre @ error_string e @ post"
| "error_string (Joined a b) = error_string a @ [CHR 0x0A] @ error_string b"

definition wrap :: "string \<Rightarrow> error \<Rightarrow> error" where
  "wrap pre e = Wrapped (pre @ '': '') e []"

text \<open>\<open>apierrors.ReasonForError\<close>: the first API status in the chain. \<open>errors.Is\<close> and \<open>errors.AsType\<close> look
  through wrapping and joining alike.\<close>

fun error_reason :: "error \<Rightarrow> api_reason option" where
  "error_reason (ApiStatus r _) = Some r"
| "error_reason (Wrapped _ e _) = error_reason e"
| "error_reason (Joined a b) = (case error_reason a of None \<Rightarrow> error_reason b | Some r \<Rightarrow> Some r)"
| "error_reason _ = None"

definition is_not_found :: "error \<Rightarrow> bool" where
  "is_not_found e \<longleftrightarrow> error_reason e = Some NotFound"

definition is_already_exists :: "error \<Rightarrow> bool" where
  "is_already_exists e \<longleftrightarrow> error_reason e = Some AlreadyExists"

fun error_is :: "error \<Rightarrow> string \<Rightarrow> bool" where
  "error_is (Sentinel m) s \<longleftrightarrow> m = s"
| "error_is (Wrapped _ e _) s \<longleftrightarrow> error_is e s"
| "error_is (Joined a b) s \<longleftrightarrow> error_is a s \<or> error_is b s"
| "error_is _ s \<longleftrightarrow> False"

fun is_ownership_conflict :: "error \<Rightarrow> bool" where
  "is_ownership_conflict (OwnershipConflict _ _) \<longleftrightarrow> True"
| "is_ownership_conflict (Wrapped _ e _) \<longleftrightarrow> is_ownership_conflict e"
| "is_ownership_conflict (Joined a b) \<longleftrightarrow> is_ownership_conflict a \<or> is_ownership_conflict b"
| "is_ownership_conflict _ \<longleftrightarrow> False"

text \<open>\<open>errors.Join\<close> of two possibly nil errors, and \<open>client.IgnoreNotFound\<close>.\<close>

definition error_join :: "error option \<Rightarrow> error option \<Rightarrow> error option" where
  "error_join a b =
     (case (a, b) of
        (None, None) \<Rightarrow> None
      | (Some e, None) \<Rightarrow> Some e
      | (None, Some e) \<Rightarrow> Some e
      | (Some e, Some f) \<Rightarrow> Some (Joined e f))"

definition ignore_not_found :: "error \<Rightarrow> error option" where
  "ignore_not_found e = (if is_not_found e then None else Some e)"

text \<open>The errors of the API types, as the strings they carry.\<close>

fun api_type_error :: "ApiError \<Rightarrow> error" where
  "api_type_error NilPolicy = Plain ''WorkloadNetworkPolicy is nil''"
| "api_type_error (ProposalNameTooLong n) = Plain (''proposalName '' @ [CHR 0x22] @ n @ [CHR 0x22] @ '' is too long'')"
| "api_type_error NilKubernetesBackend = Plain ''WorkloadNetworkPolicy kubernetes backend is nil''"
| "api_type_error NilIstioBackend = Plain ''WorkloadNetworkPolicy istio backend is nil''"
| "api_type_error (UnsupportedBackend b) = Plain (''unsupported WorkloadNetworkPolicy backend: '' @ b)"

section \<open>Objects\<close>

record Pod =
  pod_Meta :: ObjectMeta
  pod_ServiceAccountName :: string
  pod_IP :: string

text \<open>The part of a Deployment, StatefulSet or DaemonSet that is read: metadata, the label selector and
  the labels of the pod template.\<close>

record WorkloadObject =
  wo_Meta :: ObjectMeta
  wo_Selector :: "LabelSelector option"
  wo_TemplateLabels :: strmap

record ReplicaSet =
  rs_Meta :: ObjectMeta

record NetworkPolicy =
  np_Meta :: ObjectMeta
  np_Spec :: NetworkPolicySpec

datatype AuthorizationAction = ALLOW | DENY | AUDIT | CUSTOM

record APRule =
  apr_From :: "(string list) list"
  apr_To :: "(string list) list"

text \<open>The rendered Istio specification: the match labels of its selector, and per rule the principals of
  each source and the ports of each operation.\<close>

record APSpec =
  aps_Action :: AuthorizationAction
  aps_Selector :: "strmap option"
  aps_Rules :: "APRule list"

record AuthorizationPolicy =
  ap_Meta :: ObjectMeta
  ap_Spec :: APSpec

section \<open>The client\<close>

text \<open>A patch gets the object and the base that it is computed from. \<open>patchWNPStatus\<close> stands for the patches of the status subresource with and
  without an optimistic lock, which differ in when they fail. \<open>patchWNPP\<close> returns the server's answer, which the code goes on with.\<close>

record 'w client =
  getPod :: "'w \<Rightarrow> NamespacedName \<Rightarrow> error + Pod"
  getWorkload :: "'w \<Rightarrow> WorkloadKind \<Rightarrow> NamespacedName \<Rightarrow> error + WorkloadObject"
  getReplicaSet :: "'w \<Rightarrow> NamespacedName \<Rightarrow> error + ReplicaSet"
  getWNP :: "'w \<Rightarrow> NamespacedName \<Rightarrow> error + WorkloadNetworkPolicy"
  getWNPP :: "'w \<Rightarrow> NamespacedName \<Rightarrow> error + WorkloadNetworkPolicyProposal"
  getNP :: "'w \<Rightarrow> NamespacedName \<Rightarrow> error + NetworkPolicy"
  getAP :: "'w \<Rightarrow> NamespacedName \<Rightarrow> error + AuthorizationPolicy"
  listWNP :: "'w \<Rightarrow> string option \<Rightarrow> error + WorkloadNetworkPolicy list"
  listWNPByField :: "'w \<Rightarrow> string \<Rightarrow> string \<Rightarrow> string \<Rightarrow> error + WorkloadNetworkPolicy list"
  listWNPByLabels :: "'w \<Rightarrow> string \<Rightarrow> strmap \<Rightarrow> error + WorkloadNetworkPolicy list"
  listWorkloads :: "'w \<Rightarrow> WorkloadKind \<Rightarrow> string \<Rightarrow> error + WorkloadObject list"
  listPods :: "'w \<Rightarrow> string \<Rightarrow> error + Pod list"
  listPodsBySelector :: "'w \<Rightarrow> string \<Rightarrow> (strmap \<Rightarrow> bool) \<Rightarrow> error + Pod list"
  listPodsByField :: "'w \<Rightarrow> string \<Rightarrow> string \<Rightarrow> error + Pod list"
  listNP :: "'w \<Rightarrow> error + NetworkPolicy list"
  createWNP :: "'w \<Rightarrow> WorkloadNetworkPolicy \<Rightarrow> 'w \<times> error option"
  patchWNPStatus :: "'w \<Rightarrow> WorkloadNetworkPolicy \<Rightarrow> WorkloadNetworkPolicy \<Rightarrow> 'w \<times> error option"
  patchWNP :: "'w \<Rightarrow> WorkloadNetworkPolicy \<Rightarrow> WorkloadNetworkPolicy \<Rightarrow> 'w \<times> error option"
  deleteWNPP :: "'w \<Rightarrow> WorkloadNetworkPolicyProposal \<Rightarrow> 'w \<times> error option"
  patchWNPP :: "'w \<Rightarrow> WorkloadNetworkPolicyProposal \<Rightarrow> WorkloadNetworkPolicyProposal \<Rightarrow>
    'w \<times> (error + WorkloadNetworkPolicyProposal)"
  deleteNP :: "'w \<Rightarrow> NetworkPolicy \<Rightarrow> 'w \<times> error option"
  createOrUpdateNP :: "'w \<Rightarrow> NetworkPolicy \<Rightarrow> (NetworkPolicy \<Rightarrow> error + NetworkPolicy) \<Rightarrow>
    'w \<times> (error + NetworkPolicy)"
  createOrPatchAP :: "'w \<Rightarrow> AuthorizationPolicy \<Rightarrow> (AuthorizationPolicy \<Rightarrow> error + AuthorizationPolicy) \<Rightarrow>
    'w \<times> (error + AuthorizationPolicy)"
  createOrUpdateWNPP :: "'w \<Rightarrow> WorkloadNetworkPolicyProposal \<Rightarrow>
    (WorkloadNetworkPolicyProposal \<Rightarrow> error + WorkloadNetworkPolicyProposal) \<Rightarrow>
    'w \<times> (error + WorkloadNetworkPolicyProposal)"

text \<open>The helpers of apimachinery and controller-runtime that take no cluster state.
  \<open>labelSelectorAsSelector\<close> is \<open>metav1.LabelSelectorAsSelector\<close>: an error, or the predicate on label
  sets together with what \<open>Empty()\<close> says of it; \<open>getControllerOf\<close> and \<open>isControlledBy\<close> are of
  metav1 (the latter compares with the UID of the owner); \<open>setControllerReference\<close> adds a controller
  reference to a list of owner references; \<open>findStatusCondition\<close> and \<open>setStatusCondition\<close> are of
  apimachinery's meta package.\<close>

record helpers =
  formatLabelSelector :: "LabelSelector option \<Rightarrow> string"
  labelSelectorAsSelector :: "LabelSelector \<Rightarrow> error + ((strmap \<Rightarrow> bool) \<times> bool)"
  getControllerOf :: "OwnerReference list \<Rightarrow> OwnerReference option"
  isControlledBy :: "OwnerReference list \<Rightarrow> UID \<Rightarrow> bool"
  setControllerReference :: "string \<Rightarrow> ObjectMeta \<Rightarrow> ObjectMeta \<Rightarrow> error + OwnerReference list"
  findStatusCondition :: "Condition list \<Rightarrow> string \<Rightarrow> Condition option"
  setStatusCondition :: "Condition list \<Rightarrow> Condition \<Rightarrow> Condition list \<times> bool"

section \<open>Documented behaviour\<close>

text \<open>A field index returns the objects of the namespace that the registered index function maps to
  the value; a label query returns those that carry the labels.\<close>

definition field_index_ok ::
    "'w client \<Rightarrow> 'w \<Rightarrow> string \<Rightarrow> (WorkloadNetworkPolicy \<Rightarrow> string list) \<Rightarrow> WorkloadNetworkPolicy list \<Rightarrow> bool" where
  "field_index_ok c w field f objs \<longleftrightarrow>
     (\<forall>ns v. listWNPByField c w ns field v = Inr (filter (\<lambda>p. wnp_Namespace p = ns \<and> v \<in> set (f p)) objs))"

text \<open>The API server assigns the identity, the generation and the timestamps of an object; \<open>user_meta\<close> is
  the metadata without them. \<open>CreateOrUpdate\<close> and \<open>CreateOrPatch\<close> read the object, or start from the one
  given when there is none, apply the mutation, and store the result; on success the stored object is
  the mutated one up to those fields. The theorems that assume this of the reads are about a cluster whose reads are current, without
  defaulting by the server; those about reads that lag behind assume laws of what the server has instead.\<close>

definition user_meta :: "ObjectMeta \<Rightarrow> ObjectMeta" where
  "user_meta m = m\<lparr>om_UID := [], om_Generation := 0, om_CreationTimestamp := None, om_DeletionTimestamp := None\<rparr>"

definition create_or_update_ok ::
    "('w \<Rightarrow> NamespacedName \<Rightarrow> error + 'o) \<Rightarrow> ('w \<Rightarrow> 'o \<Rightarrow> ('o \<Rightarrow> error + 'o) \<Rightarrow> 'w \<times> (error + 'o)) \<Rightarrow>
     ('o \<Rightarrow> ObjectMeta) \<Rightarrow> ('o \<Rightarrow> 's) \<Rightarrow> bool" where
  "create_or_update_ok get cu meta spec \<longleftrightarrow>
     (\<forall>w obj f w' r. cu w obj f = (w', Inr r) \<longrightarrow>
        get w' (meta_key (meta obj)) = Inr r \<and>
        (\<exists>m. user_meta (meta r) = user_meta (meta m) \<and> spec r = spec m \<and>
           (case get w (meta_key (meta obj)) of
              Inr old \<Rightarrow> f old = Inr m
            | Inl e \<Rightarrow> is_not_found e \<and> f obj = Inr m)))"

text \<open>\<open>truth\<close> is what the API server has, whatever the reads of the client return. A policy is created only under a name that is free, and then
  is there with the metadata and the specification it was given; the error that the name is taken means that it is, and that nothing was
  changed. Deleting a proposal does not touch policies.\<close>

definition create_wnp_ok :: "'w client \<Rightarrow> ('w \<Rightarrow> NamespacedName \<Rightarrow> WorkloadNetworkPolicy option) \<Rightarrow> bool" where
  "create_wnp_ok c truth \<longleftrightarrow>
     (\<forall>w p w' r. createWNP c w p = (w', r) \<longrightarrow>
        (case r of
           None \<Rightarrow> truth w (meta_key (wnp_Meta p)) = None \<and>
             (\<exists>q. truth w' (meta_key (wnp_Meta p)) = Some q \<and> user_meta (wnp_Meta q) = user_meta (wnp_Meta p) \<and> wnp_Spec q = wnp_Spec p)
         | Some e \<Rightarrow> is_already_exists e \<longrightarrow> truth w (meta_key (wnp_Meta p)) \<noteq> None \<and> w' = w))"

definition delete_wnpp_local :: "'w client \<Rightarrow> ('w \<Rightarrow> NamespacedName \<Rightarrow> WorkloadNetworkPolicy option) \<Rightarrow> bool" where
  "delete_wnpp_local c truth \<longleftrightarrow> (\<forall>w p. truth (fst (deleteWNPP c w p)) = truth w)"

text \<open>\<open>IsControlledBy\<close> is \<open>GetControllerOf\<close> compared by UID, and a controller reference that was set
  is found again. It is not set on an object that has another controller; the owner is the same if kind and name are.\<close>

definition owner_helpers_ok :: "helpers \<Rightarrow> bool" where
  "owner_helpers_ok h \<longleftrightarrow>
     (\<forall>refs uid. isControlledBy h refs uid \<longleftrightarrow>
        (case getControllerOf h refs of None \<Rightarrow> False | Some r \<Rightarrow> or_UID r = uid)) \<and>
     (\<forall>kind owner m refs. setControllerReference h kind owner m = Inr refs \<longrightarrow>
        isControlledBy h refs (om_UID owner) \<and>
        (case getControllerOf h (om_OwnerReferences m) of None \<Rightarrow> True | Some r \<Rightarrow> or_Kind r = kind \<and> or_Name r = om_Name owner))"

section \<open>Lemmas\<close>

lemma wrap_simps [simp]:
  "error_reason (wrap pre e) = error_reason e" "error_is (wrap pre e) s = error_is e s"
  "is_ownership_conflict (wrap pre e) = is_ownership_conflict e"
  "is_not_found (wrap pre e) = is_not_found e" "is_already_exists (wrap pre e) = is_already_exists e"
  by (simp_all add: wrap_def is_not_found_def is_already_exists_def)

lemma user_meta_eqD:
  assumes "user_meta a = user_meta b"
  shows "om_Name a = om_Name b" "om_Namespace a = om_Namespace b" "om_Labels a = om_Labels b"
    "om_Annotations a = om_Annotations b" "om_OwnerReferences a = om_OwnerReferences b" "meta_key a = meta_key b"
proof -
  have fields: "om_Name (user_meta m) = om_Name m" "om_Namespace (user_meta m) = om_Namespace m"
    "om_Labels (user_meta m) = om_Labels m" "om_Annotations (user_meta m) = om_Annotations m"
    "om_OwnerReferences (user_meta m) = om_OwnerReferences m" for m by (simp_all add: user_meta_def)
  show "om_Name a = om_Name b" "om_Namespace a = om_Namespace b" "om_Labels a = om_Labels b"
    "om_Annotations a = om_Annotations b" "om_OwnerReferences a = om_OwnerReferences b"
    using assms by (metis fields)+
  then show "meta_key a = meta_key b" by (simp add: meta_key_def)
qed

lemma create_or_updateE:
  assumes "create_or_update_ok get cu meta spec" and "cu w obj f = (w', Inr r)"
  obtains base m where "get w' (meta_key (meta obj)) = Inr r" "f base = Inr m"
    "user_meta (meta r) = user_meta (meta m)" "spec r = spec m"
    "case get w (meta_key (meta obj)) of Inr old \<Rightarrow> base = old | Inl e \<Rightarrow> is_not_found e \<and> base = obj"
proof -
  from assms obtain m where m: "get w' (meta_key (meta obj)) = Inr r" "user_meta (meta r) = user_meta (meta m)" "spec r = spec m"
    and c: "case get w (meta_key (meta obj)) of Inr old \<Rightarrow> f old = Inr m | Inl e \<Rightarrow> is_not_found e \<and> f obj = Inr m"
    unfolding create_or_update_ok_def by blast
  from c obtain base where "f base = Inr m" "case get w (meta_key (meta obj)) of Inr old \<Rightarrow> base = old | Inl e \<Rightarrow> is_not_found e \<and> base = obj"
    by (auto split: sum.splits)
  with m that show thesis by blast
qed

lemma error_join_None [simp]: "error_join a b = None \<longleftrightarrow> a = None \<and> b = None"
  by (auto simp: error_join_def split: option.splits)

lemma ignore_not_found_None [simp]: "ignore_not_found e = None \<longleftrightarrow> is_not_found e"
  by (simp add: ignore_not_found_def)

end
