(* ===== verification/MemCluster.thy ===== *)
theory MemCluster
  imports KubeClient
begin

text \<open>
  A cluster kept in association lists, and plain versions of the apimachinery helpers: concrete
  arguments for the parameters of the model. It has the documented behaviour that the theorems of the
  controllers assume of the real client, which shows that their hypotheses can hold.
\<close>

section \<open>The store\<close>

record store =
  st_pods :: "Pod list"
  st_workloads :: "(WorkloadKind \<times> WorkloadObject) list"
  st_replicasets :: "ReplicaSet list"
  st_wnps :: "WorkloadNetworkPolicy list"
  st_wnpps :: "WorkloadNetworkPolicyProposal list"
  st_nps :: "NetworkPolicy list"
  st_aps :: "AuthorizationPolicy list"

definition empty_store :: store where
  "empty_store = \<lparr>st_pods = [], st_workloads = [], st_replicasets = [], st_wnps = [], st_wnpps = [],
     st_nps = [], st_aps = []\<rparr>"

definition mem_find :: "('o \<Rightarrow> ObjectMeta) \<Rightarrow> 'o list \<Rightarrow> NamespacedName \<Rightarrow> error + 'o" where
  "mem_find meta os k =
     (case find (\<lambda>x. meta_key (meta x) = k) os of
        None \<Rightarrow> Inl (ApiStatus NotFound (''not found: '' @ nn_string k))
      | Some x \<Rightarrow> Inr x)"

fun mem_put :: "('o \<Rightarrow> ObjectMeta) \<Rightarrow> NamespacedName \<Rightarrow> 'o list \<Rightarrow> 'o \<Rightarrow> 'o list" where
  "mem_put meta k [] x = [x]"
| "mem_put meta k (y # ys) x = (if meta_key (meta y) = k then x # ys else y # mem_put meta k ys x)"

definition mem_del :: "('o \<Rightarrow> ObjectMeta) \<Rightarrow> 'o list \<Rightarrow> NamespacedName \<Rightarrow> 'o list" where
  "mem_del meta os k = filter (\<lambda>x. meta_key (meta x) \<noteq> k) os"

text \<open>The objects that a read by name can return.\<close>

fun mem_first :: "('o \<Rightarrow> ObjectMeta) \<Rightarrow> 'o list \<Rightarrow> 'o list" where
  "mem_first meta [] = []"
| "mem_first meta (x # xs) = x # filter (\<lambda>y. meta_key (meta y) \<noteq> meta_key (meta x)) (mem_first meta xs)"

definition labels_match :: "strmap \<Rightarrow> strmap \<Rightarrow> bool" where
  "labels_match want have \<longleftrightarrow> list_all (\<lambda>(k, v). map_of have k = Some v) want"

text \<open>Read, mutate, check that the mutation kept the identity, store.\<close>

definition mem_upsert ::
    "('o \<Rightarrow> ObjectMeta) \<Rightarrow> (store \<Rightarrow> 'o list) \<Rightarrow> ('o list \<Rightarrow> store \<Rightarrow> store) \<Rightarrow>
     store \<Rightarrow> 'o \<Rightarrow> ('o \<Rightarrow> error + 'o) \<Rightarrow> store \<times> (error + 'o)" where
  "mem_upsert meta sel upd w x f =
     (let k = meta_key (meta x);
          base = (case mem_find meta (sel w) k of Inl _ \<Rightarrow> x | Inr y \<Rightarrow> y)
      in case f base of
           Inl e \<Rightarrow> (w, Inl e)
         | Inr y \<Rightarrow>
             if meta_key (meta y) \<noteq> k then (w, Inl (Plain ''MutateFn cannot mutate object name and/or object namespace''))
             else (upd (mem_put meta k (sel w) y) w, Inr y))"

definition mem_client :: "(string \<times> (WorkloadNetworkPolicy \<Rightarrow> string list)) list \<Rightarrow> store client" where
  "mem_client idx =
     \<lparr>getPod = \<lambda>w. mem_find pod_Meta (st_pods w),
      getWorkload = \<lambda>w kind. mem_find wo_Meta (map snd (filter (\<lambda>x. fst x = kind) (st_workloads w))),
      getReplicaSet = \<lambda>w. mem_find rs_Meta (st_replicasets w),
      getWNP = \<lambda>w. mem_find wnp_Meta (st_wnps w),
      getWNPP = \<lambda>w. mem_find wnpp_Meta (st_wnpps w),
      getNP = \<lambda>w. mem_find np_Meta (st_nps w),
      getAP = \<lambda>w. mem_find ap_Meta (st_aps w),
      listWNP = \<lambda>w ns. Inr (case ns of None \<Rightarrow> mem_first wnp_Meta (st_wnps w) | Some n \<Rightarrow> filter (\<lambda>p. wnp_Namespace p = n) (st_wnps w)),
      listWNPByField = \<lambda>w ns field v. (case map_of idx field of
         None \<Rightarrow> Inl (Plain ''no such index'')
       | Some f \<Rightarrow> Inr (filter (\<lambda>p. wnp_Namespace p = ns \<and> v \<in> set (f p)) (st_wnps w))),
      listWNPByLabels = \<lambda>w ns ls. Inr (filter (\<lambda>p. wnp_Namespace p = ns \<and> labels_match ls (om_Labels (wnp_Meta p))) (st_wnps w)),
      listWorkloads = \<lambda>w kind ns. Inr (filter (\<lambda>o'. om_Namespace (wo_Meta o') = ns)
         (map snd (filter (\<lambda>x. fst x = kind) (st_workloads w)))),
      listPods = \<lambda>w ns. Inr (filter (\<lambda>p. om_Namespace (pod_Meta p) = ns) (st_pods w)),
      listPodsBySelector = \<lambda>w ns sel. Inr (filter (\<lambda>p. om_Namespace (pod_Meta p) = ns \<and> sel (om_Labels (pod_Meta p))) (st_pods w)),
      listPodsByField = \<lambda>w field v. Inr (filter (\<lambda>p. pod_IP p \<noteq> [] \<and> pod_IP p = v) (st_pods w)),
      listNP = \<lambda>w. Inr (st_nps w),
      createWNP = \<lambda>w p. (case mem_find wnp_Meta (st_wnps w) (meta_key (wnp_Meta p)) of
         Inr _ \<Rightarrow> (w, Some (ApiStatus AlreadyExists ''already exists''))
       | Inl _ \<Rightarrow> (w\<lparr>st_wnps := st_wnps w @ [p]\<rparr>, None)),
      patchWNPStatus = \<lambda>w p base. (case mem_find wnp_Meta (st_wnps w) (meta_key (wnp_Meta p)) of
         Inl e \<Rightarrow> (w, Some e)
       | Inr old \<Rightarrow> (w\<lparr>st_wnps := mem_put wnp_Meta (meta_key (wnp_Meta p)) (st_wnps w) (old\<lparr>wnp_Status := wnp_Status p\<rparr>)\<rparr>, None)),
      patchWNP = \<lambda>w p base. (case mem_find wnp_Meta (st_wnps w) (meta_key (wnp_Meta p)) of
         Inl e \<Rightarrow> (w, Some e)
       | Inr old \<Rightarrow> (w\<lparr>st_wnps := mem_put wnp_Meta (meta_key (wnp_Meta p)) (st_wnps w)
            (old\<lparr>wnp_Meta := wnp_Meta p, wnp_Spec := wnp_Spec p\<rparr>)\<rparr>, None)),
      deleteWNPP = \<lambda>w p. (case mem_find wnpp_Meta (st_wnpps w) (meta_key (wnpp_Meta p)) of
         Inl e \<Rightarrow> (w, Some e)
       | Inr _ \<Rightarrow> (w\<lparr>st_wnpps := mem_del wnpp_Meta (st_wnpps w) (meta_key (wnpp_Meta p))\<rparr>, None)),
      patchWNPP = \<lambda>w p base. (case mem_find wnpp_Meta (st_wnpps w) (meta_key (wnpp_Meta p)) of
         Inl e \<Rightarrow> (w, Inl e)
       | Inr _ \<Rightarrow> (w\<lparr>st_wnpps := mem_put wnpp_Meta (meta_key (wnpp_Meta p)) (st_wnpps w) p\<rparr>, Inr p)),
      deleteNP = \<lambda>w p. (case mem_find np_Meta (st_nps w) (meta_key (np_Meta p)) of
         Inl e \<Rightarrow> (w, Some e)
       | Inr _ \<Rightarrow> (w\<lparr>st_nps := mem_del np_Meta (st_nps w) (meta_key (np_Meta p))\<rparr>, None)),
      createOrUpdateNP = mem_upsert np_Meta st_nps (\<lambda>xs w. w\<lparr>st_nps := xs\<rparr>),
      createOrPatchAP = mem_upsert ap_Meta st_aps (\<lambda>xs w. w\<lparr>st_aps := xs\<rparr>),
      createOrUpdateWNPP = mem_upsert wnpp_Meta st_wnpps (\<lambda>xs w. w\<lparr>st_wnpps := xs\<rparr>)\<rparr>"

section \<open>The helpers\<close>

definition mem_format :: "LabelSelector option \<Rightarrow> string" where
  "mem_format s =
     (case s of
        None \<Rightarrow> ''<none>''
      | Some l \<Rightarrow>
          if MatchLabels l = [] \<and> MatchExpressions l = [] then ''<all>''
          else str_join (map (\<lambda>(k, v). k @ ''='' @ v) (MatchLabels l)) '','')"

definition mem_controller :: "OwnerReference list \<Rightarrow> OwnerReference option" where
  "mem_controller refs = find (\<lambda>r. or_Controller r = Some True) refs"

definition mem_set_controller :: "string \<Rightarrow> ObjectMeta \<Rightarrow> ObjectMeta \<Rightarrow> error + OwnerReference list" where
  "mem_set_controller kind owner m =
     (let ref = \<lparr>or_APIVersion = [], or_Kind = kind, or_Name = om_Name owner, or_UID = om_UID owner,
             or_Controller = Some True, or_BlockOwnerDeletion = Some True\<rparr> in
      case mem_controller (om_OwnerReferences m) of
        Some r \<Rightarrow>
          if or_Kind r = kind \<and> or_Name r = om_Name owner then Inr (map (\<lambda>x. if x = r then ref else x) (om_OwnerReferences m))
          else Inl (Plain ''already owned'')
      | None \<Rightarrow> Inr (om_OwnerReferences m @ [ref]))"

definition mem_helpers :: helpers where
  "mem_helpers =
     \<lparr>formatLabelSelector = mem_format,
      labelSelectorAsSelector = \<lambda>s. Inr (labels_match (MatchLabels s), MatchLabels s = [] \<and> MatchExpressions s = []),
      getControllerOf = mem_controller,
      isControlledBy = \<lambda>refs uid. (case mem_controller refs of None \<Rightarrow> False | Some r \<Rightarrow> or_UID r = uid),
      setControllerReference = mem_set_controller,
      findStatusCondition = \<lambda>cs t. find (\<lambda>c. cond_Type c = t) cs,
      setStatusCondition = \<lambda>cs c. (if c \<in> set cs then (cs, False)
         else (filter (\<lambda>d. cond_Type d \<noteq> cond_Type c) cs @ [c], True))\<rparr>"

section \<open>It behaves as documented\<close>

lemma mem_find_put: "meta_key (meta x) = k \<Longrightarrow> mem_find meta (mem_put meta k xs x) k = Inr x"
  by (induction xs) (auto simp: mem_find_def split: option.splits)

lemma mem_find_key: "mem_find meta xs k = Inr x \<Longrightarrow> x \<in> set xs \<and> meta_key (meta x) = k"
  by (auto simp: mem_find_def find_Some_iff split: option.splits)

text \<open>What a list of objects holds under a name, without the error of a read.\<close>

definition has_obj :: "('o \<Rightarrow> ObjectMeta) \<Rightarrow> 'o list \<Rightarrow> NamespacedName \<Rightarrow> 'o option" where
  "has_obj meta xs k = (case mem_find meta xs k of Inl _ \<Rightarrow> None | Inr x \<Rightarrow> Some x)"

lemma has_obj_find [simp]: "has_obj meta xs k = Some x \<longleftrightarrow> mem_find meta xs k = Inr x"
  by (simp add: has_obj_def split: sum.splits)

lemma mem_find_Inl: "mem_find meta xs k = Inl e \<Longrightarrow> is_not_found e"
  by (auto simp: mem_find_def is_not_found_def split: option.splits)

lemma mem_first_find: "x \<in> set (mem_first meta xs) \<Longrightarrow> mem_find meta xs (meta_key (meta x)) = Inr x"
  by (induction xs) (auto simp: mem_find_def)

lemma mem_upsert_ok:
  assumes "\<And>xs w. sel (upd xs w) = xs"
  shows "create_or_update_ok (\<lambda>w. mem_find meta (sel w)) (mem_upsert meta sel upd) meta spec"
  using assms
  by (auto simp: create_or_update_ok_def mem_upsert_def Let_def mem_find_put mem_find_Inl
      split: sum.splits if_splits)

lemma mem_client_upserts:
  "create_or_update_ok (getNP (mem_client idx)) (createOrUpdateNP (mem_client idx)) np_Meta np_Spec"
  "create_or_update_ok (getAP (mem_client idx)) (createOrPatchAP (mem_client idx)) ap_Meta ap_Spec"
  "create_or_update_ok (getWNPP (mem_client idx)) (createOrUpdateWNPP (mem_client idx)) wnpp_Meta wnpp_Spec"
  by (simp_all add: mem_client_def mem_upsert_ok)

lemma mem_client_index:
  "map_of idx field = Some f \<Longrightarrow> field_index_ok (mem_client idx) w field f (st_wnps w)"
  by (simp add: field_index_ok_def mem_client_def)

lemma find_snoc: "find P xs = None \<Longrightarrow> P x \<Longrightarrow> find P (xs @ [x]) = Some x"
  by (induction xs) (auto split: if_splits)

lemma find_replace: "find P xs = Some r \<Longrightarrow> P y \<Longrightarrow> find P (map (\<lambda>x. if x = r then y else x) xs) = Some y"
  by (induction xs) (auto split: if_splits)

lemma mem_helpers_owner: "owner_helpers_ok mem_helpers"
  by (auto simp: owner_helpers_ok_def mem_helpers_def mem_set_controller_def mem_controller_def find_snoc find_replace Let_def
      split: option.splits if_splits)

end
