(* ===== verification/Workload.thy ===== *)
theory Workload
  imports MemCluster
begin

text \<open>
  \<^verbatim>\<open>internal/workload\<close>: resolving a pod to the workload that owns it, reading a workload's pod
  selector, and finding the one WorkloadNetworkPolicy that targets a workload in a direction through
  the field index on \<open>(targetRef.kind, targetRef.name, direction)\<close>.
\<close>

section \<open>Model\<close>

definition DefaultDeploymentUniqueLabelKey :: string where
  "DefaultDeploymentUniqueLabelKey = ''pod-template-hash''"

subsection \<open>From a pod to its workload (extract.go)\<close>

definition GetNameAndKind :: "helpers \<Rightarrow> Pod \<Rightarrow> WorkloadRef" where
  "GetNameAndKind h pod =
     (let ns = om_Namespace (pod_Meta pod) in
      case getControllerOf h (om_OwnerReferences (pod_Meta pod)) of
        None \<Rightarrow> wr_zero\<lparr>wr_Namespace := ns, wr_OwnerKind := WorkloadKindPod, wr_OwnerName := om_Name (pod_Meta pod)\<rparr>
      | Some ref \<Rightarrow>
          let kind = or_Kind ref; name = or_Name ref in
          if kind = WorkloadKindReplicaSet then
            let hash = map_get0 (om_Labels (pod_Meta pod)) DefaultDeploymentUniqueLabelKey in
            if hash = [] \<or> \<not> has_suffix name hash then
              wr_zero\<lparr>wr_Namespace := ns, wr_OwnerKind := WorkloadKindReplicaSet, wr_OwnerName := name\<rparr>
            else
              wr_zero\<lparr>wr_Namespace := ns, wr_OwnerKind := WorkloadKindDeployment,
                wr_OwnerName := trim_suffix name (''-'' @ hash)\<rparr>
          else wr_zero\<lparr>wr_Namespace := ns, wr_OwnerKind := kind, wr_OwnerName := name\<rparr>)"

definition LookupPodSelectorForWorkload ::
    "helpers \<Rightarrow> 'w client \<Rightarrow> 'w \<Rightarrow> WorkloadRef \<Rightarrow> error + WorkloadRef" where
  "LookupPodSelectorForWorkload h c w wk =
     (let key = \<lparr>nn_Namespace = wr_Namespace wk, nn_Name = wr_OwnerName wk\<rparr> in
      if wr_OwnerKind wk \<in> {WorkloadKindDeployment, WorkloadKindStatefulSet, WorkloadKindDaemonSet} then
        (case getWorkload c w (wr_OwnerKind wk) key of
           Inl e \<Rightarrow> Inl e
         | Inr obj \<Rightarrow>
             (case wo_Selector obj of
                None \<Rightarrow> Inl (Plain ''nil label selector not allowed'')
              | Some selector \<Rightarrow>
                  (case labelSelectorAsSelector h selector of
                     Inl e \<Rightarrow> Inl (wrap ''failed to convert label selector'' e)
                   | Inr (_, isEmpty) \<Rightarrow>
                       if isEmpty then Inl (Plain ''empty selector not allowed'')
                       else Inr (wk\<lparr>wr_Selector := selector\<rparr>))))
      else Inl (Plain (''unsupported workload kind: '' @ wr_OwnerKind wk)))"

definition Get :: "helpers \<Rightarrow> 'w client \<Rightarrow> 'w \<Rightarrow> NamespacedName \<Rightarrow> error + WorkloadRef" where
  "Get h c w podNamespacedName =
     (case getPod c w podNamespacedName of
        Inl e \<Rightarrow> Inl (wrap (''getting Pod '' @ [CHR 0x22] @ nn_string podNamespacedName @ [CHR 0x22]) e)
      | Inr pod \<Rightarrow>
          let ref = GetNameAndKind h pod in
          if \<not> IsSupported ref then Inr ref
          else (case LookupPodSelectorForWorkload h c w ref of
                  Inl e \<Rightarrow> Inl (wrap (''failed to lookup '' @ wr_OwnerKind ref @ '' '' @ wr_Namespace ref @ ''/'' @
                                wr_OwnerName ref @ '' label selector'') e)
                | Inr ref' \<Rightarrow> Inr ref'))"

text \<open>The typed empty object, or nil for an unsupported kind: the kind the client is asked for.\<close>

definition OwnerObjectFor :: "WorkloadKind \<Rightarrow> WorkloadKind option" where
  "OwnerObjectFor kind =
     (if kind = WorkloadKindDeployment then Some WorkloadKindDeployment
      else if kind = WorkloadKindStatefulSet then Some WorkloadKindStatefulSet
      else if kind = WorkloadKindDaemonSet then Some WorkloadKindDaemonSet
      else None)"

subsection \<open>The target index (target_index.go)\<close>

definition WNPTargetIndexField :: string where
  "WNPTargetIndexField = ''spec.targetRef.kind,spec.targetRef.name,spec.direction''"

definition ErrTargetNotFound :: string where
  "ErrTargetNotFound = ''no WorkloadNetworkPolicy targets the workload and direction''"

definition ErrDuplicateTarget :: string where
  "ErrDuplicateTarget = ''multiple WorkloadNetworkPolicies share the same targetRef and direction''"

definition WNPTargetIndexKey :: "WorkloadKind \<Rightarrow> string \<Rightarrow> PolicyType \<Rightarrow> string" where
  "WNPTargetIndexKey kind name direction = kind @ ''/'' @ name @ ''/'' @ direction"

definition IndexWNPByTarget :: "WorkloadNetworkPolicy \<Rightarrow> string list" where
  "IndexWNPByTarget wnp =
     (let ref = wnp_TargetRef wnp in
      if tr_Kind ref = [] \<or> tr_Name ref = [] \<or> wnp_Direction wnp = [] then []
      else [WNPTargetIndexKey (tr_Kind ref) (tr_Name ref) (wnp_Direction wnp)])"

definition LookupWNPByTarget ::
    "'w client \<Rightarrow> 'w \<Rightarrow> string \<Rightarrow> WorkloadKind \<Rightarrow> string \<Rightarrow> PolicyType \<Rightarrow> error + WorkloadNetworkPolicy" where
  "LookupWNPByTarget c w ns kind name direction =
     (case listWNPByField c w ns WNPTargetIndexField (WNPTargetIndexKey kind name direction) of
        Inl e \<Rightarrow> Inl (wrap (''listing WorkloadNetworkPolicies in namespace '' @ ns) e)
      | Inr items \<Rightarrow>
          (let what = '': '' @ kind @ '' '' @ ns @ ''/'' @ name @ '' '' @ direction in
           case items of
             [] \<Rightarrow> Inl (Wrapped [] (Sentinel ErrTargetNotFound) what)
           | [p] \<Rightarrow> Inr p
           | _ \<Rightarrow> Inl (Wrapped [] (Sentinel ErrDuplicateTarget)
                       (what @ '': '' @ str_join (map wnp_Name items) '', ''))))"

definition ResolveDenyingPolicy ::
    "'w client \<Rightarrow> 'w \<Rightarrow> WorkloadRef \<Rightarrow> PolicyType \<Rightarrow> error + NamespacedName" where
  "ResolveDenyingPolicy c w wk direction =
     (case LookupWNPByTarget c w (wr_Namespace wk) (wr_OwnerKind wk) (wr_OwnerName wk) direction of
        Inl e \<Rightarrow> Inl e
      | Inr wnp \<Rightarrow> Inr (wnp_NamespacedName (Some wnp)))"

section \<open>Specification\<close>

text \<open>What the index stands for: the policy is in the namespace and names exactly this workload and
  direction.\<close>

definition targets :: "string \<Rightarrow> WorkloadKind \<Rightarrow> string \<Rightarrow> PolicyType \<Rightarrow> WorkloadNetworkPolicy \<Rightarrow> bool" where
  "targets ns kind name direction p \<longleftrightarrow>
     wnp_Namespace p = ns \<and> wnp_TargetRef p = \<lparr>tr_Kind = kind, tr_Name = name\<rparr> \<and> wnp_Direction p = direction"

definition slash_free :: "string \<Rightarrow> bool" where
  "slash_free s \<longleftrightarrow> CHR ''/'' \<notin> set s"

text \<open>The enumerations of the schema have no slash in them.\<close>

definition target_enums_ok :: "WorkloadNetworkPolicy \<Rightarrow> bool" where
  "target_enums_ok p \<longleftrightarrow> slash_free (tr_Kind (wnp_TargetRef p)) \<and> slash_free (wnp_Direction p)"

section \<open>Lemmas\<close>

lemma append_slash_inj:
  assumes "a @ CHR ''/'' # x = b @ CHR ''/'' # y" and "slash_free a" and "slash_free b"
  shows "a = b \<and> x = y"
proof -
  have "str_cut CHR ''/'' (a @ CHR ''/'' # x) = str_cut CHR ''/'' (b @ CHR ''/'' # y)"
    by (simp only: assms(1))
  with assms(2,3) show ?thesis by (simp add: str_cut_append slash_free_def)
qed

lemma append_slash_inj_right:
  assumes "x @ CHR ''/'' # a = y @ CHR ''/'' # b" and "slash_free a" and "slash_free b"
  shows "x = y \<and> a = b"
proof -
  have "rev a @ CHR ''/'' # rev x = rev b @ CHR ''/'' # rev y"
    using arg_cong [OF assms(1), of rev] by simp
  from append_slash_inj [OF this] assms(2,3) show ?thesis by (simp add: slash_free_def)
qed

lemma WNPTargetIndexKey_eq:
  assumes "slash_free k" and "slash_free k'" and "slash_free d" and "slash_free d'"
  shows "WNPTargetIndexKey k n d = WNPTargetIndexKey k' n' d' \<longleftrightarrow> k = k' \<and> n = n' \<and> d = d'"
proof
  assume "WNPTargetIndexKey k n d = WNPTargetIndexKey k' n' d'"
  then have "k @ CHR ''/'' # (n @ CHR ''/'' # d) = k' @ CHR ''/'' # (n' @ CHR ''/'' # d')"
    by (simp add: WNPTargetIndexKey_def)
  from append_slash_inj [OF this assms(1,2)] append_slash_inj_right [of n d n' d'] assms(3,4)
  show "k = k' \<and> n = n' \<and> d = d'" by blast
qed simp

lemma in_index_iff:
  assumes "target_enums_ok p" and "slash_free kind" and "slash_free direction"
    and "kind \<noteq> []" and "name \<noteq> []" and "direction \<noteq> []"
  shows "wnp_Namespace p = ns \<and> WNPTargetIndexKey kind name direction \<in> set (IndexWNPByTarget p) \<longleftrightarrow>
    targets ns kind name direction p"
  using assms
  by (cases "wnp_TargetRef p")
    (auto simp: IndexWNPByTarget_def Let_def targets_def target_enums_ok_def WNPTargetIndexKey_eq)

lemma listWNPByField_targets:
  assumes "field_index_ok c w WNPTargetIndexField IndexWNPByTarget objs"
    and "\<forall>p \<in> set objs. target_enums_ok p" and "slash_free kind" and "slash_free direction"
    and "kind \<noteq> []" and "name \<noteq> []" and "direction \<noteq> []"
  shows "listWNPByField c w ns WNPTargetIndexField (WNPTargetIndexKey kind name direction) =
    Inr (filter (targets ns kind name direction) objs)"
proof -
  have "filter (\<lambda>p. wnp_Namespace p = ns \<and> WNPTargetIndexKey kind name direction \<in> set (IndexWNPByTarget p)) objs =
        filter (targets ns kind name direction) objs"
    using assms(2-) by (intro filter_cong refl in_index_iff) auto
  with assms(1) show ?thesis by (simp add: field_index_ok_def)
qed

lemma LookupWNPByTarget_Inr:
  "LookupWNPByTarget c w ns kind name direction = Inr p \<longleftrightarrow>
     listWNPByField c w ns WNPTargetIndexField (WNPTargetIndexKey kind name direction) = Inr [p]"
  by (auto simp: LookupWNPByTarget_def Let_def split: sum.splits list.splits)

lemma LookupWNPByTarget_is:
  "LookupWNPByTarget c w ns kind name direction = Inl e \<Longrightarrow> error_is e ErrDuplicateTarget \<Longrightarrow>
     listWNPByField c w ns WNPTargetIndexField (WNPTargetIndexKey kind name direction) = Inr items \<Longrightarrow>
     2 \<le> length items"
  by (auto simp: LookupWNPByTarget_def Let_def ErrDuplicateTarget_def ErrTargetNotFound_def
      split: list.splits)

lemma ErrTargetNotFound_neq [simp]: "ErrTargetNotFound \<noteq> ErrDuplicateTarget" "ErrDuplicateTarget \<noteq> ErrTargetNotFound"
  by (simp_all add: ErrDuplicateTarget_def ErrTargetNotFound_def)

lemma GetNameAndKind_frame [frame]:
  "wr_Namespace (GetNameAndKind h pod) = om_Namespace (pod_Meta pod)"
  "wr_Identity (GetNameAndKind h pod) = []"
  by (auto simp: GetNameAndKind_def Let_def wr_zero_def split: option.splits)

section \<open>Properties\<close>

text \<open>\<open>LookupWNPByTarget\<close> finds the policy that targets a workload in a direction when there is exactly
  one, and otherwise says which of the two reasons it is: with the target index registered, its
  answer depends only on the list of policies that name this workload and direction.\<close>

lemma LookupWNPByTarget_exact:
  assumes "field_index_ok c w WNPTargetIndexField IndexWNPByTarget objs"
    and "\<forall>p \<in> set objs. target_enums_ok p" and "slash_free kind" and "slash_free direction"
    and "kind \<noteq> []" and "name \<noteq> []" and "direction \<noteq> []"
  shows "case filter (targets ns kind name direction) objs of
      [] \<Rightarrow> \<exists>e. LookupWNPByTarget c w ns kind name direction = Inl e \<and>
               error_is e ErrTargetNotFound \<and> \<not> error_is e ErrDuplicateTarget
    | [p] \<Rightarrow> LookupWNPByTarget c w ns kind name direction = Inr p
    | _ \<Rightarrow> \<exists>e. LookupWNPByTarget c w ns kind name direction = Inl e \<and>
               error_is e ErrDuplicateTarget \<and> \<not> error_is e ErrTargetNotFound"
  using listWNPByField_targets [OF assms, of ns]
  by (auto simp: LookupWNPByTarget_def Let_def split: list.splits)

definition sample_target_wnp :: WorkloadNetworkPolicy where
  "sample_target_wnp =
     \<lparr>wnp_Meta = meta_named ''back'' ''p'',
      wnp_Spec = \<lparr>spec_Backend = \<lparr>Backend = ''kubernetes'', Kubernetes = Some empty_np_spec, Istio = None\<rparr>,
        spec_Targeting = \<lparr>TargetRef = \<lparr>tr_Kind = ''Deployment'', tr_Name = ''api''\<rparr>, Direction = ''Ingress''\<rparr>,
        spec_Mode = ''protect''\<rparr>,
      wnp_Status = empty_status\<rparr>"

definition sample_index :: "(string \<times> (WorkloadNetworkPolicy \<Rightarrow> string list)) list" where
  "sample_index = [(WNPTargetIndexField, IndexWNPByTarget)]"

lemma sample_index_ok: "field_index_ok (mem_client sample_index) w WNPTargetIndexField IndexWNPByTarget (st_wnps w)"
  by (rule mem_client_index) (simp add: sample_index_def)

text \<open>Distinct targets have distinct index keys, so two policies share a key exactly when they
  target the same workload in the same direction: a workload name may even contain the separator,
  because kinds and directions do not.\<close>

lemma WNPTargetIndexKey_injective:
  assumes "slash_free k" and "slash_free k'" and "slash_free d" and "slash_free d'"
    and "WNPTargetIndexKey k n d = WNPTargetIndexKey k' n' d'"
  shows "k = k' \<and> n = n' \<and> d = d'"
  using assms by (simp add: WNPTargetIndexKey_eq)

lemma WNPTargetIndexKey_injective_witness:
  "WNPTargetIndexKey ''Deployment'' ''a/b'' ''Ingress'' \<noteq> WNPTargetIndexKey ''Deployment'' ''a'' ''Egress''"
  using WNPTargetIndexKey_injective [of "''Deployment''" "''Deployment''" "''Ingress''" "''Egress''" "''a/b''" "''a''"]
  by (auto simp: slash_free_def)

text \<open>Resolving a pod of a Deployment: when its controller is a ReplicaSet named after the Deployment
  and the pod's template hash, the Deployment is found; a pod without a controller stands for itself,
  and a ReplicaSet that is not named after the hash is reported as it is, which is not a supported
  workload.\<close>

lemma GetNameAndKind_resolves:
  assumes "getControllerOf h (om_OwnerReferences (pod_Meta pod)) = ctl"
  shows "(ctl = None \<longrightarrow> wr_OwnerKind (GetNameAndKind h pod) = WorkloadKindPod \<and>
            wr_OwnerName (GetNameAndKind h pod) = om_Name (pod_Meta pod)) \<and>
    (\<forall>ref hash d. ctl = Some ref \<and> or_Kind ref = WorkloadKindReplicaSet \<and> hash \<noteq> [] \<and>
       map_of (om_Labels (pod_Meta pod)) DefaultDeploymentUniqueLabelKey = Some hash \<and>
       or_Name ref = d @ ''-'' @ hash \<longrightarrow>
       wr_OwnerKind (GetNameAndKind h pod) = WorkloadKindDeployment \<and> wr_OwnerName (GetNameAndKind h pod) = d \<and>
       IsSupported (GetNameAndKind h pod)) \<and>
    (\<forall>ref. ctl = Some ref \<and> or_Kind ref = WorkloadKindReplicaSet \<and>
       \<not> has_suffix (or_Name ref) (map_get0 (om_Labels (pod_Meta pod)) DefaultDeploymentUniqueLabelKey) \<longrightarrow>
       \<not> IsSupported (GetNameAndKind h pod))"
proof -
  have "has_suffix (d @ ''-'' @ hash) hash" for d hash
    using has_suffix_append [of "d @ ''-''" hash] by simp
  moreover have "trim_suffix (d @ ''-'' @ hash) (''-'' @ hash) = d" for d hash
    by (rule trim_suffix_append)
  ultimately show ?thesis
    using assms by (auto simp: GetNameAndKind_def Let_def wr_zero_def IsSupported_def map_get0_def)
qed

lemma GetNameAndKind_resolves_witness:
  "wr_OwnerName (GetNameAndKind mem_helpers
     \<lparr>pod_Meta = (meta_named ''ns'' ''web-abc-1'')\<lparr>om_Labels := [(DefaultDeploymentUniqueLabelKey, ''abc'')],
        om_OwnerReferences := [\<lparr>or_APIVersion = [], or_Kind = ''ReplicaSet'', or_Name = ''web-abc'', or_UID = [],
          or_Controller = Some True, or_BlockOwnerDeletion = Some True\<rparr>]\<rparr>,
      pod_ServiceAccountName = [], pod_IP = []\<rparr>) = ''web''"
  using GetNameAndKind_resolves [of mem_helpers "\<lparr>pod_Meta = (meta_named ''ns'' ''web-abc-1'')
      \<lparr>om_Labels := [(DefaultDeploymentUniqueLabelKey, ''abc'')],
        om_OwnerReferences := [\<lparr>or_APIVersion = [], or_Kind = ''ReplicaSet'', or_Name = ''web-abc'', or_UID = [],
          or_Controller = Some True, or_BlockOwnerDeletion = Some True\<rparr>]\<rparr>, pod_ServiceAccountName = [], pod_IP = []\<rparr>", OF refl]
  by (simp add: mem_helpers_def mem_controller_def)

text \<open>A reference that \<open>Get\<close> returns for a supported workload carries the selector of that workload,
  which converts and is not empty; so no policy rule is ever learned with an empty pod selector.\<close>

lemma Get_selector:
  assumes "Get h c w podKey = Inr ref" and "IsSupported ref"
  shows "\<exists>obj m. getWorkload c w (wr_OwnerKind ref) \<lparr>nn_Namespace = wr_Namespace ref, nn_Name = wr_OwnerName ref\<rparr> = Inr obj \<and>
    wo_Selector obj = Some (wr_Selector ref) \<and> labelSelectorAsSelector h (wr_Selector ref) = Inr (m, False)"
  using assms
  by (auto simp: Get_def LookupPodSelectorForWorkload_def Let_def split: sum.splits if_splits option.splits)

definition sample_deployment :: "string \<Rightarrow> string \<Rightarrow> WorkloadKind \<times> WorkloadObject" where
  "sample_deployment ns n =
     (''Deployment'', \<lparr>wo_Meta = (meta_named ns n)\<lparr>om_UID := ''uid-'' @ n\<rparr>,
        wo_Selector = Some \<lparr>MatchLabels = [(''app'', n)], MatchExpressions = []\<rparr>,
        wo_TemplateLabels = [(''app'', n)]\<rparr>)"

definition sample_pod :: "string \<Rightarrow> string \<Rightarrow> Pod" where
  "sample_pod ns n =
     \<lparr>pod_Meta = (meta_named ns (n @ ''-abc-1''))
        \<lparr>om_Labels := [(DefaultDeploymentUniqueLabelKey, ''abc''), (''app'', n)],
         om_OwnerReferences := [\<lparr>or_APIVersion = [], or_Kind = ''ReplicaSet'', or_Name = n @ ''-abc'', or_UID = [],
           or_Controller = Some True, or_BlockOwnerDeletion = Some True\<rparr>]\<rparr>,
      pod_ServiceAccountName = n, pod_IP = ''10.0.0.1''\<rparr>"

lemma Get_selector_witness:
  "\<exists>ref (obj :: WorkloadObject). Get mem_helpers (mem_client sample_index)
       (empty_store\<lparr>st_pods := [sample_pod ''ns'' ''web''], st_workloads := [sample_deployment ''ns'' ''web'']\<rparr>)
       \<lparr>nn_Namespace = ''ns'', nn_Name = ''web-abc-1''\<rparr> = Inr ref \<and> wo_Selector obj = Some (wr_Selector ref)"
proof -
  let ?w = "empty_store\<lparr>st_pods := [sample_pod ''ns'' ''web''], st_workloads := [sample_deployment ''ns'' ''web'']\<rparr>"
  let ?k = "\<lparr>nn_Namespace = ''ns'', nn_Name = ''web-abc-1''\<rparr>"
  let ?ref = "wr_zero\<lparr>wr_Namespace := ''ns'', wr_OwnerKind := ''Deployment'', wr_OwnerName := ''web'',
      wr_Selector := \<lparr>MatchLabels = [(''app'', ''web'')], MatchExpressions = []\<rparr>\<rparr>"
  have "Get mem_helpers (mem_client sample_index) ?w ?k = Inr ?ref"
    by code_simp
  moreover have "IsSupported ?ref" by (simp add: IsSupported_def)
  ultimately show ?thesis
    using Get_selector [of mem_helpers "mem_client sample_index" ?w ?k ?ref] by blast
qed

end
