(* ===== verification/Violation.thy ===== *)
theory Violation
  imports ViolationRecords
begin

text \<open>
  The in-flight violation of \<^verbatim>\<open>internal/violation\<close>: an observation is a violation without an
  identifier, with the backend that saw it and the direction, and \<open>EmitOtelLog\<close> exports it to an
  OpenTelemetry logger with a fixed attribute schema. The logger (third-party) is the list of the
  records it was given, or nil; \<open>AddAttributes\<close> appends.
\<close>

section \<open>Model\<close>

record Observation =
  obs_Info :: ViolationInfo
  Provider :: PolicyBackend
  obs_Direction :: PolicyType

datatype attr_value = AString string | AInt64 int64

datatype Severity = SeverityInfo | SeverityWarn

record OtelRecord =
  rec_EventName :: string
  rec_Body :: "string option"
  rec_Severity :: Severity
  rec_Timestamp :: time
  rec_Attributes :: "(string \<times> attr_value) list"

type_synonym OtelLogger = "OtelRecord list option"

definition eventNameViolationObserved :: string where
  "eventNameViolationObserved = ''policy_violation_observed''"

definition otelAttrEnforcementProvider :: string where "otelAttrEnforcementProvider = ''enforcement.provider''"
definition otelAttrAction :: string where "otelAttrAction = ''action''"
definition otelAttrSrcName :: string where "otelAttrSrcName = ''source.workload.name''"
definition otelAttrSrcNamespace :: string where "otelAttrSrcNamespace = ''source.workload.namespace''"
definition otelAttrSrcKind :: string where "otelAttrSrcKind = ''source.workload.kind''"
definition otelAttrSrcIdentity :: string where "otelAttrSrcIdentity = ''source.workload.identity''"
definition otelAttrDstName :: string where "otelAttrDstName = ''destination.workload.name''"
definition otelAttrDstNamespace :: string where "otelAttrDstNamespace = ''destination.workload.namespace''"
definition otelAttrDstKind :: string where "otelAttrDstKind = ''destination.workload.kind''"
definition otelAttrDstIdentity :: string where "otelAttrDstIdentity = ''destination.workload.identity''"
definition otelAttrTransport :: string where "otelAttrTransport = ''network.transport''"
definition otelAttrDstPort :: string where "otelAttrDstPort = ''destination.port''"
definition otelAttrPolicyNamespace :: string where "otelAttrPolicyNamespace = ''policy.ref.namespace''"
definition otelAttrPolicyName :: string where "otelAttrPolicyName = ''policy.ref.name''"

lemmas otelAttr_defs =
  otelAttrEnforcementProvider_def otelAttrAction_def otelAttrSrcName_def otelAttrSrcNamespace_def
  otelAttrSrcKind_def otelAttrSrcIdentity_def otelAttrDstName_def otelAttrDstNamespace_def
  otelAttrDstKind_def otelAttrDstIdentity_def otelAttrTransport_def otelAttrDstPort_def
  otelAttrPolicyNamespace_def otelAttrPolicyName_def

definition OtelAttributeKeys :: "string list" where
  "OtelAttributeKeys =
     [otelAttrEnforcementProvider, otelAttrAction, otelAttrSrcName, otelAttrSrcNamespace, otelAttrSrcKind,
      otelAttrSrcIdentity, otelAttrDstName, otelAttrDstNamespace, otelAttrDstKind, otelAttrDstIdentity,
      otelAttrTransport, otelAttrDstPort, otelAttrPolicyNamespace, otelAttrPolicyName]"

definition addStringAttrs :: "OtelRecord \<Rightarrow> string \<Rightarrow> string \<Rightarrow> OtelRecord" where
  "addStringAttrs r key val =
     (if val \<noteq> [] then r\<lparr>rec_Attributes := rec_Attributes r @ [(key, AString val)]\<rparr> else r)"

definition observed_record :: "Observation \<Rightarrow> OtelRecord" where
  "observed_record observation =
     (let i = obs_Info observation;
          r = \<lparr>rec_EventName = eventNameViolationObserved, rec_Body = None, rec_Severity = SeverityWarn,
               rec_Timestamp = Timestamp i, rec_Attributes = []\<rparr>;
          r = addStringAttrs r otelAttrEnforcementProvider (Provider observation);
          r = addStringAttrs r otelAttrAction (Action i);
          r = addStringAttrs r otelAttrSrcName (wr_OwnerName (vi_Source i));
          r = addStringAttrs r otelAttrSrcNamespace (wr_Namespace (vi_Source i));
          r = addStringAttrs r otelAttrSrcKind (wr_OwnerKind (vi_Source i));
          r = addStringAttrs r otelAttrSrcIdentity (wr_Identity (vi_Source i));
          r = addStringAttrs r otelAttrDstName (wr_OwnerName (Dest i));
          r = addStringAttrs r otelAttrDstNamespace (wr_Namespace (Dest i));
          r = addStringAttrs r otelAttrDstKind (wr_OwnerKind (Dest i));
          r = addStringAttrs r otelAttrDstIdentity (wr_Identity (Dest i));
          r = addStringAttrs r otelAttrTransport (vi_Protocol i);
          r = addStringAttrs r otelAttrPolicyNamespace (DenyingPolicyNamespace i);
          r = addStringAttrs r otelAttrPolicyName (DenyingPolicyName i)
      in r\<lparr>rec_Attributes := rec_Attributes r @ [(otelAttrDstPort, AInt64 (scast (DstPort i)))]\<rparr>)"

definition EmitOtelLog :: "OtelLogger \<Rightarrow> Observation \<Rightarrow> OtelLogger" where
  "EmitOtelLog logger observation =
     (case logger of None \<Rightarrow> None | Some log \<Rightarrow> Some (log @ [observed_record observation]))"

section \<open>Reading a record back\<close>

definition attr_string :: "OtelRecord \<Rightarrow> string \<Rightarrow> string" where
  "attr_string r k = (case map_of (rec_Attributes r) k of Some (AString s) \<Rightarrow> s | _ \<Rightarrow> [])"

text \<open>The pairs in the order in which \<open>EmitOtelLog\<close> offers them.\<close>

definition string_attrs :: "Observation \<Rightarrow> (string \<times> string) list" where
  "string_attrs observation =
     (let i = obs_Info observation in
      [(otelAttrEnforcementProvider, Provider observation), (otelAttrAction, Action i),
       (otelAttrSrcName, wr_OwnerName (vi_Source i)), (otelAttrSrcNamespace, wr_Namespace (vi_Source i)),
       (otelAttrSrcKind, wr_OwnerKind (vi_Source i)), (otelAttrSrcIdentity, wr_Identity (vi_Source i)),
       (otelAttrDstName, wr_OwnerName (Dest i)), (otelAttrDstNamespace, wr_Namespace (Dest i)),
       (otelAttrDstKind, wr_OwnerKind (Dest i)), (otelAttrDstIdentity, wr_Identity (Dest i)),
       (otelAttrTransport, vi_Protocol i), (otelAttrPolicyNamespace, DenyingPolicyNamespace i),
       (otelAttrPolicyName, DenyingPolicyName i)])"

definition kept_attrs :: "(string \<times> string) list \<Rightarrow> (string \<times> attr_value) list" where
  "kept_attrs ps = map (\<lambda>(k, v). (k, AString v)) (filter (\<lambda>(k, v). v \<noteq> []) ps)"

lemma addStringAttrs_foldl:
  "rec_Attributes (foldl (\<lambda>r (k, v). addStringAttrs r k v) r ps) = rec_Attributes r @ kept_attrs ps \<and>
   rec_EventName (foldl (\<lambda>r (k, v). addStringAttrs r k v) r ps) = rec_EventName r \<and>
   rec_Severity (foldl (\<lambda>r (k, v). addStringAttrs r k v) r ps) = rec_Severity r \<and>
   rec_Timestamp (foldl (\<lambda>r (k, v). addStringAttrs r k v) r ps) = rec_Timestamp r"
  by (induction ps arbitrary: r) (auto simp: kept_attrs_def addStringAttrs_def)

lemma observed_record_attrs:
  "rec_Attributes (observed_record ob) =
     kept_attrs (string_attrs ob) @ [(otelAttrDstPort, AInt64 (scast (DstPort (obs_Info ob))))]"
proof -
  let ?r = "\<lparr>rec_EventName = eventNameViolationObserved, rec_Body = None, rec_Severity = SeverityWarn,
               rec_Timestamp = Timestamp (obs_Info ob), rec_Attributes = []\<rparr>"
  have "rec_Attributes (observed_record ob) =
      rec_Attributes (foldl (\<lambda>r (k, v). addStringAttrs r k v) ?r (string_attrs ob)) @
        [(otelAttrDstPort, AInt64 (scast (DstPort (obs_Info ob))))]"
    by (simp add: observed_record_def string_attrs_def Let_def)
  then show ?thesis using addStringAttrs_foldl [of ?r "string_attrs ob"] by simp
qed

lemma string_attrs_keys:
  "map fst (string_attrs ob) = filter (\<lambda>k. k \<noteq> otelAttrDstPort) OtelAttributeKeys"
  by (simp add: string_attrs_def OtelAttributeKeys_def Let_def otelAttr_defs)

lemma OtelAttributeKeys_distinct: "distinct OtelAttributeKeys"
  by (simp add: OtelAttributeKeys_def otelAttr_defs)

lemma map_of_kept_attrs:
  "distinct (map fst ps) \<Longrightarrow>
     map_of (kept_attrs ps) k = (case map_of ps k of Some v \<Rightarrow> if v = [] then None else Some (AString v) | None \<Rightarrow> None)"
proof (induction ps)
  case Nil
  then show ?case by (simp add: kept_attrs_def)
next
  case (Cons p ps)
  obtain a v where p: "p = (a, v)" by (cases p)
  with Cons have a: "a \<notin> fst ` set ps" "map_of ps a = None" by (auto simp: map_of_eq_None_iff)
  show ?case
  proof (cases "v = []")
    case True
    with p have "kept_attrs (p # ps) = kept_attrs ps" by (simp add: kept_attrs_def)
    with Cons p a True show ?thesis by auto
  next
    case False
    with p have "kept_attrs (p # ps) = (a, AString v) # kept_attrs ps" by (simp add: kept_attrs_def)
    with Cons p False show ?thesis by auto
  qed
qed

lemma kept_attrs_keys: "fst ` set (kept_attrs ps) \<subseteq> fst ` set ps"
  by (force simp: kept_attrs_def)

lemma kept_attrs_nonempty: "(k, AString []) \<notin> set (kept_attrs ps)"
  by (auto simp: kept_attrs_def)

section \<open>Properties\<close>

text \<open>The exported record follows the schema and loses nothing: its attribute keys are keys of
  \<open>OtelAttributeKeys\<close>, no attribute is an empty string, every field of the observation can be read
  back under its key, and the port is always there. A nil logger stays nil.\<close>

lemma EmitOtelLog_schema:
  "EmitOtelLog None ob = None \<and>
   EmitOtelLog (Some log) ob = Some (log @ [observed_record ob]) \<and>
   fst ` set (rec_Attributes (observed_record ob)) \<subseteq> set OtelAttributeKeys \<and>
   (\<forall>k. (k, AString []) \<notin> set (rec_Attributes (observed_record ob))) \<and>
   list_all (\<lambda>(k, v). attr_string (observed_record ob) k = v) (string_attrs ob) \<and>
   map_of (rec_Attributes (observed_record ob)) otelAttrDstPort =
     Some (AInt64 (scast (DstPort (obs_Info ob))))"
proof -
  have d: "distinct (map fst (string_attrs ob))"
    unfolding string_attrs_keys using OtelAttributeKeys_distinct by (rule distinct_filter)
  have keys: "fst ` set (string_attrs ob) \<subseteq> set OtelAttributeKeys" "otelAttrDstPort \<notin> fst ` set (string_attrs ob)"
    using arg_cong [OF string_attrs_keys [of ob], of set] by auto
  then have none: "map_of (kept_attrs (string_attrs ob)) otelAttrDstPort = None"
    using kept_attrs_keys [of "string_attrs ob"] by (auto simp: map_of_eq_None_iff)
  have "attr_string (observed_record ob) k = v" if "(k, v) \<in> set (string_attrs ob)" for k v
  proof -
    have "map_of (string_attrs ob) k = Some v" using d that by simp
    moreover have "k \<noteq> otelAttrDstPort" using keys(2) that by force
    ultimately show ?thesis using d
      by (simp add: attr_string_def observed_record_attrs map_add_def map_of_kept_attrs split: option.splits)
  qed
  moreover have "otelAttrDstPort \<in> set OtelAttributeKeys" by (simp add: OtelAttributeKeys_def)
  moreover have "fst ` set (kept_attrs (string_attrs ob)) \<subseteq> set OtelAttributeKeys"
    using keys(1) kept_attrs_keys [of "string_attrs ob"] by (rule order_trans [rotated])
  ultimately show ?thesis using none
    by (simp add: EmitOtelLog_def observed_record_attrs kept_attrs_nonempty list_all_iff map_add_def case_prod_beta)
qed

end
