(* ===== verification/Learning.thy ===== *)
theory Learning
  imports Workload Violation RingBuf
begin

text \<open>
  The learning controller: \<^verbatim>\<open>internal/controller/learning_controller.go\<close>, \<^verbatim>\<open>learning_kubernetes.go\<close>,
  \<^verbatim>\<open>learning_istio.go\<close>, \<^verbatim>\<open>monitor_kubernetes.go\<close>, \<^verbatim>\<open>workload_selectors.go\<close>,
  \<^verbatim>\<open>promoted_policy_lookup.go\<close> and the events of \<^verbatim>\<open>internal/types\<close>. An observed flow is merged into the
  proposal of the workload, or, when the proposal has been promoted to a policy in monitor mode,
  checked against that policy and reported as a violation when it is not in it.

  The reconciler's state is the cluster, the event channel, the violation buffer and the logger.
  A handler returns the new state and an error or nil; a nil dereference or an index panic is \<open>None\<close>.
\<close>

section \<open>Model\<close>

subsection \<open>Events and names\<close>

record LearningEvent =
  le_Source :: "WorkloadRef option"
  le_Dest :: "WorkloadRef option"
  le_DstPort :: int32
  le_Protocol :: Protocol
  le_Backend :: PolicyBackend

definition getProposalName :: "WorkloadRef \<Rightarrow> PolicyType \<Rightarrow> string" where
  "getProposalName wk direction =
     to_lower (wr_OwnerKind wk) @ ''-'' @ wr_OwnerName wk @ ''-'' @ to_lower direction"

definition workloadTargetingSpec :: "WorkloadRef \<Rightarrow> PolicyType \<Rightarrow> WorkloadTargetingSpec" where
  "workloadTargetingSpec wk direction =
     \<lparr>TargetRef = \<lparr>tr_Kind = wr_OwnerKind wk, tr_Name = wr_OwnerName wk\<rparr>, Direction = direction\<rparr>"

definition getProposalMetadata :: "WorkloadRef \<Rightarrow> PolicyType \<Rightarrow> WorkloadNetworkPolicyProposal" where
  "getProposalMetadata wk direction =
     \<lparr>wnpp_Meta = meta_named (wr_Namespace wk) (getProposalName wk direction),
      wnpp_Spec = \<lparr>pspec_Backend = \<lparr>Backend = [], Kubernetes = None, Istio = None\<rparr>,
                   pspec_Targeting = workloadTargetingSpec wk direction\<rparr>,
      wnpp_Conditions = []\<rparr>"

definition checkExistingPolicy :: "'w client \<Rightarrow> 'w \<Rightarrow> string \<Rightarrow> string \<Rightarrow> error + WorkloadNetworkPolicy list" where
  "checkExistingPolicy c w ns proposalName =
     listWNPByLabels c w ns [(PolicyPromotedFromLabelKey, proposalName)]"

definition hasPromotedPolicy :: "'w client \<Rightarrow> 'w \<Rightarrow> string \<Rightarrow> string \<Rightarrow> error + bool" where
  "hasPromotedPolicy c w ns proposalName =
     (case checkExistingPolicy c w ns proposalName of
        Inl e \<Rightarrow> Inl e
      | Inr policies \<Rightarrow> Inr (length policies > 0))"

subsection \<open>The reconciler and its channel\<close>

definition defaultEventChannelBufferSize :: nat where
  "defaultEventChannelBufferSize = 4096"

record 'w LearningReconciler =
  lr_cluster :: 'w
  lr_eventChan :: "LearningEvent list"
  lr_violationBuffer :: "Observation Buffer"
  lr_violationOtelLogger :: OtelLogger

definition NewLearningReconciler :: "'w \<Rightarrow> Observation Buffer \<Rightarrow> OtelLogger \<Rightarrow> 'w LearningReconciler" where
  "NewLearningReconciler w buffer logger =
     \<lparr>lr_cluster = w, lr_eventChan = [], lr_violationBuffer = buffer, lr_violationOtelLogger = logger\<rparr>"

definition enqueueEvent :: "'w LearningReconciler \<Rightarrow> LearningEvent \<Rightarrow> 'w LearningReconciler \<times> bool" where
  "enqueueEvent r evt =
     (if length (lr_eventChan r) < defaultEventChannelBufferSize
      then (r\<lparr>lr_eventChan := lr_eventChan r @ [evt]\<rparr>, True)
      else (r, False))"

text \<open>\<open>ProcessEventHandler\<close> puts the events of the channel into the work queue of the controller and ignores all others.
  The queue holds what \<open>AddRateLimited\<close> has been given and no reconciliation has finished yet.\<close>

datatype 'e typed_event = CreateEvent 'e | UpdateEvent 'e 'e | DeleteEvent 'e | GenericEvent 'e

fun ProcessEventHandler :: "LearningEvent typed_event \<Rightarrow> LearningEvent list \<Rightarrow> LearningEvent list" where
  "ProcessEventHandler (CreateEvent _) q = q"
| "ProcessEventHandler (UpdateEvent _ _) q = q"
| "ProcessEventHandler (DeleteEvent _) q = q"
| "ProcessEventHandler (GenericEvent evt) q = q @ [evt]"

text \<open>The owner reference is set on the object in memory.\<close>

definition setOwnerReference ::
    "helpers \<Rightarrow> 'w client \<Rightarrow> 'w \<Rightarrow> WorkloadNetworkPolicyProposal \<Rightarrow> WorkloadRef \<Rightarrow>
     error + WorkloadNetworkPolicyProposal" where
  "setOwnerReference h c w proposal wk =
     (if getControllerOf h (om_OwnerReferences (wnpp_Meta proposal)) \<noteq> None then Inr proposal
      else
        (case OwnerObjectFor (wr_OwnerKind wk) of
           None \<Rightarrow> Inl (Plain (''unsupported workload kind: '' @ wr_OwnerKind wk))
         | Some kind \<Rightarrow>
             let key = \<lparr>nn_Namespace = wr_Namespace wk, nn_Name = wr_OwnerName wk\<rparr> in
             (case getWorkload c w kind key of
                Inl e \<Rightarrow>
                  if is_not_found e
                  then Inl (Plain (''owning workload not found: '' @ wr_OwnerKind wk @ '' '' @ nn_string key))
                  else Inl (wrap (''getting owner '' @ wr_OwnerKind wk @ '' '' @ nn_string key) e)
              | Inr owner \<Rightarrow>
                  (case setControllerReference h kind (wo_Meta owner) (wnpp_Meta proposal) of
                     Inl e \<Rightarrow> Inl (wrap (''setting controller reference on proposal '' @
                                nn_string (meta_key (wnpp_Meta proposal))) e)
                   | Inr refs \<Rightarrow>
                       Inr (proposal\<lparr>wnpp_Meta := (wnpp_Meta proposal)\<lparr>om_OwnerReferences := refs\<rparr>\<rparr>)))))"

subsection \<open>Rules learned for the Kubernetes backend\<close>

definition buildPeerAndPort :: "WorkloadRef \<Rightarrow> Protocol \<Rightarrow> int32 \<Rightarrow> NetworkPolicyPeer \<times> NetworkPolicyPort" where
  "buildPeerAndPort peer protocol dstPort =
     (\<lparr>npp_PodSelector = Some (wr_Selector peer),
       npp_NamespaceSelector =
         Some \<lparr>MatchLabels = [(LabelMetadataName, wr_Namespace peer)], MatchExpressions = []\<rparr>,
       npp_IPBlock = None\<rparr>,
      \<lparr>port_Protocol = Some protocol, port_Port = Some (FromInt32 dstPort), port_EndPort = None\<rparr>)"

fun upsertEgressRuleByPeer ::
    "selector_format \<Rightarrow> NetworkPolicyEgressRule list \<Rightarrow> NetworkPolicyPeer \<Rightarrow> NetworkPolicyPort \<Rightarrow>
     NetworkPolicyEgressRule list" where
  "upsertEgressRuleByPeer fmt [] peer port = [\<lparr>To = [peer], egress_Ports = [port]\<rparr>]"
| "upsertEgressRuleByPeer fmt (r # rs) peer port =
     (if length (To r) = 1 \<and> PolicyPeerEqual fmt (To r ! 0) peer then
        (if list_ex (\<lambda>existingPort. PolicyPortEqual existingPort port) (egress_Ports r) then r # rs
         else r\<lparr>egress_Ports := egress_Ports r @ [port]\<rparr> # rs)
      else r # upsertEgressRuleByPeer fmt rs peer port)"

fun upsertIngressRuleByPeer ::
    "selector_format \<Rightarrow> NetworkPolicyIngressRule list \<Rightarrow> NetworkPolicyPeer \<Rightarrow> NetworkPolicyPort \<Rightarrow>
     NetworkPolicyIngressRule list" where
  "upsertIngressRuleByPeer fmt [] peer port = [\<lparr>From = [peer], ingress_Ports = [port]\<rparr>]"
| "upsertIngressRuleByPeer fmt (r # rs) peer port =
     (if length (From r) = 1 \<and> PolicyPeerEqual fmt (From r ! 0) peer then
        (if list_ex (\<lambda>existingPort. PolicyPortEqual existingPort port) (ingress_Ports r) then r # rs
         else r\<lparr>ingress_Ports := ingress_Ports r @ [port]\<rparr> # rs)
      else r # upsertIngressRuleByPeer fmt rs peer port)"

subsection \<open>Monitoring\<close>

text \<open>The generic function takes the two accessors that its type switch selects.\<close>

definition containsPeerPort ::
    "selector_format \<Rightarrow> ('r \<Rightarrow> NetworkPolicyPeer list \<times> NetworkPolicyPort list) \<Rightarrow> 'r list \<Rightarrow>
     NetworkPolicyPeer \<Rightarrow> NetworkPolicyPort \<Rightarrow> bool" where
  "containsPeerPort fmt peerAndPorts rules peer port \<longleftrightarrow>
     list_ex (\<lambda>rule. case peerAndPorts rule of (rulePeers, rulePorts) \<Rightarrow>
        if length rulePeers \<noteq> 1 \<or> \<not> PolicyPeerEqual fmt (rulePeers ! 0) peer then False
        else list_ex (\<lambda>existingPort. PolicyPortEqual existingPort port) rulePorts) rules"

abbreviation containsEgress :: "selector_format \<Rightarrow> NetworkPolicyEgressRule list \<Rightarrow> NetworkPolicyPeer \<Rightarrow> NetworkPolicyPort \<Rightarrow> bool" where
  "containsEgress fmt \<equiv> containsPeerPort fmt (\<lambda>r. (To r, egress_Ports r))"

abbreviation containsIngress :: "selector_format \<Rightarrow> NetworkPolicyIngressRule list \<Rightarrow> NetworkPolicyPeer \<Rightarrow> NetworkPolicyPort \<Rightarrow> bool" where
  "containsIngress fmt \<equiv> containsPeerPort fmt (\<lambda>r. (From r, ingress_Ports r))"

definition generateViolationObservation ::
    "string \<Rightarrow> WorkloadRef \<Rightarrow> WorkloadRef \<Rightarrow> Protocol \<Rightarrow> PolicyType \<Rightarrow> int32 \<Rightarrow> time \<Rightarrow> Observation" where
  "generateViolationObservation policyName workload peer protocol direction dstPort now =
     (case (if direction = PolicyTypeIngress then (peer, workload) else (workload, peer)) of (source, dest) \<Rightarrow>
        \<lparr>obs_Info =
           \<lparr>Timestamp = now, vi_Source = source, Dest = dest, vi_Protocol = protocol, DstPort = dstPort,
            Action = WorkloadNetworkPolicyModeMonitor, DenyingPolicyNamespace = wr_Namespace workload,
            DenyingPolicyName = policyName\<rparr>,
         Provider = PolicyBackendKubernetes, obs_Direction = direction\<rparr>)"

definition sendMonitorViolation ::
    "'w LearningReconciler \<Rightarrow> string \<Rightarrow> WorkloadRef \<Rightarrow> WorkloadRef \<Rightarrow> Protocol \<Rightarrow> PolicyType \<Rightarrow> int32 \<Rightarrow> time \<Rightarrow>
     ('w LearningReconciler \<times> error option) option" where
  "sendMonitorViolation r policyName workload peer protocol direction dstPort now =
     (let obs = generateViolationObservation policyName workload peer protocol direction dstPort now;
          r = r\<lparr>lr_violationOtelLogger := EmitOtelLog (lr_violationOtelLogger r) obs\<rparr>
      in case Record (lr_violationBuffer r) obs of
           None \<Rightarrow> None
         | Some (dropped, b) \<Rightarrow>
             Some (r\<lparr>lr_violationBuffer := b\<rparr>,
                   if dropped then Some (Plain ''violation buffer full, dropping violation observation'') else None))"

definition evaluateMonitorViolation ::
    "helpers \<Rightarrow> 'w LearningReconciler \<Rightarrow> WorkloadNetworkPolicy \<Rightarrow> WorkloadRef \<Rightarrow> WorkloadRef \<Rightarrow> Protocol \<Rightarrow>
     PolicyType \<Rightarrow> int32 \<Rightarrow> time \<Rightarrow> ('w LearningReconciler \<times> error option) option" where
  "evaluateMonitorViolation h r policy workload peer protocol direction dstPort now =
     (case buildPeerAndPort peer protocol dstPort of (policyPeer, policyPort) \<Rightarrow>
        let send = sendMonitorViolation r (wnp_Name policy) workload peer protocol direction dstPort now in
        if direction = PolicyTypeEgress then
          (case Kubernetes (wnp_Backend policy) of
             None \<Rightarrow> None
           | Some spec \<Rightarrow>
               if \<not> containsEgress (formatLabelSelector h) (Egress spec) policyPeer policyPort then send
               else Some (r, None))
        else if direction = PolicyTypeIngress then
          (case Kubernetes (wnp_Backend policy) of
             None \<Rightarrow> None
           | Some spec \<Rightarrow>
               if \<not> containsIngress (formatLabelSelector h) (Ingress spec) policyPeer policyPort then send
               else Some (r, None))
        else Some (r, Some (Plain (''unknown policy direction '' @ [CHR 0x22] @ direction @ [CHR 0x22]))))"

subsection \<open>Learning for the Kubernetes backend\<close>

definition mutateKubernetesProposal ::
    "helpers \<Rightarrow> WorkloadRef \<Rightarrow> WorkloadRef \<Rightarrow> PolicyType \<Rightarrow> Protocol \<Rightarrow> int32 \<Rightarrow>
     WorkloadNetworkPolicyProposal \<Rightarrow> error + WorkloadNetworkPolicyProposal" where
  "mutateKubernetesProposal h workload peer direction protocol dstPort proposal =
     (let fmt = formatLabelSelector h;
          b = pspec_Backend (wnpp_Spec proposal);
          spec0 = (case Kubernetes b of None \<Rightarrow> empty_np_spec | Some s \<Rightarrow> s);
          spec = (if PolicyTypes spec0 = []
                  then spec0\<lparr>PodSelector := wr_Selector workload, PolicyTypes := [direction]\<rparr> else spec0)
      in case buildPeerAndPort peer protocol dstPort of (policyPeer, policyPort) \<Rightarrow>
         (let finish = (\<lambda>s. Inr (proposal\<lparr>wnpp_Spec :=
                \<lparr>pspec_Backend = b\<lparr>Backend := PolicyBackendKubernetes, Kubernetes := Some s\<rparr>,
                 pspec_Targeting = workloadTargetingSpec workload direction\<rparr>\<rparr>))
          in if direction = PolicyTypeEgress then
               finish (spec\<lparr>Egress := upsertEgressRuleByPeer fmt (Egress spec) policyPeer policyPort\<rparr>)
             else if direction = PolicyTypeIngress then
               finish (spec\<lparr>Ingress := upsertIngressRuleByPeer fmt (Ingress spec) policyPeer policyPort\<rparr>)
             else Inl (Plain (''unknown policy direction '' @ [CHR 0x22] @ direction @ [CHR 0x22]))))"

definition reconcileKubernetesProposal ::
    "helpers \<Rightarrow> 'w client \<Rightarrow> time \<Rightarrow> 'w LearningReconciler \<Rightarrow> WorkloadRef \<Rightarrow> WorkloadRef \<Rightarrow> PolicyType \<Rightarrow>
     Protocol \<Rightarrow> int32 \<Rightarrow> ('w LearningReconciler \<times> error option) option" where
  "reconcileKubernetesProposal h c now r workload peer direction protocol dstPort =
     (let proposal = getProposalMetadata workload direction;
          name = wr_Namespace workload @ ''/'' @ wnpp_Name proposal
      in case checkExistingPolicy c (lr_cluster r) (wr_Namespace workload) (wnpp_Name proposal) of
           Inl e \<Rightarrow> Some (r, Some (wrap (''checking existing policies for '' @ name) e))
         | Inr policies \<Rightarrow>
             (case policies of
                [] \<Rightarrow>
                  (case createOrUpdateWNPP c (lr_cluster r) proposal
                          (mutateKubernetesProposal h workload peer direction protocol dstPort) of
                     (w, Inl e) \<Rightarrow> Some (r\<lparr>lr_cluster := w\<rparr>, Some (wrap (''create or update proposal '' @ name) e))
                   | (w, Inr stored) \<Rightarrow>
                       (case setOwnerReference h c w stored workload of
                          Inl e \<Rightarrow> Some (r\<lparr>lr_cluster := w\<rparr>,
                                     Some (wrap (''setting owner reference on proposal '' @ name) e))
                        | Inr _ \<Rightarrow> Some (r\<lparr>lr_cluster := w\<rparr>, None)))
              | [policy] \<Rightarrow>
                  if wnp_Mode policy = WorkloadNetworkPolicyModeProtect then Some (r, None)
                  else map_option (\<lambda>(r', _). (r', None))
                         (evaluateMonitorViolation h r policy workload peer protocol direction dstPort now)
              | _ \<Rightarrow> Some (r, Some (Plain ''multiple policies associated with the same proposal''))))"

definition processKubernetesLearningEvent ::
    "helpers \<Rightarrow> 'w client \<Rightarrow> time \<Rightarrow> 'w LearningReconciler \<Rightarrow> LearningEvent \<Rightarrow>
     ('w LearningReconciler \<times> error option) option" where
  "processKubernetesLearningEvent h c now r req =
     (case (le_Source req, le_Dest req) of
        (Some source, Some dest) \<Rightarrow>
          (case reconcileKubernetesProposal h c now r source dest PolicyTypeEgress (le_Protocol req) (le_DstPort req) of
             None \<Rightarrow> None
           | Some (r1, Some e) \<Rightarrow> Some (r1, Some (wrap ''reconcile egress proposal'' e))
           | Some (r1, None) \<Rightarrow>
               (case reconcileKubernetesProposal h c now r1 dest source PolicyTypeIngress (le_Protocol req) (le_DstPort req) of
                  None \<Rightarrow> None
                | Some (r2, Some e) \<Rightarrow> Some (r2, Some (wrap ''reconcile ingress proposal'' e))
                | Some (r2, None) \<Rightarrow> Some (r2, None)))
      | _ \<Rightarrow> Some (r, Some (Plain ''invalid learning event: missing source or destination'')))"

subsection \<open>Learning for the Istio backend\<close>

text \<open>One iteration of the loop: skip a rule that is not for exactly this principal, otherwise update it
  and stop.\<close>

definition istio_rule_for :: "string \<Rightarrow> IstioAuthorizationPolicyRule \<Rightarrow> bool" where
  "istio_rule_for prin rule \<longleftrightarrow>
     length (rule_From rule) = 1 \<and>
     length (Principals (Source (rule_From rule ! 0))) = 1 \<and>
     Principals (Source (rule_From rule ! 0)) ! 0 = prin"

definition istio_rule_add :: "string \<Rightarrow> IstioAuthorizationPolicyRule \<Rightarrow> IstioAuthorizationPolicyRule" where
  "istio_rule_add port rule =
     (if rule_To rule = [] then rule\<lparr>rule_To := [\<lparr>Operation = \<lparr>Ports = [port]\<rparr>\<rparr>]\<rparr>
      else if list_ex (\<lambda>to. port \<in> set (Ports (Operation to))) (rule_To rule) then rule
      else rule\<lparr>rule_To := (rule_To rule)[0 := \<lparr>Operation = \<lparr>Ports = Ports (Operation (rule_To rule ! 0)) @ [port]\<rparr>\<rparr>]\<rparr>)"

fun upsert_istio_rules ::
    "IstioAuthorizationPolicyRule list \<Rightarrow> string \<Rightarrow> string \<Rightarrow> IstioAuthorizationPolicyRule list" where
  "upsert_istio_rules [] prin port =
     [\<lparr>rule_From = [\<lparr>Source = \<lparr>Principals = [prin]\<rparr>\<rparr>], rule_To = [\<lparr>Operation = \<lparr>Ports = [port]\<rparr>\<rparr>]\<rparr>]"
| "upsert_istio_rules (rule # rules) prin port =
     (if istio_rule_for prin rule then istio_rule_add port rule # rules
      else rule # upsert_istio_rules rules prin port)"

definition upsertIstioLearnedRule ::
    "IstioAuthorizationPolicySpec \<Rightarrow> string \<Rightarrow> string \<Rightarrow> IstioAuthorizationPolicySpec" where
  "upsertIstioLearnedRule spec prin port =
     spec\<lparr>Rules := upsert_istio_rules (Rules spec) prin port\<rparr>"

definition mutateIstioProposal ::
    "WorkloadRef \<Rightarrow> WorkloadRef \<Rightarrow> int32 \<Rightarrow> WorkloadNetworkPolicyProposal \<Rightarrow> error + WorkloadNetworkPolicyProposal" where
  "mutateIstioProposal dest source dstPort proposal =
     (let b = pspec_Backend (wnpp_Spec proposal);
          b = (if Istio b = None
               then b\<lparr>Backend := PolicyBackendIstio, Istio := Some \<lparr>Selector = wr_Selector dest, Rules = []\<rparr>\<rparr> else b)
      in Inr (proposal\<lparr>wnpp_Spec :=
           \<lparr>pspec_Backend = b\<lparr>Istio := map_option (\<lambda>s. upsertIstioLearnedRule s (wr_Identity source)
               (fmt_int (sint dstPort))) (Istio b)\<rparr>,
            pspec_Targeting = workloadTargetingSpec dest PolicyTypeIngress\<rparr>\<rparr>))"

text \<open>The source of the event is dereferenced inside the mutation: without one, \<open>CreateOrUpdate\<close> panics
  when it calls it, unless its initial read has failed.\<close>

definition updateProposal ::
    "helpers \<Rightarrow> 'w client \<Rightarrow> 'w LearningReconciler \<Rightarrow> LearningEvent \<Rightarrow> WorkloadRef \<Rightarrow>
     ('w LearningReconciler \<times> error option) option" where
  "updateProposal h c r evt dest =
     (let proposal = getProposalMetadata dest PolicyTypeIngress;
          name = wnpp_Namespace proposal @ ''/'' @ wnpp_Name proposal
      in case le_Source evt of
           None \<Rightarrow>
             (case getWNPP c (lr_cluster r) (meta_key (wnpp_Meta proposal)) of
                Inl e \<Rightarrow> if is_not_found e then None
                          else Some (r, Some (wrap (''create or update proposal '' @ name) e))
              | Inr _ \<Rightarrow> None)
         | Some source \<Rightarrow>
             (case createOrUpdateWNPP c (lr_cluster r) proposal (mutateIstioProposal dest source (le_DstPort evt)) of
                (w, Inl e) \<Rightarrow> Some (r\<lparr>lr_cluster := w\<rparr>, Some (wrap (''create or update proposal '' @ name) e))
              | (w, Inr stored) \<Rightarrow>
                  (case setOwnerReference h c w stored dest of
                     Inl e \<Rightarrow> Some (r\<lparr>lr_cluster := w\<rparr>, Some (wrap (''setting owner reference on proposal '' @ name) e))
                   | Inr _ \<Rightarrow> Some (r\<lparr>lr_cluster := w\<rparr>, None))))"

definition processIstioLearningEvent ::
    "helpers \<Rightarrow> 'w client \<Rightarrow> 'w LearningReconciler \<Rightarrow> LearningEvent \<Rightarrow> ('w LearningReconciler \<times> error option) option" where
  "processIstioLearningEvent h c r req =
     (case le_Dest req of
        None \<Rightarrow> Some (r, Some (Plain ''invalid learning event: missing destination''))
      | Some wk \<Rightarrow>
          let proposalName = getProposalName wk PolicyTypeIngress in
          (case checkExistingPolicy c (lr_cluster r) (wr_Namespace wk) proposalName of
             Inl e \<Rightarrow> Some (r, Some (wrap (''checking existing policies for '' @ wr_Namespace wk @ ''/'' @ proposalName) e))
           | Inr policies \<Rightarrow>
               (case policies of
                  [] \<Rightarrow> updateProposal h c r req wk
                | [_] \<Rightarrow> Some (r, None)
                | _ \<Rightarrow> Some (r, Some (Plain ''multiple policies associated with the same proposal'')))))"

definition learning_Reconcile ::
    "helpers \<Rightarrow> 'w client \<Rightarrow> time \<Rightarrow> 'w LearningReconciler \<Rightarrow> LearningEvent \<Rightarrow>
     ('w LearningReconciler \<times> error option) option" where
  "learning_Reconcile h c now r req =
     (if le_Backend req = PolicyBackendIstio then processIstioLearningEvent h c r req
      else processKubernetesLearningEvent h c now r req)"

section \<open>The contract of a learned rule set\<close>

locale rule_learning =
  fixes upsert :: "'r list \<Rightarrow> 'p \<Rightarrow> 'q \<Rightarrow> 'r list"
    and allows_flow :: "'r list \<Rightarrow> 'p \<Rightarrow> 'q \<Rightarrow> bool"
    and same :: "'p \<Rightarrow> 'p \<Rightarrow> bool"
  assumes allows_upsert: "allows_flow (upsert rs p q) p' q' \<longleftrightarrow> allows_flow rs p' q' \<or> (same p p' \<and> q = q')"
    and upsert_again: "upsert (upsert rs p q) p q = upsert rs p q"
    and allows_empty: "\<not> allows_flow [] p q"
    and same_refl: "same p p"
begin

abbreviation learn_all :: "'r list \<Rightarrow> ('p \<times> 'q) list \<Rightarrow> 'r list" where
  "learn_all rs flows \<equiv> foldl (\<lambda>rs (p, q). upsert rs p q) rs flows"

lemma allows_learn_all:
  "allows_flow (learn_all rs flows) p q \<longleftrightarrow> allows_flow rs p q \<or> (\<exists>f \<in> set flows. same (fst f) p \<and> snd f = q)"
  by (induction flows arbitrary: rs) (auto simp: allows_upsert)

lemma learned_exactly:
  "allows_flow (learn_all [] flows) p q \<longleftrightarrow> (\<exists>f \<in> set flows. same (fst f) p \<and> snd f = q)"
  by (simp add: allows_learn_all allows_empty)

lemma learned_allowed: "allows_flow (upsert rs p q) p q"
  by (simp add: allows_upsert same_refl)

lemma learned_keeps: "allows_flow rs p q \<Longrightarrow> allows_flow (upsert rs p' q') p q"
  by (simp add: allows_upsert)

end

lemma containsPeerPort_Cons:
  "containsPeerPort fmt acc (r # rs) peer port \<longleftrightarrow>
     (\<exists>x. fst (acc r) = [x] \<and> PolicyPeerEqual fmt x peer \<and> port \<in> set (snd (acc r))) \<or>
     containsPeerPort fmt acc rs peer port"
proof -
  have "length xs = 1 \<longleftrightarrow> (\<exists>x. xs = [x])" for xs :: "NetworkPolicyPeer list"
    by (cases xs) auto
  then show ?thesis
    by (auto simp: containsPeerPort_def list_ex_iff PolicyPortEqual_def split: prod.splits)
qed

lemma containsPeerPort_Nil [simp]: "\<not> containsPeerPort fmt acc [] peer port"
  by (simp add: containsPeerPort_def)

lemma PolicyPeerEqual_trans_left:
  "PolicyPeerEqual fmt x p \<Longrightarrow> PolicyPeerEqual fmt x p' \<longleftrightarrow> PolicyPeerEqual fmt p p'"
  by (simp add: PolicyPeerEqual_iff)

lemma length_one: "length xs = Suc 0 \<longleftrightarrow> (\<exists>x. xs = [x])"
  by (cases xs) auto

lemma containsEgress_upsert:
  "containsEgress fmt (upsertEgressRuleByPeer fmt rs p q) p' q' \<longleftrightarrow>
     containsEgress fmt rs p' q' \<or> (PolicyPeerEqual fmt p p' \<and> q = q')"
proof (induction rs)
  case Nil
  then show ?case by (simp add: containsPeerPort_Cons conj_commute eq_commute)
next
  case (Cons r rs)
  show ?case
  proof (cases "length (To r) = 1 \<and> PolicyPeerEqual fmt (To r ! 0) p")
    case True
    then obtain x where "To r = [x]" "PolicyPeerEqual fmt x p" by (auto simp: length_one)
    then show ?thesis
      by (auto simp: containsPeerPort_Cons list_ex_iff PolicyPortEqual_def PolicyPeerEqual_trans_left)
  next
    case False
    then show ?thesis by (simp only: upsertEgressRuleByPeer.simps if_False containsPeerPort_Cons Cons.IH) blast
  qed
qed

lemma containsIngress_upsert:
  "containsIngress fmt (upsertIngressRuleByPeer fmt rs p q) p' q' \<longleftrightarrow>
     containsIngress fmt rs p' q' \<or> (PolicyPeerEqual fmt p p' \<and> q = q')"
proof (induction rs)
  case Nil
  then show ?case by (simp add: containsPeerPort_Cons conj_commute eq_commute)
next
  case (Cons r rs)
  show ?case
  proof (cases "length (From r) = 1 \<and> PolicyPeerEqual fmt (From r ! 0) p")
    case True
    then obtain x where "From r = [x]" "PolicyPeerEqual fmt x p" by (auto simp: length_one)
    then show ?thesis
      by (auto simp: containsPeerPort_Cons list_ex_iff PolicyPortEqual_def PolicyPeerEqual_trans_left)
  next
    case False
    then show ?thesis by (simp only: upsertIngressRuleByPeer.simps if_False containsPeerPort_Cons Cons.IH) blast
  qed
qed

lemma upsertEgress_again:
  "upsertEgressRuleByPeer fmt (upsertEgressRuleByPeer fmt rs p q) p q = upsertEgressRuleByPeer fmt rs p q"
  by (induction rs) (auto simp: list_ex_iff)

lemma upsertIngress_again:
  "upsertIngressRuleByPeer fmt (upsertIngressRuleByPeer fmt rs p q) p q = upsertIngressRuleByPeer fmt rs p q"
  by (induction rs) (auto simp: list_ex_iff)

interpretation egress_rules: rule_learning "upsertEgressRuleByPeer fmt" "containsEgress fmt" "PolicyPeerEqual fmt" for fmt
  by unfold_locales (simp_all add: containsEgress_upsert upsertEgress_again)

interpretation ingress_rules: rule_learning "upsertIngressRuleByPeer fmt" "containsIngress fmt" "PolicyPeerEqual fmt" for fmt
  by unfold_locales (simp_all add: containsIngress_upsert upsertIngress_again)

section \<open>Istio rules\<close>

text \<open>A rule set permits a source identity on a port.\<close>

definition istioPermits :: "IstioAuthorizationPolicyRule list \<Rightarrow> string \<Rightarrow> int32 \<Rightarrow> bool" where
  "istioPermits rules ident port \<longleftrightarrow>
     list_ex (\<lambda>rule. istioRuleAllowsSource rule (wr_zero\<lparr>wr_Identity := ident\<rparr>) \<and> istioRuleAllowsPort rule port) rules"

text \<open>Every operation of a rule names its ports, and there is one: the rule is not open to all ports.\<close>

definition ports_closed :: "IstioAuthorizationPolicyRule \<Rightarrow> bool" where
  "ports_closed rule \<longleftrightarrow> rule_To rule \<noteq> [] \<and> list_all (\<lambda>to. Ports (Operation to) \<noteq> []) (rule_To rule)"

definition port_string :: "int32 \<Rightarrow> string" where
  "port_string p = fmt_int (sint p)"

lemma istioPermits_Cons:
  "istioPermits (rule # rules) i p \<longleftrightarrow>
     istioRuleAllowsSource rule (wr_zero\<lparr>wr_Identity := i\<rparr>) \<and> istioRuleAllowsPort rule p \<or> istioPermits rules i p"
  by (simp add: istioPermits_def)

lemma istioAllows_iff: "istioAllows spec v \<longleftrightarrow> istioPermits (Rules spec) (wr_Identity (vi_Source (Info v))) (DstPort (Info v))"
  by (simp add: istioAllows_def istioPermits_def list_ex_iff istioRuleAllowsSource_iff)

lemma istioPortMatches_port_string:
  assumes "0 \<le> sint q"
  shows "istioPortMatches (port_string q) p \<longleftrightarrow> p = q"
proof -
  have "sint q < 2 ^ 31" using sint_lt [of q] by simp
  then have n: "nat (sint q) < 2 ^ 31" by (simp add: nat_less_iff)
  have "port_string q = fmt_nat (nat (sint q))" using assms by (simp add: port_string_def fmt_int_def)
  then have "istioPortMatches (port_string q) p \<longleftrightarrow> sint p = int (nat (sint q))"
    unfolding istioPortMatches_def using n by (auto simp: parseIstioPortRange_single sint_of_nat)
  with assms show ?thesis using signed_word_eqI [of p q] by auto
qed

lemma ports_closed_add: "ports_closed (istio_rule_add port rule)" if "ports_closed rule"
  using that by (cases "rule_To rule") (auto simp: ports_closed_def istio_rule_add_def)

lemma istioRuleAllowsSource_add [simp]: "istioRuleAllowsSource (istio_rule_add port rule) src = istioRuleAllowsSource rule src"
  by (simp add: istioRuleAllowsSource_def istio_rule_add_def)

lemma istioRuleAllowsPort_add:
  assumes "ports_closed rule"
  shows "istioRuleAllowsPort (istio_rule_add port rule) p \<longleftrightarrow> istioRuleAllowsPort rule p \<or> istioPortMatches port p"
proof (cases "rule_To rule")
  case Nil
  with assms show ?thesis by (simp add: ports_closed_def)
next
  case (Cons to tos)
  with assms show ?thesis
    by (auto simp: istio_rule_add_def istioRuleAllowsPort_iff ports_closed_def list_ex_iff list_all_iff)
qed

lemma istio_rule_for_source:
  assumes "istio_rule_for prin rule" and "prin \<noteq> ''*''"
  shows "istioRuleAllowsSource rule (wr_zero\<lparr>wr_Identity := i\<rparr>) \<longleftrightarrow> i = prin"
proof -
  from assms(1) obtain f where "rule_From rule = [f]" "Principals (Source f) = [prin]"
    by (auto simp: istio_rule_for_def length_one)
  with assms(2) show ?thesis by (auto simp: istioRuleAllowsSource_iff)
qed

lemma istioPermits_upsert:
  assumes "prin \<noteq> ''*''" and "\<forall>rule \<in> set rules. istio_rule_for prin rule \<longrightarrow> ports_closed rule"
  shows "istioPermits (upsert_istio_rules rules prin port) i p \<longleftrightarrow>
    istioPermits rules i p \<or> (i = prin \<and> istioPortMatches port p)"
  using assms(2)
proof (induction rules)
  case Nil
  then show ?case
    using assms(1) by (auto simp: istioPermits_def istioRuleAllowsSource_iff istioRuleAllowsPort_iff)
next
  case (Cons rule rules)
  show ?case
  proof (cases "istio_rule_for prin rule")
    case True
    with Cons.prems have "ports_closed rule" by simp
    with True assms(1) show ?thesis
      by (auto simp: istioPermits_Cons istioRuleAllowsPort_add istio_rule_for_source)
  next
    case False
    with Cons show ?thesis by (auto simp: istioPermits_Cons)
  qed
qed

lemma ports_closed_upsert:
  "\<forall>rule \<in> set rules. ports_closed rule \<Longrightarrow> \<forall>rule \<in> set (upsert_istio_rules rules prin port). ports_closed rule"
proof (induction rules)
  case Nil
  then show ?case by (simp add: ports_closed_def)
next
  case (Cons rule rules)
  then show ?case by (auto intro: ports_closed_add)
qed

section \<open>Handlers\<close>

text \<open>The check that monitor mode runs, for either direction.\<close>

definition flow_in :: "selector_format \<Rightarrow> PolicyType \<Rightarrow> NetworkPolicySpec \<Rightarrow> NetworkPolicyPeer \<times> NetworkPolicyPort \<Rightarrow> bool" where
  "flow_in fmt d s f =
     (if d = PolicyTypeEgress then containsEgress fmt (Egress s) (fst f) (snd f)
      else containsIngress fmt (Ingress s) (fst f) (snd f))"

lemma mutateKubernetesProposal_ok:
  assumes "mutateKubernetesProposal h wk peer d proto port p0 = Inr p"
  shows "wnpp_Meta p = wnpp_Meta p0 \<and>
    pspec_Targeting (wnpp_Spec p) = workloadTargetingSpec wk d \<and>
    Backend (pspec_Backend (wnpp_Spec p)) = PolicyBackendKubernetes \<and>
    (\<exists>s. Kubernetes (pspec_Backend (wnpp_Spec p)) = Some s \<and>
       flow_in (formatLabelSelector h) d s (buildPeerAndPort peer proto port) \<and>
       (\<forall>s0 d' f. Kubernetes (pspec_Backend (wnpp_Spec p0)) = Some s0 \<and> flow_in (formatLabelSelector h) d' s0 f \<longrightarrow>
          flow_in (formatLabelSelector h) d' s f))"
  using assms
  by (auto simp: mutateKubernetesProposal_def Let_def flow_in_def egress_rules.learned_allowed
      ingress_rules.learned_allowed egress_rules.learned_keeps ingress_rules.learned_keeps
      split: prod.splits if_splits)

lemma evaluateMonitorViolation_eq:
  assumes "d \<in> {PolicyTypeEgress, PolicyTypeIngress}" and "Kubernetes (wnp_Backend policy) = Some spec"
  shows "evaluateMonitorViolation h r policy wk peer proto d port now =
    (if flow_in (formatLabelSelector h) d spec (buildPeerAndPort peer proto port) then Some (r, None)
     else sendMonitorViolation r (wnp_Name policy) wk peer proto d port now)"
  using assms
  by (cases "buildPeerAndPort peer proto port") (auto simp: evaluateMonitorViolation_def flow_in_def Let_def)

section \<open>Properties\<close>

text \<open>C13. What monitoring accepts is exactly what was learned: after any sequence of learned flows, the
  check that monitor mode runs finds a peer and port in the egress (ingress) rules iff some learned
  flow had an equal peer and that port. Nothing learned is reported later, nothing else is let pass.\<close>

theorem learned_flows_exact:
  "(containsEgress fmt (foldl (\<lambda>rs (p, q). upsertEgressRuleByPeer fmt rs p q) [] flows) peer port \<longleftrightarrow>
      (\<exists>f \<in> set flows. PolicyPeerEqual fmt (fst f) peer \<and> snd f = port)) \<and>
   (containsIngress fmt (foldl (\<lambda>rs (p, q). upsertIngressRuleByPeer fmt rs p q) [] flows) peer port \<longleftrightarrow>
      (\<exists>f \<in> set flows. PolicyPeerEqual fmt (fst f) peer \<and> snd f = port))"
  by (intro conjI egress_rules.learned_exactly ingress_rules.learned_exactly)

text \<open>Learning an Istio flow permits exactly that flow in addition: with rules whose operations name
  their ports, the updated rule set permits an identity on a port iff it did before or it is the
  learned principal on the learned port, and the rules still name their ports. No other principal
  gains a port.\<close>

lemma istio_learning_exact:
  assumes "prin \<noteq> ''*''" and "0 \<le> sint q" and "\<forall>rule \<in> set (Rules spec). ports_closed rule"
  shows "(istioPermits (Rules (upsertIstioLearnedRule spec prin (fmt_int (sint q)))) i p \<longleftrightarrow>
      istioPermits (Rules spec) i p \<or> (i = prin \<and> p = q)) \<and>
    (\<forall>rule \<in> set (Rules (upsertIstioLearnedRule spec prin (fmt_int (sint q)))). ports_closed rule)"
  using istioPermits_upsert [of prin "Rules spec" "port_string q" i p] ports_closed_upsert [of "Rules spec"]
    istioPortMatches_port_string [of q p] assms
  by (simp add: upsertIstioLearnedRule_def port_string_def)

text \<open>A rule that is open to all ports is narrowed by learning: the rule permits the principal
  everywhere before, and only on the learned port afterwards.\<close>

definition open_rule_spec :: "string \<Rightarrow> IstioAuthorizationPolicySpec" where
  "open_rule_spec prin = \<lparr>Selector = empty_selector,
     Rules = [\<lparr>rule_From = [\<lparr>Source = \<lparr>Principals = [prin]\<rparr>\<rparr>], rule_To = []\<rparr>]\<rparr>"

lemma istio_learning_narrows_open_rule:
  assumes "0 \<le> sint q" and "prin \<noteq> ''*''"
  shows "istioPermits (Rules (open_rule_spec prin)) prin p \<and>
    (istioPermits (Rules (upsertIstioLearnedRule (open_rule_spec prin) prin (fmt_int (sint q)))) prin p \<longleftrightarrow> p = q)"
  using istioPortMatches_port_string [OF assms(1), of p] assms(2)
  by (simp add: open_rule_spec_def istioPermits_def istioRuleAllowsSource_def istioRuleAllowsPort_def
      upsertIstioLearnedRule_def istio_rule_for_def istio_rule_add_def port_string_def)

lemma istio_learning_narrows_open_rule_witness:
  "istioPermits (Rules (open_rule_spec ''me'')) ''me'' 443 \<and>
   \<not> istioPermits (Rules (upsertIstioLearnedRule (open_rule_spec ''me'') ''me'' (fmt_int (sint (80 :: int32))))) ''me'' 443"
  using istio_learning_narrows_open_rule [of 80 "''me''" 443] by simp

text \<open>C31. A learning event for a workload without a promoted policy ends in the cluster: when the handler
  succeeds, the workload's proposal for that direction is stored, targets the workload, is for the
  Kubernetes backend and has the flow in its rules. If there was such a proposal before, every flow in its rules is still
  there, and its labels and owner references are those it had; if there was none, it starts without any. So the owner
  reference that the handler sets afterwards is not stored.\<close>

theorem kubernetes_learning_stored:
  assumes "create_or_update_ok (getWNPP c) (createOrUpdateWNPP c) wnpp_Meta wnpp_Spec"
    and "checkExistingPolicy c (lr_cluster r) (wr_Namespace wk) (getProposalName wk d) = Inr []"
    and "reconcileKubernetesProposal h c now r wk peer d proto port = Some (r', None)"
  shows "\<exists>p s p0. getWNPP c (lr_cluster r') \<lparr>nn_Namespace = wr_Namespace wk, nn_Name = getProposalName wk d\<rparr> = Inr p \<and>
    pspec_Targeting (wnpp_Spec p) = workloadTargetingSpec wk d \<and>
    Backend (pspec_Backend (wnpp_Spec p)) = PolicyBackendKubernetes \<and>
    Kubernetes (pspec_Backend (wnpp_Spec p)) = Some s \<and>
    flow_in (formatLabelSelector h) d s (buildPeerAndPort peer proto port) \<and>
    (case getWNPP c (lr_cluster r) \<lparr>nn_Namespace = wr_Namespace wk, nn_Name = getProposalName wk d\<rparr> of
       Inr old \<Rightarrow> p0 = old
     | Inl e \<Rightarrow> is_not_found e \<and> p0 = getProposalMetadata wk d) \<and>
    om_OwnerReferences (wnpp_Meta p) = om_OwnerReferences (wnpp_Meta p0) \<and> om_Labels (wnpp_Meta p) = om_Labels (wnpp_Meta p0) \<and>
    (\<forall>s0 d' f. Kubernetes (pspec_Backend (wnpp_Spec p0)) = Some s0 \<and> flow_in (formatLabelSelector h) d' s0 f \<longrightarrow>
       flow_in (formatLabelSelector h) d' s f)"
proof -
  let ?k = "\<lparr>nn_Namespace = wr_Namespace wk, nn_Name = getProposalName wk d\<rparr>"
  let ?f = "mutateKubernetesProposal h wk peer d proto port"
  have key: "meta_key (wnpp_Meta (getProposalMetadata wk d)) = ?k" by (simp add: getProposalMetadata_def)
  from assms(2,3) obtain w p where cu: "createOrUpdateWNPP c (lr_cluster r) (getProposalMetadata wk d) ?f = (w, Inr p)"
    and w: "lr_cluster r' = w"
    by (auto simp: reconcileKubernetesProposal_def Let_def getProposalMetadata_def split: prod.splits sum.splits)
  from create_or_updateE [OF assms(1) cu] obtain p0 m where g: "getWNPP c w ?k = Inr p" and p0: "?f p0 = Inr m"
    "case getWNPP c (lr_cluster r) ?k of Inr old \<Rightarrow> p0 = old | Inl e \<Rightarrow> is_not_found e \<and> p0 = getProposalMetadata wk d"
    and um: "user_meta (wnpp_Meta p) = user_meta (wnpp_Meta m)" "wnpp_Spec p = wnpp_Spec m"
    unfolding key by metis
  note um' = user_meta_eqD(3,5) [OF um(1)]
  from mutateKubernetesProposal_ok [OF p0(1)] p0(2) g w um(2) um' show ?thesis by (metis (no_types, lifting))
qed

definition sample_wk :: "string \<Rightarrow> WorkloadRef" where
  "sample_wk n = sample_ref ''ns'' n"

definition sample_learner :: "WorkloadNetworkPolicy list \<Rightarrow> store LearningReconciler" where
  "sample_learner ps =
     NewLearningReconciler
       (empty_store\<lparr>st_workloads := [sample_deployment ''ns'' ''web'', sample_deployment ''ns'' ''api''], st_wnps := ps\<rparr>)
       \<lparr>buf = replicate 2 (generateViolationObservation [] wr_zero wr_zero [] [] 0 0), pos = 0, capacity = 2\<rparr> (Some [])"

text \<open>Two flows of one workload, one after the other: the second finds the proposal of the first and keeps its flow.\<close>

definition sample_learn :: "store LearningReconciler \<Rightarrow> int32 \<Rightarrow> (store LearningReconciler \<times> error option) option" where
  "sample_learn r port = reconcileKubernetesProposal mem_helpers (mem_client sample_index) 0 r
     (sample_wk ''web'') (sample_wk ''api'') ''Egress'' ''TCP'' port"

definition sample_once :: "store LearningReconciler" where
  "sample_once = fst (the (sample_learn (sample_learner []) 80))"

lemma sample_learn_twice:
  "map_option snd (sample_learn (sample_learner []) 80) = Some None" "map_option snd (sample_learn sample_once 443) = Some None"
  "checkExistingPolicy (mem_client sample_index) (lr_cluster (sample_learner [])) ''ns'' ''deployment-web-egress'' = Inr []"
  "checkExistingPolicy (mem_client sample_index) (lr_cluster sample_once) ''ns'' ''deployment-web-egress'' = Inr []"
  "getProposalName (sample_wk ''web'') ''Egress'' = ''deployment-web-egress''" "wr_Namespace (sample_wk ''web'') = ''ns''"
  by code_simp+

theorem kubernetes_learning_stored_witness:
  "\<exists>r p s. sample_learn sample_once 443 = Some (r, None) \<and>
     getWNPP (mem_client sample_index) (lr_cluster r) \<lparr>nn_Namespace = ''ns'', nn_Name = ''deployment-web-egress''\<rparr> = Inr p \<and>
     Kubernetes (pspec_Backend (wnpp_Spec p)) = Some s \<and>
     flow_in (formatLabelSelector mem_helpers) ''Egress'' s (buildPeerAndPort (sample_wk ''api'') ''TCP'' 80) \<and>
     flow_in (formatLabelSelector mem_helpers) ''Egress'' s (buildPeerAndPort (sample_wk ''api'') ''TCP'' 443)"
proof -
  let ?c = "mem_client sample_index" and ?k = "\<lparr>nn_Namespace = ''ns'', nn_Name = ''deployment-web-egress''\<rparr>"
  note stored = kubernetes_learning_stored [OF mem_client_upserts(3), where h = mem_helpers and wk = "sample_wk ''web''" and d = "''Egress''",
      unfolded sample_learn_twice(5,6), of sample_index]
  from sample_learn_twice(1) have 1: "sample_learn (sample_learner []) 80 = Some (sample_once, None)" by (auto simp: sample_once_def)
  from sample_learn_twice(2) obtain r where 2: "sample_learn sample_once 443 = Some (r, None)" by auto
  from stored [OF sample_learn_twice(3) 1 [unfolded sample_learn_def]] obtain p s where p: "getWNPP ?c (lr_cluster sample_once) ?k = Inr p"
    "Kubernetes (pspec_Backend (wnpp_Spec p)) = Some s"
    "flow_in (formatLabelSelector mem_helpers) ''Egress'' s (buildPeerAndPort (sample_wk ''api'') ''TCP'' 80)" by blast
  from stored [OF sample_learn_twice(4) 2 [unfolded sample_learn_def], unfolded p(1) sum.case] obtain q t where
    "getWNPP ?c (lr_cluster r) ?k = Inr q" "Kubernetes (pspec_Backend (wnpp_Spec q)) = Some t"
    "flow_in (formatLabelSelector mem_helpers) ''Egress'' t (buildPeerAndPort (sample_wk ''api'') ''TCP'' 443)"
    "\<forall>s0 d' f. Kubernetes (pspec_Backend (wnpp_Spec p)) = Some s0 \<and> flow_in (formatLabelSelector mem_helpers) d' s0 f \<longrightarrow>
       flow_in (formatLabelSelector mem_helpers) d' t f" by blast
  with 2 p(2,3) show ?thesis by blast
qed

text \<open>C32. Monitoring: for a workload whose proposal was promoted to a policy in monitor mode, a flow in the
  policy changes nothing; any other flow is recorded as one observation that names the policy, with
  the workload as the policy's side and the peer as the other, and is exported; the newest
  observations survive a full buffer, and the handler reports no error either way. In protect mode
  nothing happens.\<close>

theorem monitor_reports_unlearned:
  assumes "d \<in> {PolicyTypeEgress, PolicyTypeIngress}"
    and "checkExistingPolicy c (lr_cluster r) (wr_Namespace wk) (getProposalName wk d) = Inr [policy]"
    and "Kubernetes (wnp_Backend policy) = Some spec"
    and "rb_inv (lr_violationBuffer r)" and "0 < rb_room (lr_violationBuffer r)"
    and "ob = generateViolationObservation (wnp_Name policy) wk peer proto d port now"
  shows "\<exists>r'. reconcileKubernetesProposal h c now r wk peer d proto port = Some (r', None) \<and>
    lr_cluster r' = lr_cluster r \<and> lr_eventChan r' = lr_eventChan r \<and>
    (if wnp_Mode policy = WorkloadNetworkPolicyModeProtect \<or>
        flow_in (formatLabelSelector h) d spec (buildPeerAndPort peer proto port)
     then r' = r
     else rb_contents (lr_violationBuffer r') =
            take (nat (capacity (lr_violationBuffer r))) (ob # rb_contents (lr_violationBuffer r)) \<and>
          lr_violationOtelLogger r' = EmitOtelLog (lr_violationOtelLogger r) ob) \<and>
    DenyingPolicyName (obs_Info ob) = wnp_Name policy \<and> DenyingPolicyNamespace (obs_Info ob) = wr_Namespace wk \<and>
    (vi_Source (obs_Info ob), Dest (obs_Info ob)) = (if d = PolicyTypeIngress then (peer, wk) else (wk, peer))"
proof -
  from ring.rec1_ok [OF assms(4,5), of ob] obtain b where
    b: "Record (lr_violationBuffer r) ob = Some (length (rb_contents (lr_violationBuffer r)) = nat (capacity (lr_violationBuffer r)), b)"
      "rb_contents b = take (nat (capacity (lr_violationBuffer r))) (ob # rb_contents (lr_violationBuffer r))" by blast
  have obs: "DenyingPolicyName (obs_Info ob) = wnp_Name policy" "DenyingPolicyNamespace (obs_Info ob) = wr_Namespace wk"
    "(vi_Source (obs_Info ob), Dest (obs_Info ob)) = (if d = PolicyTypeIngress then (peer, wk) else (wk, peer))"
    by (simp_all add: assms(6) generateViolationObservation_def)
  have name: "wnpp_Name (getProposalMetadata wk d) = getProposalName wk d"
    by (simp add: getProposalMetadata_def)
  let ?r = "r\<lparr>lr_violationOtelLogger := EmitOtelLog (lr_violationOtelLogger r) ob, lr_violationBuffer := b\<rparr>"
  have send: "map_option fst (sendMonitorViolation r (wnp_Name policy) wk peer proto d port now) = Some ?r"
    unfolding sendMonitorViolation_def Let_def assms(6) [symmetric] using b(1) by simp
  have fst_None: "map_option (\<lambda>(x, _). (x, None)) m = map_option (\<lambda>x. (x, None)) (map_option fst m)"
    for m :: "('a LearningReconciler \<times> error option) option" by (cases m) auto
  have "reconcileKubernetesProposal h c now r wk peer d proto port =
    Some (if wnp_Mode policy = WorkloadNetworkPolicyModeProtect \<or>
        flow_in (formatLabelSelector h) d spec (buildPeerAndPort peer proto port) then r else ?r, None)"
    unfolding reconcileKubernetesProposal_def Let_def name assms(2) fst_None
    using evaluateMonitorViolation_eq [OF assms(1,3), of h r wk peer proto port now] send by simp
  with b(2) obs show ?thesis by simp
qed

definition sample_monitor_policy :: WorkloadNetworkPolicy where
  "sample_monitor_policy =
     \<lparr>wnp_Meta = (meta_named ''ns'' ''p'')\<lparr>om_Labels := [(PolicyPromotedFromLabelKey, ''deployment-api-ingress'')]\<rparr>,
      wnp_Spec = \<lparr>spec_Backend = \<lparr>Backend = ''kubernetes'', Kubernetes = Some empty_np_spec, Istio = None\<rparr>,
        spec_Targeting = \<lparr>TargetRef = \<lparr>tr_Kind = ''Deployment'', tr_Name = ''api''\<rparr>, Direction = ''Ingress''\<rparr>,
        spec_Mode = ''monitor''\<rparr>,
      wnp_Status = empty_status\<rparr>"

theorem monitor_reports_unlearned_witness:
  "\<exists>r'. reconcileKubernetesProposal mem_helpers (mem_client sample_index) 7 (sample_learner [sample_monitor_policy])
       (sample_wk ''api'') (sample_wk ''web'') ''Ingress'' ''TCP'' 80 = Some (r', None) \<and>
     rb_contents (lr_violationBuffer r') =
       [generateViolationObservation ''p'' (sample_wk ''api'') (sample_wk ''web'') ''TCP'' ''Ingress'' 80 7]"
proof -
  let ?r = "sample_learner [sample_monitor_policy]"
  have "checkExistingPolicy (mem_client sample_index) (lr_cluster ?r) (wr_Namespace (sample_wk ''api''))
      (getProposalName (sample_wk ''api'') ''Ingress'') = Inr [sample_monitor_policy]" by code_simp
  moreover have "Kubernetes (wnp_Backend sample_monitor_policy) = Some empty_np_spec"
    "wnp_Mode sample_monitor_policy = ''monitor''" "wnp_Name sample_monitor_policy = ''p''"
    by (simp_all add: sample_monitor_policy_def)
  moreover have "rb_inv (lr_violationBuffer ?r)" "0 < rb_room (lr_violationBuffer ?r)"
    "rb_contents (lr_violationBuffer ?r) = []" "nat (capacity (lr_violationBuffer ?r)) = 2"
    by (simp_all add: sample_learner_def NewLearningReconciler_def rb_inv_def rb_room_def rb_contents_def)
  moreover have "\<not> flow_in f ''Ingress'' empty_np_spec x" for f x
    by (simp add: flow_in_def empty_np_spec_def)
  ultimately show ?thesis
    using monitor_reports_unlearned [of "''Ingress''" "mem_client sample_index" ?r "sample_wk ''api''" sample_monitor_policy
        empty_np_spec "generateViolationObservation ''p'' (sample_wk ''api'') (sample_wk ''web'') ''TCP'' ''Ingress'' 80 7"
        "sample_wk ''web''" "''TCP''" 80 7 mem_helpers] by auto
qed

text \<open>The violations of a policy made of learned rules are never cleared: the rule built from a
  violation names no pod selector, every learned rule does, and the two are compared structurally.
  This holds for the very flow a rule was learned from.\<close>

lemma learned_rules_never_clear:
  assumes "\<forall>sel. selector_nonempty sel \<longrightarrow> fmt (Some sel) \<noteq> fmt None"
    and "\<forall>rule \<in> set (Ingress spec). \<exists>peer proto port. selector_nonempty (wr_Selector peer) \<and>
           From rule = [fst (buildPeerAndPort peer proto port)]"
    and "\<forall>rule \<in> set (Egress spec). \<exists>peer proto port. selector_nonempty (wr_Selector peer) \<and>
           To rule = [fst (buildPeerAndPort peer proto port)]"
  shows "\<not> kubernetesAllows fmt spec v"
proof -
  have "\<not> IngressRuleEqual fmt (ToIngressRule v) rule" if r: "rule \<in> set (Ingress spec)" for rule
    using assms(1) bspec [OF assms(2) r]
    by (fastforce simp: rule_equal_iff ToIngressRule_def peer_class_def buildPeerAndPort_def)
  moreover have "\<not> EgressRuleEqual fmt (ToEgressRule v) rule" if r: "rule \<in> set (Egress spec)" for rule
    using assms(1) bspec [OF assms(3) r]
    by (fastforce simp: rule_equal_iff ToEgressRule_def peer_class_def buildPeerAndPort_def)
  ultimately show ?thesis by (auto simp: kubernetesAllows_def list_ex_iff)
qed

lemma str_join_hd: "set x \<subseteq> set (str_join (x # xs) sep)"
  by (cases xs) auto

lemma mem_format_nonempty: "selector_nonempty sel \<Longrightarrow> mem_format (Some sel) \<noteq> mem_format None"
proof (cases "MatchLabels sel")
  case Nil
  moreover assume "selector_nonempty sel"
  ultimately show ?thesis by (simp add: selector_nonempty_def mem_format_def)
next
  case (Cons kv rest)
  obtain k v where kv: "kv = (k, v)" by (cases kv)
  have "CHR ''='' \<in> set (mem_format (Some sel))"
    using str_join_hd [of "k @ ''='' @ v" "map (\<lambda>(k, v). k @ ''='' @ v) rest" "'',''"] Cons kv
    by (simp add: mem_format_def)
  moreover have "CHR ''='' \<notin> set (mem_format None)" by (simp add: mem_format_def)
  ultimately show ?thesis by metis
qed

lemma learned_rules_never_clear_witness:
  "\<not> kubernetesAllows mem_format
     (empty_np_spec\<lparr>Ingress := upsertIngressRuleByPeer mem_format []
        (fst (buildPeerAndPort (sample_ref ''front'' ''a'') ''TCP'' 8080))
        (snd (buildPeerAndPort (sample_ref ''front'' ''a'') ''TCP'' 8080))\<rparr>)
     (sample_violation ''a'' 5 0)"
proof (rule learned_rules_never_clear)
  have "selector_nonempty (wr_Selector (sample_ref ''front'' ''a''))"
    by (simp add: selector_nonempty_def sample_ref_def)
  then show "\<forall>rule \<in> set (Ingress (empty_np_spec\<lparr>Ingress := upsertIngressRuleByPeer mem_format []
        (fst (buildPeerAndPort (sample_ref ''front'' ''a'') ''TCP'' 8080))
        (snd (buildPeerAndPort (sample_ref ''front'' ''a'') ''TCP'' 8080))\<rparr>)).
      \<exists>peer proto port. selector_nonempty (wr_Selector peer) \<and> From rule = [fst (buildPeerAndPort peer proto port)]"
    by auto
qed (auto simp: mem_format_nonempty empty_np_spec_def)

text \<open>A Kubernetes flow for a workload whose promoted monitor-mode policy is for the Istio backend makes
  the handler dereference a nil Kubernetes specification: the names of proposals do not tell the
  backends apart, and the monitor check does not look at the policy's backend.\<close>

lemma monitor_of_istio_policy_panics:
  assumes "d \<in> {PolicyTypeEgress, PolicyTypeIngress}"
    and "checkExistingPolicy c (lr_cluster r) (wr_Namespace wk) (getProposalName wk d) = Inr [policy]"
    and "wnp_Mode policy = WorkloadNetworkPolicyModeMonitor" and "Kubernetes (wnp_Backend policy) = None"
  shows "reconcileKubernetesProposal h c now r wk peer d proto port = None"
proof -
  have name: "wnpp_Name (getProposalMetadata wk d) = getProposalName wk d"
    by (simp add: getProposalMetadata_def)
  have "evaluateMonitorViolation h r policy wk peer proto d port now = None"
    using assms(1,4) by (auto simp: evaluateMonitorViolation_def Let_def split: prod.splits)
  with assms(3) show ?thesis
    unfolding reconcileKubernetesProposal_def Let_def name assms(2) by simp
qed

definition sample_istio_monitor_policy :: WorkloadNetworkPolicy where
  "sample_istio_monitor_policy = sample_monitor_policy\<lparr>wnp_Spec := (wnp_Spec sample_monitor_policy)
     \<lparr>spec_Backend := \<lparr>Backend = ''istio'', Kubernetes = None, Istio = Some sample_istio\<rparr>\<rparr>\<rparr>"

lemma monitor_of_istio_policy_panics_witness:
  "learning_Reconcile mem_helpers (mem_client sample_index) 7 (sample_learner [sample_istio_monitor_policy])
     \<lparr>le_Source = Some (sample_wk ''web''), le_Dest = Some (sample_wk ''api''), le_DstPort = 80, le_Protocol = ''TCP'',
      le_Backend = ''kubernetes''\<rparr> = None"
proof -
  have n: "getProposalName (sample_wk ''api'') ''Ingress'' = ''deployment-api-ingress''" "wr_Namespace (sample_wk ''api'') = ''ns''"
    by code_simp+
  have chk: "checkExistingPolicy (mem_client sample_index) (lr_cluster r) (wr_Namespace (sample_wk ''api''))
      (getProposalName (sample_wk ''api'') ''Ingress'') = Inr [sample_istio_monitor_policy]"
    if "st_wnps (lr_cluster r) = [sample_istio_monitor_policy]" for r :: "store LearningReconciler"
    unfolding checkExistingPolicy_def mem_client_def using that
    by (simp add: labels_match_def n sample_istio_monitor_policy_def sample_monitor_policy_def)
  have "map_option (\<lambda>x. (snd x, st_wnps (lr_cluster (fst x)) = [sample_istio_monitor_policy]))
      (reconcileKubernetesProposal mem_helpers (mem_client sample_index) 7 (sample_learner [sample_istio_monitor_policy])
       (sample_wk ''web'') (sample_wk ''api'') ''Egress'' ''TCP'' 80) = Some (None, True)"
    by code_simp
  then obtain r1 where r1: "reconcileKubernetesProposal mem_helpers (mem_client sample_index) 7
       (sample_learner [sample_istio_monitor_policy]) (sample_wk ''web'') (sample_wk ''api'') ''Egress'' ''TCP'' 80 = Some (r1, None)"
      "st_wnps (lr_cluster r1) = [sample_istio_monitor_policy]" by auto
  have "reconcileKubernetesProposal mem_helpers (mem_client sample_index) 7 r1
       (sample_wk ''api'') (sample_wk ''web'') ''Ingress'' ''TCP'' 80 = None"
    using chk [OF r1(2)] by (intro monitor_of_istio_policy_panics [where policy = sample_istio_monitor_policy])
      (simp_all add: sample_istio_monitor_policy_def sample_monitor_policy_def)
  with r1(1) show ?thesis by (simp add: learning_Reconcile_def processKubernetesLearningEvent_def)
qed

end
