(* ===== verification/StatusSync.thy ===== *)
theory StatusSync
  imports Learning
begin

text \<open>
  The status sync of \<^verbatim>\<open>internal/controller/workloadnetworkpolicystatus_sync.go\<close> and the counters of
  \<^verbatim>\<open>violation_attribution_metrics.go\<close>. One cycle takes a snapshot of the policies, drains the buffered
  observations, attributes each to the policy that targets its subject (or counts it as
  unattributed), and patches every policy: first the status, then, after the acknowledgements have
  been exported, the metadata.

  A Go map built by the cycle is an association list; the order in which \<open>range\<close> visits the snapshot is
  the argument \<open>visit\<close>. A counter vector is a function from label values to a count. \<open>None\<close> is a panic.
\<close>

section \<open>Model\<close>

subsection \<open>Counters (violation_attribution_metrics.go)\<close>

definition unattributedReasonUnknownSubject :: string where "unattributedReasonUnknownSubject = ''unknown_subject''"
definition unattributedReasonNoTargetPolicy :: string where "unattributedReasonNoTargetPolicy = ''no_target_policy''"
definition unattributedReasonDuplicateTargetPolicy :: string where
  "unattributedReasonDuplicateTargetPolicy = ''duplicate_target_policy''"
definition unattributedReasonLookupFailed :: string where "unattributedReasonLookupFailed = ''lookup_failed''"

lemmas reason_defs = unattributedReasonUnknownSubject_def unattributedReasonNoTargetPolicy_def
  unattributedReasonDuplicateTargetPolicy_def unattributedReasonLookupFailed_def

record attributionMetrics =
  unattributed :: "string \<times> string \<times> string \<Rightarrow> nat"
  disagreements :: "string \<times> string \<Rightarrow> nat"

definition newAttributionMetrics :: attributionMetrics where
  "newAttributionMetrics = \<lparr>unattributed = (\<lambda>_. 0), disagreements = (\<lambda>_. 0)\<rparr>"

definition recordUnattributed :: "attributionMetrics option \<Rightarrow> Observation \<Rightarrow> string \<Rightarrow> attributionMetrics option" where
  "recordUnattributed m obs why =
     (case m of
        None \<Rightarrow> None
      | Some a \<Rightarrow>
          let l = (Provider obs, obs_Direction obs, why) in
          Some (a\<lparr>unattributed := (unattributed a)(l := unattributed a l + 1)\<rparr>))"

definition recordDisagreement :: "attributionMetrics option \<Rightarrow> Observation \<Rightarrow> attributionMetrics option" where
  "recordDisagreement m obs =
     (case m of
        None \<Rightarrow> None
      | Some a \<Rightarrow>
          let l = (Provider obs, obs_Direction obs) in
          Some (a\<lparr>disagreements := (disagreements a)(l := disagreements a l + 1)\<rparr>))"

subsection \<open>Targets and subjects\<close>

record wnpTarget =
  target_namespace :: string
  target_key :: string

definition wnpTargetKey :: "WorkloadNetworkPolicy \<Rightarrow> wnpTarget option" where
  "wnpTargetKey wnp =
     (let ref = wnp_TargetRef wnp in
      if tr_Kind ref = [] \<or> tr_Name ref = [] \<or> wnp_Direction wnp = [] then None
      else Some \<lparr>target_namespace = wnp_Namespace wnp,
                 target_key = WNPTargetIndexKey (tr_Kind ref) (tr_Name ref) (wnp_Direction wnp)\<rparr>)"

type_synonym wnp_map = "(NamespacedName \<times> WorkloadNetworkPolicy) list"
type_synonym owner_index = "(NamespacedName \<times> NamespacedName option) list"

fun count_targets :: "(wnpTarget \<times> nat) list \<Rightarrow> wnp_map \<Rightarrow> (wnpTarget \<times> nat) list" where
  "count_targets counts [] = counts"
| "count_targets counts ((_, wnp) # rest) =
     (case wnpTargetKey wnp of
        None \<Rightarrow> count_targets counts rest
      | Some key \<Rightarrow>
          count_targets (AList.update key (case map_of counts key of None \<Rightarrow> 1 | Some n \<Rightarrow> n + 1) counts) rest)"

definition duplicateTargets :: "wnp_map \<Rightarrow> wnpTarget list" where
  "duplicateTargets wnpByKey = map fst (filter (\<lambda>(key, n). n > 1) (count_targets [] wnpByKey))"

definition violationSubject :: "Observation \<Rightarrow> WorkloadRef option" where
  "violationSubject obs =
     (let check = (\<lambda>subject. if wr_Namespace subject = [] \<or> wr_OwnerName subject = [] \<or> \<not> IsSupported subject
                             then None else Some subject)
      in if obs_Direction obs = PolicyTypeEgress then check (vi_Source (obs_Info obs))
         else if obs_Direction obs = PolicyTypeIngress then check (Dest (obs_Info obs))
         else None)"

subsection \<open>Ownership\<close>

fun findWNPOwnerRef ::
    "OwnerReference list \<Rightarrow> string \<Rightarrow> string \<Rightarrow> string \<Rightarrow> wnp_map \<Rightarrow> NamespacedName option" where
  "findWNPOwnerRef [] ns apiVersion kind wnpByKey = None"
| "findWNPOwnerRef (ref # refs) ns apiVersion kind wnpByKey =
     (let wnpKey = \<lparr>nn_Namespace = ns, nn_Name = or_Name ref\<rparr> in
      if or_Controller ref = Some True \<and> or_APIVersion ref = apiVersion \<and> or_Kind ref = kind \<and>
         map_of wnpByKey wnpKey \<noteq> None
      then Some wnpKey else findWNPOwnerRef refs ns apiVersion kind wnpByKey)"

fun index_owners :: "wnp_map \<Rightarrow> owner_index \<Rightarrow> NetworkPolicy list \<Rightarrow> owner_index" where
  "index_owners wnpByKey index [] = index"
| "index_owners wnpByKey index (np # nps) =
     index_owners wnpByKey
       (AList.update (meta_key (np_Meta np))
          (findWNPOwnerRef (om_OwnerReferences (np_Meta np)) (om_Namespace (np_Meta np)) (gv_String GroupVersion)
             ''WorkloadNetworkPolicy'' wnpByKey) index) nps"

definition buildOwnershipIndex :: "'w client \<Rightarrow> 'w \<Rightarrow> wnp_map \<Rightarrow> error + owner_index" where
  "buildOwnershipIndex c w wnpByKey =
     (case listNP c w of
        Inl e \<Rightarrow> Inl (wrap ''failed to list NetworkPolicies'' e)
      | Inr nps \<Rightarrow> Inr (index_owners wnpByKey [] nps))"

definition reportedOwningWNP ::
    "helpers \<Rightarrow> 'w client \<Rightarrow> 'w \<Rightarrow> Observation \<Rightarrow> owner_index \<Rightarrow> wnp_map \<Rightarrow> WorkloadNetworkPolicy option" where
  "reportedOwningWNP h c w obs ownedIndex wnpByKey =
     (if DenyingPolicyName (obs_Info obs) = [] then None
      else
        let reported = \<lparr>nn_Namespace = DenyingPolicyNamespace (obs_Info obs), nn_Name = DenyingPolicyName (obs_Info obs)\<rparr> in
        if Provider obs = PolicyBackendIstio then
          (case map_of wnpByKey reported of
             None \<Rightarrow> None
           | Some wnp \<Rightarrow>
               (case getAP c w reported of
                  Inl _ \<Rightarrow> None
                | Inr ap \<Rightarrow>
                    if isControlledBy h (om_OwnerReferences (ap_Meta ap)) (om_UID (wnp_Meta wnp)) then Some wnp else None))
        else
          (case map_of ownedIndex reported of
             Some None \<Rightarrow> None
           | Some (Some owner) \<Rightarrow> map_of wnpByKey owner
           | None \<Rightarrow> map_of wnpByKey reported))"

subsection \<open>Attribution\<close>

definition targetDuplicated :: "'w client \<Rightarrow> 'w \<Rightarrow> WorkloadRef \<Rightarrow> PolicyType \<Rightarrow> error + bool" where
  "targetDuplicated c w subject direction =
     (case LookupWNPByTarget c w (wr_Namespace subject) (wr_OwnerKind subject) (wr_OwnerName subject) direction of
        Inl e \<Rightarrow> if error_is e ErrDuplicateTarget then Inr True
                  else if error_is e ErrTargetNotFound then Inr False
                  else Inl e
      | Inr _ \<Rightarrow> Inr False)"

text \<open>The last component is \<open>resolved\<close>.\<close>

definition attributeReportedPolicy ::
    "'w client \<Rightarrow> 'w \<Rightarrow> attributionMetrics option \<Rightarrow> Observation \<Rightarrow> WorkloadNetworkPolicy \<Rightarrow> WorkloadRef \<Rightarrow>
     attributionMetrics option \<times> NamespacedName \<times> string \<times> bool" where
  "attributeReportedPolicy c w m obs reportedWNP subject =
     (let targetsSubject = (wnp_Namespace reportedWNP = wr_Namespace subject \<and>
            tr_Kind (wnp_TargetRef reportedWNP) = wr_OwnerKind subject \<and>
            tr_Name (wnp_TargetRef reportedWNP) = wr_OwnerName subject)
      in if \<not> targetsSubject then (recordDisagreement m obs, nn_zero, [], False)
         else if wnp_Direction reportedWNP \<noteq> obs_Direction obs then (m, nn_zero, [], False)
         else (case targetDuplicated c w subject (obs_Direction obs) of
                 Inl e \<Rightarrow> (m, nn_zero, unattributedReasonLookupFailed, True)
               | Inr duplicated \<Rightarrow>
                   if duplicated then (m, nn_zero, unattributedReasonDuplicateTargetPolicy, True)
                   else (m, wnp_NamespacedName (Some reportedWNP), [], True)))"

definition lookup_by_target ::
    "'w client \<Rightarrow> 'w \<Rightarrow> Observation \<Rightarrow> WorkloadRef \<Rightarrow> wnp_map \<Rightarrow> NamespacedName \<times> string" where
  "lookup_by_target c w obs subject wnpByKey =
     (case LookupWNPByTarget c w (wr_Namespace subject) (wr_OwnerKind subject) (wr_OwnerName subject) (obs_Direction obs) of
        Inl e \<Rightarrow>
          if error_is e ErrTargetNotFound then (nn_zero, unattributedReasonNoTargetPolicy)
          else if error_is e ErrDuplicateTarget then (nn_zero, unattributedReasonDuplicateTargetPolicy)
          else (nn_zero, unattributedReasonLookupFailed)
      | Inr wnp \<Rightarrow>
          let wnpKey = wnp_NamespacedName (Some wnp) in
          if map_of wnpByKey wnpKey = None then (nn_zero, unattributedReasonNoTargetPolicy) else (wnpKey, []))"

text \<open>Without a subject the reported policy is looked up but not used, so the model decides that first. The
  ownership index only names owners of the snapshot (lemma \<open>index_owners_known\<close>), so the owner's policy
  is never nil.\<close>

definition attributeViolation ::
    "helpers \<Rightarrow> 'w client \<Rightarrow> 'w \<Rightarrow> attributionMetrics option \<Rightarrow> Observation \<Rightarrow> owner_index \<Rightarrow> wnp_map \<Rightarrow> wnpTarget list \<Rightarrow>
     attributionMetrics option \<times> NamespacedName \<times> string" where
  "attributeViolation h c w m obs ownedIndex wnpByKey duplicates =
     (case violationSubject obs of
        None \<Rightarrow> (m, nn_zero, unattributedReasonUnknownSubject)
      | Some subject \<Rightarrow>
          let key = \<lparr>target_namespace = wr_Namespace subject,
                     target_key = WNPTargetIndexKey (wr_OwnerKind subject) (wr_OwnerName subject) (obs_Direction obs)\<rparr> in
          if key \<in> set duplicates then (m, nn_zero, unattributedReasonDuplicateTargetPolicy)
          else
            (case reportedOwningWNP h c w obs ownedIndex wnpByKey of
               None \<Rightarrow> (m, lookup_by_target c w obs subject wnpByKey)
             | Some reportedWNP \<Rightarrow>
                 (case attributeReportedPolicy c w m obs reportedWNP subject of
                    (m', wnpKey, why, resolved) \<Rightarrow>
                      if resolved then (m', wnpKey, why)
                      else (m', lookup_by_target c w obs subject wnpByKey))))"

text \<open>The record of an attributed observation, which names the policy it belongs to.\<close>

definition attributed_record :: "Observation \<Rightarrow> NamespacedName \<Rightarrow> ViolationRecord" where
  "attributed_record obs wnpKey =
     \<lparr>Info = (obs_Info obs)\<lparr>DenyingPolicyNamespace := nn_Namespace wnpKey, DenyingPolicyName := nn_Name wnpKey\<rparr>, ID = 0\<rparr>"

fun correlateViolationsToWNPs ::
    "helpers \<Rightarrow> 'w client \<Rightarrow> 'w \<Rightarrow> attributionMetrics option \<Rightarrow> owner_index \<Rightarrow> wnp_map \<Rightarrow> wnpTarget list \<Rightarrow>
     (NamespacedName \<times> ViolationRecord list) list \<Rightarrow> Observation list \<Rightarrow>
     attributionMetrics option \<times> (NamespacedName \<times> ViolationRecord list) list" where
  "correlateViolationsToWNPs h c w m ownedIndex wnpByKey duplicates result [] = (m, result)"
| "correlateViolationsToWNPs h c w m ownedIndex wnpByKey duplicates result (obs # scraped) =
     (case attributeViolation h c w m obs ownedIndex wnpByKey duplicates of
        (m', wnpKey, why) \<Rightarrow>
          if why \<noteq> [] then
            correlateViolationsToWNPs h c w (recordUnattributed m' obs why) ownedIndex wnpByKey duplicates result scraped
          else
            correlateViolationsToWNPs h c w m' ownedIndex wnpByKey duplicates
              (AList.update wnpKey ((case map_of result wnpKey of None \<Rightarrow> [] | Some vs \<Rightarrow> vs) @ [attributed_record obs wnpKey]) result)
              scraped)"

subsection \<open>Writing\<close>

record 'w StatusSync =
  ss_cluster :: 'w
  ss_violationBuffer :: "Observation Buffer"
  ss_eventLogger :: OtelLogger
  ss_metrics :: "attributionMetrics option"

definition eventNamePolicyViolationAcknowledged :: string where
  "eventNamePolicyViolationAcknowledged = ''policy_violation_acknowledged''"

text \<open>\<open>rfc3339\<close> is the formatting of the time library and \<open>clock\<close> the time at which the record is made.\<close>

definition acknowledged_record :: "(time \<Rightarrow> string) \<Rightarrow> time \<Rightarrow> AcknowledgedViolationRecord \<Rightarrow> OtelRecord" where
  "acknowledged_record rfc3339 clock ack =
     (let v = Violation ack; i = Info v in
      \<lparr>rec_EventName = eventNamePolicyViolationAcknowledged, rec_Body = Some eventNamePolicyViolationAcknowledged, rec_Severity = SeverityInfo, rec_Timestamp = clock,
       rec_Attributes =
         [(''id'', AInt64 (ID v)), (''timestamp'', AString (rfc3339 (Timestamp i))), (''reason'', AString (Reason ack)),
          (''source.namespace'', AString (wr_Namespace (vi_Source i))),
          (''source.workload.kind'', AString (wr_OwnerKind (vi_Source i))),
          (''source.workload.name'', AString (wr_OwnerName (vi_Source i))),
          (''source.workload.identity'', AString (wr_Identity (vi_Source i))),
          (''dest.namespace'', AString (wr_Namespace (Dest i))),
          (''dest.workload.kind'', AString (wr_OwnerKind (Dest i))),
          (''dest.workload.name'', AString (wr_OwnerName (Dest i))),
          (''dest.workload.identity'', AString (wr_Identity (Dest i))),
          (''protocol'', AString (vi_Protocol i)), (''dstPort'', AInt64 (scast (DstPort i))),
          (''action'', AString (Action i)),
          (''denyingPolicy.namespace'', AString (DenyingPolicyNamespace i)),
          (''denyingPolicy.name'', AString (DenyingPolicyName i))]\<rparr>)"

definition emitAcknowledgedViolationOtelLog ::
    "(time \<Rightarrow> string) \<Rightarrow> time \<Rightarrow> OtelLogger \<Rightarrow> AcknowledgedViolationRecord \<Rightarrow> OtelLogger" where
  "emitAcknowledgedViolationOtelLog rfc3339 clock logger ack =
     (case logger of None \<Rightarrow> None | Some log \<Rightarrow> Some (log @ [acknowledged_record rfc3339 clock ack]))"

fun emitAcknowledgedViolations ::
    "(time \<Rightarrow> string) \<Rightarrow> time \<Rightarrow> OtelLogger \<Rightarrow> AcknowledgedViolationRecord list \<Rightarrow> OtelLogger" where
  "emitAcknowledgedViolations rfc3339 clock logger [] = logger"
| "emitAcknowledgedViolations rfc3339 clock logger (ack # acks) =
     emitAcknowledgedViolations rfc3339 clock (emitAcknowledgedViolationOtelLog rfc3339 clock logger ack) acks"

definition processWorkloadNetworkPolicy ::
    "helpers \<Rightarrow> 'w client \<Rightarrow> (time \<Rightarrow> string) \<Rightarrow> time \<Rightarrow> 'w StatusSync \<Rightarrow> WorkloadNetworkPolicy \<Rightarrow> ViolationRecord list \<Rightarrow>
     ('w StatusSync \<times> error option) option" where
  "processWorkloadNetworkPolicy h c rfc3339 now r wnp violations =
     (case RecomputeStatus (formatLabelSelector h) (Some wnp) violations now of
        None \<Rightarrow> None
      | Some (None, _) \<Rightarrow> None
      | Some (Some newPolicy, acknowledged) \<Rightarrow>
          let key = nn_string (wnp_NamespacedName (Some wnp)) in
          (case patchWNPStatus c (ss_cluster r) newPolicy wnp of
             (w1, Some e) \<Rightarrow>
               Some (r\<lparr>ss_cluster := w1\<rparr>, Some (wrap (''failed to patch WorkloadNetworkPolicy status for '' @ key) e))
           | (w1, None) \<Rightarrow>
               let logger = emitAcknowledgedViolations rfc3339 now (ss_eventLogger r) acknowledged in
               (case patchWNP c w1 newPolicy wnp of
                  (w2, Some e) \<Rightarrow>
                    Some (r\<lparr>ss_cluster := w2, ss_eventLogger := logger\<rparr>,
                          Some (wrap (''failed to patch WorkloadNetworkPolicy annotations for '' @ key) e))
                | (w2, None) \<Rightarrow> Some (r\<lparr>ss_cluster := w2, ss_eventLogger := logger\<rparr>, None))))"

subsection \<open>One cycle\<close>

fun process_all ::
    "helpers \<Rightarrow> 'w client \<Rightarrow> (time \<Rightarrow> string) \<Rightarrow> time \<Rightarrow> (NamespacedName \<times> ViolationRecord list) list \<Rightarrow>
     'w StatusSync \<Rightarrow> wnp_map \<Rightarrow> 'w StatusSync option" where
  "process_all h c rfc3339 now violationsByWNP r [] = Some r"
| "process_all h c rfc3339 now violationsByWNP r ((key, wnp) # rest) =
     (case processWorkloadNetworkPolicy h c rfc3339 now r wnp
             (case map_of violationsByWNP key of None \<Rightarrow> [] | Some vs \<Rightarrow> vs) of
        None \<Rightarrow> None
      | Some (r', _) \<Rightarrow> process_all h c rfc3339 now violationsByWNP r' rest)"

definition index_wnps :: "WorkloadNetworkPolicy list \<Rightarrow> wnp_map" where
  "index_wnps items = foldl (\<lambda>m wnp. AList.update (meta_key (wnp_Meta wnp)) wnp m) [] items"

definition sync ::
    "helpers \<Rightarrow> 'w client \<Rightarrow> (time \<Rightarrow> string) \<Rightarrow> (wnp_map \<Rightarrow> wnp_map) \<Rightarrow> time \<Rightarrow> 'w StatusSync \<Rightarrow>
     ('w StatusSync \<times> error option) option" where
  "sync h c rfc3339 visit now r =
     (case listWNP c (ss_cluster r) None of
        Inl e \<Rightarrow> Some (r, Some (wrap ''failed to list WorkloadNetworkPolicies'' e))
      | Inr items \<Rightarrow>
          let wnpByKey = index_wnps items in
          (case buildOwnershipIndex c (ss_cluster r) wnpByKey of
             Inl e \<Rightarrow> Some (r, Some (wrap ''failed to build ownership index'' e))
           | Inr ownedIndex \<Rightarrow>
               (case Drain (ss_violationBuffer r) of
                  None \<Rightarrow> None
                | Some (observations, b) \<Rightarrow>
                    let r = r\<lparr>ss_violationBuffer := b\<rparr>;
                        duplicates = duplicateTargets wnpByKey
                    in (case correlateViolationsToWNPs h c (ss_cluster r) (ss_metrics r) ownedIndex wnpByKey duplicates
                               [] observations of
                          (m, violationsByWNP) \<Rightarrow>
                            let r = r\<lparr>ss_metrics := m\<rparr> in
                            if wnpByKey = [] then Some (r, None)
                            else map_option (\<lambda>r'. (r', None))
                                   (process_all h c rfc3339 now violationsByWNP r (visit wnpByKey))))))"

section \<open>Lemmas\<close>

subsection \<open>Duplicate targets\<close>

definition count_of :: "('k \<times> nat) list \<Rightarrow> 'k \<Rightarrow> nat" where
  "count_of counts k = (case map_of counts k of None \<Rightarrow> 0 | Some n \<Rightarrow> n)"

lemma count_targets_count:
  "count_of (count_targets cs m) k = count_of cs k + length (filter (\<lambda>e. wnpTargetKey (snd e) = Some k) m)"
  by (induction cs m rule: count_targets.induct)
    (auto simp: count_of_def update_conv' split: option.splits)

lemma count_targets_distinct: "distinct (map fst cs) \<Longrightarrow> distinct (map fst (count_targets cs m))"
  by (induction cs m rule: count_targets.induct) (auto simp: distinct_update split: option.splits)

lemma duplicateTargets_iff:
  "k \<in> set (duplicateTargets m) \<longleftrightarrow> 1 < length (filter (\<lambda>e. wnpTargetKey (snd e) = Some k) m)"
proof -
  have d: "distinct (map fst (count_targets [] m))" by (rule count_targets_distinct) simp
  have "k \<in> set (duplicateTargets m) \<longleftrightarrow> (\<exists>n. map_of (count_targets [] m) k = Some n \<and> 1 < n)"
    using d by (force simp: duplicateTargets_def)
  also have "\<dots> \<longleftrightarrow> 1 < count_of (count_targets [] m) k"
    by (auto simp: count_of_def split: option.splits)
  finally show ?thesis by (simp add: count_targets_count) (simp add: count_of_def)
qed

lemma violationSubject_Some:
  "violationSubject obs = Some subject \<Longrightarrow>
     wr_Namespace subject \<noteq> [] \<and> wr_OwnerName subject \<noteq> [] \<and> IsSupported subject \<and>
     (obs_Direction obs = PolicyTypeEgress \<and> subject = vi_Source (obs_Info obs) \<or>
      obs_Direction obs = PolicyTypeIngress \<and> subject = Dest (obs_Info obs))"
  by (auto simp: violationSubject_def Let_def split: if_splits)

lemma subject_slash_free:
  assumes "violationSubject obs = Some subject"
  shows "slash_free (wr_OwnerKind subject)" "slash_free (obs_Direction obs)"
    "wr_OwnerKind subject \<noteq> []" "obs_Direction obs \<noteq> []" "wr_OwnerName subject \<noteq> []"
  using violationSubject_Some [OF assms] by (auto simp: IsSupported_def slash_free_def)

text \<open>The policies that target the subject of an observation.\<close>

abbreviation targets_subject :: "Observation \<Rightarrow> WorkloadRef \<Rightarrow> WorkloadNetworkPolicy \<Rightarrow> bool" where
  "targets_subject obs subject \<equiv>
     targets (wr_Namespace subject) (wr_OwnerKind subject) (wr_OwnerName subject) (obs_Direction obs)"

definition subject_key :: "Observation \<Rightarrow> WorkloadRef \<Rightarrow> wnpTarget" where
  "subject_key obs subject =
     \<lparr>target_namespace = wr_Namespace subject,
      target_key = WNPTargetIndexKey (wr_OwnerKind subject) (wr_OwnerName subject) (obs_Direction obs)\<rparr>"

lemma wnpTargetKey_iff:
  assumes "violationSubject obs = Some subject" and "target_enums_ok p"
  shows "wnpTargetKey p = Some (subject_key obs subject) \<longleftrightarrow> targets_subject obs subject p"
  using assms(2) subject_slash_free [OF assms(1)]
  by (cases "wnp_TargetRef p")
    (auto simp: wnpTargetKey_def subject_key_def Let_def targets_def target_enums_ok_def WNPTargetIndexKey_eq)

subsection \<open>Ownership\<close>

lemma findWNPOwnerRef_known: "findWNPOwnerRef refs ns v k m = Some key \<Longrightarrow> map_of m key \<noteq> None"
  by (induction refs) (auto simp: Let_def split: if_splits)

lemma index_owners_known_gen:
  "(\<And>k o'. map_of idx k = Some (Some o') \<Longrightarrow> map_of m o' \<noteq> None) \<Longrightarrow>
     map_of (index_owners m idx nps) k = Some (Some o') \<Longrightarrow> map_of m o' \<noteq> None"
proof (induction nps arbitrary: idx)
  case Nil
  then show ?case by simp
next
  case (Cons np nps)
  show ?case
  proof (rule Cons.IH [OF _ Cons.prems(2) [simplified]])
    fix k' o'' assume "map_of (AList.update (meta_key (np_Meta np)) (findWNPOwnerRef (om_OwnerReferences (np_Meta np))
        (om_Namespace (np_Meta np)) (gv_String GroupVersion) ''WorkloadNetworkPolicy'' m) idx) k' = Some (Some o'')"
    then show "map_of m o'' \<noteq> None"
      using Cons.prems(1) findWNPOwnerRef_known by (auto simp: update_conv' split: if_splits)
  qed
qed

lemma index_owners_known: "map_of (index_owners m [] nps) k = Some (Some o') \<Longrightarrow> map_of m o' \<noteq> None"
  by (rule index_owners_known_gen [of "[]"]) simp_all

subsection \<open>Attribution\<close>

definition attribution ::
    "helpers \<Rightarrow> 'w client \<Rightarrow> 'w \<Rightarrow> owner_index \<Rightarrow> wnp_map \<Rightarrow> wnpTarget list \<Rightarrow> Observation \<Rightarrow> NamespacedName \<times> string" where
  "attribution h c w idx m dups obs = snd (attributeViolation h c w None obs idx m dups)"

lemma attributeReportedPolicy_snd:
  "snd (attributeReportedPolicy c w m obs p s) = snd (attributeReportedPolicy c w None obs p s)"
  by (auto simp: attributeReportedPolicy_def Let_def split: sum.splits)

lemma attributeViolation_snd:
  "snd (attributeViolation h c w a obs idx m dups) = attribution h c w idx m dups obs"
proof -
  have "snd (attributeViolation h c w a obs idx m dups) = snd (attributeViolation h c w None obs idx m dups)"
    using attributeReportedPolicy_snd [of c w a obs]
    by (auto simp: attributeViolation_def Let_def split: option.splits prod.splits) (metis prod.inject snd_conv)+
  then show ?thesis by (simp add: attribution_def)
qed

lemma attributeViolation_fst:
  "map_option unattributed (fst (attributeViolation h c w a obs idx m dups)) = map_option unattributed a"
  by (auto simp: attributeViolation_def attributeReportedPolicy_def recordDisagreement_def Let_def
      split: option.splits prod.splits sum.splits if_splits)

definition group_of :: "(NamespacedName \<times> ViolationRecord list) list \<Rightarrow> NamespacedName \<Rightarrow> ViolationRecord list" where
  "group_of r k = (case map_of r k of None \<Rightarrow> [] | Some vs \<Rightarrow> vs)"

lemma group_of_update: "group_of (AList.update k vs r) j = (if j = k then vs else group_of r j)"
  by (simp add: group_of_def update_conv')

lemma correlate_groups:
  "group_of (snd (correlateViolationsToWNPs h c w a idx m dups result scraped)) k =
     group_of result k @ map (\<lambda>obs. attributed_record obs k) (filter (\<lambda>obs. attribution h c w idx m dups obs = (k, [])) scraped)"
proof (induction scraped arbitrary: a result)
  case Nil
  then show ?case by simp
next
  case (Cons obs scraped)
  obtain a' key why where att: "attributeViolation h c w a obs idx m dups = (a', key, why)"
    by (cases "attributeViolation h c w a obs idx m dups")
  then have "attribution h c w idx m dups obs = (key, why)"
    using attributeViolation_snd [of h c w a obs idx m dups] by simp
  with att Cons show ?case by (auto simp: group_of_update) (auto simp: group_of_def)
qed

definition counted :: "string \<times> string \<times> string \<Rightarrow> Observation \<Rightarrow> NamespacedName \<times> string \<Rightarrow> bool" where
  "counted l obs att \<longleftrightarrow> snd att \<noteq> [] \<and> l = (Provider obs, obs_Direction obs, snd att)"

definition unattributed_count :: "attributionMetrics option \<Rightarrow> string \<times> string \<times> string \<Rightarrow> nat option" where
  "unattributed_count a l = map_option (\<lambda>x. unattributed x l) a"

lemma unattributed_count_record:
  "unattributed_count (recordUnattributed a obs why) l =
     map_option (\<lambda>n. n + (if l = (Provider obs, obs_Direction obs, why) then 1 else 0)) (unattributed_count a l)"
  by (cases a) (auto simp: unattributed_count_def recordUnattributed_def Let_def)

lemma unattributed_count_attribute:
  "unattributed_count (fst (attributeViolation h c w a obs idx m dups)) l = unattributed_count a l"
  using attributeViolation_fst [of h c w a obs idx m dups]
  by (cases a; cases "fst (attributeViolation h c w a obs idx m dups)") (auto simp: unattributed_count_def)

lemma correlate_metrics:
  "unattributed_count (fst (correlateViolationsToWNPs h c w a idx m dups result scraped)) l =
     map_option (\<lambda>n. n + length (filter (\<lambda>obs. counted l obs (attribution h c w idx m dups obs)) scraped))
       (unattributed_count a l)"
proof (induction scraped arbitrary: a result)
  case Nil
  then show ?case by (simp add: option.map_ident)
next
  case (Cons obs scraped)
  obtain a' key why where att: "attributeViolation h c w a obs idx m dups = (a', key, why)"
    by (cases "attributeViolation h c w a obs idx m dups")
  then have e: "attribution h c w idx m dups obs = (key, why)"
    using attributeViolation_snd [of h c w a obs idx m dups] by simp
  have u: "unattributed_count a' l = unattributed_count a l"
    using unattributed_count_attribute [of h c w a obs idx m dups l] att by simp
  show ?case
    using att e u by (cases "unattributed_count a l") (auto simp: Cons.IH unattributed_count_record counted_def)
qed

subsection \<open>The snapshot\<close>

lemma index_wnps_snoc: "index_wnps (items @ [p]) = AList.update (meta_key (wnp_Meta p)) p (index_wnps items)"
  by (simp add: index_wnps_def)

lemma index_wnps_ok:
  "distinct (map fst (index_wnps items)) \<and> (\<forall>e \<in> set (index_wnps items). fst e = meta_key (wnp_Meta (snd e)) \<and> snd e \<in> set items)"
proof (induction items rule: rev_induct)
  case Nil
  then show ?case by (simp add: index_wnps_def)
next
  case (snoc p items)
  have "set (AList.update k v al) \<subseteq> insert (k, v) (set al)" for k :: NamespacedName and v :: WorkloadNetworkPolicy and al
    by (induction al) auto
  then have "e = (meta_key (wnp_Meta p), p) \<or> e \<in> set (index_wnps items)" if "e \<in> set (index_wnps (items @ [p]))" for e
    using that by (auto simp: index_wnps_snoc)
  with snoc show ?case by (auto simp: index_wnps_snoc distinct_update simp del: split_paired_All) force+
qed

subsection \<open>Writing\<close>

lemma emitAcknowledgedViolations_eq:
  "emitAcknowledgedViolations f t logger acks = map_option (\<lambda>log. log @ map (acknowledged_record f t) acks) logger"
  by (induction acks arbitrary: logger)
    (auto simp: emitAcknowledgedViolationOtelLog_def option.map_ident split: option.splits)

lemma RecomputeStatus_total: "backend_valid (wnp_Backend wnp) \<Longrightarrow> \<exists>w acks. RecomputeStatus fmt (Some wnp) vs now = Some (Some w, acks)"
  by (auto simp: RecomputeStatus_def recompute_eq)

lemma processWorkloadNetworkPolicy_total:
  assumes "backend_valid (wnp_Backend wnp)"
  shows "\<exists>r' e. processWorkloadNetworkPolicy h c f now r wnp vs = Some (r', e) \<and>
    ss_violationBuffer r' = ss_violationBuffer r \<and> ss_metrics r' = ss_metrics r"
  using RecomputeStatus_total [OF assms, of "formatLabelSelector h" vs now]
  by (auto simp: processWorkloadNetworkPolicy_def Let_def split: prod.splits option.splits)

lemma process_all_total:
  "\<forall>e \<in> set m. backend_valid (wnp_Backend (snd e)) \<Longrightarrow>
     \<exists>r'. process_all h c f now vb r m = Some r' \<and>
          ss_violationBuffer r' = ss_violationBuffer r \<and> ss_metrics r' = ss_metrics r"
proof (induction m arbitrary: r)
  case Nil
  then show ?case by simp
next
  case (Cons e m)
  obtain key wnp where e: "e = (key, wnp)" by (cases e)
  let ?vs = "case map_of vb key of None \<Rightarrow> [] | Some vs \<Rightarrow> vs"
  from processWorkloadNetworkPolicy_total [of wnp h c f now r ?vs] Cons.prems e obtain r1 er where
    r1: "processWorkloadNetworkPolicy h c f now r wnp ?vs = Some (r1, er)"
      "ss_violationBuffer r1 = ss_violationBuffer r" "ss_metrics r1 = ss_metrics r" by auto
  from Cons.IH [of r1] Cons.prems r1 e show ?case by auto
qed

lemma reportedOwningWNP_known:
  assumes "reportedOwningWNP h c w obs idx m = Some p"
  shows "\<exists>k. map_of m k = Some p"
  using assms by (auto simp: reportedOwningWNP_def Let_def split: if_splits option.splits sum.splits)

text \<open>The two ways to an attributed policy: reported and verified, or looked up.\<close>

lemma attributeViolation_cases:
  assumes "attributeViolation h c w a obs idx m dups = (a', key, [])"
  obtains subject p where "violationSubject obs = Some subject" "subject_key obs subject \<notin> set dups"
    "reportedOwningWNP h c w obs idx m = Some p" "targets_subject obs subject p" "key = meta_key (wnp_Meta p)"
    "targetDuplicated c w subject (obs_Direction obs) = Inr False"
  | subject p where "violationSubject obs = Some subject" "subject_key obs subject \<notin> set dups"
    "LookupWNPByTarget c w (wr_Namespace subject) (wr_OwnerKind subject) (wr_OwnerName subject) (obs_Direction obs) = Inr p"
    "key = meta_key (wnp_Meta p)" "map_of m key \<noteq> None"
proof -
  from assms obtain subject where s: "violationSubject obs = Some subject" "subject_key obs subject \<notin> set dups"
    by (auto simp: attributeViolation_def subject_key_def Let_def reason_defs split: option.splits if_splits)
  have lk: "\<exists>p. LookupWNPByTarget c w (wr_Namespace subject) (wr_OwnerKind subject) (wr_OwnerName subject) (obs_Direction obs) = Inr p \<and>
      key = meta_key (wnp_Meta p) \<and> map_of m key \<noteq> None" if "lookup_by_target c w obs subject m = (key, [])"
    using that by (auto simp: lookup_by_target_def wnp_NamespacedName_def Let_def reason_defs
        split: sum.splits if_splits option.splits)
  show ?thesis
  proof (cases "reportedOwningWNP h c w obs idx m")
    case None
    with assms s have "lookup_by_target c w obs subject m = (key, [])"
      by (simp add: attributeViolation_def subject_key_def Let_def)
    with lk that(2) s show ?thesis by blast
  next
    case (Some p)
    show ?thesis
    proof (cases "attributeReportedPolicy c w a obs p subject")
      case (fields a'' k why resolved)
      show ?thesis
      proof (cases resolved)
        case False
        with assms s Some fields have "lookup_by_target c w obs subject m = (key, [])"
          by (simp add: attributeViolation_def subject_key_def Let_def)
        with lk that(2) s show ?thesis by blast
      next
        case True
        with assms s Some fields have "k = key" "why = []" by (auto simp: attributeViolation_def subject_key_def Let_def)
        with fields True have "targets_subject obs subject p \<and> key = meta_key (wnp_Meta p) \<and>
            targetDuplicated c w subject (obs_Direction obs) = Inr False"
          by (cases "wnp_TargetRef p") (auto simp: attributeReportedPolicy_def targets_def wnp_NamespacedName_def Let_def
              reason_defs split: sum.splits if_splits)
        with that(1) s Some show ?thesis by blast
      qed
    qed
  qed
qed

lemma targetDuplicated_False:
  assumes "field_index_ok c w WNPTargetIndexField IndexWNPByTarget objs" and "\<forall>p \<in> set objs. target_enums_ok p"
    and "violationSubject obs = Some subject" and "targetDuplicated c w subject (obs_Direction obs) = Inr False"
  shows "length (filter (targets_subject obs subject) objs) \<le> 1"
  using listWNPByField_targets [OF assms(1,2) subject_slash_free(1,2,3,5,4) [OF assms(3)], of "wr_Namespace subject"] assms(4)
  by (auto simp: targetDuplicated_def LookupWNPByTarget_def Let_def ErrDuplicateTarget_def ErrTargetNotFound_def
      split: list.splits if_splits)

text \<open>A cycle never panics on a cluster of admitted policies, in whatever order it visits them: if a
  listing fails the state is untouched, so no observation is lost and the next cycle sees them again;
  otherwise the buffer has been emptied and no error is returned.\<close>

lemma sync_cycle:
  assumes "rb_inv (ss_violationBuffer r)"
    and "\<forall>items. listWNP c (ss_cluster r) None = Inr items \<longrightarrow> (\<forall>p \<in> set items. backend_valid (wnp_Backend p))"
    and "\<forall>m. mset (visit m) = mset m"
  shows "\<exists>r' e. sync h c f visit now r = Some (r', e) \<and>
    (if isl (listWNP c (ss_cluster r) None) \<or> isl (listNP c (ss_cluster r)) then e \<noteq> None \<and> r' = r
     else e = None \<and> rb_inv (ss_violationBuffer r') \<and> rb_contents (ss_violationBuffer r') = [] \<and>
       nat (capacity (ss_violationBuffer r')) = nat (capacity (ss_violationBuffer r)) \<and>
       rb_room (ss_violationBuffer r) \<le> rb_room (ss_violationBuffer r'))"
proof (cases "listWNP c (ss_cluster r) None")
  case (Inl e)
  then show ?thesis by (simp add: sync_def)
next
  case items: (Inr items)
  show ?thesis
  proof (cases "listNP c (ss_cluster r)")
    case (Inl e)
    with items show ?thesis by (simp add: sync_def buildOwnershipIndex_def)
  next
    case nps: (Inr nps)
    let ?m = "index_wnps items"
    from Drain_ok [OF assms(1)] obtain b where b: "Drain (ss_violationBuffer r) = Some (rb_contents (ss_violationBuffer r), b)"
      "rb_inv b" "rb_contents b = []" "nat (capacity b) = nat (capacity (ss_violationBuffer r))"
      "rb_room (ss_violationBuffer r) \<le> rb_room b" by blast
    have "\<forall>e \<in> set (visit ?m). backend_valid (wnp_Backend (snd e))"
      using index_wnps_ok [of items] assms(2) items mset_eq_setD [OF spec [OF assms(3), of ?m]] by auto
    note tot = process_all_total [OF this]
    obtain a vb where corr: "correlateViolationsToWNPs h c (ss_cluster r) (ss_metrics r) (index_owners ?m [] nps) ?m
        (duplicateTargets ?m) [] (rb_contents (ss_violationBuffer r)) = (a, vb)" by fastforce
    let ?r1 = "r\<lparr>ss_violationBuffer := b, ss_metrics := a\<rparr>"
    from tot [of h c f now vb ?r1] obtain r' where
      r': "process_all h c f now vb ?r1 (visit ?m) = Some r'" "ss_violationBuffer r' = b" by auto
    have "sync h c f visit now r = Some (if ?m = [] then ?r1 else r', None)"
      using items nps b(1) corr r'(1) by (simp add: sync_def buildOwnershipIndex_def Let_def)
    with items nps b(2-) r'(2) show ?thesis by auto
  qed
qed

section \<open>Properties\<close>

text \<open>C9. Attribution is sound and unambiguous: an observation is given to a policy only if its subject is a
  supported workload, the policy is in the cycle's snapshot, it targets exactly that workload in the
  observed direction (in the snapshot, or in the client's cache when it was looked up), and neither
  the snapshot nor the cache holds a second policy with this target.\<close>

theorem attribution_sound:
  assumes "field_index_ok c w WNPTargetIndexField IndexWNPByTarget objs"
    and "\<forall>p \<in> set objs. target_enums_ok p" and "\<forall>p \<in> set items. target_enums_ok p"
    and "attributeViolation h c w a obs idx (index_wnps items) (duplicateTargets (index_wnps items)) = (a', key, [])"
  shows "\<exists>subject p. violationSubject obs = Some subject \<and> targets_subject obs subject p \<and>
    key = meta_key (wnp_Meta p) \<and> map_of (index_wnps items) key \<noteq> None \<and>
    (map_of (index_wnps items) key = Some p \<or> filter (targets_subject obs subject) objs = [p]) \<and>
    length (filter (targets_subject obs subject) objs) \<le> 1 \<and>
    length (filter (targets_subject obs subject) (map snd (index_wnps items))) \<le> 1"
proof -
  let ?m = "index_wnps items"
  have nodup: "length (filter (targets_subject obs subject) (map snd ?m)) \<le> 1"
    if "violationSubject obs = Some subject" "subject_key obs subject \<notin> set (duplicateTargets ?m)" for subject
  proof -
    have "filter (\<lambda>e. wnpTargetKey (snd e) = Some (subject_key obs subject)) ?m =
          filter (\<lambda>e. targets_subject obs subject (snd e)) ?m"
      using index_wnps_ok [of items] assms(3) by (intro filter_cong refl wnpTargetKey_iff that(1)) auto
    with that(2) show ?thesis by (simp add: duplicateTargets_iff filter_map comp_def)
  qed
  from assms(4) show ?thesis
  proof (cases rule: attributeViolation_cases)
    case (1 subject p)
    from reportedOwningWNP_known [OF 1(3)] obtain k where k: "map_of ?m k = Some p" by blast
    then have "k = key" using index_wnps_ok [of items] 1(5) map_of_SomeD by fastforce
    with 1 k nodup targetDuplicated_False [OF assms(1,2) 1(1,6)] show ?thesis by blast
  next
    case (2 subject p)
    have one: "filter (targets_subject obs subject) objs = [p]"
      using 2(3) listWNPByField_targets [OF assms(1,2) subject_slash_free(1,2,3,5,4) [OF 2(1)], of "wr_Namespace subject"]
      by (simp add: LookupWNPByTarget_Inr)
    have "p \<in> set (filter (targets_subject obs subject) objs)" unfolding one by simp
    then have "targets_subject obs subject p" by simp
    with one show ?thesis
      using 2(1,4,5) nodup [OF 2(1,2)] by (intro exI [of _ subject] exI [of _ p] conjI) simp_all
  qed
qed

definition sample_observation :: Observation where
  "sample_observation = generateViolationObservation ''p'' (sample_ref ''back'' ''api'') (sample_ref ''front'' ''a'') ''TCP'' ''Ingress'' 80 7"

theorem attribution_sound_witness:
  "map_of (index_wnps [sample_target_wnp]) \<lparr>nn_Namespace = ''back'', nn_Name = ''p''\<rparr> \<noteq> None \<and>
   violationSubject sample_observation \<noteq> None"
proof -
  let ?w = "empty_store\<lparr>st_wnps := [sample_target_wnp]\<rparr>"
  have "snd (attributeViolation mem_helpers (mem_client sample_index) ?w None sample_observation [] (index_wnps [sample_target_wnp])
      (duplicateTargets (index_wnps [sample_target_wnp]))) = (\<lparr>nn_Namespace = ''back'', nn_Name = ''p''\<rparr>, [])"
    by code_simp
  then obtain a where "attributeViolation mem_helpers (mem_client sample_index) ?w None sample_observation []
      (index_wnps [sample_target_wnp]) (duplicateTargets (index_wnps [sample_target_wnp])) =
      (a, \<lparr>nn_Namespace = ''back'', nn_Name = ''p''\<rparr>, [])" by (metis prod.collapse)
  moreover have "\<forall>p \<in> set [sample_target_wnp]. target_enums_ok p"
    by (simp add: sample_target_wnp_def target_enums_ok_def slash_free_def)
  moreover have "field_index_ok (mem_client sample_index) ?w WNPTargetIndexField IndexWNPByTarget [sample_target_wnp]"
    using sample_index_ok [of ?w] by simp
  ultimately show ?thesis
    using attribution_sound [of "mem_client sample_index" ?w "[sample_target_wnp]" "[sample_target_wnp]" mem_helpers None
        sample_observation "[]" a "\<lparr>nn_Namespace = ''back'', nn_Name = ''p''\<rparr>"] by auto
qed

text \<open>C10. Every drained observation is accounted for exactly once: the records of a policy are those of the
  observations attributed to it, in order, each naming that policy and not yet numbered; every other
  observation is counted once, under its provider, direction and reason.\<close>

theorem correlate_exact:
  "group_of (snd (correlateViolationsToWNPs h c w (Some a) idx m dups [] scraped)) k =
     map (\<lambda>obs. \<lparr>Info = (obs_Info obs)\<lparr>DenyingPolicyNamespace := nn_Namespace k, DenyingPolicyName := nn_Name k\<rparr>, ID = 0\<rparr>)
       (filter (\<lambda>obs. attribution h c w idx m dups obs = (k, [])) scraped) \<and>
   unattributed_count (fst (correlateViolationsToWNPs h c w (Some a) idx m dups [] scraped)) l =
     Some (unattributed a l + length (filter (\<lambda>obs. snd (attribution h c w idx m dups obs) \<noteq> [] \<and>
       l = (Provider obs, obs_Direction obs, snd (attribution h c w idx m dups obs))) scraped))"
  using correlate_groups [of h c w "Some a" idx m dups "[]" scraped k]
    correlate_metrics [of h c w "Some a" idx m dups "[]" scraped l]
  by (simp add: group_of_def attributed_record_def unattributed_count_def counted_def)

text \<open>C33. Acknowledgements are exported only once the status that contains them has been written: if the
  status patch fails nothing is exported and the metadata is not patched; otherwise exactly the newly
  acknowledged violations are exported, in order, whatever becomes of the metadata patch.\<close>

theorem acknowledgements_after_status_patch:
  assumes "RecomputeStatus (formatLabelSelector h) (Some wnp) vs now = Some (Some p, acks)"
    and "patchWNPStatus c (ss_cluster r) p wnp = (w1, err)"
  shows "\<exists>r' e. processWorkloadNetworkPolicy h c f now r wnp vs = Some (r', e) \<and>
    (case err of
       Some er \<Rightarrow> e \<noteq> None \<and> ss_cluster r' = w1 \<and> ss_eventLogger r' = ss_eventLogger r
     | None \<Rightarrow> ss_cluster r' = fst (patchWNP c w1 p wnp) \<and> (e = None \<longleftrightarrow> snd (patchWNP c w1 p wnp) = None) \<and>
         ss_eventLogger r' = map_option (\<lambda>log. log @ map (acknowledged_record f now) acks) (ss_eventLogger r))"
  using assms
  by (auto simp: processWorkloadNetworkPolicy_def emitAcknowledgedViolations_eq Let_def
      split: option.splits prod.splits)

definition sample_sync :: "WorkloadNetworkPolicy list \<Rightarrow> store StatusSync" where
  "sample_sync ps =
     \<lparr>ss_cluster = empty_store\<lparr>st_wnps := ps\<rparr>,
      ss_violationBuffer = \<lparr>buf = replicate 2 sample_observation, pos = 1, capacity = 2\<rparr>,
      ss_eventLogger = Some [], ss_metrics = Some newAttributionMetrics\<rparr>"

theorem acknowledgements_after_status_patch_witness:
  "\<exists>r' e. processWorkloadNetworkPolicy mem_helpers (mem_client sample_index) (\<lambda>_. []) 9 (sample_sync []) sample_wnp [] =
       Some (r', Some e) \<and> ss_eventLogger r' = Some []"
proof -
  obtain p acks where p: "RecomputeStatus (formatLabelSelector mem_helpers) (Some sample_wnp) [] 9 = Some (Some p, acks)"
    using RecomputeStatus_total [OF sample_valid(1)] by blast
  have "\<exists>e. patchWNPStatus (mem_client sample_index) (ss_cluster (sample_sync [])) p sample_wnp = (ss_cluster (sample_sync []), Some e)"
    by (simp add: mem_client_def sample_sync_def mem_find_def empty_store_def)
  with acknowledgements_after_status_patch [OF p] show ?thesis
    by (fastforce simp: sample_sync_def)
qed

text \<open>A violation that monitor mode reports is attributed to the workload that was monitored: the subject
  of the observation it generates is that workload, in both directions, never the peer.\<close>

lemma monitor_observation_subject:
  assumes "d \<in> {PolicyTypeEgress, PolicyTypeIngress}" and "IsSupported wk"
    and "wr_Namespace wk \<noteq> []" and "wr_OwnerName wk \<noteq> []"
  shows "violationSubject (generateViolationObservation pol wk peer proto d port now) = Some wk"
  using assms by (auto simp: violationSubject_def generateViolationObservation_def Let_def)

lemma monitor_observation_subject_witness:
  "violationSubject sample_observation = Some (sample_ref ''back'' ''api'')"
  unfolding sample_observation_def
  by (rule monitor_observation_subject) (simp_all add: sample_ref_def IsSupported_def)

end
