(* ===== verification/PolicyReconciler.thy ===== *)
theory PolicyReconciler
  imports StatusSync
begin

text \<open>
  The WorkloadNetworkPolicy controller: \<^verbatim>\<open>workloadnetworkpolicy_controller.go\<close> and its parts
  \<^verbatim>\<open>_duplicate_target.go\<close>, \<^verbatim>\<open>_selector_scope.go\<close>, \<^verbatim>\<open>_pod_scope.go\<close>, \<^verbatim>\<open>_retained_policy.go\<close>,
  \<^verbatim>\<open>_reconcile_k8s.go\<close>, \<^verbatim>\<open>_reconcile_istio.go\<close> and \<^verbatim>\<open>policy_labels.go\<close>. It resolves duplicate targets, checks
  that the policy's selector selects the target workload and nothing else, renders the data-plane
  object, and reports a Ready condition.

  The reconciler's state is the cluster and two counters, nil before the manager has registered
  them. A panic is \<open>None\<close>.
\<close>

section \<open>Model\<close>

definition conditionReady :: string where "conditionReady = ''Ready''"
definition reasonSelectorScopeValid :: string where "reasonSelectorScopeValid = ''SelectorScopeValid''"
definition reasonSelectorOverlapsWorkload :: string where "reasonSelectorOverlapsWorkload = ''SelectorOverlapsWorkload''"
definition reasonTargetNotFound :: string where "reasonTargetNotFound = ''TargetNotFound''"
definition reasonSelectorDoesNotMatchTarget :: string where
  "reasonSelectorDoesNotMatchTarget = ''SelectorDoesNotMatchTarget''"
definition reasonPolicyOwnershipConflict :: string where "reasonPolicyOwnershipConflict = ''PolicyOwnershipConflict''"
definition reasonPolicyReconciliationFailed :: string where
  "reasonPolicyReconciliationFailed = ''PolicyReconciliationFailed''"
definition reasonDuplicateTarget :: string where "reasonDuplicateTarget = ''DuplicateTarget''"

lemmas ready_defs = conditionReady_def reasonSelectorScopeValid_def reasonSelectorOverlapsWorkload_def
  reasonTargetNotFound_def reasonSelectorDoesNotMatchTarget_def reasonPolicyOwnershipConflict_def
  reasonPolicyReconciliationFailed_def reasonDuplicateTarget_def

definition not_ready :: "WorkloadNetworkPolicy \<Rightarrow> string \<Rightarrow> string \<Rightarrow> Condition" where
  "not_ready wnp why msg =
     \<lparr>cond_Type = conditionReady, cond_Status = Some ConditionFalse,
      cond_ObservedGeneration = om_Generation (wnp_Meta wnp), cond_Reason = why, cond_Message = msg\<rparr>"

record 'w PolicyReconciler =
  pr_cluster :: 'w
  pr_selectorOverlaps :: "nat option"
  pr_duplicateTargets :: "nat option"

subsection \<open>Duplicate targets (workloadnetworkpolicy_duplicate_target.go)\<close>

definition minDuplicateTargetPolicies :: nat where "minDuplicateTargetPolicies = 2"
definition maxDuplicateTargetNamesInMessage :: nat where "maxDuplicateTargetNamesInMessage = 16"

record duplicateTargetConflict =
  dtc_condition :: Condition
  dtc_winner :: bool

text \<open>\<open>metav1.Time.Before\<close> on two values; the zero time comes first.\<close>

definition time_before :: "time option \<Rightarrow> time option \<Rightarrow> bool" where
  "time_before a b =
     (case (a, b) of (None, Some _) \<Rightarrow> True | (Some x, Some y) \<Rightarrow> x < y | _ \<Rightarrow> False)"

definition str_compare :: "string \<Rightarrow> string \<Rightarrow> int" where
  "str_compare a b = (if a < b then -1 else if b < a then 1 else 0)"

definition compare_age :: "WorkloadNetworkPolicy \<Rightarrow> WorkloadNetworkPolicy \<Rightarrow> int" where
  "compare_age a b =
     (let ta = om_CreationTimestamp (wnp_Meta a); tb = om_CreationTimestamp (wnp_Meta b) in
      if time_before ta tb then -1 else if time_before tb ta then 1 else str_compare (wnp_Name a) (wnp_Name b))"

text \<open>\<open>slices.MinFunc\<close>: the first minimal element; it panics on an empty slice.\<close>

definition min_func :: "('a \<Rightarrow> 'a \<Rightarrow> int) \<Rightarrow> 'a list \<Rightarrow> 'a option" where
  "min_func cmp xs = (case xs of [] \<Rightarrow> None | x # rest \<Rightarrow> Some (foldl (\<lambda>m y. if cmp y m < 0 then y else m) x rest))"

definition oldestWorkloadNetworkPolicy :: "WorkloadNetworkPolicy list \<Rightarrow> WorkloadNetworkPolicy option" where
  "oldestWorkloadNetworkPolicy policies = min_func compare_age policies"

definition listed_names :: "string list \<Rightarrow> string" where
  "listed_names names =
     (let sorted = sort names;
          omitted = length sorted - maxDuplicateTargetNamesInMessage;
          shown = str_join (take maxDuplicateTargetNamesInMessage sorted) '', ''
      in if omitted > 0 then shown @ '', and '' @ fmt_nat omitted @ '' more'' else shown)"

text \<open>The conflict and whether there is one; a panic cannot occur, since the minimum is taken of at least
  two policies.\<close>

definition checkDuplicateTarget ::
    "'w client \<Rightarrow> 'w \<Rightarrow> WorkloadNetworkPolicy \<Rightarrow> error + duplicateTargetConflict option" where
  "checkDuplicateTarget c w wnp =
     (case wnpTargetKey wnp of
        None \<Rightarrow> Inr None
      | Some target \<Rightarrow>
          let ref = wnp_TargetRef wnp;
              what = tr_Kind ref @ '' '' @ wnp_Namespace wnp @ ''/'' @ tr_Name ref @ '' '' @ wnp_Direction wnp
          in (case listWNPByField c w (wnp_Namespace wnp) WNPTargetIndexField (target_key target) of
                Inl e \<Rightarrow> Inl (wrap (''failed to list WorkloadNetworkPolicies targeting '' @ what) e)
              | Inr items \<Rightarrow>
                  if length items < minDuplicateTargetPolicies then Inr None
                  else (case oldestWorkloadNetworkPolicy items of
                          None \<Rightarrow> Inr None
                        | Some oldest \<Rightarrow>
                            Inr (Some \<lparr>dtc_condition = not_ready wnp reasonDuplicateTarget
                                    (what @ '' is targeted by '' @ fmt_nat (length items) @ '' WorkloadNetworkPolicies ('' @
                                     listed_names (map wnp_Name items) @ ''); only the oldest, '' @ wnp_Name oldest @
                                     '', renders a policy''),
                                   dtc_winner = (wnp_Name oldest = wnp_Name wnp)\<rparr>))))"

definition duplicateTargetPolicies :: "'w client \<Rightarrow> 'w \<Rightarrow> WorkloadNetworkPolicy \<Rightarrow> NamespacedName list" where
  "duplicateTargetPolicies c w wnp =
     (case wnpTargetKey wnp of
        None \<Rightarrow> []
      | Some target \<Rightarrow>
          (case listWNPByField c w (wnp_Namespace wnp) WNPTargetIndexField (target_key target) of
             Inl _ \<Rightarrow> []
           | Inr items \<Rightarrow>
               map (\<lambda>p. wnp_NamespacedName (Some p)) (filter (\<lambda>p. wnp_Name p \<noteq> wnp_Name wnp) items)))"

subsection \<open>Selector scope (workloadnetworkpolicy_selector_scope.go)\<close>

record workloadTemplate =
  wt_target :: WorkloadTargetRef
  wt_labels :: strmap
  wt_uid :: UID

definition template_of :: "WorkloadKind \<Rightarrow> WorkloadObject \<Rightarrow> workloadTemplate" where
  "template_of kind obj =
     \<lparr>wt_target = \<lparr>tr_Kind = kind, tr_Name = om_Name (wo_Meta obj)\<rparr>, wt_labels = wo_TemplateLabels obj,
      wt_uid = om_UID (wo_Meta obj)\<rparr>"

definition workloadTemplates :: "'w client \<Rightarrow> 'w \<Rightarrow> string \<Rightarrow> error + workloadTemplate list" where
  "workloadTemplates c w ns =
     (case listWorkloads c w WorkloadKindDeployment ns of
        Inl e \<Rightarrow> Inl (wrap ''failed to list Deployments'' e)
      | Inr deployments \<Rightarrow>
          (case listWorkloads c w WorkloadKindStatefulSet ns of
             Inl e \<Rightarrow> Inl (wrap ''failed to list StatefulSets'' e)
           | Inr statefulSets \<Rightarrow>
               (case listWorkloads c w WorkloadKindDaemonSet ns of
                  Inl e \<Rightarrow> Inl (wrap ''failed to list DaemonSets'' e)
                | Inr daemonSets \<Rightarrow>
                    Inr (map (template_of WorkloadKindDeployment) deployments @
                         map (template_of WorkloadKindStatefulSet) statefulSets @
                         map (template_of WorkloadKindDaemonSet) daemonSets))))"

fun match_templates ::
    "WorkloadNetworkPolicy \<Rightarrow> (strmap \<Rightarrow> bool) \<Rightarrow> bool \<times> bool \<times> string list \<Rightarrow> workloadTemplate list \<Rightarrow>
     bool \<times> bool \<times> string list" where
  "match_templates wnp selector acc [] = acc"
| "match_templates wnp selector (targetFound, targetMatches, overlaps) (template # rest) =
     (let matches = selector (wt_labels template) in
      if wt_target template = wnp_TargetRef wnp then match_templates wnp selector (True, matches, overlaps) rest
      else if matches then
        match_templates wnp selector (targetFound, targetMatches,
          overlaps @ [''workload '' @ tr_Kind (wt_target template) @ '' '' @ wnp_Namespace wnp @ ''/'' @ tr_Name (wt_target template)]) rest
      else match_templates wnp selector (targetFound, targetMatches, overlaps) rest)"

definition matchWorkloadTemplates ::
    "WorkloadNetworkPolicy \<Rightarrow> (strmap \<Rightarrow> bool) \<Rightarrow> workloadTemplate list \<Rightarrow> bool \<times> bool \<times> string list" where
  "matchWorkloadTemplates wnp selector templates = match_templates wnp selector (False, False, []) templates"

definition selectorScopeCondition :: "WorkloadNetworkPolicy \<Rightarrow> bool \<Rightarrow> bool \<Rightarrow> string list \<Rightarrow> Condition" where
  "selectorScopeCondition wnp targetFound targetMatches overlaps =
     (let ref = wnp_TargetRef wnp; what = tr_Kind ref @ '' '' @ wnp_Namespace wnp @ ''/'' @ tr_Name ref in
      if targetFound \<and> \<not> targetMatches then
        not_ready wnp reasonSelectorDoesNotMatchTarget
          (''Policy selector does not match pod template labels of target workload '' @ what)
      else if overlaps \<noteq> [] then
        not_ready wnp reasonSelectorOverlapsWorkload (''Policy selector also selects '' @ hd (sort overlaps))
      else if \<not> targetFound then
        not_ready wnp reasonTargetNotFound (''Target workload '' @ what @ '' does not exist yet'')
      else
        \<lparr>cond_Type = conditionReady, cond_Status = Some ConditionTrue,
         cond_ObservedGeneration = om_Generation (wnp_Meta wnp), cond_Reason = reasonSelectorScopeValid,
         cond_Message = ''Policy selector matches only the target workload''\<rparr>)"

subsection \<open>Pods (workloadnetworkpolicy_pod_scope.go)\<close>

definition appsGroupVersion :: string where "appsGroupVersion = ''apps/v1''"

definition podWorkloadOwner :: "helpers \<Rightarrow> 'w client \<Rightarrow> 'w \<Rightarrow> Pod \<Rightarrow> error + OwnerReference option" where
  "podWorkloadOwner h c w pod =
     (case getControllerOf h (om_OwnerReferences (pod_Meta pod)) of
        None \<Rightarrow> Inr None
      | Some owner \<Rightarrow>
          if or_APIVersion owner \<noteq> appsGroupVersion \<or> or_Kind owner \<noteq> ''ReplicaSet'' then Inr (Some owner)
          else
            let key = \<lparr>nn_Namespace = om_Namespace (pod_Meta pod), nn_Name = or_Name owner\<rparr> in
            (case getReplicaSet c w key of
               Inl e \<Rightarrow>
                 if is_not_found e then Inr (Some owner)
                 else Inl (wrap (''failed to get ReplicaSet '' @ nn_string key @ '' for Pod '' @
                             om_Namespace (pod_Meta pod) @ ''/'' @ om_Name (pod_Meta pod)) e)
             | Inr rs \<Rightarrow>
                 if om_UID (rs_Meta rs) \<noteq> or_UID owner then Inr (Some owner)
                 else (case getControllerOf h (om_OwnerReferences (rs_Meta rs)) of
                         Some ctl \<Rightarrow>
                           if or_APIVersion ctl = appsGroupVersion \<and> or_Kind ctl = ''Deployment''
                           then Inr (Some ctl) else Inr (Some owner)
                       | None \<Rightarrow> Inr (Some owner))))"

definition podOwnerMatchesTarget :: "OwnerReference option \<Rightarrow> WorkloadTargetRef \<Rightarrow> workloadTemplate list \<Rightarrow> bool" where
  "podOwnerMatchesTarget owner target templates =
     (case owner of
        None \<Rightarrow> False
      | Some ref \<Rightarrow>
          if or_APIVersion ref \<noteq> appsGroupVersion \<or> or_Kind ref \<noteq> tr_Kind target \<or> or_Name ref \<noteq> tr_Name target then False
          else (case find (\<lambda>t. wt_target t = target) templates of
                  Some t \<Rightarrow> or_UID ref = wt_uid t
                | None \<Rightarrow> True))"

definition pod_description :: "Pod \<Rightarrow> OwnerReference option \<Rightarrow> string" where
  "pod_description pod owner =
     ''Pod '' @ om_Namespace (pod_Meta pod) @ ''/'' @ om_Name (pod_Meta pod) @
     (case owner of
        None \<Rightarrow> []
      | Some ref \<Rightarrow> '' (owner: '' @ or_Kind ref @ '' '' @ om_Namespace (pod_Meta pod) @ ''/'' @ or_Name ref @ '')'')"

fun pod_overlaps ::
    "helpers \<Rightarrow> 'w client \<Rightarrow> 'w \<Rightarrow> WorkloadTargetRef \<Rightarrow> workloadTemplate list \<Rightarrow> Pod list \<Rightarrow> error + string list" where
  "pod_overlaps h c w target templates [] = Inr []"
| "pod_overlaps h c w target templates (pod # pods) =
     (case podWorkloadOwner h c w pod of
        Inl e \<Rightarrow> Inl e
      | Inr owner \<Rightarrow>
          (case pod_overlaps h c w target templates pods of
             Inl e \<Rightarrow> Inl e
           | Inr rest \<Rightarrow>
               if podOwnerMatchesTarget owner target templates then Inr rest
               else Inr (pod_description pod owner # rest)))"

definition podSelectorOverlaps ::
    "helpers \<Rightarrow> 'w client \<Rightarrow> 'w \<Rightarrow> WorkloadNetworkPolicy \<Rightarrow> (strmap \<Rightarrow> bool) \<Rightarrow> workloadTemplate list \<Rightarrow> error + string list" where
  "podSelectorOverlaps h c w wnp selector templates =
     (case listPodsBySelector c w (wnp_Namespace wnp) selector of
        Inl e \<Rightarrow> Inl (wrap ''failed to list Pods for selector scope'' e)
      | Inr pods \<Rightarrow> pod_overlaps h c w (wnp_TargetRef wnp) templates pods)"

definition checkSelectorScope :: "helpers \<Rightarrow> 'w client \<Rightarrow> 'w \<Rightarrow> WorkloadNetworkPolicy \<Rightarrow> error + Condition" where
  "checkSelectorScope h c w wnp =
     (case GetSelector (Some (wnp_Spec wnp)) of
        Inl e \<Rightarrow> Inl (api_type_error e)
      | Inr spec0 \<Rightarrow>
          let spec = (if Backend (wnp_Backend wnp) = PolicyBackendIstio then spec0\<lparr>MatchExpressions := []\<rparr> else spec0) in
          (case labelSelectorAsSelector h spec of
             Inl e \<Rightarrow> Inl (wrap ''invalid policy selector'' e)
           | Inr (selector, _) \<Rightarrow>
               (case workloadTemplates c w (wnp_Namespace wnp) of
                  Inl e \<Rightarrow> Inl e
                | Inr templates \<Rightarrow>
                    (case matchWorkloadTemplates wnp selector templates of (targetFound, targetMatches, overlaps) \<Rightarrow>
                       if overlaps = [] \<and> (\<not> targetFound \<or> targetMatches) then
                         (case podSelectorOverlaps h c w wnp selector templates of
                            Inl e \<Rightarrow> Inl e
                          | Inr overlaps' \<Rightarrow> Inr (selectorScopeCondition wnp targetFound targetMatches overlaps'))
                       else Inr (selectorScopeCondition wnp targetFound targetMatches overlaps)))))"

subsection \<open>The retained policy (workloadnetworkpolicy_retained_policy.go)\<close>

text \<open>A getter of a generated protobuf type returns the zero value for a nil receiver: no selector reads as
  no labels.\<close>

definition retainedPolicySelector ::
    "helpers \<Rightarrow> 'w client \<Rightarrow> 'w \<Rightarrow> WorkloadNetworkPolicy \<Rightarrow> error + LabelSelector \<times> bool" where
  "retainedPolicySelector h c w wnp =
     (let key = wnp_NamespacedName (Some wnp); uid = om_UID (wnp_Meta wnp) in
      if IsKubernetesBackend (wnp_Backend wnp) then
        (case getNP c w key of
           Inl e \<Rightarrow> (case ignore_not_found e of None \<Rightarrow> Inr (empty_selector, False) | Some e' \<Rightarrow> Inl e')
         | Inr np \<Rightarrow> Inr (PodSelector (np_Spec np), isControlledBy h (om_OwnerReferences (np_Meta np)) uid))
      else
        (case getAP c w key of
           Inl e \<Rightarrow> (case ignore_not_found e of None \<Rightarrow> Inr (empty_selector, False) | Some e' \<Rightarrow> Inl e')
         | Inr ap \<Rightarrow>
             Inr (\<lparr>MatchLabels = (case aps_Selector (ap_Spec ap) of None \<Rightarrow> [] | Some ls \<Rightarrow> ls), MatchExpressions = []\<rparr>,
                  isControlledBy h (om_OwnerReferences (ap_Meta ap)) uid)))"

definition checkRetainedPolicyScope ::
    "helpers \<Rightarrow> 'w client \<Rightarrow> 'w \<Rightarrow> WorkloadNetworkPolicy \<Rightarrow> Condition \<Rightarrow> error + Condition" where
  "checkRetainedPolicyScope h c w wnp mismatch =
     (case retainedPolicySelector h c w wnp of
        Inl e \<Rightarrow> Inl (wrap ''failed to get retained policy selector'' e)
      | Inr (selectorSpec, retained) \<Rightarrow>
          if \<not> retained then Inr mismatch
          else
            (case labelSelectorAsSelector h selectorSpec of
               Inl e \<Rightarrow> Inl (wrap ''invalid retained policy selector'' e)
             | Inr (selector, _) \<Rightarrow>
                 (case workloadTemplates c w (wnp_Namespace wnp) of
                    Inl e \<Rightarrow> Inl e
                  | Inr templates \<Rightarrow>
                      let overlaps0 = snd (snd (matchWorkloadTemplates wnp selector templates));
                          checked = (if overlaps0 = [] then podSelectorOverlaps h c w wnp selector templates else Inr overlaps0);
                          msg = cond_Message mismatch @
                            ''; retained policy selector and rules remain unchanged until the selector is corrected''
                      in (case checked of
                            Inl e \<Rightarrow> Inl e
                          | Inr overlaps \<Rightarrow>
                              if overlaps \<noteq> [] then
                                Inr (not_ready wnp reasonSelectorOverlapsWorkload
                                  (''Retained policy selector also selects '' @ hd (sort overlaps) @ ''; '' @ msg))
                              else Inr (not_ready wnp reasonSelectorDoesNotMatchTarget msg)))))"

subsection \<open>Rendering (workloadnetworkpolicy_reconcile_k8s.go, _reconcile_istio.go, policy_labels.go)\<close>

definition setManagedByLabel :: "ObjectMeta \<Rightarrow> ObjectMeta" where
  "setManagedByLabel m = m\<lparr>om_Labels := AList.update ManagedByLabelKey ManagedByLabelValue (om_Labels m)\<rparr>"

definition mutateNetworkPolicy :: "helpers \<Rightarrow> WorkloadNetworkPolicy \<Rightarrow> NetworkPolicySpec \<Rightarrow> NetworkPolicy \<Rightarrow> error + NetworkPolicy" where
  "mutateNetworkPolicy h wnp spec np =
     (let m = setManagedByLabel (np_Meta np) in
      case setControllerReference h WorkloadNetworkPolicyKind (wnp_Meta wnp) m of
        Inl e \<Rightarrow> Inl e
      | Inr refs \<Rightarrow> Inr \<lparr>np_Meta = m\<lparr>om_OwnerReferences := refs\<rparr>, np_Spec = spec\<rparr>)"

text \<open>A nil template panics inside the mutation.\<close>

definition reconcileProtect ::
    "helpers \<Rightarrow> 'w client \<Rightarrow> 'w \<Rightarrow> WorkloadNetworkPolicy \<Rightarrow> NetworkPolicy \<Rightarrow> ('w \<times> error option) option" where
  "reconcileProtect h c w wnp np =
     (case Kubernetes (wnp_Backend wnp) of
        None \<Rightarrow> None
      | Some spec \<Rightarrow>
          (case createOrUpdateNP c w np (mutateNetworkPolicy h wnp spec) of
             (w', Inl e) \<Rightarrow> Some (w', Some (wrap ''failed to reconcile NetworkPolicy'' e))
           | (w', Inr _) \<Rightarrow> Some (w', None)))"

definition reconcileK8sPolicy :: "helpers \<Rightarrow> 'w client \<Rightarrow> 'w \<Rightarrow> WorkloadNetworkPolicy \<Rightarrow> ('w \<times> error option) option" where
  "reconcileK8sPolicy h c w wnp =
     (let key = wnp_NamespacedName (Some wnp);
          monitor = (wnp_Mode wnp = WorkloadNetworkPolicyModeMonitor)
      in case getNP c w key of
           Inl e \<Rightarrow>
             if \<not> is_not_found e then Some (w, Some (wrap ''failed to get NetworkPolicy'' e))
             else if monitor then Some (w, None)
             else reconcileProtect h c w wnp \<lparr>np_Meta = meta_named (wnp_Namespace wnp) (wnp_Name wnp), np_Spec = empty_np_spec\<rparr>
         | Inr np \<Rightarrow>
             if \<not> isControlledBy h (om_OwnerReferences (np_Meta np)) (om_UID (wnp_Meta wnp)) then
               Some (w, Some (OwnershipConflict ''NetworkPolicy'' key))
             else if monitor then Some (deleteNP c w np)
             else reconcileProtect h c w wnp np)"

definition istioDryRunAnnotationKey :: string where "istioDryRunAnnotationKey = ''istio.io/dry-run''"

definition populateIstioAuthorizationPolicySpec :: "IstioAuthorizationPolicySpec \<Rightarrow> APSpec" where
  "populateIstioAuthorizationPolicySpec backendSpec =
     \<lparr>aps_Action = ALLOW,
      aps_Selector = Some (MatchLabels (Selector backendSpec)),
      aps_Rules = map (\<lambda>backendRule.
        \<lparr>apr_From = map (\<lambda>backendFrom. Principals (Source backendFrom)) (rule_From backendRule),
         apr_To = map (\<lambda>backendTo. Ports (Operation backendTo)) (rule_To backendRule)\<rparr>) (Rules backendSpec)\<rparr>"

definition mutateAuthorizationPolicy ::
    "helpers \<Rightarrow> WorkloadNetworkPolicy \<Rightarrow> IstioAuthorizationPolicySpec \<Rightarrow> AuthorizationPolicy \<Rightarrow> error + AuthorizationPolicy" where
  "mutateAuthorizationPolicy h wnp spec ap =
     (let m = setManagedByLabel (ap_Meta ap);
          annotations = (if wnp_Mode wnp = WorkloadNetworkPolicyModeMonitor
                         then AList.update istioDryRunAnnotationKey ''true'' (om_Annotations m)
                         else AList.delete istioDryRunAnnotationKey (om_Annotations m));
          m = m\<lparr>om_Annotations := annotations\<rparr>
      in case setControllerReference h WorkloadNetworkPolicyKind (wnp_Meta wnp) m of
           Inl e \<Rightarrow> Inl e
         | Inr refs \<Rightarrow> Inr \<lparr>ap_Meta = m\<lparr>om_OwnerReferences := refs\<rparr>, ap_Spec = populateIstioAuthorizationPolicySpec spec\<rparr>)"

definition empty_ap :: "string \<Rightarrow> string \<Rightarrow> AuthorizationPolicy" where
  "empty_ap ns n = \<lparr>ap_Meta = meta_named ns n, ap_Spec = \<lparr>aps_Action = ALLOW, aps_Selector = None, aps_Rules = []\<rparr>\<rparr>"

definition reconcileIstioPolicy :: "helpers \<Rightarrow> 'w client \<Rightarrow> 'w \<Rightarrow> WorkloadNetworkPolicy \<Rightarrow> ('w \<times> error option) option" where
  "reconcileIstioPolicy h c w wnp =
     (let key = wnp_NamespacedName (Some wnp);
          render = (\<lambda>ap. case Istio (wnp_Backend wnp) of
             None \<Rightarrow> None
           | Some spec \<Rightarrow>
               (case createOrPatchAP c w ap (mutateAuthorizationPolicy h wnp spec) of
                  (w', Inl e) \<Rightarrow> Some (w', Some (wrap ''failed to reconcile AuthorizationPolicy'' e))
                | (w', Inr _) \<Rightarrow> Some (w', None)))
      in case getAP c w key of
           Inl e \<Rightarrow>
             if \<not> is_not_found e then Some (w, Some (wrap ''failed to get AuthorizationPolicy'' e))
             else render (empty_ap (wnp_Namespace wnp) (wnp_Name wnp))
         | Inr ap \<Rightarrow>
             if \<not> isControlledBy h (om_OwnerReferences (ap_Meta ap)) (om_UID (wnp_Meta wnp)) then
               Some (w, Some (OwnershipConflict ''AuthorizationPolicy'' key))
             else render ap)"

subsection \<open>The reconciler (workloadnetworkpolicy_controller.go)\<close>

definition reconcilePolicy ::
    "helpers \<Rightarrow> 'w client \<Rightarrow> 'w \<Rightarrow> WorkloadNetworkPolicy \<Rightarrow> ('w \<times> Condition \<times> error option) option" where
  "reconcilePolicy h c w wnp =
     (case checkSelectorScope h c w wnp of
        Inl e \<Rightarrow> Some (w, zero_condition, Some e)
      | Inr condition \<Rightarrow>
          if cond_Reason condition = reasonSelectorDoesNotMatchTarget \<and> wnp_Mode wnp \<noteq> WorkloadNetworkPolicyModeMonitor then
            (case checkRetainedPolicyScope h c w wnp condition of
               Inl e \<Rightarrow> Some (w, condition, Some e)
             | Inr retainedCondition \<Rightarrow> Some (w, retainedCondition, None))
          else
            (case (if IsKubernetesBackend (wnp_Backend wnp) then reconcileK8sPolicy h c w wnp
                   else reconcileIstioPolicy h c w wnp) of
               None \<Rightarrow> None
             | Some (w', None) \<Rightarrow> Some (w', condition, None)
             | Some (w', Some e) \<Rightarrow>
                 Some (w', not_ready wnp (if is_ownership_conflict e then reasonPolicyOwnershipConflict
                                          else reasonPolicyReconciliationFailed) (error_string e), Some e)))"

definition updateReadyCondition ::
    "helpers \<Rightarrow> 'w client \<Rightarrow> 'w PolicyReconciler \<Rightarrow> WorkloadNetworkPolicy \<Rightarrow> Condition \<Rightarrow> 'w PolicyReconciler \<times> error option" where
  "updateReadyCondition h c r wnp condition =
     (let previous = findStatusCondition h (Conditions (wnp_Status wnp)) conditionReady;
          entered = (\<lambda>why. cond_Reason condition = why \<and>
            (case previous of None \<Rightarrow> True | Some p \<Rightarrow> cond_Reason p \<noteq> why))
      in case setStatusCondition h (Conditions (wnp_Status wnp)) condition of (conds, changed) \<Rightarrow>
           if \<not> changed then (r, None)
           else (case patchWNPStatus c (pr_cluster r) (wnp\<lparr>wnp_Status := (wnp_Status wnp)\<lparr>Conditions := conds\<rparr>\<rparr>) wnp of
                   (w, Some e) \<Rightarrow> (r\<lparr>pr_cluster := w\<rparr>, Some (wrap ''failed to patch WorkloadNetworkPolicy Ready condition'' e))
                 | (w, None) \<Rightarrow>
                     (r\<lparr>pr_cluster := w,
                        pr_selectorOverlaps := map_option (\<lambda>n. if entered reasonSelectorOverlapsWorkload then n + 1 else n) (pr_selectorOverlaps r),
                        pr_duplicateTargets := map_option (\<lambda>n. if entered reasonDuplicateTarget then n + 1 else n) (pr_duplicateTargets r)\<rparr>,
                      None)))"

definition policy_Reconcile ::
    "helpers \<Rightarrow> 'w client \<Rightarrow> 'w PolicyReconciler \<Rightarrow> NamespacedName \<Rightarrow> ('w PolicyReconciler \<times> error option) option" where
  "policy_Reconcile h c r req =
     (case getWNP c (pr_cluster r) req of
        Inl e \<Rightarrow> Some (r, ignore_not_found e)
      | Inr wnp \<Rightarrow>
          (case checkDuplicateTarget c (pr_cluster r) wnp of
             Inl e \<Rightarrow> Some (r, Some e)
           | Inr conflict \<Rightarrow>
               let loser = (case conflict of None \<Rightarrow> False | Some cf \<Rightarrow> \<not> dtc_winner cf) in
               if loser then Some (updateReadyCondition h c r wnp (dtc_condition (the conflict)))
               else
                 (case reconcilePolicy h c (pr_cluster r) wnp of
                    None \<Rightarrow> None
                  | Some (w', condition, err) \<Rightarrow>
                      let r' = r\<lparr>pr_cluster := w'\<rparr> in
                      if cond_Type condition = [] \<and> conflict = None then Some (r', err)
                      else
                        let condition' = (case conflict of None \<Rightarrow> condition | Some cf \<Rightarrow> dtc_condition cf) in
                        (case updateReadyCondition h c r' wnp condition' of
                           (r'', err') \<Rightarrow> Some (r'', error_join err err')))))"

text \<open>The map function of the watches: every policy of the namespace is reconciled again.\<close>

definition policiesForWorkload :: "'w client \<Rightarrow> 'w \<Rightarrow> string \<Rightarrow> NamespacedName list" where
  "policiesForWorkload c w ns =
     (case listWNP c w (Some ns) of
        Inl _ \<Rightarrow> []
      | Inr policies \<Rightarrow> map (\<lambda>p. wnp_NamespacedName (Some p)) policies)"

definition selectorScopeWorkloadChanges :: "ObjectMeta \<Rightarrow> ObjectMeta \<Rightarrow> bool" where
  "selectorScopeWorkloadChanges old new \<longleftrightarrow> om_UID old \<noteq> om_UID new \<or> om_Generation old \<noteq> om_Generation new"

definition selectorScopeMetadataChanges :: "ObjectMeta \<Rightarrow> ObjectMeta \<Rightarrow> bool" where
  "selectorScopeMetadataChanges old new \<longleftrightarrow>
     om_UID old \<noteq> om_UID new \<or>
     \<not> (list_all (\<lambda>k. map_of (om_Labels old) k = map_of (om_Labels new) k) (map fst (om_Labels old) @ map fst (om_Labels new))) \<or>
     om_OwnerReferences old \<noteq> om_OwnerReferences new"

section \<open>Lemmas\<close>

subsection \<open>The oldest policy\<close>

lemma time_before_trans: "time_before a b \<Longrightarrow> time_before b c \<Longrightarrow> time_before a c"
  by (auto simp: time_before_def split: option.splits)

lemma time_before_linear: "time_before a b \<or> time_before b a \<or> a = b"
  by (auto simp: time_before_def split: option.splits)

lemma time_before_irrefl [simp]: "\<not> time_before a a"
  by (auto simp: time_before_def split: option.splits)

lemma time_before_asym: "time_before a b \<Longrightarrow> \<not> time_before b a"
  using time_before_trans time_before_irrefl by blast

definition older :: "WorkloadNetworkPolicy \<Rightarrow> WorkloadNetworkPolicy \<Rightarrow> bool" where
  "older a b \<longleftrightarrow>
     time_before (om_CreationTimestamp (wnp_Meta a)) (om_CreationTimestamp (wnp_Meta b)) \<or>
     om_CreationTimestamp (wnp_Meta a) = om_CreationTimestamp (wnp_Meta b) \<and> wnp_Name a < wnp_Name b"

lemma compare_age_older: "compare_age a b < 0 \<longleftrightarrow> older a b"
  using time_before_linear [of "om_CreationTimestamp (wnp_Meta a)" "om_CreationTimestamp (wnp_Meta b)"]
    time_before_asym [of "om_CreationTimestamp (wnp_Meta a)" "om_CreationTimestamp (wnp_Meta b)"]
  by (auto simp: compare_age_def older_def str_compare_def Let_def)

lemma older_trans: "older a b \<Longrightarrow> older b c \<Longrightarrow> older a c"
  using time_before_trans by (auto simp: older_def)

lemma older_irrefl [simp]: "\<not> older a a"
  by (simp add: older_def)

lemma not_older_trans: "\<not> older a b \<Longrightarrow> older c b \<Longrightarrow> \<not> older a c"
  using older_trans by blast

lemma fold_min:
  assumes "m = foldl (\<lambda>m y. if compare_age y m < 0 then y else m) x xs"
  shows "m \<in> insert x (set xs) \<and> (\<forall>y \<in> insert x (set xs). \<not> older y m)"
  using assms
proof (induction xs arbitrary: x)
  case Nil
  then show ?case by simp
next
  case (Cons z xs)
  let ?x = "if compare_age z x < 0 then z else x"
  from Cons have m: "m \<in> insert ?x (set xs)" "\<forall>y \<in> insert ?x (set xs). \<not> older y m" by auto
  have "\<not> older x m \<and> \<not> older z m"
  proof (cases "older z x")
    case True
    with m(2) have "\<not> older z m" by (simp add: compare_age_older)
    with True show ?thesis using older_trans by blast
  next
    case False
    with m(2) have x: "\<not> older x m" by (simp add: compare_age_older)
    have "\<not> older z m"
    proof
      assume zm: "older z m"
      show False
      proof (cases "older m x \<or> m = x")
        case True
        with zm older_trans False show False by blast
      next
        case False
        with x have "om_CreationTimestamp (wnp_Meta x) = om_CreationTimestamp (wnp_Meta m)" "wnp_Name x = wnp_Name m"
          using time_before_linear [of "om_CreationTimestamp (wnp_Meta x)" "om_CreationTimestamp (wnp_Meta m)"]
          by (auto simp: older_def)
        with zm \<open>\<not> older z x\<close> show False by (simp add: older_def)
      qed
    qed
    with x show ?thesis by simp
  qed
  with m show ?case by (auto split: if_splits)
qed

lemma oldest_ok:
  "items \<noteq> [] \<Longrightarrow> \<exists>p. oldestWorkloadNetworkPolicy items = Some p \<and> p \<in> set items \<and> (\<forall>q \<in> set items. \<not> older q p)"
  using fold_min by (cases items) (auto simp: oldestWorkloadNetworkPolicy_def min_func_def)

lemma targets_key:
  "targets ns kind name direction p \<Longrightarrow> kind \<noteq> [] \<Longrightarrow> name \<noteq> [] \<Longrightarrow> direction \<noteq> [] \<Longrightarrow>
     wnpTargetKey p = Some \<lparr>target_namespace = ns, target_key = WNPTargetIndexKey kind name direction\<rparr>"
  by (simp add: targets_def wnpTargetKey_def)

lemma checkDuplicateTarget_items:
  assumes "targets ns kind name direction p" and "kind \<noteq> []" and "name \<noteq> []" and "direction \<noteq> []"
    and "listWNPByField c w ns WNPTargetIndexField (WNPTargetIndexKey kind name direction) = Inr items"
    and "2 \<le> length items"
  shows "\<exists>cf oldest. checkDuplicateTarget c w p = Inr (Some cf) \<and> oldestWorkloadNetworkPolicy items = Some oldest \<and>
    dtc_condition cf = not_ready p reasonDuplicateTarget (cond_Message (dtc_condition cf)) \<and>
    (dtc_winner cf \<longleftrightarrow> wnp_Name oldest = wnp_Name p)"
proof -
  from assms(6) have "items \<noteq> []" by auto
  from oldest_ok [OF this] obtain oldest where o: "oldestWorkloadNetworkPolicy items = Some oldest" by blast
  have ns: "wnp_Namespace p = ns" using assms(1) by (simp add: targets_def)
  show ?thesis
    using targets_key [OF assms(1-4)] assms(5,6) o ns
    by (simp add: checkDuplicateTarget_def Let_def minDuplicateTargetPolicies_def not_ready_def)
qed

subsection \<open>Templates\<close>

definition other_matches :: "WorkloadNetworkPolicy \<Rightarrow> (strmap \<Rightarrow> bool) \<Rightarrow> workloadTemplate \<Rightarrow> bool" where
  "other_matches wnp selector t \<longleftrightarrow> wt_target t \<noteq> wnp_TargetRef wnp \<and> selector (wt_labels t)"

lemma match_templates_overlaps:
  "snd (snd (match_templates wnp sel acc ts)) = [] \<longleftrightarrow>
     snd (snd acc) = [] \<and> (\<forall>t \<in> set ts. \<not> other_matches wnp sel t)"
proof (induction ts arbitrary: acc)
  case Nil
  then show ?case by simp
next
  case (Cons t ts)
  then show ?case
    by (cases acc) (auto simp: Let_def other_matches_def)
qed

lemma match_templates_found:
  "fst (match_templates wnp sel acc ts) \<longleftrightarrow> fst acc \<or> (\<exists>t \<in> set ts. wt_target t = wnp_TargetRef wnp)"
proof (induction ts arbitrary: acc)
  case Nil
  then show ?case by simp
next
  case (Cons t ts)
  then show ?case by (cases acc) (auto simp: Let_def)
qed

lemma match_templates_matches:
  "distinct (map wt_target ts) \<Longrightarrow> t \<in> set ts \<Longrightarrow> wt_target t = wnp_TargetRef wnp \<Longrightarrow>
     fst (snd (match_templates wnp sel acc ts)) = sel (wt_labels t)"
proof (induction ts arbitrary: acc)
  case Nil
  then show ?case by simp
next
  case (Cons u ts)
  obtain f m ov where acc: "acc = (f, m, ov)" by (cases acc)
  have none: "fst (snd (match_templates wnp sel acc' ts)) = fst (snd acc')" if "\<forall>x \<in> set ts. wt_target x \<noteq> wnp_TargetRef wnp" for acc'
    using that
  proof (induction ts arbitrary: acc')
    case Nil
    then show ?case by simp
  next
    case (Cons x xs)
    then show ?case by (cases acc') (auto simp: Let_def)
  qed
  show ?case
  proof (cases "u = t")
    case True
    with Cons.prems have "\<forall>x \<in> set ts. wt_target x \<noteq> wnp_TargetRef wnp" by (auto simp: image_iff)
    with True Cons.prems acc none show ?thesis by (simp add: Let_def)
  next
    case False
    with Cons.prems have "wt_target u \<noteq> wnp_TargetRef wnp" by (auto simp: image_iff)
    with False Cons acc show ?thesis by (auto simp: Let_def)
  qed
qed

lemma pod_overlaps_Nil:
  "pod_overlaps h c w target ts pods = Inr [] \<longleftrightarrow>
     (\<forall>pod \<in> set pods. \<exists>ow. podWorkloadOwner h c w pod = Inr ow \<and> podOwnerMatchesTarget ow target ts)"
  by (induction pods) (auto split: sum.splits)

lemma selectorScopeCondition_True:
  "cond_Status (selectorScopeCondition wnp f m ov) = Some ConditionTrue \<longleftrightarrow> f \<and> m \<and> ov = []"
  by (auto simp: selectorScopeCondition_def not_ready_def Let_def)

subsection \<open>Rendering\<close>

lemma mutateNetworkPolicy_ok:
  assumes "owner_helpers_ok h" and "mutateNetworkPolicy h wnp spec np0 = Inr np'"
  shows "np_Spec np' = spec \<and> map_of (om_Labels (np_Meta np')) ManagedByLabelKey = Some ManagedByLabelValue \<and>
    isControlledBy h (om_OwnerReferences (np_Meta np')) (om_UID (wnp_Meta wnp))"
proof -
  from assms(2) obtain refs where r: "setControllerReference h WorkloadNetworkPolicyKind (wnp_Meta wnp) (setManagedByLabel (np_Meta np0)) = Inr refs"
    "np' = \<lparr>np_Meta = (setManagedByLabel (np_Meta np0))\<lparr>om_OwnerReferences := refs\<rparr>, np_Spec = spec\<rparr>"
    by (cases "setControllerReference h WorkloadNetworkPolicyKind (wnp_Meta wnp) (setManagedByLabel (np_Meta np0))")
      (auto simp: mutateNetworkPolicy_def Let_def)
  from r(1) assms(1) have "isControlledBy h refs (om_UID (wnp_Meta wnp))" unfolding owner_helpers_ok_def by blast
  with r(2) show ?thesis by (simp add: setManagedByLabel_def update_conv')
qed

lemma mutateAuthorizationPolicy_ok:
  assumes "owner_helpers_ok h" and "mutateAuthorizationPolicy h wnp spec ap0 = Inr ap'"
  shows "ap_Spec ap' = populateIstioAuthorizationPolicySpec spec \<and>
    map_of (om_Labels (ap_Meta ap')) ManagedByLabelKey = Some ManagedByLabelValue \<and>
    map_of (om_Annotations (ap_Meta ap')) istioDryRunAnnotationKey =
      (if wnp_Mode wnp = WorkloadNetworkPolicyModeMonitor then Some ''true'' else None) \<and>
    isControlledBy h (om_OwnerReferences (ap_Meta ap')) (om_UID (wnp_Meta wnp))"
proof -
  let ?a = "if wnp_Mode wnp = WorkloadNetworkPolicyModeMonitor
            then AList.update istioDryRunAnnotationKey ''true'' (om_Annotations (ap_Meta ap0))
            else AList.delete istioDryRunAnnotationKey (om_Annotations (ap_Meta ap0))"
  let ?m = "(setManagedByLabel (ap_Meta ap0))\<lparr>om_Annotations := ?a\<rparr>"
  have "om_Annotations (setManagedByLabel (ap_Meta ap0)) = om_Annotations (ap_Meta ap0)"
    by (simp add: setManagedByLabel_def)
  with assms(2) obtain refs where r: "setControllerReference h WorkloadNetworkPolicyKind (wnp_Meta wnp) ?m = Inr refs"
    "ap' = \<lparr>ap_Meta = ?m\<lparr>om_OwnerReferences := refs\<rparr>, ap_Spec = populateIstioAuthorizationPolicySpec spec\<rparr>"
    by (cases "setControllerReference h WorkloadNetworkPolicyKind (wnp_Meta wnp) ?m")
      (auto simp: mutateAuthorizationPolicy_def Let_def split: if_splits)
  from r(1) assms(1) have "isControlledBy h refs (om_UID (wnp_Meta wnp))" unfolding owner_helpers_ok_def by blast
  with r(2) show ?thesis by (simp add: setManagedByLabel_def update_conv' delete_conv')
qed

lemma reconcileProtect_ok:
  assumes "create_or_update_ok (getNP c) (createOrUpdateNP c) np_Meta np_Spec"
    and "owner_helpers_ok h" and "Kubernetes (wnp_Backend wnp) = Some spec"
    and "reconcileProtect h c w wnp np = Some (w', None)"
  shows "\<exists>np'. getNP c w' (meta_key (np_Meta np)) = Inr np' \<and> np_Spec np' = spec \<and>
    map_of (om_Labels (np_Meta np')) ManagedByLabelKey = Some ManagedByLabelValue \<and>
    isControlledBy h (om_OwnerReferences (np_Meta np')) (om_UID (wnp_Meta wnp))"
proof -
  from assms(3,4) obtain np' where cu: "createOrUpdateNP c w np (mutateNetworkPolicy h wnp spec) = (w', Inr np')"
    by (auto simp: reconcileProtect_def split: prod.splits sum.splits)
  from create_or_updateE [OF assms(1) cu] obtain np0 m where g: "getNP c w' (meta_key (np_Meta np)) = Inr np'"
    and b: "mutateNetworkPolicy h wnp spec np0 = Inr m"
    and um: "user_meta (np_Meta np') = user_meta (np_Meta m)" "np_Spec np' = np_Spec m" by metis
  from mutateNetworkPolicy_ok [OF assms(2) b] g um(2) user_meta_eqD(3,5) [OF um(1)] show ?thesis by simp
qed

lemma reconcileK8sPolicy_stores:
  assumes "create_or_update_ok (getNP c) (createOrUpdateNP c) np_Meta np_Spec"
    and "\<forall>k np. getNP c w k = Inr np \<longrightarrow> meta_key (np_Meta np) = k"
    and "owner_helpers_ok h" and "Kubernetes (wnp_Backend wnp) = Some spec"
    and "reconcileK8sPolicy h c w wnp = Some (w', None)" and "wnp_Mode wnp \<noteq> WorkloadNetworkPolicyModeMonitor"
  shows "\<exists>np. getNP c w' (meta_key (wnp_Meta wnp)) = Inr np \<and> np_Spec np = spec \<and>
    map_of (om_Labels (np_Meta np)) ManagedByLabelKey = Some ManagedByLabelValue \<and>
    isControlledBy h (om_OwnerReferences (np_Meta np)) (om_UID (wnp_Meta wnp))"
proof (cases "getNP c w (meta_key (wnp_Meta wnp))")
  case (Inl e)
  let ?np = "\<lparr>np_Meta = meta_named (wnp_Namespace wnp) (wnp_Name wnp), np_Spec = empty_np_spec\<rparr>"
  have k: "meta_key (np_Meta ?np) = meta_key (wnp_Meta wnp)" by (simp add: meta_key_def)
  from Inl assms(5,6) reconcileProtect_ok [OF assms(1,3,4), of w ?np w'] show ?thesis
    unfolding k by (auto simp: reconcileK8sPolicy_def wnp_NamespacedName_def Let_def split: if_splits)
next
  case (Inr np)
  with assms(2) have "meta_key (np_Meta np) = meta_key (wnp_Meta wnp)" by blast
  with Inr assms(5,6) reconcileProtect_ok [OF assms(1,3,4), of w np w'] show ?thesis
    by (auto simp: reconcileK8sPolicy_def wnp_NamespacedName_def Let_def split: if_splits)
qed

text \<open>What a rendered Istio policy permits, on its own representation.\<close>

definition apPermits :: "APSpec \<Rightarrow> string \<Rightarrow> int32 \<Rightarrow> bool" where
  "apPermits s ident port \<longleftrightarrow> aps_Action s = ALLOW \<and>
     list_ex (\<lambda>r.
       (apr_From r = [] \<or> list_ex (\<lambda>ps. ps = [] \<or> ''*'' \<in> set ps \<or> ident \<in> set ps) (apr_From r)) \<and>
       (apr_To r = [] \<or> list_ex (\<lambda>qs. qs = [] \<or> list_ex (\<lambda>q. istioPortMatches q port) qs) (apr_To r))) (aps_Rules s)"

lemma apPermits_render: "apPermits (populateIstioAuthorizationPolicySpec spec) i p \<longleftrightarrow> istioPermits (Rules spec) i p"
  by (auto simp: apPermits_def populateIstioAuthorizationPolicySpec_def istioPermits_def istioRuleAllowsSource_iff
      istioRuleAllowsPort_iff list_ex_iff)

lemma reconcileIstioPolicy_ok:
  assumes "create_or_update_ok (getAP c) (createOrPatchAP c) ap_Meta ap_Spec"
    and "owner_helpers_ok h" and "Istio (wnp_Backend wnp) = Some spec"
    and "createOrPatchAP c w ap (mutateAuthorizationPolicy h wnp spec) = (w', Inr ap')"
  shows "getAP c w' (meta_key (ap_Meta ap)) = Inr ap' \<and> ap_Spec ap' = populateIstioAuthorizationPolicySpec spec \<and>
    map_of (om_Labels (ap_Meta ap')) ManagedByLabelKey = Some ManagedByLabelValue \<and>
    map_of (om_Annotations (ap_Meta ap')) istioDryRunAnnotationKey =
      (if wnp_Mode wnp = WorkloadNetworkPolicyModeMonitor then Some ''true'' else None) \<and>
    isControlledBy h (om_OwnerReferences (ap_Meta ap')) (om_UID (wnp_Meta wnp))"
proof -
  from create_or_updateE [OF assms(1,4)] obtain ap0 m where g: "getAP c w' (meta_key (ap_Meta ap)) = Inr ap'"
    and b: "mutateAuthorizationPolicy h wnp spec ap0 = Inr m"
    and um: "user_meta (ap_Meta ap') = user_meta (ap_Meta m)" "ap_Spec ap' = ap_Spec m" by metis
  from mutateAuthorizationPolicy_ok [OF assms(2) b] g um(2) user_meta_eqD(3-5) [OF um(1)] show ?thesis by simp
qed

lemma reconcileIstioPolicy_stores:
  assumes "create_or_update_ok (getAP c) (createOrPatchAP c) ap_Meta ap_Spec"
    and "\<forall>k ap. getAP c w k = Inr ap \<longrightarrow> meta_key (ap_Meta ap) = k"
    and "owner_helpers_ok h" and "Istio (wnp_Backend wnp) = Some spec"
    and "reconcileIstioPolicy h c w wnp = Some (w', None)"
  shows "\<exists>ap. getAP c w' (meta_key (wnp_Meta wnp)) = Inr ap \<and> ap_Spec ap = populateIstioAuthorizationPolicySpec spec \<and>
    map_of (om_Labels (ap_Meta ap)) ManagedByLabelKey = Some ManagedByLabelValue \<and>
    map_of (om_Annotations (ap_Meta ap)) istioDryRunAnnotationKey =
      (if wnp_Mode wnp = WorkloadNetworkPolicyModeMonitor then Some ''true'' else None) \<and>
    isControlledBy h (om_OwnerReferences (ap_Meta ap)) (om_UID (wnp_Meta wnp))"
proof (cases "getAP c w (meta_key (wnp_Meta wnp))")
  case (Inl e)
  have k: "meta_key (ap_Meta (empty_ap (wnp_Namespace wnp) (wnp_Name wnp))) = meta_key (wnp_Meta wnp)"
    by (simp add: empty_ap_def meta_key_def)
  from Inl assms(4,5) reconcileIstioPolicy_ok [OF assms(1,3,4), of w "empty_ap (wnp_Namespace wnp) (wnp_Name wnp)" w'] show ?thesis
    unfolding k by (auto simp: reconcileIstioPolicy_def wnp_NamespacedName_def Let_def split: if_splits prod.splits sum.splits)
next
  case (Inr ap)
  with assms(2) have k: "meta_key (ap_Meta ap) = meta_key (wnp_Meta wnp)" by blast
  from Inr assms(4,5) reconcileIstioPolicy_ok [OF assms(1,3,4), of w ap w'] show ?thesis
    unfolding k by (auto simp: reconcileIstioPolicy_def wnp_NamespacedName_def Let_def split: if_splits prod.splits sum.splits)
qed

lemma updateReadyCondition_cluster:
  "pr_cluster (fst (updateReadyCondition h c r wnp cond)) \<in>
     {pr_cluster r, fst (patchWNPStatus c (pr_cluster r)
        (wnp\<lparr>wnp_Status := (wnp_Status wnp)\<lparr>Conditions := fst (setStatusCondition h (Conditions (wnp_Status wnp)) cond)\<rparr>\<rparr>) wnp)}"
  by (auto simp: updateReadyCondition_def Let_def split: prod.splits option.splits)

lemma populate_selector: "aps_Selector (populateIstioAuthorizationPolicySpec spec) = Some (MatchLabels (Selector spec))"
  by (simp add: populateIstioAuthorizationPolicySpec_def)

section \<open>What a Ready policy selects\<close>

lemma checkSelectorScope_iff:
  assumes "GetSelector (Some (wnp_Spec wnp)) = Inr sel"
    and "labelSelectorAsSelector h (if Backend (wnp_Backend wnp) = PolicyBackendIstio then sel\<lparr>MatchExpressions := []\<rparr> else sel) =
           Inr (selector, emp)"
    and "workloadTemplates c w (wnp_Namespace wnp) = Inr templates" and "distinct (map wt_target templates)"
    and "listPodsBySelector c w (wnp_Namespace wnp) selector = Inr pods"
    and "checkSelectorScope h c w wnp = Inr cond"
  shows "cond_Status cond = Some ConditionTrue \<longleftrightarrow>
    (\<exists>t \<in> set templates. wt_target t = wnp_TargetRef wnp \<and> selector (wt_labels t)) \<and>
    (\<forall>t \<in> set templates. \<not> other_matches wnp selector t) \<and>
    (\<forall>pod \<in> set pods. \<exists>ow. podWorkloadOwner h c w pod = Inr ow \<and> podOwnerMatchesTarget ow (wnp_TargetRef wnp) templates)"
proof -
  obtain f m ov where mt: "matchWorkloadTemplates wnp selector templates = (f, m, ov)"
    by (cases "matchWorkloadTemplates wnp selector templates")
  have ov: "ov = [] \<longleftrightarrow> (\<forall>t \<in> set templates. \<not> other_matches wnp selector t)"
    using match_templates_overlaps [of wnp selector "(False, False, [])" templates] mt by (simp add: matchWorkloadTemplates_def)
  have f: "f \<longleftrightarrow> (\<exists>t \<in> set templates. wt_target t = wnp_TargetRef wnp)"
    using match_templates_found [of wnp selector "(False, False, [])" templates] mt by (simp add: matchWorkloadTemplates_def)
  have m: "m = selector (wt_labels t)" if "t \<in> set templates" "wt_target t = wnp_TargetRef wnp" for t
    using match_templates_matches [OF assms(4) that, of selector "(False, False, [])"] mt by (simp add: matchWorkloadTemplates_def)
  have fm: "f \<and> m \<longleftrightarrow> (\<exists>t \<in> set templates. wt_target t = wnp_TargetRef wnp \<and> selector (wt_labels t))"
    using f m by blast
  show ?thesis
  proof (cases "ov = [] \<and> (\<not> f \<or> m)")
    case True
    with assms mt obtain ov' where ov': "pod_overlaps h c w (wnp_TargetRef wnp) templates pods = Inr ov'"
      "cond = selectorScopeCondition wnp f m ov'"
      by (auto simp: checkSelectorScope_def podSelectorOverlaps_def Let_def split: sum.splits if_splits)
    then have "cond_Status cond = Some ConditionTrue \<longleftrightarrow> f \<and> m \<and> pod_overlaps h c w (wnp_TargetRef wnp) templates pods = Inr []"
      by (simp add: selectorScopeCondition_True)
    with True ov show ?thesis by (simp add: pod_overlaps_Nil flip: fm)
  next
    case False
    with assms mt have "cond = selectorScopeCondition wnp f m ov"
      by (auto simp: checkSelectorScope_def Let_def split: if_splits)
    with False have "cond_Status cond \<noteq> Some ConditionTrue" by (auto simp: selectorScopeCondition_True)
    with False ov fm show ?thesis by auto
  qed
qed

text \<open>The selector of an object selects the pods of the target workload of a policy and nothing else.\<close>

definition selects_only_target :: "helpers \<Rightarrow> 'w client \<Rightarrow> 'w \<Rightarrow> WorkloadNetworkPolicy \<Rightarrow> LabelSelector \<Rightarrow> bool" where
  "selects_only_target h c w wnp sel \<longleftrightarrow>
     (\<exists>selector emp templates pods. labelSelectorAsSelector h sel = Inr (selector, emp) \<and>
        workloadTemplates c w (wnp_Namespace wnp) = Inr templates \<and>
        listPodsBySelector c w (wnp_Namespace wnp) selector = Inr pods \<and>
        (\<exists>t \<in> set templates. wt_target t = wnp_TargetRef wnp \<and> selector (wt_labels t)) \<and>
        (\<forall>t \<in> set templates. \<not> other_matches wnp selector t) \<and>
        (\<forall>pod \<in> set pods. \<exists>ow. podWorkloadOwner h c w pod = Inr ow \<and> podOwnerMatchesTarget ow (wnp_TargetRef wnp) templates))"

lemma ready_selects_only_target:
  assumes "checkSelectorScope h c w wnp = Inr cond" and "cond_Status cond = Some ConditionTrue"
    and "\<And>templates. workloadTemplates c w (wnp_Namespace wnp) = Inr templates \<Longrightarrow> distinct (map wt_target templates)"
  obtains sel where "GetSelector (Some (wnp_Spec wnp)) = Inr sel"
    and "selects_only_target h c w wnp
      (if Backend (wnp_Backend wnp) = PolicyBackendIstio then sel\<lparr>MatchExpressions := []\<rparr> else sel)"
proof -
  from assms(1,2) obtain sel selector emp templates pods where
    c: "GetSelector (Some (wnp_Spec wnp)) = Inr sel"
    "labelSelectorAsSelector h (if Backend (wnp_Backend wnp) = PolicyBackendIstio then sel\<lparr>MatchExpressions := []\<rparr> else sel) =
       Inr (selector, emp)"
    "workloadTemplates c w (wnp_Namespace wnp) = Inr templates" "listPodsBySelector c w (wnp_Namespace wnp) selector = Inr pods"
    by (auto simp: checkSelectorScope_def podSelectorOverlaps_def selectorScopeCondition_True Let_def
        split: sum.splits prod.splits if_splits)
  from checkSelectorScope_iff [OF c(1-3) assms(3) [OF c(3)] c(4) assms(1)] assms(2) c that show ?thesis
    unfolding selects_only_target_def by blast
qed

lemma retained_not_ready:
  "checkRetainedPolicyScope h c w wnp cond = Inr cond' \<Longrightarrow> cond_Status cond \<noteq> Some ConditionTrue \<Longrightarrow>
     cond_Status cond' \<noteq> Some ConditionTrue"
  by (auto simp: checkRetainedPolicyScope_def not_ready_def Let_def split: sum.splits prod.splits if_splits)

lemma mismatch_not_ready:
  "checkSelectorScope h c w wnp = Inr cond \<Longrightarrow> cond_Reason cond = reasonSelectorDoesNotMatchTarget \<Longrightarrow>
     cond_Status cond \<noteq> Some ConditionTrue"
  by (auto simp: checkSelectorScope_def selectorScopeCondition_def Let_def ready_defs not_ready_def
      split: sum.splits if_splits prod.splits)

lemma reconcilePolicy_ready:
  assumes "reconcilePolicy h c w wnp = Some (w', cond, None)" and "cond_Status cond = Some ConditionTrue"
  shows "checkSelectorScope h c w wnp = Inr cond \<and>
    (if IsKubernetesBackend (wnp_Backend wnp) then reconcileK8sPolicy h c w wnp else reconcileIstioPolicy h c w wnp) = Some (w', None)"
  using assms mismatch_not_ready [of h c w wnp] retained_not_ready [of h c w wnp]
  by (fastforce simp: reconcilePolicy_def split: sum.splits option.splits prod.splits if_splits)

section \<open>Properties\<close>

text \<open>C11. Of several policies that target the same workload in the same direction, exactly one is allowed to
  render, and it is the oldest: every one of them detects the conflict, one is the winner, and no
  other was created before it (equal times are decided by name).\<close>

theorem one_policy_renders:
  assumes "field_index_ok c w WNPTargetIndexField IndexWNPByTarget objs"
    and "\<forall>p \<in> set objs. target_enums_ok p" and "slash_free kind" and "slash_free direction"
    and "kind \<noteq> []" and "name \<noteq> []" and "direction \<noteq> []"
    and "distinct (map (\<lambda>p. meta_key (wnp_Meta p)) objs)"
    and "2 \<le> length (filter (targets ns kind name direction) objs)"
  shows "\<exists>win \<in> set (filter (targets ns kind name direction) objs).
    (\<forall>p \<in> set (filter (targets ns kind name direction) objs). \<exists>cf. checkDuplicateTarget c w p = Inr (Some cf) \<and>
       (dtc_winner cf \<longleftrightarrow> p = win) \<and> \<not> older p win)"
proof -
  let ?items = "filter (targets ns kind name direction) objs"
  note list = listWNPByField_targets [OF assms(1-7), of ns]
  have "?items \<noteq> []" using assms(9) by auto
  from oldest_ok [OF this] obtain win where win: "oldestWorkloadNetworkPolicy ?items = Some win" "win \<in> set ?items"
    "\<forall>q \<in> set ?items. \<not> older q win" by blast
  have "\<exists>cf. checkDuplicateTarget c w p = Inr (Some cf) \<and> (dtc_winner cf \<longleftrightarrow> p = win) \<and> \<not> older p win" if p: "p \<in> set ?items" for p
  proof -
    have t: "targets ns kind name direction p" using p by simp
    from checkDuplicateTarget_items [OF t assms(5-7) list assms(9)] win(1) obtain cf where
      cf: "checkDuplicateTarget c w p = Inr (Some cf)" "dtc_winner cf \<longleftrightarrow> wnp_Name win = wnp_Name p" by auto
    have "p = win" if "wnp_Name win = wnp_Name p"
    proof -
      have "meta_key (wnp_Meta p) = meta_key (wnp_Meta win)"
        using that p win(2) by (simp add: meta_key_def targets_def)
      with assms(8) p win(2) show ?thesis by (auto simp: distinct_map dest: inj_onD)
    qed
    with cf win(3) p show ?thesis by auto
  qed
  with win(2) show ?thesis by blast
qed

definition sample_older :: WorkloadNetworkPolicy where
  "sample_older = sample_target_wnp\<lparr>wnp_Meta := (meta_named ''back'' ''q'')\<lparr>om_CreationTimestamp := Some 1\<rparr>\<rparr>"

definition sample_newer :: WorkloadNetworkPolicy where
  "sample_newer = sample_target_wnp\<lparr>wnp_Meta := (meta_named ''back'' ''p'')\<lparr>om_CreationTimestamp := Some 2\<rparr>\<rparr>"

theorem one_policy_renders_witness:
  "\<exists>cf. checkDuplicateTarget (mem_client sample_index) (empty_store\<lparr>st_wnps := [sample_newer, sample_older]\<rparr>) sample_older =
     Inr (Some cf) \<and> dtc_winner cf"
proof -
  let ?objs = "[sample_newer, sample_older]"
  let ?w = "empty_store\<lparr>st_wnps := ?objs\<rparr>"
  have t: "filter (targets ''back'' ''Deployment'' ''api'' ''Ingress'') ?objs = ?objs"
    by (simp add: targets_def sample_newer_def sample_older_def sample_target_wnp_def)
  have e: "\<forall>p \<in> set ?objs. target_enums_ok p" "slash_free ''Deployment''" "slash_free ''Ingress''"
    by (simp_all add: target_enums_ok_def slash_free_def sample_newer_def sample_older_def sample_target_wnp_def)
  have d: "distinct (map (\<lambda>p. meta_key (wnp_Meta p)) ?objs)"
    by (simp add: sample_newer_def sample_older_def meta_key_def)
  have o: "older sample_older sample_newer"
    by (simp add: older_def sample_newer_def sample_older_def time_before_def)
  from one_policy_renders [of "mem_client sample_index" ?w ?objs "''Deployment''" "''Ingress''" "''api''" "''back''",
      OF _ e _ _ _ d] sample_index_ok [of ?w]
  obtain win where "win \<in> set ?objs" "\<forall>p \<in> set ?objs. \<exists>cf. checkDuplicateTarget (mem_client sample_index) ?w p = Inr (Some cf) \<and>
       (dtc_winner cf \<longleftrightarrow> p = win) \<and> \<not> older p win"
    unfolding t by auto
  with o show ?thesis by auto
qed

text \<open>A policy that lost a duplicate-target conflict never touches the data plane: whatever the client does,
  reconciling it changes the cluster at most by one patch of its own status, and the condition it
  reports is the conflict.\<close>

lemma loser_never_renders:
  assumes "getWNP c (pr_cluster r) req = Inr wnp"
    and "checkDuplicateTarget c (pr_cluster r) wnp = Inr (Some cf)" and "\<not> dtc_winner cf"
  shows "\<exists>r' e. policy_Reconcile h c r req = Some (r', e) \<and>
    pr_cluster r' \<in> {pr_cluster r, fst (patchWNPStatus c (pr_cluster r)
       (wnp\<lparr>wnp_Status := (wnp_Status wnp)\<lparr>Conditions :=
          fst (setStatusCondition h (Conditions (wnp_Status wnp)) (dtc_condition cf))\<rparr>\<rparr>) wnp)}"
  using assms updateReadyCondition_cluster [of h c r wnp "dtc_condition cf"]
  by (cases "updateReadyCondition h c r wnp (dtc_condition cf)") (simp add: policy_Reconcile_def Let_def)

text \<open>C4. Rendering for the Kubernetes backend. An existing NetworkPolicy that the policy does not control is
  never written: the outcome is the ownership conflict. In monitor mode nothing is ever created, and
  the policy's own NetworkPolicy is deleted. In protect mode success means that the stored
  NetworkPolicy has exactly the specification of the policy, carries the managed-by label and is
  controlled by the policy.\<close>

theorem reconcileK8sPolicy_correct:
  assumes "create_or_update_ok (getNP c) (createOrUpdateNP c) np_Meta np_Spec"
    and "\<forall>k np. getNP c w k = Inr np \<longrightarrow> meta_key (np_Meta np) = k"
    and "owner_helpers_ok h" and "Kubernetes (wnp_Backend wnp) = Some spec"
    and "reconcileK8sPolicy h c w wnp = Some (w', err)"
  shows "(\<forall>np. getNP c w (meta_key (wnp_Meta wnp)) = Inr np \<and>
            \<not> isControlledBy h (om_OwnerReferences (np_Meta np)) (om_UID (wnp_Meta wnp)) \<longrightarrow>
            w' = w \<and> err = Some (OwnershipConflict ''NetworkPolicy'' (meta_key (wnp_Meta wnp)))) \<and>
    (wnp_Mode wnp = WorkloadNetworkPolicyModeMonitor \<longrightarrow>
       w' = w \<or> (\<exists>np. getNP c w (meta_key (wnp_Meta wnp)) = Inr np \<and> (w', err) = deleteNP c w np \<and>
         isControlledBy h (om_OwnerReferences (np_Meta np)) (om_UID (wnp_Meta wnp)))) \<and>
    (wnp_Mode wnp \<noteq> WorkloadNetworkPolicyModeMonitor \<and> err = None \<longrightarrow>
       (\<exists>np. getNP c w' (meta_key (wnp_Meta wnp)) = Inr np \<and> np_Spec np = spec \<and>
         map_of (om_Labels (np_Meta np)) ManagedByLabelKey = Some ManagedByLabelValue \<and>
         isControlledBy h (om_OwnerReferences (np_Meta np)) (om_UID (wnp_Meta wnp))))"
  using reconcileK8sPolicy_stores [OF assms(1-4)] assms(5)
  by (auto simp: reconcileK8sPolicy_def wnp_NamespacedName_def Let_def split: if_splits sum.splits)

theorem reconcileK8sPolicy_correct_witness:
  "\<exists>w' np. reconcileK8sPolicy mem_helpers (mem_client sample_index) empty_store sample_target_wnp = Some (w', None) \<and>
     getNP (mem_client sample_index) w' \<lparr>nn_Namespace = ''back'', nn_Name = ''p''\<rparr> = Inr np \<and> np_Spec np = empty_np_spec"
proof -
  have "map_option snd (reconcileK8sPolicy mem_helpers (mem_client sample_index) empty_store sample_target_wnp) = Some None"
    by code_simp
  then obtain w' where w': "reconcileK8sPolicy mem_helpers (mem_client sample_index) empty_store sample_target_wnp = Some (w', None)" by auto
  have k: "meta_key (wnp_Meta sample_target_wnp) = \<lparr>nn_Namespace = ''back'', nn_Name = ''p''\<rparr>"
    "Kubernetes (wnp_Backend sample_target_wnp) = Some empty_np_spec" "wnp_Mode sample_target_wnp = ''protect''"
    by (simp_all add: sample_target_wnp_def)
  have "\<forall>k np. getNP (mem_client sample_index) empty_store k = Inr np \<longrightarrow> meta_key (np_Meta np) = k"
    by (auto simp: mem_client_def dest: mem_find_key)
  from reconcileK8sPolicy_correct [OF mem_client_upserts(1) this mem_helpers_owner k(2) w'] k w' show ?thesis by auto
qed

text \<open>C5. Rendering for the Istio backend. A foreign AuthorizationPolicy is never written; success means that the
  stored AuthorizationPolicy is an ALLOW policy that permits exactly what the rules of the
  specification permit, on the labels of its selector, and that it is a dry run exactly in monitor mode.\<close>

theorem reconcileIstioPolicy_correct:
  assumes "create_or_update_ok (getAP c) (createOrPatchAP c) ap_Meta ap_Spec"
    and "\<forall>k ap. getAP c w k = Inr ap \<longrightarrow> meta_key (ap_Meta ap) = k"
    and "owner_helpers_ok h" and "Istio (wnp_Backend wnp) = Some spec"
    and "reconcileIstioPolicy h c w wnp = Some (w', err)"
  shows "(\<forall>ap. getAP c w (meta_key (wnp_Meta wnp)) = Inr ap \<and>
            \<not> isControlledBy h (om_OwnerReferences (ap_Meta ap)) (om_UID (wnp_Meta wnp)) \<longrightarrow>
            w' = w \<and> err = Some (OwnershipConflict ''AuthorizationPolicy'' (meta_key (wnp_Meta wnp)))) \<and>
    (err = None \<longrightarrow>
       (\<exists>ap. getAP c w' (meta_key (wnp_Meta wnp)) = Inr ap \<and>
         (\<forall>i p. apPermits (ap_Spec ap) i p \<longleftrightarrow> istioPermits (Rules spec) i p) \<and>
         aps_Selector (ap_Spec ap) = Some (MatchLabels (Selector spec)) \<and>
         map_of (om_Labels (ap_Meta ap)) ManagedByLabelKey = Some ManagedByLabelValue \<and>
         (map_of (om_Annotations (ap_Meta ap)) istioDryRunAnnotationKey = Some ''true'' \<longleftrightarrow>
            wnp_Mode wnp = WorkloadNetworkPolicyModeMonitor) \<and>
         isControlledBy h (om_OwnerReferences (ap_Meta ap)) (om_UID (wnp_Meta wnp))))"
  using reconcileIstioPolicy_stores [OF assms(1-4)] assms(5)
  by (auto simp: reconcileIstioPolicy_def wnp_NamespacedName_def apPermits_render populate_selector Let_def
      split: if_splits sum.splits prod.splits)

theorem reconcileIstioPolicy_correct_witness:
  "\<exists>w' ap. reconcileIstioPolicy mem_helpers (mem_client sample_index) empty_store sample_wnp = Some (w', None) \<and>
     getAP (mem_client sample_index) w' \<lparr>nn_Namespace = ''back'', nn_Name = ''p''\<rparr> = Inr ap"
proof -
  have "map_option snd (reconcileIstioPolicy mem_helpers (mem_client sample_index) empty_store sample_wnp) = Some None"
    by code_simp
  then obtain w' where w': "reconcileIstioPolicy mem_helpers (mem_client sample_index) empty_store sample_wnp = Some (w', None)" by auto
  have k: "meta_key (wnp_Meta sample_wnp) = \<lparr>nn_Namespace = ''back'', nn_Name = ''p''\<rparr>"
    "Istio (wnp_Backend sample_wnp) = Some sample_istio"
    by (simp_all add: sample_wnp_def meta_key_def)
  have "\<forall>k ap. getAP (mem_client sample_index) empty_store k = Inr ap \<longrightarrow> meta_key (ap_Meta ap) = k"
    by (auto simp: mem_client_def dest: mem_find_key)
  from reconcileIstioPolicy_correct [OF mem_client_upserts(2) this mem_helpers_owner k(2) w'] k w' show ?thesis by auto
qed

text \<open>C28. The Ready condition is true exactly when the policy's selector selects its target and nothing else: the
  target workload exists and its pod template matches, no other workload's template matches, and
  every pod the selector finds is owned by the target workload.\<close>

theorem selector_scope_ready_iff:
  assumes "GetSelector (Some (wnp_Spec wnp)) = Inr sel"
    and "labelSelectorAsSelector h (if Backend (wnp_Backend wnp) = PolicyBackendIstio then sel\<lparr>MatchExpressions := []\<rparr> else sel) =
           Inr (selector, emp)"
    and "workloadTemplates c w (wnp_Namespace wnp) = Inr templates" and "distinct (map wt_target templates)"
    and "listPodsBySelector c w (wnp_Namespace wnp) selector = Inr pods"
    and "checkSelectorScope h c w wnp = Inr cond"
  shows "cond_Status cond = Some ConditionTrue \<longleftrightarrow>
    (\<exists>t \<in> set templates. wt_target t = wnp_TargetRef wnp \<and> selector (wt_labels t)) \<and>
    (\<forall>t \<in> set templates. \<not> other_matches wnp selector t) \<and>
    (\<forall>pod \<in> set pods. \<exists>ow. podWorkloadOwner h c w pod = Inr ow \<and> podOwnerMatchesTarget ow (wnp_TargetRef wnp) templates)"
  using assms by (rule checkSelectorScope_iff)

definition sample_scope :: "string \<Rightarrow> store" where
  "sample_scope app =
     empty_store\<lparr>
       st_workloads := [(''Deployment'', \<lparr>wo_Meta = (meta_named ''back'' ''api'')\<lparr>om_UID := ''d''\<rparr>,
         wo_Selector = Some \<lparr>MatchLabels = [(''app'', app)], MatchExpressions = []\<rparr>, wo_TemplateLabels = [(''app'', app)]\<rparr>)],
       st_replicasets := [\<lparr>rs_Meta = (meta_named ''back'' ''api-abc'')\<lparr>om_UID := ''r'',
         om_OwnerReferences := [\<lparr>or_APIVersion = ''apps/v1'', or_Kind = ''Deployment'', or_Name = ''api'', or_UID = ''d'',
           or_Controller = Some True, or_BlockOwnerDeletion = Some True\<rparr>]\<rparr>\<rparr>],
       st_pods := [\<lparr>pod_Meta = (meta_named ''back'' ''api-abc-1'')\<lparr>om_Labels := [(''app'', app)],
         om_OwnerReferences := [\<lparr>or_APIVersion = ''apps/v1'', or_Kind = ''ReplicaSet'', or_Name = ''api-abc'', or_UID = ''r'',
           or_Controller = Some True, or_BlockOwnerDeletion = Some True\<rparr>]\<rparr>, pod_ServiceAccountName = [], pod_IP = []\<rparr>]\<rparr>"

theorem selector_scope_ready_iff_witness:
  "\<exists>cond. checkSelectorScope mem_helpers (mem_client sample_index) (sample_scope ''api'') sample_wnp = Inr cond \<and>
     cond_Status cond = Some ConditionTrue"
proof -
  let ?c = "mem_client sample_index" and ?w = "sample_scope ''api''"
  let ?t = "\<lparr>wt_target = \<lparr>tr_Kind = ''Deployment'', tr_Name = ''api''\<rparr>, wt_labels = [(''app'', ''api'')], wt_uid = ''d''\<rparr>"
  have sel: "GetSelector (Some (wnp_Spec sample_wnp)) = Inr (Selector sample_istio)"
    by (simp add: sample_wnp_def GetSelector_def)
  have as: "labelSelectorAsSelector mem_helpers (if Backend (wnp_Backend sample_wnp) = PolicyBackendIstio
      then (Selector sample_istio)\<lparr>MatchExpressions := []\<rparr> else Selector sample_istio) = Inr (labels_match [(''app'', ''api'')], False)"
    by (simp add: sample_wnp_def sample_istio_def mem_helpers_def)
  have ts: "workloadTemplates ?c ?w (wnp_Namespace sample_wnp) = Inr [?t]" by code_simp
  have pods: "listPodsBySelector ?c ?w (wnp_Namespace sample_wnp) (labels_match [(''app'', ''api'')]) = Inr (st_pods ?w)" by code_simp
  have "case checkSelectorScope mem_helpers ?c ?w sample_wnp of Inl _ \<Rightarrow> False | Inr _ \<Rightarrow> True" by code_simp
  then obtain cond where cond: "checkSelectorScope mem_helpers ?c ?w sample_wnp = Inr cond" by (auto split: sum.splits)
  have owner: "\<exists>ow. podWorkloadOwner mem_helpers ?c ?w pod = Inr ow \<and> podOwnerMatchesTarget ow (wnp_TargetRef sample_wnp) [?t]"
    if "pod \<in> set (st_pods ?w)" for pod
  proof -
    have "case podWorkloadOwner mem_helpers ?c ?w (hd (st_pods ?w)) of Inl _ \<Rightarrow> False
          | Inr ow \<Rightarrow> podOwnerMatchesTarget ow (wnp_TargetRef sample_wnp) [?t]" by code_simp
    moreover have "pod = hd (st_pods ?w)" using that by (simp add: sample_scope_def)
    ultimately show ?thesis by (auto split: sum.splits)
  qed
  have match: "wt_target ?t = wnp_TargetRef sample_wnp" "labels_match [(''app'', ''api'')] (wt_labels ?t)"
    by (simp_all add: sample_wnp_def labels_match_def)
  from selector_scope_ready_iff [OF sel as ts _ pods cond] owner match cond show ?thesis
    by (auto simp: other_matches_def)
qed

text \<open>C12. What is Ready is enforced on the target alone. When reconciling an enforcing policy succeeds with a Ready condition that is true, the
  cluster has the policy's NetworkPolicy or AuthorizationPolicy, controlled by the policy, and the selector of that
  object, as it is written there, selects the target workload's pod template, no other workload's template, and only
  pods that the target owns. An AuthorizationPolicy carries no match expressions, and the check is about the selector without
  them.\<close>

theorem ready_object_selects_only_target:
  assumes "create_or_update_ok (getNP c) (createOrUpdateNP c) np_Meta np_Spec"
    and "create_or_update_ok (getAP c) (createOrPatchAP c) ap_Meta ap_Spec" and "owner_helpers_ok h"
    and "\<forall>k np. getNP c w k = Inr np \<longrightarrow> meta_key (np_Meta np) = k"
    and "\<forall>k ap. getAP c w k = Inr ap \<longrightarrow> meta_key (ap_Meta ap) = k"
    and "\<forall>templates. workloadTemplates c w (wnp_Namespace wnp) = Inr templates \<longrightarrow> distinct (map wt_target templates)"
    and "wnp_Mode wnp \<noteq> WorkloadNetworkPolicyModeMonitor"
    and "reconcilePolicy h c w wnp = Some (w', cond, None)" and "cond_Status cond = Some ConditionTrue"
  shows "(Backend (wnp_Backend wnp) = PolicyBackendKubernetes \<and>
      (\<exists>np. getNP c w' (meta_key (wnp_Meta wnp)) = Inr np \<and>
         isControlledBy h (om_OwnerReferences (np_Meta np)) (om_UID (wnp_Meta wnp)) \<and>
         selects_only_target h c w wnp (PodSelector (np_Spec np)))) \<or>
    (Backend (wnp_Backend wnp) = PolicyBackendIstio \<and>
      (\<exists>ap ls. getAP c w' (meta_key (wnp_Meta wnp)) = Inr ap \<and>
         isControlledBy h (om_OwnerReferences (ap_Meta ap)) (om_UID (wnp_Meta wnp)) \<and>
         aps_Selector (ap_Spec ap) = Some ls \<and> selects_only_target h c w wnp \<lparr>MatchLabels = ls, MatchExpressions = []\<rparr>))"
proof -
  note r = reconcilePolicy_ready [OF assms(8,9)]
  from ready_selects_only_target [OF conjunct1 [OF r] assms(9)] assms(6) obtain sel where
    sel: "GetSelector (Some (wnp_Spec wnp)) = Inr sel"
    "selects_only_target h c w wnp (if Backend (wnp_Backend wnp) = PolicyBackendIstio then sel\<lparr>MatchExpressions := []\<rparr> else sel)"
    by blast
  from sel(1) consider spec where "Backend (wnp_Backend wnp) = PolicyBackendKubernetes" "Kubernetes (wnp_Backend wnp) = Some spec" "sel = PodSelector spec"
    | spec where "Backend (wnp_Backend wnp) = PolicyBackendIstio" "Istio (wnp_Backend wnp) = Some spec" "sel = Selector spec"
    by (auto simp: GetSelector_def Let_def split: if_splits option.splits)
  then show ?thesis
  proof cases
    case 1
    with r sel(2) reconcileK8sPolicy_stores [OF assms(1,4,3) 1(2) _ assms(7)] show ?thesis
      by (auto simp: IsKubernetesBackend_def)
  next
    case 2
    have "(Selector spec)\<lparr>MatchExpressions := []\<rparr> = \<lparr>MatchLabels = MatchLabels (Selector spec), MatchExpressions = []\<rparr>" by simp
    with 2 r sel(2) reconcileIstioPolicy_stores [OF assms(2,5,3) 2(2)] show ?thesis
      by (auto simp: IsKubernetesBackend_def populate_selector)
  qed
qed

theorem ready_object_selects_only_target_witness:
  "\<exists>w' cond ap ls. reconcilePolicy mem_helpers (mem_client sample_index) (sample_scope ''api'') sample_wnp = Some (w', cond, None) \<and>
     getAP (mem_client sample_index) w' (meta_key (wnp_Meta sample_wnp)) = Inr ap \<and> aps_Selector (ap_Spec ap) = Some ls \<and>
     selects_only_target mem_helpers (mem_client sample_index) (sample_scope ''api'') sample_wnp \<lparr>MatchLabels = ls, MatchExpressions = []\<rparr>"
proof -
  let ?c = "mem_client sample_index" and ?w = "sample_scope ''api''"
  have "case reconcilePolicy mem_helpers ?c ?w sample_wnp of
      Some (w', cond, None) \<Rightarrow> cond_Status cond = Some ConditionTrue | _ \<Rightarrow> False" by code_simp
  then obtain w' cond where r: "reconcilePolicy mem_helpers ?c ?w sample_wnp = Some (w', cond, None)" "cond_Status cond = Some ConditionTrue"
    by (auto split: option.splits prod.splits)
  have keys: "\<forall>k np. getNP ?c ?w k = Inr np \<longrightarrow> meta_key (np_Meta np) = k" "\<forall>k ap. getAP ?c ?w k = Inr ap \<longrightarrow> meta_key (ap_Meta ap) = k"
    by (auto simp: mem_client_def dest: mem_find_key)
  have "case workloadTemplates ?c ?w (wnp_Namespace sample_wnp) of Inl _ \<Rightarrow> True | Inr ts \<Rightarrow> distinct (map wt_target ts)" by code_simp
  then have d: "\<forall>ts. workloadTemplates ?c ?w (wnp_Namespace sample_wnp) = Inr ts \<longrightarrow> distinct (map wt_target ts)" by auto
  have m: "wnp_Mode sample_wnp \<noteq> WorkloadNetworkPolicyModeMonitor" "Backend (wnp_Backend sample_wnp) \<noteq> PolicyBackendKubernetes"
    by (simp_all add: sample_wnp_def)
  from ready_object_selects_only_target [OF mem_client_upserts(1,2) mem_helpers_owner keys d m(1) r] m(2) r(1) show ?thesis by blast
qed

text \<open>While the selector does not match the target's pod template, an enforcing policy keeps what it has:
  reconciling it in protect mode writes no data-plane object at all, whether or not the retained one
  can be read.\<close>

lemma mismatch_keeps_data_plane:
  assumes "checkSelectorScope h c w wnp = Inr cond" and "cond_Reason cond = reasonSelectorDoesNotMatchTarget"
    and "wnp_Mode wnp \<noteq> WorkloadNetworkPolicyModeMonitor"
  shows "\<exists>cond' err. reconcilePolicy h c w wnp = Some (w, cond', err) \<and> cond_Status cond' \<noteq> Some ConditionTrue"
proof -
  from mismatch_not_ready [OF assms(1,2)] assms show ?thesis
    by (auto simp: reconcilePolicy_def checkRetainedPolicyScope_def not_ready_def Let_def split: sum.splits prod.splits if_splits)
qed

end
