(* ===== verification/Webhook.thy ===== *)
theory Webhook
  imports PolicyReconciler
begin

text \<open>
  The validating webhook of \<^verbatim>\<open>internal/controller/workloadnetworkpolicy_webhook.go\<close>: a policy is admitted
  only if no other live policy of its namespace that the webhook sees has the same target and direction. An admission is
  \<open>None\<close>, a rejection the error. As \<^verbatim>\<open>docs/rfc/0005\<close> says, the webhook is advisory: it reads a cache, and admissions are not serialised. The
  relation \<open>admissions\<close> has every such history, and the theorem is what the webhook and the duplicate check of the controller give together.
\<close>

section \<open>Model\<close>

definition targetKey :: "WorkloadNetworkPolicy \<Rightarrow> string" where
  "targetKey wnp = (case IndexWNPByTarget wnp of [k] \<Rightarrow> k | _ \<Rightarrow> [])"

definition conflicting :: "WorkloadNetworkPolicy \<Rightarrow> WorkloadNetworkPolicy \<Rightarrow> bool" where
  "conflicting wnp existing \<longleftrightarrow>
     \<not> (om_UID (wnp_Meta existing) = om_UID (wnp_Meta wnp) \<or> wnp_Name existing = wnp_Name wnp \<or>
        om_DeletionTimestamp (wnp_Meta existing) \<noteq> None)"

definition validateUniqueTarget :: "'w client \<Rightarrow> 'w \<Rightarrow> WorkloadNetworkPolicy \<Rightarrow> error option" where
  "validateUniqueTarget c w wnp =
     (let key = targetKey wnp in
      if key = [] then None
      else
        (case listWNPByField c w (wnp_Namespace wnp) WNPTargetIndexField key of
           Inl e \<Rightarrow> Some (ApiStatus InternalError
             (''Internal error occurred: listing WorkloadNetworkPolicies in namespace '' @ wnp_Namespace wnp @ '': '' @ error_string e))
         | Inr items \<Rightarrow>
             let conflicts = map (\<lambda>existing. wnp_Namespace existing @ ''/'' @ wnp_Name existing) (filter (conflicting wnp) items);
                 ref = wnp_TargetRef wnp
             in if conflicts = [] then None
                else Some (ApiStatus Invalid
                  (''spec.targetRef: Invalid value: '' @ tr_Kind ref @ ''/'' @ tr_Name ref @ '': direction '' @ wnp_Direction wnp @
                   '' is already taken by WorkloadNetworkPolicy '' @ str_join conflicts '', '' @
                   ''; at most one WorkloadNetworkPolicy may target a workload per direction''))))"

definition ValidateCreate :: "'w client \<Rightarrow> 'w \<Rightarrow> WorkloadNetworkPolicy \<Rightarrow> error option" where
  "ValidateCreate c w obj = validateUniqueTarget c w obj"

definition ValidateUpdate :: "'w client \<Rightarrow> 'w \<Rightarrow> WorkloadNetworkPolicy \<Rightarrow> WorkloadNetworkPolicy \<Rightarrow> error option" where
  "ValidateUpdate c w oldObj newObj =
     (if om_DeletionTimestamp (wnp_Meta newObj) \<noteq> None \<or> targetKey oldObj = targetKey newObj then None
      else validateUniqueTarget c w newObj)"

definition ValidateDelete :: "'w client \<Rightarrow> 'w \<Rightarrow> WorkloadNetworkPolicy \<Rightarrow> error option" where
  "ValidateDelete c w obj = None"

section \<open>The invariant the webhook guards\<close>

definition live_wnp :: "WorkloadNetworkPolicy \<Rightarrow> bool" where
  "live_wnp p \<longleftrightarrow> om_DeletionTimestamp (wnp_Meta p) = None"

definition clash :: "WorkloadNetworkPolicy \<Rightarrow> WorkloadNetworkPolicy \<Rightarrow> bool" where
  "clash p q \<longleftrightarrow> live_wnp p \<and> live_wnp q \<and> wnpTargetKey p \<noteq> None \<and> wnpTargetKey p = wnpTargetKey q"

definition unique_targets :: "WorkloadNetworkPolicy list \<Rightarrow> bool" where
  "unique_targets objs \<longleftrightarrow> (\<forall>p \<in> set objs. \<forall>q \<in> set objs. clash p q \<longrightarrow> p = q)"

lemma targetKey_wnpTargetKey:
  "wnpTargetKey p = (if targetKey p = [] then None else Some \<lparr>target_namespace = wnp_Namespace p, target_key = targetKey p\<rparr>)"
  by (auto simp: wnpTargetKey_def targetKey_def IndexWNPByTarget_def WNPTargetIndexKey_def Let_def)

lemma IndexWNPByTarget_iff: "k \<noteq> [] \<Longrightarrow> k \<in> set (IndexWNPByTarget p) \<longleftrightarrow> targetKey p = k"
  by (auto simp: targetKey_def IndexWNPByTarget_def Let_def)

lemma validateUniqueTarget_iff:
  assumes "field_index_ok c w WNPTargetIndexField IndexWNPByTarget objs"
  shows "validateUniqueTarget c w p = None \<longleftrightarrow>
    (\<forall>q \<in> set objs. wnpTargetKey p \<noteq> None \<and> wnpTargetKey q = wnpTargetKey p \<longrightarrow> \<not> conflicting p q)"
proof (cases "targetKey p = []")
  case True
  then show ?thesis by (simp add: validateUniqueTarget_def targetKey_wnpTargetKey)
next
  case False
  then have same: "wnpTargetKey q = wnpTargetKey p \<longleftrightarrow> wnp_Namespace q = wnp_Namespace p \<and> targetKey q = targetKey p" for q
    by (auto simp: targetKey_wnpTargetKey)
  from False have "wnpTargetKey p \<noteq> None" by (simp add: targetKey_wnpTargetKey)
  with False show ?thesis using assms unfolding same
    by (auto simp: validateUniqueTarget_def field_index_ok_def Let_def filter_empty_conv IndexWNPByTarget_iff)
qed

section \<open>Histories of admissions\<close>

text \<open>\<open>admissions c start log objs\<close>: from the policies \<open>start\<close> the API server has come to \<open>objs\<close>. Each entry of the log is an admission: the policy, what was stored
  when it was written, and the state \<open>w\<close> that the webhook read, which may be any: older than what is stored, or that of a
  concurrent request. A creation brings a new name and identity, an update keeps them and does not bring a deleted policy back.\<close>

inductive admissions ::
    "'w client \<Rightarrow> WorkloadNetworkPolicy list \<Rightarrow> (WorkloadNetworkPolicy \<times> WorkloadNetworkPolicy list \<times> 'w) list \<Rightarrow> WorkloadNetworkPolicy list \<Rightarrow> bool"
  for c start where
  none: "admissions c start [] start"
| create: "admissions c start log objs \<Longrightarrow> ValidateCreate c w p = None \<Longrightarrow>
    \<forall>q \<in> set objs. om_UID (wnp_Meta q) \<noteq> om_UID (wnp_Meta p) \<and> meta_key (wnp_Meta q) \<noteq> meta_key (wnp_Meta p) \<Longrightarrow>
    admissions c start (log @ [(p, objs, w)]) (objs @ [p])"
| update: "admissions c start log objs \<Longrightarrow> old \<in> set objs \<Longrightarrow> ValidateUpdate c w old p = None \<Longrightarrow>
    om_UID (wnp_Meta p) = om_UID (wnp_Meta old) \<Longrightarrow> meta_key (wnp_Meta p) = meta_key (wnp_Meta old) \<Longrightarrow> live_wnp p \<longrightarrow> live_wnp old \<Longrightarrow>
    admissions c start (log @ [(p, objs, w)]) (map (\<lambda>q. if q = old then p else q) objs)"
| remove: "admissions c start log objs \<Longrightarrow> admissions c start log (filter (\<lambda>q. q \<noteq> old) objs)"

definition identities :: "WorkloadNetworkPolicy list \<Rightarrow> bool" where
  "identities objs \<longleftrightarrow> (\<forall>p \<in> set objs. \<forall>q \<in> set objs.
     om_UID (wnp_Meta p) = om_UID (wnp_Meta q) \<or> meta_key (wnp_Meta p) = meta_key (wnp_Meta q) \<longrightarrow> p = q)"

text \<open>One of the two was admitted with the target of the other, which was stored and not seen.\<close>

definition raced ::
    "('w \<Rightarrow> WorkloadNetworkPolicy list) \<Rightarrow> (WorkloadNetworkPolicy \<times> WorkloadNetworkPolicy list \<times> 'w) list \<Rightarrow>
     WorkloadNetworkPolicy \<Rightarrow> WorkloadNetworkPolicy \<Rightarrow> bool" where
  "raced seen log p q \<longleftrightarrow>
     (\<exists>x stored w y. (x, stored, w) \<in> set log \<and> y \<in> set stored \<and> y \<notin> set (seen w) \<and> clash x y \<and>
        {meta_key (wnp_Meta x), meta_key (wnp_Meta y)} = {meta_key (wnp_Meta p), meta_key (wnp_Meta q)})"

lemma clash_sym: "clash p q \<longleftrightarrow> clash q p"
  by (metis clash_def)

lemma raced_sym: "raced seen log p q \<longleftrightarrow> raced seen log q p"
  by (simp add: raced_def insert_commute)

lemma raced_mono: "raced seen log p q \<Longrightarrow> raced seen (log @ es) p q"
  unfolding raced_def by auto

lemma admitted_unseen:
  assumes "\<forall>w. field_index_ok c w WNPTargetIndexField IndexWNPByTarget (seen w)" and "validateUniqueTarget c w p = None" and "clash p q"
    and "om_UID (wnp_Meta q) \<noteq> om_UID (wnp_Meta p)" and "meta_key (wnp_Meta q) \<noteq> meta_key (wnp_Meta p)"
  shows "q \<notin> set (seen w)"
proof
  assume q: "q \<in> set (seen w)"
  from assms(3) have "wnp_Namespace q = wnp_Namespace p" by (auto simp: clash_def targetKey_wnpTargetKey split: if_splits)
  with assms(3-5) have "conflicting p q" by (simp add: conflicting_def clash_def live_wnp_def meta_key_def)
  with assms(1-3) q validateUniqueTarget_iff [of c w "seen w" p] show False by (metis clash_def)
qed

lemma admissions_raced:
  assumes index: "\<forall>w. field_index_ok c w WNPTargetIndexField IndexWNPByTarget (seen w)"
    and start: "identities start" "unique_targets start" and run: "admissions c start log objs"
  shows "identities objs \<and> (\<forall>p \<in> set objs. \<forall>q \<in> set objs. clash p q \<and> p \<noteq> q \<longrightarrow> raced seen log p q)"
  using run
proof induction
  case none
  with start show ?case by (auto simp: unique_targets_def)
next
  case (create log objs w p)
  have new: "raced seen (log @ [(p, objs, w)]) p q" if "q \<in> set objs" "clash p q" for q
    using admitted_unseen [OF index, of w p q] create(2,3) that unfolding raced_def ValidateCreate_def by auto
  have "identities (objs @ [p])" using create by (auto simp: identities_def)
  moreover from create(4) new have "\<forall>a \<in> set (objs @ [p]). \<forall>b \<in> set (objs @ [p]). clash a b \<and> a \<noteq> b \<longrightarrow> raced seen (log @ [(p, objs, w)]) a b"
    using raced_mono [of seen log] clash_sym raced_sym by (metis Un_iff empty_iff list.set set_append insert_iff)
  ultimately show ?case by blast
next
  case (update log objs old w p)
  from update(7) have ids: "identities objs" and IH: "\<And>a b. a \<in> set objs \<Longrightarrow> b \<in> set objs \<Longrightarrow> clash a b \<Longrightarrow> a \<noteq> b \<Longrightarrow> raced seen log a b" by blast+
  have new: "raced seen (log @ [(p, objs, w)]) p q" if q: "q \<in> set objs" "q \<noteq> old" "clash p q" for q
  proof (cases "validateUniqueTarget c w p = None")
    case True
    have "om_UID (wnp_Meta q) \<noteq> om_UID (wnp_Meta p)" "meta_key (wnp_Meta q) \<noteq> meta_key (wnp_Meta p)"
      using ids q(1,2) update(2,4,5) by (auto simp: identities_def)
    from admitted_unseen [OF index True q(3) this] q show ?thesis unfolding raced_def by auto
  next
    case False
    with update(3,6) q(3) have "targetKey old = targetKey p" "live_wnp old" by (auto simp: ValidateUpdate_def live_wnp_def clash_def split: if_splits)
    with update(5) q(3) have "clash old q" by (auto simp: clash_def targetKey_wnpTargetKey meta_key_def split: if_splits)
    from IH [OF update(2) q(1) this] q(2) update(5) have "raced seen log p q" by (auto simp: raced_def)
    then show ?thesis by (rule raced_mono)
  qed
  have mem: "a \<in> set (map (\<lambda>q. if q = old then p else q) objs) \<longleftrightarrow> a = p \<or> a \<in> set objs \<and> a \<noteq> old" for a
    using update(2) by auto
  have apart: "a = old" if "a \<in> set objs" "om_UID (wnp_Meta a) = om_UID (wnp_Meta p) \<or> meta_key (wnp_Meta a) = meta_key (wnp_Meta p)" for a
    using ids update(2,4,5) that unfolding identities_def by auto
  have "identities (map (\<lambda>q. if q = old then p else q) objs)"
    unfolding identities_def
  proof (intro ballI impI)
    fix a b
    assume a: "a \<in> set (map (\<lambda>q. if q = old then p else q) objs)" and b: "b \<in> set (map (\<lambda>q. if q = old then p else q) objs)"
      and eq: "om_UID (wnp_Meta a) = om_UID (wnp_Meta b) \<or> meta_key (wnp_Meta a) = meta_key (wnp_Meta b)"
    from a b [unfolded mem] eq apart [of a] apart [of b] show "a = b" using ids unfolding mem identities_def by auto
  qed
  moreover have "raced seen (log @ [(p, objs, w)]) a b" if "a = p \<or> a \<in> set objs \<and> a \<noteq> old" "b = p \<or> b \<in> set objs \<and> b \<noteq> old" "clash a b" "a \<noteq> b" for a b
    using that new IH raced_mono [of seen log] clash_sym raced_sym by metis
  ultimately show ?case unfolding Ball_def mem by blast
next
  case (remove log objs old)
  then show ?case by (auto simp: identities_def)
qed

text \<open>The controller sees a clash, and not both policies win it.\<close>

lemma clash_noticed:
  assumes "field_index_ok c w WNPTargetIndexField IndexWNPByTarget objs" and "p \<in> set objs" and "q \<in> set objs" and "clash p q" and "p \<noteq> q"
  shows "\<exists>cf. checkDuplicateTarget c w p = Inr (Some cf) \<and>
    (\<exists>win. oldestWorkloadNetworkPolicy (filter (\<lambda>x. wnp_Namespace x = wnp_Namespace p \<and> targetKey p \<in> set (IndexWNPByTarget x)) objs) = Some win \<and>
       (dtc_winner cf \<longleftrightarrow> wnp_Name win = wnp_Name p))"
proof -
  from assms(4) have k: "targetKey p \<noteq> []" "wnp_Namespace q = wnp_Namespace p" "targetKey q = targetKey p"
    by (auto simp: clash_def targetKey_wnpTargetKey split: if_splits)
  let ?items = "filter (\<lambda>x. wnp_Namespace x = wnp_Namespace p \<and> targetKey p \<in> set (IndexWNPByTarget x)) objs"
  have "{p, q} \<subseteq> set ?items" using assms(2,3) k by (auto simp: IndexWNPByTarget_iff)
  then have "card {p, q} \<le> length ?items" by (meson card_length card_mono finite_set le_trans)
  then have two: "2 \<le> length ?items" using assms(5) by simp
  then have "?items \<noteq> []" by auto
  from oldest_ok [OF this] obtain win where "oldestWorkloadNetworkPolicy ?items = Some win" by blast
  moreover have "listWNPByField c w (wnp_Namespace p) WNPTargetIndexField (targetKey p) = Inr ?items"
    using assms(1) by (simp add: field_index_ok_def)
  moreover have "wnpTargetKey p = Some \<lparr>target_namespace = wnp_Namespace p, target_key = targetKey p\<rparr>"
    using k(1) by (simp add: targetKey_wnpTargetKey)
  ultimately show ?thesis using two by (simp add: checkDuplicateTarget_def minDuplicateTargetPolicies_def Let_def)
qed

section \<open>Properties\<close>

text \<open>C29. What the webhook and the controller give together. Admissions may run concurrently and on stale reads. The webhook admits a new policy exactly if it sees
  no other live one with the same target in its namespace. Starting from unique targets, two live policies come to share a target only by
  a race: one of them was admitted with that target while the other was stored and the webhook did not see it. Without such an admission the targets stay
  unique. And a race is not the end of it: once the controller sees both, its duplicate check reports the conflict on each, and at most one of
  them wins.\<close>

theorem target_clashes_are_races:
  assumes "\<forall>w. field_index_ok c w WNPTargetIndexField IndexWNPByTarget (seen w)" and "identities start" and "unique_targets start"
    and "admissions c start log objs"
  shows "(\<forall>w p. ValidateCreate c w p = None \<longleftrightarrow>
      (\<forall>q \<in> set (seen w). wnpTargetKey p \<noteq> None \<and> wnpTargetKey q = wnpTargetKey p \<longrightarrow> \<not> conflicting p q)) \<and>
    (\<forall>p \<in> set objs. \<forall>q \<in> set objs. clash p q \<and> p \<noteq> q \<longrightarrow> raced seen log p q \<and>
       (\<forall>w. seen w = objs \<longrightarrow> (\<exists>cp cq. checkDuplicateTarget c w p = Inr (Some cp) \<and> checkDuplicateTarget c w q = Inr (Some cq) \<and>
          \<not> (dtc_winner cp \<and> dtc_winner cq)))) \<and>
    ((\<forall>(p, stored, w) \<in> set log. set stored \<subseteq> set (seen w)) \<longrightarrow> unique_targets objs)"
proof -
  note inv = admissions_raced [OF assms]
  have "\<exists>cp cq. checkDuplicateTarget c w p = Inr (Some cp) \<and> checkDuplicateTarget c w q = Inr (Some cq) \<and> \<not> (dtc_winner cp \<and> dtc_winner cq)"
    if "p \<in> set objs" "q \<in> set objs" "clash p q" "p \<noteq> q" "seen w = objs" for p q w
  proof -
    have i: "field_index_ok c w WNPTargetIndexField IndexWNPByTarget objs" using assms(1) that(5) by metis
    have same: "wnp_Namespace q = wnp_Namespace p" "targetKey q = targetKey p"
      using that(3) by (auto simp: clash_def targetKey_wnpTargetKey split: if_splits)
    have "wnp_Name p \<noteq> wnp_Name q" using inv that(1,2,4) same(1) by (auto simp: identities_def meta_key_def)
    with clash_noticed [OF i that(1-4)] clash_noticed [OF i that(2,1) _ that(4) [symmetric]] that(3) same show ?thesis
      by (auto simp: clash_sym)
  qed
  with inv have races: "\<forall>p \<in> set objs. \<forall>q \<in> set objs. clash p q \<and> p \<noteq> q \<longrightarrow> raced seen log p q \<and>
       (\<forall>w. seen w = objs \<longrightarrow> (\<exists>cp cq. checkDuplicateTarget c w p = Inr (Some cp) \<and> checkDuplicateTarget c w q = Inr (Some cq) \<and>
          \<not> (dtc_winner cp \<and> dtc_winner cq)))" by blast
  have "unique_targets objs" if "\<forall>(p, stored, w) \<in> set log. set stored \<subseteq> set (seen w)"
    using inv that unfolding unique_targets_def raced_def by fastforce
  with races validateUniqueTarget_iff [of c _ "seen _"] assms(1) show ?thesis by (simp add: ValidateCreate_def)
qed

text \<open>Two concurrent creations that both see an empty namespace: both are admitted, and the duplicate check finds them.\<close>

definition sample_rival :: WorkloadNetworkPolicy where
  "sample_rival = sample_older\<lparr>wnp_Meta := (wnp_Meta sample_older)\<lparr>om_UID := ''u''\<rparr>\<rparr>"

abbreviation sample_race :: "(WorkloadNetworkPolicy \<times> WorkloadNetworkPolicy list \<times> store) list" where
  "sample_race \<equiv> [(sample_newer, [], empty_store), (sample_rival, [sample_newer], empty_store)]"

lemma sample_race_facts:
  "ValidateCreate (mem_client sample_index) empty_store sample_newer = None"
  "ValidateCreate (mem_client sample_index) empty_store sample_rival = None"
  "om_UID (wnp_Meta sample_newer) \<noteq> om_UID (wnp_Meta sample_rival) \<and> meta_key (wnp_Meta sample_newer) \<noteq> meta_key (wnp_Meta sample_rival)"
  "clash sample_newer sample_rival"
  by code_simp+

lemma sample_race_admitted: "admissions (mem_client sample_index) [] sample_race [sample_newer, sample_rival]"
proof -
  have "admissions (mem_client sample_index) [] ([] @ [(sample_newer, [], empty_store)]) ([] @ [sample_newer])"
    by (rule admissions.create [OF admissions.none sample_race_facts(1)]) simp
  from admissions.create [OF this sample_race_facts(2)] sample_race_facts(3) show ?thesis by simp
qed

theorem target_clashes_are_races_witness:
  "raced st_wnps sample_race sample_newer sample_rival \<and>
   (\<exists>cp cq. checkDuplicateTarget (mem_client sample_index) (empty_store\<lparr>st_wnps := [sample_newer, sample_rival]\<rparr>) sample_newer = Inr (Some cp) \<and>
      checkDuplicateTarget (mem_client sample_index) (empty_store\<lparr>st_wnps := [sample_newer, sample_rival]\<rparr>) sample_rival = Inr (Some cq) \<and>
      \<not> (dtc_winner cp \<and> dtc_winner cq))"
proof -
  let ?w = "empty_store\<lparr>st_wnps := [sample_newer, sample_rival]\<rparr>"
  have i: "\<forall>w. field_index_ok (mem_client sample_index) w WNPTargetIndexField IndexWNPByTarget (st_wnps w)" using sample_index_ok by blast
  have ne: "sample_newer \<noteq> sample_rival" using sample_race_facts(3) by metis
  have s: "st_wnps ?w = [sample_newer, sample_rival]" by simp
  have st: "identities []" "unique_targets []" by (simp_all add: identities_def unique_targets_def)
  from target_clashes_are_races [OF i st sample_race_admitted, THEN conjunct2, THEN conjunct1, THEN bspec, THEN bspec, THEN mp,
      of sample_newer sample_rival] sample_race_facts(4) ne s
  show ?thesis by simp
qed

text \<open>The webhook and the controller agree on what a conflict is: a policy the webhook admits on creation,
  in a cluster where every policy is live, is never a loser of the controller's duplicate check as long
  as no other policy is added.\<close>

lemma admitted_policy_has_no_conflict:
  assumes "field_index_ok c w WNPTargetIndexField IndexWNPByTarget objs" and "\<forall>q \<in> set objs. live_wnp q"
    and "\<forall>q \<in> set objs. om_UID (wnp_Meta q) \<noteq> om_UID (wnp_Meta p) \<and> meta_key (wnp_Meta q) \<noteq> meta_key (wnp_Meta p)"
    and "ValidateCreate c w p = None"
    and "field_index_ok c w' WNPTargetIndexField IndexWNPByTarget (objs @ [p])"
  shows "checkDuplicateTarget c w' p = Inr None"
proof (cases "targetKey p = []")
  case True
  then show ?thesis by (simp add: checkDuplicateTarget_def targetKey_wnpTargetKey)
next
  case False
  have "\<not> (wnp_Namespace q = wnp_Namespace p \<and> targetKey q = targetKey p)" if "q \<in> set objs" for q
  proof
    assume same: "wnp_Namespace q = wnp_Namespace p \<and> targetKey q = targetKey p"
    with False have "wnpTargetKey q = wnpTargetKey p" "wnpTargetKey p \<noteq> None" by (simp_all add: targetKey_wnpTargetKey)
    with assms(4) validateUniqueTarget_iff [OF assms(1), of p] that have "\<not> conflicting p q"
      by (auto simp: ValidateCreate_def)
    with assms(2,3) that same show False by (auto simp: conflicting_def live_wnp_def meta_key_def)
  qed
  then have "filter (\<lambda>q. wnp_Namespace q = wnp_Namespace p \<and> targetKey p \<in> set (IndexWNPByTarget q)) objs = []"
    using False by (simp add: filter_empty_conv IndexWNPByTarget_iff)
  with assms(5) False show ?thesis
    by (simp add: checkDuplicateTarget_def targetKey_wnpTargetKey field_index_ok_def Let_def minDuplicateTargetPolicies_def
        IndexWNPByTarget_iff)
qed

end
