(* ===== verification/ProposalReconciler.thy ===== *)
theory ProposalReconciler
  imports Learning
begin

text \<open>
  The proposal controller of \<^verbatim>\<open>internal/controller/workloadnetworkpolicyproposal_controller.go\<close>: it keeps the
  owner reference of a learned proposal right, removes proposals whose workload is gone or that were
  already promoted, and promotes a proposal that carries the promotion label to a policy.
\<close>

section \<open>Model\<close>

fun trim_known_suffix :: "string list \<Rightarrow> string \<Rightarrow> string option" where
  "trim_known_suffix [] rest = None"
| "trim_known_suffix (sfx # sfxs) rest =
     (if \<not> has_suffix rest sfx then trim_known_suffix sfxs rest
      else if trim_suffix rest sfx = [] then trim_known_suffix sfxs rest
      else Some (trim_suffix rest sfx))"

fun owner_from_kinds :: "string \<Rightarrow> WorkloadKind list \<Rightarrow> string \<Rightarrow> WorkloadRef option" where
  "owner_from_kinds ns [] proposalName = None"
| "owner_from_kinds ns (kind # kinds) proposalName =
     (let pfx = to_lower kind @ ''-'' in
      if \<not> has_prefix proposalName pfx then owner_from_kinds ns kinds proposalName
      else (case trim_known_suffix [''-ingress'', ''-egress''] (trim_prefix proposalName pfx) of
              None \<Rightarrow> owner_from_kinds ns kinds proposalName
            | Some ownerName \<Rightarrow>
                Some (wr_zero\<lparr>wr_Namespace := ns, wr_OwnerKind := kind, wr_OwnerName := ownerName\<rparr>)))"

definition ownerRefFromProposalName :: "string \<Rightarrow> string \<Rightarrow> WorkloadRef option" where
  "ownerRefFromProposalName ns proposalName =
     owner_from_kinds ns [WorkloadKindDeployment, WorkloadKindStatefulSet, WorkloadKindDaemonSet] proposalName"

text \<open>The new cluster, the proposal as it is in memory afterwards, and the outcome: an error or whether the
  proposal was deleted. A patch writes the server's answer into the proposal, so that after it the proposal is
  what the server has, not what was read.\<close>

definition reconcileOwnership ::
    "helpers \<Rightarrow> 'w client \<Rightarrow> 'w \<Rightarrow> WorkloadNetworkPolicyProposal \<Rightarrow> 'w \<times> WorkloadNetworkPolicyProposal \<times> (error + bool)" where
  "reconcileOwnership h c w proposal =
     (case ownerRefFromProposalName (wnpp_Namespace proposal) (wnpp_Name proposal) of
        None \<Rightarrow> (w, proposal, Inr False)
      | Some wk \<Rightarrow>
          (case OwnerObjectFor (wr_OwnerKind wk) of
             None \<Rightarrow> (w, proposal, Inr False)
           | Some kind \<Rightarrow>
               let key = \<lparr>nn_Namespace = wr_Namespace wk, nn_Name = wr_OwnerName wk\<rparr> in
               (case getWorkload c w kind key of
                  Inl e \<Rightarrow>
                    if \<not> is_not_found e then
                      (w, proposal, Inl (wrap (''getting owner '' @ wr_OwnerKind wk @ '' '' @ nn_string key) e))
                    else (case deleteWNPP c w proposal of
                            (w', None) \<Rightarrow> (w', proposal, Inr True)
                          | (w', Some e') \<Rightarrow>
                              (w', proposal, case ignore_not_found e' of None \<Rightarrow> Inr False | Some e'' \<Rightarrow> Inl e''))
                | Inr owner \<Rightarrow>
                    if (case getControllerOf h (om_OwnerReferences (wnpp_Meta proposal)) of
                          None \<Rightarrow> False | Some current \<Rightarrow> or_UID current = om_UID (wo_Meta owner))
                    then (w, proposal, Inr False)
                    else
                      let cleared = (wnpp_Meta proposal)\<lparr>om_OwnerReferences := []\<rparr> in
                      (case setControllerReference h kind (wo_Meta owner) cleared of
                         Inl e \<Rightarrow> (w, proposal\<lparr>wnpp_Meta := cleared\<rparr>, Inl (wrap ''setting controller reference'' e))
                       | Inr refs \<Rightarrow>
                           let proposal' = proposal\<lparr>wnpp_Meta := cleared\<lparr>om_OwnerReferences := refs\<rparr>\<rparr> in
                           (case patchWNPP c w proposal' proposal of
                              (w', Inl e) \<Rightarrow> (w', proposal', Inl (wrap ''patching ownerReference'' e))
                            | (w', Inr stored) \<Rightarrow> (w', stored, Inr False))))))"

definition promoted_policy :: "WorkloadNetworkPolicyProposal \<Rightarrow> WorkloadNetworkPolicyMode \<Rightarrow> WorkloadNetworkPolicy" where
  "promoted_policy proposal mode =
     \<lparr>wnp_Meta = meta_named (wnpp_Namespace proposal) (wnpp_Name proposal),
      wnp_Spec = \<lparr>spec_Backend = pspec_Backend (wnpp_Spec proposal),
                  spec_Targeting = pspec_Targeting (wnpp_Spec proposal), spec_Mode = mode\<rparr>,
      wnp_Status = empty_status\<rparr>"

definition delete_ignoring ::
    "'w client \<Rightarrow> 'w \<Rightarrow> WorkloadNetworkPolicyProposal \<Rightarrow> 'w \<times> error option" where
  "delete_ignoring c w proposal =
     (case deleteWNPP c w proposal of (w', None) \<Rightarrow> (w', None) | (w', Some e) \<Rightarrow> (w', ignore_not_found e))"

definition proposal_Reconcile :: "helpers \<Rightarrow> 'w client \<Rightarrow> 'w \<Rightarrow> NamespacedName \<Rightarrow> 'w \<times> error option" where
  "proposal_Reconcile h c w req =
     (case getWNPP c w req of
        Inl e \<Rightarrow> (w, ignore_not_found e)
      | Inr proposal0 \<Rightarrow>
          if om_DeletionTimestamp (wnpp_Meta proposal0) \<noteq> None then (w, None)
          else
            (case reconcileOwnership h c w proposal0 of
               (w1, proposal, Inl e) \<Rightarrow> (w1, Some e)
             | (w1, proposal, Inr True) \<Rightarrow> (w1, None)
             | (w1, proposal, Inr False) \<Rightarrow>
                 (case hasPromotedPolicy c w1 (wnpp_Namespace proposal) (wnpp_Name proposal) of
                    Inl e \<Rightarrow> (w1, Some (wrap ''failed to check promoted WorkloadNetworkPolicy'' e))
                  | Inr True \<Rightarrow> delete_ignoring c w1 proposal
                  | Inr False \<Rightarrow>
                      (case HasPromotionLabel (Some proposal) of
                         (_, False) \<Rightarrow> (w1, None)
                       | (mode, True) \<Rightarrow>
                           (case SetPromotedLabel (Some (promoted_policy proposal mode)) (wnpp_Name proposal) of
                              Inl e \<Rightarrow> (w1, Some (wrap ''failed to set promoted label'' (api_type_error e)))
                            | Inr policy \<Rightarrow>
                                (case createWNP c w1 policy of
                                   (w2, Some e) \<Rightarrow>
                                     if is_already_exists e then (w2, None)
                                     else (w2, Some (wrap ''failed to create WorkloadNetworkPolicy'' e))
                                 | (w2, None) \<Rightarrow> delete_ignoring c w2 proposal))))))"

section \<open>Lemmas\<close>

lemma suffixes_exclusive: "\<not> has_suffix (x @ ''-egress'') ''-ingress''"
proof
  assume "has_suffix (x @ ''-egress'') ''-ingress''"
  then obtain r where "x @ ''-egress'' = r @ ''-ingress''" by (auto simp: has_suffix_iff)
  then have "take 7 (rev (x @ ''-egress'')) = take 7 (rev (r @ ''-ingress''))" by simp
  then show False by simp
qed

lemma trim_known_suffix_ingress:
  "name \<noteq> [] \<Longrightarrow> trim_known_suffix [''-ingress'', ''-egress''] (name @ ''-ingress'') = Some name"
  by (simp add: has_suffix_append trim_suffix_append)

lemma trim_known_suffix_egress:
  "name \<noteq> [] \<Longrightarrow> trim_known_suffix [''-ingress'', ''-egress''] (name @ ''-egress'') = Some name"
  by (simp add: suffixes_exclusive has_suffix_append trim_suffix_append)

lemma lower_names:
  "to_lower ''Deployment'' = ''deployment''" "to_lower ''StatefulSet'' = ''statefulset''"
  "to_lower ''DaemonSet'' = ''daemonset''" "to_lower ''Ingress'' = ''ingress''" "to_lower ''Egress'' = ''egress''"
  by code_simp+

lemma prefix_simps:
  "has_prefix (''deployment'' @ ''-'' @ s) (''deployment'' @ ''-'')"
  "has_prefix (''statefulset'' @ ''-'' @ s) (''statefulset'' @ ''-'')"
  "has_prefix (''daemonset'' @ ''-'' @ s) (''daemonset'' @ ''-'')"
  "\<not> has_prefix (''statefulset'' @ ''-'' @ s) (''deployment'' @ ''-'')"
  "\<not> has_prefix (''daemonset'' @ ''-'' @ s) (''deployment'' @ ''-'')"
  "\<not> has_prefix (''daemonset'' @ ''-'' @ s) (''statefulset'' @ ''-'')"
  "trim_prefix (''deployment'' @ ''-'' @ s) (''deployment'' @ ''-'') = s"
  "trim_prefix (''statefulset'' @ ''-'' @ s) (''statefulset'' @ ''-'') = s"
  "trim_prefix (''daemonset'' @ ''-'' @ s) (''daemonset'' @ ''-'') = s"
  by (simp_all add: has_prefix_def trim_prefix_def)

lemma ownership_keeps_spec:
  "reconcileOwnership h c w p = (w', p', out) \<Longrightarrow>
     wnpp_Spec p' = wnpp_Spec p \<and> om_Labels (wnpp_Meta p') = om_Labels (wnpp_Meta p) \<and> meta_key (wnpp_Meta p') = meta_key (wnpp_Meta p) \<or>
     (\<exists>refs. patchWNPP c w (p\<lparr>wnpp_Meta := (wnpp_Meta p)\<lparr>om_OwnerReferences := refs\<rparr>\<rparr>) p = (w', Inr p'))"
  by (auto simp: reconcileOwnership_def Let_def meta_key_def split: option.splits sum.splits if_splits prod.splits)

text \<open>What a promotion is: the proposal in memory, made a policy.\<close>

definition promotion_of :: "WorkloadNetworkPolicyProposal \<Rightarrow> WorkloadNetworkPolicyMode \<Rightarrow> WorkloadNetworkPolicy \<Rightarrow> bool" where
  "promotion_of p mode pol \<longleftrightarrow> meta_key (wnp_Meta pol) = meta_key (wnpp_Meta p) \<and> spec_Backend (wnp_Spec pol) = pspec_Backend (wnpp_Spec p) \<and>
     spec_Targeting (wnp_Spec pol) = pspec_Targeting (wnpp_Spec p) \<and> wnp_Mode pol = mode \<and> HasPromotedLabel (Some pol) (wnpp_Name p)"

lemma promotion_outcome:
  assumes "create_wnp_ok c truth" and "delete_wnpp_local c truth"
    and "getWNPP c w req = Inr p0" and "om_DeletionTimestamp (wnpp_Meta p0) = None"
    and "reconcileOwnership h c w p0 = (w1, p, Inr False)"
    and "hasPromotedPolicy c w1 (wnpp_Namespace p) (wnpp_Name p) = Inr False"
    and "HasPromotionLabel (Some p) = (mode, True)"
    and "proposal_Reconcile h c w req = (w3, None)"
  shows "case truth w1 (meta_key (wnpp_Meta p)) of
      None \<Rightarrow> \<exists>pol. truth w3 (meta_key (wnpp_Meta p)) = Some pol \<and> promotion_of p mode pol
    | Some q \<Rightarrow> w3 = w1"
proof -
  obtain pol where pol: "SetPromotedLabel (Some (promoted_policy p mode)) (wnpp_Name p) = Inr pol"
    using assms(3-8) by (auto simp: proposal_Reconcile_def split: sum.splits)
  have pspec: "spec_Backend (wnp_Spec pol) = pspec_Backend (wnpp_Spec p)"
    "spec_Targeting (wnp_Spec pol) = pspec_Targeting (wnpp_Spec p)" "wnp_Mode pol = mode"
    "meta_key (wnp_Meta pol) = meta_key (wnpp_Meta p)"
    using pol by (auto simp: SetPromotedLabel_def promoted_policy_def meta_key_def split: if_splits)
  obtain w2 r where cr: "createWNP c w1 pol = (w2, r)" by (cases "createWNP c w1 pol")
  note ok = assms(1) [unfolded create_wnp_ok_def, THEN spec, THEN spec, THEN spec, THEN spec, THEN mp, OF cr, unfolded pspec(4)]
  show ?thesis
  proof (cases r)
    case None
    with ok obtain q where q: "truth w1 (meta_key (wnpp_Meta p)) = None" "truth w2 (meta_key (wnpp_Meta p)) = Some q"
      "user_meta (wnp_Meta q) = user_meta (wnp_Meta pol)" "wnp_Spec q = wnp_Spec pol" by auto
    have "w3 = fst (deleteWNPP c w2 p)"
      using assms(3-8) pol cr None
      by (auto simp: proposal_Reconcile_def delete_ignoring_def split: prod.splits option.splits)
    with assms(2) q(2) have "truth w3 (meta_key (wnpp_Meta p)) = Some q" by (simp add: delete_wnpp_local_def)
    moreover have "HasPromotedLabel (Some q) (wnpp_Name p)"
      using SetPromotedLabel_HasPromotedLabel [OF pol] user_meta_eqD(3) [OF q(3)] by (simp add: HasPromotedLabel_def)
    ultimately show ?thesis using pspec q user_meta_eqD(6) [OF q(3)] by (auto simp: promotion_of_def)
  next
    case (Some e)
    with assms(3-8) pol cr have "is_already_exists e" "w3 = w2" by (auto simp: proposal_Reconcile_def split: if_splits)
    with ok Some show ?thesis by auto
  qed
qed

section \<open>Properties\<close>

text \<open>The name of a learned proposal names its workload: for every supported workload and both directions,
  the owner that the proposal controller reads off the name is the workload the learning controller
  made the proposal for.\<close>

lemma proposal_name_roundtrip:
  assumes "IsSupported wk" and "wr_OwnerName wk \<noteq> []" and "d \<in> {PolicyTypeIngress, PolicyTypeEgress}"
  shows "ownerRefFromProposalName (wr_Namespace wk) (getProposalName wk d) =
    Some (wr_zero\<lparr>wr_Namespace := wr_Namespace wk, wr_OwnerKind := wr_OwnerKind wk, wr_OwnerName := wr_OwnerName wk\<rparr>)"
proof -
  obtain k n dn where k: "k = to_lower (wr_OwnerKind wk)" and n: "n = wr_OwnerName wk" and dn: "dn = to_lower d" by blast
  have d: "dn = ''ingress'' \<or> dn = ''egress''" using assms(3) by (auto simp: dn lower_names)
  have name: "getProposalName wk d = k @ ''-'' @ (n @ ''-'' @ dn)" by (simp add: getProposalName_def k n dn)
  have t: "trim_known_suffix [''-ingress'', ''-egress''] (n @ ''-'' @ dn) = Some n"
    using d
  proof
    assume dn': "dn = ''ingress''"
    show ?thesis using trim_known_suffix_ingress [of n] assms(2) n unfolding dn' by (simp del: trim_known_suffix.simps)
  next
    assume dn': "dn = ''egress''"
    show ?thesis using trim_known_suffix_egress [of n] assms(2) n unfolding dn' by (simp del: trim_known_suffix.simps)
  qed
  from assms(1) consider "wr_OwnerKind wk = ''Deployment''" | "wr_OwnerKind wk = ''StatefulSet''" | "wr_OwnerKind wk = ''DaemonSet''"
    by (auto simp: IsSupported_def)
  then show ?thesis
    by cases (simp_all only: ownerRefFromProposalName_def owner_from_kinds.simps name k lower_names prefix_simps Let_def
        WorkloadKindDeployment_def WorkloadKindStatefulSet_def WorkloadKindDaemonSet_def t [unfolded n] not_True_eq_False
        not_False_eq_True if_True if_False option.case n)
qed

text \<open>C30. Promotion is faithful. When a labelled proposal is reconciled with success, and no policy was promoted from it yet, the outcome depends on
  its name. If the API server has no policy of that name, it has one afterwards, with the proposal's name, backend specification and target,
  the mode that the label asks for, and the mark of a promotion from this proposal, by which the next reconciliation finds it. If the name is taken,
  nothing is created and nothing deleted: the cluster is as the ownership step left it. The proposal is the one in memory after that step.\<close>

theorem promotion_faithful:
  assumes "create_wnp_ok c truth" and "delete_wnpp_local c truth"
    and "getWNPP c w req = Inr p0" and "om_DeletionTimestamp (wnpp_Meta p0) = None"
    and "reconcileOwnership h c w p0 = (w1, p, Inr False)"
    and "hasPromotedPolicy c w1 (wnpp_Namespace p) (wnpp_Name p) = Inr False"
    and "HasPromotionLabel (Some p) = (mode, True)"
    and "proposal_Reconcile h c w req = (w3, None)"
  shows "case truth w1 (meta_key (wnpp_Meta p)) of
      None \<Rightarrow> \<exists>pol. truth w3 (meta_key (wnpp_Meta p)) = Some pol \<and> promotion_of p mode pol
    | Some q \<Rightarrow> w3 = w1"
  using assms by (rule promotion_outcome)

abbreviation mem_truth :: "store \<Rightarrow> NamespacedName \<Rightarrow> WorkloadNetworkPolicy option" where
  "mem_truth w \<equiv> has_obj wnp_Meta (st_wnps w)"

lemma mem_client_creates: "create_wnp_ok (mem_client idx) mem_truth" "delete_wnpp_local (mem_client idx) mem_truth"
proof -
  show "create_wnp_ok (mem_client idx) mem_truth"
    by (auto simp: create_wnp_ok_def mem_client_def mem_find_def has_obj_def find_snoc split: sum.splits option.splits)
  show "delete_wnpp_local (mem_client idx) mem_truth"
    by (auto simp: delete_wnpp_local_def mem_client_def split: sum.splits)
qed

definition sample_proposal :: WorkloadNetworkPolicyProposal where
  "sample_proposal = \<lparr>wnpp_Meta = (meta_named ''ns'' ''deployment-web-egress'')\<lparr>om_Labels := [(ProposalPromoteLabelKey, ''monitor'')]\<rparr>,
     wnpp_Spec = \<lparr>pspec_Backend = wnp_Backend sample_target_wnp,
       pspec_Targeting = workloadTargetingSpec (sample_wk ''web'') ''Egress''\<rparr>, wnpp_Conditions = []\<rparr>"

definition sample_proposals :: store where
  "sample_proposals = empty_store\<lparr>st_workloads := [sample_deployment ''ns'' ''web''], st_wnpps := [sample_proposal]\<rparr>"

abbreviation sample_req :: NamespacedName where
  "sample_req \<equiv> \<lparr>nn_Namespace = ''ns'', nn_Name = ''deployment-web-egress''\<rparr>"

text \<open>The owner reference of the sample proposal is missing, so the ownership step patches it first.\<close>

lemma sample_ownership:
  obtains w1 p where
    "getWNPP (mem_client sample_index) sample_proposals sample_req = Inr sample_proposal"
    "om_DeletionTimestamp (wnpp_Meta sample_proposal) = None"
    "reconcileOwnership mem_helpers (mem_client sample_index) sample_proposals sample_proposal = (w1, p, Inr False)"
    "hasPromotedPolicy (mem_client sample_index) w1 (wnpp_Namespace p) (wnpp_Name p) = Inr False"
    "length (om_OwnerReferences (wnpp_Meta p)) = 1" "st_wnps w1 = []"
    "HasPromotionLabel (Some p) = (''monitor'', True)" "meta_key (wnpp_Meta p) = sample_req"
proof -
  let ?o = "reconcileOwnership mem_helpers (mem_client sample_index) sample_proposals sample_proposal"
  have "snd (snd ?o) = Inr False" by code_simp
  then have "?o = (fst ?o, fst (snd ?o), Inr False)" by (metis prod.collapse)
  moreover have "hasPromotedPolicy (mem_client sample_index) (fst ?o) (wnpp_Namespace (fst (snd ?o))) (wnpp_Name (fst (snd ?o))) = Inr False"
    "length (om_OwnerReferences (wnpp_Meta (fst (snd ?o)))) = 1"
    "HasPromotionLabel (Some (fst (snd ?o))) = (''monitor'', True)" "meta_key (wnpp_Meta (fst (snd ?o))) = sample_req"
    by code_simp+
  moreover have "length (st_wnps (fst ?o)) = 0" by code_simp
  then have "st_wnps (fst ?o) = []" by simp
  moreover have "getWNPP (mem_client sample_index) sample_proposals sample_req = Inr sample_proposal"
    "om_DeletionTimestamp (wnpp_Meta sample_proposal) = None"
    by (simp_all add: mem_client_def mem_find_def sample_proposals_def sample_proposal_def meta_named_def meta_key_def)
  ultimately show thesis using that by blast
qed

theorem promotion_faithful_witness:
  "\<exists>w3 pol. proposal_Reconcile mem_helpers (mem_client sample_index) sample_proposals sample_req = (w3, None) \<and>
     getWNP (mem_client sample_index) w3 sample_req = Inr pol \<and> wnp_Mode pol = ''monitor''"
proof -
  let ?c = "mem_client sample_index"
  let ?r = "proposal_Reconcile mem_helpers ?c sample_proposals sample_req"
  have "snd ?r = None" by code_simp
  then have r: "?r = (fst ?r, None)" by (metis prod.collapse)
  from sample_ownership obtain w1 p where o: "getWNPP ?c sample_proposals sample_req = Inr sample_proposal"
    "om_DeletionTimestamp (wnpp_Meta sample_proposal) = None"
    "reconcileOwnership mem_helpers ?c sample_proposals sample_proposal = (w1, p, Inr False)"
    "hasPromotedPolicy ?c w1 (wnpp_Namespace p) (wnpp_Name p) = Inr False" "st_wnps w1 = []"
    "HasPromotionLabel (Some p) = (''monitor'', True)" "meta_key (wnpp_Meta p) = sample_req" by metis
  have "mem_truth w1 (meta_key (wnpp_Meta p)) = None" using o(5) by (simp add: has_obj_def mem_find_def)
  with promotion_faithful [OF mem_client_creates o(1-4,6) r] obtain pol where
    "mem_truth (fst ?r) (meta_key (wnpp_Meta p)) = Some pol" "promotion_of p ''monitor'' pol" by auto
  with r o(7) show ?thesis by (auto simp: promotion_of_def mem_client_def intro!: exI)
qed

text \<open>Nothing is promoted without the label, and nothing twice: if the proposal does not ask for a valid mode,
  or a policy promoted from it exists, reconciling it creates no policy: it leaves the cluster as the
  ownership step left it, or deletes the leftover proposal.\<close>

lemma no_unwanted_promotion:
  assumes "getWNPP c w req = Inr p0" and "om_DeletionTimestamp (wnpp_Meta p0) = None"
    and "reconcileOwnership h c w p0 = (w1, p, Inr deleted)"
    and "deleted \<or> \<not> snd (HasPromotionLabel (Some p)) \<or> hasPromotedPolicy c w1 (wnpp_Namespace p) (wnpp_Name p) = Inr True"
  shows "fst (proposal_Reconcile h c w req) = w1 \<or> fst (proposal_Reconcile h c w req) = fst (deleteWNPP c w1 p)"
proof (cases deleted)
  case True
  with assms(1-3) show ?thesis by (simp add: proposal_Reconcile_def)
next
  case False
  with assms show ?thesis
    by (cases "HasPromotionLabel (Some p)")
      (auto simp: proposal_Reconcile_def delete_ignoring_def split: sum.splits bool.splits prod.splits option.splits)
qed

end
