(* ===== verification/FlowParser.thy ===== *)
theory FlowParser
  imports Learning
begin

text \<open>
  What the flow scrapers share, from \<^verbatim>\<open>internal/scraper/flow_parser_helpers.go\<close> and
  \<^verbatim>\<open>scraper_helpers.go\<close>: port conversion, the outcome of parsing one flow, the resolution of the
  workloads of a parsed flow, and what the receive loops of the Calico and the Cilium scraper do with
  the outcome. A nil dereference is \<open>None\<close>. The texts of strconv's errors are not modelled.
\<close>

section \<open>Model\<close>

subsection \<open>Errors and ports\<close>

definition errUnsupportedProtocol :: string where "errUnsupportedProtocol = ''unsupported protocol''"
definition errEndpointHasNoWorkload :: string where "errEndpointHasNoWorkload = ''endpoint has no associated workload''"
definition errSkipWorkload :: string where "errSkipWorkload = ''endpoint has no supported workload''"
definition errPortOutOfRange :: string where "errPortOutOfRange = ''port is out of range''"

lemmas scraper_sentinels =
  errUnsupportedProtocol_def errEndpointHasNoWorkload_def errSkipWorkload_def errPortOutOfRange_def

definition minValidPort :: int where "minValidPort = 1"
definition maxValidPort :: int where "maxValidPort = 65535"

text \<open>The argument is the value of the \<open>int64\<close> or \<open>uint32\<close> the flow API reports.\<close>

definition portToInt32 :: "int \<Rightarrow> error + int32" where
  "portToInt32 port =
     (if port < 0 \<or> port > maxValidPort then Inl (Wrapped [] (Sentinel errPortOutOfRange) ('': '' @ fmt_int port))
      else Inr (word_of_int port))"

definition parsePort :: "string \<Rightarrow> error + int32" where
  "parsePort port =
     (case parse_int 32 port of
        None \<Rightarrow> Inl (wrap (''cannot parse port '' @ [CHR 0x22] @ port @ [CHR 0x22]) (Plain ''strconv.ParseInt''))
      | Some parsed \<Rightarrow>
          if parsed < minValidPort \<or> parsed > maxValidPort
          then Inl (Wrapped [] (Sentinel errPortOutOfRange) ('': '' @ fmt_int parsed))
          else portToInt32 parsed)"

subsection \<open>The outcome of a flow\<close>

datatype processFlowResult =
    processFlowSkip
  | processFlowEnqueue LearningEvent
  | processFlowRecordViolation Observation
  | processFlowError error

definition resolveOutcome :: "string \<Rightarrow> error \<Rightarrow> processFlowResult" where
  "resolveOutcome role err =
     (if error_is err errSkipWorkload then processFlowSkip
      else processFlowError (wrap (''cannot resolve '' @ role @ '' workload'') err))"

definition resolveViolationDenyingPolicy :: "'w client \<Rightarrow> 'w \<Rightarrow> Observation \<Rightarrow> Observation" where
  "resolveViolationDenyingPolicy c w observation =
     (let i = obs_Info observation in
      if DenyingPolicyName i \<noteq> [] then observation
      else
        let ref = (if obs_Direction observation = PolicyTypeIngress then Dest i else vi_Source i) in
        (case ResolveDenyingPolicy c w ref (obs_Direction observation) of
           Inl _ \<Rightarrow> observation
         | Inr policy \<Rightarrow>
             observation\<lparr>obs_Info := i\<lparr>DenyingPolicyName := nn_Name policy, DenyingPolicyNamespace := nn_Namespace policy\<rparr>\<rparr>))"

text \<open>\<open>resolveWorkload\<close> overwrites the reference it is given when it succeeds. The peer of a violation
  keeps its raw value when it cannot be resolved.\<close>

definition resolve_peer :: "(WorkloadRef \<Rightarrow> error + WorkloadRef) \<Rightarrow> WorkloadRef \<Rightarrow> WorkloadRef" where
  "resolve_peer resolveWorkload peer = (case resolveWorkload peer of Inl _ \<Rightarrow> peer | Inr p \<Rightarrow> p)"

definition resolveParsedFlow ::
    "(WorkloadRef \<Rightarrow> error + WorkloadRef) \<Rightarrow> 'w client \<Rightarrow> 'w \<Rightarrow> processFlowResult \<Rightarrow> processFlowResult option" where
  "resolveParsedFlow resolveWorkload c w parsed =
     (case parsed of
        processFlowEnqueue event \<Rightarrow>
          (case le_Source event of
             None \<Rightarrow> None
           | Some source \<Rightarrow>
               (case resolveWorkload source of
                  Inl e \<Rightarrow> Some (resolveOutcome ''source'' e)
                | Inr source' \<Rightarrow>
                    (case le_Dest event of
                       None \<Rightarrow> None
                     | Some dest \<Rightarrow>
                         (case resolveWorkload dest of
                            Inl e \<Rightarrow> Some (resolveOutcome ''destination'' e)
                          | Inr dest' \<Rightarrow>
                              Some (processFlowEnqueue (event\<lparr>le_Source := Some source', le_Dest := Some dest'\<rparr>))))))
      | processFlowRecordViolation observation \<Rightarrow>
          (let i = obs_Info observation in
           if obs_Direction observation = PolicyTypeIngress then
             (case resolveWorkload (Dest i) of
                Inl e \<Rightarrow> Some (resolveOutcome ''destination'' e)
              | Inr subject \<Rightarrow>
                  Some (processFlowRecordViolation (resolveViolationDenyingPolicy c w
                    (observation\<lparr>obs_Info := i\<lparr>Dest := subject, vi_Source := resolve_peer resolveWorkload (vi_Source i)\<rparr>\<rparr>))))
           else
             (case resolveWorkload (vi_Source i) of
                Inl e \<Rightarrow> Some (resolveOutcome ''source'' e)
              | Inr subject \<Rightarrow>
                  Some (processFlowRecordViolation (resolveViolationDenyingPolicy c w
                    (observation\<lparr>obs_Info := i\<lparr>vi_Source := subject, Dest := resolve_peer resolveWorkload (Dest i)\<rparr>\<rparr>)))))
      | processFlowError _ \<Rightarrow> Some parsed
      | processFlowSkip \<Rightarrow> Some parsed)"

definition completeSelector :: "helpers \<Rightarrow> 'w client \<Rightarrow> 'w \<Rightarrow> WorkloadRef \<Rightarrow> error + WorkloadRef" where
  "completeSelector h c w ref =
     (case LookupPodSelectorForWorkload h c w ref of
        Inl e \<Rightarrow> Inl (wrap (''failed to lookup pod selector for workload '' @ [CHR 0x22] @ wr_OwnerName ref @ [CHR 0x22]) e)
      | Inr ref' \<Rightarrow> Inr ref')"

subsection \<open>The receive loop\<close>

text \<open>A scraper enqueues into the learning controller's channel and shares the violation buffer and the
  event logger with it; the flow dumper has a buffer of its own, if it is enabled. The JSON encoders are
  third-party code: \<open>flow_codec\<close>, with the test whether the message is a proto message.\<close>

record 'w Scraper =
  sc_learner :: "'w LearningReconciler"
  sc_FlowDumperBuffer :: "string Buffer option"

record 'm flow_codec =
  isProtoMessage :: "'m \<Rightarrow> bool"
  protojsonMarshal :: "'m \<Rightarrow> error + string"
  jsonMarshal :: "'m \<Rightarrow> error + string"

definition marshalFlow :: "'m flow_codec \<Rightarrow> 'm \<Rightarrow> error + string" where
  "marshalFlow codec flow =
     (if isProtoMessage codec flow then
        (case protojsonMarshal codec flow of
           Inl e \<Rightarrow> Inl (wrap ''failed to marshal proto flow'' e)
         | Inr raw \<Rightarrow> Inr raw)
      else
        (case jsonMarshal codec flow of
           Inl e \<Rightarrow> Inl (wrap ''failed to marshal flow'' e)
         | Inr raw \<Rightarrow> Inr raw))"

text \<open>The encoding of a flow, if there is one, and a codec that encodes nothing.\<close>

definition encoded :: "'m flow_codec \<Rightarrow> 'm \<Rightarrow> string option" where
  "encoded codec m = (case marshalFlow codec m of Inl _ \<Rightarrow> None | Inr raw \<Rightarrow> Some raw)"

definition no_codec :: "'m flow_codec" where
  "no_codec = \<lparr>isProtoMessage = \<lambda>_. True, protojsonMarshal = \<lambda>_. Inl (Plain ''not supported''),
     jsonMarshal = \<lambda>_. Inl (Plain ''not supported'')\<rparr>"

definition dumpFlow :: "'m flow_codec \<Rightarrow> string Buffer option \<Rightarrow> 'm \<Rightarrow> string Buffer option option" where
  "dumpFlow codec buffer flow =
     (case buffer of
        None \<Rightarrow> Some None
      | Some b \<Rightarrow>
          (case marshalFlow codec flow of
             Inl _ \<Rightarrow> Some (Some b)
           | Inr marshaled \<Rightarrow> map_option (\<lambda>(_, b'). Some b') (Record b marshaled)))"

definition handle_result :: "'w Scraper \<Rightarrow> processFlowResult \<Rightarrow> 'w Scraper option" where
  "handle_result s result =
     (case result of
        processFlowSkip \<Rightarrow> Some s
      | processFlowError _ \<Rightarrow> Some s
      | processFlowEnqueue event \<Rightarrow> Some (s\<lparr>sc_learner := fst (enqueueEvent (sc_learner s) event)\<rparr>)
      | processFlowRecordViolation observation \<Rightarrow>
          (let l = sc_learner s in
           case Record (lr_violationBuffer l) observation of
             None \<Rightarrow> None
           | Some (_, b) \<Rightarrow>
               Some (s\<lparr>sc_learner := l\<lparr>lr_violationOtelLogger := EmitOtelLog (lr_violationOtelLogger l) observation,
                                        lr_violationBuffer := b\<rparr>\<rparr>)))"

text \<open>One iteration and the loop over the messages received until the receive fails. \<open>process\<close> is the
  provider's processing of a message; it reads the cluster but does not change it.\<close>

definition stream_step ::
    "'m flow_codec \<Rightarrow> ('w \<Rightarrow> 'm \<Rightarrow> processFlowResult option) \<Rightarrow> 'w Scraper \<Rightarrow> 'm \<Rightarrow> 'w Scraper option" where
  "stream_step codec process s msg =
     (case dumpFlow codec (sc_FlowDumperBuffer s) msg of
        None \<Rightarrow> None
      | Some d \<Rightarrow>
          (case process (lr_cluster (sc_learner s)) msg of
             None \<Rightarrow> None
           | Some result \<Rightarrow> handle_result (s\<lparr>sc_FlowDumperBuffer := d\<rparr>) result))"

fun stream_loop ::
    "'m flow_codec \<Rightarrow> ('w \<Rightarrow> 'm \<Rightarrow> processFlowResult option) \<Rightarrow> 'w Scraper \<Rightarrow> 'm list \<Rightarrow> 'w Scraper option" where
  "stream_loop codec process s [] = Some s"
| "stream_loop codec process s (msg # msgs) =
     (case stream_step codec process s msg of None \<Rightarrow> None | Some s' \<Rightarrow> stream_loop codec process s' msgs)"

section \<open>Lemmas\<close>

lemma sint_port: "0 \<le> p \<Longrightarrow> p \<le> 65535 \<Longrightarrow> sint (word_of_int p :: int32) = p"
  by (simp add: sint_sbintrunc' signed_take_bit_int_eq_self)

lemma portToInt32_Inr: "portToInt32 p = Inr w \<Longrightarrow> 0 \<le> p \<and> p \<le> 65535 \<and> sint w = p"
  by (auto simp: portToInt32_def maxValidPort_def sint_port split: if_splits)

lemma parsePort_Inr: "parsePort s = Inr w \<longleftrightarrow> (\<exists>p. parse_int 32 s = Some p \<and> 1 \<le> p \<and> p \<le> 65535 \<and> w = word_of_int p)"
  by (auto simp: parsePort_def portToInt32_def maxValidPort_def minValidPort_def split: option.splits if_splits)

text \<open>A reference that was resolved: the workload is of a supported kind, exists, and the selector is the
  workload's own, which converts and is not empty.\<close>

definition resolved_ok :: "helpers \<Rightarrow> 'w client \<Rightarrow> 'w \<Rightarrow> WorkloadRef \<Rightarrow> bool" where
  "resolved_ok h c w ref \<longleftrightarrow> IsSupported ref \<and>
     (\<exists>obj m. getWorkload c w (wr_OwnerKind ref) \<lparr>nn_Namespace = wr_Namespace ref, nn_Name = wr_OwnerName ref\<rparr> = Inr obj \<and>
        wo_Selector obj = Some (wr_Selector ref) \<and> labelSelectorAsSelector h (wr_Selector ref) = Inr (m, False))"

definition learned_ok :: "helpers \<Rightarrow> 'w client \<Rightarrow> 'w \<Rightarrow> LearningEvent \<Rightarrow> bool" where
  "learned_ok h c w ev \<longleftrightarrow>
     (case (le_Source ev, le_Dest ev) of
        (Some source, Some dest) \<Rightarrow> resolved_ok h c w source \<and> resolved_ok h c w dest
      | _ \<Rightarrow> False)"

lemma lookup_selector_ok:
  assumes "LookupPodSelectorForWorkload h c w wk = Inr ref"
  shows "resolved_ok h c w ref"
  using assms
  by (auto simp: LookupPodSelectorForWorkload_def resolved_ok_def IsSupported_def Let_def
      split: sum.splits if_splits option.splits)

lemma get_ok:
  assumes "Get h c w k = Inr ref" and "IsSupported ref"
  shows "resolved_ok h c w ref"
  using assms lookup_selector_ok by (auto simp: Get_def Let_def split: sum.splits if_splits)

definition both_ends :: "processFlowResult \<Rightarrow> bool" where
  "both_ends r = (case r of processFlowEnqueue ev \<Rightarrow> le_Source ev \<noteq> None \<and> le_Dest ev \<noteq> None | _ \<Rightarrow> True)"

lemma resolveParsedFlow_ok:
  assumes "both_ends parsed" and "\<And>r r'. resolve r = Inr r' \<Longrightarrow> resolved_ok h c w r'"
  shows "\<exists>r. resolveParsedFlow resolve c w parsed = Some r \<and> (\<forall>ev. r = processFlowEnqueue ev \<longrightarrow> learned_ok h c w ev)"
  using assms
  by (auto simp: resolveParsedFlow_def both_ends_def learned_ok_def resolveOutcome_def Let_def
      split: processFlowResult.splits option.splits sum.splits)

text \<open>The buffers have room for that many records.\<close>

definition buffers_ok :: "'w Scraper \<Rightarrow> nat \<Rightarrow> bool" where
  "buffers_ok s n \<longleftrightarrow> rb_inv (lr_violationBuffer (sc_learner s)) \<and> n \<le> rb_room (lr_violationBuffer (sc_learner s)) \<and>
     (case sc_FlowDumperBuffer s of None \<Rightarrow> True | Some b \<Rightarrow> rb_inv b \<and> n \<le> rb_room b)"

lemma dumpFlow_total:
  fixes n :: nat
  assumes "case d of None \<Rightarrow> True | Some b \<Rightarrow> rb_inv b \<and> Suc n \<le> rb_room b"
  shows "\<exists>d'. dumpFlow codec d m = Some d' \<and> (case d' of None \<Rightarrow> True | Some b \<Rightarrow> rb_inv b \<and> n \<le> rb_room b)"
proof (cases d)
  case (Some b)
  with assms have "rb_inv b" "0 < rb_room b" "Suc n \<le> rb_room b" by auto
  with Record_ok [of b "projr (marshalFlow codec m)"] Some show ?thesis
    by (cases "marshalFlow codec m") (auto simp: dumpFlow_def)
qed (simp add: dumpFlow_def)

section \<open>The contract of a flow source\<close>

text \<open>What a provider's processing promises to the receive loop: it does not panic, and what it hands to
  the learning controller has two resolved ends.\<close>

locale flow_processor =
  fixes h :: helpers and c :: "'w client" and process :: "'w \<Rightarrow> 'm \<Rightarrow> processFlowResult option"
  assumes process_ok: "\<exists>r. process w m = Some r \<and> (\<forall>ev. r = processFlowEnqueue ev \<longrightarrow> learned_ok h c w ev)"
begin

lemma step_ok:
  assumes "buffers_ok s (Suc n)" and "list_all (learned_ok h c (lr_cluster (sc_learner s))) (lr_eventChan (sc_learner s))"
  shows "\<exists>s'. stream_step codec process s m = Some s' \<and> buffers_ok s' n \<and>
    lr_cluster (sc_learner s') = lr_cluster (sc_learner s) \<and>
    list_all (learned_ok h c (lr_cluster (sc_learner s))) (lr_eventChan (sc_learner s'))"
proof -
  from assms(1) dumpFlow_total [where d = "sc_FlowDumperBuffer s" and n = n and codec = codec and m = m] obtain d where
    d: "dumpFlow codec (sc_FlowDumperBuffer s) m = Some d" "case d of None \<Rightarrow> True | Some b \<Rightarrow> rb_inv b \<and> n \<le> rb_room b"
    unfolding buffers_ok_def by blast
  from process_ok [of "lr_cluster (sc_learner s)" m] obtain r where
    r: "process (lr_cluster (sc_learner s)) m = Some r" "\<And>ev. r = processFlowEnqueue ev \<Longrightarrow> learned_ok h c (lr_cluster (sc_learner s)) ev"
    by blast
  from assms(1) have v: "rb_inv (lr_violationBuffer (sc_learner s))" "0 < rb_room (lr_violationBuffer (sc_learner s))"
    "Suc n \<le> rb_room (lr_violationBuffer (sc_learner s))" by (auto simp: buffers_ok_def)
  show ?thesis
  proof (cases r)
    case (processFlowRecordViolation ob)
    from Record_ok [OF v(1,2), of ob] obtain b' where
      b: "Record (lr_violationBuffer (sc_learner s)) ob =
            Some (length (rb_contents (lr_violationBuffer (sc_learner s))) = nat (capacity (lr_violationBuffer (sc_learner s))), b')"
      "rb_inv b'" "rb_room b' = rb_room (lr_violationBuffer (sc_learner s)) - 1" by auto
    with d r processFlowRecordViolation assms(2) v(3) show ?thesis
      by (auto simp: stream_step_def handle_result_def buffers_ok_def Let_def)
  qed (use d r assms(2) v in \<open>auto simp: stream_step_def handle_result_def buffers_ok_def enqueueEvent_def\<close>)
qed

lemma loop_ok:
  assumes "buffers_ok s (length ms)" and "list_all (learned_ok h c (lr_cluster (sc_learner s))) (lr_eventChan (sc_learner s))"
  shows "\<exists>s'. stream_loop codec process s ms = Some s' \<and> lr_cluster (sc_learner s') = lr_cluster (sc_learner s) \<and>
    list_all (learned_ok h c (lr_cluster (sc_learner s))) (lr_eventChan (sc_learner s'))"
  using assms
proof (induction ms arbitrary: s)
  case (Cons m ms)
  from Cons.prems step_ok [of s "length ms" codec m] obtain s1 where
    s1: "stream_step codec process s m = Some s1" "buffers_ok s1 (length ms)"
    "lr_cluster (sc_learner s1) = lr_cluster (sc_learner s)"
    "list_all (learned_ok h c (lr_cluster (sc_learner s))) (lr_eventChan (sc_learner s1))" by auto
  with Cons.IH [of s1] show ?case by auto
qed simp

end

section \<open>Properties\<close>

text \<open>A violation that comes without a policy is given the one policy that targets its subject (the
  destination for ingress, the source for egress) in its direction, and none when there is no such
  policy or more than one; a reported policy is kept, and nothing else about the violation changes.\<close>

lemma resolveViolationDenyingPolicy_exact:
  assumes "field_index_ok c w WNPTargetIndexField IndexWNPByTarget objs" and "\<forall>p \<in> set objs. target_enums_ok p"
    and "d = obs_Direction ob" and "subject = (if d = PolicyTypeIngress then Dest (obs_Info ob) else vi_Source (obs_Info ob))"
    and "slash_free (wr_OwnerKind subject)" and "slash_free d"
    and "wr_OwnerKind subject \<noteq> []" and "wr_OwnerName subject \<noteq> []" and "d \<noteq> []"
  shows "resolveViolationDenyingPolicy c w ob =
    (if DenyingPolicyName (obs_Info ob) \<noteq> [] then ob
     else case filter (targets (wr_Namespace subject) (wr_OwnerKind subject) (wr_OwnerName subject) d) objs of
            [p] \<Rightarrow> ob\<lparr>obs_Info := (obs_Info ob)\<lparr>DenyingPolicyName := wnp_Name p, DenyingPolicyNamespace := wnp_Namespace p\<rparr>\<rparr>
          | _ \<Rightarrow> ob)"
proof (cases "DenyingPolicyName (obs_Info ob) = []")
  case True
  have ref: "(if obs_Direction ob = PolicyTypeIngress then Dest (obs_Info ob) else vi_Source (obs_Info ob)) = subject"
    using assms(3,4) by simp
  have l: "listWNPByField c w (wr_Namespace subject) WNPTargetIndexField (WNPTargetIndexKey (wr_OwnerKind subject) (wr_OwnerName subject) d) =
      Inr (filter (targets (wr_Namespace subject) (wr_OwnerKind subject) (wr_OwnerName subject) d) objs)"
    using assms by (intro listWNPByField_targets) auto
  have "resolveViolationDenyingPolicy c w ob =
      (case ResolveDenyingPolicy c w subject d of Inl _ \<Rightarrow> ob
       | Inr policy \<Rightarrow> ob\<lparr>obs_Info := (obs_Info ob)\<lparr>DenyingPolicyName := nn_Name policy, DenyingPolicyNamespace := nn_Namespace policy\<rparr>\<rparr>)"
    using True ref assms(3) unfolding resolveViolationDenyingPolicy_def Let_def by presburger
  with l True show ?thesis
    by (auto simp: ResolveDenyingPolicy_def LookupWNPByTarget_def Let_def wnp_NamespacedName_def meta_key_def split: list.splits)
qed (simp add: resolveViolationDenyingPolicy_def)

end
