(* ===== verification/CalicoScraper.thy ===== *)
theory CalicoScraper
  imports FlowParser
begin

text \<open>
  The Calico scraper, \<^verbatim>\<open>internal/scraper/calico_flow_parser.go\<close> and the receive loop of
  \<^verbatim>\<open>calico_scraper.go\<close>: a Goldmane flow becomes a learning event (an allowed flow between two workloads,
  reported at the destination), a violation (a denied flow whose subject is a workload) or nothing.

  The messages are those of the Goldmane API with the fields that are read; an enumeration also has
  its unnamed values. A getter on a nil message returns the zero value, which the code relies on only
  for the flow key, so that one is an \<open>option\<close> (the \<open>nil\<close> of a list element is the all-zero hit).
\<close>

section \<open>Model\<close>

subsection \<open>Goldmane messages\<close>

datatype EndpointType =
    EndpointTypeUnspecified | WorkloadEndpoint | HostEndpoint | NetworkSet | Network | EndpointTypeOther int

datatype FlowAction = ActionUnspecified | Allow | Deny | Pass | ActionOther int

datatype Reporter = ReporterUnspecified | Src | Dst | ReporterOther int

datatype PolicyKind =
    KindUnspecified | CalicoNetworkPolicyKind | GlobalNetworkPolicyKind | StagedNetworkPolicyKind
  | StagedGlobalNetworkPolicyKind | StagedKubernetesNetworkPolicyKind | NetworkPolicyKind
  | AdminNetworkPolicyKind | BaselineAdminNetworkPolicyKind | Profile | EndOfTier | PolicyKindOther int

datatype PolicyHit =
  PolicyHit (ph_Kind: PolicyKind) (ph_Namespace: string) (ph_Name: string) (ph_Action: FlowAction)
    (ph_Trigger: "PolicyHit option")

record FlowKey =
  fk_SourceName :: string
  fk_SourceNamespace :: string
  fk_SourceType :: EndpointType
  fk_DestName :: string
  fk_DestNamespace :: string
  fk_DestType :: EndpointType
  fk_DestPort :: int64
  fk_Proto :: string
  fk_Reporter :: Reporter
  fk_Action :: FlowAction
  fk_Policies :: "PolicyHit list option"

record CalicoFlow =
  cf_Key :: "FlowKey option"
  cf_StartTime :: int64

record FlowResult =
  fr_Flow :: "CalicoFlow option"

subsection \<open>Parsing\<close>

record calicoEndpoint =
  ce_kind :: EndpointType
  ce_name :: string
  ce_namespace :: string

definition isWorkload :: "calicoEndpoint \<Rightarrow> bool" where
  "isWorkload e \<longleftrightarrow> ce_kind e = WorkloadEndpoint \<and> ce_name e \<noteq> [] \<and> ce_namespace e \<noteq> []"

definition isViolationPeer :: "calicoEndpoint \<Rightarrow> bool" where
  "isViolationPeer e \<longleftrightarrow>
     (if ce_kind e \<in> {NetworkSet, Network} then ce_name e \<noteq> [] else isWorkload e)"

definition key_source :: "FlowKey \<Rightarrow> calicoEndpoint" where
  "key_source key = \<lparr>ce_kind = fk_SourceType key, ce_name = fk_SourceName key, ce_namespace = fk_SourceNamespace key\<rparr>"

definition key_dest :: "FlowKey \<Rightarrow> calicoEndpoint" where
  "key_dest key = \<lparr>ce_kind = fk_DestType key, ce_name = fk_DestName key, ce_namespace = fk_DestNamespace key\<rparr>"

definition discardCalicoFlow :: "FlowKey option \<Rightarrow> bool" where
  "discardCalicoFlow k =
     (case k of
        None \<Rightarrow> True
      | Some key \<Rightarrow>
          let port = sint (fk_DestPort key); source = key_source key; dest = key_dest key in
          if port < minValidPort \<or> port > maxValidPort then True
          else
            (case fk_Action key of
               Allow \<Rightarrow> fk_Reporter key \<noteq> Dst \<or> \<not> isWorkload source \<or> \<not> isWorkload dest
             | Deny \<Rightarrow>
                 (case fk_Reporter key of
                    Src \<Rightarrow> \<not> isWorkload source \<or> \<not> isViolationPeer dest
                  | Dst \<Rightarrow> \<not> isWorkload dest \<or> \<not> isViolationPeer source
                  | _ \<Rightarrow> True)
             | _ \<Rightarrow> True))"

definition extractCalicoPortAndProtocol :: "FlowKey \<Rightarrow> error + (int32 \<times> Protocol)" where
  "extractCalicoPortAndProtocol key =
     (let p = to_upper (fk_Proto key);
          withPort = (\<lambda>proto. case portToInt32 (sint (fk_DestPort key)) of
                        Inl e \<Rightarrow> Inl e
                      | Inr dstPort \<Rightarrow> Inr (dstPort, proto))
      in if p = ProtocolTCP then withPort ProtocolTCP
         else if p = ProtocolUDP then withPort ProtocolUDP
         else Inl (Wrapped [] (Sentinel errUnsupportedProtocol) ('': '' @ fk_Proto key)))"

text \<open>Times are in nanoseconds since the epoch; the start time of a flow is in seconds.\<close>

definition calicoViolationTimestamp :: "time \<Rightarrow> CalicoFlow \<Rightarrow> time" where
  "calicoViolationTimestamp now flow =
     (if sint (cf_StartTime flow) > 0 then sint (cf_StartTime flow) * 10 ^ 9 else now)"

fun denying_policy :: "PolicyHit list \<Rightarrow> string \<times> string" where
  "denying_policy [] = ([], [])"
| "denying_policy (policy # policies) =
     (if ph_Action policy \<noteq> Deny then denying_policy policies
      else
        (case ph_Kind policy of
           NetworkPolicyKind \<Rightarrow>
             if ph_Name policy \<noteq> [] then (ph_Name policy, ph_Namespace policy) else denying_policy policies
         | EndOfTier \<Rightarrow>
             (case ph_Trigger policy of
                None \<Rightarrow> denying_policy policies
              | Some trigger \<Rightarrow>
                  if ph_Kind trigger = NetworkPolicyKind \<and> ph_Name trigger \<noteq> []
                  then (ph_Name trigger, ph_Namespace trigger) else denying_policy policies)
         | _ \<Rightarrow> denying_policy policies))"

definition getDenyingPolicy :: "FlowKey \<Rightarrow> string \<times> string" where
  "getDenyingPolicy key = (case fk_Policies key of None \<Rightarrow> ([], []) | Some policies \<Rightarrow> denying_policy policies)"

definition parseCalicoFlow :: "time \<Rightarrow> FlowResult option \<Rightarrow> processFlowResult" where
  "parseCalicoFlow now flowResult =
     (case flowResult of
        None \<Rightarrow> processFlowError (Plain ''found nil flow result'')
      | Some fr \<Rightarrow>
          (case fr_Flow fr of
             None \<Rightarrow> processFlowError (Plain ''found empty flow'')
           | Some flow \<Rightarrow>
               if discardCalicoFlow (cf_Key flow) then processFlowSkip
               else
                 let key = the (cf_Key flow) in
                 (case extractCalicoPortAndProtocol key of
                    Inl err \<Rightarrow>
                      if error_is err errUnsupportedProtocol then processFlowSkip else processFlowError err
                  | Inr (dstPort, proto) \<Rightarrow>
                      let source = wr_zero\<lparr>wr_Namespace := fk_SourceNamespace key, wr_OwnerName := fk_SourceName key\<rparr>;
                          dest = wr_zero\<lparr>wr_Namespace := fk_DestNamespace key, wr_OwnerName := fk_DestName key\<rparr>;
                          denying = getDenyingPolicy key;
                          violation = (\<lambda>direction. processFlowRecordViolation
                            \<lparr>obs_Info =
                               \<lparr>Timestamp = calicoViolationTimestamp now flow, vi_Source = source, Dest = dest,
                                vi_Protocol = proto, DstPort = dstPort, Action = WorkloadNetworkPolicyModeProtect,
                                DenyingPolicyNamespace = snd denying, DenyingPolicyName = fst denying\<rparr>,
                             Provider = PolicyBackendKubernetes, obs_Direction = direction\<rparr>)
                      in if fk_Action key = Deny then
                           (case fk_Reporter key of
                              Src \<Rightarrow> violation PolicyTypeEgress
                            | Dst \<Rightarrow> violation PolicyTypeIngress
                            | _ \<Rightarrow> processFlowError (Plain ''found violation flow with unknown reporter''))
                         else processFlowEnqueue
                           \<lparr>le_Source = Some source, le_Dest = Some dest, le_DstPort = dstPort, le_Protocol = proto,
                            le_Backend = PolicyBackendKubernetes\<rparr>)))"

subsection \<open>Resolution\<close>

definition calico_resolvePod :: "helpers \<Rightarrow> 'w client \<Rightarrow> 'w \<Rightarrow> string \<Rightarrow> string \<Rightarrow> error + WorkloadRef" where
  "calico_resolvePod h c w ns ownerName =
     (let generateName = ownerName @ ''-'' in
      case listPods c w ns of
        Inl e \<Rightarrow> Inl e
      | Inr pods \<Rightarrow>
          (case find (\<lambda>pod. om_GenerateName (pod_Meta pod) = generateName \<or> has_prefix (om_Name (pod_Meta pod)) generateName) pods of
             None \<Rightarrow> Inr wr_zero
           | Some pod \<Rightarrow> Get h c w (meta_key (pod_Meta pod))))"

definition calico_resolve :: "helpers \<Rightarrow> 'w client \<Rightarrow> 'w \<Rightarrow> WorkloadRef \<Rightarrow> error + WorkloadRef" where
  "calico_resolve h c w ref =
     (case cut_suffix (wr_OwnerName ref) ''-*'' of (ownerName, ok) \<Rightarrow>
        if \<not> ok \<or> ownerName = [] then Inl (Sentinel errSkipWorkload)
        else
          (case calico_resolvePod h c w (wr_Namespace ref) ownerName of
             Inl e \<Rightarrow> Inl e
           | Inr resolved \<Rightarrow> if \<not> IsSupported resolved then Inl (Sentinel errSkipWorkload) else Inr resolved))"

definition calico_stream ::
    "helpers \<Rightarrow> 'w client \<Rightarrow> time \<Rightarrow> FlowResult option flow_codec \<Rightarrow> 'w Scraper \<Rightarrow> FlowResult option list \<Rightarrow> 'w Scraper option" where
  "calico_stream h c now codec =
     stream_loop codec (\<lambda>w msg. resolveParsedFlow (calico_resolve h c w) c w (parseCalicoFlow now msg))"

section \<open>Lemmas\<close>

lemma discardCalicoFlow_port:
  "\<not> discardCalicoFlow (Some key) \<Longrightarrow> 1 \<le> sint (fk_DestPort key) \<and> sint (fk_DestPort key) \<le> 65535"
  by (simp add: discardCalicoFlow_def Let_def minValidPort_def maxValidPort_def split: if_splits)

text \<open>The conversion that the source calls an extra safety net: after the discard test the only error
  left is the unsupported protocol.\<close>

lemma extract_after_discard:
  assumes "\<not> discardCalicoFlow (Some key)"
  shows "extractCalicoPortAndProtocol key =
    (if to_upper (fk_Proto key) \<in> {ProtocolTCP, ProtocolUDP}
     then Inr (word_of_int (sint (fk_DestPort key)), to_upper (fk_Proto key))
     else Inl (Wrapped [] (Sentinel errUnsupportedProtocol) ('': '' @ fk_Proto key)))"
  using discardCalicoFlow_port [OF assms]
  by (auto simp: extractCalicoPortAndProtocol_def Let_def portToInt32_def maxValidPort_def)

lemma sint_of_sint_port: "1 \<le> sint (x :: int64) \<Longrightarrow> sint x \<le> 65535 \<Longrightarrow> sint (scast x :: int32) = sint x"
  using sint_port [of "sint x"] by simp

lemma parseCalicoFlow_both_ends: "both_ends (parseCalicoFlow now m)"
  by (auto simp: parseCalicoFlow_def both_ends_def Let_def split: option.splits sum.splits Reporter.splits)

lemma calico_resolve_ok: "calico_resolve h c w r = Inr r' \<Longrightarrow> resolved_ok h c w r'"
  by (auto simp: calico_resolve_def calico_resolvePod_def Let_def IsSupported_def wr_zero_def
      intro: get_ok split: prod.splits if_splits sum.splits option.splits)

interpretation calico: flow_processor h c
  "\<lambda>w msg. resolveParsedFlow (calico_resolve h c w) c w (parseCalicoFlow now msg)" for h c now
  by unfold_locales (rule resolveParsedFlow_ok [OF parseCalicoFlow_both_ends calico_resolve_ok])

section \<open>Properties\<close>

definition port_and_proto_ok :: "FlowKey \<Rightarrow> bool" where
  "port_and_proto_ok key \<longleftrightarrow> 1 \<le> sint (fk_DestPort key) \<and> sint (fk_DestPort key) \<le> 65535 \<and>
     to_upper (fk_Proto key) \<in> {''TCP'', ''UDP''}"

text \<open>C36. What the parser makes of a Goldmane flow, on every branch. A missing message is the only error. A flow
  is learned exactly when it is an allowed TCP or UDP flow with a valid port between two workloads,
  reported at its destination. It is a violation exactly when it is a denied flow with a valid port
  and protocol whose reporting side is a workload and whose other side is a workload or an
  off-cluster address; the direction is egress when the source reports it. Every other flow is
  skipped.\<close>

theorem parseCalicoFlow_classifies:
  assumes "r = parseCalicoFlow now (Some \<lparr>fr_Flow = Some \<lparr>cf_Key = Some key, cf_StartTime = t\<rparr>\<rparr>)"
  shows "(\<forall>e. r \<noteq> processFlowError e) \<and>
    ((\<exists>ev. r = processFlowEnqueue ev) \<longleftrightarrow>
       port_and_proto_ok key \<and> fk_Action key = Allow \<and> fk_Reporter key = Dst \<and>
       isWorkload (key_source key) \<and> isWorkload (key_dest key)) \<and>
    ((\<exists>ob. r = processFlowRecordViolation ob) \<longleftrightarrow>
       port_and_proto_ok key \<and> fk_Action key = Deny \<and>
       ((fk_Reporter key = Src \<and> isWorkload (key_source key) \<and> isViolationPeer (key_dest key)) \<or>
        (fk_Reporter key = Dst \<and> isWorkload (key_dest key) \<and> isViolationPeer (key_source key)))) \<and>
    (\<forall>ob. r = processFlowRecordViolation ob \<longrightarrow>
       sint (DstPort (obs_Info ob)) = sint (fk_DestPort key) \<and>
       obs_Direction ob = (if fk_Reporter key = Src then PolicyTypeEgress else PolicyTypeIngress))"
proof (cases "discardCalicoFlow (Some key)")
  case True
  then have "r = processFlowSkip" by (simp add: assms parseCalicoFlow_def)
  with True show ?thesis
    by (auto simp: discardCalicoFlow_def Let_def minValidPort_def maxValidPort_def port_and_proto_ok_def
        split: if_splits FlowAction.splits Reporter.splits)
next
  case False
  note port = discardCalicoFlow_port [OF False]
  show ?thesis
  proof (cases "to_upper (fk_Proto key) \<in> {ProtocolTCP, ProtocolUDP}")
    case nope: False
    then have "r = processFlowSkip" using False by (simp add: assms parseCalicoFlow_def extract_after_discard)
    with nope show ?thesis by (simp add: port_and_proto_ok_def)
  next
    case ok: True
    with port have pp: "port_and_proto_ok key" by (simp add: port_and_proto_ok_def)
    from False consider
        (allow) "fk_Action key = Allow" "fk_Reporter key = Dst" "isWorkload (key_source key)" "isWorkload (key_dest key)"
      | (out) "fk_Action key = Deny" "fk_Reporter key = Src" "isWorkload (key_source key)" "isViolationPeer (key_dest key)"
      | (inc) "fk_Action key = Deny" "fk_Reporter key = Dst" "isWorkload (key_dest key)" "isViolationPeer (key_source key)"
      by (auto simp: discardCalicoFlow_def Let_def split: if_splits FlowAction.splits Reporter.splits)
    then show ?thesis
      using False ok pp port
      by cases (auto simp: assms parseCalicoFlow_def extract_after_discard Let_def sint_of_sint_port)
  qed
qed

theorem parseCalicoFlow_classifies_witness:
  "\<exists>ob. parseCalicoFlow 0 (Some \<lparr>fr_Flow = Some \<lparr>cf_Key = Some
     \<lparr>fk_SourceName = ''web-abc-*'', fk_SourceNamespace = ''ns'', fk_SourceType = WorkloadEndpoint,
      fk_DestName = ''pub'', fk_DestNamespace = [], fk_DestType = Network, fk_DestPort = 443, fk_Proto = ''tcp'',
      fk_Reporter = Src, fk_Action = Deny, fk_Policies = None\<rparr>, cf_StartTime = 7\<rparr>\<rparr>) = processFlowRecordViolation ob \<and>
     obs_Direction ob = ''Egress''"
proof -
  let ?key = "\<lparr>fk_SourceName = ''web-abc-*'', fk_SourceNamespace = ''ns'', fk_SourceType = WorkloadEndpoint,
      fk_DestName = ''pub'', fk_DestNamespace = [], fk_DestType = Network, fk_DestPort = 443, fk_Proto = ''tcp'',
      fk_Reporter = Src, fk_Action = Deny, fk_Policies = None\<rparr>"
  have up: "to_upper ''tcp'' = ''TCP''" by code_simp
  have "port_and_proto_ok ?key" by (simp add: port_and_proto_ok_def up)
  moreover have "isWorkload (key_source ?key)" "isViolationPeer (key_dest ?key)"
    by (simp_all add: isWorkload_def isViolationPeer_def key_source_def key_dest_def)
  ultimately show ?thesis
    using parseCalicoFlow_classifies [OF refl, of 0 ?key 7] by auto
qed

end
