(* ===== verification/CiliumScraper.thy ===== *)
theory CiliumScraper
  imports FlowParser
begin

text \<open>
  The Cilium scraper, \<^verbatim>\<open>internal/scraper/cilium_flow_parser.go\<close> and the receive loop of
  \<^verbatim>\<open>cilium_scraper.go\<close>. The Hubble messages have the fields that are read; enumerations have their
  unnamed values too. A pointer that the code dereferences is an \<open>option\<close>, and dereferencing nil is
  \<open>None\<close>. How \<open>%v\<close> prints a list of workloads is not modelled.
\<close>

section \<open>Model\<close>

subsection \<open>Hubble messages\<close>

record CiliumEndpoint =
  ep_Namespace :: string
  ep_PodName :: string
  ep_Workloads :: "(string \<times> string) list"

text \<open>The oneof of the transport layer, with the destination port; any other protocol has the name of
  its Go type.\<close>

datatype Layer4 = Layer4_TCP "32 word" | Layer4_UDP "32 word" | Layer4_Other string

datatype Verdict = DROPPED | VerdictOther int
datatype DropReason = POLICY_DENIED | POLICY_DENY | DropReasonOther int
datatype TrafficDirection = TRAFFIC_DIRECTION_UNKNOWN | INGRESS | EGRESS | TrafficDirectionOther int

record CiliumFlow =
  hf_IsReply :: "bool option"
  hf_L4 :: "Layer4 option"
  hf_Source :: "CiliumEndpoint option"
  hf_Destination :: "CiliumEndpoint option"
  hf_Verdict :: Verdict
  hf_DropReasonDesc :: DropReason
  hf_TrafficDirection :: TrafficDirection
  hf_IP_Source :: string
  hf_IP_Destination :: string
  hf_Time :: "time option"

datatype GetFlowsResponse =
    GetFlowsResponse_Flow "CiliumFlow option"
  | GetFlowsResponse_LostEvents "int option"
  | GetFlowsResponse_NodeStatus
  | GetFlowsResponse_Other

subsection \<open>Endpoints\<close>

definition convertCiliumKindToSecurityWorkloadKind :: "string \<Rightarrow> WorkloadKind" where
  "convertCiliumKindToSecurityWorkloadKind kind = kind"

definition handleNoWorkload :: "CiliumEndpoint \<Rightarrow> error + WorkloadRef" where
  "handleNoWorkload endpoint =
     (if ep_PodName endpoint \<noteq> [] then
        Inr (wr_zero\<lparr>wr_Namespace := ep_Namespace endpoint, wr_OwnerName := ep_PodName endpoint,
               wr_OwnerKind := WorkloadKindPod\<rparr>)
      else Inl (Sentinel errEndpointHasNoWorkload))"

definition fromEndpointToWorkloadRef :: "CiliumEndpoint option \<Rightarrow> error + WorkloadRef" where
  "fromEndpointToWorkloadRef e =
     (case e of
        None \<Rightarrow> Inl (Plain ''endpoint is nil'')
      | Some endpoint \<Rightarrow>
          (case ep_Workloads endpoint of
             [] \<Rightarrow> handleNoWorkload endpoint
           | [(name, kind)] \<Rightarrow>
               Inr (wr_zero\<lparr>wr_Namespace := ep_Namespace endpoint, wr_OwnerName := name,
                      wr_OwnerKind := convertCiliumKindToSecurityWorkloadKind kind\<rparr>)
           | _ \<Rightarrow> Inl (Plain (''endpoint should have only one workload, got '' @
                        fmt_nat (length (ep_Workloads endpoint))))))"

definition shouldSkipWorkload :: "WorkloadRef \<Rightarrow> bool" where
  "shouldSkipWorkload ref \<longleftrightarrow> \<not> IsSupported ref \<and> wr_OwnerKind ref \<noteq> WorkloadKindPod"

definition ciliumWorkloadRef :: "CiliumEndpoint option \<Rightarrow> error + (WorkloadRef option \<times> bool)" where
  "ciliumWorkloadRef endpoint =
     (case fromEndpointToWorkloadRef endpoint of
        Inl err \<Rightarrow> if error_is err errEndpointHasNoWorkload then Inr (None, True) else Inl err
      | Inr ref \<Rightarrow> Inr (Some ref, shouldSkipWorkload ref))"

definition ciliumViolationEndpoints ::
    "CiliumFlow \<Rightarrow> PolicyType \<Rightarrow> WorkloadRef option \<Rightarrow> bool \<Rightarrow> WorkloadRef option \<Rightarrow> bool \<Rightarrow>
     WorkloadRef option \<times> WorkloadRef option \<times> bool" where
  "ciliumViolationEndpoints flow direction source skipSource dest skipDest =
     (if direction = PolicyTypeEgress then
        (source, (case dest of None \<Rightarrow> Some (wr_zero\<lparr>wr_OwnerName := hf_IP_Destination flow\<rparr>) | Some d \<Rightarrow> Some d), \<not> skipSource)
      else
        ((case source of None \<Rightarrow> Some (wr_zero\<lparr>wr_OwnerName := hf_IP_Source flow\<rparr>) | Some s \<Rightarrow> Some s), dest, \<not> skipDest))"

subsection \<open>Parsing\<close>

definition discardFlow :: "CiliumFlow \<Rightarrow> bool" where
  "discardFlow flow \<longleftrightarrow> hf_IsReply flow = Some True"

definition violationTimestamp :: "time \<Rightarrow> CiliumFlow \<Rightarrow> time" where
  "violationTimestamp now flow = (case hf_Time flow of Some ts \<Rightarrow> ts | None \<Rightarrow> now)"

definition extractPortAndProtocol :: "CiliumFlow \<Rightarrow> error + (int32 \<times> Protocol)" where
  "extractPortAndProtocol flow =
     (let withPort = (\<lambda>rawPort proto. case portToInt32 (uint rawPort) of
                        Inl e \<Rightarrow> Inl e | Inr dstPort \<Rightarrow> Inr (dstPort, proto))
      in case hf_L4 flow of
           None \<Rightarrow> Inl (Plain ''found flow with nil layer4'')
         | Some (Layer4_TCP p) \<Rightarrow> withPort p ProtocolTCP
         | Some (Layer4_UDP p) \<Rightarrow> withPort p ProtocolUDP
         | Some (Layer4_Other t) \<Rightarrow> Inl (Wrapped [] (Sentinel errUnsupportedProtocol) ('': '' @ t)))"

definition violation_direction :: "TrafficDirection \<Rightarrow> error + PolicyType" where
  "violation_direction d =
     (case d of
        TRAFFIC_DIRECTION_UNKNOWN \<Rightarrow> Inl (Plain ''found violation flow with unknown traffic direction'')
      | INGRESS \<Rightarrow> Inr PolicyTypeIngress
      | EGRESS \<Rightarrow> Inr PolicyTypeEgress
      | TrafficDirectionOther _ \<Rightarrow> Inr [])"

definition dropped_flow ::
    "time \<Rightarrow> CiliumFlow \<Rightarrow> int32 \<Rightarrow> Protocol \<Rightarrow> WorkloadRef option \<Rightarrow> bool \<Rightarrow> WorkloadRef option \<Rightarrow> bool \<Rightarrow> processFlowResult option" where
  "dropped_flow now flow dstPort proto sourceWorkload skipSource destWorkload skipDest =
     (if hf_DropReasonDesc flow \<noteq> POLICY_DENIED \<and> hf_DropReasonDesc flow \<noteq> POLICY_DENY then Some processFlowSkip
      else
        (case violation_direction (hf_TrafficDirection flow) of
           Inl e \<Rightarrow> Some (processFlowError e)
         | Inr direction \<Rightarrow>
             (case ciliumViolationEndpoints flow direction sourceWorkload skipSource destWorkload skipDest of
                (source, dest, ok) \<Rightarrow>
                  if \<not> ok then Some processFlowSkip
                  else
                    (case (source, dest) of
                       (Some s, Some d) \<Rightarrow>
                         Some (processFlowRecordViolation
                           \<lparr>obs_Info =
                              \<lparr>Timestamp = violationTimestamp now flow, vi_Source = s, Dest = d, vi_Protocol = proto,
                               DstPort = dstPort, Action = WorkloadNetworkPolicyModeProtect,
                               DenyingPolicyNamespace = [], DenyingPolicyName = []\<rparr>,
                            Provider = PolicyBackendKubernetes, obs_Direction = direction\<rparr>)
                     | _ \<Rightarrow> None))))"

definition parseCiliumFlowResponse :: "time \<Rightarrow> CiliumFlow \<Rightarrow> processFlowResult option" where
  "parseCiliumFlowResponse now flow =
     (if discardFlow flow then Some processFlowSkip
      else
        (case extractPortAndProtocol flow of
           Inl err \<Rightarrow> Some (if error_is err errUnsupportedProtocol then processFlowSkip else processFlowError err)
         | Inr (dstPort, proto) \<Rightarrow>
             (case ciliumWorkloadRef (hf_Source flow) of
                Inl err \<Rightarrow> Some (processFlowError (wrap ''cannot get source workload'' err))
              | Inr (sourceWorkload, skipSource) \<Rightarrow>
                  (case ciliumWorkloadRef (hf_Destination flow) of
                     Inl err \<Rightarrow> Some (processFlowError (wrap ''cannot get destination workload'' err))
                   | Inr (destWorkload, skipDest) \<Rightarrow>
                       if hf_Verdict flow = DROPPED then
                         dropped_flow now flow dstPort proto sourceWorkload skipSource destWorkload skipDest
                       else if skipSource \<or> skipDest then Some processFlowSkip
                       else Some (processFlowEnqueue
                         \<lparr>le_Source = sourceWorkload, le_Dest = destWorkload, le_DstPort = dstPort,
                          le_Protocol = proto, le_Backend = PolicyBackendKubernetes\<rparr>)))))"

subsection \<open>Resolution and the loop\<close>

definition cilium_resolvePod :: "helpers \<Rightarrow> 'w client \<Rightarrow> 'w \<Rightarrow> WorkloadRef \<Rightarrow> error + WorkloadRef" where
  "cilium_resolvePod h c w ref =
     (case Get h c w \<lparr>nn_Namespace = wr_Namespace ref, nn_Name = wr_OwnerName ref\<rparr> of
        Inl e \<Rightarrow> Inl (Wrapped (''failed to resolve pod '' @ [CHR 0x22] @ wr_OwnerName ref @ [CHR 0x22] @ '' to workload: '') e [])
      | Inr resolved \<Rightarrow> if \<not> IsSupported resolved then Inl (Sentinel errSkipWorkload) else Inr resolved)"

definition cilium_resolve :: "helpers \<Rightarrow> 'w client \<Rightarrow> 'w \<Rightarrow> WorkloadRef \<Rightarrow> error + WorkloadRef" where
  "cilium_resolve h c w ref =
     (if wr_OwnerKind ref = WorkloadKindPod then cilium_resolvePod h c w ref else completeSelector h c w ref)"

definition cilium_processFlow ::
    "helpers \<Rightarrow> 'w client \<Rightarrow> time \<Rightarrow> 'w \<Rightarrow> GetFlowsResponse option \<Rightarrow> processFlowResult option" where
  "cilium_processFlow h c now w flow =
     (case flow of
        None \<Rightarrow> Some (processFlowError (Plain ''found nil flow''))
      | Some (GetFlowsResponse_Flow None) \<Rightarrow> Some (processFlowError (Plain ''found nil response flow''))
      | Some (GetFlowsResponse_Flow (Some flowResponse)) \<Rightarrow>
          (case parseCiliumFlowResponse now flowResponse of
             None \<Rightarrow> None
           | Some parsed \<Rightarrow> resolveParsedFlow (cilium_resolve h c w) c w parsed)
      | Some (GetFlowsResponse_LostEvents None) \<Rightarrow> Some (processFlowError (Plain ''found nil flow lost event''))
      | Some (GetFlowsResponse_LostEvents (Some _)) \<Rightarrow> Some processFlowSkip
      | Some GetFlowsResponse_NodeStatus \<Rightarrow> Some processFlowSkip
      | Some GetFlowsResponse_Other \<Rightarrow> Some processFlowSkip)"

definition cilium_stream ::
    "helpers \<Rightarrow> 'w client \<Rightarrow> time \<Rightarrow> GetFlowsResponse option flow_codec \<Rightarrow> 'w Scraper \<Rightarrow>
     GetFlowsResponse option list \<Rightarrow> 'w Scraper option" where
  "cilium_stream h c now codec = stream_loop codec (cilium_processFlow h c now)"

section \<open>Lemmas\<close>

text \<open>Only a skipped endpoint has no reference, and one that is kept is supported or a pod.\<close>

lemma ciliumWorkloadRef_kept:
  "ciliumWorkloadRef e = Inr (r, False) \<Longrightarrow> \<exists>ref. r = Some ref \<and> \<not> shouldSkipWorkload ref"
  by (auto simp: ciliumWorkloadRef_def split: sum.splits if_splits)

lemma dropped_flow_total:
  assumes "sourceWorkload \<noteq> None \<or> skipSource" and "destWorkload \<noteq> None \<or> skipDest"
  shows "\<exists>r. dropped_flow now flow port proto sourceWorkload skipSource destWorkload skipDest = Some r \<and> both_ends r"
  using assms
  by (auto simp: dropped_flow_def ciliumViolationEndpoints_def both_ends_def
      split: sum.splits option.splits if_splits prod.splits)

lemma ciliumWorkloadRef_None: "ciliumWorkloadRef e = Inr (r, s) \<Longrightarrow> r \<noteq> None \<or> s"
  by (auto simp: ciliumWorkloadRef_def split: sum.splits if_splits)

lemma parseCiliumFlowResponse_total: "\<exists>r. parseCiliumFlowResponse now flow = Some r \<and> both_ends r"
proof -
  have "\<exists>r. dropped_flow now flow port proto s ss d sd = Some r \<and> both_ends r"
    if "ciliumWorkloadRef (hf_Source flow) = Inr (s, ss)" "ciliumWorkloadRef (hf_Destination flow) = Inr (d, sd)" for port proto s ss d sd
    using dropped_flow_total ciliumWorkloadRef_None that by metis
  then show ?thesis
    by (auto simp: parseCiliumFlowResponse_def both_ends_def split: sum.splits prod.splits dest: ciliumWorkloadRef_kept)
qed

lemma cilium_resolve_ok: "cilium_resolve h c w r = Inr r' \<Longrightarrow> resolved_ok h c w r'"
  by (auto simp: cilium_resolve_def cilium_resolvePod_def completeSelector_def
      intro: get_ok lookup_selector_ok split: sum.splits if_splits)

interpretation cilium: flow_processor h c "cilium_processFlow h c now" for h c now
proof
  fix w m
  have resolved: "\<exists>r. resolveParsedFlow (cilium_resolve h c w) c w p = Some r \<and>
      (\<forall>ev. r = processFlowEnqueue ev \<longrightarrow> learned_ok h c w ev)" if "both_ends p" for p
    using that by (rule resolveParsedFlow_ok) (rule cilium_resolve_ok)
  have "\<exists>r. cilium_processFlow h c now w (Some (GetFlowsResponse_Flow (Some f))) = Some r \<and>
      (\<forall>ev. r = processFlowEnqueue ev \<longrightarrow> learned_ok h c w ev)" for f
  proof -
    from parseCiliumFlowResponse_total [of now f] obtain p where "parseCiliumFlowResponse now f = Some p" "both_ends p" by blast
    with resolved [of p] show ?thesis by (simp add: cilium_processFlow_def)
  qed
  then show "\<exists>r. cilium_processFlow h c now w m = Some r \<and> (\<forall>ev. r = processFlowEnqueue ev \<longrightarrow> learned_ok h c w ev)"
    by (cases m rule: option.exhaust; simp add: cilium_processFlow_def split: GetFlowsResponse.splits option.splits)
qed

lemma extractPortAndProtocol_ok:
  "extractPortAndProtocol flow = Inr (p, q) \<Longrightarrow> q \<in> {''TCP'', ''UDP''} \<and> 0 \<le> sint p \<and> sint p \<le> 65535"
  by (auto simp: extractPortAndProtocol_def Let_def dest!: portToInt32_Inr split: option.splits Layer4.splits sum.splits)

lemma ciliumWorkloadRef_skip: "ciliumWorkloadRef e = Inr (Some ref, s) \<Longrightarrow> s = shouldSkipWorkload ref"
  by (auto simp: ciliumWorkloadRef_def split: sum.splits if_splits)

lemma dropped_flow_sound:
  assumes "ciliumWorkloadRef e1 = Inr (s, ss)" and "ciliumWorkloadRef e2 = Inr (d, sd)"
    and "dropped_flow now flow port proto s ss d sd = Some r"
  shows "case r of
      processFlowEnqueue ev \<Rightarrow> False
    | processFlowRecordViolation ob \<Rightarrow>
        hf_DropReasonDesc flow \<in> {POLICY_DENIED, POLICY_DENY} \<and> hf_TrafficDirection flow \<noteq> TRAFFIC_DIRECTION_UNKNOWN \<and>
        \<not> shouldSkipWorkload (if obs_Direction ob = PolicyTypeEgress then vi_Source (obs_Info ob) else Dest (obs_Info ob)) \<and>
        DenyingPolicyName (obs_Info ob) = []
    | _ \<Rightarrow> True"
proof -
  note skip = ciliumWorkloadRef_skip [of e1 _ ss] ciliumWorkloadRef_skip [of e2 _ sd]
  from assms skip show ?thesis
    by (auto simp: dropped_flow_def ciliumViolationEndpoints_def violation_direction_def
        split: if_splits sum.splits option.splits TrafficDirection.splits)
qed

section \<open>Properties\<close>

text \<open>C37. The parser never dereferences a missing endpoint, and classifies soundly: a flow is learned only if it
  is no reply, was not dropped and both ends are supported workloads or pods; a violation is recorded
  only for a flow dropped by a policy in a known direction, with a supported workload or a pod as
  its subject, and names no denying policy, since Hubble reports none.\<close>

theorem parseCiliumFlowResponse_sound:
  "\<exists>r. parseCiliumFlowResponse now flow = Some r \<and>
     (case r of
        processFlowEnqueue ev \<Rightarrow>
          hf_IsReply flow \<noteq> Some True \<and> hf_Verdict flow \<noteq> DROPPED \<and>
          (\<exists>s d. le_Source ev = Some s \<and> le_Dest ev = Some d \<and> \<not> shouldSkipWorkload s \<and> \<not> shouldSkipWorkload d) \<and>
          le_Protocol ev \<in> {''TCP'', ''UDP''} \<and> 0 \<le> sint (le_DstPort ev) \<and> sint (le_DstPort ev) \<le> 65535
      | processFlowRecordViolation ob \<Rightarrow>
          hf_Verdict flow = DROPPED \<and> hf_DropReasonDesc flow \<in> {POLICY_DENIED, POLICY_DENY} \<and>
          hf_TrafficDirection flow \<noteq> TRAFFIC_DIRECTION_UNKNOWN \<and>
          \<not> shouldSkipWorkload (if obs_Direction ob = PolicyTypeEgress then vi_Source (obs_Info ob) else Dest (obs_Info ob)) \<and>
          DenyingPolicyName (obs_Info ob) = []
      | _ \<Rightarrow> True)"
proof -
  obtain r where r: "parseCiliumFlowResponse now flow = Some r" using parseCiliumFlowResponse_total by blast
  from r show ?thesis
    by (intro exI [of _ r])
      (auto simp: parseCiliumFlowResponse_def discardFlow_def dest!: extractPortAndProtocol_ok ciliumWorkloadRef_kept dest: dropped_flow_sound
        split: sum.splits prod.splits if_splits processFlowResult.splits)
qed

end
