(* ===== verification/IstioScraper.thy ===== *)
theory IstioScraper
  imports FlowParser
begin

text \<open>
  The Istio side of the scrapers: \<^verbatim>\<open>internal/scraper/istio_scraper.go\<close>, which receives OTLP log records
  from the watchers and turns them into learning events and violation observations, and
  \<^verbatim>\<open>internal/istio\<close>, which resolves the addresses in an observation to workloads.

  The OTLP messages have the fields that are read; a double is the text that \<open>strconv.FormatFloat\<close>
  gives. The gRPC server around \<open>Export\<close> is not modelled. The pod index by IP is a field index of
  the client.
\<close>

section \<open>Model\<close>

subsection \<open>Enrichment (internal/istio)\<close>

definition PodIPIndexField :: string where
  "PodIPIndexField = ''status.podIP''"

definition IndexPodByIP :: "Pod \<Rightarrow> string list" where
  "IndexPodByIP pod = (if pod_IP pod = [] then [] else [pod_IP pod])"

text \<open>An enricher whose client may be nil; the pointer to it may be nil too.\<close>

record 'w Enricher =
  en_client :: "'w client option"

definition peerIPFromAddr :: "string \<Rightarrow> error + string" where
  "peerIPFromAddr addr =
     (case split_host_port addr of
        None \<Rightarrow> Inl (wrap (''parsing source peer address '' @ [CHR 0x22] @ addr @ [CHR 0x22]) (Plain ''net.SplitHostPort''))
      | Some (host, _) \<Rightarrow> Inr host)"

definition workloadRefFromPod :: "helpers \<Rightarrow> Pod \<Rightarrow> WorkloadRef" where
  "workloadRefFromPod h pod = SetIdentity (GetNameAndKind h pod) (pod_ServiceAccountName pod)"

definition resolveSourceWorkload :: "helpers \<Rightarrow> 'w client \<Rightarrow> 'w \<Rightarrow> Observation \<Rightarrow> error + WorkloadRef" where
  "resolveSourceWorkload h c w obs =
     (case peerIPFromAddr (wr_OwnerName (vi_Source (obs_Info obs))) of
        Inl e \<Rightarrow> Inl e
      | Inr peerIP \<Rightarrow>
          (case listPodsByField c w PodIPIndexField peerIP of
             Inl e \<Rightarrow> Inl (wrap (''listing pods for source peer IP '' @ peerIP) e)
           | Inr items \<Rightarrow>
               (case items of
                  [pod] \<Rightarrow> Inr (workloadRefFromPod h pod)
                | [] \<Rightarrow> Inl (Plain (''no pod found for source peer IP '' @ peerIP))
                | _ \<Rightarrow> Inl (Plain (fmt_nat (length items) @ '' pods found for source peer IP '' @ peerIP)))))"

definition resolveDestWorkload :: "'w client \<Rightarrow> 'w \<Rightarrow> Observation \<Rightarrow> error + Pod" where
  "resolveDestWorkload c w obs =
     (let dstNamespace = wr_Namespace (Dest (obs_Info obs)); dstPod = wr_OwnerName (Dest (obs_Info obs)) in
      if dstNamespace = [] \<or> dstPod = [] then Inl (Plain ''observation has no destination pod to resolve'')
      else
        (case getPod c w \<lparr>nn_Namespace = dstNamespace, nn_Name = dstPod\<rparr> of
           Inl e \<Rightarrow> Inl (wrap (''fetching destination pod '' @ dstNamespace @ ''/'' @ dstPod) e)
         | Inr pod \<Rightarrow> Inr pod))"

definition enrich_source :: "helpers \<Rightarrow> 'w client \<Rightarrow> 'w \<Rightarrow> Observation \<Rightarrow> Observation" where
  "enrich_source h c w obs =
     (case resolveSourceWorkload h c w obs of
        Inl _ \<Rightarrow> obs
      | Inr src \<Rightarrow> obs\<lparr>obs_Info := (obs_Info obs)\<lparr>vi_Source := src\<rparr>\<rparr>)"

definition enrich_dest :: "helpers \<Rightarrow> 'w client \<Rightarrow> 'w \<Rightarrow> Observation \<Rightarrow> Observation" where
  "enrich_dest h c w obs =
     (case resolveDestWorkload c w obs of
        Inl _ \<Rightarrow> obs
      | Inr dstPod \<Rightarrow>
          let dest = workloadRefFromPod h dstPod;
              obs = obs\<lparr>obs_Info := (obs_Info obs)\<lparr>Dest := dest\<rparr>\<rparr>
          in if DenyingPolicyName (obs_Info obs) = [] then
               (case ResolveDenyingPolicy c w dest PolicyTypeIngress of
                  Inl _ \<Rightarrow> obs
                | Inr owner \<Rightarrow>
                    if nn_Name owner \<noteq> [] then
                      obs\<lparr>obs_Info := (obs_Info obs)\<lparr>DenyingPolicyNamespace := nn_Namespace owner,
                                                      DenyingPolicyName := nn_Name owner\<rparr>\<rparr>
                    else obs)
             else obs)"

definition Enrich :: "helpers \<Rightarrow> 'w Enricher option \<Rightarrow> 'w \<Rightarrow> Observation \<Rightarrow> Observation" where
  "Enrich h e w obs =
     (case e of
        None \<Rightarrow> obs
      | Some en \<Rightarrow>
          (case en_client en of None \<Rightarrow> obs | Some c \<Rightarrow> enrich_dest h c w (enrich_source h c w obs)))"

text \<open>\<open>Enricher.GetWorkloadRef\<close>; calling through a nil client panics.\<close>

definition GetWorkloadRef :: "helpers \<Rightarrow> 'w Enricher \<Rightarrow> 'w \<Rightarrow> NamespacedName \<Rightarrow> (error + WorkloadRef) option" where
  "GetWorkloadRef h e w k = (case en_client e of None \<Rightarrow> None | Some c \<Rightarrow> Some (Get h c w k))"

subsection \<open>OTLP attributes\<close>

datatype AnyValue =
    AnyValue_StringValue string
  | AnyValue_IntValue int64
  | AnyValue_DoubleValue string
  | AnyValue_BoolValue bool
  | AnyValue_Other

record LogRecord =
  log_TimeUnixNano :: "64 word"
  log_Attributes :: "(string \<times> AnyValue option) list"

record ResourceLogs =
  rl_Attributes :: "(string \<times> AnyValue option) list"
  rl_ScopeLogs :: "LogRecord list list"

definition anyValueToString :: "AnyValue option \<Rightarrow> string" where
  "anyValueToString v =
     (case v of
        None \<Rightarrow> []
      | Some (AnyValue_StringValue s) \<Rightarrow> s
      | Some (AnyValue_IntValue i) \<Rightarrow> fmt_int (sint i)
      | Some (AnyValue_DoubleValue s) \<Rightarrow> s
      | Some (AnyValue_BoolValue b) \<Rightarrow> if b then ''true'' else ''false''
      | Some AnyValue_Other \<Rightarrow> [])"

definition attrMap :: "(string \<times> AnyValue option) list \<Rightarrow> strmap" where
  "attrMap attrs =
     foldl (\<lambda>m (k, v). if anyValueToString v = [] then m else AList.update k (anyValueToString v) m) [] attrs"

definition mergeAttrMaps :: "strmap \<Rightarrow> strmap \<Rightarrow> strmap" where
  "mergeAttrMaps base override =
     foldl (\<lambda>m (k, v). AList.update k v m) (foldl (\<lambda>m (k, v). AList.update k v m) [] base) override"

definition eventTypeKey :: string where "eventTypeKey = ''evt.type''"
definition srcIdentityKey :: string where "srcIdentityKey = ''src.identity''"
definition dstNamespaceKey :: string where "dstNamespaceKey = ''dst.namespace''"
definition dstNameKey :: string where "dstNameKey = ''dst.name''"
definition dstPortKey :: string where "dstPortKey = ''dst.port''"
definition policyKey :: string where "policyKey = ''policy''"
definition dstNamespacedNameKey :: string where "dstNamespacedNameKey = ''dst.namespaced_name''"
definition srcAddrKey :: string where "srcAddrKey = ''src.addr''"
definition spiffeURIPrefix :: string where "spiffeURIPrefix = ''spiffe://''"

definition EventTypeLearn :: string where "EventTypeLearn = ''learn''"
definition EventTypeMonitor :: string where "EventTypeMonitor = ''monitor''"
definition EventTypeProtect :: string where "EventTypeProtect = ''protect''"

lemmas istio_key_defs =
  eventTypeKey_def srcIdentityKey_def dstNamespaceKey_def dstNameKey_def dstPortKey_def policyKey_def
  dstNamespacedNameKey_def srcAddrKey_def spiffeURIPrefix_def EventTypeLearn_def EventTypeMonitor_def EventTypeProtect_def

subsection \<open>Learning and policy events\<close>

definition splitNamespacedName :: "string \<Rightarrow> string \<times> string" where
  "splitNamespacedName namespacedName =
     (case str_cut CHR ''/'' namespacedName of (ns, name, found) \<Rightarrow>
        if \<not> found then ([], namespacedName) else (ns, name))"

definition timestampFromRecord :: "time \<Rightarrow> LogRecord \<Rightarrow> time" where
  "timestampFromRecord now r =
     (let nano = uint (log_TimeUnixNano r) in if nano > 0 \<and> nano \<le> 2 ^ 63 - 1 then nano else now)"

definition policyEventToObservation :: "time \<Rightarrow> LogRecord \<Rightarrow> strmap \<Rightarrow> Observation" where
  "policyEventToObservation now r attrs =
     (case splitNamespacedName (map_get0 attrs dstNamespacedNameKey) of (dstNamespace, dstName) \<Rightarrow>
      case splitNamespacedName (map_get0 attrs policyKey) of (policyNamespace, policyName) \<Rightarrow>
        \<lparr>obs_Info =
           \<lparr>Timestamp = timestampFromRecord now r,
            vi_Source = wr_zero\<lparr>wr_OwnerName := map_get0 attrs srcAddrKey\<rparr>,
            Dest = wr_zero\<lparr>wr_Namespace := dstNamespace, wr_OwnerName := dstName\<rparr>,
            vi_Protocol = ProtocolTCP, DstPort = 0,
            Action = (if map_get0 attrs eventTypeKey = EventTypeMonitor then WorkloadNetworkPolicyModeMonitor
                      else WorkloadNetworkPolicyModeProtect),
            DenyingPolicyNamespace = policyNamespace, DenyingPolicyName = policyName\<rparr>,
         Provider = PolicyBackendIstio, obs_Direction = PolicyTypeIngress\<rparr>)"

text \<open>The event a \<open>learn\<close> record stands for: nothing when a field is missing, does not parse, or the
  destination does not resolve to a supported workload. The outer option is the panic of an enricher
  without a client.\<close>

definition istio_learning_event :: "helpers \<Rightarrow> 'w Enricher option \<Rightarrow> 'w \<Rightarrow> strmap \<Rightarrow> LearningEvent option option" where
  "istio_learning_event h e w attrs =
     (let dstPodName = map_get0 attrs dstNameKey;
          dstNamespace = map_get0 attrs dstNamespaceKey;
          dstPortAttr = map_get0 attrs dstPortKey
      in case cut_prefix (map_get0 attrs srcIdentityKey) spiffeURIPrefix of (srcIdentity, hasSPIFFEPrefix) \<Rightarrow>
        if dstPodName = [] \<or> dstNamespace = [] \<or> dstPortAttr = [] \<or> \<not> hasSPIFFEPrefix \<or> srcIdentity = [] then Some None
        else
          (case parsePort dstPortAttr of
             Inl _ \<Rightarrow> Some None
           | Inr dstPort \<Rightarrow>
               (case e of
                  None \<Rightarrow> Some None
                | Some en \<Rightarrow>
                    (case GetWorkloadRef h en w \<lparr>nn_Namespace = dstNamespace, nn_Name = dstPodName\<rparr> of
                       None \<Rightarrow> None
                     | Some (Inl _) \<Rightarrow> Some None
                     | Some (Inr dstWorkloadRef) \<Rightarrow>
                         if \<not> IsSupported dstWorkloadRef then Some None
                         else Some (Some
                           \<lparr>le_Source = Some (wr_zero\<lparr>wr_Identity := srcIdentity\<rparr>), le_Dest = Some dstWorkloadRef,
                            le_DstPort = dstPort, le_Protocol = ProtocolTCP, le_Backend = PolicyBackendIstio\<rparr>)))))"

definition enqueueLearningEvent :: "helpers \<Rightarrow> 'w Enricher option \<Rightarrow> 'w Scraper \<Rightarrow> strmap \<Rightarrow> 'w Scraper option" where
  "enqueueLearningEvent h e s attrs =
     (case istio_learning_event h e (lr_cluster (sc_learner s)) attrs of
        None \<Rightarrow> None
      | Some None \<Rightarrow> Some s
      | Some (Some learningEvent) \<Rightarrow> Some (s\<lparr>sc_learner := fst (enqueueEvent (sc_learner s) learningEvent)\<rparr>))"

definition recordPolicyEvent ::
    "helpers \<Rightarrow> 'w Enricher option \<Rightarrow> time \<Rightarrow> 'w Scraper \<Rightarrow> LogRecord \<Rightarrow> strmap \<Rightarrow> 'w Scraper option" where
  "recordPolicyEvent h e now s r attrs =
     (let l = sc_learner s;
          observation = Enrich h e (lr_cluster l) (policyEventToObservation now r attrs)
      in case Record (lr_violationBuffer l) observation of
           None \<Rightarrow> None
         | Some (_, b) \<Rightarrow>
             Some (s\<lparr>sc_learner := l\<lparr>lr_violationOtelLogger := EmitOtelLog (lr_violationOtelLogger l) observation,
                                      lr_violationBuffer := b\<rparr>\<rparr>))"

subsection \<open>Export\<close>

definition export_record ::
    "helpers \<Rightarrow> 'w Enricher option \<Rightarrow> LogRecord flow_codec \<Rightarrow> time \<Rightarrow> strmap \<Rightarrow> 'w Scraper \<Rightarrow> LogRecord \<Rightarrow> 'w Scraper option" where
  "export_record h e codec now resourceAttrs s r =
     (let attrs = mergeAttrMaps resourceAttrs (attrMap (log_Attributes r));
          evt = map_get0 attrs eventTypeKey
      in case dumpFlow codec (sc_FlowDumperBuffer s) r of
           None \<Rightarrow> None
         | Some d \<Rightarrow>
             let s = s\<lparr>sc_FlowDumperBuffer := d\<rparr> in
             if evt = EventTypeLearn then enqueueLearningEvent h e s attrs
             else if evt = EventTypeMonitor \<or> evt = EventTypeProtect then recordPolicyEvent h e now s r attrs
             else Some s)"

fun foldl_option :: "('s \<Rightarrow> 'a \<Rightarrow> 's option) \<Rightarrow> 's \<Rightarrow> 'a list \<Rightarrow> 's option" where
  "foldl_option f s [] = Some s"
| "foldl_option f s (x # xs) = (case f s x of None \<Rightarrow> None | Some s' \<Rightarrow> foldl_option f s' xs)"

definition Export ::
    "helpers \<Rightarrow> 'w Enricher option \<Rightarrow> LogRecord flow_codec \<Rightarrow> time \<Rightarrow> 'w Scraper \<Rightarrow> ResourceLogs list \<Rightarrow> 'w Scraper option" where
  "Export h e codec now s req =
     foldl_option (\<lambda>s rl. foldl_option (foldl_option (export_record h e codec now (attrMap (rl_Attributes rl)))) s (rl_ScopeLogs rl))
       s req"

section \<open>Lemmas\<close>

lemma map_of_foldl_update:
  "map_of (foldl (\<lambda>m (k, v). AList.update k v m) m ps) k = (case map_of (rev ps) k of Some v \<Rightarrow> Some v | None \<Rightarrow> map_of m k)"
  by (induction ps arbitrary: m) (auto simp: update_conv' map_add_def split: option.splits)

lemma attrMap_foldl:
  "foldl (\<lambda>m (k, v). if anyValueToString v = [] then m else AList.update k (anyValueToString v) m) m attrs =
   foldl (\<lambda>m (k, v). AList.update k v m) m
     (map (\<lambda>(k, v). (k, anyValueToString v)) (filter (\<lambda>(k, v). anyValueToString v \<noteq> []) attrs))"
  by (induction attrs arbitrary: m) auto

lemma foldl_option_steps:
  assumes "\<And>s x n. x \<in> set xs \<Longrightarrow> P s (k x + n) \<Longrightarrow> \<exists>s'. f s x = Some s' \<and> P s' n"
    and "P s (sum_list (map k xs) + n)"
  shows "\<exists>s'. foldl_option f s xs = Some s' \<and> P s' n"
  using assms
proof (induction xs arbitrary: s)
  case (Cons x xs)
  have "P s (k x + (sum_list (map k xs) + n))" using Cons.prems(2) by (simp add: add.assoc)
  then obtain s1 where "f s x = Some s1" "P s1 (sum_list (map k xs) + n)"
    using Cons.prems(1) [of x s] by fastforce
  with Cons.IH [of s1] Cons.prems(1) show ?case by simp
qed simp

text \<open>What an Istio learning event promises: an identity without the scheme, a valid port and a resolved
  destination.\<close>

definition istio_learned_ok :: "helpers \<Rightarrow> 'w client \<Rightarrow> 'w \<Rightarrow> LearningEvent \<Rightarrow> bool" where
  "istio_learned_ok h c w ev \<longleftrightarrow>
     le_Backend ev = PolicyBackendIstio \<and> 1 \<le> sint (le_DstPort ev) \<and> sint (le_DstPort ev) \<le> 65535 \<and>
     (case (le_Source ev, le_Dest ev) of
        (Some source, Some dest) \<Rightarrow> wr_Identity source \<noteq> [] \<and> resolved_ok h c w dest
      | _ \<Rightarrow> False)"

lemma istio_learning_event_sound:
  assumes "en_client en = Some c" and "istio_learning_event h (Some en) w attrs = Some (Some ev)"
  shows "istio_learned_ok h c w ev"
proof -
  from assms obtain dest port where e: "le_Dest ev = Some dest" "le_Source ev \<noteq> None" "wr_Identity (the (le_Source ev)) \<noteq> []"
    "le_Backend ev = PolicyBackendIstio" "le_DstPort ev = port" "Get h c w \<lparr>nn_Namespace = map_get0 attrs dstNamespaceKey, nn_Name = map_get0 attrs dstNameKey\<rparr> = Inr dest"
    "IsSupported dest" "parsePort (map_get0 attrs dstPortKey) = Inr port"
    by (auto simp: istio_learning_event_def GetWorkloadRef_def Let_def split: prod.splits if_splits sum.splits)
  from e(8) have "1 \<le> sint port \<and> sint port \<le> 65535" by (auto simp: parsePort_Inr sint_port)
  with e show ?thesis by (auto simp: istio_learned_ok_def intro: get_ok)
qed

lemma istio_learning_event_total: "en_client en = Some c \<Longrightarrow> \<exists>o'. istio_learning_event h (Some en) w attrs = Some o'"
  by (auto simp: istio_learning_event_def GetWorkloadRef_def Let_def split: prod.splits sum.splits)

definition export_inv :: "helpers \<Rightarrow> 'w client \<Rightarrow> 'w \<Rightarrow> 'w Scraper \<Rightarrow> nat \<Rightarrow> bool" where
  "export_inv h c w s n \<longleftrightarrow> buffers_ok s n \<and> lr_cluster (sc_learner s) = w \<and>
     list_all (istio_learned_ok h c w) (lr_eventChan (sc_learner s))"

lemma enqueueLearningEvent_ok:
  assumes "en_client en = Some c" and "export_inv h c w s n"
  shows "\<exists>s'. enqueueLearningEvent h (Some en) s attrs = Some s' \<and> export_inv h c w s' n"
proof -
  from istio_learning_event_total [OF assms(1)] obtain o' where o': "istio_learning_event h (Some en) w attrs = Some o'" by blast
  with assms istio_learning_event_sound [OF assms(1), of h w attrs] show ?thesis
    by (cases o') (auto simp: enqueueLearningEvent_def export_inv_def enqueueEvent_def buffers_ok_def)
qed

lemma export_record_ok:
  assumes "en_client en = Some c" and "export_inv h c w s (Suc n)"
  shows "\<exists>s'. export_record h (Some en) codec now ra s r = Some s' \<and> export_inv h c w s' n"
proof -
  have "\<exists>d. dumpFlow codec (sc_FlowDumperBuffer s) r = Some d \<and>
      (case d of None \<Rightarrow> True | Some b \<Rightarrow> rb_inv b \<and> n \<le> rb_room b)"
    using assms(2) dumpFlow_total [where d = "sc_FlowDumperBuffer s" and n = n and codec = codec and m = r] by (simp add: export_inv_def buffers_ok_def)
  then obtain d where d: "dumpFlow codec (sc_FlowDumperBuffer s) r = Some d"
    "case d of None \<Rightarrow> True | Some b \<Rightarrow> rb_inv b \<and> n \<le> rb_room b" by blast
  let ?s = "s\<lparr>sc_FlowDumperBuffer := d\<rparr>"
  let ?attrs = "mergeAttrMaps ra (attrMap (log_Attributes r))"
  from assms(2) d(2) have i: "export_inv h c w ?s n" by (auto simp: export_inv_def buffers_ok_def)
  have "\<exists>s'. recordPolicyEvent h (Some en) now ?s r ?attrs = Some s' \<and> export_inv h c w s' n"
  proof -
    let ?b = "lr_violationBuffer (sc_learner s)"
    let ?ob = "Enrich h (Some en) (lr_cluster (sc_learner s)) (policyEventToObservation now r ?attrs)"
    from assms(2) have v: "rb_inv ?b" "0 < rb_room ?b" "Suc n \<le> rb_room ?b" by (auto simp: export_inv_def buffers_ok_def)
    from Record_ok [OF v(1,2), of ?ob] obtain b' where
      "Record ?b ?ob = Some (length (rb_contents ?b) = nat (capacity ?b), b')" "rb_inv b'" "rb_room b' = rb_room ?b - 1" by auto
    with i v(3) show ?thesis by (auto simp: recordPolicyEvent_def export_inv_def buffers_ok_def Let_def)
  qed
  with enqueueLearningEvent_ok [OF assms(1) i] i d(1) show ?thesis
    by (auto simp: export_record_def Let_def)
qed

text \<open>The number of records in a request.\<close>

definition log_count :: "ResourceLogs list \<Rightarrow> nat" where
  "log_count req = sum_list (map (\<lambda>rl. sum_list (map length (rl_ScopeLogs rl))) req)"

lemma Export_ok:
  assumes "en_client en = Some c" and "export_inv h c w s (log_count req + n)"
  shows "\<exists>s'. Export h (Some en) codec now s req = Some s' \<and> export_inv h c w s' n"
  unfolding Export_def
proof (rule foldl_option_steps [where P = "export_inv h c w" and k = "\<lambda>rl. sum_list (map length (rl_ScopeLogs rl))"])
  fix s rl n
  let ?f = "export_record h (Some en) codec now (attrMap (rl_Attributes rl))"
  assume i: "export_inv h c w s (sum_list (map length (rl_ScopeLogs rl)) + n)"
  have rec1: "\<exists>s'. ?f s r = Some s' \<and> export_inv h c w s' n" if "export_inv h c w s (1 + n)" for s r n
    using export_record_ok [OF assms(1)] that by simp
  have recs: "\<exists>s'. foldl_option ?f s rs = Some s' \<and> export_inv h c w s' n" if "export_inv h c w s (length rs + n)" for s rs n
    by (rule foldl_option_steps [where P = "export_inv h c w" and k = "\<lambda>_. 1"]) (use rec1 that in \<open>simp_all add: sum_list_triv\<close>)
  show "\<exists>s'. foldl_option (foldl_option ?f) s (rl_ScopeLogs rl) = Some s' \<and> export_inv h c w s' n"
    by (rule foldl_option_steps [where P = "export_inv h c w" and k = length]) (use recs i in simp_all)
qed (use assms in \<open>simp add: log_count_def\<close>)

text \<open>Attributes of a record win over those of its resource, in the map the event is read from, and an
  attribute without a value is as good as absent.\<close>

lemma record_attributes_override:
  "map_get0 (mergeAttrMaps (attrMap ra) (attrMap la)) k =
     (case map_of (rev (filter (\<lambda>(k, v). anyValueToString v \<noteq> []) la)) k of
        Some v \<Rightarrow> anyValueToString v
      | None \<Rightarrow>
          (case map_of (rev (filter (\<lambda>(k, v). anyValueToString v \<noteq> []) ra)) k of
             Some v \<Rightarrow> anyValueToString v
           | None \<Rightarrow> []))"
proof -
  have m: "map_of (map (\<lambda>(k, v). (k, anyValueToString v)) ps) k = map_option anyValueToString (map_of ps k)" for ps :: "(string \<times> AnyValue option) list"
    by (induction ps) auto
  have a: "map_of (attrMap ps) k = map_option anyValueToString (map_of (rev (filter (\<lambda>(k, v). anyValueToString v \<noteq> []) ps)) k)" for ps
    unfolding attrMap_def attrMap_foldl map_of_foldl_update rev_map m by (simp split: option.splits)
  have d: "distinct (map fst (attrMap ps))" for ps
  proof -
    have "distinct (map fst (foldl (\<lambda>m (k, v). AList.update k v m) m qs))" if "distinct (map fst m)" for m and qs :: strmap
      using that by (induction qs arbitrary: m) (auto simp: distinct_update)
    then show ?thesis unfolding attrMap_def attrMap_foldl by simp
  qed
  have r: "map_of (rev (attrMap ps)) k = map_of (attrMap ps) k" for ps
  proof -
    have "map_of (rev (attrMap ps)) = map_of (attrMap ps)"
      using d [of ps] by (subst map_of_inject_set) (simp_all add: rev_map [symmetric])
    then show ?thesis by simp
  qed
  show ?thesis unfolding map_get0_def mergeAttrMaps_def map_of_foldl_update r a
    by (simp split: option.splits)
qed

lemma enrich_source_frame [frame]:
  "Provider (enrich_source h c w ob) = Provider ob" "obs_Direction (enrich_source h c w ob) = obs_Direction ob"
  "Timestamp (obs_Info (enrich_source h c w ob)) = Timestamp (obs_Info ob)"
  "Action (obs_Info (enrich_source h c w ob)) = Action (obs_Info ob)"
  "vi_Protocol (obs_Info (enrich_source h c w ob)) = vi_Protocol (obs_Info ob)"
  "DstPort (obs_Info (enrich_source h c w ob)) = DstPort (obs_Info ob)"
  "Dest (obs_Info (enrich_source h c w ob)) = Dest (obs_Info ob)"
  "DenyingPolicyName (obs_Info (enrich_source h c w ob)) = DenyingPolicyName (obs_Info ob)"
  "DenyingPolicyNamespace (obs_Info (enrich_source h c w ob)) = DenyingPolicyNamespace (obs_Info ob)"
  by (simp_all add: enrich_source_def split: sum.splits)

lemma enrich_dest_frame [frame]:
  "Provider (enrich_dest h c w ob) = Provider ob" "obs_Direction (enrich_dest h c w ob) = obs_Direction ob"
  "Timestamp (obs_Info (enrich_dest h c w ob)) = Timestamp (obs_Info ob)"
  "Action (obs_Info (enrich_dest h c w ob)) = Action (obs_Info ob)"
  "vi_Protocol (obs_Info (enrich_dest h c w ob)) = vi_Protocol (obs_Info ob)"
  "DstPort (obs_Info (enrich_dest h c w ob)) = DstPort (obs_Info ob)"
  "vi_Source (obs_Info (enrich_dest h c w ob)) = vi_Source (obs_Info ob)"
  by (simp_all add: enrich_dest_def Let_def split: sum.splits)

lemma enrich_source_source:
  "vi_Source (obs_Info (enrich_source h c w ob)) =
     (case resolveSourceWorkload h c w ob of Inl _ \<Rightarrow> vi_Source (obs_Info ob) | Inr src \<Rightarrow> src)"
  by (simp add: enrich_source_def split: sum.splits)

lemma enrich_dest_cases:
  "(Dest (obs_Info (enrich_dest h c w ob)) = Dest (obs_Info ob) \<and>
      DenyingPolicyName (obs_Info (enrich_dest h c w ob)) = DenyingPolicyName (obs_Info ob) \<and>
      DenyingPolicyNamespace (obs_Info (enrich_dest h c w ob)) = DenyingPolicyNamespace (obs_Info ob)) \<or>
   (\<exists>pod. resolveDestWorkload c w ob = Inr pod \<and> Dest (obs_Info (enrich_dest h c w ob)) = workloadRefFromPod h pod \<and>
      ((DenyingPolicyName (obs_Info (enrich_dest h c w ob)) = DenyingPolicyName (obs_Info ob) \<and>
        DenyingPolicyNamespace (obs_Info (enrich_dest h c w ob)) = DenyingPolicyNamespace (obs_Info ob)) \<or>
       (DenyingPolicyName (obs_Info ob) = [] \<and>
        ResolveDenyingPolicy c w (workloadRefFromPod h pod) PolicyTypeIngress =
          Inr \<lparr>nn_Namespace = DenyingPolicyNamespace (obs_Info (enrich_dest h c w ob)),
               nn_Name = DenyingPolicyName (obs_Info (enrich_dest h c w ob))\<rparr>)))"
  by (auto simp: enrich_dest_def Let_def split: sum.splits if_splits)

section \<open>Properties\<close>

text \<open>Enrichment never makes an observation worse: it changes only the two workloads and an empty policy.
  The source is replaced only by the workload of the one pod that has the peer's address, the
  destination only by the workload of the pod it names, and the policy is filled in only with the one
  that targets the resolved destination for ingress; a policy the event reports is never replaced.\<close>

lemma Enrich_best_effort:
  assumes "en_client en = Some c" and "ob' = Enrich h (Some en) w ob"
  shows "Provider ob' = Provider ob \<and> obs_Direction ob' = obs_Direction ob \<and>
    Timestamp (obs_Info ob') = Timestamp (obs_Info ob) \<and> Action (obs_Info ob') = Action (obs_Info ob) \<and>
    vi_Protocol (obs_Info ob') = vi_Protocol (obs_Info ob) \<and> DstPort (obs_Info ob') = DstPort (obs_Info ob) \<and>
    (vi_Source (obs_Info ob') = vi_Source (obs_Info ob) \<or>
     (\<exists>ip pod. peerIPFromAddr (wr_OwnerName (vi_Source (obs_Info ob))) = Inr ip \<and>
        listPodsByField c w PodIPIndexField ip = Inr [pod] \<and> vi_Source (obs_Info ob') = workloadRefFromPod h pod)) \<and>
    (Dest (obs_Info ob') = Dest (obs_Info ob) \<or>
     (\<exists>pod. getPod c w \<lparr>nn_Namespace = wr_Namespace (Dest (obs_Info ob)), nn_Name = wr_OwnerName (Dest (obs_Info ob))\<rparr> = Inr pod \<and>
        Dest (obs_Info ob') = workloadRefFromPod h pod)) \<and>
    (DenyingPolicyName (obs_Info ob') = DenyingPolicyName (obs_Info ob) \<and>
       DenyingPolicyNamespace (obs_Info ob') = DenyingPolicyNamespace (obs_Info ob) \<or>
     DenyingPolicyName (obs_Info ob) = [] \<and>
       ResolveDenyingPolicy c w (Dest (obs_Info ob')) PolicyTypeIngress =
         Inr \<lparr>nn_Namespace = DenyingPolicyNamespace (obs_Info ob'), nn_Name = DenyingPolicyName (obs_Info ob')\<rparr>)"
proof -
  let ?o = "enrich_source h c w ob"
  have ob': "ob' = enrich_dest h c w ?o" using assms by (simp add: Enrich_def)
  have src: "vi_Source (obs_Info ob') = vi_Source (obs_Info ob) \<or>
     (\<exists>ip pod. peerIPFromAddr (wr_OwnerName (vi_Source (obs_Info ob))) = Inr ip \<and>
        listPodsByField c w PodIPIndexField ip = Inr [pod] \<and> vi_Source (obs_Info ob') = workloadRefFromPod h pod)"
    unfolding ob' frame enrich_source_source
    by (auto simp: resolveSourceWorkload_def split: sum.splits list.splits)
  have pod: "resolveDestWorkload c w ?o = Inr pod \<Longrightarrow>
      getPod c w \<lparr>nn_Namespace = wr_Namespace (Dest (obs_Info ob)), nn_Name = wr_OwnerName (Dest (obs_Info ob))\<rparr> = Inr pod" for pod
    by (auto simp: resolveDestWorkload_def frame Let_def split: sum.splits if_splits)
  show ?thesis using src pod enrich_dest_cases [of h c w ?o] unfolding ob' frame by metis
qed

definition sample_scraper :: "Pod list \<Rightarrow> store Scraper" where
  "sample_scraper pods = \<lparr>sc_learner = (sample_learner [])\<lparr>lr_cluster := (lr_cluster (sample_learner []))\<lparr>st_pods := pods\<rparr>\<rparr>,
     sc_FlowDumperBuffer = None\<rparr>"

definition sample_otlp :: "ResourceLogs list" where
  "sample_otlp = [\<lparr>rl_Attributes = [(''dst.namespace'', Some (AnyValue_StringValue ''ns''))],
     rl_ScopeLogs = [[\<lparr>log_TimeUnixNano = 5, log_Attributes =
       [(''evt.type'', Some (AnyValue_StringValue ''learn'')), (''dst.name'', Some (AnyValue_StringValue ''web-abc-1'')),
        (''dst.port'', Some (AnyValue_IntValue 80)), (''src.identity'', Some (AnyValue_StringValue ''spiffe://me''))]\<rparr>]]\<rparr>]"

end
