(* ===== verification/System.thy ===== *)
theory System
  imports StatusSync CalicoScraper CiliumScraper IstioScraper
begin

text \<open>
  The running controller as a transition system. \<^verbatim>\<open>cmd/controller/main.go\<close> wires a scraper, the learning
  controller and the status synchronisation to one violation buffer, one event logger and one learning
  channel. They run concurrently; a step is one call that is atomic for the others: handling one
  message of a provider, moving an event from the channel to the controller's work queue, handling one
  queued event (which may be queued again after an error), one synchronisation cycle, or any change of the
  cluster by the other controllers, users and the API server.

  The buffers count records in 64 bits until they are drained; the steps that record ask for room.
\<close>

section \<open>The system\<close>

record 'w System =
  sys_scraper :: "'w Scraper"
  sys_queue :: "LearningEvent list"
  sys_metrics :: "attributionMetrics option"

abbreviation sys_learner :: "'w System \<Rightarrow> 'w LearningReconciler" where
  "sys_learner s \<equiv> sc_learner (sys_scraper s)"

abbreviation sys_buffer :: "'w System \<Rightarrow> Observation Buffer" where
  "sys_buffer s \<equiv> lr_violationBuffer (sys_learner s)"

abbreviation sys_chan :: "'w System \<Rightarrow> LearningEvent list" where
  "sys_chan s \<equiv> lr_eventChan (sys_learner s)"

definition set_learner :: "'w System \<Rightarrow> 'w LearningReconciler \<Rightarrow> 'w System" where
  "set_learner s l = s\<lparr>sys_scraper := (sys_scraper s)\<lparr>sc_learner := l\<rparr>\<rparr>"

text \<open>The wiring of \<open>run\<close>: a new buffer shared by all, a new learning controller, and the flow dumper's buffer
  if it is enabled. \<open>zero\<close> is the zero value in the slots of a new buffer.\<close>

definition run_init :: "Observation \<Rightarrow> 'w \<Rightarrow> OtelLogger \<Rightarrow> int option \<Rightarrow> 'w System" where
  "run_init zero w eventLogger flowDumperSize =
     \<lparr>sys_scraper = \<lparr>sc_learner = NewLearningReconciler w (New zero) eventLogger,
                     sc_FlowDumperBuffer = map_option (NewWithSize []) flowDumperSize\<rparr>,
      sys_queue = [], sys_metrics = Some newAttributionMetrics\<rparr>"

definition sync_view :: "'w System \<Rightarrow> 'w StatusSync" where
  "sync_view s =
     \<lparr>ss_cluster = lr_cluster (sys_learner s), ss_violationBuffer = sys_buffer s,
      ss_eventLogger = lr_violationOtelLogger (sys_learner s), ss_metrics = sys_metrics s\<rparr>"

definition put_sync :: "'w System \<Rightarrow> 'w StatusSync \<Rightarrow> 'w System" where
  "put_sync s r =
     (set_learner s ((sys_learner s)\<lparr>lr_cluster := ss_cluster r, lr_violationBuffer := ss_violationBuffer r,
        lr_violationOtelLogger := ss_eventLogger r\<rparr>))\<lparr>sys_metrics := ss_metrics r\<rparr>"

definition has_room :: "'w System \<Rightarrow> bool" where
  "has_room s \<longleftrightarrow> 2 \<le> rb_room (sys_buffer s) \<and>
     (case sc_FlowDumperBuffer (sys_scraper s) of None \<Rightarrow> True | Some b \<Rightarrow> 1 \<le> rb_room b)"

inductive sys_step :: "helpers \<Rightarrow> 'w client \<Rightarrow> 'w System \<Rightarrow> 'w System \<Rightarrow> bool" for h c where
  calico: "has_room s \<Longrightarrow>
    stream_step codec (\<lambda>w msg. resolveParsedFlow (calico_resolve h c w) c w (parseCalicoFlow now msg)) (sys_scraper s) msg = Some sc \<Longrightarrow>
    sys_step h c s (s\<lparr>sys_scraper := sc\<rparr>)"
| cilium: "has_room s \<Longrightarrow> stream_step codec' (cilium_processFlow h c now) (sys_scraper s) msg' = Some sc \<Longrightarrow>
    sys_step h c s (s\<lparr>sys_scraper := sc\<rparr>)"
| istio: "has_room s \<Longrightarrow> export_record h (Some \<lparr>en_client = Some c\<rparr>) codec'' now ra (sys_scraper s) r = Some sc \<Longrightarrow>
    sys_step h c s (s\<lparr>sys_scraper := sc\<rparr>)"
| deliver: "sys_chan s = ev # rest \<Longrightarrow>
    sys_step h c s ((set_learner s ((sys_learner s)\<lparr>lr_eventChan := rest\<rparr>))
      \<lparr>sys_queue := ProcessEventHandler (GenericEvent ev) (sys_queue s)\<rparr>)"
| learn: "has_room s \<Longrightarrow> sys_queue s = xs @ ev # ys \<Longrightarrow> q \<in> {xs @ ys, xs @ ys @ [ev]} \<Longrightarrow>
    learning_Reconcile h c now (sys_learner s) ev = Some (l, e) \<Longrightarrow>
    sys_step h c s ((set_learner s l)\<lparr>sys_queue := q\<rparr>)"
| sync: "StatusSync.sync h c rfc3339 visit now (sync_view s) = Some (r', e) \<Longrightarrow> sys_step h c s (put_sync s r')"
| environment: "sys_step h c s (set_learner s ((sys_learner s)\<lparr>lr_cluster := w'\<rparr>))"

inductive reachable :: "helpers \<Rightarrow> 'w client \<Rightarrow> 'w System \<Rightarrow> bool" for h c where
  start: "reachable h c (run_init zero w logger dumpSize)"
| step: "reachable h c s \<Longrightarrow> sys_step h c s s' \<Longrightarrow> reachable h c s'"

inductive_cases sys_step_cases: "sys_step h c s s'"

section \<open>The invariant\<close>

text \<open>A pending event has both ends, and its destination is of a supported kind.\<close>

definition event_shape :: "LearningEvent \<Rightarrow> bool" where
  "event_shape ev \<longleftrightarrow> le_Source ev \<noteq> None \<and> (case le_Dest ev of None \<Rightarrow> False | Some dest \<Rightarrow> IsSupported dest)"

definition scraper_inv :: "'w Scraper \<Rightarrow> bool" where
  "scraper_inv sc \<longleftrightarrow>
     rb_inv (lr_violationBuffer (sc_learner sc)) \<and>
     nat (capacity (lr_violationBuffer (sc_learner sc))) = nat maxBufferEntries \<and>
     (case sc_FlowDumperBuffer sc of None \<Rightarrow> True | Some b \<Rightarrow> rb_inv b) \<and>
     length (lr_eventChan (sc_learner sc)) \<le> defaultEventChannelBufferSize \<and>
     list_all event_shape (lr_eventChan (sc_learner sc))"

definition sys_inv :: "'w System \<Rightarrow> bool" where
  "sys_inv s \<longleftrightarrow> scraper_inv (sys_scraper s) \<and> list_all event_shape (sys_queue s)"

lemma learned_ok_shape: "learned_ok h c w ev \<Longrightarrow> event_shape ev"
  by (auto simp: learned_ok_def event_shape_def resolved_ok_def split: option.splits)

lemma istio_learned_ok_shape: "istio_learned_ok h c w ev \<Longrightarrow> event_shape ev"
  by (auto simp: istio_learned_ok_def event_shape_def resolved_ok_def split: option.splits)

lemma Record_inv:
  assumes "rb_inv b" and "0 < rb_room b" and "Record b x = Some (d, b')"
  shows "rb_inv b' \<and> nat (capacity b') = nat (capacity b) \<and> rb_room b' = rb_room b - 1"
  using Record_ok [OF assms(1,2), of x] assms(3) by auto

lemma dumpFlow_inv:
  assumes "case d of None \<Rightarrow> True | Some b \<Rightarrow> rb_inv b \<and> 1 \<le> rb_room b" and "dumpFlow m d x = Some d'"
  shows "case d' of None \<Rightarrow> True | Some b \<Rightarrow> rb_inv b"
  using assms Record_inv by (fastforce simp: dumpFlow_def split: option.splits sum.splits)

lemma enqueueEvent_inv:
  assumes "length (lr_eventChan l) \<le> defaultEventChannelBufferSize" and "list_all event_shape (lr_eventChan l)" and "event_shape ev"
  shows "length (lr_eventChan (fst (enqueueEvent l ev))) \<le> defaultEventChannelBufferSize \<and>
    list_all event_shape (lr_eventChan (fst (enqueueEvent l ev))) \<and>
    lr_violationBuffer (fst (enqueueEvent l ev)) = lr_violationBuffer l"
  using assms by (simp add: enqueueEvent_def)

lemma handle_result_inv:
  assumes "scraper_inv sc" and "0 < rb_room (lr_violationBuffer (sc_learner sc))"
    and "\<And>ev. r = processFlowEnqueue ev \<Longrightarrow> event_shape ev" and "handle_result sc r = Some sc'"
  shows "scraper_inv sc'"
proof (cases r)
  case (processFlowEnqueue ev)
  with assms enqueueEvent_inv [of "sc_learner sc" ev] show ?thesis by (auto simp: handle_result_def scraper_inv_def)
next
  case (processFlowRecordViolation ob)
  with assms Record_inv [of "lr_violationBuffer (sc_learner sc)"] show ?thesis
    by (auto simp: handle_result_def scraper_inv_def Let_def split: option.splits)
qed (use assms in \<open>auto simp: handle_result_def\<close>)

lemma stream_step_inv:
  assumes "scraper_inv (sys_scraper s)" and "has_room s" and "stream_step codec process (sys_scraper s) m = Some sc"
    and "\<And>w m ev. process w m = Some (processFlowEnqueue ev) \<Longrightarrow> event_shape ev"
  shows "scraper_inv sc"
proof -
  from assms(3) obtain d r where d: "dumpFlow codec (sc_FlowDumperBuffer (sys_scraper s)) m = Some d"
    and r: "process (lr_cluster (sys_learner s)) m = Some r" "handle_result ((sys_scraper s)\<lparr>sc_FlowDumperBuffer := d\<rparr>) r = Some sc"
    by (auto simp: stream_step_def split: option.splits)
  have "case d of None \<Rightarrow> True | Some b \<Rightarrow> rb_inv b"
    using assms(1,2) by (intro dumpFlow_inv [OF _ d]) (auto simp: scraper_inv_def has_room_def split: option.splits)
  with assms(1) have "scraper_inv ((sys_scraper s)\<lparr>sc_FlowDumperBuffer := d\<rparr>)" by (simp add: scraper_inv_def)
  then show ?thesis
    by (rule handle_result_inv [OF _ _ _ r(2)]) (use assms(2,4) r(1) in \<open>auto simp: has_room_def\<close>)
qed

lemma export_record_inv:
  assumes "scraper_inv (sys_scraper s)" and "has_room s"
    and "export_record h (Some \<lparr>en_client = Some c\<rparr>) codec now ra (sys_scraper s) r = Some sc"
  shows "scraper_inv sc"
proof -
  let ?e = "\<lparr>en_client = Some c\<rparr>"
  let ?attrs = "mergeAttrMaps ra (attrMap (log_Attributes r))"
  from assms(3) obtain d where d: "dumpFlow codec (sc_FlowDumperBuffer (sys_scraper s)) r = Some d"
    by (auto simp: export_record_def Let_def split: option.splits)
  let ?s = "(sys_scraper s)\<lparr>sc_FlowDumperBuffer := d\<rparr>"
  have "case d of None \<Rightarrow> True | Some b \<Rightarrow> rb_inv b"
    using assms(1,2) by (intro dumpFlow_inv [OF _ d]) (auto simp: scraper_inv_def has_room_def split: option.splits)
  with assms(1) have i: "scraper_inv ?s" by (simp add: scraper_inv_def)
  have "scraper_inv sc'" if "enqueueLearningEvent h (Some ?e) ?s ?attrs = Some sc'" for sc'
  proof -
    have sh: "istio_learning_event h (Some ?e) (lr_cluster (sys_learner s)) ?attrs = Some (Some ev) \<Longrightarrow> event_shape ev" for ev
      using istio_learning_event_sound [of ?e c] istio_learned_ok_shape by fastforce
    show ?thesis using that i enqueueEvent_inv [of "sys_learner s"] sh
      by (auto simp: enqueueLearningEvent_def scraper_inv_def split: option.splits)
  qed
  moreover have "scraper_inv sc'" if "recordPolicyEvent h (Some ?e) now ?s r ?attrs = Some sc'" for sc'
    using that i assms(2) Record_inv [of "sys_buffer s"]
    by (auto simp: recordPolicyEvent_def scraper_inv_def has_room_def Let_def split: option.splits)
  ultimately show ?thesis using assms(3) d i by (auto simp: export_record_def Let_def split: if_splits)
qed

subsection \<open>Learning and synchronisation\<close>

lemma sendMonitorViolation_inv:
  assumes "sendMonitorViolation l n wk peer proto d port now = Some (l', e)"
    and "rb_inv (lr_violationBuffer l)" and "0 < rb_room (lr_violationBuffer l)"
  shows "rb_inv (lr_violationBuffer l') \<and> nat (capacity (lr_violationBuffer l')) = nat (capacity (lr_violationBuffer l)) \<and>
    rb_room (lr_violationBuffer l) - 1 \<le> rb_room (lr_violationBuffer l') \<and> lr_eventChan l' = lr_eventChan l"
  using assms Record_inv [of "lr_violationBuffer l"]
  by (auto simp: sendMonitorViolation_def Let_def split: option.splits prod.splits)

lemma reconcileKubernetesProposal_inv:
  assumes "reconcileKubernetesProposal h c now l wk peer d proto port = Some (l', e)"
    and "rb_inv (lr_violationBuffer l)" and "0 < rb_room (lr_violationBuffer l)"
  shows "rb_inv (lr_violationBuffer l') \<and> nat (capacity (lr_violationBuffer l')) = nat (capacity (lr_violationBuffer l)) \<and>
    rb_room (lr_violationBuffer l) - 1 \<le> rb_room (lr_violationBuffer l') \<and> lr_eventChan l' = lr_eventChan l"
  using assms(1,2) sendMonitorViolation_inv [OF _ assms(2,3)]
  by (auto simp: reconcileKubernetesProposal_def evaluateMonitorViolation_def Let_def
      split: sum.splits list.splits prod.splits if_splits option.splits)

lemma learning_Reconcile_inv:
  assumes "learning_Reconcile h c now l ev = Some (l', e)"
    and "rb_inv (lr_violationBuffer l)" and "2 \<le> rb_room (lr_violationBuffer l)"
  shows "rb_inv (lr_violationBuffer l') \<and> nat (capacity (lr_violationBuffer l')) = nat (capacity (lr_violationBuffer l)) \<and>
    lr_eventChan l' = lr_eventChan l"
proof (cases "le_Backend ev = PolicyBackendIstio")
  case True
  with assms(1,2) show ?thesis
    by (auto simp: learning_Reconcile_def processIstioLearningEvent_def updateProposal_def Let_def
        split: option.splits sum.splits list.splits prod.splits if_splits)
next
  case False
  have room: "0 < rb_room (lr_violationBuffer l)" using assms(3) by simp
  from False assms(1) consider "l' = l"
    | s d e1 l1 where "reconcileKubernetesProposal h c now l s d PolicyTypeEgress (le_Protocol ev) (le_DstPort ev) = Some (l1, e1)"
        "l' = l1 \<or> (\<exists>e2. reconcileKubernetesProposal h c now l1 d s PolicyTypeIngress (le_Protocol ev) (le_DstPort ev) = Some (l', e2))"
    by (auto simp: learning_Reconcile_def processKubernetesLearningEvent_def simp del: PolicyTypeIngress_def PolicyTypeEgress_def
        split: option.splits prod.splits)
  then show ?thesis
  proof cases
    case 1
    with assms(2) show ?thesis by simp
  next
    case (2 s d e1 l1)
    note i = reconcileKubernetesProposal_inv [OF 2(1) assms(2) room]
    then have "0 < rb_room (lr_violationBuffer l1)" using assms(3) by linarith
    with i 2(2) reconcileKubernetesProposal_inv [of h c now l1 d s PolicyTypeIngress "le_Protocol ev" "le_DstPort ev" l'] show ?thesis
      by metis
  qed
qed

lemma process_all_buffer [frame]:
  "process_all h c f now vb r m = Some r' \<Longrightarrow> ss_violationBuffer r' = ss_violationBuffer r"
proof (induction m arbitrary: r)
  case (Cons e m)
  then show ?case
    by (cases e) (auto simp: processWorkloadNetworkPolicy_def Let_def split: option.splits prod.splits dest!: Cons.IH)
qed simp

lemma sync_buffer:
  assumes "StatusSync.sync h c f visit now r = Some (r', e)" and "rb_inv (ss_violationBuffer r)"
  shows "rb_inv (ss_violationBuffer r') \<and> nat (capacity (ss_violationBuffer r')) = nat (capacity (ss_violationBuffer r))"
proof -
  from Drain_ok [OF assms(2)] obtain b where b: "Drain (ss_violationBuffer r) = Some (rb_contents (ss_violationBuffer r), b)"
    "rb_inv b" "nat (capacity b) = nat (capacity (ss_violationBuffer r))" by blast
  with assms show ?thesis
    by (auto simp: sync_def Let_def split: sum.splits prod.splits if_splits dest!: process_all_buffer)
qed

section \<open>Reachable states\<close>

lemma run_init_inv: "sys_inv (run_init zero w logger dumpSize)"
  by (auto simp: sys_inv_def scraper_inv_def run_init_def NewLearningReconciler_def New_def NewWithSize_def rb_inv_def
      maxBufferEntries_def split: option.splits)

lemma sys_step_inv:
  assumes "sys_step h c s s'" and "sys_inv s"
  shows "sys_inv s'"
  using assms
proof (induction rule: sys_step.induct)
  case (calico s codec now msg sc)
  have "resolveParsedFlow (calico_resolve h c w) c w (parseCalicoFlow now m) = Some (processFlowEnqueue ev) \<Longrightarrow> event_shape ev" for w m ev
    using calico.process_ok [of h c w now m] learned_ok_shape by fastforce
  with stream_step_inv [OF _ calico(1,2)] calico(3) show ?case by (simp add: sys_inv_def)
next
  case (cilium s codec now msg sc)
  have "cilium_processFlow h c now w m = Some (processFlowEnqueue ev) \<Longrightarrow> event_shape ev" for w m ev
    using cilium.process_ok [of h c now w m] learned_ok_shape by fastforce
  with stream_step_inv [OF _ cilium(1,2)] cilium(3) show ?case by (simp add: sys_inv_def)
next
  case (istio s codec now ra r sc)
  with export_record_inv [OF _ istio(1,2)] show ?case by (simp add: sys_inv_def)
next
  case (learn s xs ev ys q now l e)
  from learn(1,5) have r: "2 \<le> rb_room (sys_buffer s)" "rb_inv (sys_buffer s)" by (auto simp: has_room_def sys_inv_def scraper_inv_def)
  from learning_Reconcile_inv [OF learn(4) r(2,1)] learn(2,3,5) show ?case by (auto simp: sys_inv_def scraper_inv_def set_learner_def)
next
  case (sync f visit now s r' e)
  then have "rb_inv (ss_violationBuffer (sync_view s))" by (simp add: sys_inv_def scraper_inv_def sync_view_def)
  from sync_buffer [OF sync(1) this] sync(2) show ?case
    by (simp add: sys_inv_def scraper_inv_def put_sync_def set_learner_def sync_view_def)
qed (auto simp: sys_inv_def scraper_inv_def set_learner_def)

section \<open>Properties\<close>

text \<open>C18. In every state that the controller reaches, in whatever order its parts run and whatever happens to
  the cluster meanwhile: the shared violation buffer is intact and holds at most its capacity of
  observations, the learning channel is within its bound, and every event in the channel or in the
  work queue names both its ends, with a destination of a supported kind, which is what the learning
  controller asks of an event before it looks at the cluster.\<close>

theorem reachable_states_ok:
  assumes "reachable h c s"
  shows "rb_inv (sys_buffer s) \<and> length (rb_contents (sys_buffer s)) \<le> nat maxBufferEntries \<and>
    length (sys_chan s) \<le> defaultEventChannelBufferSize \<and>
    (\<forall>ev \<in> set (sys_chan s @ sys_queue s). event_shape ev)"
proof -
  from assms have "sys_inv s" by induction (auto intro: run_init_inv sys_step_inv)
  then show ?thesis
    by (auto simp: sys_inv_def scraper_inv_def length_rb_contents list_all_iff)
qed

theorem reachable_states_ok_witness:
  "let s0 = run_init sample_observation empty_store None (Some 4);
       s = set_learner s0 ((sys_learner s0)\<lparr>lr_cluster := empty_store\<lparr>st_wnps := [sample_wnp]\<rparr>\<rparr>)
   in rb_inv (sys_buffer s) \<and> length (rb_contents (sys_buffer s)) \<le> nat maxBufferEntries"
  unfolding Let_def
  using reachable_states_ok [of mem_helpers "mem_client sample_index", OF reachable.step [OF reachable.start sys_step.environment]]
  by blast

end
