(* ===== verification/Ztunnel.thy ===== *)
theory Ztunnel
  imports FlowParser
begin

text \<open>
  \<^verbatim>\<open>internal/ztunnel/parser.go\<close>: one CRI log line of a ztunnel becomes a learn, monitor or protect event,
  nothing, or an error. Decoding the JSON body is the argument \<open>decode\<close>: an error, or the record with the
  fields that are read, zero where a field is absent. How the decoder reads JSON text is not modelled.
\<close>

section \<open>Model\<close>

datatype EventType = EvtLearn | EvtMonitor | EvtProtect

record Event =
  ev_Type :: EventType
  ev_Timestamp :: string
  ev_Message :: string
  ev_DestinationName :: "string option"
  ev_DestinationNamespace :: "string option"
  ev_DestinationPort :: string
  ev_SourceIdentity :: string
  ev_DestinationNamespacedName :: string
  ev_Policy :: string
  ev_SourceAddress :: string

record zrecord =
  zr_Message :: string
  zr_Direction :: string
  zr_SourceIdentity :: string
  zr_DestinationIdentity :: string
  zr_DestinationName :: "string option"
  zr_DestinationNamespace :: "string option"
  zr_DestinationHBONEAddr :: string
  zr_Policy :: string
  zr_ProxyWorkload :: string
  zr_InboundPeer :: string

definition errInvalidCRI :: string where
  "errInvalidCRI = ''invalid CRI log prefix''"

definition extractPort :: "string \<Rightarrow> string" where
  "extractPort address =
     (case last_cut CHR '':'' address of
        None \<Rightarrow> []
      | Some (_, port) \<Rightarrow> if port = [] \<or> \<not> list_all is_digit port then [] else port)"

definition policy_event :: "EventType \<Rightarrow> string \<Rightarrow> zrecord \<Rightarrow> Event" where
  "policy_event t timestamp r =
     \<lparr>ev_Type = t, ev_Timestamp = timestamp, ev_Message = zr_Message r, ev_DestinationName = None,
      ev_DestinationNamespace = None, ev_DestinationPort = [], ev_SourceIdentity = [],
      ev_DestinationNamespacedName = zr_ProxyWorkload r, ev_Policy = zr_Policy r, ev_SourceAddress = zr_InboundPeer r\<rparr>"

definition learn_event :: "string \<Rightarrow> zrecord \<Rightarrow> Event" where
  "learn_event timestamp r =
     \<lparr>ev_Type = EvtLearn, ev_Timestamp = timestamp, ev_Message = zr_Message r,
      ev_DestinationName = zr_DestinationName r, ev_DestinationNamespace = zr_DestinationNamespace r,
      ev_DestinationPort = extractPort (zr_DestinationHBONEAddr r), ev_SourceIdentity = zr_SourceIdentity r,
      ev_DestinationNamespacedName = [], ev_Policy = [], ev_SourceAddress = []\<rparr>"

definition classify :: "string \<Rightarrow> zrecord \<Rightarrow> Event option" where
  "classify timestamp r =
     (if zr_Message r \<in> {''dry-run: deny policy match'', ''dry-run: no allow policies match''} then
        Some (policy_event EvtMonitor timestamp r)
      else if zr_Message r \<in> {''deny policy match'', ''no allow policies matched''} then
        Some (policy_event EvtProtect timestamp r)
      else if zr_Message r = ''connection complete'' then
        (if zr_Direction r \<noteq> ''inbound'' \<or> zr_SourceIdentity r = [] \<or> zr_DestinationIdentity r = [] then None
         else Some (learn_event timestamp r))
      else None)"

text \<open>The result: an error, or the event if there is one.\<close>

definition Parse :: "(string \<Rightarrow> error + zrecord) \<Rightarrow> string \<Rightarrow> error + Event option" where
  "Parse decode line =
     (case str_cut CHR '' '' line of (timestamp, line1, found1) \<Rightarrow>
        if \<not> found1 \<or> timestamp = [] then Inl (Sentinel errInvalidCRI)
        else
          (case str_cut CHR '' '' line1 of (stream, line2, found2) \<Rightarrow>
             if \<not> found2 \<or> (stream \<noteq> ''stdout'' \<and> stream \<noteq> ''stderr'') then Inl (Sentinel errInvalidCRI)
             else
               (case str_cut CHR '' '' line2 of (_, body, found3) \<Rightarrow>
                  if \<not> found3 then Inl (Sentinel errInvalidCRI)
                  else
                    (case decode body of
                       Inl e \<Rightarrow> Inl (wrap ''decode ztunnel JSON'' e)
                     | Inr r \<Rightarrow> Inr (classify timestamp r)))))"

section \<open>Lemmas\<close>

lemma extractPort_digits: "list_all is_digit (extractPort a)"
  by (auto simp: extractPort_def split: option.splits)

lemma extractPort_address: "extractPort (host @ '':'' @ fmt_nat p) = fmt_nat p"
proof -
  have "CHR '':'' \<notin> set (fmt_nat p)" using fmt_nat_digits [of "CHR '':''" p] by (auto simp: is_digit_def)
  then have "last_cut CHR '':'' (host @ CHR '':'' # fmt_nat p) = Some (host, fmt_nat p)" by (simp add: last_cut_Some)
  then show ?thesis using fmt_nat_digits [of _ p] by (simp add: extractPort_def list_all_iff)
qed

lemma parsePort_fmt_nat:
  assumes "1 \<le> p" and "p \<le> 65535"
  shows "parsePort (fmt_nat p) = Inr (word_of_nat p)"
proof -
  have "parse_int 32 (fmt_nat p) = Some (int p)" using assms(2) by (intro parse_int_fmt_nat) simp
  then show ?thesis using assms by (simp add: parsePort_Inr)
qed

text \<open>The parts of a CRI line.\<close>

definition cri_line :: "string \<Rightarrow> string \<Rightarrow> string \<Rightarrow> string \<Rightarrow> string \<Rightarrow> bool" where
  "cri_line ts stream tag body line \<longleftrightarrow> line = ts @ '' '' @ stream @ '' '' @ tag @ '' '' @ body \<and> ts \<noteq> [] \<and> CHR '' '' \<notin> set ts \<and>
     stream \<in> {''stdout'', ''stderr''} \<and> CHR '' '' \<notin> set tag"

lemma Parse_line:
  assumes "cri_line ts stream tag body line"
  shows "Parse decode line = (case decode body of Inl e \<Rightarrow> Inl (wrap ''decode ztunnel JSON'' e) | Inr r \<Rightarrow> Inr (classify ts r))"
proof -
  from assms have "CHR '' '' \<notin> set stream" by (auto simp: cri_line_def)
  with assms show ?thesis by (auto simp: cri_line_def Parse_def str_cut_append)
qed

lemma Parse_malformed:
  assumes "\<nexists>ts stream tag body. cri_line ts stream tag body line"
  shows "Parse decode line = Inl (Sentinel errInvalidCRI)"
proof (rule ccontr)
  assume not: "Parse decode line \<noteq> Inl (Sentinel errInvalidCRI)"
  obtain ts l1 f1 where c1: "str_cut CHR '' '' line = (ts, l1, f1)" by (cases "str_cut CHR '' '' line")
  obtain stream l2 f2 where c2: "str_cut CHR '' '' l1 = (stream, l2, f2)" by (cases "str_cut CHR '' '' l1")
  obtain tag body f3 where c3: "str_cut CHR '' '' l2 = (tag, body, f3)" by (cases "str_cut CHR '' '' l2")
  from not c1 c2 c3 have f: "f1" "ts \<noteq> []" "f2" "stream \<in> {''stdout'', ''stderr''}" "f3" by (auto simp: Parse_def split: if_splits)
  with str_cut_found [of "CHR '' ''" line ts l1] str_cut_found [of "CHR '' ''" l1 stream l2] str_cut_found [of "CHR '' ''" l2 tag body] c1 c2 c3
  have "cri_line ts stream tag body line" by (simp add: cri_line_def)
  with assms show False by blast
qed

section \<open>Properties\<close>

text \<open>What a record says: which event there is, and its fields. The fields that do not belong to its type are empty.\<close>

definition says_event :: "string \<Rightarrow> zrecord \<Rightarrow> Event option \<Rightarrow> bool" where
  "says_event ts r o' \<longleftrightarrow>
     ((\<exists>ev. o' = Some ev \<and> ev_Type ev = EvtLearn) \<longleftrightarrow>
        zr_Message r = ''connection complete'' \<and> zr_Direction r = ''inbound'' \<and> zr_SourceIdentity r \<noteq> [] \<and> zr_DestinationIdentity r \<noteq> []) \<and>
     ((\<exists>ev. o' = Some ev \<and> ev_Type ev = EvtMonitor) \<longleftrightarrow>
        zr_Message r \<in> {''dry-run: deny policy match'', ''dry-run: no allow policies match''}) \<and>
     ((\<exists>ev. o' = Some ev \<and> ev_Type ev = EvtProtect) \<longleftrightarrow> zr_Message r \<in> {''deny policy match'', ''no allow policies matched''}) \<and>
     (\<forall>ev. o' = Some ev \<longrightarrow> ev_Timestamp ev = ts \<and> ev_Message ev = zr_Message r \<and>
        (if ev_Type ev = EvtLearn then
           ev_SourceIdentity ev = zr_SourceIdentity r \<and> ev_DestinationName ev = zr_DestinationName r \<and>
           ev_DestinationNamespace ev = zr_DestinationNamespace r \<and> ev_DestinationPort ev = extractPort (zr_DestinationHBONEAddr r) \<and>
           ev_DestinationNamespacedName ev = [] \<and> ev_Policy ev = [] \<and> ev_SourceAddress ev = []
         else
           ev_DestinationNamespacedName ev = zr_ProxyWorkload r \<and> ev_Policy ev = zr_Policy r \<and> ev_SourceAddress ev = zr_InboundPeer r \<and>
           ev_SourceIdentity ev = [] \<and> ev_DestinationName ev = None \<and> ev_DestinationNamespace ev = None \<and> ev_DestinationPort ev = []))"

text \<open>C39. A CRI line is classified by its message. A line without a timestamp, one of the two streams and a tag is an error, and so is a body that does not decode. Otherwise an inbound
  connection between two identities is learned: the event has the identity of the source, name and namespace of the destination, and
  the digits after the last colon of its address. A dry-run match is a monitor event and an enforced one a protect event, with the workload, the policy
  and the peer address of the record; the fields that do not belong to the type are empty. Everything else is ignored. The timestamp is that of
  the line. If the address ends in a valid port, the scraper parses the port of the learned event back to the same number.\<close>

theorem ztunnel_Parse_classifies:
  "((\<nexists>ts stream tag body. cri_line ts stream tag body line) \<longrightarrow> Parse decode line = Inl (Sentinel errInvalidCRI)) \<and>
   (\<forall>ts stream tag body e. cri_line ts stream tag body line \<and> decode body = Inl e \<longrightarrow>
      Parse decode line = Inl (wrap ''decode ztunnel JSON'' e)) \<and>
   (\<forall>ts stream tag body r. cri_line ts stream tag body line \<and> decode body = Inr r \<longrightarrow>
      (\<exists>o'. Parse decode line = Inr o' \<and> says_event ts r o' \<and>
        (\<forall>ev host p. o' = Some ev \<and> ev_Type ev = EvtLearn \<and> zr_DestinationHBONEAddr r = host @ '':'' @ fmt_nat p \<and> 1 \<le> p \<and> p \<le> 65535 \<longrightarrow>
           parsePort (ev_DestinationPort ev) = Inr (word_of_nat p))))"
proof (intro conjI impI allI)
  assume "\<nexists>ts stream tag body. cri_line ts stream tag body line"
  then show "Parse decode line = Inl (Sentinel errInvalidCRI)" by (rule Parse_malformed)
next
  fix ts stream tag body e
  assume "cri_line ts stream tag body line \<and> decode body = Inl e"
  then show "Parse decode line = Inl (wrap ''decode ztunnel JSON'' e)" using Parse_line [of ts stream tag body line decode] by simp
next
  fix ts stream tag body r
  assume "cri_line ts stream tag body line \<and> decode body = Inr r"
  then have eq: "Parse decode line = Inr (classify ts r)" using Parse_line [of ts stream tag body line decode] by simp
  have "says_event ts r (classify ts r)" by (auto simp: says_event_def classify_def policy_event_def learn_event_def)
  moreover have "parsePort (ev_DestinationPort ev) = Inr (word_of_nat p)"
    if "classify ts r = Some ev" "ev_Type ev = EvtLearn" "zr_DestinationHBONEAddr r = host @ '':'' @ fmt_nat p" "1 \<le> p" "p \<le> 65535" for ev host p
    using that by (auto simp: classify_def policy_event_def learn_event_def parsePort_fmt_nat extractPort_address [simplified] split: if_splits)
  ultimately show "\<exists>o'. Parse decode line = Inr o' \<and> says_event ts r o' \<and>
      (\<forall>ev host p. o' = Some ev \<and> ev_Type ev = EvtLearn \<and> zr_DestinationHBONEAddr r = host @ '':'' @ fmt_nat p \<and> 1 \<le> p \<and> p \<le> 65535 \<longrightarrow>
         parsePort (ev_DestinationPort ev) = Inr (word_of_nat p))"
    unfolding eq by blast
qed

definition sample_zrecord :: zrecord where
  "sample_zrecord = \<lparr>zr_Message = ''connection complete'', zr_Direction = ''inbound'', zr_SourceIdentity = ''spiffe://a'',
     zr_DestinationIdentity = ''spiffe://b'', zr_DestinationName = Some ''web'', zr_DestinationNamespace = Some ''ns'',
     zr_DestinationHBONEAddr = ''10.0.0.7:'' @ fmt_nat 8080, zr_Policy = [], zr_ProxyWorkload = [], zr_InboundPeer = []\<rparr>"

theorem ztunnel_Parse_classifies_witness:
  "\<exists>ev. Parse (\<lambda>_. Inr sample_zrecord) ''T1 stdout F {}'' = Inr (Some ev) \<and> ev_Type ev = EvtLearn \<and> ev_SourceIdentity ev = ''spiffe://a'' \<and>
     parsePort (ev_DestinationPort ev) = Inr 8080"
proof -
  have line: "cri_line ''T1'' ''stdout'' ''F'' ''{}'' ''T1 stdout F {}''" by (simp add: cri_line_def)
  have a: "zr_DestinationHBONEAddr sample_zrecord = ''10.0.0.7'' @ '':'' @ fmt_nat 8080" by (simp add: sample_zrecord_def)
  from ztunnel_Parse_classifies [where decode = "\<lambda>_. Inr sample_zrecord" and line = "''T1 stdout F {}''", THEN conjunct2, THEN conjunct2,
      THEN spec, THEN spec, THEN spec, THEN spec, THEN spec, THEN mp, OF conjI [OF line refl]]
  obtain o' where o': "Parse (\<lambda>_. Inr sample_zrecord) ''T1 stdout F {}'' = Inr o'" and ev: "says_event ''T1'' sample_zrecord o'"
    and p: "\<forall>ev host p. o' = Some ev \<and> ev_Type ev = EvtLearn \<and> zr_DestinationHBONEAddr sample_zrecord = host @ '':'' @ fmt_nat p \<and>
        1 \<le> p \<and> p \<le> 65535 \<longrightarrow> parsePort (ev_DestinationPort ev) = Inr (word_of_nat p)"
    by (elim exE conjE)
  from ev obtain x where x: "o' = Some x" "ev_Type x = EvtLearn" "ev_SourceIdentity x = ''spiffe://a''"
    unfolding says_event_def by (auto simp: sample_zrecord_def)
  from p [THEN spec, THEN spec, THEN spec, of x "''10.0.0.7''" 8080] a x have "parsePort (ev_DestinationPort x) = Inr 8080" by simp
  with o' x show ?thesis by blast
qed

end
