(* ===== verification/TlsUtil.thy ===== *)
theory TlsUtil
  imports KubeClient
begin

text \<open>
  \<^verbatim>\<open>internal/tlsutil/certs.go\<close>: the mutual-TLS credentials of both ends of a provider connection. What os,
  path/filepath, crypto/tls and crypto/x509 do is in \<open>tls_env\<close>: the state of the file system at the time of a
  call, and the parsers of PEM material. The callback that a server configuration carries is kept as the
  three paths it captures; \<open>handshake_config\<close> is its body, run against the file system of the handshake.
\<close>

section \<open>Model\<close>

type_synonym pem = string

definition CertFile :: string where "CertFile = ''tls.crt''"
definition KeyFile :: string where "KeyFile = ''tls.key''"
definition CAFile :: string where "CAFile = ''ca.crt''"

record ('c, 'p) tls_env =
  te_stat :: "string \<Rightarrow> error option"
  te_isNotExist :: "error \<Rightarrow> bool"
  te_readFile :: "string \<Rightarrow> error + pem"
  te_join :: "string \<Rightarrow> string \<Rightarrow> string"
  te_X509KeyPair :: "pem \<Rightarrow> pem \<Rightarrow> error + 'c"
  te_LoadX509KeyPair :: "string \<Rightarrow> string \<Rightarrow> error + 'c"
  te_AppendCertsFromPEM :: "pem \<Rightarrow> 'p option"

datatype ClientAuthType = NoClientCert | RequireAndVerifyClientCert

definition VersionTLS13 :: "16 word" where "VersionTLS13 = 0x0304"

record ('c, 'p) tls_config =
  tc_Certificates :: "'c list"
  tc_ClientAuth :: ClientAuthType
  tc_ClientCAs :: "'p option"
  tc_RootCAs :: "'p option"
  tc_MinVersion :: "16 word"
  tc_ServerName :: string
  tc_GetConfigForClient :: "(string \<times> string \<times> string) option"

text \<open>The zero value of \<open>tls.Config\<close>, which the composite literals of the source start from.\<close>

definition tls_zero :: "('c, 'p) tls_config" where
  "tls_zero = \<lparr>tc_Certificates = [], tc_ClientAuth = NoClientCert, tc_ClientCAs = None, tc_RootCAs = None,
     tc_MinVersion = 0, tc_ServerName = [], tc_GetConfigForClient = None\<rparr>"

datatype ('c, 'p) TransportCredentials = Insecure | NewTLS "('c, 'p) tls_config"

subsection \<open>Loading\<close>

definition LoadCACertPoolFromPEM :: "('c, 'p) tls_env \<Rightarrow> pem \<Rightarrow> error + 'p" where
  "LoadCACertPoolFromPEM env caPEM =
     (case te_AppendCertsFromPEM env caPEM of
        None \<Rightarrow> Inl (Plain ''failed to parse CA certificate from PEM'')
      | Some pool \<Rightarrow> Inr pool)"

definition LoadCACertPool :: "('c, 'p) tls_env \<Rightarrow> string \<Rightarrow> error + 'p" where
  "LoadCACertPool env path =
     (case te_readFile env path of
        Inl e \<Rightarrow> Inl (wrap (''failed to read CA certificate '' @ path) e)
      | Inr caPem \<Rightarrow>
          (case LoadCACertPoolFromPEM env caPem of
             Inl e \<Rightarrow> Inl (wrap (''failed to parse CA certificate from '' @ path) e)
           | Inr pool \<Rightarrow> Inr pool))"

definition LoadKeyPairFromPEM :: "('c, 'p) tls_env \<Rightarrow> pem \<Rightarrow> pem \<Rightarrow> error + 'c" where
  "LoadKeyPairFromPEM env certPEM keyPEM =
     (case te_X509KeyPair env certPEM keyPEM of
        Inl e \<Rightarrow> Inl (wrap ''failed to load key pair from PEM'' e)
      | Inr cert \<Rightarrow> Inr cert)"

definition LoadKeyPair :: "('c, 'p) tls_env \<Rightarrow> string \<Rightarrow> string \<Rightarrow> error + 'c" where
  "LoadKeyPair env certPath keyPath =
     (case te_LoadX509KeyPair env certPath keyPath of
        Inl e \<Rightarrow> Inl (wrap (''failed to load key pair ('' @ certPath @ '', '' @ keyPath @ '')'') e)
      | Inr cert \<Rightarrow> Inr cert)"

definition ValidateCertDir :: "('c, 'p) tls_env \<Rightarrow> string \<Rightarrow> error option" where
  "ValidateCertDir env dirPath =
     (if dirPath = [] then Some (Plain ''certificate directory path is empty'')
      else
        (case te_stat env dirPath of
           Some e \<Rightarrow>
             if te_isNotExist env e then Some (wrap ''certificate directory does not exist'' e)
             else (case LoadKeyPair env (te_join env dirPath CertFile) (te_join env dirPath KeyFile) of Inl e' \<Rightarrow> Some e' | Inr _ \<Rightarrow> None)
         | None \<Rightarrow>
             (case LoadKeyPair env (te_join env dirPath CertFile) (te_join env dirPath KeyFile) of Inl e' \<Rightarrow> Some e' | Inr _ \<Rightarrow> None)))"

subsection \<open>Server\<close>

definition ServerCredentialsFromPEM ::
    "('c, 'p) tls_env \<Rightarrow> pem \<Rightarrow> pem \<Rightarrow> pem \<Rightarrow> error + ('c, 'p) TransportCredentials" where
  "ServerCredentialsFromPEM env caPEM certPEM keyPEM =
     (case LoadKeyPairFromPEM env certPEM keyPEM of
        Inl e \<Rightarrow> Inl (wrap ''failed to load server key pair'' e)
      | Inr serverCert \<Rightarrow>
          (case LoadCACertPoolFromPEM env caPEM of
             Inl e \<Rightarrow> Inl (wrap ''failed to load CA certificate pool'' e)
           | Inr caPool \<Rightarrow>
               Inr (NewTLS (tls_zero\<lparr>tc_Certificates := [serverCert], tc_ClientAuth := RequireAndVerifyClientCert,
                 tc_ClientCAs := Some caPool, tc_MinVersion := VersionTLS13\<rparr>))))"

definition ServerCredentials :: "('c, 'p) tls_env \<Rightarrow> string \<Rightarrow> error + ('c, 'p) TransportCredentials" where
  "ServerCredentials env certDir =
     (case ValidateCertDir env certDir of
        Some e \<Rightarrow> Inl (wrap ''invalid cert dir'' e)
      | None \<Rightarrow>
          let caPath = te_join env certDir CAFile; certPath = te_join env certDir CertFile; keyPath = te_join env certDir KeyFile in
          (case LoadCACertPool env caPath of
             Inl e \<Rightarrow> Inl e
           | Inr _ \<Rightarrow>
               Inr (NewTLS (tls_zero\<lparr>tc_MinVersion := VersionTLS13, tc_ClientAuth := RequireAndVerifyClientCert,
                 tc_GetConfigForClient := Some (caPath, certPath, keyPath)\<rparr>))))"

text \<open>The body of \<open>GetConfigForClient\<close>, called on every handshake.\<close>

definition handshake_config ::
    "('c, 'p) tls_env \<Rightarrow> string \<times> string \<times> string \<Rightarrow> error + ('c, 'p) tls_config" where
  "handshake_config env paths =
     (case paths of (caPath, certPath, keyPath) \<Rightarrow>
        (case LoadCACertPool env caPath of
           Inl e \<Rightarrow> Inl e
         | Inr caPool \<Rightarrow>
             (case LoadKeyPair env certPath keyPath of
                Inl e \<Rightarrow> Inl e
              | Inr serverCert \<Rightarrow>
                  Inr (tls_zero\<lparr>tc_MinVersion := VersionTLS13, tc_ClientAuth := RequireAndVerifyClientCert,
                    tc_ClientCAs := Some caPool, tc_Certificates := [serverCert]\<rparr>))))"

subsection \<open>Client\<close>

definition ClientCredentialsFromPEM ::
    "('c, 'p) tls_env \<Rightarrow> pem \<Rightarrow> pem \<Rightarrow> pem \<Rightarrow> string \<Rightarrow> error + ('c, 'p) TransportCredentials" where
  "ClientCredentialsFromPEM env caPEM certPEM keyPEM serverName =
     (case LoadCACertPoolFromPEM env caPEM of
        Inl e \<Rightarrow> Inl (wrap ''failed to load CA certificate pool'' e)
      | Inr pool \<Rightarrow>
          (case LoadKeyPairFromPEM env certPEM keyPEM of
             Inl e \<Rightarrow> Inl (wrap ''failed to load client key pair'' e)
           | Inr clientCert \<Rightarrow>
               Inr (NewTLS (tls_zero\<lparr>tc_Certificates := [clientCert], tc_RootCAs := Some pool,
                 tc_MinVersion := VersionTLS13, tc_ServerName := serverName\<rparr>))))"

definition readCertDirPEMs :: "('c, 'p) tls_env \<Rightarrow> string \<Rightarrow> error + (pem \<times> pem \<times> pem)" where
  "readCertDirPEMs env certDir =
     (case ValidateCertDir env certDir of
        Some e \<Rightarrow> Inl (wrap ''invalid cert dir'' e)
      | None \<Rightarrow>
          let certPath = te_join env certDir CertFile; keyPath = te_join env certDir KeyFile; caPath = te_join env certDir CAFile in
          (case te_readFile env certPath of
             Inl e \<Rightarrow> Inl (wrap (''failed to read certificate '' @ certPath) e)
           | Inr certPEM \<Rightarrow>
               (case te_readFile env keyPath of
                  Inl e \<Rightarrow> Inl (wrap (''failed to read key '' @ keyPath) e)
                | Inr keyPEM \<Rightarrow>
                    (case te_readFile env caPath of
                       Inl e \<Rightarrow> Inl (wrap (''failed to read CA certificate '' @ caPath) e)
                     | Inr caPEM \<Rightarrow> Inr (caPEM, certPEM, keyPEM)))))"

definition ClientCredentials :: "('c, 'p) tls_env \<Rightarrow> string \<Rightarrow> string \<Rightarrow> error + ('c, 'p) TransportCredentials" where
  "ClientCredentials env certDir serverName =
     (case readCertDirPEMs env certDir of
        Inl e \<Rightarrow> Inl e
      | Inr (caPEM, certPEM, keyPEM) \<Rightarrow> ClientCredentialsFromPEM env caPEM certPEM keyPEM serverName)"

section \<open>Lemmas\<close>

text \<open>What the two ends promise: a client verifies the server against the given CA and shows its certificate;
  a server asks every client for a certificate of its CA.\<close>

definition client_mtls :: "('c, 'p) tls_env \<Rightarrow> pem \<Rightarrow> pem \<Rightarrow> pem \<Rightarrow> string \<Rightarrow> ('c, 'p) TransportCredentials \<Rightarrow> bool" where
  "client_mtls env ca cert key name creds \<longleftrightarrow>
     (case creds of
        Insecure \<Rightarrow> False
      | NewTLS cfg \<Rightarrow>
          tc_MinVersion cfg = VersionTLS13 \<and> tc_ServerName cfg = name \<and>
          tc_RootCAs cfg = te_AppendCertsFromPEM env ca \<and> tc_RootCAs cfg \<noteq> None \<and>
          map Inr (tc_Certificates cfg) = [te_X509KeyPair env cert key])"

lemma ClientCredentialsFromPEM_mtls:
  "ClientCredentialsFromPEM env ca cert key name = Inr creds \<Longrightarrow> client_mtls env ca cert key name creds"
  by (auto simp: ClientCredentialsFromPEM_def LoadCACertPoolFromPEM_def LoadKeyPairFromPEM_def client_mtls_def tls_zero_def
      split: sum.splits option.splits)

text \<open>A server configuration only delegates to the callback, and asks for client certificates even without it.\<close>

definition server_mtls :: "(string \<times> string \<times> string) \<Rightarrow> ('c, 'p) TransportCredentials \<Rightarrow> bool" where
  "server_mtls paths creds \<longleftrightarrow>
     (case creds of
        Insecure \<Rightarrow> False
      | NewTLS cfg \<Rightarrow> tc_MinVersion cfg = VersionTLS13 \<and> tc_ClientAuth cfg = RequireAndVerifyClientCert \<and>
          tc_GetConfigForClient cfg = Some paths)"

lemma ServerCredentials_mtls:
  "ServerCredentials env dir = Inr creds \<Longrightarrow>
     server_mtls (te_join env dir CAFile, te_join env dir CertFile, te_join env dir KeyFile) creds \<and> ValidateCertDir env dir = None"
  by (auto simp: ServerCredentials_def server_mtls_def Let_def split: sum.splits option.splits)

text \<open>The configuration of one handshake: the CA and the certificate are those on disk now.\<close>

definition current_mtls :: "('c, 'p) tls_env \<Rightarrow> string \<times> string \<times> string \<Rightarrow> ('c, 'p) tls_config \<Rightarrow> bool" where
  "current_mtls env paths cfg \<longleftrightarrow>
     (case paths of (caPath, certPath, keyPath) \<Rightarrow>
        tc_MinVersion cfg = VersionTLS13 \<and> tc_ClientAuth cfg = RequireAndVerifyClientCert \<and>
        tc_ClientCAs cfg \<noteq> None \<and> Inr (the (tc_ClientCAs cfg)) = LoadCACertPool env caPath \<and>
        map Inr (tc_Certificates cfg) = [te_LoadX509KeyPair env certPath keyPath])"

lemma handshake_current: "handshake_config env paths = Inr cfg \<Longrightarrow> current_mtls env paths cfg"
  by (auto simp: handshake_config_def current_mtls_def LoadKeyPair_def split: sum.splits prod.splits)

end
