(* ===== verification/CertSource.thy ===== *)
theory CertSource
  imports TlsUtil
begin

text \<open>
  \<^verbatim>\<open>internal/certsource\<close>: the TLS material of the connection to a flow provider. The configuration is
  checked, and a source is built that reads a directory or a Secret (with the CA optionally in a
  ConfigMap). The file system, as the \<open>tls_env\<close> of TlsUtil, and the API reader are arguments.
\<close>

section \<open>Model\<close>

definition ModeIssuer :: string where "ModeIssuer = ''issuer''"
definition ModeExistingSecret :: string where "ModeExistingSecret = ''existingSecret''"
definition ModeInsecure :: string where "ModeInsecure = ''insecure''"

lemmas mode_defs = ModeIssuer_def ModeExistingSecret_def ModeInsecure_def

record Config =
  cfg_Mode :: string
  cfg_CertDir :: string
  cfg_CertSecret :: string
  cfg_CAConfigMap :: string
  cfg_CABundleKey :: string
  cfg_ServerName :: string

record Secret =
  sec_Meta :: ObjectMeta
  sec_Data :: "(string \<times> pem) list"

record ConfigMap =
  cm_Data :: strmap
  cm_BinaryData :: "(string \<times> pem) list"

record api_reader =
  getSecret :: "NamespacedName \<Rightarrow> error + Secret"
  getConfigMap :: "NamespacedName \<Rightarrow> error + ConfigMap"

record SecretSource =
  ss_secret :: NamespacedName
  ss_caConfigMap :: NamespacedName
  ss_caBundleKey :: string

datatype Source = DirSource string | SecretSrc SecretSource

definition zero_name :: NamespacedName where
  "zero_name = \<lparr>nn_Namespace = [], nn_Name = []\<rparr>"

abbreviation quoted :: "string \<Rightarrow> string" where
  "quoted s \<equiv> [CHR 0x22] @ s @ [CHR 0x22]"

subsection \<open>certsource.go\<close>

definition ParseNamespacedName :: "string \<Rightarrow> error + NamespacedName" where
  "ParseNamespacedName val =
     (case str_cut CHR ''/'' val of (ns, name, found) \<Rightarrow>
        if \<not> found \<or> ns = [] \<or> name = [] \<or> CHR ''/'' \<in> set name
        then Inl (Plain (''expected namespace/name, got '' @ quoted val))
        else Inr \<lparr>nn_Namespace = ns, nn_Name = name\<rparr>)"

definition validateIssuer :: "('c, 'p) tls_env \<Rightarrow> Config \<Rightarrow> error option" where
  "validateIssuer env cfg =
     (if cfg_CertDir cfg = [] then
        Some (Plain (''provider TLS mode '' @ quoted (cfg_Mode cfg) @ '' requires --provider-tls-cert-dir''))
      else if cfg_CertSecret cfg \<noteq> [] \<or> cfg_CAConfigMap cfg \<noteq> [] then
        Some (Plain (''provider TLS mode '' @ quoted (cfg_Mode cfg) @
          '' does not accept --provider-tls-cert-secret or --provider-tls-ca-configmap''))
      else map_option (wrap ''provider TLS cert dir'') (ValidateCertDir env (cfg_CertDir cfg)))"

definition validateExistingSecret :: "('c, 'p) tls_env \<Rightarrow> Config \<Rightarrow> error option" where
  "validateExistingSecret env cfg =
     (let dirSet = (cfg_CertDir cfg \<noteq> []); secretSet = (cfg_CertSecret cfg \<noteq> []) in
      if dirSet = secretSet then
        Some (Plain (''provider TLS mode '' @ quoted (cfg_Mode cfg) @
          '' requires exactly one of --provider-tls-cert-dir or --provider-tls-cert-secret''))
      else if dirSet then
        (if cfg_CAConfigMap cfg \<noteq> [] then Some (Plain ''--provider-tls-ca-configmap requires --provider-tls-cert-secret'')
         else map_option (wrap ''provider TLS cert dir'') (ValidateCertDir env (cfg_CertDir cfg)))
      else
        (case ParseNamespacedName (cfg_CertSecret cfg) of
           Inl e \<Rightarrow> Some (wrap ''--provider-tls-cert-secret'' e)
         | Inr _ \<Rightarrow>
             if cfg_CAConfigMap cfg \<noteq> [] then
               (case ParseNamespacedName (cfg_CAConfigMap cfg) of
                  Inl e \<Rightarrow> Some (wrap ''--provider-tls-ca-configmap'' e)
                | Inr _ \<Rightarrow> None)
             else None))"

definition Validate :: "('c, 'p) tls_env \<Rightarrow> Config \<Rightarrow> error option" where
  "Validate env cfg =
     (if cfg_Mode cfg = ModeInsecure then
        (if cfg_CertDir cfg \<noteq> [] \<or> cfg_CertSecret cfg \<noteq> [] \<or> cfg_CAConfigMap cfg \<noteq> [] \<or> cfg_ServerName cfg \<noteq> [] then
           Some (Plain (''provider TLS mode '' @ quoted (cfg_Mode cfg) @
             '' does not accept --provider-tls-cert-dir, --provider-tls-cert-secret, --provider-tls-ca-configmap, or --provider-tls-server-name''))
         else None)
      else if cfg_Mode cfg = ModeIssuer then validateIssuer env cfg
      else if cfg_Mode cfg = ModeExistingSecret then validateExistingSecret env cfg
      else Some (Plain (''unknown provider TLS mode '' @ quoted (cfg_Mode cfg) @ '' (want issuer, existingSecret, or insecure)'')))"

subsection \<open>source.go\<close>

definition NewDirSource :: "string \<Rightarrow> error + Source" where
  "NewDirSource dir = (if dir = [] then Inl (Plain ''certificate directory is empty'') else Inr (DirSource dir))"

definition NewSecretSource :: "api_reader option \<Rightarrow> string \<Rightarrow> string \<Rightarrow> string \<Rightarrow> error + Source" where
  "NewSecretSource reader secret caConfigMap caBundleKey =
     (if reader = None then Inl (Plain ''API reader is required'')
      else
        (case ParseNamespacedName secret of
           Inl e \<Rightarrow> Inl (wrap ''certificate secret'' e)
         | Inr secretName \<Rightarrow>
             let src = \<lparr>ss_secret = secretName, ss_caConfigMap = zero_name,
                        ss_caBundleKey = (if caBundleKey = [] then CAFile else caBundleKey)\<rparr>
             in if caConfigMap \<noteq> [] then
                  (case ParseNamespacedName caConfigMap of
                     Inl e \<Rightarrow> Inl (wrap ''CA configmap'' e)
                   | Inr caName \<Rightarrow> Inr (SecretSrc (src\<lparr>ss_caConfigMap := caName\<rparr>)))
                else Inr (SecretSrc src)))"

definition New_source :: "('c, 'p) tls_env \<Rightarrow> Config \<Rightarrow> api_reader option \<Rightarrow> error + Source" where
  "New_source env cfg reader =
     (case Validate env cfg of
        Some e \<Rightarrow> Inl e
      | None \<Rightarrow>
          if cfg_Mode cfg = ModeIssuer then NewDirSource (cfg_CertDir cfg)
          else if cfg_Mode cfg = ModeExistingSecret then
            (if cfg_CertDir cfg \<noteq> [] then NewDirSource (cfg_CertDir cfg)
             else NewSecretSource reader (cfg_CertSecret cfg) (cfg_CAConfigMap cfg) (cfg_CABundleKey cfg))
          else if cfg_Mode cfg = ModeInsecure then
            Inl (Plain (''provider TLS mode '' @ quoted (cfg_Mode cfg) @ '' has no certificate source''))
          else Inl (Plain (''unknown provider TLS mode '' @ quoted (cfg_Mode cfg))))"

definition secretKey :: "Secret \<Rightarrow> string \<Rightarrow> error + pem" where
  "secretKey secret key =
     (case map_of (sec_Data secret) key of
        None \<Rightarrow> Inl (Plain (''secret '' @ om_Namespace (sec_Meta secret) @ ''/'' @ om_Name (sec_Meta secret) @ '' is missing key '' @ quoted key))
      | Some v \<Rightarrow>
          if v = [] then Inl (Plain (''secret '' @ om_Namespace (sec_Meta secret) @ ''/'' @ om_Name (sec_Meta secret) @ '' is missing key '' @ quoted key))
          else Inr v)"

text \<open>The value under a key, unless it is empty.\<close>

definition nonempty_value :: "(string \<times> string) list \<Rightarrow> string \<Rightarrow> string option" where
  "nonempty_value m k = (case map_of m k of Some v \<Rightarrow> if v \<noteq> [] then Some v else None | None \<Rightarrow> None)"

definition caFromConfigMap :: "api_reader \<Rightarrow> SecretSource \<Rightarrow> error + pem" where
  "caFromConfigMap reader s =
     (case getConfigMap reader (ss_caConfigMap s) of
        Inl e \<Rightarrow> Inl (wrap (''failed to get ConfigMap '' @ nn_string (ss_caConfigMap s)) e)
      | Inr cm \<Rightarrow>
          (case nonempty_value (cm_Data cm) (ss_caBundleKey s) of
             Some v \<Rightarrow> Inr v
           | None \<Rightarrow>
               (case nonempty_value (cm_BinaryData cm) (ss_caBundleKey s) of
                  Some v \<Rightarrow> Inr v
                | None \<Rightarrow> Inl (Plain (''configmap '' @ nn_string (ss_caConfigMap s) @ '' is missing key '' @ quoted (ss_caBundleKey s))))))"

text \<open>\<open>Get\<close> of the two sources: the CA, the certificate and the key. \<open>ctxErr\<close> is the
  error of the context, if it is cancelled.\<close>

definition dir_Get ::
    "('c, 'p) tls_env \<Rightarrow> error option \<Rightarrow> string \<Rightarrow> error + (pem \<times> pem \<times> pem)" where
  "dir_Get env ctxErr dir =
     (let certPath = te_join env dir CertFile; keyPath = te_join env dir KeyFile; caPath = te_join env dir CAFile in
      case ctxErr of
        Some e \<Rightarrow> Inl e
      | None \<Rightarrow>
      (case te_readFile env certPath of
        Inl e \<Rightarrow> Inl (wrap (''failed to read certificate '' @ certPath) e)
      | Inr cert \<Rightarrow>
          (case te_readFile env keyPath of
             Inl e \<Rightarrow> Inl (wrap (''failed to read key '' @ keyPath) e)
           | Inr key \<Rightarrow>
               (case te_readFile env caPath of
                  Inl e \<Rightarrow> Inl (wrap (''failed to read CA certificate '' @ caPath) e)
                | Inr ca \<Rightarrow> Inr (ca, cert, key)))))"

definition secret_Get :: "api_reader \<Rightarrow> SecretSource \<Rightarrow> error + (pem \<times> pem \<times> pem)" where
  "secret_Get reader s =
     (case getSecret reader (ss_secret s) of
        Inl e \<Rightarrow> Inl (wrap (''failed to get Secret '' @ nn_string (ss_secret s)) e)
      | Inr secret \<Rightarrow>
          (case secretKey secret CertFile of
             Inl e \<Rightarrow> Inl e
           | Inr cert \<Rightarrow>
               (case secretKey secret KeyFile of
                  Inl e \<Rightarrow> Inl e
                | Inr key \<Rightarrow>
                    if ss_caConfigMap s \<noteq> zero_name then
                      (case caFromConfigMap reader s of Inl e \<Rightarrow> Inl e | Inr ca \<Rightarrow> Inr (ca, cert, key))
                    else (case secretKey secret CAFile of Inl e \<Rightarrow> Inl e | Inr ca \<Rightarrow> Inr (ca, cert, key)))))"

text \<open>The interface \<open>Source\<close>: each call reads the material anew.\<close>

fun source_Get :: "('c, 'p) tls_env \<Rightarrow> api_reader \<Rightarrow> error option \<Rightarrow> Source \<Rightarrow> error + (pem \<times> pem \<times> pem)" where
  "source_Get env reader ctxErr (DirSource dir) = dir_Get env ctxErr dir"
| "source_Get env reader ctxErr (SecretSrc s) = secret_Get reader s"

section \<open>Lemmas\<close>

lemma ParseNamespacedName_string:
  assumes "ParseNamespacedName s = Inr k"
  shows "nn_string k = s \<and> s \<noteq> [] \<and> k \<noteq> zero_name"
  using assms
  by (auto simp: ParseNamespacedName_def nn_string_def zero_name_def dest: str_cut_found split: prod.splits if_splits)

lemma ParseNamespacedName_complete:
  assumes "ns \<noteq> []" and "name \<noteq> []" and "CHR ''/'' \<notin> set ns" and "CHR ''/'' \<notin> set name"
  shows "ParseNamespacedName (ns @ ''/'' @ name) = Inr \<lparr>nn_Namespace = ns, nn_Name = name\<rparr>"
  using assms by (simp add: ParseNamespacedName_def str_cut_append)

text \<open>A configuration that passes \<open>Validate\<close> always yields a source, except in insecure mode, which has none:
  with a directory it is that directory; otherwise it is the Secret of the reference, with the CA in
  the ConfigMap exactly when one is given. A configuration that does not pass yields its error.\<close>

lemma New_source_error: "Validate env cfg = Some e \<Longrightarrow> New_source env cfg reader = Inl e"
  by (simp add: New_source_def)

lemma New_source_insecure: "cfg_Mode cfg = ModeInsecure \<Longrightarrow> \<exists>e. New_source env cfg reader = Inl e"
  by (cases "Validate env cfg") (auto simp: New_source_def mode_defs)

lemma New_source_ok:
  assumes "reader \<noteq> None" and "Validate env cfg = None" and "cfg_Mode cfg \<noteq> ModeInsecure"
  shows "if cfg_CertDir cfg \<noteq> [] then New_source env cfg reader = Inr (DirSource (cfg_CertDir cfg)) \<and> ValidateCertDir env (cfg_CertDir cfg) = None
    else \<exists>s. New_source env cfg reader = Inr (SecretSrc s) \<and> nn_string (ss_secret s) = cfg_CertSecret cfg \<and>
           (if cfg_CAConfigMap cfg = [] then ss_caConfigMap s = zero_name
            else nn_string (ss_caConfigMap s) = cfg_CAConfigMap cfg \<and> ss_caConfigMap s \<noteq> zero_name)"
  using assms
  by (auto simp: New_source_def Validate_def validateIssuer_def validateExistingSecret_def NewDirSource_def NewSecretSource_def
      Let_def mode_defs dest!: ParseNamespacedName_string split: sum.splits option.splits if_splits)

end
