(* ===== verification/ProviderTls.thy ===== *)
theory ProviderTls
  imports CertSource
begin

text \<open>
  The connection to the flow provider: how \<^verbatim>\<open>cmd/controller/main.go\<close> turns the provider flags into a scraper
  configuration (\<open>run\<close>, \<open>setupProviderScraper\<close>), and the credentials with which the scrapers of \<^verbatim>\<open>internal/scraper\<close>
  dial or serve. The scrapers keep the fields that concern the connection; the error of \<open>mgr.Add\<close> is an
  argument. Material is read again on every dial and on every handshake, so these operations take the file
  system and the API reader of that moment.
\<close>

section \<open>Model\<close>

definition ProviderIstio :: string where "ProviderIstio = ''istio''"
definition ProviderCilium :: string where "ProviderCilium = ''cilium''"
definition ProviderCalico :: string where "ProviderCalico = ''calico''"

lemmas provider_defs = ProviderIstio_def ProviderCilium_def ProviderCalico_def

record providerConfig =
  pc_name :: string
  pc_endpoint :: string
  pc_tlsMode :: string
  pc_tlsCertDir :: string
  pc_tlsCertSecret :: string
  pc_tlsCAConfigMap :: string
  pc_tlsCABundleKey :: string
  pc_tlsServerName :: string

record hop =
  hop_Endpoint :: string
  hop_CertSource :: "Source option"
  hop_TLSServerName :: string

datatype ScraperConfig = IstioConf (OtelPort: int) (TLSCertDir: string) | CiliumConf hop | CalicoConf hop

datatype ('c, 'p) DialOption = WithTransportCredentials "('c, 'p) TransportCredentials" | WithAuthority string

subsection \<open>main.go\<close>

definition certSourceConfig :: "providerConfig \<Rightarrow> Config" where
  "certSourceConfig p =
     \<lparr>cfg_Mode = pc_tlsMode p, cfg_CertDir = pc_tlsCertDir p, cfg_CertSecret = pc_tlsCertSecret p,
      cfg_CAConfigMap = pc_tlsCAConfigMap p, cfg_CABundleKey = pc_tlsCABundleKey p, cfg_ServerName = pc_tlsServerName p\<rparr>"

definition istioTLSCertDir :: "string \<Rightarrow> string \<Rightarrow> error + string" where
  "istioTLSCertDir tlsMode tlsCertDir =
     (if tlsMode \<noteq> ModeInsecure \<and> tlsCertDir = [] then
        Inl (Plain (''istio provider TLS mode '' @ quoted tlsMode @ '' requires --provider-tls-cert-dir''))
      else Inr tlsCertDir)"

definition newProviderCertSource :: "('c, 'p) tls_env \<Rightarrow> api_reader \<Rightarrow> providerConfig \<Rightarrow> error + Source option" where
  "newProviderCertSource env reader p =
     (let cfg = certSourceConfig p in
      if cfg_Mode cfg = ModeInsecure then Inr None
      else
        (case New_source env cfg (Some reader) of
           Inl e \<Rightarrow> Inl (wrap ''unable to create provider TLS cert source'' e)
         | Inr source \<Rightarrow> Inr (Some source)))"

definition validateCalicoTLSMode :: "string \<Rightarrow> error option" where
  "validateCalicoTLSMode tlsMode =
     (if tlsMode = ModeInsecure then
        Some (Plain (''calico provider does not support TLS mode '' @ quoted tlsMode @ ''; use existingSecret or issuer''))
      else None)"

definition add_scraper :: "error option \<Rightarrow> string \<Rightarrow> ScraperConfig \<Rightarrow> error + ScraperConfig" where
  "add_scraper addErr name s =
     (case addErr of Some e \<Rightarrow> Inl (wrap (''unable to add '' @ name @ '' scraper to manager'') e) | None \<Rightarrow> Inr s)"

definition setupProviderScraper ::
    "('c, 'p) tls_env \<Rightarrow> api_reader \<Rightarrow> error option \<Rightarrow> providerConfig \<Rightarrow> error + ScraperConfig" where
  "setupProviderScraper env reader addErr p =
     (if pc_name p = ProviderIstio then
        (case parse_int 64 (pc_endpoint p) of
           None \<Rightarrow> Inl (wrap (''istio provider: invalid OTEL port '' @ quoted (pc_endpoint p)) (Plain ''strconv.Atoi''))
         | Some otelPort \<Rightarrow>
             (case istioTLSCertDir (pc_tlsMode p) (pc_tlsCertDir p) of
                Inl e \<Rightarrow> Inl e
              | Inr tlsCertDir \<Rightarrow> add_scraper addErr ''istio'' (IstioConf otelPort tlsCertDir)))
      else if pc_name p = ProviderCilium then
        (case newProviderCertSource env reader p of
           Inl e \<Rightarrow> Inl e
         | Inr certSource \<Rightarrow>
             add_scraper addErr ''cilium''
               (CiliumConf \<lparr>hop_Endpoint = pc_endpoint p, hop_CertSource = certSource, hop_TLSServerName = pc_tlsServerName p\<rparr>))
      else if pc_name p = ProviderCalico then
        (case validateCalicoTLSMode (pc_tlsMode p) of
           Some e \<Rightarrow> Inl e
         | None \<Rightarrow>
             (case newProviderCertSource env reader p of
                Inl e \<Rightarrow> Inl e
              | Inr certSource \<Rightarrow>
                  add_scraper addErr ''calico''
                    (CalicoConf \<lparr>hop_Endpoint = pc_endpoint p, hop_CertSource = certSource, hop_TLSServerName = pc_tlsServerName p\<rparr>)))
      else Inl (Plain (''unsupported provider '' @ quoted (pc_name p))))"

text \<open>What \<open>run\<close> does with the provider flags: they are checked first, against the file system \<open>env0\<close> of that
  moment; the scraper is set up later, against \<open>env\<close>.\<close>

definition run_provider ::
    "('c, 'p) tls_env \<Rightarrow> ('c, 'p) tls_env \<Rightarrow> api_reader \<Rightarrow> error option \<Rightarrow> providerConfig \<Rightarrow> error + ScraperConfig" where
  "run_provider env0 env reader addErr p =
     (case Validate env0 (certSourceConfig p) of
        Some e \<Rightarrow> Inl (wrap ''invalid provider TLS flags'' e)
      | None \<Rightarrow> setupProviderScraper env reader addErr p)"

subsection \<open>The scrapers' credentials\<close>

definition resolveTLSServerName :: "string \<Rightarrow> string \<Rightarrow> string \<Rightarrow> error + string" where
  "resolveTLSServerName endpoint override peer =
     (if override \<noteq> [] then Inr override
      else
        (case split_host_port endpoint of
           None \<Rightarrow> Inl (wrap (''invalid '' @ peer @ '' endpoint '' @ quoted endpoint) (Plain ''net.SplitHostPort''))
         | Some (host, _) \<Rightarrow> Inr host))"

definition calico_dialOptions ::
    "('c, 'p) tls_env \<Rightarrow> api_reader \<Rightarrow> error option \<Rightarrow> hop \<Rightarrow> error + ('c, 'p) DialOption list" where
  "calico_dialOptions env reader ctxErr s =
     (case hop_CertSource s of
        None \<Rightarrow> Inl (Plain ''goldmane requires TLS credentials; set --provider-tls-mode=existingSecret or issuer'')
      | Some source \<Rightarrow>
          (case resolveTLSServerName (hop_Endpoint s) (hop_TLSServerName s) ''Goldmane'' of
             Inl e \<Rightarrow> Inl e
           | Inr serverName \<Rightarrow>
               (case source_Get env reader ctxErr source of
                  Inl e \<Rightarrow> Inl (wrap ''failed to load TLS credentials for Goldmane'' e)
                | Inr (caPEM, certPEM, keyPEM) \<Rightarrow>
                    (case ClientCredentialsFromPEM env caPEM certPEM keyPEM serverName of
                       Inl e \<Rightarrow> Inl (wrap ''failed to build TLS credentials for Goldmane'' e)
                     | Inr creds \<Rightarrow>
                         Inr (WithTransportCredentials creds #
                              (if hop_TLSServerName s \<noteq> [] then [WithAuthority (hop_TLSServerName s)] else []))))))"

definition transportCredentials ::
    "('c, 'p) tls_env \<Rightarrow> api_reader \<Rightarrow> error option \<Rightarrow> hop \<Rightarrow> error + ('c, 'p) TransportCredentials" where
  "transportCredentials env reader ctxErr s =
     (case hop_CertSource s of
        None \<Rightarrow> Inr Insecure
      | Some source \<Rightarrow>
          (case resolveTLSServerName (hop_Endpoint s) (hop_TLSServerName s) ''Hubble Relay'' of
             Inl e \<Rightarrow> Inl e
           | Inr serverName \<Rightarrow>
               (case source_Get env reader ctxErr source of
                  Inl e \<Rightarrow> Inl (wrap ''failed to obtain TLS material for Hubble Relay'' e)
                | Inr (ca, cert, key) \<Rightarrow>
                    (case ClientCredentialsFromPEM env ca cert key serverName of
                       Inl e \<Rightarrow> Inl (wrap ''failed to load TLS credentials for Hubble Relay'' e)
                     | Inr creds \<Rightarrow> Inr creds))))"

definition cilium_dialOptions ::
    "('c, 'p) tls_env \<Rightarrow> api_reader \<Rightarrow> error option \<Rightarrow> hop \<Rightarrow> error + ('c, 'p) DialOption list" where
  "cilium_dialOptions env reader ctxErr s =
     (case transportCredentials env reader ctxErr s of
        Inl e \<Rightarrow> Inl e
      | Inr creds \<Rightarrow>
          Inr (WithTransportCredentials creds #
               (if hop_CertSource s \<noteq> None \<and> hop_TLSServerName s \<noteq> [] then [WithAuthority (hop_TLSServerName s)] else [])))"

text \<open>The options of the gRPC server in the Istio scraper's \<open>Start\<close>: none is a server without TLS.\<close>

definition istio_serverOptions :: "('c, 'p) tls_env \<Rightarrow> string \<Rightarrow> error + ('c, 'p) TransportCredentials list" where
  "istio_serverOptions env tlsCertDir =
     (if tlsCertDir \<noteq> [] then
        (case ServerCredentials env tlsCertDir of
           Inl e \<Rightarrow> Inl (wrap ''failed to load TLS credentials for OTLP logs server'' e)
         | Inr creds \<Rightarrow> Inr [creds])
      else Inr [])"

section \<open>Lemmas\<close>

text \<open>A client that the options describe: verified against the CA that the source holds at this moment, with
  the resolved server name, which is the channel authority too when it is given.\<close>

definition dials_mtls ::
    "('c, 'p) tls_env \<Rightarrow> api_reader \<Rightarrow> error option \<Rightarrow> hop \<Rightarrow> ('c, 'p) DialOption list \<Rightarrow> bool" where
  "dials_mtls env reader ctxErr s opts \<longleftrightarrow>
     (\<exists>source ca cert key name creds.
        hop_CertSource s = Some source \<and> source_Get env reader ctxErr source = Inr (ca, cert, key) \<and>
        client_mtls env ca cert key name creds \<and>
        (if hop_TLSServerName s \<noteq> [] then name = hop_TLSServerName s \<and> opts = [WithTransportCredentials creds, WithAuthority name]
         else (\<exists>port. split_host_port (hop_Endpoint s) = Some (name, port)) \<and> opts = [WithTransportCredentials creds]))"

lemma calico_dials_mtls: "calico_dialOptions env reader ctxErr s = Inr opts \<Longrightarrow> dials_mtls env reader ctxErr s opts"
  by (auto simp: calico_dialOptions_def dials_mtls_def resolveTLSServerName_def
      dest!: ClientCredentialsFromPEM_mtls split: option.splits sum.splits prod.splits if_splits)

lemma cilium_dials_mtls:
  "hop_CertSource s \<noteq> None \<Longrightarrow> cilium_dialOptions env reader ctxErr s = Inr opts \<Longrightarrow> dials_mtls env reader ctxErr s opts"
  by (auto simp: cilium_dialOptions_def transportCredentials_def dials_mtls_def resolveTLSServerName_def
      dest!: ClientCredentialsFromPEM_mtls split: option.splits sum.splits prod.splits if_splits)

lemma cilium_plain: "hop_CertSource s = None \<Longrightarrow> cilium_dialOptions env reader ctxErr s = Inr [WithTransportCredentials Insecure]"
  by (simp add: cilium_dialOptions_def transportCredentials_def)

lemma newProviderCertSource_iff:
  "newProviderCertSource env reader p = Inr src \<Longrightarrow> src = None \<longleftrightarrow> pc_tlsMode p = ModeInsecure"
  by (auto simp: newProviderCertSource_def certSourceConfig_def Let_def split: sum.splits if_splits)

lemma Validate_insecure_dir: "Validate env cfg = None \<Longrightarrow> cfg_Mode cfg = ModeInsecure \<Longrightarrow> cfg_CertDir cfg = []"
  by (auto simp: Validate_def split: if_splits)

text \<open>What a successful set-up says of the scraper.\<close>

lemma run_provider_cases:
  assumes "run_provider env0 env reader addErr p = Inr conf"
  obtains (istio) port where "pc_name p = ProviderIstio" "conf = IstioConf port (pc_tlsCertDir p)"
      "pc_tlsCertDir p = [] \<longleftrightarrow> pc_tlsMode p = ModeInsecure"
  | (cilium) s where "pc_name p = ProviderCilium" "conf = CiliumConf s" "hop_CertSource s = None \<longleftrightarrow> pc_tlsMode p = ModeInsecure"
  | (calico) s where "pc_name p = ProviderCalico" "conf = CalicoConf s" "hop_CertSource s \<noteq> None" "pc_tlsMode p \<noteq> ModeInsecure"
proof -
  from assms have v: "Validate env0 (certSourceConfig p) = None" and s: "setupProviderScraper env reader addErr p = Inr conf"
    by (auto simp: run_provider_def split: option.splits)
  from v have "pc_tlsMode p = ModeInsecure \<Longrightarrow> pc_tlsCertDir p = []"
    using Validate_insecure_dir [of env0 "certSourceConfig p"] by (simp add: certSourceConfig_def)
  with s that show thesis
    by (auto simp: setupProviderScraper_def add_scraper_def istioTLSCertDir_def validateCalicoTLSMode_def
        dest!: newProviderCertSource_iff split: if_splits sum.splits option.splits)
qed

section \<open>Properties\<close>

text \<open>C40. A connection to a flow provider is never silently downgraded. Once \<open>run\<close> has accepted the flags: in
  insecure mode the provider is not Calico and the connection is plaintext; in any other mode, whatever
  happens to the files and the Secret afterwards, Cilium and Calico are only ever dialled with TLS 1.3, a
  client certificate and the CA that the source holds at that dial, and the Istio log server only ever
  starts with credentials that demand client certificates and re-read the directory on each handshake.\<close>

theorem provider_hop_secure:
  fixes env' :: "('c, 'p) tls_env"
  assumes "run_provider env0 env reader addErr p = Inr conf"
  shows "case conf of
      CalicoConf s \<Rightarrow> pc_tlsMode p \<noteq> ModeInsecure \<and>
        (\<forall>opts. calico_dialOptions env' reader' ctxErr s = Inr opts \<longrightarrow> dials_mtls env' reader' ctxErr s opts)
    | CiliumConf s \<Rightarrow>
        if pc_tlsMode p = ModeInsecure then cilium_dialOptions env' reader' ctxErr s = Inr [WithTransportCredentials Insecure]
        else \<forall>opts. cilium_dialOptions env' reader' ctxErr s = Inr opts \<longrightarrow> dials_mtls env' reader' ctxErr s opts
    | IstioConf port dir \<Rightarrow>
        if pc_tlsMode p = ModeInsecure then istio_serverOptions env' dir = Inr []
        else \<forall>opts. istio_serverOptions env' dir = Inr opts \<longrightarrow>
          (\<exists>creds paths. opts = [creds] \<and> server_mtls paths creds \<and>
             paths = (te_join env' dir CAFile, te_join env' dir CertFile, te_join env' dir KeyFile) \<and>
             (\<forall>now cfg. handshake_config (now :: ('c, 'p) tls_env) paths = Inr cfg \<longrightarrow> current_mtls now paths cfg))"
  using assms
proof (cases rule: run_provider_cases)
  case (istio port)
  then show ?thesis by (auto simp: istio_serverOptions_def dest: ServerCredentials_mtls handshake_current split: sum.splits)
next
  case (cilium s)
  then show ?thesis by (auto intro: cilium_plain cilium_dials_mtls)
next
  case (calico s)
  then show ?thesis by (auto intro: calico_dials_mtls)
qed

definition sample_tls_env :: "(string, string) tls_env" where
  "sample_tls_env =
     \<lparr>te_stat = \<lambda>_. None, te_isNotExist = \<lambda>_. False, te_readFile = \<lambda>path. Inr path, te_join = \<lambda>d f. d @ ''/'' @ f,
      te_X509KeyPair = \<lambda>c k. Inr c, te_LoadX509KeyPair = \<lambda>c k. Inr c, te_AppendCertsFromPEM = Some\<rparr>"

definition sample_reader :: api_reader where
  "sample_reader = \<lparr>getSecret = \<lambda>_. Inl (Plain []), getConfigMap = \<lambda>_. Inl (Plain [])\<rparr>"

definition sample_provider :: providerConfig where
  "sample_provider = \<lparr>pc_name = ''calico'', pc_endpoint = ''goldmane:7443'', pc_tlsMode = ''issuer'', pc_tlsCertDir = ''/tls'',
     pc_tlsCertSecret = [], pc_tlsCAConfigMap = [], pc_tlsCABundleKey = [], pc_tlsServerName = []\<rparr>"

definition sample_hop :: hop where
  "sample_hop = \<lparr>hop_Endpoint = ''goldmane:7443'', hop_CertSource = Some (DirSource ''/tls''), hop_TLSServerName = []\<rparr>"

theorem provider_hop_secure_witness:
  "\<exists>opts. calico_dialOptions sample_tls_env sample_reader None sample_hop = Inr opts \<and>
     dials_mtls sample_tls_env sample_reader None sample_hop opts"
proof -
  have "run_provider sample_tls_env sample_tls_env sample_reader None sample_provider = Inr (CalicoConf sample_hop)"
    by (simp add: run_provider_def Validate_def validateIssuer_def ValidateCertDir_def LoadKeyPair_def setupProviderScraper_def
        newProviderCertSource_def New_source_def NewDirSource_def validateCalicoTLSMode_def add_scraper_def certSourceConfig_def
        sample_tls_env_def sample_provider_def sample_hop_def mode_defs provider_defs)
  from provider_hop_secure [OF this, of sample_tls_env sample_reader None]
  have "\<forall>opts. calico_dialOptions sample_tls_env sample_reader None sample_hop = Inr opts \<longrightarrow>
      dials_mtls sample_tls_env sample_reader None sample_hop opts" by simp
  moreover have "\<exists>opts. calico_dialOptions sample_tls_env sample_reader None sample_hop = Inr opts"
    by (simp add: calico_dialOptions_def resolveTLSServerName_def split_host_port_def dir_Get_def ClientCredentialsFromPEM_def
        LoadCACertPoolFromPEM_def LoadKeyPairFromPEM_def sample_tls_env_def sample_hop_def)
  ultimately show ?thesis by blast
qed

end
