(* ===== verification/Reconnect.thy ===== *)
theory Reconnect
  imports KubeClient
begin

text \<open>
  The loop around a provider stream, \<open>runStreamWithReconnect\<close> of \<^verbatim>\<open>internal/scraper/scraper_helpers.go\<close>. A stream is a
  function of the state of the process and its surroundings that returns the new state, whether a
  message was received, and an error; it has no value if it panics. The loop may run forever, so it is a
  partial function.

  The retry library is an argument, \<open>retry_do\<close>, with its documented behaviour as \<open>retry_ok\<close>: the function is called
  up to the given number of times, again only after an error that the predicate accepts and only while
  the context lives, and the error returned is one for all attempts. The select on a timer and the
  context is an argument too.
\<close>

section \<open>Model\<close>

definition contextCanceled :: string where "contextCanceled = ''context canceled''"
definition contextDeadlineExceeded :: string where "contextDeadlineExceeded = ''context deadline exceeded''"

definition isContextCancellation :: "error option \<Rightarrow> bool" where
  "isContextCancellation err \<longleftrightarrow>
     (case err of None \<Rightarrow> False | Some e \<Rightarrow> error_is e contextCanceled \<or> error_is e contextDeadlineExceeded)"

record 's retry_opts =
  ro_ctxErr :: "'s \<Rightarrow> error option"
  ro_attempts :: nat
  ro_delay :: int
  ro_maxDelay :: int
  ro_retryIf :: "'s \<Rightarrow> error \<Rightarrow> bool"

type_synonym 's retry_do = "'s retry_opts \<Rightarrow> ('s \<Rightarrow> ('s \<times> error option) option) \<Rightarrow> 's \<Rightarrow> ('s \<times> error option) option"
type_synonym 'w stream_fn = "'w \<Rightarrow> ('w \<times> bool \<times> error option) option"

record 'w loop_io =
  io_ctxErr :: "'w \<Rightarrow> error option"
  io_retry :: "('w \<times> bool) retry_do"
  io_select :: "'w \<Rightarrow> int \<Rightarrow> 'w \<times> bool"

definition reconnectMinBackoff :: int where "reconnectMinBackoff = 1000000000"
definition reconnectMaxBackoff :: int where "reconnectMaxBackoff = 30 * 1000000000"
definition maxConsecutiveFailures :: nat where "maxConsecutiveFailures = 5"

text \<open>The variable \<open>successfulConnection\<close>, which the stream sets through a pointer, is the second component of
  the state that the retry library works on.\<close>

definition reconnect_opts :: "'w loop_io \<Rightarrow> ('w \<times> bool) retry_opts" where
  "reconnect_opts io =
     \<lparr>ro_ctxErr = \<lambda>(w, _). io_ctxErr io w, ro_attempts = maxConsecutiveFailures,
      ro_delay = reconnectMinBackoff, ro_maxDelay = reconnectMaxBackoff,
      ro_retryIf = \<lambda>(_, successfulConnection) err. \<not> (isContextCancellation (Some err) \<or> successfulConnection)\<rparr>"

definition retry_body :: "'w stream_fn \<Rightarrow> 'w \<times> bool \<Rightarrow> (('w \<times> bool) \<times> error option) option" where
  "retry_body stream s = map_option (\<lambda>(w, successfulConnection, err). ((w, successfulConnection), err)) (stream (fst s))"

definition stopped_error :: "string \<Rightarrow> error option \<Rightarrow> error" where
  "stopped_error name err =
     (let msg = to_lower name @ '' scraper stopped after '' @ fmt_nat maxConsecutiveFailures @ '' consecutive failures: '' in
      case err of None \<Rightarrow> Plain (msg @ ''%!w(<nil>)'') | Some e \<Rightarrow> Wrapped msg e [])"

text \<open>\<open>io_select\<close> waits for the context or for the delay and says whether the context was first.\<close>

partial_function (option) runStreamWithReconnect ::
    "'w loop_io \<Rightarrow> string \<Rightarrow> 'w stream_fn \<Rightarrow> 'w \<Rightarrow> ('w \<times> error option) option" where
  "runStreamWithReconnect io name stream w =
     (case io_retry io (reconnect_opts io) (retry_body stream) (w, False) of
        None \<Rightarrow> None
      | Some ((w1, successfulConnection), err) \<Rightarrow>
          if isContextCancellation err \<or> io_ctxErr io w1 \<noteq> None then Some (w1, None)
          else if \<not> successfulConnection then Some (w1, Some (stopped_error name err))
          else
            (case io_select io w1 reconnectMinBackoff of (w2, cancelled) \<Rightarrow>
               if cancelled then Some (w2, None) else runStreamWithReconnect io name stream w2))"

section \<open>Documented behaviour\<close>

text \<open>The error of all attempts: it is what any of them is.\<close>

definition retry_error :: "error \<Rightarrow> error list \<Rightarrow> bool" where
  "retry_error er es \<longleftrightarrow> (\<forall>m. error_is er m \<longleftrightarrow> (\<exists>e \<in> set es. error_is e m))"

text \<open>\<open>retry_run opts f waits es s as t r\<close>: after the errors \<open>es\<close>, a call from \<open>s\<close> makes its next attempts from the states
  \<open>as\<close> and ends in \<open>t\<close> with \<open>r\<close>. Between two attempts the surroundings change as in \<open>waits\<close>.\<close>

inductive retry_run ::
    "'s retry_opts \<Rightarrow> ('s \<Rightarrow> ('s \<times> error option) option) \<Rightarrow> ('s \<Rightarrow> 's \<Rightarrow> bool) \<Rightarrow>
     error list \<Rightarrow> 's \<Rightarrow> 's list \<Rightarrow> 's \<Rightarrow> error option \<Rightarrow> bool" for opts f waits where
  success: "f s = Some (t, None) \<Longrightarrow> retry_run opts f waits es s [s] t None"
| give_up: "f s = Some (t, Some e) \<Longrightarrow> \<not> ro_retryIf opts t e \<or> Suc (length es) = ro_attempts opts \<Longrightarrow>
    retry_error er (es @ [e]) \<Longrightarrow> retry_run opts f waits es s [s] t (Some er)"
| interrupted: "f s = Some (t, Some e) \<Longrightarrow> ro_retryIf opts t e \<Longrightarrow> Suc (length es) < ro_attempts opts \<Longrightarrow>
    waits t u \<Longrightarrow> ro_ctxErr opts u \<noteq> None \<Longrightarrow> retry_run opts f waits es s [s] u (Some er)"
| again: "f s = Some (t, Some e) \<Longrightarrow> ro_retryIf opts t e \<Longrightarrow> Suc (length es) < ro_attempts opts \<Longrightarrow>
    waits t u \<Longrightarrow> retry_run opts f waits (es @ [e]) u as v r \<Longrightarrow> retry_run opts f waits es s (s # as) v r"

text \<open>A context that is already cancelled is reported without an attempt. With a positive number of attempts
  none of which panics the call returns.\<close>

definition retry_ok :: "('s \<Rightarrow> 's \<Rightarrow> bool) \<Rightarrow> 's retry_do \<Rightarrow> bool" where
  "retry_ok waits do \<longleftrightarrow>
     (\<forall>opts f s t r. do opts f s = Some (t, r) \<longrightarrow>
        (\<exists>as. retry_run opts f waits [] s as t r) \<or> (ro_ctxErr opts s \<noteq> None \<and> t = s)) \<and>
     (\<forall>opts f s I. 0 < ro_attempts opts \<and> I s \<and> (\<forall>s. I s \<longrightarrow> (\<exists>t r. f s = Some (t, r) \<and> I t)) \<and>
        (\<forall>s t. I s \<and> waits s t \<longrightarrow> I t) \<longrightarrow> do opts f s \<noteq> None)"

text \<open>Waiting does not touch the variables of the loop, and the select reports the context only if it is done.\<close>

definition loop_io_ok :: "('w \<Rightarrow> 'w \<Rightarrow> bool) \<Rightarrow> 'w loop_io \<Rightarrow> bool" where
  "loop_io_ok waits io \<longleftrightarrow>
     retry_ok (\<lambda>s t. waits (fst s) (fst t) \<and> snd t = snd s) (io_retry io) \<and>
     (\<forall>w d w'. io_select io w d = (w', True) \<longrightarrow> io_ctxErr io w' \<noteq> None)"

section \<open>Lemmas\<close>

lemma reconnect_opts_simps [simp]:
  "ro_ctxErr (reconnect_opts io) s = io_ctxErr io (fst s)"
  "ro_attempts (reconnect_opts io) = maxConsecutiveFailures"
  "ro_retryIf (reconnect_opts io) s e \<longleftrightarrow> \<not> isContextCancellation (Some e) \<and> \<not> snd s"
  by (auto simp: reconnect_opts_def split: prod.splits)

lemma retry_body_Some [simp]: "retry_body stream s = Some (t, r) \<longleftrightarrow> stream (fst s) = Some (fst t, snd t, r)"
  by (cases t) (auto simp: retry_body_def split: prod.splits)

text \<open>The loop by its four exits and continuations, for proofs about what it returns.\<close>

abbreviation retry_cycle :: "'w loop_io \<Rightarrow> 'w stream_fn \<Rightarrow> 'w \<Rightarrow> (('w \<times> bool) \<times> error option) option" where
  "retry_cycle io stream w \<equiv> io_retry io (reconnect_opts io) (retry_body stream) (w, False)"

lemma reconnect_induct [consumes 1, case_names cancelled failed stopped again]:
  assumes "runStreamWithReconnect io name stream w = Some (w', r)"
    and "\<And>w w1 b err. retry_cycle io stream w = Some ((w1, b), err) \<Longrightarrow>
      isContextCancellation err \<or> (\<exists>e. io_ctxErr io w1 = Some e) \<Longrightarrow> P w w1 None"
    and "\<And>w w1 err. retry_cycle io stream w = Some ((w1, False), err) \<Longrightarrow>
      \<not> isContextCancellation err \<Longrightarrow> io_ctxErr io w1 = None \<Longrightarrow> P w w1 (Some (stopped_error name err))"
    and "\<And>w w1 w2 err. retry_cycle io stream w = Some ((w1, True), err) \<Longrightarrow>
      io_select io w1 reconnectMinBackoff = (w2, True) \<Longrightarrow> P w w2 None"
    and "\<And>w w1 w2 w' err r. retry_cycle io stream w = Some ((w1, True), err) \<Longrightarrow>
      io_select io w1 reconnectMinBackoff = (w2, False) \<Longrightarrow> P w2 w' r \<Longrightarrow> P w w' r"
  shows "P w w' r"
proof -
  have "io = io \<longrightarrow> name = name \<longrightarrow> stream = stream \<longrightarrow> P w (fst (w', r)) (snd (w', r))"
    using assms(1)
    by (rule runStreamWithReconnect.raw_induct
        [where P = "\<lambda>io' name' stream' w y. io' = io \<longrightarrow> name' = name \<longrightarrow> stream' = stream \<longrightarrow> P w (fst y) (snd y)", rotated])
      (auto split: option.splits prod.splits if_splits intro: assms(2) [OF _ disjI1] assms(2) [OF _ disjI2, OF _ exI] assms(3-5))
  then show ?thesis by simp
qed

text \<open>The states that the loop goes through.\<close>

inductive reaches :: "'w loop_io \<Rightarrow> ('w \<Rightarrow> 'w \<Rightarrow> bool) \<Rightarrow> 'w stream_fn \<Rightarrow> 'w \<Rightarrow> 'w \<Rightarrow> bool" for io waits stream w where
  start: "reaches io waits stream w w"
| attempt: "reaches io waits stream w v \<Longrightarrow> stream v = Some (v', b, r) \<Longrightarrow> reaches io waits stream w v'"
| wait: "reaches io waits stream w v \<Longrightarrow> waits v v' \<Longrightarrow> reaches io waits stream w v'"
| select: "reaches io waits stream w v \<Longrightarrow> io_select io v d = (v', b) \<Longrightarrow> reaches io waits stream w v'"

lemma reaches_trans:
  assumes "reaches io waits stream v u" and "reaches io waits stream w v"
  shows "reaches io waits stream w u"
  using assms by induction (auto intro: reaches.intros)

abbreviation lift_waits :: "('w \<Rightarrow> 'w \<Rightarrow> bool) \<Rightarrow> 'w \<times> bool \<Rightarrow> 'w \<times> bool \<Rightarrow> bool" where
  "lift_waits waits \<equiv> \<lambda>s t. waits (fst s) (fst t) \<and> snd t = snd s"

lemma lift_eq: "lift_waits (=) = (=)"
  by (auto simp: fun_eq_iff)

lemma retry_run_reaches:
  assumes "retry_run (reconnect_opts io) (retry_body stream) (lift_waits waits) es s as t r"
  shows "reaches io waits stream (fst s) (fst t) \<and> list_all (\<lambda>a. reaches io waits stream (fst s) (fst a)) as"
  using assms
proof induction
  case (again s t e es u as v r)
  then have "reaches io waits stream (fst s) (fst t)" by (auto intro: reaches.attempt [OF reaches.start])
  with again(4) have "reaches io waits stream (fst s) (fst u)" by (auto intro: reaches.wait)
  with again show ?case by (auto simp: list_all_iff intro: reaches_trans reaches.start)
next
  case (interrupted s t e es u er)
  then have "reaches io waits stream (fst s) (fst t)" by (auto intro: reaches.attempt [OF reaches.start])
  with interrupted(4) show ?case by (auto intro: reaches.wait reaches.start)
qed (auto intro: reaches.intros)

text \<open>\<open>failed_row waits stream v es w'\<close>: the attempts from \<open>v\<close> fail one after the other with the errors \<open>es\<close>, each before any
  message and not because of a context, with nothing but a wait between two of them; the last one ends in \<open>w'\<close>.\<close>

inductive failed_row :: "('w \<Rightarrow> 'w \<Rightarrow> bool) \<Rightarrow> 'w stream_fn \<Rightarrow> 'w \<Rightarrow> error list \<Rightarrow> 'w \<Rightarrow> bool" for waits stream where
  last: "stream v = Some (w', False, Some e) \<Longrightarrow> \<not> isContextCancellation (Some e) \<Longrightarrow> failed_row waits stream v [e] w'"
| before: "stream v = Some (t, False, Some e) \<Longrightarrow> \<not> isContextCancellation (Some e) \<Longrightarrow> waits t u \<Longrightarrow>
    failed_row waits stream u es w' \<Longrightarrow> failed_row waits stream v (e # es) w'"

text \<open>An attempt that ends in \<open>w'\<close> with a cancelled or expired context of its own.\<close>

definition context_failure :: "'w stream_fn \<Rightarrow> 'w \<Rightarrow> 'w \<Rightarrow> bool" where
  "context_failure stream v w' \<longleftrightarrow> (\<exists>b e. stream v = Some (w', b, Some e) \<and> isContextCancellation (Some e))"

lemma cancellation_of_all:
  assumes "retry_error er es" and "isContextCancellation (Some er)"
  shows "\<exists>e \<in> set es. isContextCancellation (Some e)"
  using assms by (auto simp: retry_error_def isContextCancellation_def)

lemma retry_run_cancel:
  assumes "retry_run (reconnect_opts io) (retry_body stream) waits es s as t r"
    and "isContextCancellation r" and "\<forall>e \<in> set es. \<not> isContextCancellation (Some e)"
  shows "io_ctxErr io (fst t) \<noteq> None \<or> (\<exists>v \<in> set as. context_failure stream (fst v) (fst t))"
  using assms
proof induction
  case (give_up s t e es er)
  from cancellation_of_all [OF give_up(3)] give_up(4,5) have "isContextCancellation (Some e)" by auto
  with give_up(1) show ?case by (auto simp: context_failure_def)
qed (auto simp: isContextCancellation_def)

lemma retry_run_failed:
  assumes "retry_run (reconnect_opts io) (retry_body stream) (lift_waits waits) es s as t r"
    and "\<not> isContextCancellation r" and "io_ctxErr io (fst t) = None" and "\<not> snd t"
    and "\<And>v v' b. stream v = Some (v', b, None) \<Longrightarrow> io_ctxErr io v' \<noteq> None"
  shows "\<exists>es' er. failed_row waits stream (fst s) es' (fst t) \<and> length es + length es' = maxConsecutiveFailures \<and>
    r = Some er \<and> retry_error er (es @ es')"
  using assms
proof induction
  case (success s t es)
  then show ?case by (cases s) auto
next
  case (give_up s t e es er)
  have "isContextCancellation (Some e) \<Longrightarrow> isContextCancellation (Some er)"
    using give_up(3) by (auto simp: retry_error_def isContextCancellation_def)
  with give_up have "failed_row waits stream (fst s) [e] (fst t)" "Suc (length es) = maxConsecutiveFailures"
    by (auto intro: failed_row.last)
  with give_up(3) show ?case by (intro exI [of _ "[e]"] exI [of _ er]) simp
next
  case (again s t e es u as v r)
  from again.IH [OF again.prems(1-3)] again.prems(4) obtain es' er where row: "failed_row waits stream (fst u) es' (fst v)"
    "length (es @ [e]) + length es' = maxConsecutiveFailures" "r = Some er" "retry_error er ((es @ [e]) @ es')" by blast
  from again(1,2,4) row(1) have "failed_row waits stream (fst s) (e # es') (fst v)" by (auto intro: failed_row.before)
  with row show ?case by (intro exI [of _ "e # es'"] exI [of _ er]) simp
qed auto

text \<open>One call of the retry library.\<close>

lemma cycle_cases:
  assumes "loop_io_ok waits io" and "retry_cycle io stream w = Some ((w1, b), err)"
  obtains (run) as where "retry_run (reconnect_opts io) (retry_body stream) (lift_waits waits) [] (w, False) as (w1, b) err"
  | (dead) "io_ctxErr io w1 \<noteq> None" "w1 = w"
proof -
  from assms(1) have "retry_ok (lift_waits waits) (io_retry io)" by (simp add: loop_io_ok_def)
  then have "(\<exists>as. retry_run (reconnect_opts io) (retry_body stream) (lift_waits waits) [] (w, False) as (w1, b) err) \<or>
      (ro_ctxErr (reconnect_opts io) (w, False) \<noteq> None \<and> (w1, b) = (w, False))"
    using assms(2) unfolding retry_ok_def by blast
  then show thesis using that by auto
qed

lemma cycle_reaches:
  assumes "loop_io_ok waits io" and "retry_cycle io stream w = Some ((w1, b), err)"
  shows "reaches io waits stream w w1"
  using assms by (cases rule: cycle_cases) (auto dest: retry_run_reaches intro: reaches.start)

lemma reaches_keeps:
  assumes "reaches io waits stream w v" and "I w" and "\<And>v v' b r. I v \<Longrightarrow> stream v = Some (v', b, r) \<Longrightarrow> I v'"
    and "\<And>v v'. I v \<Longrightarrow> waits v v' \<or> (\<exists>d b. io_select io v d = (v', b)) \<Longrightarrow> I v'"
  shows "I v"
  using assms(1,2) by induction (use assms(3,4) in blast)+

section \<open>The contract of a stream\<close>

text \<open>A stream returns without an error only when the context is done. Under this contract the loop ends in
  just two ways.\<close>

locale stream_client =
  fixes io :: "'w loop_io" and stream :: "'w stream_fn"
  assumes nil_only_if_done: "stream v = Some (v', b, None) \<Longrightarrow> io_ctxErr io v' \<noteq> None"
begin

lemma cycle_cancelled:
  assumes "loop_io_ok waits io" and "retry_cycle io stream w = Some ((w1, b), err)" and "isContextCancellation err"
  shows "io_ctxErr io w1 \<noteq> None \<or> (\<exists>v. reaches io waits stream w v \<and> context_failure stream v w1)"
  using assms(1,2)
proof (cases rule: cycle_cases)
  case (run as)
  from retry_run_cancel [OF run assms(3)] retry_run_reaches [OF run] show ?thesis by (auto simp: list_all_iff)
qed simp

lemma cycle_failed:
  assumes "loop_io_ok waits io" and "retry_cycle io stream w = Some ((w1, False), err)"
    and "\<not> isContextCancellation err" and "io_ctxErr io w1 = None"
  shows "\<exists>es e. failed_row waits stream w es w1 \<and> length es = maxConsecutiveFailures \<and> err = Some e \<and> retry_error e es"
  using assms(1,2)
proof (cases rule: cycle_cases)
  case (run as)
  from retry_run_failed [OF run] assms(3,4) nil_only_if_done show ?thesis by auto
qed (use assms(4) in simp)

lemma loop_outcome:
  assumes "runStreamWithReconnect io name stream w = Some (w', r)" and "loop_io_ok waits io"
  shows "reaches io waits stream w w' \<and>
    (case r of
       None \<Rightarrow> io_ctxErr io w' \<noteq> None \<or> (\<exists>v. reaches io waits stream w v \<and> context_failure stream v w')
     | Some err \<Rightarrow> io_ctxErr io w' = None \<and>
         (\<exists>v es e. reaches io waits stream w v \<and> failed_row waits stream v es w' \<and> length es = maxConsecutiveFailures \<and>
            err = stopped_error name (Some e) \<and> retry_error e es))"
  using assms(1)
proof (induction rule: reconnect_induct)
  case (cancelled w w1 b err)
  with cycle_cancelled [OF assms(2)] cycle_reaches [OF assms(2)] show ?case by fastforce
next
  case (failed w w1 err)
  from cycle_failed [OF assms(2) failed(1-3)] obtain es e where
    "failed_row waits stream w es w1" "length es = maxConsecutiveFailures" "err = Some e" "retry_error e es" by blast
  with failed(3) cycle_reaches [OF assms(2) failed(1)] reaches.start show ?case by fastforce
next
  case (stopped w w1 w2 err)
  with assms(2) have "io_ctxErr io w2 \<noteq> None" unfolding loop_io_ok_def by blast
  moreover have "reaches io waits stream w w2"
    using cycle_reaches [OF assms(2) stopped(1)] stopped(2) by (rule reaches.select)
  ultimately show ?case by simp
next
  case (again w w1 w2 w' err r)
  have "reaches io waits stream w w2"
    using cycle_reaches [OF assms(2) again(1)] again(2) by (rule reaches.select)
  with again(3) show ?case by (cases r) (auto intro: reaches_trans)
qed

end

section \<open>A retry library in memory\<close>

text \<open>It waits in no time, so that nothing changes between two attempts.\<close>

fun join_all :: "error \<Rightarrow> error list \<Rightarrow> error" where
  "join_all e [] = e"
| "join_all e (e' # es) = Joined e (join_all e' es)"

fun mem_attempts :: "'s retry_opts \<Rightarrow> ('s \<Rightarrow> ('s \<times> error option) option) \<Rightarrow> nat \<Rightarrow> error list \<Rightarrow> 's \<Rightarrow> ('s \<times> error option) option" where
  "mem_attempts opts f 0 es s = None"
| "mem_attempts opts f (Suc k) es s =
     (case f s of
        None \<Rightarrow> None
      | Some (t, None) \<Rightarrow> Some (t, None)
      | Some (t, Some e) \<Rightarrow>
          if \<not> ro_retryIf opts t e \<or> k = 0 then Some (t, Some (join_all e es))
          else if ro_ctxErr opts t \<noteq> None then Some (t, ro_ctxErr opts t)
          else mem_attempts opts f k (es @ [e]) t)"

definition mem_retry :: "'s retry_do" where
  "mem_retry opts f s =
     (if ro_ctxErr opts s \<noteq> None then Some (s, ro_ctxErr opts s) else mem_attempts opts f (ro_attempts opts) [] s)"

lemma error_is_join_all: "error_is (join_all e es) m \<longleftrightarrow> (\<exists>x \<in> set (es @ [e]). error_is x m)"
  by (induction e es rule: join_all.induct) auto

lemma mem_attempts_run:
  assumes "mem_attempts opts f k es s = Some (t, r)" and "length es + k = ro_attempts opts"
  shows "\<exists>as. retry_run opts f (=) es s as t r"
  using assms
proof (induction k arbitrary: es s)
  case (Suc k)
  from Suc.prems(1) obtain u x where fs: "f s = Some (u, x)" by (auto split: option.splits)
  show ?case
  proof (cases x)
    case None
    with Suc.prems(1) fs have "retry_run opts f (=) es s [s] t r" by (auto intro: retry_run.success)
    then show ?thesis ..
  next
    case (Some e)
    consider (last) "\<not> ro_retryIf opts u e \<or> k = 0" | (dead) "ro_retryIf opts u e" "k \<noteq> 0" "ro_ctxErr opts u \<noteq> None"
      | (more) "ro_retryIf opts u e" "k \<noteq> 0" "ro_ctxErr opts u = None" by blast
    then show ?thesis
    proof cases
      case last
      have "retry_error (join_all e es) (es @ [e])" by (simp add: retry_error_def error_is_join_all)
      moreover have "t = u" "r = Some (join_all e es)" using last Suc.prems(1) fs Some by auto
      ultimately have "retry_run opts f (=) es s [s] t r"
        using last Suc.prems(2) fs Some by (auto intro!: retry_run.give_up)
      then show ?thesis ..
    next
      case dead
      then have "t = u" "r = ro_ctxErr opts u" using Suc.prems(1) fs Some by auto
      with dead Suc.prems(2) fs Some have "retry_run opts f (=) es s [s] t r"
        by (auto intro!: retry_run.interrupted [of f s u e])
      then show ?thesis ..
    next
      case more
      then have "mem_attempts opts f k (es @ [e]) u = Some (t, r)" using Suc.prems(1) fs Some by simp
      from Suc.IH [OF this] Suc.prems(2) obtain as where "retry_run opts f (=) (es @ [e]) u as t r" by auto
      with more Suc.prems(2) fs Some have "retry_run opts f (=) es s (s # as) t r"
        by (intro retry_run.again [of f s u e opts es]) auto
      then show ?thesis ..
    qed
  qed
qed simp

lemma mem_attempts_returns:
  assumes "I s" and "\<And>s. I s \<Longrightarrow> \<exists>t r. f s = Some (t, r) \<and> I t"
  shows "mem_attempts opts f (Suc k) es s \<noteq> None"
  using assms(1)
proof (induction k arbitrary: es s)
  case 0
  with assms(2) [of s] show ?case by (auto split: option.splits)
next
  case (Suc k)
  from assms(2) [OF Suc.prems] obtain t r where "f s = Some (t, r)" "I t" by blast
  with Suc.IH [of t] show ?case by (auto split: option.splits)
qed

lemma mem_retry_ok: "retry_ok (=) mem_retry"
  unfolding retry_ok_def
proof (intro conjI allI impI)
  fix opts :: "'s retry_opts" and f s t r
  assume "mem_retry opts f s = Some (t, r)"
  then show "(\<exists>as. retry_run opts f (=) [] s as t r) \<or> (ro_ctxErr opts s \<noteq> None \<and> t = s)"
    by (auto simp: mem_retry_def dest: mem_attempts_run split: if_splits)
next
  fix opts :: "'s retry_opts" and f :: "'s \<Rightarrow> ('s \<times> error option) option" and s I
  assume "0 < ro_attempts opts \<and> I s \<and> (\<forall>s. I s \<longrightarrow> (\<exists>t r. f s = Some (t, r) \<and> I t)) \<and> (\<forall>s t. I s \<and> s = t \<longrightarrow> I t)"
  then show "mem_retry opts f s \<noteq> None"
    using mem_attempts_returns [of I s f opts "ro_attempts opts - 1" "[]"] by (auto simp: mem_retry_def)
qed

section \<open>Properties\<close>

text \<open>C24. The loop returns once the context is done. If no attempt panics (\<open>I\<close> is what keeps them from it) and the
  context ends after finitely many connections, the loop returns, however many attempts fail or are
  interrupted meanwhile: the only way to run on is to connect again and again.\<close>

theorem reconnect_returns:
  fixes \<mu> :: "'w \<Rightarrow> nat"
  assumes "loop_io_ok waits io" and "I w" and "\<And>v. I v \<Longrightarrow> \<exists>v' b r. stream v = Some (v', b, r) \<and> I v'"
    and "\<And>v v'. I v \<Longrightarrow> waits v v' \<or> (\<exists>d b. io_select io v d = (v', b)) \<Longrightarrow> I v'"
    and "\<And>w w1 w2 err. retry_cycle io stream w = Some ((w1, True), err) \<Longrightarrow> io_ctxErr io w1 = None \<Longrightarrow>
      io_select io w1 reconnectMinBackoff = (w2, False) \<Longrightarrow> \<mu> w2 < \<mu> w"
  shows "\<exists>w' r. runStreamWithReconnect io name stream w = Some (w', r)"
  using assms(2)
proof (induction w rule: measure_induct_rule [of \<mu>])
  case (less w)
  have r: "retry_ok (lift_waits waits) (io_retry io)" using assms(1) by (simp add: loop_io_ok_def)
  have body: "\<And>s. I (fst s) \<Longrightarrow> \<exists>t r. retry_body stream s = Some (t, r) \<and> I (fst t)"
    using assms(3) by (fastforce simp: retry_body_def)
  have pos: "0 < ro_attempts (reconnect_opts io)" by (simp add: maxConsecutiveFailures_def)
  have "retry_cycle io stream w \<noteq> None"
    by (rule conjunct2 [OF r [unfolded retry_ok_def], rule_format, of _ "\<lambda>s. I (fst s)"])
      (use pos body less.prems assms(4) in auto)
  then obtain w1 b err where c: "retry_cycle io stream w = Some ((w1, b), err)" by auto
  have keep: "I v'" if "I v" "stream v = Some (v', b, r)" for v v' b r using assms(3) [OF that(1)] that(2) by auto
  have i1: "I w1" 
    by (rule reaches_keeps [where I = I, OF cycle_reaches [OF assms(1) c] less.prems]) (rule keep assms(4); assumption)+
  obtain w2 d where d: "io_select io w1 reconnectMinBackoff = (w2, d)" by (cases "io_select io w1 reconnectMinBackoff")
  show ?case
  proof (cases "isContextCancellation err \<or> io_ctxErr io w1 \<noteq> None \<or> \<not> b \<or> d")
    case True
    with c d show ?thesis by (subst (1) runStreamWithReconnect.simps) auto
  next
    case False
    with i1 assms(4) d have "I w2" by blast
    with False less.IH [of w2] assms(5) c d show ?thesis by (subst (1) runStreamWithReconnect.simps) auto
  qed
qed

text \<open>A context that ends after as many waits as the number says.\<close>

definition countdown_io :: "nat loop_io" where
  "countdown_io =
     \<lparr>io_ctxErr = \<lambda>w. if w = 0 then Some (Sentinel contextCanceled) else None, io_retry = mem_retry,
      io_select = \<lambda>w d. (w - 1, w \<le> 1)\<rparr>"

lemma countdown_io_ok: "loop_io_ok (=) countdown_io"
  using mem_retry_ok by (auto simp: loop_io_ok_def countdown_io_def lift_eq)

lemma countdown_cycle:
  "retry_cycle countdown_io (\<lambda>v. Some (v, True, Some (Plain ''EOF''))) w = Some ((w1, True), err) \<Longrightarrow> w1 = w"
  by (auto simp: countdown_io_def mem_retry_def maxConsecutiveFailures_def eval_nat_numeral retry_body_def isContextCancellation_def
      split: if_splits)

theorem reconnect_returns_witness:
  "\<exists>w' r. runStreamWithReconnect countdown_io ''Calico'' (\<lambda>v. Some (v, True, Some (Plain ''EOF''))) 3 = Some (w', r)"
proof (rule reconnect_returns [where I = "\<lambda>_. True" and \<mu> = id, OF countdown_io_ok])
  fix w w1 w2 :: nat and err
  assume "retry_cycle countdown_io (\<lambda>v. Some (v, True, Some (Plain ''EOF''))) w = Some ((w1, True), err)"
    and "io_select countdown_io w1 reconnectMinBackoff = (w2, False)"
  then show "id w2 < id w" using countdown_cycle [of w w1 err] by (auto simp: countdown_io_def)
qed auto

text \<open>An attempt that runs into a deadline of its own, for example while it reads a Secret, ends the loop
  without an error although the context is alive: the scraper is gone and nobody is told.\<close>

lemma deadline_ends_loop_silently:
  assumes "io_retry io = mem_retry" and "io_ctxErr io w = None" and "io_ctxErr io w1 = None"
    and "stream w = Some (w1, False, Some e)" and "error_is e contextDeadlineExceeded"
  shows "runStreamWithReconnect io name stream w = Some (w1, None)"
proof -
  have "retry_cycle io stream w = Some ((w1, False), Some e)"
    using assms by (simp add: mem_retry_def maxConsecutiveFailures_def eval_nat_numeral retry_body_def isContextCancellation_def)
  with assms(5) show ?thesis by (subst runStreamWithReconnect.simps) (simp add: isContextCancellation_def)
qed

end
