(* ===== verification/StreamClients.thy ===== *)
theory StreamClients
  imports Reconnect ProviderTls CalicoScraper CiliumScraper
begin

text \<open>
  The Calico and Cilium scrapers as stream clients: \<open>Start\<close>, \<open>stream\<close> and the client constructors of
  \<^verbatim>\<open>internal/scraper/calico_scraper.go\<close> and \<^verbatim>\<open>cilium_scraper.go\<close>, on top of the receive loops of CalicoScraper and
  CiliumScraper, the credentials of ProviderTls and the loop of Reconnect.

  What the surroundings do during one attempt is an \<open>attempt_io\<close>: the TLS material, the outcomes of the gRPC calls, the
  messages received, and whether the context ends meanwhile. A context that is done stays done.
\<close>

section \<open>Model\<close>

text \<open>The requests that open a stream.\<close>

definition calicoAggregationInterval :: int64 where
  "calicoAggregationInterval = 15"

record FlowStreamRequest =
  StartTimeGte :: int64
  Filter_Actions :: "FlowAction list"
  AggregationInterval :: int64

definition calico_request :: FlowStreamRequest where
  "calico_request = \<lparr>StartTimeGte = 0, Filter_Actions = [Allow, Deny], AggregationInterval = calicoAggregationInterval\<rparr>"

record GetFlowsRequest =
  Number :: "64 word"
  Follow :: bool
  Whitelist :: "string list"

definition cilium_request :: GetFlowsRequest where
  "cilium_request = \<lparr>Number = 0, Follow = True, Whitelist = []\<rparr>"

datatype stream_request = GoldmaneStream FlowStreamRequest | HubbleGetFlows GetFlowsRequest

record ('c, 'p, 'm) attempt_io =
  ai_env :: "('c, 'p) tls_env"
  ai_reader :: api_reader
  ai_NewClient :: "string \<Rightarrow> ('c, 'p) DialOption list \<Rightarrow> error option"
  ai_Stream :: "stream_request \<Rightarrow> error option"
  ai_msgs :: "'m list"
  ai_recvErr :: error
  ai_ctxGet :: "error option"
  ai_ctxRecv :: "error option"
  ai_now :: time

record ('k, 'i) hop_world =
  hw_scraper :: "'k Scraper"
  hw_ctxErr :: "error option"
  hw_inputs :: "nat \<Rightarrow> 'i"
  hw_clock :: nat

abbreviation hw_input :: "('k, 'i) hop_world \<Rightarrow> 'i" where
  "hw_input w \<equiv> hw_inputs w (hw_clock w)"

definition ctx_next :: "error option \<Rightarrow> error option \<Rightarrow> error option" where
  "ctx_next old new = (case old of Some e \<Rightarrow> Some e | None \<Rightarrow> new)"

subsection \<open>calico_scraper.go\<close>

definition newGoldmaneClient :: "('c, 'p, 'm) attempt_io \<Rightarrow> error option \<Rightarrow> hop \<Rightarrow> error option" where
  "newGoldmaneClient io ctxErr s =
     (case calico_dialOptions (ai_env io) (ai_reader io) ctxErr s of
        Inl e \<Rightarrow> Some e
      | Inr opts \<Rightarrow> map_option (wrap ''failed to connect to Goldmane'') (ai_NewClient io (hop_Endpoint s) opts))"

text \<open>\<open>successfulConnection\<close> is false unless a message was received. The receive loop ends with the error of \<open>Recv\<close>, or
  without one if the context is done by then.\<close>

definition calico_attempt ::
    "helpers \<Rightarrow> 'k client \<Rightarrow> FlowResult option flow_codec \<Rightarrow> hop \<Rightarrow>
     ('k, ('c, 'p, FlowResult option) attempt_io) hop_world stream_fn" where
  "calico_attempt h c codec s w =
     (let io = hw_input w;
          ctxGet = ctx_next (hw_ctxErr w) (ai_ctxGet io);
          ctxRecv = ctx_next ctxGet (ai_ctxRecv io);
          w' = w\<lparr>hw_clock := Suc (hw_clock w), hw_ctxErr := ctxRecv\<rparr> in
      case newGoldmaneClient io ctxGet s of
        Some e \<Rightarrow> Some (w', False, Some (wrap ''failed to create Goldmane client'' e))
      | None \<Rightarrow>
          (case ai_Stream io (GoldmaneStream calico_request) of
             Some e \<Rightarrow> Some (w', False, Some (wrap ''failed to stream flows from Goldmane'' e))
           | None \<Rightarrow>
               (case calico_stream h c (ai_now io) codec (hw_scraper w) (ai_msgs io) of
                  None \<Rightarrow> None
                | Some sc \<Rightarrow>
                    Some (w'\<lparr>hw_scraper := sc\<rparr>, ai_msgs io \<noteq> [],
                          if ctxRecv \<noteq> None then None
                          else Some (wrap ''error receiving flow from Goldmane'' (ai_recvErr io))))))"

subsection \<open>cilium_scraper.go\<close>

definition newHubbleClient :: "('c, 'p, 'm) attempt_io \<Rightarrow> error option \<Rightarrow> hop \<Rightarrow> error option" where
  "newHubbleClient io ctxErr s =
     (case cilium_dialOptions (ai_env io) (ai_reader io) ctxErr s of
        Inl e \<Rightarrow> Some e
      | Inr opts \<Rightarrow> map_option (wrap ''failed to connect to Hubble'') (ai_NewClient io (hop_Endpoint s) opts))"

definition cilium_attempt ::
    "helpers \<Rightarrow> 'k client \<Rightarrow> GetFlowsResponse option flow_codec \<Rightarrow> hop \<Rightarrow>
     ('k, ('c, 'p, GetFlowsResponse option) attempt_io) hop_world stream_fn" where
  "cilium_attempt h c codec s w =
     (let io = hw_input w;
          ctxGet = ctx_next (hw_ctxErr w) (ai_ctxGet io);
          ctxRecv = ctx_next ctxGet (ai_ctxRecv io);
          w' = w\<lparr>hw_clock := Suc (hw_clock w), hw_ctxErr := ctxRecv\<rparr> in
      case newHubbleClient io ctxGet s of
        Some e \<Rightarrow> Some (w', False, Some (wrap ''failed to create Hubble client'' e))
      | None \<Rightarrow>
          (case ai_Stream io (HubbleGetFlows cilium_request) of
             Some e \<Rightarrow> Some (w', False, Some (wrap ''failed to get flows from Hubble'' e))
           | None \<Rightarrow>
               (case cilium_stream h c (ai_now io) codec (hw_scraper w) (ai_msgs io) of
                  None \<Rightarrow> None
                | Some sc \<Rightarrow>
                    Some (w'\<lparr>hw_scraper := sc\<rparr>, ai_msgs io \<noteq> [],
                          if ctxRecv \<noteq> None then None
                          else Some (wrap ''error receiving flow from Hubble'' (ai_recvErr io))))))"

subsection \<open>Start\<close>

definition hop_io ::
    "(('k, 'i) hop_world \<times> bool) retry_do \<Rightarrow> (('k, 'i) hop_world \<Rightarrow> int \<Rightarrow> ('k, 'i) hop_world \<times> bool) \<Rightarrow> ('k, 'i) hop_world loop_io" where
  "hop_io retry sel = \<lparr>io_ctxErr = hw_ctxErr, io_retry = retry, io_select = sel\<rparr>"

definition calico_Start where
  "calico_Start retry sel h c codec s = runStreamWithReconnect (hop_io retry sel) ''Calico'' (calico_attempt h c codec s)"

definition cilium_Start where
  "cilium_Start retry sel h c codec s = runStreamWithReconnect (hop_io retry sel) ''Cilium'' (cilium_attempt h c codec s)"

section \<open>The scrapers keep the contract of a stream\<close>

interpretation calico_client: stream_client "hop_io retry sel" "calico_attempt h c codec s"
  by unfold_locales (auto simp: calico_attempt_def hop_io_def Let_def split: option.splits if_splits)

interpretation cilium_client: stream_client "hop_io retry sel" "cilium_attempt h c codec s"
  by unfold_locales (auto simp: cilium_attempt_def hop_io_def Let_def split: option.splits if_splits)

section \<open>Properties\<close>

text \<open>Why a loop ended: without an error because its context is done, or because its last attempt failed with a
  cancelled or expired context of its own; with an error after a row of five attempts that failed
  before any message, the last of which ends the loop. The error is one for those of the row.\<close>

definition stop_reason ::
    "('w \<Rightarrow> 'w \<Rightarrow> bool) \<Rightarrow> 'w loop_io \<Rightarrow> string \<Rightarrow> 'w stream_fn \<Rightarrow> 'w \<Rightarrow> 'w \<Rightarrow> error option \<Rightarrow> bool" where
  "stop_reason waits io name stream w w' r \<longleftrightarrow>
     (case r of
        None \<Rightarrow> io_ctxErr io w' \<noteq> None \<or> (\<exists>v. reaches io waits stream w v \<and> context_failure stream v w')
      | Some err \<Rightarrow> io_ctxErr io w' = None \<and>
          (\<exists>v es e. reaches io waits stream w v \<and> failed_row waits stream v es w' \<and> length es = 5 \<and>
             err = stopped_error name (Some e) \<and> retry_error e es))"

text \<open>C23. A scraper gives up only for a reason. If \<open>Start\<close> of the Calico or the Cilium scraper returns an error, its context
  is alive and its last five attempts, one directly after the other, have each failed before a single flow arrived; the error is the one for
  these five. So a stream that broke after flows were received is always connected again, with five new attempts. If it returns
  without an error, the context is done, or the last attempt failed because a context of its own was cancelled or expired.\<close>

theorem scrapers_stop_for_a_reason:
  assumes "loop_io_ok waits (hop_io retry sel)" and "loop_io_ok waits' (hop_io retry' sel')"
  shows "(calico_Start retry sel h c codec s w = Some (w', r) \<longrightarrow>
      stop_reason waits (hop_io retry sel) ''Calico'' (calico_attempt h c codec s) w w' r) \<and>
    (cilium_Start retry' sel' h c codec' s v = Some (v', r) \<longrightarrow>
      stop_reason waits' (hop_io retry' sel') ''Cilium'' (cilium_attempt h c codec' s) v v' r)"
  unfolding calico_Start_def cilium_Start_def stop_reason_def
  using calico_client.loop_outcome [OF _ assms(1), unfolded maxConsecutiveFailures_def]
    cilium_client.loop_outcome [OF _ assms(2), unfolded maxConsecutiveFailures_def] by blast

definition no_wait :: "('k, 'i) hop_world \<Rightarrow> int \<Rightarrow> ('k, 'i) hop_world \<times> bool" where
  "no_wait w d = (w, False)"

lemma mem_loop_io_ok: "loop_io_ok (=) (hop_io mem_retry no_wait)"
  using mem_retry_ok by (simp add: loop_io_ok_def hop_io_def no_wait_def lift_eq)

definition sample_attempt_io :: "(string, string, 'm) attempt_io" where
  "sample_attempt_io =
     \<lparr>ai_env = sample_tls_env, ai_reader = sample_reader, ai_NewClient = \<lambda>_ _. None, ai_Stream = \<lambda>_. None, ai_msgs = [],
      ai_recvErr = Plain ''EOF'', ai_ctxGet = None, ai_ctxRecv = None, ai_now = 0\<rparr>"

definition sample_world :: "(store, (string, string, 'm) attempt_io) hop_world" where
  "sample_world = \<lparr>hw_scraper = \<lparr>sc_learner = sample_learner [], sc_FlowDumperBuffer = None\<rparr>, hw_ctxErr = None, hw_inputs = \<lambda>_. sample_attempt_io, hw_clock = 0\<rparr>"

text \<open>A stream that opens but never delivers anything.\<close>

lemma silent_stream_attempt:
  "hw_ctxErr w = None \<Longrightarrow> hw_inputs w = (\<lambda>_. sample_attempt_io) \<Longrightarrow>
     calico_attempt h c codec sample_hop w =
       Some (w\<lparr>hw_clock := Suc (hw_clock w)\<rparr>, False, Some (wrap ''error receiving flow from Goldmane'' (Plain ''EOF'')))"
  by (cases w) (simp add: calico_attempt_def newGoldmaneClient_def calico_dialOptions_def resolveTLSServerName_def split_host_port_def
      dir_Get_def ClientCredentialsFromPEM_def LoadCACertPoolFromPEM_def LoadKeyPairFromPEM_def calico_stream_def ctx_next_def
      sample_attempt_io_def sample_tls_env_def sample_hop_def Let_def)

lemma silent_stream_stops:
  "\<exists>w' err. calico_Start mem_retry no_wait mem_helpers (mem_client sample_index) no_codec sample_hop sample_world = Some (w', Some err)"
  unfolding calico_Start_def
  by (subst runStreamWithReconnect.simps)
    (simp add: mem_retry_def maxConsecutiveFailures_def eval_nat_numeral retry_body_def silent_stream_attempt hop_io_def
      sample_world_def isContextCancellation_def wrap_def)

theorem scrapers_stop_for_a_reason_witness:
  "\<exists>w' err. calico_Start mem_retry no_wait mem_helpers (mem_client sample_index) no_codec sample_hop sample_world = Some (w', Some err) \<and>
     stop_reason (=) (hop_io mem_retry no_wait) ''Calico''
       (calico_attempt mem_helpers (mem_client sample_index) no_codec sample_hop) sample_world w' (Some err)"
  using silent_stream_stops scrapers_stop_for_a_reason [OF mem_loop_io_ok mem_loop_io_ok] by blast

end
