(* ===== verification/IstioServer.thy ===== *)
theory IstioServer
  imports IstioScraper ProviderTls
begin

text \<open>
  The OTLP server of the Istio scraper, \<open>Start\<close> of \<^verbatim>\<open>internal/scraper/istio_scraper.go\<close>, from the listener to the shutdown, on top of
  \<open>Export\<close> of IstioScraper and the server options of ProviderTls. What gRPC does is an argument: the requests that arrive while it
  serves, in the order in which they are handled, and how serving ends. The scraper's \<open>Start\<close> returns what it did to the server
  as a list of actions.
\<close>

section \<open>Model\<close>

datatype ('c, 'p) server_action =
    Listen string
  | NewServer "('c, 'p) TransportCredentials list"
  | Serve
  | GracefulStop
  | ForceStop
  | CloseListener

text \<open>How serving ends: \<open>Serve\<close> returns by itself; or the context is done, the graceful stop completes in time or not, and
  then \<open>Serve\<close> returns.\<close>

datatype serve_end = ServeReturns "error option" | ContextDone bool "error option"

definition serve_error :: "error option \<Rightarrow> error option" where
  "serve_error err = map_option (wrap ''gRPC server.Serve error'') err"

definition stop_actions :: "serve_end \<Rightarrow> ('c, 'p) server_action list \<times> error option" where
  "stop_actions ev =
     (case ev of
        ServeReturns err \<Rightarrow> ([], serve_error err)
      | ContextDone inTime err \<Rightarrow> (GracefulStop # (if inTime then [] else [ForceStop]), serve_error err))"

definition istio_Start ::
    "helpers \<Rightarrow> 'w Enricher option \<Rightarrow> LogRecord flow_codec \<Rightarrow> ('c, 'p) tls_env \<Rightarrow> (string \<Rightarrow> error option) \<Rightarrow>
     int \<Rightarrow> string \<Rightarrow> (time \<times> ResourceLogs list) list \<Rightarrow> serve_end \<Rightarrow> 'w Scraper \<Rightarrow>
     ('w Scraper \<times> ('c, 'p) server_action list \<times> error option) option" where
  "istio_Start h e codec env listen otelPort tlsCertDir reqs ev s =
     (let addr = '':'' @ fmt_int otelPort in
      case listen addr of
        Some err \<Rightarrow> Some (s, [], Some (wrap (''failed to listen on '' @ addr) err))
      | None \<Rightarrow>
          (case istio_serverOptions env tlsCertDir of
             Inl err \<Rightarrow> Some (s, [Listen addr, CloseListener], Some err)
           | Inr opts \<Rightarrow>
               (case foldl_option (\<lambda>s (now, req). Export h e codec now s req) s reqs of
                  None \<Rightarrow> None
                | Some s' \<Rightarrow>
                    (case stop_actions ev of
                       (stops, err) \<Rightarrow> Some (s', [Listen addr, NewServer opts, Serve] @ stops @ [CloseListener], err)))))"

section \<open>Properties\<close>

text \<open>C25. The life of the Istio scraper. Whatever requests arrive, in any number and with any content, its server
  never panics and leaves the cluster alone, and every event it adds to the learning channel has a
  source identity without the scheme, a port between 1 and 65535 and a destination resolved to a
  supported workload with a non-empty selector, as long as the buffers have room and the enricher has
  a client. A listener that was opened is closed at the end, on every path. Nothing is served before a server was made; without a
  certificate directory that has no credentials, and with one it has exactly those that were loaded from this directory: mutual TLS whose CA, certificate
  and key are the files of the directory. The hard stop comes only after a graceful one that did not end in time;
  and without an error at the end the server has served.\<close>

theorem istio_server_lifecycle:
  fixes env :: "('c, 'p) tls_env"
  assumes "en_client en = Some c" and "w = lr_cluster (sc_learner s)"
    and "buffers_ok s (sum_list (map (log_count \<circ> snd) reqs))"
    and "list_all (istio_learned_ok h c w) (lr_eventChan (sc_learner s))"
  shows "\<exists>s' acts err. istio_Start h (Some en) codec env listen otelPort tlsCertDir reqs ev s = Some (s', acts, err) \<and>
    lr_cluster (sc_learner s') = w \<and> list_all (istio_learned_ok h c w) (lr_eventChan (sc_learner s')) \<and>
    (acts = [] \<and> err \<noteq> None \<or> hd acts = Listen ('':'' @ fmt_int otelPort) \<and> last acts = CloseListener \<and> count_list acts CloseListener = 1) \<and>
    (\<forall>creds. NewServer creds \<in> set acts \<longrightarrow> 
       (if tlsCertDir = [] then creds = []
        else \<exists>cr. creds = [cr] \<and> ServerCredentials env tlsCertDir = Inr cr \<and>
          server_mtls (te_join env tlsCertDir CAFile, te_join env tlsCertDir CertFile, te_join env tlsCertDir KeyFile) cr)) \<and>
    (Serve \<in> set acts \<longrightarrow> (\<exists>creds. NewServer creds \<in> set acts)) \<and>
    (ForceStop \<in> set acts \<longrightarrow> (\<exists>e pre post. ev = ContextDone False e \<and> acts = pre @ [GracefulStop, ForceStop] @ post)) \<and>
    (err = None \<longrightarrow> Serve \<in> set acts)"
proof -
  have "\<exists>s'. foldl_option (\<lambda>s (now, req). Export h (Some en) codec now s req) s reqs = Some s' \<and> export_inv h c w s' 0"
  proof (rule foldl_option_steps [where P = "export_inv h c w" and k = "log_count \<circ> snd"])
    show "export_inv h c w s (sum_list (map (log_count \<circ> snd) reqs) + 0)" using assms(2-) by (simp add: export_inv_def)
  qed (auto intro: Export_ok [OF assms(1)])
  then obtain s' where s': "foldl_option (\<lambda>s (now, req). Export h (Some en) codec now s req) s reqs = Some s'"
    "lr_cluster (sc_learner s') = w" "list_all (istio_learned_ok h c w) (lr_eventChan (sc_learner s'))"
    by (auto simp: export_inv_def)
  have creds: "if tlsCertDir = [] then opts = []
      else \<exists>cr. opts = [cr] \<and> ServerCredentials env tlsCertDir = Inr cr \<and>
        server_mtls (te_join env tlsCertDir CAFile, te_join env tlsCertDir CertFile, te_join env tlsCertDir KeyFile) cr"
    if "istio_serverOptions env tlsCertDir = Inr opts" for opts
    using that ServerCredentials_mtls [of env tlsCertDir] by (auto simp: istio_serverOptions_def split: if_splits sum.splits)
  consider e where "listen ('':'' @ fmt_int otelPort) = Some e"
    | e where "listen ('':'' @ fmt_int otelPort) = None" "istio_serverOptions env tlsCertDir = Inl e"
    | opts where "listen ('':'' @ fmt_int otelPort) = None" "istio_serverOptions env tlsCertDir = Inr opts"
    by (cases "listen ('':'' @ fmt_int otelPort)"; cases "istio_serverOptions env tlsCertDir") auto
  then show ?thesis
  proof cases
    case (3 opts)
    show ?thesis
    proof (cases ev)
      case (ServeReturns e)
      with 3 s' creds show ?thesis by (simp add: istio_Start_def stop_actions_def serve_error_def Let_def)
    next
      case (ContextDone inTime e)
      have stops: "\<exists>pre post. [Listen a, NewServer opts, Serve, GracefulStop, ForceStop, CloseListener] = pre @ GracefulStop # ForceStop # post"
        for a and opts :: "('c, 'p) TransportCredentials list"
        by (rule exI [of _ "[Listen a, NewServer opts, Serve]"]) simp
      with 3 s' creds ContextDone show ?thesis
        by (cases inTime) (auto simp: istio_Start_def stop_actions_def serve_error_def Let_def intro!: stops)
    qed
  qed (use assms(2,4) in \<open>simp_all add: istio_Start_def Let_def\<close>)
qed

theorem istio_server_lifecycle_witness:
  "\<exists>s' acts. istio_Start mem_helpers (Some \<lparr>en_client = Some (mem_client sample_index)\<rparr>) no_codec sample_tls_env (\<lambda>_. None) 4317 ''/tls''
       [(0, sample_otlp)] (ContextDone False None) (sample_scraper [sample_pod ''ns'' ''web'']) = Some (s', acts, None) \<and>
     Serve \<in> set acts \<and> last acts = CloseListener \<and>
     (\<exists>cr. NewServer [cr] \<in> set acts \<and> ServerCredentials sample_tls_env ''/tls'' = Inr cr)"
proof -
  let ?s = "sample_scraper [sample_pod ''ns'' ''web'']"
  let ?e = "\<lparr>en_client = Some (mem_client sample_index)\<rparr>"
  have e: "en_client ?e = Some (mem_client sample_index)" by simp
  have b: "buffers_ok ?s (sum_list (map (log_count \<circ> snd) [(0, sample_otlp)]))"
    by (simp add: buffers_ok_def sample_scraper_def sample_learner_def NewLearningReconciler_def rb_inv_def rb_room_def
        sample_otlp_def log_count_def)
  have l: "list_all (istio_learned_ok mem_helpers (mem_client sample_index) (lr_cluster (sc_learner ?s))) (lr_eventChan (sc_learner ?s))"
    by (simp add: sample_scraper_def sample_learner_def NewLearningReconciler_def)
  from istio_server_lifecycle [OF e refl b l, where codec = no_codec and env = sample_tls_env and listen = "\<lambda>_. None" and otelPort = 4317
      and tlsCertDir = "''/tls''" and ev = "ContextDone False None"] obtain s' acts err where *:
    "istio_Start mem_helpers (Some ?e) no_codec sample_tls_env (\<lambda>_. None) 4317 ''/tls'' [(0, sample_otlp)] (ContextDone False None) ?s =
       Some (s', acts, err)"
    and close: "acts = [] \<and> err \<noteq> None \<or> hd acts = Listen ('':'' @ fmt_int 4317) \<and> last acts = CloseListener \<and> count_list acts CloseListener = 1"
    and creds: "\<forall>creds. NewServer creds \<in> set acts \<longrightarrow> (if ''/tls'' = [] then creds = []
        else \<exists>cr. creds = [cr] \<and> ServerCredentials sample_tls_env ''/tls'' = Inr cr \<and>
          server_mtls (te_join sample_tls_env ''/tls'' CAFile, te_join sample_tls_env ''/tls'' CertFile, te_join sample_tls_env ''/tls'' KeyFile) cr)"
    and serve: "Serve \<in> set acts \<longrightarrow> (\<exists>creds. NewServer creds \<in> set acts)" "err = None \<longrightarrow> Serve \<in> set acts"
    by (elim exE conjE)
  from *(1) have "err = None"
    by (auto simp: istio_Start_def istio_serverOptions_def ServerCredentials_def ServerCredentialsFromPEM_def sample_tls_env_def
        stop_actions_def serve_error_def Let_def LoadCACertPoolFromPEM_def LoadKeyPairFromPEM_def LoadCACertPool_def LoadKeyPair_def
        ValidateCertDir_def readCertDirPEMs_def split: option.splits)
  with * close creds serve show ?thesis by fastforce
qed

end
