(* ===== verification/StatusLoop.thy ===== *)
theory StatusLoop
  imports StatusSync
begin

text \<open>
  The loop of the status synchronisation, \<open>Start\<close> of \<^verbatim>\<open>internal/controller/workloadnetworkpolicystatus_sync.go\<close>: a cycle
  after each interval until the context is done, whatever the cycles return. A list of ticks stands for one run of the
  loop; its end is the end of the context. A tick says what the rest of the system did during the interval:
  the observations it recorded in the shared buffer, what it did to the cluster, the clock, and the
  order in which the cycle's map iteration visits the policies.
\<close>

section \<open>Model\<close>

record 'w tick =
  tk_observed :: "Observation list"
  tk_cluster :: "'w \<Rightarrow> 'w"
  tk_now :: time
  tk_visit :: "wnp_map \<Rightarrow> wnp_map"

definition interval_passed :: "'w tick \<Rightarrow> 'w StatusSync \<Rightarrow> 'w StatusSync option" where
  "interval_passed t r =
     map_option (\<lambda>b. r\<lparr>ss_cluster := tk_cluster t (ss_cluster r), ss_violationBuffer := b\<rparr>)
       (record_all (ss_violationBuffer r) (tk_observed t))"

text \<open>The second result is the error of each cycle, which is only logged.\<close>

fun status_Start ::
    "helpers \<Rightarrow> 'w client \<Rightarrow> (time \<Rightarrow> string) \<Rightarrow> 'w tick list \<Rightarrow> 'w StatusSync \<Rightarrow> ('w StatusSync \<times> error option list) option" where
  "status_Start h c rfc3339 [] r = Some (r, [])"
| "status_Start h c rfc3339 (t # ts) r =
     (case interval_passed t r of
        None \<Rightarrow> None
      | Some r1 \<Rightarrow>
          (case sync h c rfc3339 (tk_visit t) (tk_now t) r1 of
             None \<Rightarrow> None
           | Some (r2, err) \<Rightarrow> map_option (apsnd (Cons err)) (status_Start h c rfc3339 ts r2)))"

section \<open>Lemmas\<close>

text \<open>The observations that wait for a cycle, newest first: a cycle that fails leaves them, one that succeeds takes them all;
  beyond \<open>n\<close> the oldest are lost.\<close>

fun waiting :: "nat \<Rightarrow> 'o list \<Rightarrow> 'o list list \<Rightarrow> error option list \<Rightarrow> 'o list" where
  "waiting n p (os # oss) (err # errs) = waiting n (if err = None then [] else take n (rev os @ p)) oss errs"
| "waiting n p _ _ = p"

definition tick_ok :: "'w client \<Rightarrow> 'w tick \<Rightarrow> bool" where
  "tick_ok c t \<longleftrightarrow>
     (\<forall>w items. listWNP c (tk_cluster t w) None = Inr items \<longrightarrow> (\<forall>p \<in> set items. backend_valid (wnp_Backend p))) \<and>
     (\<forall>m. mset (tk_visit t m) = mset m)"

lemma interval_passed_ok:
  assumes "rb_inv (ss_violationBuffer r)" and "length (tk_observed t) \<le> rb_room (ss_violationBuffer r)"
  obtains b where "interval_passed t r = Some (r\<lparr>ss_cluster := tk_cluster t (ss_cluster r), ss_violationBuffer := b\<rparr>)"
    "rb_inv b" "nat (capacity b) = nat (capacity (ss_violationBuffer r))"
    "rb_contents b = take (nat (capacity (ss_violationBuffer r))) (rev (tk_observed t) @ rb_contents (ss_violationBuffer r))"
    "rb_room b = rb_room (ss_violationBuffer r) - length (tk_observed t)"
proof -
  from ring.rec_all_ok [OF assms] obtain b where
    "record_all (ss_violationBuffer r) (tk_observed t) = Some b" "rb_inv b" "nat (capacity b) = nat (capacity (ss_violationBuffer r))"
    "rb_contents b = take (nat (capacity (ss_violationBuffer r))) (rev (tk_observed t) @ rb_contents (ss_violationBuffer r))"
    "rb_room b = rb_room (ss_violationBuffer r) - length (tk_observed t)" by (auto simp: record_all_eq)
  with that [of b] show thesis by (simp add: interval_passed_def)
qed

section \<open>Properties\<close>

text \<open>C20. The synchronisation goes on and accounts for every observation. However long it runs, whatever the cluster
  becomes and whichever cycles fail, the loop never panics and makes a cycle at every tick; and the
  observations that still wait when it stops are exactly those of the failed cycles since the last
  successful one, newest first and at most as many as the buffer holds. So a cycle that fails before it drains the buffer only delays
  observations: what waits is lost to nothing but an overflow of the buffer. A cycle that has drained it
  counts as successful, also when the patch of a status fails; the observations of that policy are then gone.\<close>

theorem status_loop_accounts:
  assumes "rb_inv (ss_violationBuffer r)" and "length (concat (map tk_observed ticks)) \<le> rb_room (ss_violationBuffer r)"
    and "\<forall>t \<in> set ticks. tick_ok c t"
  shows "\<exists>r' errs. status_Start h c f ticks r = Some (r', errs) \<and> length errs = length ticks \<and>
    rb_contents (ss_violationBuffer r') =
      waiting (nat (capacity (ss_violationBuffer r))) (rb_contents (ss_violationBuffer r)) (map tk_observed ticks) errs"
  using assms
proof (induction ticks arbitrary: r)
  case Nil
  then show ?case by simp
next
  case (Cons t ticks)
  from Cons.prems have "length (tk_observed t) \<le> rb_room (ss_violationBuffer r)" by simp
  from interval_passed_ok [OF Cons.prems(1) this] obtain b where b:
    "interval_passed t r = Some (r\<lparr>ss_cluster := tk_cluster t (ss_cluster r), ss_violationBuffer := b\<rparr>)" (is "_ = Some ?r1")
    "rb_inv b" "nat (capacity b) = nat (capacity (ss_violationBuffer r))"
    "rb_contents b = take (nat (capacity (ss_violationBuffer r))) (rev (tk_observed t) @ rb_contents (ss_violationBuffer r))"
    "rb_room b = rb_room (ss_violationBuffer r) - length (tk_observed t)" .
  from Cons.prems(3) have "\<forall>items. listWNP c (ss_cluster ?r1) None = Inr items \<longrightarrow> (\<forall>p \<in> set items. backend_valid (wnp_Backend p))"
    and "\<forall>m. mset (tk_visit t m) = mset m" by (simp_all add: tick_ok_def)
  from sync_cycle [OF _ this, of h f "tk_now t"] b(2) obtain r2 err where
    sync: "sync h c f (tk_visit t) (tk_now t) ?r1 = Some (r2, err)" and
    r2: "if err = None then rb_inv (ss_violationBuffer r2) \<and> rb_contents (ss_violationBuffer r2) = [] \<and>
        nat (capacity (ss_violationBuffer r2)) = nat (capacity b) \<and> rb_room b \<le> rb_room (ss_violationBuffer r2) else r2 = ?r1"
    by (fastforce split: if_splits)
  from Cons.prems(2) b(5) have "length (concat (map tk_observed ticks)) \<le> rb_room b" by simp
  with Cons.IH [of r2] Cons.prems(3) r2 b(2) obtain r' errs where
    "status_Start h c f ticks r2 = Some (r', errs)" "length errs = length ticks"
    "rb_contents (ss_violationBuffer r') =
      waiting (nat (capacity (ss_violationBuffer r2))) (rb_contents (ss_violationBuffer r2)) (map tk_observed ticks) errs"
    by (fastforce split: if_splits)
  with b sync r2 show ?case by (auto split: if_splits)
qed

text \<open>Two intervals on the in-memory cluster: the first cycle takes the observation.\<close>

definition sample_tick :: "store tick" where
  "sample_tick = \<lparr>tk_observed = [sample_observation], tk_cluster = (\<lambda>_. empty_store\<lparr>st_wnps := [sample_wnp]\<rparr>), tk_now = 9, tk_visit = id\<rparr>"

theorem status_loop_accounts_witness:
  "\<exists>r' errs. status_Start mem_helpers (mem_client sample_index) (\<lambda>_. []) [sample_tick, sample_tick] (sample_sync []) = Some (r', errs) \<and>
     length errs = 2"
proof -
  have "rb_inv (ss_violationBuffer (sample_sync []))" "2 \<le> rb_room (ss_violationBuffer (sample_sync []))"
    by (simp_all add: sample_sync_def rb_inv_def rb_room_def)
  moreover have "tick_ok (mem_client sample_index) sample_tick"
    using sample_valid(1) by (simp add: tick_ok_def sample_tick_def mem_client_def)
  ultimately show ?thesis
    using status_loop_accounts [of "sample_sync []" "[sample_tick, sample_tick]" "mem_client sample_index" mem_helpers "\<lambda>_. []"]
    by (auto simp: sample_tick_def)
qed

end
