(* ===== verification/Watches.thy ===== *)
theory Watches
  imports Webhook
begin

text \<open>
  The watches of the policy controller: \<open>SetupWithManager\<close> of \<^verbatim>\<open>workloadnetworkpolicy_controller.go\<close>, the handler of
  \<^verbatim>\<open>workloadnetworkpolicy_duplicate_target.go\<close> and the predicates of \<^verbatim>\<open>workloadnetworkpolicy_pod_scope.go\<close>. An event
  of the informer cache is turned into the policies to reconcile again.

  The question is whether an event can change the verdict on a policy that is not reconciled again. What is
  read is compared before and after the event; the cache is already updated when the event arrives.
\<close>

section \<open>Model\<close>

datatype 'o obj_event = Created 'o | Updated 'o 'o | Deleted 'o

text \<open>A \<open>predicate.Funcs\<close> with an update function only lets every other event pass.\<close>

fun passes :: "(ObjectMeta \<Rightarrow> ObjectMeta \<Rightarrow> bool) \<Rightarrow> ('o \<Rightarrow> ObjectMeta) \<Rightarrow> 'o obj_event \<Rightarrow> bool" where
  "passes update meta (Updated old new) = update (meta old) (meta new)"
| "passes update meta (Created _) = True"
| "passes update meta (Deleted _) = True"

fun duplicateTargetHandler :: "'w client \<Rightarrow> 'w \<Rightarrow> WorkloadNetworkPolicy obj_event \<Rightarrow> NamespacedName list" where
  "duplicateTargetHandler c w (Created p) = duplicateTargetPolicies c w p"
| "duplicateTargetHandler c w (Updated old new) = duplicateTargetPolicies c w old @ duplicateTargetPolicies c w new"
| "duplicateTargetHandler c w (Deleted p) = duplicateTargetPolicies c w p"

text \<open>The watches that \<open>SetupWithManager\<close> registers with handlers of the repository. \<open>enq\<close> is controller-runtime's
  \<open>EnqueueRequestsFromMapFunc\<close>.\<close>

datatype scope_event =
    WorkloadEvent WorkloadKind "WorkloadObject obj_event"
  | ReplicaSetEvent "ReplicaSet obj_event"
  | PodEvent "Pod obj_event"

type_synonym map_func = "(ObjectMeta \<Rightarrow> NamespacedName list) \<Rightarrow> ObjectMeta obj_event \<Rightarrow> NamespacedName list"

definition duplicate_watch :: "'w client \<Rightarrow> 'w \<Rightarrow> WorkloadNetworkPolicy obj_event \<Rightarrow> NamespacedName list" where
  "duplicate_watch c w ev =
     (if passes selectorScopeWorkloadChanges wnp_Meta ev then duplicateTargetHandler c w ev else [])"

definition scope_watch :: "map_func \<Rightarrow> 'w client \<Rightarrow> 'w \<Rightarrow> scope_event \<Rightarrow> NamespacedName list" where
  "scope_watch enq c w ev =
     (let workloadHandler = enq (\<lambda>m. policiesForWorkload c w (om_Namespace m)) in
      case ev of
        WorkloadEvent _ e \<Rightarrow> if passes selectorScopeWorkloadChanges wo_Meta e then workloadHandler (map_obj_event wo_Meta e) else []
      | ReplicaSetEvent e \<Rightarrow> if passes selectorScopeMetadataChanges rs_Meta e then workloadHandler (map_obj_event rs_Meta e) else []
      | PodEvent e \<Rightarrow> if passes selectorScopeMetadataChanges pod_Meta e then workloadHandler (map_obj_event pod_Meta e) else [])"

section \<open>Documented behaviour\<close>

text \<open>The map function is run on every object of the event.\<close>

definition map_func_ok :: "map_func \<Rightarrow> bool" where
  "map_func_ok enq \<longleftrightarrow> (\<forall>f ev. (\<Union>m \<in> set_obj_event ev. set (f m)) \<subseteq> set (enq f ev))"

text \<open>A selector looks at a set of labels as a map.\<close>

definition selector_ok :: "helpers \<Rightarrow> bool" where
  "selector_ok h \<longleftrightarrow>
     (\<forall>s f e a b. labelSelectorAsSelector h s = Inr (f, e) \<and> map_of a = map_of b \<longrightarrow> f a = f b)"

text \<open>The objects in the cache, and that reads are answered from them.\<close>

record scope_view =
  sv_pods :: "Pod list"
  sv_replicasets :: "ReplicaSet list"
  sv_workloads :: "WorkloadKind \<Rightarrow> WorkloadObject list"
  sv_policies :: "WorkloadNetworkPolicy list"

definition cached :: "'w client \<Rightarrow> 'w \<Rightarrow> (NamespacedName \<Rightarrow> error) \<Rightarrow> scope_view \<Rightarrow> bool" where
  "cached c w missing v \<longleftrightarrow>
     (\<forall>ns sel. listPodsBySelector c w ns sel = Inr (filter (\<lambda>p. om_Namespace (pod_Meta p) = ns \<and> sel (om_Labels (pod_Meta p))) (sv_pods v))) \<and>
     (\<forall>k. getReplicaSet c w k = (case find (\<lambda>r. meta_key (rs_Meta r) = k) (sv_replicasets v) of None \<Rightarrow> Inl (missing k) | Some r \<Rightarrow> Inr r)) \<and>
     (\<forall>kind ns. listWorkloads c w kind ns = Inr (filter (\<lambda>x. om_Namespace (wo_Meta x) = ns) (sv_workloads v kind))) \<and>
     (\<forall>ns. listWNP c w (Some ns) = Inr (filter (\<lambda>p. wnp_Namespace p = ns) (sv_policies v)))"

text \<open>An event and the list of objects before and after it. The generation of an object changes with its
  specification, which \<open>spec\<close> gives.\<close>

fun event_effect :: "('o \<Rightarrow> ObjectMeta) \<Rightarrow> ('o \<Rightarrow> 's) \<Rightarrow> 'o obj_event \<Rightarrow> 'o list \<Rightarrow> 'o list \<Rightarrow> bool" where
  "event_effect meta spec (Created x) xs ys \<longleftrightarrow> (\<exists>as bs. xs = as @ bs \<and> ys = as @ x # bs)"
| "event_effect meta spec (Deleted x) xs ys \<longleftrightarrow> (\<exists>as bs. xs = as @ x # bs \<and> ys = as @ bs)"
| "event_effect meta spec (Updated old new) xs ys \<longleftrightarrow>
     (\<exists>as bs. xs = as @ old # bs \<and> ys = as @ new # bs) \<and> meta_key (meta old) = meta_key (meta new) \<and>
     (om_UID (meta old) = om_UID (meta new) \<and> om_Generation (meta old) = om_Generation (meta new) \<longrightarrow> spec old = spec new)"

definition scope_effect :: "scope_event \<Rightarrow> scope_view \<Rightarrow> scope_view \<Rightarrow> bool" where
  "scope_effect ev v v' \<longleftrightarrow>
     sv_policies v' = sv_policies v \<and>
     (case ev of
        PodEvent e \<Rightarrow> event_effect pod_Meta (\<lambda>_. ()) e (sv_pods v) (sv_pods v') \<and>
          sv_replicasets v' = sv_replicasets v \<and> sv_workloads v' = sv_workloads v
      | ReplicaSetEvent e \<Rightarrow> event_effect rs_Meta (\<lambda>_. ()) e (sv_replicasets v) (sv_replicasets v') \<and>
          sv_pods v' = sv_pods v \<and> sv_workloads v' = sv_workloads v
      | WorkloadEvent kind e \<Rightarrow> event_effect wo_Meta wo_TemplateLabels e (sv_workloads v kind) (sv_workloads v' kind) \<and>
          (\<forall>k. k \<noteq> kind \<longrightarrow> sv_workloads v' k = sv_workloads v k) \<and> sv_pods v' = sv_pods v \<and> sv_replicasets v' = sv_replicasets v)"

section \<open>What the selector scope depends on\<close>

definition same_pod :: "Pod \<Rightarrow> Pod \<Rightarrow> bool" where
  "same_pod a b \<longleftrightarrow> meta_key (pod_Meta a) = meta_key (pod_Meta b) \<and> om_OwnerReferences (pod_Meta a) = om_OwnerReferences (pod_Meta b)"

definition same_rs :: "ReplicaSet \<Rightarrow> ReplicaSet \<Rightarrow> bool" where
  "same_rs a b \<longleftrightarrow> om_UID (rs_Meta a) = om_UID (rs_Meta b) \<and> om_OwnerReferences (rs_Meta a) = om_OwnerReferences (rs_Meta b)"

definition scope_equiv :: "helpers \<Rightarrow> 'w client \<Rightarrow> 'w \<Rightarrow> 'w \<Rightarrow> string \<Rightarrow> bool" where
  "scope_equiv h c w w' ns \<longleftrightarrow>
     workloadTemplates c w ns = workloadTemplates c w' ns \<and>
     (\<forall>s f e. labelSelectorAsSelector h s = Inr (f, e) \<longrightarrow>
        rel_sum (=) (list_all2 same_pod) (listPodsBySelector c w ns f) (listPodsBySelector c w' ns f)) \<and>
     (\<forall>k. nn_Namespace k = ns \<longrightarrow> rel_sum (=) same_rs (getReplicaSet c w k) (getReplicaSet c w' k))"

lemma podWorkloadOwner_cong:
  assumes "same_pod a b" and "\<And>k. nn_Namespace k = om_Namespace (pod_Meta a) \<Longrightarrow> rel_sum (=) same_rs (getReplicaSet c w k) (getReplicaSet c w' k)"
  shows "podWorkloadOwner h c w a = podWorkloadOwner h c w' b"
proof (cases "getControllerOf h (om_OwnerReferences (pod_Meta a))")
  case None
  with assms(1) show ?thesis by (simp add: podWorkloadOwner_def same_pod_def)
next
  case (Some owner)
  let ?k = "\<lparr>nn_Namespace = om_Namespace (pod_Meta a), nn_Name = or_Name owner\<rparr>"
  have "rel_sum (=) same_rs (getReplicaSet c w ?k) (getReplicaSet c w' ?k)" by (rule assms(2)) simp
  with Some assms(1) show ?thesis
    by (cases "getReplicaSet c w ?k"; cases "getReplicaSet c w' ?k")
      (auto simp: podWorkloadOwner_def same_pod_def same_rs_def meta_key_def Let_def)
qed

lemma pod_overlaps_cong:
  assumes "list_all2 same_pod xs ys" and "\<forall>x \<in> set xs. om_Namespace (pod_Meta x) = ns"
    and "\<And>k. nn_Namespace k = ns \<Longrightarrow> rel_sum (=) same_rs (getReplicaSet c w k) (getReplicaSet c w' k)"
  shows "pod_overlaps h c w t ts xs = pod_overlaps h c w' t ts ys"
  using assms(1,2)
proof (induction rule: list_all2_induct)
  case (Cons x xs y ys)
  from Cons have "podWorkloadOwner h c w x = podWorkloadOwner h c w' y" by (intro podWorkloadOwner_cong assms(3)) auto
  moreover from Cons(1) have "pod_description x = pod_description y" 
    by (auto simp: pod_description_def same_pod_def meta_key_def fun_eq_iff split: option.splits)
  ultimately show ?case using Cons by (simp split: sum.splits)
qed simp

lemma checkSelectorScope_cong:
  assumes "scope_equiv h c w w' (wnp_Namespace p)"
    and "\<And>f xs x. listPodsBySelector c w (wnp_Namespace p) f = Inr xs \<Longrightarrow> x \<in> set xs \<Longrightarrow> om_Namespace (pod_Meta x) = wnp_Namespace p"
  shows "checkSelectorScope h c w p = checkSelectorScope h c w' p"
proof -
  have t: "workloadTemplates c w (wnp_Namespace p) = workloadTemplates c w' (wnp_Namespace p)"
    using assms(1) by (simp add: scope_equiv_def)
  have o: "podSelectorOverlaps h c w p f ts = podSelectorOverlaps h c w' p f ts" if "labelSelectorAsSelector h s = Inr (f, e)" for s f e ts
  proof -
    have r: "rel_sum (=) (list_all2 same_pod) (listPodsBySelector c w (wnp_Namespace p) f) (listPodsBySelector c w' (wnp_Namespace p) f)"
      using assms(1) that unfolding scope_equiv_def by blast
    show ?thesis
    proof (cases "listPodsBySelector c w (wnp_Namespace p) f")
      case (Inl e)
      with r show ?thesis by (cases "listPodsBySelector c w' (wnp_Namespace p) f") (auto simp: podSelectorOverlaps_def)
    next
      case (Inr xs)
      with r obtain ys where ys: "listPodsBySelector c w' (wnp_Namespace p) f = Inr ys" "list_all2 same_pod xs ys"
        by (cases "listPodsBySelector c w' (wnp_Namespace p) f") auto
      from ys(2) have "pod_overlaps h c w (wnp_TargetRef p) ts xs = pod_overlaps h c w' (wnp_TargetRef p) ts ys"
        by (rule pod_overlaps_cong) (use assms Inr in \<open>auto simp: scope_equiv_def\<close>)
      with Inr ys show ?thesis by (simp add: podSelectorOverlaps_def)
    qed
  qed
  show ?thesis
  proof (cases "GetSelector (Some (wnp_Spec p))")
    case (Inr spec0)
    let ?spec = "if Backend (wnp_Backend p) = PolicyBackendIstio then spec0\<lparr>MatchExpressions := []\<rparr> else spec0"
    show ?thesis
    proof (cases "labelSelectorAsSelector h ?spec")
      case (Inr fe)
      obtain f e where fe: "fe = (f, e)" by (cases fe)
      have "podSelectorOverlaps h c w p f = podSelectorOverlaps h c w' p f" by (rule ext) (rule o [OF Inr [unfolded fe]])
      with \<open>GetSelector _ = _\<close> Inr fe t show ?thesis
        unfolding checkSelectorScope_def Let_def by (auto split: sum.split prod.split)
    qed (use \<open>GetSelector _ = _\<close> in \<open>simp add: checkSelectorScope_def Let_def\<close>)
  qed (simp add: checkSelectorScope_def)
qed

section \<open>Events that do not pass\<close>

lemma find_skip: "\<not> P x \<Longrightarrow> find P (as @ x # bs) = find P (as @ bs)"
  by (induction as) auto

text \<open>Objects of other namespaces do not show.\<close>

lemma effect_elsewhere_filter:
  assumes "event_effect meta spec e xs ys" and "\<forall>x \<in> set_obj_event e. \<not> P x"
  shows "filter P xs = filter P ys"
  using assms by (cases e) auto

lemma effect_elsewhere_find:
  assumes "event_effect meta spec e xs ys" and "\<forall>x \<in> set_obj_event e. \<not> P x"
  shows "find P xs = find P ys"
  using assms by (cases e) (auto simp: find_skip)

lemma unchanged_labels:
  assumes "\<not> selectorScopeMetadataChanges a b"
  shows "om_UID a = om_UID b" and "map_of (om_Labels a) = map_of (om_Labels b)" and "om_OwnerReferences a = om_OwnerReferences b"
proof -
  have "map_of (om_Labels a) k = map_of (om_Labels b) k" for k
    using assms by (cases "k \<in> fst ` set (om_Labels a) \<union> fst ` set (om_Labels b)")
      (auto simp: selectorScopeMetadataChanges_def list_all_iff map_of_eq_None_iff [THEN iffD2])
  then show "map_of (om_Labels a) = map_of (om_Labels b)" ..
qed (use assms in \<open>auto simp: selectorScopeMetadataChanges_def\<close>)

lemma list_all2_refl_same_pod: "list_all2 same_pod xs xs"
  by (simp add: list_all2_same same_pod_def)

text \<open>The three kinds of event: in the namespace they are requested, or the predicate has seen that nothing
  that is read has changed.\<close>

lemma pod_event_equiv:
  assumes "event_effect pod_Meta spec e xs ys" and "\<And>a b. map_of a = map_of b \<Longrightarrow> f a = f b"
    and "\<not> passes selectorScopeMetadataChanges pod_Meta e \<or> (\<forall>x \<in> set_obj_event e. om_Namespace (pod_Meta x) \<noteq> ns)"
  shows "list_all2 same_pod (filter (\<lambda>p. om_Namespace (pod_Meta p) = ns \<and> f (om_Labels (pod_Meta p))) xs)
    (filter (\<lambda>p. om_Namespace (pod_Meta p) = ns \<and> f (om_Labels (pod_Meta p))) ys)"
  using assms(3)
proof
  assume n: "\<not> passes selectorScopeMetadataChanges pod_Meta e"
  then obtain old new where e: "e = Updated old new" "\<not> selectorScopeMetadataChanges (pod_Meta old) (pod_Meta new)"
    by (cases e) auto
  note u = unchanged_labels [OF e(2)]
  with e assms(1) have "same_pod old new" "om_Namespace (pod_Meta old) = om_Namespace (pod_Meta new)"
    by (auto simp: same_pod_def meta_key_def)
  moreover have "f (om_Labels (pod_Meta old)) = f (om_Labels (pod_Meta new))" using assms(2) u(2) .
  ultimately show ?thesis using assms(1) e(1) by (auto simp: list_all2_refl_same_pod intro!: list_all2_appendI)
next
  assume "\<forall>x \<in> set_obj_event e. om_Namespace (pod_Meta x) \<noteq> ns"
  with effect_elsewhere_filter [OF assms(1), of "\<lambda>p. om_Namespace (pod_Meta p) = ns \<and> f (om_Labels (pod_Meta p))"]
  show ?thesis by (simp add: list_all2_refl_same_pod)
qed

lemma rs_event_equiv:
  assumes "event_effect rs_Meta spec e xs ys" and "nn_Namespace k = ns"
    and "\<not> passes selectorScopeMetadataChanges rs_Meta e \<or> (\<forall>x \<in> set_obj_event e. om_Namespace (rs_Meta x) \<noteq> ns)"
  shows "rel_option same_rs (find (\<lambda>r. meta_key (rs_Meta r) = k) xs) (find (\<lambda>r. meta_key (rs_Meta r) = k) ys)"
  using assms(3)
proof
  assume n: "\<not> passes selectorScopeMetadataChanges rs_Meta e"
  then obtain old new where e: "e = Updated old new" "\<not> selectorScopeMetadataChanges (rs_Meta old) (rs_Meta new)"
    by (cases e) auto
  with unchanged_labels [OF e(2)] have s: "same_rs old new" by (simp add: same_rs_def)
  from assms(1) e obtain as bs where l: "xs = as @ old # bs" "ys = as @ new # bs" "meta_key (rs_Meta old) = meta_key (rs_Meta new)" by auto
  have "rel_option same_rs (find (\<lambda>r. meta_key (rs_Meta r) = k) (as @ old # bs)) (find (\<lambda>r. meta_key (rs_Meta r) = k) (as @ new # bs))"
    by (induction as) (use s l(3) in \<open>auto simp: option.rel_refl same_rs_def\<close>)
  with l show ?thesis by simp
next
  assume "\<forall>x \<in> set_obj_event e. om_Namespace (rs_Meta x) \<noteq> ns"
  with assms(2) have "find (\<lambda>r. meta_key (rs_Meta r) = k) xs = find (\<lambda>r. meta_key (rs_Meta r) = k) ys"
    by (intro effect_elsewhere_find [OF assms(1)]) (auto simp: meta_key_def)
  then show ?thesis by (simp add: option.rel_refl same_rs_def)
qed

lemma workload_event_equiv:
  assumes "event_effect wo_Meta wo_TemplateLabels e xs ys"
    and "\<not> passes selectorScopeWorkloadChanges wo_Meta e \<or> (\<forall>x \<in> set_obj_event e. om_Namespace (wo_Meta x) \<noteq> ns)"
  shows "map (template_of kind) (filter (\<lambda>x. om_Namespace (wo_Meta x) = ns) xs) = map (template_of kind) (filter (\<lambda>x. om_Namespace (wo_Meta x) = ns) ys)"
  using assms(2)
proof
  assume "\<not> passes selectorScopeWorkloadChanges wo_Meta e"
  with assms(1) show ?thesis by (cases e) (auto simp: selectorScopeWorkloadChanges_def template_of_def meta_key_def)
next
  assume "\<forall>x \<in> set_obj_event e. om_Namespace (wo_Meta x) \<noteq> ns"
  with effect_elsewhere_filter [OF assms(1), of "\<lambda>x. om_Namespace (wo_Meta x) = ns"] show ?thesis by simp
qed

definition relevant :: "scope_event \<Rightarrow> string \<Rightarrow> bool" where
  "relevant ev ns \<longleftrightarrow>
     (case ev of
        WorkloadEvent _ e \<Rightarrow> passes selectorScopeWorkloadChanges wo_Meta e \<and> (\<exists>x \<in> set_obj_event e. om_Namespace (wo_Meta x) = ns)
      | ReplicaSetEvent e \<Rightarrow> passes selectorScopeMetadataChanges rs_Meta e \<and> (\<exists>x \<in> set_obj_event e. om_Namespace (rs_Meta x) = ns)
      | PodEvent e \<Rightarrow> passes selectorScopeMetadataChanges pod_Meta e \<and> (\<exists>x \<in> set_obj_event e. om_Namespace (pod_Meta x) = ns))"

lemma irrelevant_equiv:
  assumes "selector_ok h" and "cached c w missing v" and "cached c w' missing v'" and "scope_effect ev v v'" and "\<not> relevant ev ns"
  shows "scope_equiv h c w w' ns"
proof -
  have pods: "list_all2 same_pod (filter (\<lambda>p. om_Namespace (pod_Meta p) = ns \<and> f (om_Labels (pod_Meta p))) (sv_pods v))
      (filter (\<lambda>p. om_Namespace (pod_Meta p) = ns \<and> f (om_Labels (pod_Meta p))) (sv_pods v'))"
    if "labelSelectorAsSelector h s = Inr (f, e)" for s f e
  proof (cases ev)
    case (PodEvent x)
    with assms(4,5) show ?thesis
      by (intro pod_event_equiv [of "\<lambda>_. ()" x]) (use assms(1) that in \<open>auto simp: scope_effect_def relevant_def selector_ok_def\<close>)
  qed (use assms(4) in \<open>auto simp: scope_effect_def list_all2_refl_same_pod\<close>)
  have rss: "rel_option same_rs (find (\<lambda>r. meta_key (rs_Meta r) = k) (sv_replicasets v)) (find (\<lambda>r. meta_key (rs_Meta r) = k) (sv_replicasets v'))"
    if "nn_Namespace k = ns" for k
  proof (cases ev)
    case (ReplicaSetEvent x)
    with assms(4,5) that show ?thesis
      by (intro rs_event_equiv [of "\<lambda>_. ()" x]) (auto simp: scope_effect_def relevant_def)
  qed (use assms(4) in \<open>auto simp: scope_effect_def option.rel_refl same_rs_def\<close>)
  have ts: "map (template_of kind) (filter (\<lambda>x. om_Namespace (wo_Meta x) = ns) (sv_workloads v kind)) =
      map (template_of kind) (filter (\<lambda>x. om_Namespace (wo_Meta x) = ns) (sv_workloads v' kind))" for kind
  proof (cases ev)
    case (WorkloadEvent kind' x)
    show ?thesis
    proof (cases "kind' = kind")
      case True
      with assms(4,5) WorkloadEvent show ?thesis
        by (intro workload_event_equiv [of x]) (auto simp: scope_effect_def relevant_def)
    next
      case False
      with assms(4) WorkloadEvent have "sv_workloads v' kind = sv_workloads v kind" by (simp add: scope_effect_def)
      then show ?thesis by simp
    qed
  qed (use assms(4) in \<open>auto simp: scope_effect_def\<close>)
  have "workloadTemplates c w ns = workloadTemplates c w' ns"
    using assms(2,3) ts by (simp add: cached_def workloadTemplates_def)
  moreover have "rel_sum (=) same_rs (getReplicaSet c w k) (getReplicaSet c w' k)" if "nn_Namespace k = ns" for k
    using assms(2,3) rss [OF that] by (auto simp: cached_def option_rel_Some1 option_rel_Some2 split: option.splits)
  ultimately show ?thesis
    using assms(2,3) pods by (auto simp: scope_equiv_def cached_def)
qed

lemma relevant_requested:
  assumes "map_func_ok enq" and "cached c w missing v" and "p \<in> set (sv_policies v)" and "relevant ev (wnp_Namespace p)"
  shows "wnp_NamespacedName (Some p) \<in> set (scope_watch enq c w ev)"
proof -
  let ?f = "\<lambda>m. policiesForWorkload c w (om_Namespace m)"
  have f: "wnp_NamespacedName (Some p) \<in> set (?f m)" if "om_Namespace m = wnp_Namespace p" for m
    using assms(2,3) that by (auto simp: policiesForWorkload_def cached_def)
  have e: "wnp_NamespacedName (Some p) \<in> set (enq ?f e)" if "m \<in> set_obj_event e" "om_Namespace m = wnp_Namespace p" for m e
  proof -
    have "(\<Union>m \<in> set_obj_event e. set (?f m)) \<subseteq> set (enq ?f e)" using assms(1) by (simp add: map_func_ok_def)
    moreover have "wnp_NamespacedName (Some p) \<in> (\<Union>m \<in> set_obj_event e. set (?f m))" using that(1) f [OF that(2)] by (rule UN_I)
    ultimately show ?thesis ..
  qed
  have r: "wnp_NamespacedName (Some p) \<in> set (enq ?f (map_obj_event meta e))"
    if "\<exists>x \<in> set_obj_event e. om_Namespace (meta x) = wnp_Namespace p" for meta :: "'o \<Rightarrow> ObjectMeta" and e
  proof -
    from that obtain x where x: "x \<in> set_obj_event e" "om_Namespace (meta x) = wnp_Namespace p" by blast
    then have "meta x \<in> set_obj_event (map_obj_event meta e)" by (simp add: obj_event.set_map)
    from e [OF this x(2)] show ?thesis .
  qed
  show ?thesis using assms(4)
    by (cases ev) (simp_all add: relevant_def scope_watch_def Let_def r)
qed

section \<open>What the duplicate check depends on\<close>

definition same_age :: "WorkloadNetworkPolicy \<Rightarrow> WorkloadNetworkPolicy \<Rightarrow> bool" where
  "same_age a b \<longleftrightarrow> wnp_Name a = wnp_Name b \<and> om_CreationTimestamp (wnp_Meta a) = om_CreationTimestamp (wnp_Meta b)"

lemma same_age_refl: "list_all2 same_age xs xs"
  by (simp add: list_all2_same same_age_def)

lemma foldl_min_cong:
  assumes "list_all2 same_age xs ys" and "same_age a b"
  shows "same_age (foldl (\<lambda>m y. if compare_age y m < 0 then y else m) a xs) (foldl (\<lambda>m y. if compare_age y m < 0 then y else m) b ys)"
  using assms
proof (induction arbitrary: a b rule: list_all2_induct)
  case (Cons x xs y ys)
  from Cons(1,4) have "compare_age x a = compare_age y b" by (simp add: compare_age_def same_age_def Let_def)
  with Cons show ?case by simp
qed simp

lemma oldest_cong:
  "list_all2 same_age xs ys \<Longrightarrow> rel_option same_age (oldestWorkloadNetworkPolicy xs) (oldestWorkloadNetworkPolicy ys)"
  by (auto simp: oldestWorkloadNetworkPolicy_def min_func_def foldl_min_cong split: list.splits)

lemma checkDuplicateTarget_cong:
  assumes "\<And>ns k. \<exists>xs ys. listWNPByField c w ns WNPTargetIndexField k = Inr xs \<and> listWNPByField c w' ns WNPTargetIndexField k = Inr ys"
    and "\<And>t xs ys. wnpTargetKey q = Some t \<Longrightarrow> listWNPByField c w (wnp_Namespace q) WNPTargetIndexField (target_key t) = Inr xs \<Longrightarrow>
      listWNPByField c w' (wnp_Namespace q) WNPTargetIndexField (target_key t) = Inr ys \<Longrightarrow> list_all2 same_age xs ys"
  shows "checkDuplicateTarget c w q = checkDuplicateTarget c w' q"
proof (cases "wnpTargetKey q")
  case None
  then show ?thesis by (simp add: checkDuplicateTarget_def)
next
  case (Some t)
  from assms(1) obtain xs ys where l: "listWNPByField c w (wnp_Namespace q) WNPTargetIndexField (target_key t) = Inr xs"
    "listWNPByField c w' (wnp_Namespace q) WNPTargetIndexField (target_key t) = Inr ys" by blast
  from assms(2) [OF Some l] have r: "list_all2 same_age xs ys" .
  then have "map wnp_Name xs = map wnp_Name ys" by (induction rule: list_all2_induct) (auto simp: same_age_def)
  moreover from r have "length xs = length ys" by (rule list_all2_lengthD)
  ultimately show ?thesis using Some l oldest_cong [OF r]
    by (auto simp: checkDuplicateTarget_def Let_def same_age_def option_rel_Some1 option_rel_Some2 split: option.splits)
qed

lemma shared_target_requested:
  assumes "field_index_ok c w WNPTargetIndexField IndexWNPByTarget objs" and "q \<in> set objs"
    and "meta_key (wnp_Meta q) \<noteq> meta_key (wnp_Meta p)" and "wnp_Namespace q = wnp_Namespace p"
    and "targetKey q = targetKey p" and "targetKey p \<noteq> []"
  shows "wnp_NamespacedName (Some q) \<in> set (duplicateTargetPolicies c w p)"
  using assms by (auto simp: duplicateTargetPolicies_def targetKey_wnpTargetKey field_index_ok_def IndexWNPByTarget_iff meta_key_def)

text \<open>The policies that the duplicate check of \<open>q\<close> looks at.\<close>

abbreviation rivals :: "WorkloadNetworkPolicy \<Rightarrow> WorkloadNetworkPolicy \<Rightarrow> bool" where
  "rivals q p \<equiv> wnp_Namespace p = wnp_Namespace q \<and> targetKey q \<in> set (IndexWNPByTarget p)"

lemma checkDuplicateTarget_filter_cong:
  assumes "field_index_ok c w WNPTargetIndexField IndexWNPByTarget objs" and "field_index_ok c w' WNPTargetIndexField IndexWNPByTarget objs'"
    and "targetKey q \<noteq> [] \<Longrightarrow> list_all2 same_age (filter (rivals q) objs) (filter (rivals q) objs')"
  shows "checkDuplicateTarget c w q = checkDuplicateTarget c w' q"
  by (rule checkDuplicateTarget_cong) (use assms in \<open>auto simp: field_index_ok_def targetKey_wnpTargetKey split: if_splits\<close>)

section \<open>Properties\<close>

text \<open>C21. The watches of the selector scope are complete. When a workload, a ReplicaSet or a pod is created, updated or
  deleted, every policy either is reconciled again or has the verdict on its selector unchanged: the
  update predicates drop only events that the verdict does not depend on.\<close>

theorem scope_events_complete:
  assumes "map_func_ok enq" and "selector_ok h" and "cached c w missing v" and "cached c w' missing v'"
    and "scope_effect ev v v'" and "p \<in> set (sv_policies v)"
  shows "wnp_NamespacedName (Some p) \<in> set (scope_watch enq c w' ev) \<or> checkSelectorScope h c w' p = checkSelectorScope h c w p"
proof (cases "relevant ev (wnp_Namespace p)")
  case True
  have "p \<in> set (sv_policies v')" using assms(5,6) by (simp add: scope_effect_def)
  from relevant_requested [OF assms(1,4) this True] show ?thesis ..
next
  case False
  from irrelevant_equiv [OF assms(2-5) False] have "checkSelectorScope h c w p = checkSelectorScope h c w' p"
    by (rule checkSelectorScope_cong) (use assms(3) in \<open>auto simp: cached_def\<close>)
  then show ?thesis by simp
qed

fun mem_map_func :: map_func where
  "mem_map_func f (Created m) = f m"
| "mem_map_func f (Updated old new) = f old @ f new"
| "mem_map_func f (Deleted m) = f m"

lemma mem_map_func_ok: "map_func_ok mem_map_func"
proof -
  have "(\<Union>m \<in> set_obj_event ev. set (f m)) \<subseteq> set (mem_map_func f ev)" for f ev by (cases ev) auto
  then show ?thesis by (simp add: map_func_ok_def)
qed

lemma mem_selector_ok: "selector_ok mem_helpers"
  by (auto simp: selector_ok_def mem_helpers_def labels_match_def)

definition mem_view :: "store \<Rightarrow> scope_view" where
  "mem_view w = \<lparr>sv_pods = st_pods w, sv_replicasets = st_replicasets w,
     sv_workloads = \<lambda>kind. map snd (filter (\<lambda>x. fst x = kind) (st_workloads w)), sv_policies = st_wnps w\<rparr>"

lemma mem_cached: "cached (mem_client idx) w (\<lambda>k. ApiStatus NotFound (''not found: '' @ nn_string k)) (mem_view w)"
  by (auto simp: cached_def mem_client_def mem_view_def mem_find_def split: option.splits)

text \<open>A pod whose annotations change.\<close>

definition sample_annotated :: store where
  "sample_annotated = (let w = sample_scope ''api''; p = hd (st_pods w) in
     w\<lparr>st_wnps := [sample_wnp], st_pods := [p\<lparr>pod_Meta := (pod_Meta p)\<lparr>om_Annotations := [(''note'', ''x'')]\<rparr>\<rparr>]\<rparr>)"

theorem scope_events_complete_witness:
  "checkSelectorScope mem_helpers (mem_client sample_index) sample_annotated sample_wnp =
     checkSelectorScope mem_helpers (mem_client sample_index) ((sample_scope ''api'')\<lparr>st_wnps := [sample_wnp]\<rparr>) sample_wnp"
proof -
  let ?w = "(sample_scope ''api'')\<lparr>st_wnps := [sample_wnp]\<rparr>"
  let ?old = "hd (st_pods ?w)" and ?new = "hd (st_pods sample_annotated)"
  let ?ev = "PodEvent (Updated ?old ?new)"
  have eff: "scope_effect ?ev (mem_view ?w) (mem_view sample_annotated)"
    by (simp add: scope_effect_def mem_view_def sample_annotated_def sample_scope_def Let_def meta_key_def empty_store_def,
        rule exI [of _ "[]"], simp)
  have "scope_watch mem_map_func (mem_client sample_index) sample_annotated ?ev = []"
    by (simp add: scope_watch_def sample_annotated_def sample_scope_def selectorScopeMetadataChanges_def Let_def meta_named_def)
  with scope_events_complete [OF mem_map_func_ok mem_selector_ok mem_cached mem_cached eff, of sample_wnp sample_index] show ?thesis
    by (simp add: mem_view_def)
qed

text \<open>C22. The watch behind the duplicate check is complete. When a policy is created, updated or deleted, every other
  policy either is reconciled again or has the verdict of its duplicate check unchanged. So when the
  winner of a target goes away or is retargeted, the policy that wins next is told.\<close>

theorem duplicate_events_complete:
  assumes "field_index_ok c w WNPTargetIndexField IndexWNPByTarget objs" and "field_index_ok c w' WNPTargetIndexField IndexWNPByTarget objs'"
    and "event_effect wnp_Meta (\<lambda>p. (wnp_Spec p, om_CreationTimestamp (wnp_Meta p))) ev objs objs'"
    and "q \<in> set objs'" and "\<forall>p \<in> set_obj_event ev. meta_key (wnp_Meta q) \<noteq> meta_key (wnp_Meta p)"
  shows "wnp_NamespacedName (Some q) \<in> set (duplicate_watch c w' ev) \<or> checkDuplicateTarget c w' q = checkDuplicateTarget c w q"
proof (cases "passes selectorScopeWorkloadChanges wnp_Meta ev \<and> targetKey q \<noteq> [] \<and> (\<exists>p \<in> set_obj_event ev. rivals q p)")
  case True
  then obtain p where p: "p \<in> set_obj_event ev" "wnp_Namespace p = wnp_Namespace q" "targetKey p = targetKey q"
    by (auto simp: IndexWNPByTarget_iff)
  with True shared_target_requested [OF assms(2,4), of p] assms(5) have "wnp_NamespacedName (Some q) \<in> set (duplicateTargetPolicies c w' p)" by auto
  with True p(1) have "wnp_NamespacedName (Some q) \<in> set (duplicate_watch c w' ev)" by (cases ev) (auto simp: duplicate_watch_def)
  then show ?thesis ..
next
  case False
  have "checkDuplicateTarget c w q = checkDuplicateTarget c w' q"
  proof (rule checkDuplicateTarget_filter_cong [OF assms(1,2)])
    assume t: "targetKey q \<noteq> []"
    with False consider "\<forall>p \<in> set_obj_event ev. \<not> rivals q p" | "\<not> passes selectorScopeWorkloadChanges wnp_Meta ev" by blast
    then show "list_all2 same_age (filter (rivals q) objs) (filter (rivals q) objs')"
    proof cases
      case 1
      from effect_elsewhere_filter [OF assms(3) 1] show ?thesis by (simp add: same_age_refl)
    next
      case 2
      then obtain old new as bs where e: "ev = Updated old new" "objs = as @ old # bs" "objs' = as @ new # bs"
        "same_age old new" "wnp_Namespace old = wnp_Namespace new" "wnp_Spec old = wnp_Spec new"
        using assms(3) by (cases ev) (auto simp: selectorScopeWorkloadChanges_def same_age_def meta_key_def)
      then have "IndexWNPByTarget old = IndexWNPByTarget new" by (simp add: IndexWNPByTarget_def Let_def)
      with e show ?thesis by (auto simp: same_age_refl intro!: list_all2_appendI)
    qed
  qed
  then show ?thesis by simp
qed

theorem duplicate_events_complete_witness:
  "wnp_NamespacedName (Some sample_newer) \<in>
     set (duplicate_watch (mem_client sample_index) (empty_store\<lparr>st_wnps := [sample_newer]\<rparr>) (Deleted sample_older))"
proof -
  let ?w = "empty_store\<lparr>st_wnps := [sample_older, sample_newer]\<rparr>" and ?w' = "empty_store\<lparr>st_wnps := [sample_newer]\<rparr>"
  have "event_effect wnp_Meta (\<lambda>p. (wnp_Spec p, om_CreationTimestamp (wnp_Meta p))) (Deleted sample_older) (st_wnps ?w) (st_wnps ?w')"
    by (auto intro: exI [of _ "[]"])
  from duplicate_events_complete [OF sample_index_ok sample_index_ok this, of sample_newer]
  have "wnp_NamespacedName (Some sample_newer) \<in> set (duplicate_watch (mem_client sample_index) ?w' (Deleted sample_older)) \<or>
      checkDuplicateTarget (mem_client sample_index) ?w' sample_newer = checkDuplicateTarget (mem_client sample_index) ?w sample_newer"
    by (simp add: sample_older_def sample_newer_def meta_key_def)
  moreover have "checkDuplicateTarget (mem_client sample_index) ?w' sample_newer = Inr None" by code_simp
  moreover have "case checkDuplicateTarget (mem_client sample_index) ?w sample_newer of Inl _ \<Rightarrow> False | Inr None \<Rightarrow> False | Inr (Some _) \<Rightarrow> True"
    by code_simp
  ultimately show ?thesis by (auto split: sum.splits option.splits)
qed

end
