(* ===== verification/Persister.thy ===== *)
theory Persister
  imports KubeClient
begin

text \<open>
  The checkpoint store of the agent, \<^verbatim>\<open>internal/tailer/persister.go\<close>: a map from keys to byte strings that
  is written to one file after every change, through a temporary file and a rename. The operations
  run under a mutex, so each one is atomic for the callers.

  The operating system is the argument \<open>fs\<close>, a record of the calls that are made; \<open>fs_ok\<close> is what the code
  relies on. A write may fail or be cut off by a crash (\<open>crash_fs\<close>), and then has left anything in its file, but
  no other file has changed; a rename replaces the target in one step. The map is encoded by
  encoding/json, the arguments \<open>json_marshal\<close> and \<open>json_unmarshal\<close>, with \<open>codec_ok\<close>.
\<close>

section \<open>Model\<close>

type_synonym bytes = string
type_synonym checkpoint = "(string \<times> bytes) list"

datatype read_result = ReadOk bytes | NotExist | ReadError error

record 'w fs_ops =
  readFile :: "'w \<Rightarrow> string \<Rightarrow> read_result"
  writeFile :: "'w \<Rightarrow> string \<Rightarrow> bytes \<Rightarrow> 'w \<times> error option"
  rename :: "'w \<Rightarrow> string \<Rightarrow> string \<Rightarrow> 'w \<times> error option"

record codec =
  json_marshal :: "checkpoint \<Rightarrow> error + bytes"
  json_unmarshal :: "bytes \<Rightarrow> error + checkpoint option"

record filePersister =
  fp_path :: string
  fp_data :: checkpoint

datatype OpType = OpGet | OpSet | OpDelete | OpOther int

record Operation =
  op_Type :: OpType
  op_Key :: string
  op_Value :: bytes

text \<open>\<open>json_unmarshal\<close> gives \<open>None\<close> for the JSON literal null, which leaves a nil map.\<close>

definition newFilePersister :: "'w fs_ops \<Rightarrow> codec \<Rightarrow> 'w \<Rightarrow> string \<Rightarrow> error + filePersister" where
  "newFilePersister fs j w path =
     (let p = \<lparr>fp_path = path, fp_data = []\<rparr> in
      case readFile fs w path of
        NotExist \<Rightarrow> Inr p
      | ReadError e \<Rightarrow> Inl e
      | ReadOk raw \<Rightarrow>
          if raw = [] then Inr p
          else
            (case json_unmarshal j raw of
               Inl _ \<Rightarrow> Inr p
             | Inr None \<Rightarrow> Inr p
             | Inr (Some d) \<Rightarrow> Inr (p\<lparr>fp_data := d\<rparr>)))"

definition flush :: "'w fs_ops \<Rightarrow> codec \<Rightarrow> 'w \<Rightarrow> filePersister \<Rightarrow> 'w \<times> error option" where
  "flush fs j w p =
     (case json_marshal j (fp_data p) of
        Inl e \<Rightarrow> (w, Some e)
      | Inr raw \<Rightarrow>
          let tmp = fp_path p @ ''.tmp'' in
          (case writeFile fs w tmp raw of
             (w1, Some e) \<Rightarrow> (w1, Some e)
           | (w1, None) \<Rightarrow> rename fs w1 tmp (fp_path p)))"

definition fp_flush :: "'w fs_ops \<Rightarrow> codec \<Rightarrow> 'w \<Rightarrow> filePersister \<Rightarrow> 'w \<times> filePersister \<times> error option" where
  "fp_flush fs j w p = (case flush fs j w p of (w', e) \<Rightarrow> (w', p, e))"

definition fp_reset :: "'w fs_ops \<Rightarrow> codec \<Rightarrow> 'w \<Rightarrow> filePersister \<Rightarrow> 'w \<times> filePersister \<times> error option" where
  "fp_reset fs j w p = fp_flush fs j w (p\<lparr>fp_data := []\<rparr>)"

definition fp_Get :: "filePersister \<Rightarrow> string \<Rightarrow> bytes" where
  "fp_Get p k = map_get0 (fp_data p) k"

definition fp_Set :: "'w fs_ops \<Rightarrow> codec \<Rightarrow> 'w \<Rightarrow> filePersister \<Rightarrow> string \<Rightarrow> bytes \<Rightarrow> 'w \<times> filePersister \<times> error option" where
  "fp_Set fs j w p k v = fp_flush fs j w (p\<lparr>fp_data := AList.update k v (fp_data p)\<rparr>)"

definition fp_Delete :: "'w fs_ops \<Rightarrow> codec \<Rightarrow> 'w \<Rightarrow> filePersister \<Rightarrow> string \<Rightarrow> 'w \<times> filePersister \<times> error option" where
  "fp_Delete fs j w p k = fp_flush fs j w (p\<lparr>fp_data := AList.delete k (fp_data p)\<rparr>)"

text \<open>The loop of \<open>Batch\<close>: the data and the operations after it, and whether it stopped at an unknown
  operation type.\<close>

fun batch_ops :: "checkpoint \<Rightarrow> Operation list \<Rightarrow> checkpoint \<times> Operation list \<times> error option" where
  "batch_ops d [] = (d, [], None)"
| "batch_ops d (op # ops) =
     (case op_Type op of
        OpSet \<Rightarrow> (case batch_ops (AList.update (op_Key op) (op_Value op) d) ops of (d', ops', e) \<Rightarrow> (d', op # ops', e))
      | OpDelete \<Rightarrow> (case batch_ops (AList.delete (op_Key op) d) ops of (d', ops', e) \<Rightarrow> (d', op # ops', e))
      | OpGet \<Rightarrow> (case batch_ops d ops of (d', ops', e) \<Rightarrow> (d', op\<lparr>op_Value := map_get0 d (op_Key op)\<rparr> # ops', e))
      | OpOther t \<Rightarrow> (d, op # ops, Some (Plain (''filePersister: unknown operation type '' @ fmt_int t))))"

definition fp_Batch ::
    "'w fs_ops \<Rightarrow> codec \<Rightarrow> 'w \<Rightarrow> filePersister \<Rightarrow> Operation list \<Rightarrow> 'w \<times> filePersister \<times> Operation list \<times> error option" where
  "fp_Batch fs j w p ops =
     (case batch_ops (fp_data p) ops of (d, ops', err) \<Rightarrow>
        let p' = p\<lparr>fp_data := d\<rparr> in
        (case err of
           Some e \<Rightarrow> (w, p', ops', Some e)
         | None \<Rightarrow> (case flush fs j w p' of (w', e) \<Rightarrow> (w', p', ops', e))))"

section \<open>What is relied on\<close>

text \<open>\<open>writing w path raw w'\<close>: \<open>w'\<close> is a state during or after a write of \<open>raw\<close> to \<open>path\<close>.\<close>

definition fs_ok :: "'w fs_ops \<Rightarrow> ('w \<Rightarrow> string \<Rightarrow> bytes \<Rightarrow> 'w \<Rightarrow> bool) \<Rightarrow> bool" where
  "fs_ok fs writing \<longleftrightarrow>
     (\<forall>w path raw w' r. writeFile fs w path raw = (w', r) \<longrightarrow>
        writing w path raw w' \<and> (r = None \<longrightarrow> readFile fs w' path = ReadOk raw)) \<and>
     (\<forall>w path raw w' other. writing w path raw w' \<and> other \<noteq> path \<longrightarrow> readFile fs w' other = readFile fs w other) \<and>
     (\<forall>w a b w' r. rename fs w a b = (w', r) \<and> a \<noteq> b \<longrightarrow>
        readFile fs w' b = (if r = None then readFile fs w a else readFile fs w b))"

text \<open>A map that was encoded is decoded to one with the same entries, if its keys are ASCII: encoding/json replaces what is no valid
  UTF-8. Values are byte slices, which it encodes in base64.\<close>

definition ascii_keys :: "checkpoint \<Rightarrow> bool" where
  "ascii_keys m \<longleftrightarrow> list_all (\<lambda>(k, _). list_all (\<lambda>c. (of_char c :: nat) < 128) k) m"

definition codec_ok :: "codec \<Rightarrow> bool" where
  "codec_ok j \<longleftrightarrow>
     (\<forall>m raw. json_marshal j m = Inr raw \<and> ascii_keys m \<longrightarrow>
        raw \<noteq> [] \<and> (\<exists>m'. json_unmarshal j raw = Inr (Some m') \<and> map_of m' = map_of m))"

text \<open>The process dies. \<open>crash_fs fs mid\<close> is the file system seen by a process that completes as many more calls as the number in its
  state says and dies in the next one: a write then leaves what \<open>mid\<close> gives, a rename has not happened, and nothing happens any
  more. Without a number it is dead.\<close>

definition crash_fs :: "'w fs_ops \<Rightarrow> ('w \<Rightarrow> string \<Rightarrow> bytes \<Rightarrow> 'w) \<Rightarrow> ('w \<times> nat option) fs_ops" where
  "crash_fs fs mid =
     \<lparr>readFile = \<lambda>(w, _). readFile fs w,
      writeFile = \<lambda>(w, left) path raw. (case left of
         None \<Rightarrow> ((w, None), Some (Plain ''killed''))
       | Some 0 \<Rightarrow> ((mid w path raw, None), Some (Plain ''killed''))
       | Some (Suc n) \<Rightarrow> (case writeFile fs w path raw of (w', r) \<Rightarrow> ((w', Some n), r))),
      rename = \<lambda>(w, left) a b. (case left of
         Some (Suc n) \<Rightarrow> (case rename fs w a b of (w', r) \<Rightarrow> ((w', Some n), r))
       | _ \<Rightarrow> ((w, None), Some (Plain ''killed'')))\<rparr>"

section \<open>Lemmas\<close>

lemma flush_atomic:
  assumes "fs_ok fs writing" and "flush fs j w p = (w', r)"
  shows "readFile fs w' (fp_path p) =
    (if r = None then ReadOk (projr (json_marshal j (fp_data p))) else readFile fs w (fp_path p))"
proof (cases "json_marshal j (fp_data p)")
  case (Inl e)
  with assms(2) show ?thesis by (auto simp: flush_def)
next
  case (Inr raw)
  let ?tmp = "fp_path p @ ''.tmp''"
  obtain w1 r1 where w1: "writeFile fs w ?tmp raw = (w1, r1)" by (cases "writeFile fs w ?tmp raw")
  with assms(1) have wr: "writing w ?tmp raw w1" "r1 = None \<longrightarrow> readFile fs w1 ?tmp = ReadOk raw"
    unfolding fs_ok_def by blast+
  with assms(1) have same: "readFile fs w1 (fp_path p) = readFile fs w (fp_path p)"
    unfolding fs_ok_def by (metis append_self_conv list.distinct(1))
  show ?thesis
  proof (cases r1)
    case None
    then have "rename fs w1 ?tmp (fp_path p) = (w', r)" using assms(2) Inr w1 by (simp add: flush_def Let_def)
    moreover have "?tmp \<noteq> fp_path p" by simp
    ultimately have "readFile fs w' (fp_path p) = (if r = None then readFile fs w1 ?tmp else readFile fs w1 (fp_path p))"
      using assms(1) unfolding fs_ok_def by blast
    with Inr None wr(2) same show ?thesis by simp
  next
    case (Some e)
    with assms(2) Inr w1 same show ?thesis by (auto simp: flush_def Let_def)
  qed
qed

lemma reload_flushed:
  assumes "fs_ok fs writing" and "codec_ok j" and "flush fs j w p = (w', None)" and "ascii_keys (fp_data p)"
  shows "\<exists>q. newFilePersister fs j w' (fp_path p) = Inr q \<and> map_of (fp_data q) = map_of (fp_data p)"
proof -
  from assms(3) obtain raw where raw: "json_marshal j (fp_data p) = Inr raw" by (auto simp: flush_def split: sum.splits)
  from flush_atomic [OF assms(1,3)] raw have "readFile fs w' (fp_path p) = ReadOk raw" by simp
  with assms(2,4) raw show ?thesis by (fastforce simp: newFilePersister_def codec_ok_def)
qed

text \<open>A crash keeps what is relied on, so that everything that holds of the operations holds of operations that are cut off.\<close>

lemma crash_fs_ok:
  assumes "fs_ok fs writing" and "\<forall>w path raw. writing w path raw (mid w path raw)"
  shows "fs_ok (crash_fs fs mid) (\<lambda>s path raw t. fst t = fst s \<or> writing (fst s) path raw (fst t))"
proof -
  have wr: "writing w path raw w'" "r = None \<Longrightarrow> readFile fs w' path = ReadOk raw" if "writeFile fs w path raw = (w', r)" for w path raw w' r
    using assms(1) that unfolding fs_ok_def by blast+
  have other: "readFile fs w' x = readFile fs w x" if "writing w path raw w'" "x \<noteq> path" for w path raw w' x
    using assms(1) that unfolding fs_ok_def by blast
  have ren: "readFile fs w' b = (if r = None then readFile fs w a else readFile fs w b)" if "rename fs w a b = (w', r)" "a \<noteq> b" for w a b w' r
    using assms(1) that unfolding fs_ok_def by blast
  show ?thesis
    unfolding fs_ok_def crash_fs_def
    using assms(2) by (auto split: option.splits nat.splits prod.splits dest: wr other ren)
qed

text \<open>What an operation on \<open>p\<close> that gives \<open>p'\<close> and the error \<open>r\<close> leaves for the next start: on success what the store now holds, otherwise
  the file as it was.\<close>

definition durable :: "'w fs_ops \<Rightarrow> codec \<Rightarrow> 'w \<Rightarrow> filePersister \<Rightarrow> 'w \<Rightarrow> filePersister \<Rightarrow> error option \<Rightarrow> bool" where
  "durable fs j w p w' p' r \<longleftrightarrow>
     (if r = None
      then ascii_keys (fp_data p') \<longrightarrow> (\<exists>q. newFilePersister fs j w' (fp_path p) = Inr q \<and> map_of (fp_data q) = map_of (fp_data p'))
      else readFile fs w' (fp_path p) = readFile fs w (fp_path p))"

lemma crash_durable: "durable (crash_fs fs mid) j (w, left) p (w', left') p' r \<longleftrightarrow> durable fs j w p w' p' r"
proof -
  have read: "readFile (crash_fs fs mid) (w, n) path = readFile fs w path" for w n path by (simp add: crash_fs_def)
  show ?thesis by (simp add: durable_def newFilePersister_def read)
qed

lemma flush_durable:
  assumes "fs_ok fs writing" and "codec_ok j" and "flush fs j w p' = (w', r)" and "fp_path p' = fp_path p"
  shows "durable fs j w p w' p' r"
  using assms reload_flushed [OF assms(1,2), of w p' w'] flush_atomic [OF assms(1,3)] by (auto simp: durable_def)

lemma operations_durable:
  assumes "fs_ok fs writing" and "codec_ok j"
  shows "fp_Set fs j w p k v = (w', p', r) \<Longrightarrow> durable fs j w p w' p' r"
    "fp_Delete fs j w p k = (w', p', r) \<Longrightarrow> durable fs j w p w' p' r"
    "fp_Batch fs j w p ops = (w', p', ops', r) \<Longrightarrow> durable fs j w p w' p' r"
proof -
  note fd = flush_durable [OF assms]
  show "fp_Set fs j w p k v = (w', p', r) \<Longrightarrow> durable fs j w p w' p' r" "fp_Delete fs j w p k = (w', p', r) \<Longrightarrow> durable fs j w p w' p' r"
    by (auto simp: fp_Set_def fp_Delete_def fp_flush_def split: prod.splits intro: fd)
  show "fp_Batch fs j w p ops = (w', p', ops', r) \<Longrightarrow> durable fs j w p w' p' r"
    by (auto simp: fp_Batch_def Let_def split: prod.splits option.splits intro: fd) (simp add: durable_def)
qed

section \<open>A file system in memory\<close>

definition mem_fs :: "(string \<times> bytes) list fs_ops" where
  "mem_fs =
     \<lparr>readFile = \<lambda>w path. (case map_of w path of None \<Rightarrow> NotExist | Some raw \<Rightarrow> ReadOk raw),
      writeFile = \<lambda>w path raw. (AList.update path raw w, None),
      rename = \<lambda>w a b. (case map_of w a of
         None \<Rightarrow> (w, Some (Plain ''no such file''))
       | Some raw \<Rightarrow> (AList.update b raw (AList.delete a w), None))\<rparr>"

definition mem_writing :: "(string \<times> bytes) list \<Rightarrow> string \<Rightarrow> bytes \<Rightarrow> (string \<times> bytes) list \<Rightarrow> bool" where
  "mem_writing w path raw w' \<longleftrightarrow> (\<exists>n. w' = AList.update path (take n raw) w)"

lemma mem_fs_ok: "fs_ok mem_fs mem_writing"
  unfolding fs_ok_def
proof (intro conjI allI impI)
  fix w path raw w' r assume "writeFile mem_fs w path raw = (w', r)"
  then show "mem_writing w path raw w'" by (auto simp: mem_fs_def mem_writing_def intro: exI [of _ "length raw"])
qed (auto simp: mem_fs_def mem_writing_def update_conv' delete_conv' split: option.splits)

text \<open>A codec for maps with at most one entry, enough for a sample: the key up to the first colon, then
  the value.\<close>

definition sample_codec :: codec where
  "sample_codec =
     \<lparr>json_marshal = \<lambda>m. (case m of
        [] \<Rightarrow> Inr ''{}''
      | [(k, v)] \<Rightarrow> if CHR '':'' \<in> set k then Inl (Plain ''unsupported'') else Inr (CHR ''1'' # k @ '':'' @ v)
      | _ \<Rightarrow> Inl (Plain ''unsupported'')),
      json_unmarshal = \<lambda>raw. (if raw = ''{}'' then Inr (Some [])
        else case str_cut CHR '':'' (tl raw) of (k, v, _) \<Rightarrow> Inr (Some [(k, v)]))\<rparr>"

lemma sample_codec_ok: "codec_ok sample_codec"
  unfolding codec_ok_def
proof (intro allI impI)
  fix m raw assume "json_marshal sample_codec m = Inr raw \<and> ascii_keys m"
  then consider "m = []" "raw = ''{}''" | k v where "m = [(k, v)]" "CHR '':'' \<notin> set k" "raw = CHR ''1'' # k @ '':'' @ v"
    by (auto simp: sample_codec_def split: list.splits prod.splits if_splits)
  then show "raw \<noteq> [] \<and> (\<exists>m'. json_unmarshal sample_codec raw = Inr (Some m') \<and> map_of m' = map_of m)"
    by cases (auto simp: sample_codec_def str_cut_append)
qed

section \<open>Properties\<close>

text \<open>C35. Checkpoints are durable. \<open>Set\<close> puts its value under its key, \<open>Delete\<close> empties its key, and both leave the other keys alone.
  After a success of \<open>Set\<close>, \<open>Delete\<close> or \<open>Batch\<close> a restarted agent reads back exactly what the store holds, if its keys are ASCII. If one of them fails, the file
  is unchanged. If the process dies in one of them, at any of its calls of the operating system and with anything left of a write, the
  agent reads back either the previous checkpoint or, when the operation had returned, the new one; never a partial one.\<close>

theorem checkpoint_durable:
  assumes "fs_ok fs writing" and "codec_ok j" and "\<forall>w path raw. writing w path raw (mid w path raw)"
  shows "(fp_Set fs j w p k v = (w', p', r) \<longrightarrow>
       fp_Get p' k = v \<and> (\<forall>k'. k' \<noteq> k \<longrightarrow> fp_Get p' k' = fp_Get p k') \<and> durable fs j w p w' p' r) \<and>
    (fp_Delete fs j w p k = (w', p', r) \<longrightarrow>
       fp_Get p' k = [] \<and> (\<forall>k'. k' \<noteq> k \<longrightarrow> fp_Get p' k' = fp_Get p k') \<and> durable fs j w p w' p' r) \<and>
    (fp_Batch fs j w p ops = (w', p', ops', r) \<longrightarrow> durable fs j w p w' p' r) \<and>
    (fp_Set (crash_fs fs mid) j (w, left) p k v = ((w', left'), p', r) \<longrightarrow> durable fs j w p w' p' r) \<and>
    (fp_Delete (crash_fs fs mid) j (w, left) p k = ((w', left'), p', r) \<longrightarrow> durable fs j w p w' p' r) \<and>
    (fp_Batch (crash_fs fs mid) j (w, left) p ops = ((w', left'), p', ops', r) \<longrightarrow> durable fs j w p w' p' r)"
proof -
  note ok = operations_durable [OF assms(1,2)]
  note crash = operations_durable [OF crash_fs_ok [OF assms(1,3)] assms(2)]
  note real = crash_durable [THEN iffD1]
  have set: "fp_Set fs j w p k v = (w', p', r) \<Longrightarrow> fp_Get p' k = v \<and> (\<forall>k'. k' \<noteq> k \<longrightarrow> fp_Get p' k' = fp_Get p k')"
    "fp_Delete fs j w p k = (w', p', r) \<Longrightarrow> fp_Get p' k = [] \<and> (\<forall>k'. k' \<noteq> k \<longrightarrow> fp_Get p' k' = fp_Get p k')"
    by (auto simp: fp_Set_def fp_Delete_def fp_flush_def fp_Get_def map_get0_def update_conv' delete_conv' split: prod.splits)
  show ?thesis
  proof (intro conjI impI)
    assume "fp_Set (crash_fs fs mid) j (w, left) p k v = ((w', left'), p', r)"
    then show "durable fs j w p w' p' r" by (rule real [OF crash(1)])
  next
    assume "fp_Delete (crash_fs fs mid) j (w, left) p k = ((w', left'), p', r)"
    then show "durable fs j w p w' p' r" by (rule real [OF crash(2)])
  next
    assume "fp_Batch (crash_fs fs mid) j (w, left) p ops = ((w', left'), p', ops', r)"
    then show "durable fs j w p w' p' r" by (rule real [OF crash(3)])
  qed (use set ok in auto)
qed

text \<open>The process dies while the second checkpoint is written: the first one is read back.\<close>

definition sample_torn :: "((string \<times> bytes) list \<times> nat option) \<times> filePersister \<times> error option" where
  "sample_torn = fp_Set (crash_fs mem_fs (\<lambda>w path raw. AList.update path (take 3 raw) w)) sample_codec
     ([(''f'', ''1k:v'')], Some 0) \<lparr>fp_path = ''f'', fp_data = [(''k'', ''v'')]\<rparr> ''k'' ''new''"

theorem checkpoint_durable_witness:
  "snd (snd sample_torn) \<noteq> None \<and> map_of (fst (fst sample_torn)) ''f.tmp'' = Some ''1k:'' \<and>
   readFile mem_fs (fst (fst sample_torn)) ''f'' = ReadOk ''1k:v''"
proof -
  let ?mid = "\<lambda>w path raw. AList.update path (take 3 raw) w" and ?p = "\<lparr>fp_path = ''f'', fp_data = [(''k'', ''v'')]\<rparr>"
  have mid: "\<forall>w path raw. mem_writing w path raw (?mid w path raw)" by (auto simp: mem_writing_def)
  have r: "snd (snd sample_torn) \<noteq> None" "map_of (fst (fst sample_torn)) ''f.tmp'' = Some ''1k:''" by code_simp+
  have "fp_Set (crash_fs mem_fs ?mid) sample_codec ([(''f'', ''1k:v'')], Some 0) ?p ''k'' ''new'' =
      ((fst (fst sample_torn), snd (fst sample_torn)), fst (snd sample_torn), snd (snd sample_torn))" by (simp add: sample_torn_def)
  with checkpoint_durable [OF mem_fs_ok sample_codec_ok mid]
  have "durable mem_fs sample_codec [(''f'', ''1k:v'')] ?p (fst (fst sample_torn)) (fst (snd sample_torn)) (snd (snd sample_torn))" by blast
  with r(1) have "readFile mem_fs (fst (fst sample_torn)) ''f'' = readFile mem_fs [(''f'', ''1k:v'')] ''f''" by (auto simp: durable_def)
  also have "\<dots> = ReadOk ''1k:v''" by (simp add: mem_fs_def)
  finally show ?thesis using r by blast
qed

end
