(* ===== verification/Tailer.thy ===== *)
theory Tailer
  imports Persister
begin

text \<open>
  The log tailer of the agent, \<^verbatim>\<open>internal/tailer/tailer.go\<close>, and the agent's main program, \<^verbatim>\<open>cmd/agent/main.go\<close>. The file
  consumer of the OpenTelemetry collector does the reading; it is the argument \<open>fc\<close>. It is built from a
  configuration, is started and stopped with the checkpoint store, which it may change, and hands over
  lines through a callback. Nothing is assumed of it: whether it accepts a checkpoint is up to it.
\<close>

section \<open>Model\<close>

record Line =
  line_Raw :: bytes
  line_ReadAt :: time

text \<open>A handler acts on a state of its own.\<close>

type_synonym 'h Handler = "'h \<Rightarrow> Line \<Rightarrow> 'h"

record tailer_Config =
  tl_Include :: "string list"
  tl_Exclude :: "string list"
  tl_PollInterval :: int
  tl_StartAt :: string
  tl_OnTruncate :: string
  tl_StatePath :: string

definition defaultPollInterval :: int where "defaultPollInterval = 200 * 1000000"
definition OnTruncateReadNew :: string where "OnTruncateReadNew = ''read_new''"

definition applyDefaults :: "tailer_Config \<Rightarrow> tailer_Config" where
  "applyDefaults c =
     (let c1 = (if tl_PollInterval c \<le> 0 then c\<lparr>tl_PollInterval := defaultPollInterval\<rparr> else c);
          c2 = (if tl_StartAt c1 = [] then c1\<lparr>tl_StartAt := ''end''\<rparr> else c1)
      in if tl_OnTruncate c2 = [] then c2\<lparr>tl_OnTruncate := OnTruncateReadNew\<rparr> else c2)"

text \<open>The fields of the file consumer's configuration that are set.\<close>

record fc_Config =
  fc_Include :: "string list"
  fc_Exclude :: "string list"
  fc_PollInterval :: int
  fc_StartAt :: string
  fc_OnTruncate :: string
  fc_FlushPeriod :: int
  fc_IncludeFileName :: bool

record ('m, 'w) fc_ops =
  fc_Build :: "fc_Config \<Rightarrow> error + 'm"
  fc_Start :: "'m \<Rightarrow> 'w \<Rightarrow> filePersister option \<Rightarrow> 'm \<times> 'w \<times> checkpoint \<times> error option"
  fc_Stop :: "'m \<Rightarrow> 'w \<Rightarrow> filePersister option \<Rightarrow> 'm \<times> 'w \<times> checkpoint \<times> error option"

text \<open>The manager works on the store through a pointer: it may change the entries, not whether there is a store.\<close>

definition per_with :: "filePersister option \<Rightarrow> checkpoint \<Rightarrow> filePersister option" where
  "per_with per d = map_option (\<lambda>p. p\<lparr>fp_data := d\<rparr>) per"

record 'm Tailer =
  t_mgr :: 'm
  t_per :: "filePersister option"

text \<open>The callback: each token is copied and handled, in order. It never reports an error.\<close>

fun emit_tokens :: "'h Handler \<Rightarrow> time \<Rightarrow> 'h \<Rightarrow> bytes list \<Rightarrow> 'h" where
  "emit_tokens h readAt st [] = st"
| "emit_tokens h readAt st (tok # toks) = emit_tokens h readAt (h st \<lparr>line_Raw = tok, line_ReadAt = readAt\<rparr>) toks"

definition fc_config :: "tailer_Config \<Rightarrow> fc_Config" where
  "fc_config cfg =
     \<lparr>fc_Include = tl_Include cfg, fc_Exclude = tl_Exclude cfg, fc_PollInterval = tl_PollInterval cfg,
      fc_StartAt = tl_StartAt cfg, fc_OnTruncate = tl_OnTruncate cfg, fc_FlushPeriod = 0, fc_IncludeFileName = False\<rparr>"

definition New_tailer ::
    "('m, 'w) fc_ops \<Rightarrow> 'w fs_ops \<Rightarrow> codec \<Rightarrow> 'w \<Rightarrow> tailer_Config \<Rightarrow> 'h Handler option \<Rightarrow> error + 'm Tailer" where
  "New_tailer fc fs j w cfg h =
     (if tl_Include cfg = [] then Inl (Plain ''tailer: Include is required'')
      else if h = None then Inl (Plain ''tailer: Handler is required'')
      else
        let cfg' = applyDefaults cfg in
        (case fc_Build fc (fc_config cfg') of
           Inl e \<Rightarrow> Inl (wrap ''tailer: build fileconsumer'' e)
         | Inr mgr \<Rightarrow>
             if tl_StatePath cfg' \<noteq> [] then
               (case newFilePersister fs j w (tl_StatePath cfg') of
                  Inl e \<Rightarrow> Inl (wrap ''tailer: load checkpoints'' e)
                | Inr per \<Rightarrow> Inr \<lparr>t_mgr = mgr, t_per = Some per\<rparr>)
             else Inr \<lparr>t_mgr = mgr, t_per = None\<rparr>))"

text \<open>The manager and the tailer share the store, so what the manager does to it is seen afterwards.\<close>

definition tailer_Start ::
    "('m, 'w) fc_ops \<Rightarrow> 'w fs_ops \<Rightarrow> codec \<Rightarrow> 'w \<Rightarrow> 'm Tailer \<Rightarrow> 'w \<times> 'm Tailer \<times> error option" where
  "tailer_Start fc fs j w t =
     (case fc_Start fc (t_mgr t) w (t_per t) of
        (m1, w1, d1, None) \<Rightarrow> (w1, \<lparr>t_mgr = m1, t_per = per_with (t_per t) d1\<rparr>, None)
      | (m1, w1, d1, Some e) \<Rightarrow>
          (case per_with (t_per t) d1 of
             None \<Rightarrow> (w1, \<lparr>t_mgr = m1, t_per = None\<rparr>, Some (wrap ''tailer: start'' e))
           | Some p \<Rightarrow>
               (case fp_reset fs j w1 p of
                  (w2, p2, Some e2) \<Rightarrow> (w2, \<lparr>t_mgr = m1, t_per = Some p2\<rparr>, Some (wrap ''tailer: reset checkpoints'' e2))
                | (w2, p2, None) \<Rightarrow>
                    (case fc_Start fc m1 w2 (Some p2) of
                       (m3, w3, d3, Some e3) \<Rightarrow>
                         (w3, \<lparr>t_mgr = m3, t_per = per_with (Some p2) d3\<rparr>, Some (wrap ''tailer: start'' e3))
                     | (m3, w3, d3, None) \<Rightarrow> (w3, \<lparr>t_mgr = m3, t_per = per_with (Some p2) d3\<rparr>, None)))))"

definition tailer_Stop :: "('m, 'w) fc_ops \<Rightarrow> 'w \<Rightarrow> 'm Tailer \<Rightarrow> 'w \<times> 'm Tailer \<times> error option" where
  "tailer_Stop fc w t =
     (case fc_Stop fc (t_mgr t) w (t_per t) of
        (m1, w1, d1, Some e) \<Rightarrow> (w1, \<lparr>t_mgr = m1, t_per = per_with (t_per t) d1\<rparr>, Some (wrap ''tailer: stop'' e))
      | (m1, w1, d1, None) \<Rightarrow> (w1, \<lparr>t_mgr = m1, t_per = per_with (t_per t) d1\<rparr>, None))"

subsection \<open>The agent\<close>

text \<open>The flags, and the configuration that \<open>main\<close> builds from them.\<close>

record agent_flags =
  af_glob :: string
  af_poll :: int
  af_statePath :: string

definition agent_config :: "agent_flags \<Rightarrow> tailer_Config" where
  "agent_config f =
     \<lparr>tl_Include = [af_glob f], tl_Exclude = [''**/*.gz'', ''**/*.tmp''], tl_PollInterval = af_poll f,
      tl_StartAt = [], tl_OnTruncate = [], tl_StatePath = af_statePath f\<rparr>"

text \<open>\<open>running\<close> is what happens to the file system, the manager and the store between the start and the end of the
  context.\<close>

definition agent_run ::
    "('m, 'w) fc_ops \<Rightarrow> 'w fs_ops \<Rightarrow> codec \<Rightarrow> ('w \<Rightarrow> 'm Tailer \<Rightarrow> 'w \<times> 'm Tailer) \<Rightarrow> 'w \<Rightarrow> tailer_Config \<Rightarrow>
     'h Handler option \<Rightarrow> 'w \<times> error option" where
  "agent_run fc fs j running w cfg h =
     (case New_tailer fc fs j w cfg h of
        Inl e \<Rightarrow> (w, Some e)
      | Inr t \<Rightarrow>
          (case tailer_Start fc fs j w t of
             (w1, t1, Some e) \<Rightarrow> (w1, Some e)
           | (w1, t1, None) \<Rightarrow>
               (case running w1 t1 of (w2, t2) \<Rightarrow>
                  (case tailer_Stop fc w2 t2 of (w3, t3, e) \<Rightarrow> (w3, e)))))"

text \<open>\<open>printLine\<close>: the logger is the list of lines it was given.\<close>

definition printLine :: "bytes list Handler" where
  "printLine logged l = logged @ [line_Raw l]"

definition agent_main ::
    "('m, 'w) fc_ops \<Rightarrow> 'w fs_ops \<Rightarrow> codec \<Rightarrow> ('w \<Rightarrow> 'm Tailer \<Rightarrow> 'w \<times> 'm Tailer) \<Rightarrow> 'w \<Rightarrow> agent_flags \<Rightarrow> 'w \<times> nat" where
  "agent_main fc fs j running w f =
     (case agent_run fc fs j running w (agent_config f) (Some printLine) of
        (w', Some _) \<Rightarrow> (w', 1)
      | (w', None) \<Rightarrow> (w', 0))"

section \<open>Lemmas\<close>

lemma applyDefaults_complete:
  "0 < tl_PollInterval (applyDefaults c)" "tl_StartAt (applyDefaults c) \<noteq> []" "tl_OnTruncate (applyDefaults c) \<noteq> []"
  by (auto simp: applyDefaults_def Let_def defaultPollInterval_def OnTruncateReadNew_def)

lemma applyDefaults_keeps:
  "0 < tl_PollInterval c \<Longrightarrow> tl_StartAt c \<noteq> [] \<Longrightarrow> tl_OnTruncate c \<noteq> [] \<Longrightarrow> applyDefaults c = c"
  by (simp add: applyDefaults_def)

lemma applyDefaults_idempotent: "applyDefaults (applyDefaults c) = applyDefaults c"
  by (simp add: applyDefaults_keeps applyDefaults_complete)

lemma emit_printLine: "emit_tokens printLine now logged toks = logged @ toks"
  by (induction toks arbitrary: logged) (simp_all add: printLine_def)

text \<open>After a reset the store is empty in memory and on disk.\<close>

lemma reset_empties:
  assumes "fs_ok fs writing" and "codec_ok j" and "fp_reset fs j w p = (w', p', None)"
  shows "fp_data p' = [] \<and> fp_path p' = fp_path p \<and>
    (\<exists>q. newFilePersister fs j w' (fp_path p) = Inr q \<and> (\<forall>k. fp_Get q k = []))"
proof -
  from assms(3) have p': "p' = p\<lparr>fp_data := []\<rparr>" and f: "flush fs j w (p\<lparr>fp_data := []\<rparr>) = (w', None)"
    by (auto simp: fp_reset_def fp_flush_def split: prod.splits)
  have "ascii_keys (fp_data (p\<lparr>fp_data := []\<rparr>))" by (simp add: ascii_keys_def)
  from reload_flushed [OF assms(1,2) f this] p' show ?thesis by (auto simp: fp_Get_def map_get0_def)
qed

lemma reset_fails_safe:
  assumes "fs_ok fs writing" and "fp_reset fs j w p = (w', p', Some e)"
  shows "readFile fs w' (fp_path p) = readFile fs w (fp_path p)"
proof -
  from assms(2) have "flush fs j w (p\<lparr>fp_data := []\<rparr>) = (w', Some e)"
    by (auto simp: fp_reset_def fp_flush_def split: prod.splits)
  from flush_atomic [OF assms(1) this] show ?thesis by simp
qed

section \<open>Properties\<close>

text \<open>C26. A bad checkpoint does not stop the agent. When the file consumer refuses to start with a checkpoint store
  and the store can be reset, it is started a second time with a store that is empty in memory and on
  disk, and the tailer starts exactly if that second start succeeds. Without a store, or when the reset
  fails, the tailer reports the error, and a failed reset has not touched the checkpoint file.\<close>

theorem tailer_recovers:
  assumes "fs_ok fs writing" and "codec_ok j" and "fc_Start fc (t_mgr t) w (t_per t) = (m1, w1, d1, Some e)"
  shows "case t_per t of
      None \<Rightarrow> tailer_Start fc fs j w t = (w1, \<lparr>t_mgr = m1, t_per = None\<rparr>, Some (wrap ''tailer: start'' e))
    | Some p \<Rightarrow>
        (case fp_reset fs j w1 (p\<lparr>fp_data := d1\<rparr>) of
           (w2, p2, Some e2) \<Rightarrow> snd (snd (tailer_Start fc fs j w t)) \<noteq> None \<and>
             readFile fs (fst (tailer_Start fc fs j w t)) (fp_path p) = readFile fs w1 (fp_path p)
         | (w2, p2, None) \<Rightarrow>
             fp_data p2 = [] \<and> (\<exists>q. newFilePersister fs j w2 (fp_path p) = Inr q \<and> (\<forall>k. fp_Get q k = [])) \<and>
             (snd (snd (tailer_Start fc fs j w t)) = None \<longleftrightarrow> snd (snd (snd (fc_Start fc m1 w2 (Some p2)))) = None))"
proof (cases "t_per t")
  case None
  with assms(3) show ?thesis by (simp add: tailer_Start_def per_with_def)
next
  case (Some p)
  let ?p = "p\<lparr>fp_data := d1\<rparr>"
  obtain w2 p2 r2 where r: "fp_reset fs j w1 ?p = (w2, p2, r2)" by (cases "fp_reset fs j w1 ?p")
  show ?thesis
  proof (cases r2)
    case None
    with r reset_empties [OF assms(1,2), of w1 ?p] assms(3) Some show ?thesis
      by (auto simp: tailer_Start_def per_with_def split: prod.splits option.splits)
  next
    case (Some e2)
    with r reset_fails_safe [OF assms(1), of j w1 ?p] assms(3) \<open>t_per t = Some p\<close> show ?thesis
      by (auto simp: tailer_Start_def per_with_def split: prod.splits option.splits)
  qed
qed

text \<open>A file consumer that accepts only an empty checkpoint.\<close>

definition picky_fc :: "(unit, (string \<times> bytes) list) fc_ops" where
  "picky_fc =
     \<lparr>fc_Build = \<lambda>_. Inr (),
      fc_Start = \<lambda>m w p. (case p of
         None \<Rightarrow> (m, w, [], None)
       | Some q \<Rightarrow> (m, w, fp_data q, if fp_data q = [] then None else Some (Plain ''bad offsets''))),
      fc_Stop = \<lambda>m w p. (m, w, [], None)\<rparr>"

theorem tailer_recovers_witness:
  "snd (snd (tailer_Start picky_fc mem_fs sample_codec [(''f'', ''1k:v'')]
     \<lparr>t_mgr = (), t_per = Some \<lparr>fp_path = ''f'', fp_data = [(''k'', ''v'')]\<rparr>\<rparr>)) = None"
proof -
  let ?p = "\<lparr>fp_path = ''f'', fp_data = [(''k'', ''v'')]\<rparr>"
  let ?w = "[(''f'', ''1k:v'')]"
  have s: "fc_Start picky_fc () ?w (Some ?p) = ((), ?w, fp_data ?p, Some (Plain ''bad offsets''))" by (simp add: picky_fc_def)
  obtain w2 p2 where r: "fp_reset mem_fs sample_codec ?w ?p = (w2, p2, None)" "fp_data p2 = []"
    by (simp add: fp_reset_def fp_flush_def flush_def mem_fs_def sample_codec_def Let_def)
  then have "snd (snd (snd (fc_Start picky_fc () w2 (Some p2)))) = None" by (simp add: picky_fc_def)
  with r tailer_recovers [OF mem_fs_ok sample_codec_ok, of picky_fc "\<lparr>t_mgr = (), t_per = Some ?p\<rparr>" ?w "()" ?w "fp_data ?p"] s
  show ?thesis by simp
qed

end
