(* ===== verification/FlowDumper.thy ===== *)
theory FlowDumper
  imports FlowParser
begin

text \<open>
  The flow dumper, \<^verbatim>\<open>internal/flowdumper\<close>: an HTTP server that answers a request for \<^verbatim>\<open>/flow\<close> with everything the
  scrapers have dumped into its ring buffer since the last request, one JSON record per line. The
  response writer is the argument \<open>wr\<close> on a state of its own; the server's \<open>ListenAndServe\<close> and \<open>Close\<close> are results.
\<close>

section \<open>Model\<close>

definition DefaultBufferSize :: int where "DefaultBufferSize = 2000"
definition DefaultPort :: int where "DefaultPort = 9080"

record flowdumper_Config =
  fd_Enabled :: bool
  fd_BufferSize :: int
  fd_Port :: int

record dumper_server =
  ds_Addr :: string
  ds_ReadHeaderTimeout :: int
  ds_WriteTimeout :: int
  ds_KeepAlives :: bool

record Dumper =
  dm_Buffer :: "string Buffer"
  dm_server :: dumper_server

definition New_dumper :: "string Buffer \<Rightarrow> int \<Rightarrow> Dumper" where
  "New_dumper buffer port =
     \<lparr>dm_Buffer = buffer,
      dm_server = \<lparr>ds_Addr = ''0.0.0.0:'' @ fmt_int port, ds_ReadHeaderTimeout = 5 * 1000000000,
        ds_WriteTimeout = 5 * 1000000000, ds_KeepAlives = False\<rparr>\<rparr>"

text \<open>The loop over the records stops at the first write that fails.\<close>

fun write_records :: "('x \<Rightarrow> string \<Rightarrow> 'x \<times> error option) \<Rightarrow> 'x \<Rightarrow> string list \<Rightarrow> 'x" where
  "write_records wr x [] = x"
| "write_records wr x (r # rs) =
     (case wr x r of
        (x1, Some _) \<Rightarrow> x1
      | (x1, None) \<Rightarrow>
          (case wr x1 [CHR 0x0A] of
             (x2, Some _) \<Rightarrow> x2
           | (x2, None) \<Rightarrow> write_records wr x2 rs))"

definition flow_handler ::
    "('x \<Rightarrow> string \<Rightarrow> string \<Rightarrow> 'x) \<Rightarrow> ('x \<Rightarrow> string \<Rightarrow> 'x \<times> error option) \<Rightarrow> Dumper \<Rightarrow> 'x \<Rightarrow> (Dumper \<times> 'x) option" where
  "flow_handler setHeader wr d x =
     (case Drain (dm_Buffer d) of
        None \<Rightarrow> None
      | Some (records, b) \<Rightarrow>
          Some (d\<lparr>dm_Buffer := b\<rparr>, write_records wr (setHeader x ''Content-Type'' ''application/jsonl'') records))"

text \<open>What \<open>Start\<close> waits for, and what it returns.\<close>

datatype dumper_event = ServeReturned "error option" | DumperCtxDone

definition dumper_Start :: "dumper_event \<Rightarrow> error option \<Rightarrow> error option" where
  "dumper_Start ev closeErr =
     (case ev of
        ServeReturned err \<Rightarrow> map_option (wrap ''flow dumper server error'') err
      | DumperCtxDone \<Rightarrow> map_option (wrap ''failed to close flow dumper server'') closeErr)"

section \<open>Lemmas\<close>

text \<open>The format: a newline after each record. A reader splits at the newlines.\<close>

definition jsonl :: "string list \<Rightarrow> string" where
  "jsonl rs = concat (map (\<lambda>r. r @ [CHR 0x0A]) rs)"

lemma jsonl_Nil [simp]: "jsonl [] = []"
  by (simp add: jsonl_def)

fun read_jsonl :: "string \<Rightarrow> string \<Rightarrow> string list" where
  "read_jsonl acc [] = (if acc = [] then [] else [acc])"
| "read_jsonl acc (ch # cs) = (if ch = CHR 0x0A then acc # read_jsonl [] cs else read_jsonl (acc @ [ch]) cs)"

lemma read_jsonl_line: "CHR 0x0A \<notin> set r \<Longrightarrow> read_jsonl acc (r @ CHR 0x0A # cs) = (acc @ r) # read_jsonl [] cs"
  by (induction r arbitrary: acc) auto

lemma read_jsonl_roundtrip: "\<forall>r \<in> set rs. CHR 0x0A \<notin> set r \<Longrightarrow> read_jsonl [] (jsonl rs) = rs"
  by (induction rs) (auto simp: jsonl_def read_jsonl_line)

abbreviation append_writer :: "string \<Rightarrow> string \<Rightarrow> string \<times> error option" where
  "append_writer \<equiv> \<lambda>body s. (body @ s, None)"

lemma write_records_jsonl: "write_records append_writer body rs = body @ jsonl rs"
  by (induction rs arbitrary: body) (auto simp: jsonl_def)

text \<open>A writer that takes a limited number of bytes sees whole records first: what was written is a prefix.\<close>

lemma write_records_prefix:
  assumes "\<And>x s. \<exists>n. fst (wr x s) = x @ take n s" and "\<And>x s. snd (wr x s) = None \<Longrightarrow> fst (wr x s) = x @ s"
  shows "\<exists>n. write_records wr x rs = x @ take n (jsonl rs)"
proof (induction rs arbitrary: x)
  case (Cons r rs)
  obtain x1 e1 where 1: "wr x r = (x1, e1)" by (cases "wr x r")
  obtain x2 e2 where 2: "wr x1 [CHR 0x0A] = (x2, e2)" by (cases "wr x1 [CHR 0x0A]")
  show ?case
  proof (cases e1)
    case (Some e)
    from assms(1) [of x r] 1 obtain n where "x1 = x @ take n r" by auto
    then have "x1 = x @ take (min n (length r)) (jsonl (r # rs))" by (cases "n \<le> length r") (simp_all add: jsonl_def)
    with 1 Some show ?thesis by auto
  next
    case None
    with assms(2) [of x r] 1 have x1: "x1 = x @ r" by simp
    show ?thesis
    proof (cases e2)
      case (Some e)
      from assms(1) [of x1 "[CHR 0x0A]"] 2 x1 obtain n where "x2 = x @ r @ take n [CHR 0x0A]" by auto
      then have "x2 = x @ take (length r + min n 1) (jsonl (r # rs))" by (cases n) (simp_all add: jsonl_def)
      with 1 2 None Some show ?thesis by auto
    next
      case None
      with assms(2) [of x1 "[CHR 0x0A]"] 2 x1 have x2: "x2 = x @ r @ [CHR 0x0A]" by simp
      from Cons.IH [of x2] obtain n where "write_records wr x2 rs = x2 @ take n (jsonl rs)" ..
      then have "write_records wr x2 rs = x @ take (length r + 1 + n) (jsonl (r # rs))" by (simp add: x2 jsonl_def)
      with 1 2 \<open>e1 = None\<close> None show ?thesis by auto
    qed
  qed
qed (simp add: exI [of _ 0])

section \<open>Properties\<close>

text \<open>Dumping one flow after another.\<close>

fun dump_all :: "'m flow_codec \<Rightarrow> string Buffer option \<Rightarrow> 'm list \<Rightarrow> string Buffer option option" where
  "dump_all codec d [] = Some d"
| "dump_all codec d (m # ms) = (case dumpFlow codec d m of None \<Rightarrow> None | Some d' \<Rightarrow> dump_all codec d' ms)"

lemma dump_all_records:
  "dump_all codec (Some b) ms = map_option Some (record_all b (List.map_filter (encoded codec) ms))"
proof (induction ms arbitrary: b)
  case (Cons m ms)
  then show ?case
    by (cases "marshalFlow codec m") (auto simp: dumpFlow_def encoded_def List.map_filter_simps split: option.splits prod.splits)
qed (simp add: List.map_filter_simps)

text \<open>C27. The flow dump is a faithful view. Whatever flows the scrapers dump into a new buffer, a request reads back, line
  by line, the records of the last flows that could be encoded, newest first, at most as many as the
  buffer was made for; a second request reads nothing. If the connection breaks, what the client got
  is a prefix of that text.\<close>

theorem flow_dump_roundtrip:
  assumes "sz < 2 ^ 63" and "length ms < 2 ^ 63" and "\<And>m r. marshalFlow codec m = Inr r \<Longrightarrow> CHR 0x0A \<notin> set r"
    and "\<And>x s. \<exists>n. fst (wr x s) = x @ take n s" and "\<And>x s. snd (wr x s) = None \<Longrightarrow> fst (wr x s) = x @ s"
  shows "let dumped = take (effective_size sz) (rev (List.map_filter (encoded codec) ms)) in
    \<exists>b d d' body. dump_all codec (Some (NewWithSize [] sz)) ms = Some (Some b) \<and>
    flow_handler (\<lambda>x _ _. x) append_writer (New_dumper b port) [] = Some (d, body) \<and> read_jsonl [] body = dumped \<and>
    flow_handler (\<lambda>x _ _. x) append_writer d [] = Some (d', []) \<and>
    (\<exists>n d''. flow_handler (\<lambda>x _ _. x) wr (New_dumper b port) [] = Some (d'', take n (jsonl dumped)))"
proof -
  define dumped where "dumped = take (effective_size sz) (rev (List.map_filter (encoded codec) ms))"
  have "length (List.map_filter (encoded codec) ms) < 2 ^ 63"
    using assms(2) by (rule le_less_trans [rotated]) (simp add: List.map_filter_def)
  from ring_buffer_drain_newest [OF assms(1) this, of "[]"] obtain b c where
    b: "record_all (NewWithSize [] sz) (List.map_filter (encoded codec) ms) = Some b" "Drain b = Some (dumped, c)" "Drain c = Some ([], c)"
    unfolding dumped_def by blast
  have "\<forall>r \<in> set dumped. CHR 0x0A \<notin> set r"
    using assms(3) by (auto simp: dumped_def encoded_def List.map_filter_def split: sum.splits dest!: in_set_takeD)
  then have "read_jsonl [] (jsonl dumped) = dumped" by (rule read_jsonl_roundtrip)
  moreover obtain n where "write_records wr [] dumped = take n (jsonl dumped)"
    using write_records_prefix [of wr "[]" dumped] assms(4,5) by auto
  ultimately show ?thesis using b unfolding Let_def dumped_def [symmetric]
    by (auto simp: dump_all_records flow_handler_def New_dumper_def write_records_jsonl)
qed

text \<open>An encoder that refuses a text with a newline.\<close>

definition one_line :: "string flow_codec" where
  "one_line =
     (let encode = (\<lambda>r. if CHR 0x0A \<in> set r then Inl (Plain ''newline'') else Inr r)
      in \<lparr>isProtoMessage = \<lambda>_. False, protojsonMarshal = encode, jsonMarshal = encode\<rparr>)"

theorem flow_dump_roundtrip_witness:
  "\<exists>b d body. dump_all one_line (Some (NewWithSize [] 2)) [''a'', ''b'', ''c''] = Some (Some b) \<and>
     flow_handler (\<lambda>x _ _. x) append_writer (New_dumper b 9080) [] = Some (d, body) \<and> read_jsonl [] body = [''c'', ''b'']"
proof -
  have "take (effective_size 2) (rev (List.map_filter (encoded one_line) [''a'', ''b'', ''c''])) = [''c'', ''b'']"
    by (simp add: List.map_filter_simps encoded_def marshalFlow_def one_line_def effective_size_def Let_def)
  moreover have "marshalFlow one_line m = Inr r \<Longrightarrow> CHR 0x0A \<notin> set r" for m r
    by (simp add: one_line_def marshalFlow_def Let_def split: if_splits)
  moreover have "\<exists>n. fst (append_writer x s) = x @ take n s" for x s :: string by (auto intro: exI [of _ "length s"])
  ultimately show ?thesis
    using flow_dump_roundtrip [of 2 "[''a'', ''b'', ''c'']" one_line append_writer 9080] by (fastforce simp: Let_def)
qed

end
