(* ===== verification/Startup.thy ===== *)
theory Startup
  imports ProviderTls FlowDumper StatusSync IstioScraper Watches
begin

text \<open>
  How the controller starts: \<open>run\<close> of \<^verbatim>\<open>cmd/controller/main.go\<close> with the functions it calls there, the OTLP settings
  (\<^verbatim>\<open>internal/types/otlp\<close>, \<^verbatim>\<open>internal/events\<close>), the field indexers and the \<open>SetupWithManager\<close> functions of the controllers.

  A call to the manager, to the metrics registry or to an exporter is an action; starting up appends the
  actions that are carried out to a log and stops at the first one that fails. Which ones fail is in \<open>setup_env\<close>, with the
  other answers of third-party code: the parsed URL and the REST mapping.
\<close>

section \<open>Model\<close>

subsection \<open>Actions\<close>

record manager_options =
  mo_BindAddress :: string
  mo_SecureServing :: bool
  mo_AuthFilter :: bool
  mo_Cert :: "(string \<times> string \<times> string) option"
  mo_MetricsNextProtos :: "string list option"
  mo_WebhookNextProtos :: "string list option"
  mo_ProbeAddr :: string
  mo_LeaderElection :: bool
  mo_LeaderElectionID :: string

text \<open>The runnables that are modelled elsewhere are added with their configuration. The status synchronisation
  is added with its interval and its counters; its buffer and logger are those of \<open>run_init\<close> in System.\<close>

datatype setup_action =
    NewManager manager_options
  | IndexField string string
  | NewExporter string
  | AddRunnable string
  | AddFlowDumper Dumper
  | AddScraper ScraperConfig
  | AddStatusSync int "attributionMetrics option"
  | RegisterMetric string
  | CompleteController string "string list"
  | CompleteWebhook
  | AddHealthzCheck string
  | AddReadyzCheck string
  | StartManager

record ('c, 'p) setup_env =
  se_fails :: "setup_action \<Rightarrow> error option"
  se_restMapping :: "error option"
  se_isNoMatch :: "error \<Rightarrow> bool"
  se_urlParse :: "string \<Rightarrow> error + string \<times> string"
  se_duration :: "int \<Rightarrow> string"
  se_env0 :: "('c, 'p) tls_env"
  se_env :: "('c, 'p) tls_env"
  se_reader :: api_reader
  se_existing_unattributed :: "error \<Rightarrow> (string \<times> string \<times> string \<Rightarrow> nat) option"
  se_existing_disagreements :: "error \<Rightarrow> (string \<times> string \<Rightarrow> nat) option"

type_synonym 'a startup = "setup_action list \<Rightarrow> setup_action list \<times> (error + 'a)"

definition guard :: "error option \<Rightarrow> unit startup" where
  "guard err acts = (acts, case err of Some e \<Rightarrow> Inl e | None \<Rightarrow> Inr ())"

definition perform :: "('c, 'p) setup_env \<Rightarrow> setup_action \<Rightarrow> (error \<Rightarrow> error) \<Rightarrow> unit startup" where
  "perform se a wr acts = (acts @ [a], case se_fails se a of Some e \<Rightarrow> Inl (wr e) | None \<Rightarrow> Inr ())"

definition wrapped :: "string \<Rightarrow> 'a startup \<Rightarrow> 'a startup" where
  "wrapped pre m acts = (case m acts of (acts', Inl e) \<Rightarrow> (acts', Inl (wrap pre e)) | (acts', Inr x) \<Rightarrow> (acts', Inr x))"

definition and_then :: "'a startup \<Rightarrow> ('a \<Rightarrow> 'b startup) \<Rightarrow> 'b startup" where
  "and_then m f acts = (case m acts of (acts', Inl e) \<Rightarrow> (acts', Inl e) | (acts', Inr x) \<Rightarrow> f x acts')"

fun run_steps :: "unit startup list \<Rightarrow> unit startup" where
  "run_steps [] acts = (acts, Inr ())"
| "run_steps (m # ms) acts = and_then m (\<lambda>_. run_steps ms) acts"

subsection \<open>OTLP (internal/types/otlp, internal/events)\<close>

definition GRPC :: string where "GRPC = ''grpc''"
definition HTTPProtobuf :: string where "HTTPProtobuf = ''http/protobuf''"

definition otlp_Parse :: "string \<Rightarrow> error + string" where
  "otlp_Parse s =
     (if s = [] then Inr GRPC
      else if s = GRPC \<or> s = HTTPProtobuf then Inr s
      else Inl (Plain (''unsupported protocol '' @ quoted s @ '' (supported: '' @ quoted GRPC @ '', '' @ quoted HTTPProtobuf @ '')'')))"

text \<open>\<open>url.Parse\<close> gives the scheme and the host name.\<close>

definition ValidateEndpoint :: "(string \<Rightarrow> error + string \<times> string) \<Rightarrow> string \<Rightarrow> error option" where
  "ValidateEndpoint urlParse endpoint =
     (let bad = Some (Plain (''invalid OTLP endpoint '' @ quoted endpoint @
                '': use an http:// or https:// URL, for example https://collector:4317''))
      in case urlParse endpoint of
           Inl _ \<Rightarrow> bad
         | Inr (scheme, hostname) \<Rightarrow> if (scheme \<noteq> ''http'' \<and> scheme \<noteq> ''https'') \<or> hostname = [] then bad else None)"

definition events_Init :: "('c, 'p) setup_env \<Rightarrow> string \<Rightarrow> unit startup" where
  "events_Init se protocol =
     (case otlp_Parse protocol of
        Inl e \<Rightarrow> guard (Some e)
      | Inr proto \<Rightarrow> perform se (NewExporter proto) (wrap ''failed to create OTLP log exporter''))"

subsection \<open>Configuration\<close>

record config =
  cf_MetricsAddr :: string
  cf_MetricsCertPath :: string
  cf_MetricsCertName :: string
  cf_MetricsCertKey :: string
  cf_enableLeaderElection :: bool
  cf_probeAddr :: string
  cf_secureMetrics :: bool
  cf_enableHTTP2 :: bool
  cf_logLevel :: string
  cf_provider :: providerConfig
  cf_flowDumper :: flowdumper_Config
  cf_otelEndpoint :: string
  cf_otelProtocol :: string
  cf_UpdateInterval :: int

definition defaultWnpStatusUpdateInterval :: int where "defaultWnpStatusUpdateInterval = 30 * 1000000000"

text \<open>The defaults of the flags; the OTLP settings come from the environment.\<close>

definition default_config :: config where
  "default_config =
     \<lparr>cf_MetricsAddr = ''0'', cf_MetricsCertPath = [], cf_MetricsCertName = ''tls.crt'', cf_MetricsCertKey = ''tls.key'',
      cf_enableLeaderElection = False, cf_probeAddr = '':8081'', cf_secureMetrics = True, cf_enableHTTP2 = False,
      cf_logLevel = ''info'',
      cf_provider = \<lparr>pc_name = [], pc_endpoint = [], pc_tlsMode = ModeInsecure, pc_tlsCertDir = [], pc_tlsCertSecret = [],
        pc_tlsCAConfigMap = [], pc_tlsCABundleKey = [], pc_tlsServerName = []\<rparr>,
      cf_flowDumper = \<lparr>fd_Enabled = False, fd_BufferSize = DefaultBufferSize, fd_Port = DefaultPort\<rparr>,
      cf_otelEndpoint = [], cf_otelProtocol = [], cf_UpdateInterval = defaultWnpStatusUpdateInterval\<rparr>"

subsection \<open>main.go\<close>

text \<open>\<open>nextProtos\<close> is what the TLS options of \<open>run\<close> leave in \<open>NextProtos\<close>, if they set it.\<close>

definition options_of :: "config \<Rightarrow> string list option \<Rightarrow> manager_options" where
  "options_of conf nextProtos =
     \<lparr>mo_BindAddress = cf_MetricsAddr conf, mo_SecureServing = cf_secureMetrics conf, mo_AuthFilter = cf_secureMetrics conf,
      mo_Cert = (if cf_MetricsCertPath conf \<noteq> []
        then Some (cf_MetricsCertPath conf, cf_MetricsCertName conf, cf_MetricsCertKey conf) else None),
      mo_MetricsNextProtos = nextProtos, mo_WebhookNextProtos = nextProtos, mo_ProbeAddr = cf_probeAddr conf,
      mo_LeaderElection = cf_enableLeaderElection conf, mo_LeaderElectionID = ''6163c1ee.networkenforcer.kubewarden.io''\<rparr>"

definition newControllerManager :: "('c, 'p) setup_env \<Rightarrow> config \<Rightarrow> string list option \<Rightarrow> unit startup" where
  "newControllerManager se conf nextProtos = perform se (NewManager (options_of conf nextProtos)) (wrap ''unable to start manager'')"

definition setupOtelLogExporter :: "('c, 'p) setup_env \<Rightarrow> config \<Rightarrow> unit startup" where
  "setupOtelLogExporter se conf =
     run_steps
      [guard (ValidateEndpoint (se_urlParse se) (cf_otelEndpoint conf)),
       wrapped ''failed to initialize OTLP log exporter'' (events_Init se (cf_otelProtocol conf)),
       perform se (AddRunnable ''otlp-shutdown'') (wrap ''unable to register OTLP log shutdown runnable'')]"

definition setupFlowDumper :: "('c, 'p) setup_env \<Rightarrow> flowdumper_Config \<Rightarrow> unit startup" where
  "setupFlowDumper se conf =
     perform se (AddFlowDumper (New_dumper (NewWithSize [] (fd_BufferSize conf)) (fd_Port conf)))
       (wrap ''unable to add flow dumper to manager'')"

text \<open>\<open>setupProviderScraper\<close> of ProviderTls takes the result of \<open>mgr.Add\<close> as an argument.\<close>

definition setup_scraper :: "('c, 'p) setup_env \<Rightarrow> providerConfig \<Rightarrow> unit startup" where
  "setup_scraper se p =
     (case setupProviderScraper (se_env se) (se_reader se) None p of
        Inl e \<Rightarrow> guard (Some e)
      | Inr s \<Rightarrow>
          (\<lambda>acts.
             (acts @ [AddScraper s],
              case setupProviderScraper (se_env se) (se_reader se) (se_fails se (AddScraper s)) p of Inl e \<Rightarrow> Inl e | Inr _ \<Rightarrow> Inr ())))"

definition setupHealthChecks :: "('c, 'p) setup_env \<Rightarrow> unit startup" where
  "setupHealthChecks se =
     run_steps
      [perform se (AddRunnable ''cache-sync-readiness'') (wrap ''unable to add cache sync readiness runnable''),
       perform se (AddHealthzCheck ''healthz'') (wrap ''unable to add healthz check''),
       perform se (AddReadyzCheck ''readyz'') (wrap ''unable to add readyz check''),
       perform se (AddReadyzCheck ''webhook'') (wrap ''unable to add webhook readyz check''),
       perform se (AddReadyzCheck ''cache'') (wrap ''unable to add cache readyz check'')]"

subsection \<open>Indexers and controllers\<close>

definition SetupPodIPIndexer :: "('c, 'p) setup_env \<Rightarrow> unit startup" where
  "SetupPodIPIndexer se = perform se (IndexField ''Pod'' PodIPIndexField) (wrap (''indexing pods by '' @ PodIPIndexField))"

definition SetupWNPIndexer :: "('c, 'p) setup_env \<Rightarrow> unit startup" where
  "SetupWNPIndexer se =
     perform se (IndexField ''WorkloadNetworkPolicy'' WNPTargetIndexField) (wrap (''indexing WorkloadNetworkPolicies by '' @ WNPTargetIndexField))"

definition learning_SetupWithManager :: "('c, 'p) setup_env \<Rightarrow> unit startup" where
  "learning_SetupWithManager se = perform se (CompleteController ''learningController'' []) id"

definition proposal_SetupWithManager :: "('c, 'p) setup_env \<Rightarrow> unit startup" where
  "proposal_SetupWithManager se =
     perform se (CompleteController ''workloadnetworkpolicyproposal'' [''WorkloadNetworkPolicyProposal'']) id"

definition policy_watched :: "string list" where
  "policy_watched = [''WorkloadNetworkPolicy'', ''NetworkPolicy'', ''Deployment'', ''StatefulSet'', ''DaemonSet'', ''ReplicaSet'', ''Pod'']"

text \<open>The AuthorizationPolicy is watched only if the cluster knows it.\<close>

definition policy_SetupWithManager :: "('c, 'p) setup_env \<Rightarrow> unit startup" where
  "policy_SetupWithManager se =
     run_steps
      [perform se (RegisterMetric ''network_enforcer_selector_overlaps_total'') (wrap ''failed to register selector overlap metric''),
       perform se (RegisterMetric ''network_enforcer_duplicate_targets_total'') (wrap ''failed to register duplicate target metric''),
       case se_restMapping se of
          None \<Rightarrow> perform se (CompleteController ''workloadnetworkpolicy'' (policy_watched @ [''AuthorizationPolicy''])) id
        | Some err \<Rightarrow>
            if se_isNoMatch se err then perform se (CompleteController ''workloadnetworkpolicy'' policy_watched) id
            else guard (Some (wrap ''unable to discover Istio AuthorizationPolicy CRD'' err))]"

subsection \<open>The status synchronisation\<close>

definition metricViolationsUnattributedTotal :: string where
  "metricViolationsUnattributedTotal = ''network_enforcer_violations_unattributed_total''"
definition metricAttributionDisagreementsTotal :: string where
  "metricAttributionDisagreementsTotal = ''network_enforcer_violation_attribution_disagreements_total''"

text \<open>A counter vector that is registered already is used; the registry answers with it inside the error.\<close>

definition registerCounterVec :: "('c, 'p) setup_env \<Rightarrow> (error \<Rightarrow> 'v option) \<Rightarrow> string \<Rightarrow> 'v \<Rightarrow> 'v startup" where
  "registerCounterVec se existing name v acts =
     (acts @ [RegisterMetric name],
      case se_fails se (RegisterMetric name) of
        None \<Rightarrow> Inr v
      | Some err \<Rightarrow>
          (case existing err of
             Some v' \<Rightarrow> Inr v'
           | None \<Rightarrow> Inl (wrap ''registering violation attribution metrics'' err)))"

definition registerAttributionMetrics :: "('c, 'p) setup_env \<Rightarrow> attributionMetrics startup" where
  "registerAttributionMetrics se =
     (let m = newAttributionMetrics in
      and_then (registerCounterVec se (se_existing_unattributed se) metricViolationsUnattributedTotal (unattributed m))
        (\<lambda>u. and_then (registerCounterVec se (se_existing_disagreements se) metricAttributionDisagreementsTotal (disagreements m))
          (\<lambda>d acts. (acts, Inr (m\<lparr>unattributed := u, disagreements := d\<rparr>)))))"

text \<open>\<open>registerer\<close>: the configuration has a \<open>MetricsRegisterer\<close>.\<close>

definition NewWorkloadNetworkPolicyStatusSync ::
    "('c, 'p) setup_env \<Rightarrow> int \<Rightarrow> bool \<Rightarrow> (int \<times> attributionMetrics option) startup" where
  "NewWorkloadNetworkPolicyStatusSync se interval registerer acts =
     (if interval \<le> 0 then (acts, Inl (Plain (''invalid update interval: '' @ se_duration se interval)))
      else if registerer then
        and_then (registerAttributionMetrics se) (\<lambda>m acts'. (acts', Inr (interval, Some m))) acts
      else (acts, Inr (interval, None)))"

definition setupControllers :: "('c, 'p) setup_env \<Rightarrow> config \<Rightarrow> unit startup" where
  "setupControllers se conf =
     run_steps
      [wrapped ''unable to setup WorkloadNetworkPolicyReconciler controller'' (policy_SetupWithManager se),
       wrapped ''unable to setup WorkloadNetworkPolicyProposal controller'' (proposal_SetupWithManager se),
       and_then
         (wrapped ''unable to create WorkloadNetworkPolicyStatusSync''
           (NewWorkloadNetworkPolicyStatusSync se (cf_UpdateInterval conf) True))
         (\<lambda>(interval, m). perform se (AddStatusSync interval m) (wrap ''unable to add WorkloadNetworkPolicyStatusSync runnable'')),
       perform se CompleteWebhook (wrap ''unable to create WorkloadNetworkPolicy webhook'')]"

definition run :: "('c, 'p) setup_env \<Rightarrow> config \<Rightarrow> unit startup" where
  "run se conf =
     run_steps
      [guard (map_option (wrap ''invalid provider TLS flags'') (Validate (se_env0 se) (certSourceConfig (cf_provider conf)))),
       wrapped ''unable to create controller manager''
         (newControllerManager se conf (if cf_enableHTTP2 conf then None else Some [''http/1.1''])),
       wrapped ''unable to set up pod IP indexer'' (SetupPodIPIndexer se),
       wrapped ''unable to set up WorkloadNetworkPolicy target indexer'' (SetupWNPIndexer se),
       if cf_otelEndpoint conf \<noteq> [] then setupOtelLogExporter se conf else guard None,
       if fd_Enabled (cf_flowDumper conf) then setupFlowDumper se (cf_flowDumper conf) else guard None,
       wrapped ''unable to create learning reconciler'' (learning_SetupWithManager se),
       setup_scraper se (cf_provider conf),
       setupControllers se conf,
       setupHealthChecks se,
       perform se StartManager id]"

subsection \<open>main\<close>

text \<open>\<open>slog.Level.UnmarshalText\<close>: a name in any case and an optional offset. \<open>strings.ToUpper\<close> on UTF-8: besides the ASCII letters only
  the dotless i and the long s have an ASCII letter as their upper case.\<close>

definition upper_ascii :: "char \<Rightarrow> char" where
  "upper_ascii ch = (let n = of_char ch :: nat in if 97 \<le> n \<and> n \<le> 122 then char_of (n - 32) else ch)"

fun ToUpper :: "string \<Rightarrow> string" where
  "ToUpper [] = []"
| "ToUpper [ch] = [upper_ascii ch]"
| "ToUpper (ch # ch' # cs) =
     (if ch = CHR 0xC4 \<and> ch' = CHR 0xB1 then CHR ''I'' # ToUpper cs
      else if ch = CHR 0xC5 \<and> ch' = CHR 0xBF then CHR ''S'' # ToUpper cs
      else upper_ascii ch # ToUpper (ch' # cs))"

definition level_of_name :: "string \<Rightarrow> int option" where
  "level_of_name name =
     (if ToUpper name = ''DEBUG'' then Some (- 4)
      else if ToUpper name = ''INFO'' then Some 0
      else if ToUpper name = ''WARN'' then Some 4
      else if ToUpper name = ''ERROR'' then Some 8
      else None)"

definition UnmarshalText :: "string \<Rightarrow> error + int" where
  "UnmarshalText s =
     (let name = takeWhile (\<lambda>ch. ch \<noteq> CHR ''+'' \<and> ch \<noteq> CHR ''-'') s;
          rest = drop (length name) s;
          bad = (\<lambda>e. Inl (wrap (''slog: level string '' @ quoted s) e))
      in case (if rest = [] then Some 0 else parse_int 64 rest) of
           None \<Rightarrow> bad (Plain ''strconv.Atoi'')
         | Some offset \<Rightarrow>
             (case level_of_name name of
                None \<Rightarrow> bad (Plain ''unknown name'')
              | Some l \<Rightarrow> Inr (wrap64 (l + offset))))"

definition parseLogLevel :: "string \<Rightarrow> error + int" where
  "parseLogLevel level =
     (case UnmarshalText level of
        Inl err \<Rightarrow> Inl (wrap (''invalid log level '' @ quoted level) err)
      | Inr parsed \<Rightarrow> Inr parsed)"

text \<open>The exit code of \<open>main\<close>, and what has been done.\<close>

definition controller_main :: "('c, 'p) setup_env \<Rightarrow> config \<Rightarrow> setup_action list \<times> nat" where
  "controller_main se conf =
     (case parseLogLevel (cf_logLevel conf) of
        Inl _ \<Rightarrow> ([], 1)
      | Inr _ \<Rightarrow> (case run se conf [] of (acts, Inl _) \<Rightarrow> (acts, 1) | (acts, Inr _) \<Rightarrow> (acts, 0)))"

subsection \<open>Readiness\<close>

text \<open>\<open>synced\<close> is the flag that the runnable and the check share; \<open>waitForCacheSync\<close> is the answer of the cache.\<close>

definition cacheSync_Start :: "bool \<Rightarrow> bool \<Rightarrow> bool \<times> error option" where
  "cacheSync_Start waitForCacheSync synced = (if \<not> waitForCacheSync then (synced, None) else (True, None))"

definition cacheSync_NeedLeaderElection :: bool where "cacheSync_NeedLeaderElection \<longleftrightarrow> False"

definition cache_readyz :: "bool \<Rightarrow> error option" where
  "cache_readyz synced = (if \<not> synced then Some (Plain ''manager cache has not synchronized'') else None)"

section \<open>Lemmas\<close>

text \<open>An action is fine if it succeeds, or if it registers an attribution counter that is there already.\<close>

definition startup_fine :: "('c, 'p) setup_env \<Rightarrow> setup_action \<Rightarrow> bool" where
  "startup_fine se a \<longleftrightarrow>
     (case se_fails se a of
        None \<Rightarrow> True
      | Some e \<Rightarrow>
          a = RegisterMetric metricViolationsUnattributedTotal \<and> se_existing_unattributed se e \<noteq> None \<or>
          a = RegisterMetric metricAttributionDisagreementsTotal \<and> se_existing_disagreements se e \<noteq> None)"

text \<open>A piece of the start-up carries out its plan: completely, with the value \<open>v\<close>, exactly if its condition \<open>ok\<close> holds and
  every action of the plan is fine; otherwise it stops with an error within the plan, at the latest at the
  first action that is not fine.\<close>

definition follows :: "('c, 'p) setup_env \<Rightarrow> 'a startup \<Rightarrow> setup_action list \<Rightarrow> bool \<Rightarrow> 'a \<Rightarrow> bool" where
  "follows se m plan ok v \<longleftrightarrow>
     (\<forall>acts. case m acts of
        (acts', Inr x) \<Rightarrow> acts' = acts @ plan \<and> list_all (startup_fine se) plan \<and> ok \<and> x = v
      | (acts', Inl e) \<Rightarrow>
          (\<exists>pre. prefix pre plan \<and> acts' = acts @ pre \<and> list_all (startup_fine se) (butlast pre)) \<and>
          \<not> (list_all (startup_fine se) plan \<and> ok))"

named_theorems startup_rules

lemma follows_Inr:
  "follows se m plan ok v \<Longrightarrow> m acts = (acts', Inr x) \<Longrightarrow> acts' = acts @ plan \<and> list_all (startup_fine se) plan \<and> ok \<and> x = v"
  by (auto simp: follows_def split: prod.splits sum.splits)

lemma follows_Inl:
  assumes "follows se m plan ok v" and "m acts = (acts', Inl e)"
  obtains pre where "prefix pre plan" "acts' = acts @ pre" "list_all (startup_fine se) (butlast pre)"
    "\<not> (list_all (startup_fine se) plan \<and> ok)"
  using assms by (auto simp: follows_def split: prod.splits sum.splits) (metis (no_types))

lemma follows_guard [startup_rules]: "follows se (guard err) [] (err = None) ()"
  by (auto simp: follows_def guard_def split: option.splits)

lemma follows_perform [startup_rules]:
  assumes "a \<notin> {RegisterMetric metricViolationsUnattributedTotal, RegisterMetric metricAttributionDisagreementsTotal}"
  shows "follows se (perform se a wr) [a] True ()"
  using assms by (auto simp: follows_def perform_def startup_fine_def prefix_def split: option.splits)

lemma follows_wrapped [startup_rules]: "follows se m plan ok v \<Longrightarrow> follows se (wrapped pre m) plan ok v"
  unfolding follows_def wrapped_def by (fastforce split: prod.splits sum.splits)

lemma follows_and_then [startup_rules]:
  assumes m: "follows se m p A v" and f: "follows se (f v) ps B u"
  shows "follows se (and_then m f) (p @ ps) (A \<and> B) u"
  unfolding follows_def
proof
  fix acts
  obtain acts1 r1 where 1: "m acts = (acts1, r1)" by (cases "m acts")
  show "case and_then m f acts of
      (acts', Inr x) \<Rightarrow> acts' = acts @ p @ ps \<and> list_all (startup_fine se) (p @ ps) \<and> (A \<and> B) \<and> x = u
    | (acts', Inl e) \<Rightarrow>
        (\<exists>pre. prefix pre (p @ ps) \<and> acts' = acts @ pre \<and> list_all (startup_fine se) (butlast pre)) \<and>
        \<not> (list_all (startup_fine se) (p @ ps) \<and> A \<and> B)"
  proof (cases r1)
    case (Inl e)
    with m 1 obtain pre where "prefix pre p" "acts1 = acts @ pre" "list_all (startup_fine se) (butlast pre)"
        "\<not> (list_all (startup_fine se) p \<and> A)"
      by (auto elim: follows_Inl)
    with 1 Inl show ?thesis by (auto simp: and_then_def)
  next
    case (Inr x)
    with m 1 have 1: "m acts = (acts @ p, Inr v)" and p: "list_all (startup_fine se) p" A by (auto dest: follows_Inr)
    obtain acts2 r2 where 2: "f v (acts @ p) = (acts2, r2)" by (cases "f v (acts @ p)")
    show ?thesis
    proof (cases r2)
      case (Inl e)
      from follows_Inl [OF f 2 [unfolded Inl]] obtain pre where
        "prefix pre ps" "acts2 = (acts @ p) @ pre" "list_all (startup_fine se) (butlast pre)" "\<not> (list_all (startup_fine se) ps \<and> B)"
        by blast
      with 1 2 Inl p show ?thesis
        by (auto simp: and_then_def butlast_append list.pred_set intro!: exI [of _ "p @ pre"] dest: in_set_butlastD)
    next
      case (Inr y)
      with f 2 have "acts2 = acts @ p @ ps" "list_all (startup_fine se) ps" B "y = u" by (auto dest: follows_Inr)
      with 1 2 Inr p show ?thesis by (simp add: and_then_def)
    qed
  qed
qed

lemma run_steps_Cons: "run_steps (m # ms) = and_then m (\<lambda>_. run_steps ms)"
  by (rule ext) simp

lemma follows_Nil [startup_rules]: "follows se (run_steps []) [] True ()"
  by (simp add: follows_def)

lemma follows_Cons [startup_rules]:
  "follows se m p A () \<Longrightarrow> follows se (run_steps ms) ps B () \<Longrightarrow> follows se (run_steps (m # ms)) (p @ ps) (A \<and> B) ()"
  using follows_and_then [of se m p A "()" "\<lambda>_. run_steps ms" ps B "()"] by (simp add: run_steps_Cons)

text \<open>The pieces of \<open>run\<close> whose plan depends on the configuration or on what the cluster has.\<close>

definition planned_exporter :: "config \<Rightarrow> setup_action list" where
  "planned_exporter conf =
     (if cf_otelEndpoint conf = [] then []
      else (case otlp_Parse (cf_otelProtocol conf) of Inr proto \<Rightarrow> [NewExporter proto] | Inl _ \<Rightarrow> []) @ [AddRunnable ''otlp-shutdown''])"

definition planned_scraper :: "('c, 'p) setup_env \<Rightarrow> providerConfig \<Rightarrow> setup_action list" where
  "planned_scraper se p =
     (case setupProviderScraper (se_env se) (se_reader se) None p of Inr s \<Rightarrow> [AddScraper s] | Inl _ \<Rightarrow> [])"

definition istio_watch_ok :: "('c, 'p) setup_env \<Rightarrow> bool" where
  "istio_watch_ok se \<longleftrightarrow> (case se_restMapping se of None \<Rightarrow> True | Some err \<Rightarrow> se_isNoMatch se err)"

definition planned_watches :: "('c, 'p) setup_env \<Rightarrow> setup_action list" where
  "planned_watches se =
     (if istio_watch_ok se then
        [CompleteController ''workloadnetworkpolicy''
          (policy_watched @ (if se_restMapping se = None then [''AuthorizationPolicy''] else []))]
      else [])"

definition used_metrics :: "('c, 'p) setup_env \<Rightarrow> attributionMetrics" where
  "used_metrics se =
     newAttributionMetrics
       \<lparr>unattributed :=
          (case se_fails se (RegisterMetric metricViolationsUnattributedTotal) of
             None \<Rightarrow> unattributed newAttributionMetrics | Some e \<Rightarrow> the (se_existing_unattributed se e)),
        disagreements :=
          (case se_fails se (RegisterMetric metricAttributionDisagreementsTotal) of
             None \<Rightarrow> disagreements newAttributionMetrics | Some e \<Rightarrow> the (se_existing_disagreements se e))\<rparr>"

text \<open>The whole plan, and when the configuration allows it.\<close>

definition startup_plan :: "('c, 'p) setup_env \<Rightarrow> config \<Rightarrow> setup_action list" where
  "startup_plan se conf =
     [NewManager (options_of conf (if cf_enableHTTP2 conf then None else Some [''http/1.1''])),
      IndexField ''Pod'' PodIPIndexField, IndexField ''WorkloadNetworkPolicy'' WNPTargetIndexField] @
     planned_exporter conf @
     (if fd_Enabled (cf_flowDumper conf)
      then [AddFlowDumper (New_dumper (NewWithSize [] (fd_BufferSize (cf_flowDumper conf))) (fd_Port (cf_flowDumper conf)))] else []) @
     [CompleteController ''learningController'' []] @ planned_scraper se (cf_provider conf) @
     [RegisterMetric ''network_enforcer_selector_overlaps_total'', RegisterMetric ''network_enforcer_duplicate_targets_total''] @
     planned_watches se @
     [CompleteController ''workloadnetworkpolicyproposal'' [''WorkloadNetworkPolicyProposal''],
      RegisterMetric metricViolationsUnattributedTotal, RegisterMetric metricAttributionDisagreementsTotal,
      AddStatusSync (cf_UpdateInterval conf) (Some (used_metrics se)), CompleteWebhook, AddRunnable ''cache-sync-readiness'',
      AddHealthzCheck ''healthz'', AddReadyzCheck ''readyz'', AddReadyzCheck ''webhook'', AddReadyzCheck ''cache'']"

definition startup_ok :: "('c, 'p) setup_env \<Rightarrow> config \<Rightarrow> bool" where
  "startup_ok se conf \<longleftrightarrow>
     Validate (se_env0 se) (certSourceConfig (cf_provider conf)) = None \<and>
     (cf_otelEndpoint conf \<noteq> [] \<longrightarrow>
        ValidateEndpoint (se_urlParse se) (cf_otelEndpoint conf) = None \<and>
        cf_otelProtocol conf \<in> {[], ''grpc'', ''http/protobuf''}) \<and>
     (\<exists>s. setupProviderScraper (se_env se) (se_reader se) None (cf_provider conf) = Inr s) \<and>
     istio_watch_ok se \<and> 0 < cf_UpdateInterval conf"

lemma otlp_Parse_Inr: "(\<exists>proto. otlp_Parse s = Inr proto) \<longleftrightarrow> s \<in> {[], ''grpc'', ''http/protobuf''}"
  by (simp add: otlp_Parse_def GRPC_def HTTPProtobuf_def)

lemma follows_weaken:
  "follows se m p A v \<Longrightarrow> p = q \<Longrightarrow> (list_all (startup_fine se) q \<Longrightarrow> A = B) \<Longrightarrow> follows se m q B v"
  unfolding follows_def by (fastforce split: prod.splits sum.splits)

lemma follows_events_Init:
  "follows se (events_Init se protocol)
     (case otlp_Parse protocol of Inr proto \<Rightarrow> [NewExporter proto] | Inl _ \<Rightarrow> []) (\<exists>proto. otlp_Parse protocol = Inr proto) ()"
  by (auto simp: events_Init_def intro: follows_weaken [OF follows_guard] follows_weaken [OF follows_perform] split: sum.splits)

lemma follows_exporter:
  "follows se (if cf_otelEndpoint conf \<noteq> [] then setupOtelLogExporter se conf else guard None) (planned_exporter conf)
     (cf_otelEndpoint conf \<noteq> [] \<longrightarrow>
        ValidateEndpoint (se_urlParse se) (cf_otelEndpoint conf) = None \<and> cf_otelProtocol conf \<in> {[], ''grpc'', ''http/protobuf''}) ()"
proof (cases "cf_otelEndpoint conf = []")
  case True
  then show ?thesis by (auto simp: planned_exporter_def intro: follows_weaken [OF follows_guard])
next
  case False
  have "follows se (setupOtelLogExporter se conf)
      ([] @ (case otlp_Parse (cf_otelProtocol conf) of Inr proto \<Rightarrow> [NewExporter proto] | Inl _ \<Rightarrow> []) @ [AddRunnable ''otlp-shutdown''] @ [])
      (ValidateEndpoint (se_urlParse se) (cf_otelEndpoint conf) = None \<and> (\<exists>proto. otlp_Parse (cf_otelProtocol conf) = Inr proto) \<and>
         True \<and> True) ()"
    unfolding setupOtelLogExporter_def by (intro startup_rules follows_events_Init) simp
  from follows_weaken [OF this, of "planned_exporter conf"] False show ?thesis
    unfolding otlp_Parse_Inr by (simp add: planned_exporter_def)
qed

lemma follows_dumper:
  "follows se (if fd_Enabled fd then setupFlowDumper se fd else guard None)
     (if fd_Enabled fd then [AddFlowDumper (New_dumper (NewWithSize [] (fd_BufferSize fd)) (fd_Port fd))] else []) True ()"
  by (auto simp: setupFlowDumper_def intro!: follows_perform follows_weaken [OF follows_guard])

lemma setupProviderScraper_addErr:
  "setupProviderScraper env reader None p = Inr s \<Longrightarrow> setupProviderScraper env reader (Some e) p \<noteq> Inr s'"
  by (auto simp: setupProviderScraper_def add_scraper_def split: if_splits option.splits sum.splits)

lemma follows_scraper:
  "follows se (setup_scraper se p) (planned_scraper se p)
     (\<exists>s. setupProviderScraper (se_env se) (se_reader se) None p = Inr s) ()"
proof (cases "setupProviderScraper (se_env se) (se_reader se) None p")
  case (Inl e)
  then show ?thesis by (auto simp: setup_scraper_def planned_scraper_def intro: follows_weaken [OF follows_guard])
next
  case (Inr s)
  then show ?thesis
    using setupProviderScraper_addErr [OF Inr]
    by (auto simp: setup_scraper_def planned_scraper_def follows_def startup_fine_def prefix_def split: option.splits sum.splits)
qed

lemma follows_watches: "follows se (policy_SetupWithManager se)
    ([RegisterMetric ''network_enforcer_selector_overlaps_total'', RegisterMetric ''network_enforcer_duplicate_targets_total''] @
     planned_watches se) (istio_watch_ok se) ()"
proof -
  have "follows se
      (case se_restMapping se of
         None \<Rightarrow> perform se (CompleteController ''workloadnetworkpolicy'' (policy_watched @ [''AuthorizationPolicy''])) id
       | Some err \<Rightarrow>
           if se_isNoMatch se err then perform se (CompleteController ''workloadnetworkpolicy'' policy_watched) id
           else guard (Some (wrap ''unable to discover Istio AuthorizationPolicy CRD'' err)))
      (planned_watches se) (istio_watch_ok se) ()"
    by (auto simp: planned_watches_def istio_watch_ok_def intro: follows_weaken [OF follows_guard] follows_weaken [OF follows_perform]
        split: option.splits)
  then have "follows se (policy_SetupWithManager se)
      ([RegisterMetric ''network_enforcer_selector_overlaps_total''] @ [RegisterMetric ''network_enforcer_duplicate_targets_total''] @
       planned_watches se @ []) (True \<and> True \<and> istio_watch_ok se \<and> True) ()"
    unfolding policy_SetupWithManager_def
    by (intro startup_rules) (simp_all add: metricViolationsUnattributedTotal_def metricAttributionDisagreementsTotal_def)
  then show ?thesis by simp
qed

lemma follows_metrics:
  "follows se (registerAttributionMetrics se)
     [RegisterMetric metricViolationsUnattributedTotal, RegisterMetric metricAttributionDisagreementsTotal] True (used_metrics se)"
  by (auto simp: follows_def registerAttributionMetrics_def registerCounterVec_def and_then_def startup_fine_def used_metrics_def
      Let_def prefix_def metricViolationsUnattributedTotal_def metricAttributionDisagreementsTotal_def split: option.splits)

lemma follows_return: "follows se (\<lambda>acts. (acts, Inr v)) [] True v"
  by (simp add: follows_def)

lemma follows_status_sync:
  "follows se (NewWorkloadNetworkPolicyStatusSync se interval True)
     [RegisterMetric metricViolationsUnattributedTotal, RegisterMetric metricAttributionDisagreementsTotal] (0 < interval)
     (interval, Some (used_metrics se))"
proof (cases "interval \<le> 0")
  case True
  then show ?thesis by (auto simp: follows_def NewWorkloadNetworkPolicyStatusSync_def)
next
  case False
  have "follows se (and_then (registerAttributionMetrics se) (\<lambda>m acts'. (acts', Inr (interval, Some m))))
      ([RegisterMetric metricViolationsUnattributedTotal, RegisterMetric metricAttributionDisagreementsTotal] @ [])
      (True \<and> True) (interval, Some (used_metrics se))"
    by (rule follows_and_then follows_metrics follows_return)+
  with False show ?thesis by (simp add: follows_def NewWorkloadNetworkPolicyStatusSync_def)
qed

lemmas step_defs = newControllerManager_def SetupPodIPIndexer_def SetupWNPIndexer_def learning_SetupWithManager_def
  proposal_SetupWithManager_def

lemma follows_setupControllers:
  "follows se (setupControllers se conf)
     ([RegisterMetric ''network_enforcer_selector_overlaps_total'', RegisterMetric ''network_enforcer_duplicate_targets_total''] @
      planned_watches se @
      [CompleteController ''workloadnetworkpolicyproposal'' [''WorkloadNetworkPolicyProposal''],
       RegisterMetric metricViolationsUnattributedTotal, RegisterMetric metricAttributionDisagreementsTotal,
       AddStatusSync (cf_UpdateInterval conf) (Some (used_metrics se)), CompleteWebhook])
     (istio_watch_ok se \<and> 0 < cf_UpdateInterval conf) ()"
  unfolding setupControllers_def step_defs
  by (rule follows_weaken) (rule startup_rules follows_watches follows_status_sync | simp add: follows_perform)+

lemma follows_setupHealthChecks:
  "follows se (setupHealthChecks se)
     [AddRunnable ''cache-sync-readiness'', AddHealthzCheck ''healthz'', AddReadyzCheck ''readyz'', AddReadyzCheck ''webhook'',
      AddReadyzCheck ''cache''] True ()"
  unfolding setupHealthChecks_def by (rule follows_weaken) (rule startup_rules | simp)+

lemma run_steps_snoc: "run_steps (ms @ [m]) = and_then (run_steps ms) (\<lambda>_. m)"
proof (induction ms)
  case Nil
  then show ?case by (auto simp: and_then_def fun_eq_iff split: prod.splits sum.splits)
next
  case (Cons m' ms)
  then show ?case by (auto simp: run_steps_Cons and_then_def fun_eq_iff split: prod.splits sum.splits)
qed

text \<open>\<open>run\<close> is a preparation, which follows the plan, and then the start of the manager.\<close>

lemma run_prepares:
  obtains prep where "run se conf = and_then prep (\<lambda>_. perform se StartManager id)"
    and "follows se prep (startup_plan se conf) (startup_ok se conf) ()"
proof -
  define prep where "prep = run_steps
      [guard (map_option (wrap ''invalid provider TLS flags'') (Validate (se_env0 se) (certSourceConfig (cf_provider conf)))),
       wrapped ''unable to create controller manager''
         (newControllerManager se conf (if cf_enableHTTP2 conf then None else Some [''http/1.1''])),
       wrapped ''unable to set up pod IP indexer'' (SetupPodIPIndexer se),
       wrapped ''unable to set up WorkloadNetworkPolicy target indexer'' (SetupWNPIndexer se),
       if cf_otelEndpoint conf \<noteq> [] then setupOtelLogExporter se conf else guard None,
       if fd_Enabled (cf_flowDumper conf) then setupFlowDumper se (cf_flowDumper conf) else guard None,
       wrapped ''unable to create learning reconciler'' (learning_SetupWithManager se),
       setup_scraper se (cf_provider conf), setupControllers se conf, setupHealthChecks se]"
  have "run se conf = and_then prep (\<lambda>_. perform se StartManager id)"
    unfolding run_def prep_def run_steps_snoc [symmetric] by (simp only: append.simps)
  moreover have "follows se prep (startup_plan se conf) (startup_ok se conf) ()"
    unfolding prep_def step_defs
    by (rule follows_weaken)
       (rule startup_rules follows_exporter follows_dumper follows_scraper follows_setupControllers follows_setupHealthChecks
        | simp add: startup_plan_def startup_ok_def)+
  ultimately show thesis by (rule that)
qed

lemma StartManager_not_planned: "StartManager \<notin> set (startup_plan se conf)"
  by (auto simp: startup_plan_def planned_exporter_def planned_scraper_def planned_watches_def split: sum.splits)

text \<open>The process exits with code 0 exactly if the level is valid and \<open>run\<close> returns without an error; the documented levels are
  valid. The cache probe is ready exactly once the cache has synchronised.\<close>

lemma controller_main_exit:
  "snd (controller_main se conf) = 0 \<longleftrightarrow>
     (\<exists>l. parseLogLevel (cf_logLevel conf) = Inr l) \<and> (\<exists>acts. run se conf [] = (acts, Inr ()))"
  by (auto simp: controller_main_def split: sum.splits prod.splits)

lemma parseLogLevel_documented:
  "parseLogLevel ''debug'' = Inr (- 4)" "parseLogLevel ''info'' = Inr 0" "parseLogLevel ''warn'' = Inr 4" "parseLogLevel ''error'' = Inr 8"
  by (simp_all add: parseLogLevel_def UnmarshalText_def level_of_name_def upper_ascii_def char_of_def wrap64_def Let_def bit_0)

lemma cache_ready_iff_synced: "cache_readyz (fst (cacheSync_Start synced False)) = None \<longleftrightarrow> synced"
  by (simp add: cache_readyz_def cacheSync_Start_def)

section \<open>Properties\<close>

text \<open>C19. The controller starts completely or not at all. Whatever calls fail, the manager is started exactly if the
  configuration is valid and every action of the plan for it succeeds; then the plan has been carried
  out to its end (both indexes before any client of them, one scraper, the one that the provider
  flags select, every controller, the status synchronisation with the registered counters, the webhook,
  the probes) and the result is that of the manager. Otherwise an error is returned, and what was done is
  a beginning of the plan in which at most the last action failed.\<close>

theorem startup_all_or_nothing:
  assumes "run se conf [] = (acts, r)"
  shows "(StartManager \<in> set acts \<longleftrightarrow> startup_ok se conf \<and> list_all (startup_fine se) (startup_plan se conf)) \<and>
    (StartManager \<in> set acts \<longrightarrow>
      acts = startup_plan se conf @ [StartManager] \<and> r = (case se_fails se StartManager of None \<Rightarrow> Inr () | Some e \<Rightarrow> Inl e)) \<and>
    (StartManager \<notin> set acts \<longrightarrow>
      prefix acts (startup_plan se conf) \<and> list_all (startup_fine se) (butlast acts) \<and> (\<exists>e. r = Inl e))"
proof -
  obtain prep where run: "run se conf = and_then prep (\<lambda>_. perform se StartManager id)"
    and prep: "follows se prep (startup_plan se conf) (startup_ok se conf) ()" by (rule run_prepares)
  obtain acts1 r1 where 1: "prep [] = (acts1, r1)" by (cases "prep []")
  show ?thesis
  proof (cases r1)
    case (Inl e)
    from follows_Inl [OF prep 1 [unfolded Inl]] obtain pre where
      "prefix pre (startup_plan se conf)" "acts1 = pre" "list_all (startup_fine se) (butlast pre)"
      "\<not> (list_all (startup_fine se) (startup_plan se conf) \<and> startup_ok se conf)" by auto
    moreover from this(1) have "StartManager \<notin> set pre"
      using StartManager_not_planned set_mono_prefix by blast
    ultimately show ?thesis using assms run 1 Inl by (auto simp: and_then_def)
  next
    case (Inr x)
    with follows_Inr [OF prep, of "[]" acts1 x] 1 assms run show ?thesis
      by (auto simp: and_then_def perform_def split: option.splits)
  qed
qed

definition sample_setup :: "setup_action option \<Rightarrow> (string, string) setup_env" where
  "sample_setup bad =
     \<lparr>se_fails = (\<lambda>a. if Some a = bad then Some (Plain ''refused'') else None), se_restMapping = Some (Plain ''no match''),
      se_isNoMatch = (\<lambda>_. True), se_urlParse = (\<lambda>_. Inr (''http'', ''collector'')), se_duration = (\<lambda>_. ''0s''),
      se_env0 = sample_tls_env, se_env = sample_tls_env, se_reader = sample_reader,
      se_existing_unattributed = (\<lambda>_. None), se_existing_disagreements = (\<lambda>_. None)\<rparr>"

definition sample_config :: config where
  "sample_config = default_config\<lparr>cf_provider := sample_provider, cf_otelEndpoint := ''http://collector:4317''\<rparr>"

text \<open>All goes well, and a refused webhook: the second start ends with an error before the probes.\<close>

theorem startup_all_or_nothing_witness:
  "StartManager \<in> set (fst (run (sample_setup None) sample_config [])) \<and>
   StartManager \<notin> set (fst (run (sample_setup (Some CompleteWebhook)) sample_config [])) \<and>
   (\<exists>e. snd (run (sample_setup (Some CompleteWebhook)) sample_config []) = Inl e)"
proof -
  have v: "Validate sample_tls_env (certSourceConfig sample_provider) = None"
    and s: "setupProviderScraper sample_tls_env sample_reader None sample_provider = Inr (CalicoConf sample_hop)"
    by (simp_all add: Validate_def validateIssuer_def ValidateCertDir_def LoadKeyPair_def setupProviderScraper_def
        LoadKeyPairFromPEM_def LoadCACertPool_def LoadCACertPoolFromPEM_def
        validateCalicoTLSMode_def newProviderCertSource_def New_source_def NewDirSource_def certSourceConfig_def add_scraper_def Let_def
        sample_tls_env_def sample_provider_def sample_hop_def mode_defs provider_defs)
  have ok: "startup_ok (sample_setup bad) sample_config" for bad
    using v s by (simp add: startup_ok_def sample_setup_def sample_config_def default_config_def ValidateEndpoint_def
        istio_watch_ok_def defaultWnpStatusUpdateInterval_def)
  have "list_all (startup_fine (sample_setup None)) (startup_plan (sample_setup None) sample_config)"
    by (simp add: startup_fine_def sample_setup_def list.pred_set)
  moreover have "\<not> startup_fine (sample_setup (Some CompleteWebhook)) CompleteWebhook"
    by (simp add: startup_fine_def sample_setup_def)
  then have "\<not> list_all (startup_fine (sample_setup (Some CompleteWebhook))) (startup_plan (sample_setup (Some CompleteWebhook)) sample_config)"
    by (auto simp: list.pred_set startup_plan_def)
  ultimately show ?thesis
    using ok startup_all_or_nothing [of "sample_setup None" sample_config] startup_all_or_nothing [of "sample_setup (Some CompleteWebhook)" sample_config]
    by (metis prod.collapse)
qed

end
