(* ===== verification/Controllers.thy ===== *)
theory Controllers
  imports StatusSync PolicyReconciler ProposalReconciler
begin

text \<open>
  All controllers on one cluster. A run is any sequence of calls of the policy controller, the proposal controller, the learning
  controller and the status synchronisation, in any order, each with any request and any state of its own; the scrapers and the
  webhook do not write to the cluster. The theory shows what such a run can do to the objects that enforce: the NetworkPolicies and
  AuthorizationPolicies.
\<close>

section \<open>Model\<close>

definition read_policy :: "'w client \<Rightarrow> 'w \<Rightarrow> NamespacedName \<Rightarrow> WorkloadNetworkPolicy list" where
  "read_policy c w req = (case getWNP c w req of Inr p \<Rightarrow> [p] | Inl _ \<Rightarrow> [])"

text \<open>\<open>ctl_run h c w ps w'\<close>: a run from \<open>w\<close> to \<open>w'\<close> in which the policy controller has read the policies \<open>ps\<close>.\<close>

inductive ctl_run :: "helpers \<Rightarrow> 'w client \<Rightarrow> 'w \<Rightarrow> WorkloadNetworkPolicy list \<Rightarrow> 'w \<Rightarrow> bool" for h c w where
  idle: "ctl_run h c w [] w"
| policy: "ctl_run h c w ps (pr_cluster r) \<Longrightarrow> policy_Reconcile h c r req = Some (r', e) \<Longrightarrow>
    ctl_run h c w (ps @ read_policy c (pr_cluster r) req) (pr_cluster r')"
| proposal: "ctl_run h c w ps w1 \<Longrightarrow> proposal_Reconcile h c w1 req = (w2, e) \<Longrightarrow> ctl_run h c w ps w2"
| learn: "ctl_run h c w ps (lr_cluster l) \<Longrightarrow> learning_Reconcile h c now l ev = Some (l', e) \<Longrightarrow> ctl_run h c w ps (lr_cluster l')"
| sync: "ctl_run h c w ps (ss_cluster s) \<Longrightarrow> StatusSync.sync h c rfc3339 visit now s = Some (s', e) \<Longrightarrow> ctl_run h c w ps (ss_cluster s')"

section \<open>Writes that leave something alone\<close>

lemma sendMonitorViolation_cluster: "sendMonitorViolation l n wk peer proto d port now = Some (l', e) \<Longrightarrow> lr_cluster l' = lr_cluster l"
  by (auto simp: sendMonitorViolation_def Let_def split: option.splits prod.splits)

lemma evaluateMonitorViolation_cluster:
  "evaluateMonitorViolation h l pol wk peer proto d port now = Some (l', e) \<Longrightarrow> lr_cluster l' = lr_cluster l"
  by (auto simp: evaluateMonitorViolation_def Let_def split: option.splits prod.splits if_splits dest: sendMonitorViolation_cluster)

text \<open>The contract of a client with respect to a part of the cluster: \<open>same\<close> says that this part has not changed, and the
  writes to policies and proposals do not change it.\<close>

locale quiet_client =
  fixes c :: "'w client" and same :: "'w \<Rightarrow> 'w \<Rightarrow> bool"
  assumes same_refl: "same w w"
    and same_trans: "same u v \<Longrightarrow> same v w \<Longrightarrow> same u w"
    and create_wnp: "createWNP c w p = (w', e) \<Longrightarrow> same w w'"
    and patch_wnp_status: "patchWNPStatus c w p q = (w', e) \<Longrightarrow> same w w'"
    and patch_wnp: "patchWNP c w p q = (w', e) \<Longrightarrow> same w w'"
    and delete_wnpp: "deleteWNPP c w pp = (w', e) \<Longrightarrow> same w w'"
    and patch_wnpp: "patchWNPP c w pp qq = (w', a) \<Longrightarrow> same w w'"
    and upsert_wnpp: "createOrUpdateWNPP c w pp f = (w', r) \<Longrightarrow> same w w'"
begin

lemmas quiet = create_wnp patch_wnp_status patch_wnp delete_wnpp patch_wnpp upsert_wnpp

lemma delete_ignoring_quiet: "delete_ignoring c w p = (w', e) \<Longrightarrow> same w w'"
  by (auto simp: delete_ignoring_def intro: quiet split: prod.splits option.splits)

lemma reconcileOwnership_quiet: "reconcileOwnership h c w p = (w', q, r) \<Longrightarrow> same w w'"
  by (auto simp: reconcileOwnership_def Let_def same_refl intro: quiet split: option.splits sum.splits if_splits prod.splits)

lemma proposal_quiet:
  assumes "proposal_Reconcile h c w req = (w', e)"
  shows "same w w'"
proof (cases "getWNPP c w req")
  case (Inl err)
  with assms show ?thesis by (simp add: proposal_Reconcile_def same_refl)
next
  case (Inr p)
  obtain w1 q r where o: "reconcileOwnership h c w p = (w1, q, r)" by (cases "reconcileOwnership h c w p")
  then have 1: "same w w1" by (rule reconcileOwnership_quiet)
  have "same w1 w' \<or> w' = w"
    using assms Inr o
    by (auto simp: proposal_Reconcile_def same_refl split: if_splits sum.splits bool.splits prod.splits option.splits
        intro: quiet delete_ignoring_quiet same_trans [OF create_wnp delete_ignoring_quiet])
  with 1 show ?thesis by (auto intro: same_trans same_refl)
qed

lemma reconcileKubernetesProposal_quiet:
  "reconcileKubernetesProposal h c now l wk peer d proto port = Some (l', e) \<Longrightarrow> same (lr_cluster l) (lr_cluster l')"
  by (auto simp: reconcileKubernetesProposal_def Let_def same_refl evaluateMonitorViolation_cluster intro: quiet
      split: sum.splits list.splits prod.splits if_splits)

lemma updateProposal_quiet: "updateProposal h c l ev dest = Some (l', e) \<Longrightarrow> same (lr_cluster l) (lr_cluster l')"
  by (auto simp: updateProposal_def Let_def same_refl intro: quiet split: sum.splits option.splits prod.splits if_splits)

lemma learning_quiet:
  assumes "learning_Reconcile h c now l ev = Some (l', e)"
  shows "same (lr_cluster l) (lr_cluster l')"
proof (cases "le_Backend ev = PolicyBackendIstio")
  case True
  with assms show ?thesis
    by (auto simp: learning_Reconcile_def processIstioLearningEvent_def Let_def same_refl updateProposal_quiet
        split: option.splits sum.splits list.splits)
next
  case False
  with assms show ?thesis
    by (auto simp: learning_Reconcile_def processKubernetesLearningEvent_def same_refl split: option.splits prod.splits
        intro: reconcileKubernetesProposal_quiet same_trans [OF reconcileKubernetesProposal_quiet reconcileKubernetesProposal_quiet])
qed

lemma processWorkloadNetworkPolicy_quiet:
  "processWorkloadNetworkPolicy h c f now s p vs = Some (s', e) \<Longrightarrow> same (ss_cluster s) (ss_cluster s')"
  by (auto simp: processWorkloadNetworkPolicy_def Let_def split: option.splits prod.splits
      intro: patch_wnp_status same_trans [OF patch_wnp_status patch_wnp])

lemma process_all_quiet: "process_all h c f now vb s m = Some s' \<Longrightarrow> same (ss_cluster s) (ss_cluster s')"
proof (induction m arbitrary: s)
  case (Cons e m)
  obtain key p where e: "e = (key, p)" by (cases e)
  with Cons.prems obtain s1 err where "processWorkloadNetworkPolicy h c f now s p (case map_of vb key of None \<Rightarrow> [] | Some vs \<Rightarrow> vs) = Some (s1, err)"
    "process_all h c f now vb s1 m = Some s'" by (auto split: option.splits)
  then show ?case by (blast intro: same_trans processWorkloadNetworkPolicy_quiet Cons.IH)
qed (simp add: same_refl)

lemma sync_quiet: "StatusSync.sync h c f visit now s = Some (s', e) \<Longrightarrow> same (ss_cluster s) (ss_cluster s')"
  by (auto simp: sync_def Let_def same_refl split: sum.splits option.splits prod.splits if_splits dest!: process_all_quiet)

lemma updateReadyCondition_quiet: "updateReadyCondition h c r p cond = (r', e) \<Longrightarrow> same (pr_cluster r) (pr_cluster r')"
  by (auto simp: updateReadyCondition_def Let_def same_refl intro: quiet split: prod.splits if_splits option.splits)

end

section \<open>Documented behaviour\<close>

abbreviation gone :: "error + 'o \<Rightarrow> bool" where
  "gone r \<equiv> (\<exists>e. r = Inl e \<and> is_not_found e)"

text \<open>\<open>CreateOrUpdate\<close> and \<open>CreateOrPatch\<close> touch one object. Whether they report success or an error, that object either is as
  before or is the result of the mutation, up to the fields that the server sets.\<close>

definition writes_one ::
    "('w \<Rightarrow> NamespacedName \<Rightarrow> error + 'o) \<Rightarrow> ('w \<Rightarrow> 'o \<Rightarrow> ('o \<Rightarrow> error + 'o) \<Rightarrow> 'w \<times> (error + 'o)) \<Rightarrow>
     ('o \<Rightarrow> ObjectMeta) \<Rightarrow> ('o \<Rightarrow> 's) \<Rightarrow> bool" where
  "writes_one get cu meta spec \<longleftrightarrow>
     (\<forall>w x f w' r. cu w x f = (w', r) \<longrightarrow>
        (\<forall>k. k \<noteq> meta_key (meta x) \<longrightarrow> get w' k = get w k) \<and>
        (get w' (meta_key (meta x)) = get w (meta_key (meta x)) \<or>
         (\<exists>base m y. (get w (meta_key (meta x)) = Inr base \<or> gone (get w (meta_key (meta x))) \<and> base = x) \<and> f base = Inr m \<and>
            get w' (meta_key (meta x)) = Inr y \<and> user_meta (meta y) = user_meta (meta m) \<and> spec y = spec m)))"

text \<open>Deleting an object without finalizers removes it or does nothing, and touches no other.\<close>

definition deletes_one ::
    "('w \<Rightarrow> NamespacedName \<Rightarrow> error + 'o) \<Rightarrow> ('w \<Rightarrow> 'o \<Rightarrow> 'w \<times> error option) \<Rightarrow> ('o \<Rightarrow> ObjectMeta) \<Rightarrow> bool" where
  "deletes_one get del meta \<longleftrightarrow>
     (\<forall>w x w' r. del w x = (w', r) \<longrightarrow>
        (\<forall>k. k \<noteq> meta_key (meta x) \<longrightarrow> get w' k = get w k) \<and>
        (get w' (meta_key (meta x)) = get w (meta_key (meta x)) \<or> gone (get w' (meta_key (meta x)))))"

definition same_plane :: "'w client \<Rightarrow> 'w \<Rightarrow> 'w \<Rightarrow> bool" where
  "same_plane c w w' \<longleftrightarrow> getNP c w' = getNP c w \<and> getAP c w' = getAP c w"

text \<open>The laws of a client with current reads.\<close>

definition data_plane_ok :: "'w client \<Rightarrow> bool" where
  "data_plane_ok c \<longleftrightarrow>
     quiet_client c (same_plane c) \<and>
     writes_one (getNP c) (createOrUpdateNP c) np_Meta np_Spec \<and> deletes_one (getNP c) (deleteNP c) np_Meta \<and>
     writes_one (getAP c) (createOrPatchAP c) ap_Meta ap_Spec \<and>
     (\<forall>w x f w' r. createOrUpdateNP c w x f = (w', r) \<longrightarrow> getAP c w' = getAP c w) \<and>
     (\<forall>w x w' r. deleteNP c w x = (w', r) \<longrightarrow> getAP c w' = getAP c w) \<and>
     (\<forall>w x f w' r. createOrPatchAP c w x f = (w', r) \<longrightarrow> getNP c w' = getNP c w) \<and>
     (\<forall>w k np. getNP c w k = Inr np \<longrightarrow> meta_key (np_Meta np) = k) \<and>
     (\<forall>w k ap. getAP c w k = Inr ap \<longrightarrow> meta_key (ap_Meta ap) = k)"

section \<open>What a run can explain\<close>

text \<open>Every object of a kind is as before, or it was absent or owned by one of the policies read under its name, and
  now is absent or what one of them renders to.\<close>

definition explained ::
    "(WorkloadNetworkPolicy \<Rightarrow> 'o \<Rightarrow> bool) \<Rightarrow> (WorkloadNetworkPolicy \<Rightarrow> 'o \<Rightarrow> bool) \<Rightarrow> WorkloadNetworkPolicy list \<Rightarrow>
     (NamespacedName \<Rightarrow> error + 'o) \<Rightarrow> (NamespacedName \<Rightarrow> error + 'o) \<Rightarrow> bool" where
  "explained owned rendered ps get get' \<longleftrightarrow>
     (\<forall>k. get' k = get k \<or>
        (gone (get k) \<or> (\<exists>p \<in> set ps. \<exists>x. meta_key (wnp_Meta p) = k \<and> get k = Inr x \<and> owned p x)) \<and>
        (gone (get' k) \<or> (\<exists>p \<in> set ps. \<exists>x. meta_key (wnp_Meta p) = k \<and> get' k = Inr x \<and> rendered p x)))"

lemma explained_refl: "explained owned rendered ps get get"
  by (simp add: explained_def)

lemma explained_trans:
  assumes "explained owned rendered ps f g" and "explained owned rendered qs g i"
  shows "explained owned rendered (ps @ qs) f i"
  unfolding explained_def
proof
  fix k
  consider "i k = g k" | "i k \<noteq> g k" "g k = f k" | "i k \<noteq> g k" "g k \<noteq> f k" by blast
  then show "i k = f k \<or>
      (gone (f k) \<or> (\<exists>p \<in> set (ps @ qs). \<exists>x. meta_key (wnp_Meta p) = k \<and> f k = Inr x \<and> owned p x)) \<and>
      (gone (i k) \<or> (\<exists>p \<in> set (ps @ qs). \<exists>x. meta_key (wnp_Meta p) = k \<and> i k = Inr x \<and> rendered p x))"
  proof cases
    case 1
    with spec [OF assms(1) [unfolded explained_def], of k] show ?thesis by auto
  next
    case 2
    with spec [OF assms(2) [unfolded explained_def], of k] show ?thesis by auto
  next
    case 3
    with spec [OF assms(1) [unfolded explained_def], of k] spec [OF assms(2) [unfolded explained_def], of k] show ?thesis by auto
  qed
qed

lemma explained_foreign:
  assumes "explained owned rendered ps get get'" and "get k = Inr x" and "\<And>p. p \<in> set ps \<Longrightarrow> meta_key (wnp_Meta p) = k \<Longrightarrow> \<not> owned p x"
  shows "get' k = Inr x"
  using spec [OF assms(1) [unfolded explained_def], of k] assms(2,3) by auto

lemma explained_new:
  assumes "explained owned rendered ps get get'" and "get' k = Inr x" and "get k \<noteq> Inr x"
  shows "\<exists>p \<in> set ps. meta_key (wnp_Meta p) = k \<and> rendered p x"
  using spec [OF assms(1) [unfolded explained_def], of k] assms(2,3) by auto

definition owned_by :: "helpers \<Rightarrow> ('o \<Rightarrow> ObjectMeta) \<Rightarrow> WorkloadNetworkPolicy \<Rightarrow> 'o \<Rightarrow> bool" where
  "owned_by h meta p x \<longleftrightarrow> isControlledBy h (om_OwnerReferences (meta x)) (om_UID (wnp_Meta p))"

definition rendered_np :: "helpers \<Rightarrow> WorkloadNetworkPolicy \<Rightarrow> NetworkPolicy \<Rightarrow> bool" where
  "rendered_np h p np \<longleftrightarrow>
     wnp_Mode p \<noteq> WorkloadNetworkPolicyModeMonitor \<and> Kubernetes (wnp_Backend p) = Some (np_Spec np) \<and>
     map_of (om_Labels (np_Meta np)) ManagedByLabelKey = Some ManagedByLabelValue \<and> owned_by h np_Meta p np"

definition rendered_ap :: "helpers \<Rightarrow> WorkloadNetworkPolicy \<Rightarrow> AuthorizationPolicy \<Rightarrow> bool" where
  "rendered_ap h p ap \<longleftrightarrow>
     (\<exists>spec. Istio (wnp_Backend p) = Some spec \<and> ap_Spec ap = populateIstioAuthorizationPolicySpec spec) \<and>
     map_of (om_Labels (ap_Meta ap)) ManagedByLabelKey = Some ManagedByLabelValue \<and>
     (map_of (om_Annotations (ap_Meta ap)) istioDryRunAnnotationKey = Some ''true'' \<longleftrightarrow> wnp_Mode p = WorkloadNetworkPolicyModeMonitor) \<and>
     owned_by h ap_Meta p ap"

lemma upsert_explained:
  assumes "writes_one get cu meta spec" and "cu w x f = (w', r)" and "meta_key (meta x) = meta_key (wnp_Meta p)"
    and "gone (get w (meta_key (wnp_Meta p))) \<or> (\<exists>y. get w (meta_key (wnp_Meta p)) = Inr y \<and> owned p y)"
    and "\<And>base m y. f base = Inr m \<Longrightarrow> user_meta (meta y) = user_meta (meta m) \<Longrightarrow> spec y = spec m \<Longrightarrow> rendered p y"
  shows "explained owned rendered [p] (get w) (get w')"
proof -
  let ?k = "meta_key (wnp_Meta p)"
  from assms(1-3) have "k \<noteq> ?k \<Longrightarrow> get w' k = get w k" for k unfolding writes_one_def by metis
  moreover have "get w' ?k = get w ?k \<or> (\<exists>y. get w' ?k = Inr y \<and> rendered p y)"
    using assms(1-3,5) unfolding writes_one_def by metis
  ultimately show ?thesis using assms(4) unfolding explained_def by (metis list.set_intros(1))
qed

lemma delete_explained:
  assumes "deletes_one get del meta" and "del w x = (w', r)" and "meta_key (meta x) = meta_key (wnp_Meta p)"
    and "get w (meta_key (wnp_Meta p)) = Inr y" and "owned p y"
  shows "explained owned rendered [p] (get w) (get w')"
proof -
  let ?k = "meta_key (wnp_Meta p)"
  from assms(1-3) have "k \<noteq> ?k \<Longrightarrow> get w' k = get w k" for k unfolding deletes_one_def by metis
  moreover have "get w' ?k = get w ?k \<or> gone (get w' ?k)" using assms(1-3) unfolding deletes_one_def by metis
  ultimately show ?thesis using assms(4,5) unfolding explained_def by (metis list.set_intros(1))
qed

lemma reconcileK8sPolicy_explained:
  assumes "data_plane_ok c" and "owner_helpers_ok h" and "reconcileK8sPolicy h c w p = Some (w', e)"
  shows "explained (owned_by h np_Meta) (rendered_np h) [p] (getNP c w) (getNP c w') \<and> getAP c w' = getAP c w"
proof -
  let ?k = "meta_key (wnp_Meta p)"
  have laws: "writes_one (getNP c) (createOrUpdateNP c) np_Meta np_Spec" "deletes_one (getNP c) (deleteNP c) np_Meta"
    and other: "\<And>w x f w' r. createOrUpdateNP c w x f = (w', r) \<Longrightarrow> getAP c w' = getAP c w"
      "\<And>w x w' r. deleteNP c w x = (w', r) \<Longrightarrow> getAP c w' = getAP c w"
    and key: "\<And>w k np. getNP c w k = Inr np \<Longrightarrow> meta_key (np_Meta np) = k"
    using assms(1) unfolding data_plane_ok_def by blast+
  have protect: "explained (owned_by h np_Meta) (rendered_np h) [p] (getNP c w) (getNP c w') \<and> getAP c w' = getAP c w"
    if "reconcileProtect h c w p np = Some (w', e)" "meta_key (np_Meta np) = ?k" "wnp_Mode p \<noteq> WorkloadNetworkPolicyModeMonitor"
      "gone (getNP c w ?k) \<or> (\<exists>y. getNP c w ?k = Inr y \<and> owned_by h np_Meta p y)" for np
  proof -
    from that(1) obtain spec r where cu: "Kubernetes (wnp_Backend p) = Some spec"
      "createOrUpdateNP c w np (mutateNetworkPolicy h p spec) = (w', r)"
      by (auto simp: reconcileProtect_def split: option.splits prod.splits sum.splits)
    have "rendered_np h p y" if "mutateNetworkPolicy h p spec base = Inr m" "user_meta (np_Meta y) = user_meta (np_Meta m)" "np_Spec y = np_Spec m"
      for base m y
      using mutateNetworkPolicy_ok [OF assms(2) that(1)] user_meta_eqD(3,5) [OF that(2)] that(3) cu(1) \<open>wnp_Mode p \<noteq> _\<close>
      by (simp add: rendered_np_def owned_by_def)
    with upsert_explained [where owned = "owned_by h np_Meta" and rendered = "rendered_np h", OF laws(1) cu(2) that(2,4)] other(1) [OF cu(2)]
    show ?thesis by blast
  qed
  show ?thesis
  proof (cases "getNP c w ?k")
    case (Inl err)
    have "meta_key (meta_named (wnp_Namespace p) (wnp_Name p)) = ?k" by (simp add: meta_key_def)
    with Inl assms(3) protect show ?thesis
      by (auto simp: reconcileK8sPolicy_def wnp_NamespacedName_def Let_def explained_refl split: if_splits)
  next
    case (Inr np)
    with key have k: "meta_key (np_Meta np) = ?k" by blast
    show ?thesis
    proof (cases "owned_by h np_Meta p np")
      case False
      with Inr assms(3) show ?thesis by (auto simp: reconcileK8sPolicy_def wnp_NamespacedName_def owned_by_def Let_def explained_refl)
    next
      case True
      with Inr assms(3) k protect delete_explained [OF laws(2) _ k Inr, of w' e "owned_by h np_Meta" "rendered_np h"] other(2) show ?thesis
        by (auto simp: reconcileK8sPolicy_def wnp_NamespacedName_def owned_by_def Let_def split: if_splits)
    qed
  qed
qed

lemma reconcileIstioPolicy_explained:
  assumes "data_plane_ok c" and "owner_helpers_ok h" and "reconcileIstioPolicy h c w p = Some (w', e)"
  shows "explained (owned_by h ap_Meta) (rendered_ap h) [p] (getAP c w) (getAP c w') \<and> getNP c w' = getNP c w"
proof -
  let ?k = "meta_key (wnp_Meta p)"
  have law: "writes_one (getAP c) (createOrPatchAP c) ap_Meta ap_Spec"
    and other: "\<And>w x f w' r. createOrPatchAP c w x f = (w', r) \<Longrightarrow> getNP c w' = getNP c w"
    and key: "\<And>w k ap. getAP c w k = Inr ap \<Longrightarrow> meta_key (ap_Meta ap) = k"
    using assms(1) unfolding data_plane_ok_def by blast+
  have render: "explained (owned_by h ap_Meta) (rendered_ap h) [p] (getAP c w) (getAP c w') \<and> getNP c w' = getNP c w"
    if spec: "Istio (wnp_Backend p) = Some spec" and cu: "createOrPatchAP c w ap (mutateAuthorizationPolicy h p spec) = (w', r)"
      and "meta_key (ap_Meta ap) = ?k" "gone (getAP c w ?k) \<or> (\<exists>y. getAP c w ?k = Inr y \<and> owned_by h ap_Meta p y)" for ap spec r
  proof -
    have "rendered_ap h p y"
      if "mutateAuthorizationPolicy h p spec base = Inr m" "user_meta (ap_Meta y) = user_meta (ap_Meta m)" "ap_Spec y = ap_Spec m" for base m y
      using mutateAuthorizationPolicy_ok [OF assms(2) that(1)] user_meta_eqD(3-5) [OF that(2)] that(3) spec
      by (simp add: rendered_ap_def owned_by_def)
    with upsert_explained [where owned = "owned_by h ap_Meta" and rendered = "rendered_ap h", OF law cu that(3,4)] other [OF cu]
    show ?thesis by blast
  qed
  show ?thesis
  proof (cases "getAP c w ?k")
    case (Inl err)
    have "meta_key (ap_Meta (empty_ap (wnp_Namespace p) (wnp_Name p))) = ?k" by (simp add: empty_ap_def meta_key_def)
    with Inl assms(3) render show ?thesis
      by (auto simp: reconcileIstioPolicy_def wnp_NamespacedName_def Let_def explained_refl split: if_splits option.splits prod.splits sum.splits)
  next
    case (Inr ap)
    with key have "meta_key (ap_Meta ap) = ?k" by blast
    with Inr assms(3) render show ?thesis
      by (auto simp: reconcileIstioPolicy_def wnp_NamespacedName_def owned_by_def Let_def explained_refl
          split: if_splits option.splits prod.splits sum.splits)
  qed
qed

text \<open>What both kinds of objects look like after a run.\<close>

definition plane_explained :: "helpers \<Rightarrow> 'w client \<Rightarrow> WorkloadNetworkPolicy list \<Rightarrow> 'w \<Rightarrow> 'w \<Rightarrow> bool" where
  "plane_explained h c ps w w' \<longleftrightarrow>
     explained (owned_by h np_Meta) (rendered_np h) ps (getNP c w) (getNP c w') \<and>
     explained (owned_by h ap_Meta) (rendered_ap h) ps (getAP c w) (getAP c w')"

lemma plane_explained_trans:
  "plane_explained h c ps u v \<Longrightarrow> plane_explained h c qs v w \<Longrightarrow> plane_explained h c (ps @ qs) u w"
  by (auto simp: plane_explained_def intro: explained_trans)

lemma same_plane_explained: "same_plane c w w' \<Longrightarrow> plane_explained h c ps w w'"
  by (simp add: plane_explained_def same_plane_def explained_refl)

lemma policy_explained:
  assumes "data_plane_ok c" and "owner_helpers_ok h" and "policy_Reconcile h c r req = Some (r', e)"
  shows "plane_explained h c (read_policy c (pr_cluster r) req) (pr_cluster r) (pr_cluster r')"
proof (cases "getWNP c (pr_cluster r) req")
  case (Inl err)
  with assms(3) show ?thesis by (simp add: policy_Reconcile_def plane_explained_def explained_refl)
next
  case (Inr p)
  have rec: "plane_explained h c [p] w w1" if "reconcilePolicy h c w p = Some (w1, cond, err)" for w w1 cond err
    using that reconcileK8sPolicy_explained [OF assms(1,2), of w p w1] reconcileIstioPolicy_explained [OF assms(1,2), of w p w1]
    by (auto simp: reconcilePolicy_def plane_explained_def explained_refl split: sum.splits if_splits option.splits)
  have upd: "plane_explained h c [] (pr_cluster r1) (pr_cluster r2)" if "updateReadyCondition h c r1 p cond = (r2, err)" for r1 r2 cond err
    using quiet_client.updateReadyCondition_quiet [OF _ that, of "same_plane c"] assms(1)
    by (auto simp: data_plane_ok_def intro: same_plane_explained)
  have upd': "plane_explained h c [p] (pr_cluster r1) (pr_cluster r2)" if "updateReadyCondition h c r1 p cond = (r2, err)" for r1 r2 cond err
    using plane_explained_trans [OF same_plane_explained [of c "pr_cluster r1" "pr_cluster r1" h "[p]"] upd [OF that]]
    by (simp add: same_plane_def)
  have both: "plane_explained h c [p] w (pr_cluster r2)"
    if "plane_explained h c [p] w w1" "updateReadyCondition h c (r1\<lparr>pr_cluster := w1\<rparr>) p cond = (r2, err)" for w w1 r1 r2 cond err
    using plane_explained_trans [OF that(1) upd [OF that(2), simplified]] by simp
  from Inr assms(3) show ?thesis
    by (auto simp: policy_Reconcile_def read_policy_def Let_def plane_explained_def [symmetric] same_plane_explained same_plane_def
        split: sum.splits if_splits option.splits prod.splits intro: upd' rec both [OF rec])
qed

section \<open>Properties\<close>

text \<open>C6. The data plane is explained. Whatever the four controllers do on a cluster, in any order and however their
  requests fail, every NetworkPolicy and every AuthorizationPolicy either is as it was, or it was absent
  or controlled by a policy of its name that the policy controller read, and then it is absent or carries
  exactly the specification of such a policy: its rules, never in monitor mode for a NetworkPolicy, as a dry
  run exactly in monitor mode for an AuthorizationPolicy. In particular an object that none of these policies controls is
  never touched.\<close>

theorem data_plane_explained:
  assumes "data_plane_ok c" and "owner_helpers_ok h" and "ctl_run h c w ps w'"
  shows "explained (owned_by h np_Meta) (rendered_np h) ps (getNP c w) (getNP c w') \<and>
    explained (owned_by h ap_Meta) (rendered_ap h) ps (getAP c w) (getAP c w') \<and>
    (\<forall>k np. getNP c w k = Inr np \<and> (\<forall>p \<in> set ps. \<not> owned_by h np_Meta p np) \<longrightarrow> getNP c w' k = Inr np) \<and>
    (\<forall>k ap. getAP c w k = Inr ap \<and> (\<forall>p \<in> set ps. \<not> owned_by h ap_Meta p ap) \<longrightarrow> getAP c w' k = Inr ap)"
proof -
  have quiet: "quiet_client c (same_plane c)" using assms(1) by (simp add: data_plane_ok_def)
  have step: "plane_explained h c ps w w2" if "plane_explained h c ps w w1" "same_plane c w1 w2" for ps w1 w2
    using plane_explained_trans [OF that(1) same_plane_explained [OF that(2), of h "[]"]] by simp
  from assms(3) have "plane_explained h c ps w w'"
  proof induction
    case idle
    show ?case by (simp add: plane_explained_def explained_refl)
  next
    case (policy ps r req r' e)
    from plane_explained_trans [OF policy.IH policy_explained [OF assms(1,2) policy.hyps(2)]] show ?case .
  qed (blast intro: step quiet_client.proposal_quiet [OF quiet] quiet_client.learning_quiet [OF quiet] quiet_client.sync_quiet [OF quiet])+
  then show ?thesis unfolding plane_explained_def by (auto intro: explained_foreign)
qed

text \<open>The cluster in memory keeps the laws.\<close>

lemma mem_find_put_other: "k \<noteq> meta_key (meta x) \<Longrightarrow> mem_find meta (mem_put meta (meta_key (meta x)) xs x) k = mem_find meta xs k"
  by (induction xs) (auto simp: mem_find_def)

lemma mem_find_del: "mem_find meta (mem_del meta xs k) k' = (if k' = k then mem_find meta [] k else mem_find meta xs k')"
  by (induction xs) (auto simp: mem_find_def mem_del_def)

lemma mem_find_Nil: "gone (mem_find meta [] k)"
  by (simp add: mem_find_def is_not_found_def)

lemma mem_upsert_one:
  assumes "\<And>xs w. sel (upd xs w) = xs"
  shows "writes_one (\<lambda>w. mem_find meta (sel w)) (mem_upsert meta sel upd) meta spec"
  unfolding writes_one_def
proof (intro allI impI)
  fix w x f w' r
  assume u: "mem_upsert meta sel upd w x f = (w', r)"
  let ?k = "meta_key (meta x)"
  let ?base = "case mem_find meta (sel w) ?k of Inl _ \<Rightarrow> x | Inr y \<Rightarrow> y"
  have b: "mem_find meta (sel w) ?k = Inr ?base \<or> gone (mem_find meta (sel w) ?k) \<and> ?base = x"
    by (cases "mem_find meta (sel w) ?k") (auto dest: mem_find_Inl)
  consider "w' = w" | y where "f ?base = Inr y" "meta_key (meta y) = ?k" "w' = upd (mem_put meta ?k (sel w) y) w"
    using u by (auto simp: mem_upsert_def Let_def split: sum.splits if_splits)
  then show "(\<forall>k. k \<noteq> ?k \<longrightarrow> mem_find meta (sel w') k = mem_find meta (sel w) k) \<and>
      (mem_find meta (sel w') ?k = mem_find meta (sel w) ?k \<or>
       (\<exists>base m y. (mem_find meta (sel w) ?k = Inr base \<or> gone (mem_find meta (sel w) ?k) \<and> base = x) \<and> f base = Inr m \<and>
          mem_find meta (sel w') ?k = Inr y \<and> user_meta (meta y) = user_meta (meta m) \<and> spec y = spec m))"
  proof cases
    case 1
    then show ?thesis by simp
  next
    case (2 y)
    then have "mem_find meta (sel w') ?k = Inr y" by (simp add: assms mem_find_put)
    moreover have "k \<noteq> ?k \<Longrightarrow> mem_find meta (sel w') k = mem_find meta (sel w) k" for k
      using mem_find_put_other [of k meta y "sel w"] 2 by (simp add: assms)
    ultimately show ?thesis using b 2(1) by blast
  qed
qed

interpretation mem_quiet: quiet_client "mem_client idx" "same_plane (mem_client idx)"
  by unfold_locales (auto simp: same_plane_def mem_client_def mem_upsert_def Let_def split: sum.splits if_splits)

lemma mem_data_plane_ok: "data_plane_ok (mem_client idx)"
  unfolding data_plane_ok_def
proof (intro conjI)
  show "quiet_client (mem_client idx) (same_plane (mem_client idx))" ..
  show "writes_one (getNP (mem_client idx)) (createOrUpdateNP (mem_client idx)) np_Meta np_Spec"
    "writes_one (getAP (mem_client idx)) (createOrPatchAP (mem_client idx)) ap_Meta ap_Spec"
    by (simp_all add: mem_client_def mem_upsert_one)
  show "deletes_one (getNP (mem_client idx)) (deleteNP (mem_client idx)) np_Meta"
    by (auto simp: deletes_one_def mem_client_def mem_find_del split: sum.splits intro: mem_find_Nil)
qed (auto simp: mem_client_def mem_upsert_def Let_def dest: mem_find_key split: sum.splits if_splits)

text \<open>A policy in protect mode is reconciled.\<close>

theorem data_plane_explained_witness:
  "\<exists>r' e np. policy_Reconcile mem_helpers (mem_client sample_index)
       \<lparr>pr_cluster = empty_store\<lparr>st_wnps := [sample_target_wnp]\<rparr>, pr_selectorOverlaps = None, pr_duplicateTargets = None\<rparr>
       \<lparr>nn_Namespace = ''back'', nn_Name = ''p''\<rparr> = Some (r', e) \<and>
     getNP (mem_client sample_index) (pr_cluster r') \<lparr>nn_Namespace = ''back'', nn_Name = ''p''\<rparr> = Inr np \<and>
     rendered_np mem_helpers sample_target_wnp np"
proof -
  let ?c = "mem_client sample_index"
  let ?k = "\<lparr>nn_Namespace = ''back'', nn_Name = ''p''\<rparr>"
  let ?r = "\<lparr>pr_cluster = empty_store\<lparr>st_wnps := [sample_target_wnp]\<rparr>, pr_selectorOverlaps = None, pr_duplicateTargets = None\<rparr>"
  have "map_option (\<lambda>(r', e). isl (getNP ?c (pr_cluster r') ?k)) (policy_Reconcile mem_helpers ?c ?r ?k) = Some False"
    by code_simp
  then obtain r' e np where r': "policy_Reconcile mem_helpers ?c ?r ?k = Some (r', e)" "getNP ?c (pr_cluster r') ?k = Inr np"
    by (auto simp: isl_def split: prod.splits) (metis sum.exhaust)
  have run: "ctl_run mem_helpers ?c (pr_cluster ?r) [sample_target_wnp] (pr_cluster r')"
    using ctl_run.policy [OF ctl_run.idle r'(1)] by (simp add: read_policy_def mem_client_def mem_find_def sample_target_wnp_def meta_key_def)
  have "getNP ?c (pr_cluster ?r) ?k \<noteq> Inr np" by (simp add: mem_client_def mem_find_def empty_store_def)
  moreover have ex: "explained (owned_by mem_helpers np_Meta) (rendered_np mem_helpers) [sample_target_wnp] (getNP ?c (pr_cluster ?r)) (getNP ?c (pr_cluster r'))"
    using data_plane_explained [OF mem_data_plane_ok mem_helpers_owner run] by blast
  ultimately have "rendered_np mem_helpers sample_target_wnp np"
    using explained_new [OF ex r'(2)] by simp
  with r' show ?thesis by blast
qed

end
