(* ===== verification/Provenance.thy ===== *)
theory Provenance
  imports Controllers
begin

text \<open>
  Where permissions come from. A run of all controllers, with the flows that are observed and the writes of users and other clients in
  between, keeps a record of what came from outside; the permissions of every object of the data plane at the end are traced back to it
  or to the objects at the start.

  The controllers read from a cache that lags behind the API server. The cluster therefore may hold several versions of an object under
  one name, and \<open>holdings\<close> says which: those of the API server and those that a read can still return. The locale \<open>store_client\<close> has the
  laws of the client in these terms: a read returns something held, and a write adds at most what it is given. \<open>backend_invariant\<close> is a
  predicate on the payloads that learning preserves; it follows that every step of every controller keeps it.
\<close>

section \<open>Model\<close>

text \<open>What a cluster holds under a name: the payloads of proposals and policies, the specifications of NetworkPolicies, the
  rules of AuthorizationPolicies.\<close>

record 'w holdings =
  ho_payload :: "'w \<Rightarrow> NamespacedName \<Rightarrow> PolicyBackendSpec \<Rightarrow> bool"
  ho_np :: "'w \<Rightarrow> NamespacedName \<Rightarrow> NetworkPolicySpec \<Rightarrow> bool"
  ho_ap :: "'w \<Rightarrow> NamespacedName \<Rightarrow> APRule list \<Rightarrow> bool"

text \<open>From \<open>w\<close> to \<open>w'\<close> at most the given payloads, specifications and rules are added.\<close>

type_synonym 'o under_name = "NamespacedName \<Rightarrow> 'o \<Rightarrow> bool"

abbreviation nothing :: "'o under_name" where
  "nothing \<equiv> \<lambda>_ _. False"

definition adds :: "'w holdings \<Rightarrow> 'w \<Rightarrow> 'w \<Rightarrow> PolicyBackendSpec under_name \<Rightarrow> NetworkPolicySpec under_name \<Rightarrow> APRule list under_name \<Rightarrow> bool" where
  "adds v w w' B N A \<longleftrightarrow>
     (\<forall>k b. ho_payload v w' k b \<longrightarrow> ho_payload v w k b \<or> B k b) \<and>
     (\<forall>k s. ho_np v w' k s \<longrightarrow> ho_np v w k s \<or> N k s) \<and>
     (\<forall>k rs. ho_ap v w' k rs \<longrightarrow> ho_ap v w k rs \<or> A k rs)"

text \<open>What happens outside the controllers: a flow is observed; a user, or any other client of the API, gives a proposal or policy
  another payload, places an object of the data plane, or changes something else (labels, annotations, the mode, a
  workload); the caches catch up. Objects may disappear with each of them.\<close>

datatype action =
    Observed LearningEvent
  | Edited NamespacedName PolicyBackendSpec
  | PlacedNP NamespacedName NetworkPolicySpec
  | PlacedAP NamespacedName "APRule list"
  | Touched

definition wrote :: "'w holdings \<Rightarrow> action \<Rightarrow> 'w \<Rightarrow> 'w \<Rightarrow> bool" where
  "wrote v act w w' \<longleftrightarrow>
     (\<forall>ev. act \<noteq> Observed ev) \<and>
     adds v w w' (\<lambda>k b. act = Edited k b) (\<lambda>k s. act = PlacedNP k s) (\<lambda>k rs. act = PlacedAP k rs)"

text \<open>\<open>learn_run h c v w tr w'\<close>: a run of the controllers from \<open>w\<close> to \<open>w'\<close>, with the actions \<open>tr\<close> of the outside. Go visits the entries of a map
  in any order.\<close>

inductive learn_run :: "helpers \<Rightarrow> 'w client \<Rightarrow> 'w holdings \<Rightarrow> 'w \<Rightarrow> action list \<Rightarrow> 'w \<Rightarrow> bool" for h c v w where
  idle: "learn_run h c v w [] w"
| policy: "learn_run h c v w tr (pr_cluster r) \<Longrightarrow> policy_Reconcile h c r req = Some (r', e) \<Longrightarrow> learn_run h c v w tr (pr_cluster r')"
| proposal: "learn_run h c v w tr w1 \<Longrightarrow> proposal_Reconcile h c w1 req = (w2, e) \<Longrightarrow> learn_run h c v w tr w2"
| learn: "learn_run h c v w tr (lr_cluster l) \<Longrightarrow> learning_Reconcile h c now l ev = Some (l', e) \<Longrightarrow>
    learn_run h c v w (tr @ [Observed ev]) (lr_cluster l')"
| sync: "learn_run h c v w tr (ss_cluster s) \<Longrightarrow> StatusSync.sync h c rfc3339 visit now s = Some (s', e) \<Longrightarrow>
    (\<forall>m. set (visit m) \<subseteq> set m) \<Longrightarrow> learn_run h c v w tr (ss_cluster s')"
| user: "learn_run h c v w tr w1 \<Longrightarrow> wrote v act w1 w2 \<Longrightarrow> learn_run h c v w (tr @ [act]) w2"

section \<open>Laws of the client\<close>

text \<open>A read returns an object of the name that was asked for, and its content is held. A merge patch with equal specifications in the
  new object and the base does not carry the specification; what is held afterwards was held before or is the one in both; the controllers send no others. The answer to a patch is an object that is held. The
  mutation of \<open>CreateOrUpdate\<close> and \<open>CreateOrPatch\<close> works on what was read or on the object passed in. A merge patch
  replaces the list of rules as a whole or leaves it.\<close>

locale store_client =
  fixes c :: "'w client" and v :: "'w holdings"
  assumes wnpp_read: "getWNPP c w k = Inr p \<Longrightarrow> meta_key (wnpp_Meta p) = k \<and> ho_payload v w k (pspec_Backend (wnpp_Spec p))"
    and wnp_read: "getWNP c w k = Inr x \<Longrightarrow> meta_key (wnp_Meta x) = k \<and> ho_payload v w k (wnp_Backend x)"
    and wnp_listed: "listWNP c w None = Inr items \<Longrightarrow> x \<in> set items \<Longrightarrow> ho_payload v w (meta_key (wnp_Meta x)) (wnp_Backend x)"
    and np_read: "getNP c w k = Inr np \<Longrightarrow> meta_key (np_Meta np) = k \<and> ho_np v w k (np_Spec np)"
    and ap_read: "getAP c w k = Inr ap \<Longrightarrow> meta_key (ap_Meta ap) = k \<and> ho_ap v w k (aps_Rules (ap_Spec ap))"
    and wnpp_patch: "patchWNPP c w p q = (w', a) \<Longrightarrow>
        adds v w w' (\<lambda>k b. wnpp_Spec p = wnpp_Spec q \<longrightarrow> k = meta_key (wnpp_Meta p) \<and> b = pspec_Backend (wnpp_Spec p)) nothing nothing"
    and wnpp_answer: "patchWNPP c w p q = (w', Inr p') \<Longrightarrow>
        meta_key (wnpp_Meta p') = meta_key (wnpp_Meta p) \<and> ho_payload v w' (meta_key (wnpp_Meta p)) (pspec_Backend (wnpp_Spec p'))"
    and wnp_patch: "patchWNP c w x z = (w', e) \<Longrightarrow>
        adds v w w' (\<lambda>k b. wnp_Spec x = wnp_Spec z \<longrightarrow> k = meta_key (wnp_Meta x) \<and> b = wnp_Backend x) nothing nothing"
    and wnp_status: "patchWNPStatus c w x z = (w', e) \<Longrightarrow>
        adds v w w' (\<lambda>k b. wnp_Spec x = wnp_Spec z \<longrightarrow> k = meta_key (wnp_Meta x) \<and> b = wnp_Backend x) nothing nothing"
    and wnpp_upsert: "createOrUpdateWNPP c w p f = (w', r) \<Longrightarrow>
        adds v w w' (\<lambda>k b. k = meta_key (wnpp_Meta p) \<and>
          (\<exists>base m. (base = p \<or> ho_payload v w k (pspec_Backend (wnpp_Spec base))) \<and> f base = Inr m \<and> b = pspec_Backend (wnpp_Spec m)))
          nothing nothing"
    and wnpp_delete: "deleteWNPP c w p = (w', e) \<Longrightarrow> adds v w w' nothing nothing nothing"
    and wnp_create: "createWNP c w x = (w', e) \<Longrightarrow>
        adds v w w' (\<lambda>k b. k = meta_key (wnp_Meta x) \<and> b = wnp_Backend x) nothing nothing"
    and np_upsert: "createOrUpdateNP c w np g = (w', s) \<Longrightarrow>
        adds v w w' nothing (\<lambda>k y. k = meta_key (np_Meta np) \<and> (\<exists>base m. g base = Inr m \<and> y = np_Spec m)) nothing"
    and np_delete: "deleteNP c w np = (w', e) \<Longrightarrow> adds v w w' nothing nothing nothing"
    and ap_upsert: "createOrPatchAP c w ap i = (w', t) \<Longrightarrow>
        adds v w w' nothing nothing (\<lambda>k rs. k = meta_key (ap_Meta ap) \<and> (\<exists>base m. i base = Inr m \<and> rs = aps_Rules (ap_Spec m)))"

lemma update_entries: "set (AList.update k y al) \<subseteq> insert (k, y) (set al)"
  by (induction al) auto

lemma index_wnps_entries: "set (index_wnps items) \<subseteq> (\<lambda>p. (meta_key (wnp_Meta p), p)) ` set items"
proof (induction items rule: rev_induct)
  case (snoc p items)
  then show ?case unfolding index_wnps_snoc using update_entries [of "meta_key (wnp_Meta p)" p "index_wnps items"] by auto
qed (simp add: index_wnps_def)

section \<open>Predicates on the payload of the objects\<close>

text \<open>Every payload that is held satisfies \<open>Q\<close> for its name.\<close>

definition clean :: "'w holdings \<Rightarrow> PolicyBackendSpec under_name \<Rightarrow> 'w \<Rightarrow> bool" where
  "clean v Q w \<longleftrightarrow> (\<forall>k b. ho_payload v w k b \<longrightarrow> Q k b)"

lemma clean_adds: "clean v Q w \<Longrightarrow> adds v w w' B N A \<Longrightarrow> (\<And>k b. B k b \<Longrightarrow> Q k b) \<Longrightarrow> clean v Q w'"
  unfolding clean_def adds_def by blast

text \<open>Every write keeps such a predicate if what is written satisfies it.\<close>

locale stored_predicate = store_client +
  fixes Q :: "NamespacedName \<Rightarrow> PolicyBackendSpec \<Rightarrow> bool"
begin

lemma clean_wnpp_patch:
  assumes "clean v Q w" and "patchWNPP c w p q = (w', e)" and "wnpp_Spec p = wnpp_Spec q"
    and "Q (meta_key (wnpp_Meta p)) (pspec_Backend (wnpp_Spec p))"
  shows "clean v Q w'"
  using clean_adds [OF assms(1) wnpp_patch [OF assms(2)]] assms(3,4) by blast

lemma clean_wnp_patch:
  assumes "clean v Q w" and "patchWNP c w p q = (w', e) \<or> patchWNPStatus c w p q = (w', e)" and "wnp_Spec p = wnp_Spec q"
    and "Q (meta_key (wnp_Meta p)) (wnp_Backend p)"
  shows "clean v Q w'"
  using assms(2) clean_adds [OF assms(1) wnp_patch] clean_adds [OF assms(1) wnp_status] assms(3,4) by blast

lemma clean_wnpp_delete: "clean v Q w \<Longrightarrow> deleteWNPP c w p = (w', e) \<Longrightarrow> clean v Q w'"
  using clean_adds [OF _ wnpp_delete] by blast

lemma clean_wnp_create:
  "clean v Q w \<Longrightarrow> createWNP c w p = (w', e) \<Longrightarrow> Q (meta_key (wnp_Meta p)) (wnp_Backend p) \<Longrightarrow> clean v Q w'"
  using clean_adds [OF _ wnp_create] by blast

lemma clean_wnpp_upsert:
  assumes "clean v Q w" and "createOrUpdateWNPP c w x f = (w', r)"
    and "\<And>base m. base = x \<or> Q (meta_key (wnpp_Meta x)) (pspec_Backend (wnpp_Spec base)) \<Longrightarrow> f base = Inr m \<Longrightarrow>
      Q (meta_key (wnpp_Meta x)) (pspec_Backend (wnpp_Spec m))"
  shows "clean v Q w'"
proof (rule clean_adds [OF assms(1) wnpp_upsert [OF assms(2)]])
  fix k b
  assume "k = meta_key (wnpp_Meta x) \<and>
    (\<exists>base m. (base = x \<or> ho_payload v w k (pspec_Backend (wnpp_Spec base))) \<and> f base = Inr m \<and> b = pspec_Backend (wnpp_Spec m))"
  with assms(1,3) show "Q k b" unfolding clean_def by blast
qed

lemma clean_plane:
  assumes "clean v Q w"
  shows "createOrUpdateNP c w np f = (w', r) \<Longrightarrow> clean v Q w'" and "deleteNP c w np = (w', e) \<Longrightarrow> clean v Q w'"
    and "createOrPatchAP c w ap g = (w', s) \<Longrightarrow> clean v Q w'"
  using clean_adds [OF assms np_upsert] clean_adds [OF assms np_delete] clean_adds [OF assms ap_upsert] by blast+

text \<open>The proposal controller.\<close>

lemma clean_delete_ignoring: "clean v Q w \<Longrightarrow> delete_ignoring c w p = (w', e) \<Longrightarrow> clean v Q w'"
  by (auto simp: delete_ignoring_def split: prod.splits option.splits dest: clean_wnpp_delete)

lemma clean_reconcileOwnership:
  assumes "clean v Q w" and "Q (meta_key (wnpp_Meta p)) (pspec_Backend (wnpp_Spec p))" and "reconcileOwnership h c w p = (w', q, r)"
  shows "clean v Q w'"
proof -
  have patch: "clean v Q w1" if "patchWNPP c w (p\<lparr>wnpp_Meta := (wnpp_Meta p)\<lparr>om_OwnerReferences := refs\<rparr>\<rparr>) p = (w1, e)" for w1 e refs
    using clean_wnpp_patch [OF assms(1) that] assms(2) by (simp add: meta_key_def)
  from assms(1,3) show ?thesis
    by (auto simp: reconcileOwnership_def Let_def split: option.splits sum.splits if_splits prod.splits dest: clean_wnpp_delete patch)
qed

lemma promoted_policy_backend:
  "SetPromotedLabel (Some (promoted_policy q mode)) n = Inr policy \<Longrightarrow>
     wnp_Backend policy = pspec_Backend (wnpp_Spec q) \<and> meta_key (wnp_Meta policy) = meta_key (wnpp_Meta q)"
  by (auto simp: SetPromotedLabel_def promoted_policy_def meta_key_def split: if_splits)

lemma clean_proposal_Reconcile:
  assumes "clean v Q w" and "proposal_Reconcile h c w req = (w', e)"
  shows "clean v Q w'"
proof (cases "getWNPP c w req")
  case (Inl err)
  with assms show ?thesis by (simp add: proposal_Reconcile_def)
next
  case (Inr p)
  with assms(1) wnpp_read have q: "Q (meta_key (wnpp_Meta p)) (pspec_Backend (wnpp_Spec p))" by (fastforce simp: clean_def)
  obtain w1 p1 r where o: "reconcileOwnership h c w p = (w1, p1, r)" by (cases "reconcileOwnership h c w p")
  from clean_reconcileOwnership [OF assms(1) q o] have 1: "clean v Q w1" .
  from ownership_keeps_spec [OF o] have q1: "Q (meta_key (wnpp_Meta p1)) (pspec_Backend (wnpp_Spec p1))"
  proof (elim disjE conjE exE)
    fix refs
    assume "patchWNPP c w (p\<lparr>wnpp_Meta := (wnpp_Meta p)\<lparr>om_OwnerReferences := refs\<rparr>\<rparr>) p = (w1, Inr p1)"
    from wnpp_answer [OF this] 1 show ?thesis by (simp add: clean_def)
  qed (use q in simp)
  have create: "clean v Q w2" if "createWNP c w1 policy = (w2, e2)" "SetPromotedLabel (Some (promoted_policy p1 mode)) n = Inr policy"
    for w2 e2 policy mode n
    using clean_wnp_create [OF 1 that(1)] promoted_policy_backend [OF that(2)] q1 by simp
  show ?thesis
    using assms Inr o 1
    by (auto simp: proposal_Reconcile_def split: if_splits sum.splits bool.splits prod.splits option.splits
        dest: clean_delete_ignoring create intro: clean_delete_ignoring [OF create])
qed

text \<open>The policy controller.\<close>

lemma clean_updateReadyCondition:
  assumes "clean v Q (pr_cluster r)" and "Q (meta_key (wnp_Meta p)) (wnp_Backend p)" and "updateReadyCondition h c r p cond = (r', e)"
  shows "clean v Q (pr_cluster r')"
proof -
  have "clean v Q w1" if "patchWNPStatus c (pr_cluster r) (p\<lparr>wnp_Status := st\<rparr>) p = (w1, err)" for w1 err st
    using clean_wnp_patch [OF assms(1) disjI2 [OF that]] assms(2) by simp
  with assms(1,3) show ?thesis
    by (auto simp: updateReadyCondition_def Let_def split: prod.splits if_splits option.splits)
qed

lemma clean_reconcilePolicy: "clean v Q w \<Longrightarrow> reconcilePolicy h c w p = Some (w', cond, e) \<Longrightarrow> clean v Q w'"
  by (auto simp: reconcilePolicy_def reconcileK8sPolicy_def reconcileIstioPolicy_def reconcileProtect_def Let_def
      split: sum.splits if_splits option.splits prod.splits dest: clean_plane)

lemma clean_policy_Reconcile:
  assumes "clean v Q (pr_cluster r)" and "policy_Reconcile h c r req = Some (r', e)"
  shows "clean v Q (pr_cluster r')"
proof (cases "getWNP c (pr_cluster r) req")
  case (Inl err)
  with assms show ?thesis by (simp add: policy_Reconcile_def)
next
  case (Inr p)
  with assms(1) wnp_read have q: "Q (meta_key (wnp_Meta p)) (wnp_Backend p)" by (fastforce simp: clean_def)
  have both: "clean v Q (pr_cluster r2)" if "updateReadyCondition h c (r\<lparr>pr_cluster := w1\<rparr>) p cond = (r2, e2)"
      "reconcilePolicy h c (pr_cluster r) p = Some (w1, cond', e1)" for w1 r2 e2 cond cond' e1
    using clean_updateReadyCondition [OF _ q that(1)] clean_reconcilePolicy [OF assms(1) that(2)] by simp
  from assms Inr show ?thesis
    by (auto simp: policy_Reconcile_def Let_def split: sum.splits if_splits option.splits prod.splits
        dest: clean_updateReadyCondition [OF assms(1) q] clean_reconcilePolicy [OF assms(1)] intro: both)
qed

text \<open>The status synchronisation.\<close>

lemma recompute_keeps_spec:
  "RecomputeStatus fmt (Some p) vs now = Some (Some p', acks) \<Longrightarrow> wnp_Spec p' = wnp_Spec p \<and> meta_key (wnp_Meta p') = meta_key (wnp_Meta p)"
  by (auto simp: RecomputeStatus_def recompute_def clearAllowedViolations_def clearAllowedKubernetesViolations_def
      clearAllowedIstioViolations_def set_violations_def acknowledgeViolationsFromAnnotations_def meta_key_def Let_def
      split: if_splits option.splits prod.splits)

lemma clean_processWorkloadNetworkPolicy:
  assumes "clean v Q (ss_cluster s)" and "Q (meta_key (wnp_Meta p)) (wnp_Backend p)"
    and "processWorkloadNetworkPolicy h c f now s p vs = Some (s', e)"
  shows "clean v Q (ss_cluster s')"
proof -
  from assms(3) obtain p' acks where p': "RecomputeStatus (formatLabelSelector h) (Some p) vs now = Some (Some p', acks)"
    by (auto simp: processWorkloadNetworkPolicy_def split: option.splits)
  note k = recompute_keeps_spec [OF p']
  have step: "clean v Q w2" if "clean v Q w1" "patchWNP c w1 p' p = (w2, e2) \<or> patchWNPStatus c w1 p' p = (w2, e2)" for w1 w2 e2
    using clean_wnp_patch [OF that] assms(2) k by simp
  from assms(1,3) p' show ?thesis
    by (auto simp: processWorkloadNetworkPolicy_def Let_def split: prod.splits option.splits
        intro: step [OF assms(1) disjI2] step [OF step [OF assms(1) disjI2] disjI1])
qed

lemma clean_process_all:
  "clean v Q (ss_cluster s) \<Longrightarrow> \<forall>e \<in> set m. Q (meta_key (wnp_Meta (snd e))) (wnp_Backend (snd e)) \<Longrightarrow>
     process_all h c f now vb s m = Some s' \<Longrightarrow> clean v Q (ss_cluster s')"
proof (induction m arbitrary: s)
  case (Cons e m)
  obtain key p where e: "e = (key, p)" by (cases e)
  with Cons.prems obtain s1 err where s1: "processWorkloadNetworkPolicy h c f now s p (case map_of vb key of None \<Rightarrow> [] | Some vs \<Rightarrow> vs) = Some (s1, err)"
    "process_all h c f now vb s1 m = Some s'" by (auto split: option.splits)
  with clean_processWorkloadNetworkPolicy [OF Cons.prems(1) _ s1(1)] Cons e show ?case by simp
qed simp

lemma clean_sync:
  assumes "clean v Q (ss_cluster s)" and "StatusSync.sync h c f visit now s = Some (s', e)" and "\<forall>m. set (visit m) \<subseteq> set m"
  shows "clean v Q (ss_cluster s')"
proof -
  have all: "\<forall>e \<in> set (visit (index_wnps items)). Q (meta_key (wnp_Meta (snd e))) (wnp_Backend (snd e))"
    if "listWNP c (ss_cluster s) None = Inr items" for items
    using assms(1,3) index_wnps_entries [of items] wnp_listed [OF that] by (fastforce simp: clean_def)
  have pa: "clean v Q (ss_cluster s2)"
    if "process_all h c f now vb s1 (visit (index_wnps items)) = Some s2" "listWNP c (ss_cluster s) None = Inr items"
      "ss_cluster s1 = ss_cluster s" for s1 s2 vb items
    using clean_process_all [OF _ all [OF that(2)] that(1)] assms(1) that(3) by simp
  from assms(1,2) show ?thesis
    by (auto simp: sync_def Let_def split: sum.splits option.splits prod.splits if_splits intro: pa)
qed

end

section \<open>Learning\<close>

definition proposal_key :: "WorkloadRef \<Rightarrow> PolicyType \<Rightarrow> NamespacedName" where
  "proposal_key wk d = \<lparr>nn_Namespace = wr_Namespace wk, nn_Name = getProposalName wk d\<rparr>"

text \<open>An event of the Kubernetes backend is learned twice: for its source as egress, and for its destination as ingress.\<close>

definition learned_for :: "LearningEvent \<Rightarrow> WorkloadRef \<Rightarrow> WorkloadRef \<Rightarrow> PolicyType \<Rightarrow> bool" where
  "learned_for ev wk peer d \<longleftrightarrow>
     (le_Source ev = Some wk \<and> le_Dest ev = Some peer \<and> d = PolicyTypeEgress) \<or>
     (le_Dest ev = Some wk \<and> le_Source ev = Some peer \<and> d = PolicyTypeIngress)"

section \<open>The data plane\<close>

text \<open>Only the policy controller adds to the data plane, and only what the payload of a policy renders to.\<close>

definition plane_same :: "'w holdings \<Rightarrow> 'w \<Rightarrow> 'w \<Rightarrow> bool" where
  "plane_same v w w' \<longleftrightarrow> (\<forall>k s. ho_np v w' k s \<longrightarrow> ho_np v w k s) \<and> (\<forall>k rs. ho_ap v w' k rs \<longrightarrow> ho_ap v w k rs)"

lemma adds_plane: "adds v w w' B nothing nothing \<Longrightarrow> plane_same v w w'"
  by (simp add: adds_def plane_same_def)

definition from_payload :: "'w holdings \<Rightarrow> PolicyBackendSpec under_name \<Rightarrow> action list \<Rightarrow> 'w \<Rightarrow> 'w \<Rightarrow> bool" where
  "from_payload v Q tr w w' \<longleftrightarrow>
     (\<forall>k s. ho_np v w' k s \<longrightarrow> ho_np v w k s \<or> PlacedNP k s \<in> set tr \<or> (\<exists>b. Q k b \<and> Kubernetes b = Some s)) \<and>
     (\<forall>k rs. ho_ap v w' k rs \<longrightarrow> ho_ap v w k rs \<or> PlacedAP k rs \<in> set tr \<or>
        (\<exists>b spec. Q k b \<and> Istio b = Some spec \<and> rs = aps_Rules (populateIstioAuthorizationPolicySpec spec)))"

lemma from_payload_trans:
  assumes "from_payload v Q tr w1 w2" and "from_payload v Q tr' w2 w3"
  shows "from_payload v Q (tr @ tr') w1 w3"
  using assms unfolding from_payload_def set_append Un_iff by blast

lemma from_payload_same: "plane_same v w w' \<Longrightarrow> from_payload v Q tr w w'"
  by (simp add: from_payload_def plane_same_def)

lemma from_payload_wrote: "wrote v act w w' \<Longrightarrow> from_payload v Q [act] w w'"
  by (auto simp: from_payload_def wrote_def adds_def)

lemma mutateNetworkPolicy_spec: "mutateNetworkPolicy h p spec base = Inr m \<Longrightarrow> np_Spec m = spec"
  by (auto simp: mutateNetworkPolicy_def Let_def split: sum.splits)

lemma mutateAuthorizationPolicy_spec: "mutateAuthorizationPolicy h p spec base = Inr m \<Longrightarrow> ap_Spec m = populateIstioAuthorizationPolicySpec spec"
  by (auto simp: mutateAuthorizationPolicy_def Let_def split: sum.splits)

sublocale store_client \<subseteq> plane: quiet_client c "plane_same v"
proof
  show "plane_same v w w" for w by (simp add: plane_same_def)
  show "plane_same v w1 w2 \<Longrightarrow> plane_same v w2 w3 \<Longrightarrow> plane_same v w1 w3" for w1 w2 w3 by (simp add: plane_same_def)
qed (auto intro: adds_plane dest: wnpp_patch wnp_patch wnp_status wnpp_upsert wnpp_delete wnp_create)

context stored_predicate
begin

lemma from_payload_np:
  assumes "createOrUpdateNP c w np (mutateNetworkPolicy h p spec) = (w', r)" and "Q (meta_key (np_Meta np)) b" and "Kubernetes b = Some spec"
  shows "from_payload v Q tr w w'"
  using np_upsert [OF assms(1)] assms(2,3) unfolding adds_def from_payload_def by (metis mutateNetworkPolicy_spec)

lemma from_payload_ap:
  assumes "createOrPatchAP c w ap (mutateAuthorizationPolicy h p spec) = (w', r)" and "Q (meta_key (ap_Meta ap)) b" and "Istio b = Some spec"
  shows "from_payload v Q tr w w'"
  using ap_upsert [OF assms(1)] assms(2,3) unfolding adds_def from_payload_def by (metis mutateAuthorizationPolicy_spec)

lemma from_payload_delete: "deleteNP c w np = (w', e) \<Longrightarrow> from_payload v Q tr w w'"
  by (intro from_payload_same adds_plane [OF np_delete])

lemma from_payload_K8s:
  assumes "Q (meta_key (wnp_Meta p)) (wnp_Backend p)" and "reconcileK8sPolicy h c w p = Some (w', e)"
  shows "from_payload v Q tr w w'"
proof -
  have protect: "from_payload v Q tr w w'" if "reconcileProtect h c w p np = Some (w', e)" "meta_key (np_Meta np) = meta_key (wnp_Meta p)" for np e
    using that assms(1) by (auto simp: reconcileProtect_def split: option.splits prod.splits sum.splits dest: from_payload_np)
  have new: "meta_key (meta_named (wnp_Namespace p) (wnp_Name p)) = meta_key (wnp_Meta p)" by (simp add: meta_key_def)
  have refl: "from_payload v Q tr w w" by (simp add: from_payload_def)
  from assms(2) new refl show ?thesis
    by (auto simp: reconcileK8sPolicy_def wnp_NamespacedName_def Let_def split: sum.splits if_splits
        intro: protect from_payload_delete dest: np_read)
qed

lemma from_payload_Istio:
  assumes "Q (meta_key (wnp_Meta p)) (wnp_Backend p)" and "reconcileIstioPolicy h c w p = Some (w', e)"
  shows "from_payload v Q tr w w'"
proof -
  have new: "meta_key (ap_Meta (empty_ap (wnp_Namespace p) (wnp_Name p))) = meta_key (wnp_Meta p)" by (simp add: empty_ap_def meta_key_def)
  have refl: "from_payload v Q tr w w" by (simp add: from_payload_def)
  have render: "from_payload v Q tr w w'"
    if "createOrPatchAP c w ap (mutateAuthorizationPolicy h p spec) = (w', r)" "meta_key (ap_Meta ap) = meta_key (wnp_Meta p)"
      "Istio (wnp_Backend p) = Some spec" for ap spec r
    using from_payload_ap [OF that(1) _ that(3)] that(2) assms(1) by simp
  from assms(2) new refl show ?thesis
    by (auto simp: reconcileIstioPolicy_def wnp_NamespacedName_def Let_def split: sum.splits if_splits option.splits prod.splits
        intro: render dest: ap_read)
qed

lemma from_payload_policy:
  assumes "clean v Q (pr_cluster r)" and "policy_Reconcile h c r req = Some (r', e)"
  shows "from_payload v Q [] (pr_cluster r) (pr_cluster r')"
proof (cases "getWNP c (pr_cluster r) req")
  case (Inl err)
  with assms(2) show ?thesis by (simp add: policy_Reconcile_def from_payload_def)
next
  case (Inr p)
  with assms(1) wnp_read have q: "Q (meta_key (wnp_Meta p)) (wnp_Backend p)" by (fastforce simp: clean_def)
  have rec: "from_payload v Q [] w w1" if "reconcilePolicy h c w p = Some (w1, cond, err)" for w w1 cond err
    using that from_payload_K8s [OF q] from_payload_Istio [OF q]
    by (auto simp: reconcilePolicy_def from_payload_same plane.same_refl split: sum.splits if_splits option.splits)
  have upd: "from_payload v Q [] (pr_cluster r1) (pr_cluster r2)" if "updateReadyCondition h c r1 p cond = (r2, err)" for r1 r2 cond err
    using plane.updateReadyCondition_quiet [OF that] by (rule from_payload_same)
  have both: "from_payload v Q [] w (pr_cluster r2)"
    if "from_payload v Q [] w w1" "updateReadyCondition h c (r1\<lparr>pr_cluster := w1\<rparr>) p cond = (r2, err)" for w w1 r1 r2 cond err
    using from_payload_trans [OF that(1) upd [OF that(2), simplified]] by simp
  from Inr assms(2) show ?thesis
    by (auto simp: policy_Reconcile_def Let_def from_payload_same plane.same_refl
        split: sum.splits if_splits option.splits prod.splits intro: upd rec both [OF rec])
qed

end

text \<open>A predicate that the mutations of the learning controller keep for the events \<open>E\<close>.\<close>

locale backend_invariant = stored_predicate +
  fixes h :: helpers and E :: "LearningEvent \<Rightarrow> bool"
  assumes learn_kubernetes: "E ev \<Longrightarrow> le_Backend ev \<noteq> PolicyBackendIstio \<Longrightarrow> learned_for ev wk peer d \<Longrightarrow>
      base = getProposalMetadata wk d \<or> Q (proposal_key wk d) (pspec_Backend (wnpp_Spec base)) \<Longrightarrow>
      mutateKubernetesProposal h wk peer d (le_Protocol ev) (le_DstPort ev) base = Inr m \<Longrightarrow>
      Q (proposal_key wk d) (pspec_Backend (wnpp_Spec m))"
    and learn_istio: "E ev \<Longrightarrow> le_Backend ev = PolicyBackendIstio \<Longrightarrow> le_Source ev = Some source \<Longrightarrow> le_Dest ev = Some dest \<Longrightarrow>
      base = getProposalMetadata dest PolicyTypeIngress \<or> Q (proposal_key dest PolicyTypeIngress) (pspec_Backend (wnpp_Spec base)) \<Longrightarrow>
      mutateIstioProposal dest source (le_DstPort ev) base = Inr m \<Longrightarrow>
      Q (proposal_key dest PolicyTypeIngress) (pspec_Backend (wnpp_Spec m))"
begin

lemma clean_reconcileKubernetesProposal:
  assumes "clean v Q (lr_cluster l)" and "E ev" and "le_Backend ev \<noteq> PolicyBackendIstio" and "learned_for ev wk peer d"
    and "reconcileKubernetesProposal h c now l wk peer d (le_Protocol ev) (le_DstPort ev) = Some (l', e)"
  shows "clean v Q (lr_cluster l')"
proof -
  have k: "meta_key (wnpp_Meta (getProposalMetadata wk d)) = proposal_key wk d"
    by (simp add: getProposalMetadata_def proposal_key_def)
  have up: "clean v Q w1"
    if "createOrUpdateWNPP c (lr_cluster l) (getProposalMetadata wk d) (mutateKubernetesProposal h wk peer d (le_Protocol ev) (le_DstPort ev)) = (w1, r)"
    for w1 r
    using clean_wnpp_upsert [OF assms(1) that, unfolded k] learn_kubernetes [OF assms(2-4)] by blast
  from assms(1,5) show ?thesis
    by (auto simp: reconcileKubernetesProposal_def Let_def split: sum.splits list.splits prod.splits if_splits
        dest: up evaluateMonitorViolation_cluster)
qed

lemma clean_updateProposal:
  assumes "clean v Q (lr_cluster l)" and "E ev" and "le_Backend ev = PolicyBackendIstio" and "le_Dest ev = Some dest"
    and "updateProposal h c l ev dest = Some (l', e)"
  shows "clean v Q (lr_cluster l')"
proof -
  have k: "meta_key (wnpp_Meta (getProposalMetadata dest PolicyTypeIngress)) = proposal_key dest PolicyTypeIngress"
    by (simp add: getProposalMetadata_def proposal_key_def)
  have up: "clean v Q w1"
    if "createOrUpdateWNPP c (lr_cluster l) (getProposalMetadata dest PolicyTypeIngress) (mutateIstioProposal dest source (le_DstPort ev)) = (w1, r)"
      "le_Source ev = Some source" for w1 r source
    using clean_wnpp_upsert [OF assms(1) that(1), unfolded k] learn_istio [OF assms(2,3) that(2) assms(4)] by blast
  from assms(1,5) show ?thesis
    by (auto simp: updateProposal_def Let_def split: option.splits sum.splits prod.splits if_splits dest: up [simplified])
qed

lemma clean_learning_Reconcile:
  assumes "clean v Q (lr_cluster l)" and "E ev" and "learning_Reconcile h c now l ev = Some (l', e)"
  shows "clean v Q (lr_cluster l')"
proof (cases "le_Backend ev = PolicyBackendIstio")
  case True
  with assms show ?thesis
    by (auto simp: learning_Reconcile_def processIstioLearningEvent_def Let_def split: option.splits sum.splits list.splits
        dest: clean_updateProposal)
next
  case False
  note one = clean_reconcileKubernetesProposal [OF _ assms(2) False]
  from False assms(1,3) show ?thesis
    by (auto simp: learning_Reconcile_def processKubernetesLearningEvent_def learned_for_def split: option.splits prod.splits
        dest: one [rotated 2] intro: one [OF one, rotated 2])
qed

lemma clean_run:
  "learn_run h c v w tr w' \<Longrightarrow> clean v Q w \<Longrightarrow> \<forall>ev. Observed ev \<in> set tr \<longrightarrow> E ev \<Longrightarrow> \<forall>k b. Edited k b \<in> set tr \<longrightarrow> Q k b \<Longrightarrow>
     clean v Q w'"
proof (induction rule: learn_run.induct)
  case (user tr w1 act w2)
  then have "clean v Q w1" by simp
  with user.hyps(2) user.prems(3) show ?case unfolding clean_def wrote_def adds_def by force
qed (auto dest: clean_policy_Reconcile clean_proposal_Reconcile clean_learning_Reconcile clean_sync)

lemma from_payload_run:
  assumes "clean v Q w" and "learn_run h c v w tr w'"
    and "\<forall>ev. Observed ev \<in> set tr \<longrightarrow> E ev" and "\<forall>k b. Edited k b \<in> set tr \<longrightarrow> Q k b"
  shows "from_payload v Q tr w w'"
  using assms(2-4)
proof induction
  case idle
  show ?case by (simp add: from_payload_def)
next
  case (policy tr r req r' e)
  with clean_run assms(1) have "clean v Q (pr_cluster r)" by blast
  from from_payload_trans [OF policy.IH [OF policy.prems] from_payload_policy [OF this policy.hyps(2)]] show ?case by simp
next
  case (learn tr l now ev l' e)
  then have "from_payload v Q tr w (lr_cluster l)" by simp
  from from_payload_trans [OF this from_payload_same [OF plane.learning_quiet [OF learn.hyps(2)]]] show ?case .
next
  case (user tr w1 act w2)
  then have "from_payload v Q tr w w1" by simp
  from from_payload_trans [OF this from_payload_wrote [OF user.hyps(2)]] show ?case .
next
  case (proposal tr w1 req w2 e)
  from from_payload_trans [OF proposal.IH [OF proposal.prems] from_payload_same [OF plane.proposal_quiet [OF proposal.hyps(2)], where tr = "[]"]]
  show ?case by simp
next
  case (sync tr s f visit now s' e)
  from from_payload_trans [OF sync.IH [OF sync.prems] from_payload_same [OF plane.sync_quiet [OF sync.hyps(2)], where tr = "[]"]]
  show ?case by simp
qed

end

section \<open>Permissions\<close>

text \<open>What a NetworkPolicy grants in a direction: per rule, its list of peers with each of its ports, or with every port. What an
  Istio specification grants: the identities and ports that its rules permit.\<close>

definition rule_grants ::
    "NetworkPolicyPeer list \<Rightarrow> NetworkPolicyPort list \<Rightarrow> (NetworkPolicyPeer list \<times> NetworkPolicyPort option) set" where
  "rule_grants peers ports = (if ports = [] then {(peers, None)} else (\<lambda>q. (peers, Some q)) ` set ports)"

definition np_grants ::
    "PolicyType \<Rightarrow> NetworkPolicySpec \<Rightarrow> (NetworkPolicyPeer list \<times> NetworkPolicyPort option) set" where
  "np_grants d s =
     (if d = PolicyTypeEgress then \<Union> ((\<lambda>r. rule_grants (To r) (egress_Ports r)) ` set (Egress s))
      else \<Union> ((\<lambda>r. rule_grants (From r) (ingress_Ports r)) ` set (Ingress s)))"

definition peer_grant ::
    "selector_format \<Rightarrow> NetworkPolicyPeer \<Rightarrow> NetworkPolicyPort \<Rightarrow> NetworkPolicyPeer list \<times> NetworkPolicyPort option \<Rightarrow> bool" where
  "peer_grant fmt peer port g \<longleftrightarrow> (\<exists>x. g = ([x], Some port) \<and> (x = peer \<or> PolicyPeerEqual fmt x peer))"

lemma rule_grants_snoc: "rule_grants peers (ports @ [q]) \<subseteq> insert (peers, Some q) (rule_grants peers ports)"
  by (auto simp: rule_grants_def)

lemma upsert_egress_grants:
  "g \<in> \<Union> ((\<lambda>r. rule_grants (To r) (egress_Ports r)) ` set (upsertEgressRuleByPeer fmt rs peer port)) \<Longrightarrow>
     g \<in> \<Union> ((\<lambda>r. rule_grants (To r) (egress_Ports r)) ` set rs) \<or> peer_grant fmt peer port g"
proof (induction rs)
  case Nil
  then show ?case by (simp add: rule_grants_def peer_grant_def)
next
  case (Cons r rs)
  then show ?case
    using rule_grants_snoc [of "To r" "egress_Ports r" port]
    by (auto simp: peer_grant_def length_Suc_conv split: if_splits)
qed

lemma upsert_ingress_grants:
  "g \<in> \<Union> ((\<lambda>r. rule_grants (From r) (ingress_Ports r)) ` set (upsertIngressRuleByPeer fmt rs peer port)) \<Longrightarrow>
     g \<in> \<Union> ((\<lambda>r. rule_grants (From r) (ingress_Ports r)) ` set rs) \<or> peer_grant fmt peer port g"
proof (induction rs)
  case Nil
  then show ?case by (simp add: rule_grants_def peer_grant_def)
next
  case (Cons r rs)
  then show ?case
    using rule_grants_snoc [of "From r" "ingress_Ports r" port]
    by (auto simp: peer_grant_def length_Suc_conv split: if_splits)
qed

text \<open>Adding a port to an Istio rule never opens another one.\<close>

lemma istioRuleAllowsPort_addD:
  "istioRuleAllowsPort (istio_rule_add port rule) p \<Longrightarrow> istioRuleAllowsPort rule p \<or> istioPortMatches port p"
  by (cases "rule_To rule") (auto simp: istio_rule_add_def istioRuleAllowsPort_iff split: if_splits)

lemma istio_rule_for_sourceD:
  assumes "istio_rule_for prin rule" and "istioRuleAllowsSource rule (wr_zero\<lparr>wr_Identity := i\<rparr>)"
  shows "prin = i \<or> prin = ''*''"
proof -
  from assms(1) obtain f where "rule_From rule = [f]" "Principals (Source f) = [prin]"
    by (auto simp: istio_rule_for_def length_one)
  with assms(2) show ?thesis by (auto simp: istioRuleAllowsSource_iff)
qed

lemma upsert_istio_permits:
  "istioPermits (upsert_istio_rules rules prin port) i p \<Longrightarrow>
     istioPermits rules i p \<or> (prin = i \<or> prin = ''*'') \<and> istioPortMatches port p"
proof (induction rules)
  case Nil
  then show ?case by (auto simp: istioPermits_def istioRuleAllowsSource_iff istioRuleAllowsPort_iff)
next
  case (Cons rule rules)
  then show ?case
    using istioRuleAllowsPort_addD [of port rule p] istio_rule_for_sourceD [of prin rule i]
    by (auto simp: istioPermits_Cons split: if_splits)
qed

text \<open>What the payloads under a name grant that were there at the start or that were edited.\<close>

definition payload_grants ::
    "'w holdings \<Rightarrow> 'w \<Rightarrow> action list \<Rightarrow> NamespacedName \<Rightarrow> PolicyType \<Rightarrow> NetworkPolicyPeer list \<times> NetworkPolicyPort option \<Rightarrow> bool" where
  "payload_grants v w tr k d g \<longleftrightarrow>
     (\<exists>b s. (ho_payload v w k b \<or> Edited k b \<in> set tr) \<and> Kubernetes b = Some s \<and> g \<in> np_grants d s)"

definition payload_permits :: "'w holdings \<Rightarrow> 'w \<Rightarrow> action list \<Rightarrow> NamespacedName \<Rightarrow> string \<Rightarrow> int32 \<Rightarrow> bool" where
  "payload_permits v w tr k i p \<longleftrightarrow>
     (\<exists>b s. (ho_payload v w k b \<or> Edited k b \<in> set tr) \<and> Istio b = Some s \<and> istioPermits (Rules s) i p)"

text \<open>An event shows a flow of the workload \<open>wk\<close> in direction \<open>d\<close>; it is for the objects named after both.\<close>

definition observed_grant ::
    "selector_format \<Rightarrow> action list \<Rightarrow> NamespacedName \<Rightarrow> PolicyType \<Rightarrow>
     NetworkPolicyPeer list \<times> NetworkPolicyPort option \<Rightarrow> bool" where
  "observed_grant fmt tr k d g \<longleftrightarrow>
     (\<exists>ev wk peer. Observed ev \<in> set tr \<and> le_Backend ev \<noteq> PolicyBackendIstio \<and> learned_for ev wk peer d \<and> k = proposal_key wk d \<and>
        (case buildPeerAndPort peer (le_Protocol ev) (le_DstPort ev) of (x, q) \<Rightarrow> peer_grant fmt x q g))"

definition observed_permit :: "action list \<Rightarrow> NamespacedName \<Rightarrow> string \<Rightarrow> int32 \<Rightarrow> bool" where
  "observed_permit tr k i p \<longleftrightarrow>
     (\<exists>ev dest source. Observed ev \<in> set tr \<and> le_Backend ev = PolicyBackendIstio \<and> le_Dest ev = Some dest \<and> le_Source ev = Some source \<and>
        k = proposal_key dest PolicyTypeIngress \<and> (wr_Identity source = i \<or> wr_Identity source = ''*'') \<and>
        istioPortMatches (fmt_int (sint (le_DstPort ev))) p)"

text \<open>Every permission of a payload is one of the payloads at the start or of the edited ones, or it was observed.\<close>

definition has_origin ::
    "'w holdings \<Rightarrow> selector_format \<Rightarrow> 'w \<Rightarrow> action list \<Rightarrow> NamespacedName \<Rightarrow> PolicyBackendSpec \<Rightarrow> bool" where
  "has_origin v fmt w tr k b \<longleftrightarrow>
     (\<forall>s d g. Kubernetes b = Some s \<longrightarrow> d \<in> {PolicyTypeIngress, PolicyTypeEgress} \<longrightarrow> g \<in> np_grants d s \<longrightarrow>
        payload_grants v w tr k d g \<or> observed_grant fmt tr k d g) \<and>
     (\<forall>s i p. Istio b = Some s \<longrightarrow> istioPermits (Rules s) i p \<longrightarrow> payload_permits v w tr k i p \<or> observed_permit tr k i p)"

lemma clean_start: "clean v (has_origin v fmt w tr) w"
  by (auto simp: clean_def has_origin_def payload_grants_def payload_permits_def)

lemma has_origin_edited: "Edited k b \<in> set tr \<Longrightarrow> has_origin v fmt w tr k b"
  by (auto simp: has_origin_def payload_grants_def payload_permits_def)

lemma mutateKubernetesProposal_grants:
  assumes "mutateKubernetesProposal h wk peer d proto port base = Inr m" and "Kubernetes (pspec_Backend (wnpp_Spec m)) = Some s"
    and "g \<in> np_grants d' s" and "d' \<in> {PolicyTypeIngress, PolicyTypeEgress}"
  shows "(\<exists>s0. Kubernetes (pspec_Backend (wnpp_Spec base)) = Some s0 \<and> g \<in> np_grants d' s0) \<or>
    d' = d \<and> (case buildPeerAndPort peer proto port of (x, q) \<Rightarrow> peer_grant (formatLabelSelector h) x q g)"
proof -
  let ?s0 = "case Kubernetes (pspec_Backend (wnpp_Spec base)) of None \<Rightarrow> empty_np_spec | Some s \<Rightarrow> s"
  obtain x q where xq: "buildPeerAndPort peer proto port = (x, q)" by fastforce
  have "(if d = PolicyTypeEgress
         then Egress s = upsertEgressRuleByPeer (formatLabelSelector h) (Egress ?s0) x q \<and> Ingress s = Ingress ?s0
         else Ingress s = upsertIngressRuleByPeer (formatLabelSelector h) (Ingress ?s0) x q \<and> Egress s = Egress ?s0)"
    and d: "d \<in> {PolicyTypeIngress, PolicyTypeEgress}"
    using assms(1,2) xq by (auto simp: mutateKubernetesProposal_def Let_def split: if_splits)
  then have "g \<in> np_grants d' ?s0 \<or> d' = d \<and> peer_grant (formatLabelSelector h) x q g"
    using assms(3,4) upsert_egress_grants [of g "formatLabelSelector h" "Egress ?s0" x q]
      upsert_ingress_grants [of g "formatLabelSelector h" "Ingress ?s0" x q]
    by (auto simp only: np_grants_def if_True if_False split: if_splits)
  moreover have "np_grants d' empty_np_spec = {}" by (simp add: np_grants_def empty_np_spec_def)
  ultimately show ?thesis using xq by (auto split: option.splits)
qed

lemma mutateKubernetesProposal_istio:
  "mutateKubernetesProposal h wk peer d proto port base = Inr m \<Longrightarrow>
     Istio (pspec_Backend (wnpp_Spec m)) = Istio (pspec_Backend (wnpp_Spec base))"
  by (auto simp: mutateKubernetesProposal_def Let_def split: if_splits prod.splits)

lemma mutateIstioProposal_permits:
  assumes "mutateIstioProposal dest source port base = Inr m" and "Istio (pspec_Backend (wnpp_Spec m)) = Some s"
    and "istioPermits (Rules s) i p"
  shows "(\<exists>s0. Istio (pspec_Backend (wnpp_Spec base)) = Some s0 \<and> istioPermits (Rules s0) i p) \<or>
    (wr_Identity source = i \<or> wr_Identity source = ''*'') \<and> istioPortMatches (fmt_int (sint port)) p"
proof -
  let ?r0 = "case Istio (pspec_Backend (wnpp_Spec base)) of None \<Rightarrow> [] | Some s0 \<Rightarrow> Rules s0"
  have "Rules s = upsert_istio_rules ?r0 (wr_Identity source) (fmt_int (sint port))"
    using assms(1,2) by (auto simp: mutateIstioProposal_def upsertIstioLearnedRule_def split: option.splits)
  with upsert_istio_permits assms(3) have "istioPermits ?r0 i p \<or>
      (wr_Identity source = i \<or> wr_Identity source = ''*'') \<and> istioPortMatches (fmt_int (sint port)) p" by metis
  moreover have "\<not> istioPermits [] i p" by (simp add: istioPermits_def)
  ultimately show ?thesis by (auto split: option.splits)
qed

lemma mutateIstioProposal_kubernetes:
  "mutateIstioProposal dest source port base = Inr m \<Longrightarrow>
     Kubernetes (pspec_Backend (wnpp_Spec m)) = Kubernetes (pspec_Backend (wnpp_Spec base))"
  by (auto simp: mutateIstioProposal_def Let_def)

lemma has_origin_new: "has_origin v fmt w tr k (pspec_Backend (wnpp_Spec (getProposalMetadata wk d)))"
  by (simp add: has_origin_def getProposalMetadata_def)

lemma has_origin_invariant:
  assumes "store_client c v"
  shows "backend_invariant c v (has_origin v (formatLabelSelector h) w tr) h (\<lambda>ev. Observed ev \<in> set tr)"
proof (intro backend_invariant.intro backend_invariant_axioms.intro)
  show "stored_predicate c v" using assms by (rule stored_predicate.intro)
next
  fix ev wk peer d base m
  assume ev: "Observed ev \<in> set tr" "le_Backend ev \<noteq> PolicyBackendIstio" "learned_for ev wk peer d"
    and base: "base = getProposalMetadata wk d \<or>
      has_origin v (formatLabelSelector h) w tr (proposal_key wk d) (pspec_Backend (wnpp_Spec base))"
    and m: "mutateKubernetesProposal h wk peer d (le_Protocol ev) (le_DstPort ev) base = Inr m"
  from base have "has_origin v (formatLabelSelector h) w tr (proposal_key wk d) (pspec_Backend (wnpp_Spec base))"
    by (auto simp: has_origin_new)
  moreover have "observed_grant (formatLabelSelector h) tr (proposal_key wk d) d g"
    if "case buildPeerAndPort peer (le_Protocol ev) (le_DstPort ev) of (x, q) \<Rightarrow> peer_grant (formatLabelSelector h) x q g" for g
    unfolding observed_grant_def using ev that by (intro exI [of _ ev] exI [of _ wk] exI [of _ peer]) simp_all
  ultimately show "has_origin v (formatLabelSelector h) w tr (proposal_key wk d) (pspec_Backend (wnpp_Spec m))"
    using mutateKubernetesProposal_grants [OF m] mutateKubernetesProposal_istio [OF m] unfolding has_origin_def by (metis (no_types, lifting))
next
  fix ev source dest base m
  assume ev: "Observed ev \<in> set tr" "le_Backend ev = PolicyBackendIstio" "le_Source ev = Some source" "le_Dest ev = Some dest"
    and base: "base = getProposalMetadata dest PolicyTypeIngress \<or>
      has_origin v (formatLabelSelector h) w tr (proposal_key dest PolicyTypeIngress) (pspec_Backend (wnpp_Spec base))"
    and m: "mutateIstioProposal dest source (le_DstPort ev) base = Inr m"
  from base have "has_origin v (formatLabelSelector h) w tr (proposal_key dest PolicyTypeIngress) (pspec_Backend (wnpp_Spec base))"
    by (auto simp: has_origin_new)
  moreover have "observed_permit tr (proposal_key dest PolicyTypeIngress) i p"
    if "(wr_Identity source = i \<or> wr_Identity source = ''*'') \<and> istioPortMatches (fmt_int (sint (le_DstPort ev))) p" for i p
    using ev that unfolding observed_permit_def by blast
  ultimately show "has_origin v (formatLabelSelector h) w tr (proposal_key dest PolicyTypeIngress) (pspec_Backend (wnpp_Spec m))"
    using mutateIstioProposal_permits [OF m] mutateIstioProposal_kubernetes [OF m] unfolding has_origin_def by (metis (no_types, lifting))
qed

text \<open>What a list of rendered Istio rules permits.\<close>

definition apRulesPermit :: "APRule list \<Rightarrow> string \<Rightarrow> int32 \<Rightarrow> bool" where
  "apRulesPermit rules ident port \<longleftrightarrow> apPermits \<lparr>aps_Action = ALLOW, aps_Selector = None, aps_Rules = rules\<rparr> ident port"

lemma apRulesPermit_render: "apRulesPermit (aps_Rules (populateIstioAuthorizationPolicySpec spec)) i p \<longleftrightarrow> istioPermits (Rules spec) i p"
  unfolding apPermits_render [symmetric] by (simp add: apRulesPermit_def apPermits_def populateIstioAuthorizationPolicySpec_def)

lemma apPermits_rules: "apPermits s i p \<Longrightarrow> apRulesPermit (aps_Rules s) i p"
  by (simp add: apRulesPermit_def apPermits_def)

text \<open>The permissions of the data plane after a run: there at the start, placed, granted by a payload, or observed.\<close>

lemma run_origin:
  assumes "store_client c v" and "learn_run h c v w tr w'"
  shows "(\<forall>k s d g. ho_np v w' k s \<and> d \<in> {PolicyTypeIngress, PolicyTypeEgress} \<and> g \<in> np_grants d s \<longrightarrow>
      ho_np v w k s \<or> PlacedNP k s \<in> set tr \<or> payload_grants v w tr k d g \<or> observed_grant (formatLabelSelector h) tr k d g) \<and>
    (\<forall>k rs i p. ho_ap v w' k rs \<and> apRulesPermit rs i p \<longrightarrow>
      ho_ap v w k rs \<or> PlacedAP k rs \<in> set tr \<or> payload_permits v w tr k i p \<or> observed_permit tr k i p)"
proof -
  have "from_payload v (has_origin v (formatLabelSelector h) w tr) tr w w'"
    by (rule backend_invariant.from_payload_run [OF has_origin_invariant [OF assms(1)] clean_start assms(2)]) (auto intro: has_origin_edited)
  then show ?thesis unfolding from_payload_def has_origin_def by (metis apRulesPermit_render)
qed

end
