(* ===== verification/LagCluster.thy ===== *)
theory LagCluster
  imports Provenance
begin

text \<open>
  A cluster whose reads come from a cache that lags behind the API server, as those of the manager's client do, and that may move on
  between the reads of one call. Writes go to the
  server: an update carries the version that was read and fails with a conflict if the server has another, a creation fails if the name is
  taken, a merge patch is applied to whatever the server has, and a deletion goes by name. It instantiates the laws of the client
  that the theorems on stale reads assume.

  The contract is \<open>optimistic\<close>, for one kind of objects, and the locale \<open>optimistic_client\<close>, for the policy controller: on stale reads no
  NetworkPolicy that another object controls is overwritten and no flow that was learned concurrently is lost. The lemmas \<open>late_adoption\<close>, \<open>stale_delete\<close> and \<open>stale_patch\<close>
  show what this leaves open.
\<close>

section \<open>The cluster\<close>

text \<open>\<open>CreateOrUpdate\<close> and \<open>CreateOrPatch\<close> read the object themselves, after the controller has; \<open>lg_reread\<close> is the cache at that time.\<close>

record lagging =
  lg_server :: store
  lg_cache :: store
  lg_reread :: store

abbreviation in_sync :: "store \<Rightarrow> lagging" where
  "in_sync s \<equiv> \<lparr>lg_server = s, lg_cache = s, lg_reread = s\<rparr>"

text \<open>The caches catch up with the server.\<close>

definition lag_refresh :: "lagging \<Rightarrow> lagging" where
  "lag_refresh w = in_sync (lg_server w)"

text \<open>\<open>CreateOrUpdate\<close> and \<open>CreateOrPatch\<close>: read from the cache, mutate, create or send the change. \<open>send\<close> is what the server makes of the change,
  from its own version, the version that was read and the mutated one.\<close>

definition lag_upsert ::
    "('o \<Rightarrow> ObjectMeta) \<Rightarrow> (store \<Rightarrow> 'o list) \<Rightarrow> ('o list \<Rightarrow> store \<Rightarrow> store) \<Rightarrow> ('o \<Rightarrow> 'o \<Rightarrow> 'o \<Rightarrow> error + 'o) \<Rightarrow>
     lagging \<Rightarrow> 'o \<Rightarrow> ('o \<Rightarrow> error + 'o) \<Rightarrow> lagging \<times> (error + 'o)" where
  "lag_upsert meta sel upd send w x f =
     (let k = meta_key (meta x);
          found = mem_find meta (sel (lg_reread w)) k;
          current = mem_find meta (sel (lg_server w)) k;
          base = (case found of Inl _ \<Rightarrow> x | Inr y \<Rightarrow> y)
      in case f base of
           Inl e \<Rightarrow> (w, Inl e)
         | Inr m \<Rightarrow>
             if meta_key (meta m) \<noteq> k then (w, Inl (Plain ''MutateFn cannot mutate object name and/or object namespace''))
             else if \<not> isl found \<and> m = base then (w, Inr m)
             else
               (case (case found of
                        Inl _ \<Rightarrow> (case current of Inl _ \<Rightarrow> Inr m | Inr _ \<Rightarrow> Inl (ApiStatus AlreadyExists ''already exists''))
                      | Inr _ \<Rightarrow> (case current of Inl e \<Rightarrow> Inl e | Inr cur \<Rightarrow> send cur base m)) of
                  Inl e \<Rightarrow> (w, Inl e)
                | Inr y \<Rightarrow> (w\<lparr>lg_server := upd (mem_put meta k (sel (lg_server w)) y) (lg_server w)\<rparr>, Inr y)))"

text \<open>An update is refused unless the server still has the version that was read.\<close>

definition send_update :: "'o \<Rightarrow> 'o \<Rightarrow> 'o \<Rightarrow> error + 'o" where
  "send_update cur base m = (if cur = base then Inr m else Inl (ApiStatus Conflict ''the object has been modified''))"

text \<open>A merge patch carries the fields in which the mutated object differs from what was read.\<close>

definition pick :: "('o \<Rightarrow> 'f) \<Rightarrow> 'o \<Rightarrow> 'o \<Rightarrow> 'o \<Rightarrow> 'f" where
  "pick field cur base m = (if field m = field base then field cur else field m)"

definition send_patch :: "AuthorizationPolicy \<Rightarrow> AuthorizationPolicy \<Rightarrow> AuthorizationPolicy \<Rightarrow> error + AuthorizationPolicy" where
  "send_patch cur base m = Inr
     \<lparr>ap_Meta = (ap_Meta cur)\<lparr>om_Labels := pick (om_Labels \<circ> ap_Meta) cur base m,
        om_Annotations := pick (om_Annotations \<circ> ap_Meta) cur base m,
        om_OwnerReferences := pick (om_OwnerReferences \<circ> ap_Meta) cur base m\<rparr>,
      ap_Spec = \<lparr>aps_Action = pick (aps_Action \<circ> ap_Spec) cur base m, aps_Selector = pick (aps_Selector \<circ> ap_Spec) cur base m,
        aps_Rules = pick (aps_Rules \<circ> ap_Spec) cur base m\<rparr>\<rparr>"

definition on_server :: "(store \<Rightarrow> store \<times> 'r) \<Rightarrow> lagging \<Rightarrow> lagging \<times> 'r" where
  "on_server f w = (case f (lg_server w) of (s, r) \<Rightarrow> (w\<lparr>lg_server := s\<rparr>, r))"

definition lag_client :: "(string \<times> (WorkloadNetworkPolicy \<Rightarrow> string list)) list \<Rightarrow> lagging client" where
  "lag_client idx =
     \<lparr>getPod = \<lambda>w. getPod (mem_client idx) (lg_cache w), getWorkload = \<lambda>w. getWorkload (mem_client idx) (lg_cache w), getReplicaSet = \<lambda>w. getReplicaSet (mem_client idx) (lg_cache w),
       getWNP = \<lambda>w. getWNP (mem_client idx) (lg_cache w), getWNPP = \<lambda>w. getWNPP (mem_client idx) (lg_cache w), getNP = \<lambda>w. getNP (mem_client idx) (lg_cache w),
       getAP = \<lambda>w. getAP (mem_client idx) (lg_cache w), listWNP = \<lambda>w. listWNP (mem_client idx) (lg_cache w), listWNPByField = \<lambda>w. listWNPByField (mem_client idx) (lg_cache w),
       listWNPByLabels = \<lambda>w. listWNPByLabels (mem_client idx) (lg_cache w), listWorkloads = \<lambda>w. listWorkloads (mem_client idx) (lg_cache w),
       listPods = \<lambda>w. listPods (mem_client idx) (lg_cache w), listPodsBySelector = \<lambda>w. listPodsBySelector (mem_client idx) (lg_cache w),
       listPodsByField = \<lambda>w. listPodsByField (mem_client idx) (lg_cache w), listNP = \<lambda>w. listNP (mem_client idx) (lg_cache w),
       createWNP = \<lambda>w p. on_server (\<lambda>s. createWNP (mem_client idx) s p) w,
       patchWNPStatus = \<lambda>w p base. on_server (\<lambda>s. patchWNPStatus (mem_client idx) s p base) w,
       patchWNP = \<lambda>w p base. on_server (\<lambda>s. case mem_find wnp_Meta (st_wnps s) (meta_key (wnp_Meta p)) of
           Inl e \<Rightarrow> (s, Some e)
         | Inr cur \<Rightarrow> patchWNP (mem_client idx) s (p\<lparr>wnp_Spec := pick wnp_Spec cur base p\<rparr>) base) w,
       deleteWNPP = \<lambda>w p. on_server (\<lambda>s. deleteWNPP (mem_client idx) s p) w,
       patchWNPP = \<lambda>w p base. on_server (\<lambda>s. case mem_find wnpp_Meta (st_wnpps s) (meta_key (wnpp_Meta p)) of
           Inl e \<Rightarrow> (s, Inl e)
         | Inr cur \<Rightarrow> patchWNPP (mem_client idx) s (p\<lparr>wnpp_Spec := pick wnpp_Spec cur base p\<rparr>) base) w,
       deleteNP = \<lambda>w p. on_server (\<lambda>s. deleteNP (mem_client idx) s p) w,
       createOrUpdateNP = lag_upsert np_Meta st_nps (\<lambda>xs w. w\<lparr>st_nps := xs\<rparr>) send_update,
       createOrPatchAP = lag_upsert ap_Meta st_aps (\<lambda>xs w. w\<lparr>st_aps := xs\<rparr>) send_patch,
       createOrUpdateWNPP = lag_upsert wnpp_Meta st_wnpps (\<lambda>xs w. w\<lparr>st_wnpps := xs\<rparr>) send_update\<rparr>"

text \<open>It holds what the server has and what a read can still return.\<close>

definition store_holdings :: "store holdings" where
  "store_holdings =
     \<lparr>ho_payload = \<lambda>w k b. (\<exists>p. mem_find wnpp_Meta (st_wnpps w) k = Inr p \<and> b = pspec_Backend (wnpp_Spec p)) \<or>
        (\<exists>p. mem_find wnp_Meta (st_wnps w) k = Inr p \<and> b = wnp_Backend p),
      ho_np = \<lambda>w k s. \<exists>np. mem_find np_Meta (st_nps w) k = Inr np \<and> s = np_Spec np,
      ho_ap = \<lambda>w k rs. \<exists>ap. mem_find ap_Meta (st_aps w) k = Inr ap \<and> rs = aps_Rules (ap_Spec ap)\<rparr>"

definition lag_holdings :: "lagging holdings" where
  "lag_holdings =
     \<lparr>ho_payload = \<lambda>w k b. ho_payload store_holdings (lg_server w) k b \<or> ho_payload store_holdings (lg_cache w) k b \<or> ho_payload store_holdings (lg_reread w) k b,
      ho_np = \<lambda>w k s. ho_np store_holdings (lg_server w) k s \<or> ho_np store_holdings (lg_cache w) k s \<or> ho_np store_holdings (lg_reread w) k s,
      ho_ap = \<lambda>w k rs. ho_ap store_holdings (lg_server w) k rs \<or> ho_ap store_holdings (lg_cache w) k rs \<or> ho_ap store_holdings (lg_reread w) k rs\<rparr>"

section \<open>It keeps the laws\<close>

lemma mem_find_snoc:
  "mem_find meta (xs @ [x]) k = Inr y \<Longrightarrow> mem_find meta xs k = Inr y \<or> k = meta_key (meta x) \<and> y = x"
  by (induction xs) (auto simp: mem_find_def split: if_splits option.splits)

lemma mem_put_one:
  assumes "mem_find meta (mem_put meta k' xs x) k = Inr y" and "meta_key (meta x) = k'"
  shows "mem_find meta xs k = Inr y \<or> k = k' \<and> y = x"
  using assms mem_find_put [of meta x k' xs] mem_find_put_other [of k meta x xs] by (cases "k = k'") auto

lemma mem_del_one: "mem_find meta (mem_del meta xs k') k = Inr y \<Longrightarrow> mem_find meta xs k = Inr y"
  by (auto simp: mem_find_del mem_find_def [of _ "[]"] split: if_splits)

definition send_keeps :: "('o \<Rightarrow> ObjectMeta) \<Rightarrow> ('o \<Rightarrow> 'o \<Rightarrow> 'o \<Rightarrow> error + 'o) \<Rightarrow> bool" where
  "send_keeps meta send \<longleftrightarrow> (\<forall>cur base m y. send cur base m = Inr y \<longrightarrow> meta_key (meta m) = meta_key (meta cur) \<longrightarrow>
     meta_key (meta y) = meta_key (meta cur))"

lemma send_update_key: "send_update cur base m = Inr y \<longleftrightarrow> y = m \<and> cur = base"
  by (auto simp: send_update_def)

lemma send_keeps_update: "send_keeps meta send_update"
  by (simp add: send_keeps_def send_update_key)

lemma send_keeps_patch: "send_keeps ap_Meta send_patch"
  by (auto simp: send_keeps_def send_patch_def meta_key_def)

text \<open>What an upsert leaves on the server: nothing new, a creation, or what the server makes of a change to an object that was read.\<close>

lemma lag_upsert_cases:
  assumes "lag_upsert meta sel upd send w x f = (w', r)" and "send_keeps meta send" and k: "k = meta_key (meta x)"
  obtains "w' = w"
  | m where "f x = Inr m" "meta_key (meta m) = k" "isl (mem_find meta (sel (lg_reread w)) k)" "isl (mem_find meta (sel (lg_server w)) k)"
      "w' = w\<lparr>lg_server := upd (mem_put meta k (sel (lg_server w)) m) (lg_server w)\<rparr>"
  | base cur m y where "mem_find meta (sel (lg_reread w)) k = Inr base" "mem_find meta (sel (lg_server w)) k = Inr cur"
      "f base = Inr m" "send cur base m = Inr y" "meta_key (meta y) = k"
      "w' = w\<lparr>lg_server := upd (mem_put meta k (sel (lg_server w)) y) (lg_server w)\<rparr>"
proof (cases "w' = w")
  case True
  then show thesis using that(1) by blast
next
  case False
  show thesis
  proof (cases "mem_find meta (sel (lg_reread w)) k")
    case (Inl err)
    with assms(1) False k show thesis
      by (intro that(2) [of "projr (f x)"]) (auto simp: lag_upsert_def Let_def split: sum.splits if_splits)
  next
    case (Inr base)
    from Inr assms(1) False k obtain m cur y where *: "f base = Inr m" "meta_key (meta m) = k" "mem_find meta (sel (lg_server w)) k = Inr cur"
      "send cur base m = Inr y" "w' = w\<lparr>lg_server := upd (mem_put meta k (sel (lg_server w)) y) (lg_server w)\<rparr>"
      by (auto simp: lag_upsert_def Let_def split: sum.splits if_splits) metis
    from mem_find_key [OF *(3)] have "meta_key (meta cur) = k" by simp
    with assms(2) * have "meta_key (meta y) = k" unfolding send_keeps_def by metis
    with that(3) Inr * show thesis by blast
  qed
qed

lemma lag_upsert_frame:
  "lag_upsert meta sel upd send w x f = (w', r) \<Longrightarrow> lg_cache w' = lg_cache w \<and> lg_reread w' = lg_reread w \<and> (lg_server w' = lg_server w \<or> (\<exists>xs. lg_server w' = upd xs (lg_server w)))"
  by (auto simp: lag_upsert_def Let_def split: sum.splits if_splits)

lemma lag_upsert_new:
  assumes "lag_upsert meta sel upd send w x f = (w', r)" and "send_keeps meta send" and "\<And>xs w. sel (upd xs w) = xs" and "mem_find meta (sel (lg_server w')) k = Inr y"
  shows "mem_find meta (sel (lg_server w)) k = Inr y \<or> k = meta_key (meta x) \<and>
    (f x = Inr y \<or> (\<exists>base cur m. mem_find meta (sel (lg_reread w)) k = Inr base \<and> mem_find meta (sel (lg_server w)) k = Inr cur \<and>
       f base = Inr m \<and> send cur base m = Inr y))"
  using assms(1,2) refl
proof (cases rule: lag_upsert_cases)
  case 1
  with assms(4) show ?thesis by simp
next
  case (2 m)
  with assms(3,4) have "mem_find meta (mem_put meta (meta_key (meta x)) (sel (lg_server w)) m) k = Inr y" by simp
  from mem_put_one [OF this 2(2)] 2(1) show ?thesis by auto
next
  case (3 base cur m z)
  with assms(3,4) have "mem_find meta (mem_put meta (meta_key (meta x)) (sel (lg_server w)) z) k = Inr y" by simp
  from mem_put_one [OF this 3(5)] 3 show ?thesis by auto
qed

lemma send_patch_rules:
  "send_patch cur base m = Inr y \<Longrightarrow> aps_Rules (ap_Spec y) = aps_Rules (ap_Spec cur) \<or> aps_Rules (ap_Spec y) = aps_Rules (ap_Spec m)"
  by (auto simp: send_patch_def pick_def)

lemmas lag_defs = lag_client_def lag_holdings_def store_holdings_def mem_client_def on_server_def

interpretation lag_store: store_client "lag_client idx" lag_holdings for idx
proof
  fix w w' k p q x z np ap e a
  show "getWNPP (lag_client idx) w k = Inr p \<Longrightarrow> meta_key (wnpp_Meta p) = k \<and> ho_payload lag_holdings w k (pspec_Backend (wnpp_Spec p))"
    and "getWNP (lag_client idx) w k = Inr x \<Longrightarrow> meta_key (wnp_Meta x) = k \<and> ho_payload lag_holdings w k (wnp_Backend x)"
    and "getNP (lag_client idx) w k = Inr np \<Longrightarrow> meta_key (np_Meta np) = k \<and> ho_np lag_holdings w k (np_Spec np)"
    and "getAP (lag_client idx) w k = Inr ap \<Longrightarrow> meta_key (ap_Meta ap) = k \<and> ho_ap lag_holdings w k (aps_Rules (ap_Spec ap))"
    by (auto simp: lag_defs dest: mem_find_key)
  show "patchWNPP (lag_client idx) w p q = (w', a) \<Longrightarrow>
      adds lag_holdings w w' (\<lambda>k b. wnpp_Spec p = wnpp_Spec q \<longrightarrow> k = meta_key (wnpp_Meta p) \<and> b = pspec_Backend (wnpp_Spec p)) nothing nothing"
    by (auto simp: adds_def lag_defs pick_def split: sum.splits prod.splits dest!: mem_put_one)
  show "patchWNPP (lag_client idx) w p q = (w', Inr p') \<Longrightarrow>
      meta_key (wnpp_Meta p') = meta_key (wnpp_Meta p) \<and> ho_payload lag_holdings w' (meta_key (wnpp_Meta p)) (pspec_Backend (wnpp_Spec p'))" for p'
    by (auto simp: lag_defs mem_find_put split: sum.splits prod.splits)
  show "patchWNP (lag_client idx) w x z = (w', e) \<Longrightarrow>
      adds lag_holdings w w' (\<lambda>k b. wnp_Spec x = wnp_Spec z \<longrightarrow> k = meta_key (wnp_Meta x) \<and> b = wnp_Backend x) nothing nothing"
    by (auto simp: adds_def lag_defs pick_def split: sum.splits prod.splits dest!: mem_put_one)
  show "patchWNPStatus (lag_client idx) w x z = (w', e) \<Longrightarrow>
      adds lag_holdings w w' (\<lambda>k b. wnp_Spec x = wnp_Spec z \<longrightarrow> k = meta_key (wnp_Meta x) \<and> b = wnp_Backend x) nothing nothing"
    by (auto simp: adds_def lag_defs split: sum.splits prod.splits dest!: mem_put_one) (drule mem_find_key, simp)+
  show "deleteWNPP (lag_client idx) w p = (w', e) \<Longrightarrow> adds lag_holdings w w' nothing nothing nothing"
    "deleteNP (lag_client idx) w np = (w', e) \<Longrightarrow> adds lag_holdings w w' nothing nothing nothing"
    by (auto simp: adds_def lag_defs split: sum.splits prod.splits dest!: mem_del_one)
  show "createWNP (lag_client idx) w x = (w', e) \<Longrightarrow>
      adds lag_holdings w w' (\<lambda>k b. k = meta_key (wnp_Meta x) \<and> b = wnp_Backend x) nothing nothing"
    by (auto simp: adds_def lag_defs split: sum.splits prod.splits dest!: mem_find_snoc)
next
  fix w items x
  assume "listWNP (lag_client idx) w None = Inr items" "x \<in> set items"
  then show "ho_payload lag_holdings w (meta_key (wnp_Meta x)) (wnp_Backend x)"
    by (auto simp: lag_defs dest: mem_first_find)
next
  fix w p f w' r
  assume u: "createOrUpdateWNPP (lag_client idx) w p f = (w', r)"
  then have u': "lag_upsert wnpp_Meta st_wnpps (\<lambda>xs w. w\<lparr>st_wnpps := xs\<rparr>) send_update w p f = (w', r)" by (simp add: lag_client_def)
  have new: "mem_find wnpp_Meta (st_wnpps (lg_server w)) k = Inr y \<or>
      k = meta_key (wnpp_Meta p) \<and> (\<exists>base. (base = p \<or> mem_find wnpp_Meta (st_wnpps (lg_server w)) k = Inr base) \<and> f base = Inr y)"
    if "mem_find wnpp_Meta (st_wnpps (lg_server w')) k = Inr y" for k y
    using lag_upsert_new [OF u' send_keeps_update _ that] by (auto simp: send_update_key)
  from lag_upsert_frame [OF u'] new show "adds lag_holdings w w' (\<lambda>k b. k = meta_key (wnpp_Meta p) \<and>
      (\<exists>base m. (base = p \<or> ho_payload lag_holdings w k (pspec_Backend (wnpp_Spec base))) \<and> f base = Inr m \<and> b = pspec_Backend (wnpp_Spec m)))
      nothing nothing"
    by (fastforce simp: adds_def lag_holdings_def store_holdings_def)
next
  fix w np g w' s
  assume "createOrUpdateNP (lag_client idx) w np g = (w', s)"
  then have u: "lag_upsert np_Meta st_nps (\<lambda>xs w. w\<lparr>st_nps := xs\<rparr>) send_update w np g = (w', s)" by (simp add: lag_client_def)
  from lag_upsert_frame [OF u] lag_upsert_new [OF u send_keeps_update] show "adds lag_holdings w w' nothing
      (\<lambda>k y. k = meta_key (np_Meta np) \<and> (\<exists>base m. g base = Inr m \<and> y = np_Spec m)) nothing"
    by (fastforce simp: adds_def lag_holdings_def store_holdings_def send_update_key)
next
  fix w ap i w' t
  assume "createOrPatchAP (lag_client idx) w ap i = (w', t)"
  then have u: "lag_upsert ap_Meta st_aps (\<lambda>xs w. w\<lparr>st_aps := xs\<rparr>) send_patch w ap i = (w', t)" by (simp add: lag_client_def)
  have new: "(\<exists>ap0. mem_find ap_Meta (st_aps (lg_server w)) k = Inr ap0 \<and> aps_Rules (ap_Spec y) = aps_Rules (ap_Spec ap0)) \<or>
      k = meta_key (ap_Meta ap) \<and> (\<exists>base m. i base = Inr m \<and> aps_Rules (ap_Spec y) = aps_Rules (ap_Spec m))"
    if "mem_find ap_Meta (st_aps (lg_server w')) k = Inr y" for k y
    using lag_upsert_new [OF u send_keeps_patch _ that] send_patch_rules by fastforce
  from lag_upsert_frame [OF u] new show "adds lag_holdings w w' nothing nothing
      (\<lambda>k rs. k = meta_key (ap_Meta ap) \<and> (\<exists>base m. i base = Inr m \<and> rs = aps_Rules (ap_Spec m)))"
    by (fastforce simp: adds_def lag_holdings_def store_holdings_def)
qed

interpretation lag_origin: backend_invariant "lag_client idx" lag_holdings "has_origin lag_holdings (formatLabelSelector h) w tr" h
  "\<lambda>ev. Observed ev \<in> set tr" for idx h w tr
  using lag_store.store_client_axioms by (rule has_origin_invariant)

text \<open>A refresh adds nothing: what the caches then return, the server had.\<close>

lemma refresh_touches: "wrote lag_holdings Touched w (lag_refresh w)"
  by (simp add: wrote_def adds_def lag_refresh_def lag_holdings_def)

section \<open>Optimistic concurrency\<close>

text \<open>What the API server does with one kind of objects: \<open>truth\<close> is what it has, the reads of the client may be older. An upsert touches
  one name, and changes it only from nothing, if the read found nothing, or from exactly the version that was read. It reports success
  without a change only if the mutation left what was read as it was. \<open>get\<close> is the read that the upsert makes itself.\<close>

definition optimistic ::
    "('w \<Rightarrow> NamespacedName \<Rightarrow> error + 'o) \<Rightarrow> ('w \<Rightarrow> NamespacedName \<Rightarrow> 'o option) \<Rightarrow>
     ('w \<Rightarrow> 'o \<Rightarrow> ('o \<Rightarrow> error + 'o) \<Rightarrow> 'w \<times> (error + 'o)) \<Rightarrow> ('o \<Rightarrow> ObjectMeta) \<Rightarrow> ('o \<Rightarrow> 's) \<Rightarrow> bool" where
  "optimistic get truth cu meta spec \<longleftrightarrow>
     (\<forall>w x f w' r. cu w x f = (w', r) \<longrightarrow>
        truth w' = truth w \<and> (\<forall>y. r = Inr y \<longrightarrow> (\<exists>base. get w (meta_key (meta x)) = Inr base \<and> f base = Inr base)) \<or>
        (\<exists>base m y. truth w' = (truth w)(meta_key (meta x) \<mapsto> y) \<and> f base = Inr m \<and> user_meta (meta y) = user_meta (meta m) \<and> spec y = spec m \<and>
           (base = x \<and> gone (get w (meta_key (meta x))) \<and> truth w (meta_key (meta x)) = None \<or>
            get w (meta_key (meta x)) = Inr base \<and> truth w (meta_key (meta x)) = Some base)))"

lemma optimisticE:
  assumes "optimistic get truth cu meta spec" and "cu w x f = (w', r)"
  obtains "truth w' = truth w" "\<And>y. r = Inr y \<Longrightarrow> \<exists>base. get w (meta_key (meta x)) = Inr base \<and> f base = Inr base"
  | base m y where "truth w' = (truth w)(meta_key (meta x) \<mapsto> y)" "f base = Inr m" "user_meta (meta y) = user_meta (meta m)" "spec y = spec m"
      "base = x \<and> gone (get w (meta_key (meta x))) \<and> truth w (meta_key (meta x)) = None \<or>
       get w (meta_key (meta x)) = Inr base \<and> truth w (meta_key (meta x)) = Some base"
proof -
  from assms(1) [unfolded optimistic_def, THEN spec, THEN spec, THEN spec, THEN spec, THEN spec, THEN mp, OF assms(2)] show thesis
  proof (elim disjE exE conjE, goal_cases)
    case 1
    then show ?case using that(1) by simp
  next
    case (2 base m y)
    then show ?case using that(2) [OF 2(1-4)] by simp
  next
    case (3 base m y)
    then show ?case using that(2) [OF 3(1-4)] by simp
  qed
qed

text \<open>The client of the policy controller. \<open>reread\<close> is the read of the upsert; nothing relates it to an earlier read of the same call.\<close>

locale optimistic_client = quiet_client c "\<lambda>w w'. truth w' = truth w"
  for c :: "'w client" and truth :: "'w \<Rightarrow> NamespacedName \<Rightarrow> NetworkPolicy option" +
  fixes reread :: "'w \<Rightarrow> NamespacedName \<Rightarrow> error + NetworkPolicy"
  assumes np_key: "getNP c w k = Inr np \<Longrightarrow> meta_key (np_Meta np) = k"
    and np_upsert: "optimistic reread truth (createOrUpdateNP c) np_Meta np_Spec"
    and np_delete: "deleteNP c w x = (w', e) \<Longrightarrow> truth w' = truth w \<or> truth w' = (truth w)(meta_key (np_Meta x) := None)"
    and ap_upsert: "createOrPatchAP c w ap i = (w', t) \<Longrightarrow> truth w' = truth w"

text \<open>An object that \<open>SetControllerReference\<close> lets a policy take over: it has no controller, or one with the name of the policy.\<close>

definition adoptable :: "helpers \<Rightarrow> WorkloadNetworkPolicy \<Rightarrow> NetworkPolicy \<Rightarrow> bool" where
  "adoptable h p np \<longleftrightarrow>
     (case getControllerOf h (om_OwnerReferences (np_Meta np)) of
        None \<Rightarrow> True
      | Some r \<Rightarrow> or_Kind r = WorkloadNetworkPolicyKind \<and> or_Name r = wnp_Name p)"

text \<open>What one call may do to the NetworkPolicies on the server: nothing; render the policy that was read, over nothing, over an object of its own, or over an
  adoptable one that the first read did not return; or, in monitor mode, delete the name of the policy if the cached object was its own.\<close>

definition np_step :: "helpers \<Rightarrow> 'w client \<Rightarrow> 'w \<Rightarrow> WorkloadNetworkPolicy list \<Rightarrow>
    (NamespacedName \<Rightarrow> NetworkPolicy option) \<Rightarrow> (NamespacedName \<Rightarrow> NetworkPolicy option) \<Rightarrow> bool" where
  "np_step h c w ps t t' \<longleftrightarrow> t' = t \<or>
     (\<exists>p \<in> set ps. \<exists>y. wnp_Mode p \<noteq> WorkloadNetworkPolicyModeMonitor \<and> t' = t(meta_key (wnp_Meta p) \<mapsto> y) \<and> rendered_np h p y \<and>
        (case t (meta_key (wnp_Meta p)) of
           None \<Rightarrow> True
         | Some np \<Rightarrow> owned_by h np_Meta p np \<or> adoptable h p np \<and> getNP c w (meta_key (wnp_Meta p)) \<noteq> Inr np)) \<or>
     (\<exists>p \<in> set ps. \<exists>cached. wnp_Mode p = WorkloadNetworkPolicyModeMonitor \<and> t' = t(meta_key (wnp_Meta p) := None) \<and>
        getNP c w (meta_key (wnp_Meta p)) = Inr cached \<and> owned_by h np_Meta p cached)"

lemma np_step_refl [simp]: "np_step h c w ps t t"
  by (simp add: np_step_def)

lemma mutateNetworkPolicy_adopts:
  assumes "owner_helpers_ok h" and "mutateNetworkPolicy h p spec base = Inr m"
  shows "adoptable h p base"
proof -
  from assms(2) obtain refs where "setControllerReference h WorkloadNetworkPolicyKind (wnp_Meta p) (setManagedByLabel (np_Meta base)) = Inr refs"
    by (auto simp: mutateNetworkPolicy_def Let_def split: sum.splits)
  moreover have "om_OwnerReferences (setManagedByLabel (np_Meta base)) = om_OwnerReferences (np_Meta base)" by (simp add: setManagedByLabel_def)
  ultimately show ?thesis using assms(1) unfolding owner_helpers_ok_def adoptable_def by metis
qed

context optimistic_client
begin

lemma protect_step:
  assumes "owner_helpers_ok h" and "reconcileProtect h c w p np = Some (w', e)" and "meta_key (np_Meta np) = meta_key (wnp_Meta p)"
    and "wnp_Mode p \<noteq> WorkloadNetworkPolicyModeMonitor"
    and "\<And>base. getNP c w (meta_key (wnp_Meta p)) = Inr base \<Longrightarrow> owned_by h np_Meta p base"
  shows "np_step h c w [p] (truth w) (truth w')"
proof -
  from assms(2) obtain spec r where cu: "Kubernetes (wnp_Backend p) = Some spec"
    "createOrUpdateNP c w np (mutateNetworkPolicy h p spec) = (w', r)"
    by (auto simp: reconcileProtect_def split: option.splits prod.splits sum.splits)
  have rendered: "rendered_np h p y" if "mutateNetworkPolicy h p spec base = Inr m" "user_meta (np_Meta y) = user_meta (np_Meta m)"
      "np_Spec y = np_Spec m" for base m y
    using mutateNetworkPolicy_ok [OF assms(1) that(1)] user_meta_eqD(3,5) [OF that(2)] that(3) cu(1) assms(4)
    by (simp add: rendered_np_def owned_by_def)
  from np_upsert cu(2) show ?thesis
  proof (cases rule: optimisticE)
    case 1
    then show ?thesis by simp
  next
    case (2 base m y)
    from mutateNetworkPolicy_adopts [OF assms(1) 2(2)] 2(5) assms(3,5)
    have "case truth w (meta_key (wnp_Meta p)) of None \<Rightarrow> True
        | Some np \<Rightarrow> owned_by h np_Meta p np \<or> adoptable h p np \<and> getNP c w (meta_key (wnp_Meta p)) \<noteq> Inr np" by auto
    with 2(1) rendered [OF 2(2-4)] assms(3,4) show ?thesis
      unfolding np_step_def by (intro disjI2 disjI1 bexI [of _ p] exI [of _ y] conjI) simp_all
  qed
qed

lemma K8s_step:
  assumes "owner_helpers_ok h" and "reconcileK8sPolicy h c w p = Some (w', e)"
  shows "np_step h c w [p] (truth w) (truth w')"
proof (cases "getNP c w (meta_key (wnp_Meta p))")
  case (Inl err)
  have "meta_key (meta_named (wnp_Namespace p) (wnp_Name p)) = meta_key (wnp_Meta p)" by (simp add: meta_key_def)
  with Inl have "np_step h c w [p] (truth w) (truth w')"
    if "reconcileProtect h c w p \<lparr>np_Meta = meta_named (wnp_Namespace p) (wnp_Name p), np_Spec = empty_np_spec\<rparr> = Some (w', e)"
      "wnp_Mode p \<noteq> WorkloadNetworkPolicyModeMonitor"
    using protect_step [OF assms(1) that(1) _ that(2)] by simp
  with Inl assms show ?thesis
    by (auto simp: reconcileK8sPolicy_def wnp_NamespacedName_def Let_def split: if_splits)
next
  case (Inr np)
  note key = np_key [OF Inr]
  have del: "np_step h c w [p] (truth w) (truth w1)"
    if "deleteNP c w np = (w1, e1)" "wnp_Mode p = WorkloadNetworkPolicyModeMonitor" "owned_by h np_Meta p np" for w1 e1
    using np_delete [OF that(1)] that(2,3) Inr key unfolding np_step_def by auto
  from Inr assms key protect_step [OF assms(1), of w p np w'] show ?thesis
    by (auto simp: reconcileK8sPolicy_def wnp_NamespacedName_def owned_by_def [symmetric] Let_def
        split: if_splits dest: del)
qed

lemma policy_step:
  assumes "owner_helpers_ok h" and "policy_Reconcile h c r req = Some (r', e)"
  shows "np_step h c (pr_cluster r) (read_policy c (pr_cluster r) req) (truth (pr_cluster r)) (truth (pr_cluster r'))"
proof (cases "getWNP c (pr_cluster r) req")
  case (Inl err)
  with assms(2) show ?thesis by (simp add: policy_Reconcile_def np_step_def)
next
  case (Inr p)
  have istio: "truth w1 = truth w" if "reconcileIstioPolicy h c w p = Some (w1, err)" for w w1 err
    using that by (auto simp: reconcileIstioPolicy_def Let_def split: sum.splits if_splits option.splits prod.splits dest: ap_upsert)
  have rec: "np_step h c w [p] (truth w) (truth w1)" if "reconcilePolicy h c w p = Some (w1, cond, err)" for w w1 cond err
    using that K8s_step [OF assms(1), of w p w1] istio [of w w1]
    by (auto simp: reconcilePolicy_def split: sum.splits if_splits option.splits)
  have upd: "truth (pr_cluster r2) = truth (pr_cluster r1)" if "updateReadyCondition h c r1 p cond = (r2, err)" for r1 r2 cond err
    using updateReadyCondition_quiet [OF that] .
  have both: "truth (pr_cluster r2) = truth w1" if "updateReadyCondition h c (r1\<lparr>pr_cluster := w1\<rparr>) p cond = (r2, err)" for w1 r1 r2 cond err
    using upd [OF that] by simp
  from Inr assms(2) show ?thesis
    by (auto simp: policy_Reconcile_def read_policy_def Let_def upd both split: sum.splits if_splits option.splits prod.splits intro: rec)
qed

end

text \<open>The truth of the cluster: what the server has.\<close>

definition server_has :: "('o \<Rightarrow> ObjectMeta) \<Rightarrow> (store \<Rightarrow> 'o list) \<Rightarrow> lagging \<Rightarrow> NamespacedName \<Rightarrow> 'o option" where
  "server_has meta sel w k = has_obj meta (sel (lg_server w)) k"

abbreviation lag_truth :: "lagging \<Rightarrow> NamespacedName \<Rightarrow> NetworkPolicy option" where
  "lag_truth \<equiv> server_has np_Meta st_nps"

lemma server_has_put:
  assumes "meta_key (meta y) = k" and "\<And>xs w. sel (upd xs w) = xs"
  shows "server_has meta sel (w\<lparr>lg_server := upd (mem_put meta k (sel (lg_server w)) y) (lg_server w)\<rparr>) = (server_has meta sel w)(k \<mapsto> y)"
  using assms mem_find_put_other [of _ meta y "sel (lg_server w)"] by (auto simp: server_has_def has_obj_def mem_find_put fun_eq_iff)

lemma lag_truth_del:
  "lag_truth (w\<lparr>lg_server := (lg_server w)\<lparr>st_nps := mem_del np_Meta (st_nps (lg_server w)) k\<rparr>\<rparr>) = (lag_truth w)(k := None)"
  by (auto simp: server_has_def has_obj_def mem_find_del mem_find_def [of _ "[]"] fun_eq_iff)

lemma server_has_other: "sel (lg_server w') = sel (lg_server w) \<Longrightarrow> server_has meta sel w' = server_has meta sel w"
  by (simp add: server_has_def fun_eq_iff)

lemma lag_upsert_optimistic:
  assumes "\<And>xs w. sel (upd xs w) = xs"
  shows "optimistic (\<lambda>w. mem_find meta (sel (lg_reread w))) (server_has meta sel) (lag_upsert meta sel upd send_update) meta spec"
  unfolding optimistic_def
proof (intro allI impI)
  fix w x f w' r
  assume u: "lag_upsert meta sel upd send_update w x f = (w', r)"
  let ?k = "meta_key (meta x)"
  note put = server_has_put [where sel = sel and upd = upd and w = w and k = ?k, OF _ assms]
  show "server_has meta sel w' = server_has meta sel w \<and>
        (\<forall>y. r = Inr y \<longrightarrow> (\<exists>base. mem_find meta (sel (lg_reread w)) ?k = Inr base \<and> f base = Inr base)) \<or>
      (\<exists>base m y. server_has meta sel w' = (server_has meta sel w)(?k \<mapsto> y) \<and> f base = Inr m \<and> user_meta (meta y) = user_meta (meta m) \<and>
         spec y = spec m \<and>
         (base = x \<and> gone (mem_find meta (sel (lg_reread w)) ?k) \<and> server_has meta sel w ?k = None \<or>
          mem_find meta (sel (lg_reread w)) ?k = Inr base \<and> server_has meta sel w ?k = Some base))"
  proof (cases "mem_find meta (sel (lg_reread w)) ?k")
    case (Inl err)
    with u mem_find_Inl [OF Inl] show ?thesis
      by (auto simp: lag_upsert_def Let_def put server_has_def has_obj_def split: sum.splits if_splits)
  next
    case (Inr base)
    with u show ?thesis
      by (auto simp: lag_upsert_def Let_def put server_has_def has_obj_def send_update_key split: sum.splits if_splits)
  qed
qed

lemma lag_optimistic:
  "optimistic (\<lambda>w. mem_find np_Meta (st_nps (lg_reread w))) lag_truth (createOrUpdateNP (lag_client idx)) np_Meta np_Spec"
  "optimistic (\<lambda>w. mem_find wnpp_Meta (st_wnpps (lg_reread w))) (server_has wnpp_Meta st_wnpps) (createOrUpdateWNPP (lag_client idx)) wnpp_Meta wnpp_Spec"
  by (simp_all add: lag_client_def mem_client_def lag_upsert_optimistic)

interpretation lag_np: optimistic_client "lag_client idx" lag_truth "\<lambda>w. mem_find np_Meta (st_nps (lg_reread w))" for idx
proof
  show "optimistic (\<lambda>w. mem_find np_Meta (st_nps (lg_reread w))) lag_truth (createOrUpdateNP (lag_client idx)) np_Meta np_Spec" by (rule lag_optimistic)
next
  fix w ap i w' t
  assume "createOrPatchAP (lag_client idx) w ap i = (w', t)"
  then have "lag_upsert ap_Meta st_aps (\<lambda>xs w. w\<lparr>st_aps := xs\<rparr>) send_patch w ap i = (w', t)" by (simp add: lag_client_def)
  from lag_upsert_frame [OF this] show "lag_truth w' = lag_truth w" by (auto intro: server_has_other)
next
  fix w pp f w' r
  assume "createOrUpdateWNPP (lag_client idx) w pp f = (w', r)"
  then have "lag_upsert wnpp_Meta st_wnpps (\<lambda>xs w. w\<lparr>st_wnpps := xs\<rparr>) send_update w pp f = (w', r)" by (simp add: lag_client_def)
  from lag_upsert_frame [OF this] show "lag_truth w' = lag_truth w" by (auto intro: server_has_other)
qed (auto simp: lag_client_def on_server_def mem_client_def lag_truth_del split: sum.splits prod.splits
    intro!: server_has_other dest: mem_find_key)

text \<open>The creation of a policy and the deletion of a proposal are of the server as well.\<close>

lemma lag_creates:
  "create_wnp_ok (lag_client idx) (server_has wnp_Meta st_wnps)" "delete_wnpp_local (lag_client idx) (server_has wnp_Meta st_wnps)"
  by (auto simp: create_wnp_ok_def delete_wnpp_local_def lag_client_def mem_client_def on_server_def server_has_def has_obj_def mem_find_def find_snoc
      fun_eq_iff split: sum.splits option.splits prod.splits)

section \<open>Properties\<close>

text \<open>C7. What stale reads can cost a foreign NetworkPolicy. The policy controller reads from a cache that may be behind the API
  server by any amount, and the read inside \<open>CreateOrUpdate\<close> may see another version than the one that ownership was checked on. What one call does to
  the NetworkPolicies on the server is nothing, or the rendering of the policy that was read, in protect mode, over no object, over one that this policy controls
  on the server, or over one without a controller (or whose controller is an earlier policy of the same name) that the first read did not return; or the deletion
  of the policy's name in monitor mode when the cached object was controlled by the policy. So outside monitor mode a NetworkPolicy on the server
  that another object controls is never changed, and one without a controller is not changed if the first read returned it.\<close>

theorem stale_reads_keep_foreign:
  assumes "optimistic_client c truth reread" and "owner_helpers_ok h" and "policy_Reconcile h c r req = Some (r', e)"
  shows "np_step h c (pr_cluster r) (read_policy c (pr_cluster r) req) (truth (pr_cluster r)) (truth (pr_cluster r')) \<and>
    (\<forall>k np. truth (pr_cluster r) k = Some np \<and>
       (\<forall>p \<in> set (read_policy c (pr_cluster r) req). wnp_Mode p \<noteq> WorkloadNetworkPolicyModeMonitor \<and> \<not> owned_by h np_Meta p np \<and>
          (\<not> adoptable h p np \<or> getNP c (pr_cluster r) k = Inr np)) \<longrightarrow>
       truth (pr_cluster r') k = Some np)"
proof -
  from optimistic_client.policy_step [OF assms] have
    "np_step h c (pr_cluster r) (read_policy c (pr_cluster r) req) (truth (pr_cluster r)) (truth (pr_cluster r'))" .
  then show ?thesis unfolding np_step_def by (auto split: option.splits)
qed

text \<open>C8. Learning on stale reads loses nothing. The learning controller reads proposals from a cache that may be behind the API server
  by any amount. Whatever one call for a Kubernetes flow does and reports, a proposal that the server had before it the server has
  afterwards, and each flow in its rules is still there: a write that rests on an older version is refused, so no flow that was
  learned concurrently is overwritten. When the call succeeds for a workload without a promoted policy, the flow is in the rules of the
  proposal on the server, or was already in those of the proposal that was read.\<close>

theorem stale_learning_loses_nothing:
  assumes "optimistic reread truth (createOrUpdateWNPP c) wnpp_Meta wnpp_Spec"
    and "reconcileKubernetesProposal h c now r wk peer d proto port = Some (r', e)"
  shows "(\<forall>k p0 s0. truth (lr_cluster r) k = Some p0 \<and> Kubernetes (pspec_Backend (wnpp_Spec p0)) = Some s0 \<longrightarrow>
      (\<exists>p s. truth (lr_cluster r') k = Some p \<and> Kubernetes (pspec_Backend (wnpp_Spec p)) = Some s \<and>
         (\<forall>d' f. flow_in (formatLabelSelector h) d' s0 f \<longrightarrow> flow_in (formatLabelSelector h) d' s f))) \<and>
    (e = None \<and> checkExistingPolicy c (lr_cluster r) (wr_Namespace wk) (getProposalName wk d) = Inr [] \<longrightarrow>
      (\<exists>p s. (truth (lr_cluster r') (proposal_key wk d) = Some p \<or> reread (lr_cluster r) (proposal_key wk d) = Inr p) \<and>
         Kubernetes (pspec_Backend (wnpp_Spec p)) = Some s \<and> flow_in (formatLabelSelector h) d s (buildPeerAndPort peer proto port)))"
proof (cases "checkExistingPolicy c (lr_cluster r) (wr_Namespace wk) (getProposalName wk d) = Inr []")
  case False
  with assms(2) have "lr_cluster r' = lr_cluster r"
    by (auto simp: reconcileKubernetesProposal_def getProposalMetadata_def Let_def
        split: sum.splits list.splits if_splits dest!: evaluateMonitorViolation_cluster)
  with False show ?thesis by auto
next
  case True
  let ?f = "mutateKubernetesProposal h wk peer d proto port"
  have key: "meta_key (wnpp_Meta (getProposalMetadata wk d)) = proposal_key wk d" by (simp add: getProposalMetadata_def proposal_key_def)
  from True assms(2) obtain w q where cu: "createOrUpdateWNPP c (lr_cluster r) (getProposalMetadata wk d) ?f = (w, q)"
    and w: "lr_cluster r' = w" "e = None \<Longrightarrow> \<exists>y. q = Inr y"
    by (auto simp: reconcileKubernetesProposal_def Let_def getProposalMetadata_def split: prod.splits sum.splits)
  from assms(1) cu show ?thesis
  proof (cases rule: optimisticE)
    case 1
    from mutateKubernetesProposal_ok 1(2) w(2) have "e = None \<Longrightarrow> \<exists>p s. reread (lr_cluster r) (proposal_key wk d) = Inr p \<and>
        Kubernetes (pspec_Backend (wnpp_Spec p)) = Some s \<and> flow_in (formatLabelSelector h) d s (buildPeerAndPort peer proto port)"
      unfolding key by metis
    with 1(1) w(1) show ?thesis by auto
  next
    case (2 base m y)
    from mutateKubernetesProposal_ok [OF 2(2)] 2(4) obtain s where s: "Kubernetes (pspec_Backend (wnpp_Spec y)) = Some s"
      "flow_in (formatLabelSelector h) d s (buildPeerAndPort peer proto port)"
      "\<And>s0 d' f. Kubernetes (pspec_Backend (wnpp_Spec base)) = Some s0 \<Longrightarrow> flow_in (formatLabelSelector h) d' s0 f \<Longrightarrow> flow_in (formatLabelSelector h) d' s f"
      by auto
    from 2(5) have "truth (lr_cluster r) (proposal_key wk d) \<in> {None, Some base}" unfolding key by auto
    with 2(1) s w(1) show ?thesis unfolding key by auto
  qed
qed

text \<open>Two flows of one workload, and a cache that sees neither: the second call fails and the first flow stays.\<close>

definition sample_stale_learn :: "lagging \<Rightarrow> int32 \<Rightarrow> (lagging LearningReconciler \<times> error option) option" where
  "sample_stale_learn w port = reconcileKubernetesProposal mem_helpers (lag_client sample_index) 0
     \<lparr>lr_cluster = w, lr_eventChan = [], lr_violationBuffer = \<lparr>buf = [], pos = 0, capacity = 0\<rparr>, lr_violationOtelLogger = None\<rparr>
     (sample_wk ''web'') (sample_wk ''api'') PolicyTypeEgress ''TCP'' port"

definition sample_first_learned :: lagging where
  "sample_first_learned = lr_cluster (fst (the (sample_stale_learn
     (in_sync (empty_store\<lparr>st_workloads := [sample_deployment ''ns'' ''web'']\<rparr>)) 80)))"

definition sample_has_flow :: "lagging \<Rightarrow> int32 \<Rightarrow> bool" where
  "sample_has_flow w port =
     (case server_has wnpp_Meta st_wnpps w (proposal_key (sample_wk ''web'') PolicyTypeEgress) of
        None \<Rightarrow> False
      | Some p \<Rightarrow> (case Kubernetes (pspec_Backend (wnpp_Spec p)) of
          None \<Rightarrow> False
        | Some s \<Rightarrow> flow_in (formatLabelSelector mem_helpers) PolicyTypeEgress s (buildPeerAndPort (sample_wk ''api'') ''TCP'' port)))"

lemma sample_second_learned:
  "map_option (map_option error_reason \<circ> snd) (sample_stale_learn sample_first_learned 443) = Some (Some (Some AlreadyExists))"
  "sample_has_flow sample_first_learned 80"
  by code_simp+

theorem stale_learning_loses_nothing_witness:
  "\<exists>r' e. sample_stale_learn sample_first_learned 443 = Some (r', Some e) \<and> sample_has_flow (lr_cluster r') 80"
proof -
  from sample_second_learned(1) obtain r' e where r': "sample_stale_learn sample_first_learned 443 = Some (r', Some e)" by auto
  let ?k = "proposal_key (sample_wk ''web'') PolicyTypeEgress"
  let ?f = "buildPeerAndPort (sample_wk ''api'') ''TCP'' 80"
  from sample_second_learned(2) obtain p s where p: "server_has wnpp_Meta st_wnpps sample_first_learned ?k = Some p"
    "Kubernetes (pspec_Backend (wnpp_Spec p)) = Some s" and f: "flow_in (formatLabelSelector mem_helpers) PolicyTypeEgress s ?f"
    unfolding sample_has_flow_def by (auto simp del: PolicyTypeEgress_def split: option.splits)
  from stale_learning_loses_nothing [OF lag_optimistic(2) r' [unfolded sample_stale_learn_def], THEN conjunct1, THEN spec, THEN spec, THEN spec,
      of ?k p s] p obtain q t where q: "server_has wnpp_Meta st_wnpps (lr_cluster r') ?k = Some q" "Kubernetes (pspec_Backend (wnpp_Spec q)) = Some t"
      and keep: "\<forall>d' g. flow_in (formatLabelSelector mem_helpers) d' s g \<longrightarrow> flow_in (formatLabelSelector mem_helpers) d' t g"
    by auto
  from keep [THEN spec, THEN spec, THEN mp, OF f] q have "sample_has_flow (lr_cluster r') 80" unfolding sample_has_flow_def by simp
  with r' show ?thesis by blast
qed

text \<open>NetworkPolicies under the name of the sample policy, with different owners: in the cache, in the cache as the upsert reads it, and on the
  server.\<close>

definition sample_np :: "OwnerReference list \<Rightarrow> NetworkPolicy" where
  "sample_np refs = \<lparr>np_Meta = (meta_named ''back'' ''p'')\<lparr>om_OwnerReferences := refs\<rparr>, np_Spec = empty_np_spec\<lparr>PolicyTypes := [''Egress'']\<rparr>\<rparr>"

definition sample_controller :: "string \<Rightarrow> UID \<Rightarrow> OwnerReference list" where
  "sample_controller kind uid = [\<lparr>or_APIVersion = [], or_Kind = kind, or_Name = ''p'', or_UID = uid, or_Controller = Some True, or_BlockOwnerDeletion = Some True\<rparr>]"

definition sample_nps :: "WorkloadNetworkPolicyMode \<Rightarrow> NetworkPolicy list \<Rightarrow> NetworkPolicy list \<Rightarrow> NetworkPolicy list \<Rightarrow> lagging" where
  "sample_nps mode cached reread server =
     (let s = empty_store\<lparr>st_wnps := [sample_target_wnp\<lparr>wnp_Spec := (wnp_Spec sample_target_wnp)\<lparr>spec_Mode := mode\<rparr>\<rparr>]\<rparr> in
      \<lparr>lg_server = s\<lparr>st_nps := server\<rparr>, lg_cache = s\<lparr>st_nps := cached\<rparr>, lg_reread = s\<lparr>st_nps := reread\<rparr>\<rparr>)"

abbreviation sample_back :: NamespacedName where
  "sample_back \<equiv> \<lparr>nn_Namespace = ''back'', nn_Name = ''p''\<rparr>"

definition sample_stale_call :: "lagging \<Rightarrow> (lagging PolicyReconciler \<times> error option) option" where
  "sample_stale_call w = policy_Reconcile mem_helpers (lag_client sample_index)
     \<lparr>pr_cluster = w, pr_selectorOverlaps = None, pr_duplicateTargets = None\<rparr> sample_back"

text \<open>The first read finds nothing, the second one an object of another controller: it is refused, and stays.\<close>

definition sample_taken :: lagging where
  "sample_taken = sample_nps ''protect'' [] [sample_np (sample_controller ''Other'' ''x'')] [sample_np (sample_controller ''Other'' ''x'')]"

theorem stale_reads_keep_foreign_witness:
  "\<exists>r' e. sample_stale_call sample_taken = Some (r', Some e) \<and> lag_truth (pr_cluster r') sample_back = Some (sample_np (sample_controller ''Other'' ''x''))"
proof -
  let ?r = "\<lparr>pr_cluster = sample_taken, pr_selectorOverlaps = None, pr_duplicateTargets = None\<rparr> :: lagging PolicyReconciler"
  let ?np = "sample_np (sample_controller ''Other'' ''x'')"
  have "map_option (\<lambda>x. snd x \<noteq> None) (sample_stale_call sample_taken) = Some True" by code_simp
  then obtain r' e where r': "sample_stale_call sample_taken = Some (r', Some e)" by auto
  have t: "lag_truth (pr_cluster ?r) sample_back = Some ?np"
    by (simp add: server_has_def sample_taken_def sample_nps_def Let_def mem_find_def sample_np_def meta_named_def meta_key_def)
  have "list_all (\<lambda>p. wnp_Mode p \<noteq> WorkloadNetworkPolicyModeMonitor \<and> \<not> owned_by mem_helpers np_Meta p ?np \<and> \<not> adoptable mem_helpers p ?np)
      (read_policy (lag_client sample_index) sample_taken sample_back)" by code_simp
  then have f: "\<forall>p \<in> set (read_policy (lag_client sample_index) (pr_cluster ?r) sample_back).
      wnp_Mode p \<noteq> WorkloadNetworkPolicyModeMonitor \<and> \<not> owned_by mem_helpers np_Meta p ?np \<and> \<not> adoptable mem_helpers p ?np"
    by (simp add: list_all_iff)
  from stale_reads_keep_foreign [OF lag_np.optimistic_client_axioms mem_helpers_owner r' [unfolded sample_stale_call_def]] t f r' show ?thesis
    by blast
qed

text \<open>What is left open. A NetworkPolicy of the same name that nobody controls appears between the two reads: the ownership check has not seen it, and
  \<open>SetControllerReference\<close> accepts it. It is overwritten and adopted, and the call reports success.\<close>

lemma late_adoption:
  "map_option (\<lambda>(r', e). (map_option (\<lambda>np. (PolicyTypes (np_Spec np), map or_Kind (om_OwnerReferences (np_Meta np)))) (lag_truth (pr_cluster r') sample_back), e))
     (sample_stale_call (sample_nps ''protect'' [] [sample_np []] [sample_np []])) = Some (Some ([], [''WorkloadNetworkPolicy'']), None)"
  by code_simp

text \<open>In monitor mode a stale cache costs a foreign NetworkPolicy its life: the deletion goes by name.\<close>

lemma stale_delete:
  "map_option (\<lambda>(r', e). (lag_truth (pr_cluster r') sample_back = None, e))
     (sample_stale_call (sample_nps ''monitor'' [sample_np (sample_controller ''WorkloadNetworkPolicy'' [])] [] [sample_np []])) = Some (True, None)"
  by code_simp

text \<open>And a merge patch goes to whatever has the name: an AuthorizationPolicy that denies, with a rule of its own, replaced the one in
  the cache. It gets the rules of the policy and, since the cached action was the one to set, goes on to deny: what the policy
  means to allow is denied, and the call reports success.\<close>

definition sample_ap :: "OwnerReference list \<Rightarrow> AuthorizationAction \<Rightarrow> string \<Rightarrow> AuthorizationPolicy" where
  "sample_ap refs action prin = \<lparr>ap_Meta = (meta_named ''back'' ''p'')\<lparr>om_OwnerReferences := refs\<rparr>,
     ap_Spec = \<lparr>aps_Action = action, aps_Selector = None, aps_Rules = [\<lparr>apr_From = [[prin]], apr_To = []\<rparr>]\<rparr>\<rparr>"

definition sample_istio_replaced :: lagging where
  "sample_istio_replaced =
     (let wnp = sample_target_wnp\<lparr>wnp_Spec := (wnp_Spec sample_target_wnp)\<lparr>spec_Backend :=
            \<lparr>Backend = ''istio'', Kubernetes = None, Istio = Some (open_rule_spec ''new'')\<rparr>\<rparr>\<rparr> in
      \<lparr>lg_server = empty_store\<lparr>st_wnps := [wnp], st_aps := [sample_ap [] DENY ''foreign'']\<rparr>,
       lg_cache = empty_store\<lparr>st_wnps := [wnp], st_aps := [sample_ap (sample_controller ''WorkloadNetworkPolicy'' []) ALLOW ''old'']\<rparr>,
       lg_reread = empty_store\<lparr>st_wnps := [wnp], st_aps := [sample_ap (sample_controller ''WorkloadNetworkPolicy'' []) ALLOW ''old'']\<rparr>\<rparr>)"

lemma stale_patch:
  "map_option (\<lambda>(r', e). (map (\<lambda>ap. (aps_Action (ap_Spec ap), map apr_From (aps_Rules (ap_Spec ap)))) (st_aps (lg_server (pr_cluster r'))), e))
     (policy_Reconcile mem_helpers (lag_client sample_index)
       \<lparr>pr_cluster = sample_istio_replaced, pr_selectorOverlaps = None, pr_duplicateTargets = None\<rparr> sample_back) =
   Some ([(DENY, [[[''new'']]])], None)"
  by code_simp

end
