(* ===== verification/EndToEnd.thy ===== *)
theory EndToEnd
  imports System LagCluster
begin

text \<open>
  The program from end to end. A run of the wired system with the messages that the providers send, the policy and the proposal
  controller and the writes of users: every step is a step of System or of Provenance. Each learning event that is pending or was handled
  comes from a message, so the permissions of the data plane are traced back to messages.
\<close>

section \<open>Model\<close>

text \<open>A message of Goldmane or Hubble, with the time of its arrival, or a log record with the attributes of its resource.\<close>

datatype message =
    Goldmane time "FlowResult option"
  | Hubble time "GetFlowsResponse option"
  | Otlp time strmap LogRecord

abbreviation sys_cluster :: "'w System \<Rightarrow> 'w" where
  "sys_cluster s \<equiv> lr_cluster (sys_learner s)"

definition set_cluster :: "'w System \<Rightarrow> 'w \<Rightarrow> 'w System" where
  "set_cluster s w = set_learner s ((sys_learner s)\<lparr>lr_cluster := w\<rparr>)"

text \<open>What a scraper does with a message; the codec is that of the flow dumper.\<close>

definition receives :: "helpers \<Rightarrow> 'w client \<Rightarrow> 'w Scraper \<Rightarrow> message \<Rightarrow> 'w Scraper \<Rightarrow> bool" where
  "receives h c sc m sc' \<longleftrightarrow>
     (case m of
        Goldmane now f \<Rightarrow> \<exists>codec. stream_step codec (\<lambda>w msg. resolveParsedFlow (calico_resolve h c w) c w (parseCalicoFlow now msg)) sc f = Some sc'
      | Hubble now f \<Rightarrow> \<exists>codec. stream_step codec (cilium_processFlow h c now) sc f = Some sc'
      | Otlp now ra r \<Rightarrow> \<exists>codec. export_record h (Some \<lparr>en_client = Some c\<rparr>) codec now ra sc r = Some sc')"

text \<open>\<open>whole_run h c v w ms tr s\<close>: the system was started on the cluster \<open>w\<close> and is in state \<open>s\<close>, after the messages \<open>ms\<close>, each with the cluster
  that its workloads were resolved on, and the actions \<open>tr\<close>, among them the events that the learning controller has handled.\<close>

inductive whole_run ::
    "helpers \<Rightarrow> 'w client \<Rightarrow> 'w holdings \<Rightarrow> 'w \<Rightarrow> (message \<times> 'w) list \<Rightarrow> action list \<Rightarrow> 'w System \<Rightarrow> bool" for h c v w where
  start: "whole_run h c v w [] [] (run_init zero w logger dumpSize)"
| message: "whole_run h c v w ms tr s \<Longrightarrow> has_room s \<Longrightarrow> receives h c (sys_scraper s) m sc \<Longrightarrow>
    whole_run h c v w (ms @ [(m, sys_cluster s)]) tr (s\<lparr>sys_scraper := sc\<rparr>)"
| deliver: "whole_run h c v w ms tr s \<Longrightarrow> sys_chan s = ev # rest \<Longrightarrow>
    whole_run h c v w ms tr ((set_learner s ((sys_learner s)\<lparr>lr_eventChan := rest\<rparr>))
      \<lparr>sys_queue := ProcessEventHandler (GenericEvent ev) (sys_queue s)\<rparr>)"
| learn: "whole_run h c v w ms tr s \<Longrightarrow> has_room s \<Longrightarrow> sys_queue s = xs @ ev # ys \<Longrightarrow> q \<in> {xs @ ys, xs @ ys @ [ev]} \<Longrightarrow>
    learning_Reconcile h c now (sys_learner s) ev = Some (l, e) \<Longrightarrow>
    whole_run h c v w ms (tr @ [Observed ev]) ((set_learner s l)\<lparr>sys_queue := q\<rparr>)"
| sync: "whole_run h c v w ms tr s \<Longrightarrow> StatusSync.sync h c rfc3339 visit now (sync_view s) = Some (r, e) \<Longrightarrow>
    (\<forall>m. set (visit m) \<subseteq> set m) \<Longrightarrow> whole_run h c v w ms tr (put_sync s r)"
| policy: "whole_run h c v w ms tr s \<Longrightarrow> pr_cluster p = sys_cluster s \<Longrightarrow> policy_Reconcile h c p req = Some (p', e) \<Longrightarrow>
    whole_run h c v w ms tr (set_cluster s (pr_cluster p'))"
| proposal: "whole_run h c v w ms tr s \<Longrightarrow> proposal_Reconcile h c (sys_cluster s) req = (w', e) \<Longrightarrow>
    whole_run h c v w ms tr (set_cluster s w')"
| user: "whole_run h c v w ms tr s \<Longrightarrow> wrote v act (sys_cluster s) w' \<Longrightarrow> whole_run h c v w ms (tr @ [act]) (set_cluster s w')"

section \<open>What a message shows\<close>

text \<open>An allowed flow that the destination reports, between two workload endpoints; their references resolve to the ends of the
  event.\<close>

definition goldmane_shows :: "helpers \<Rightarrow> 'w client \<Rightarrow> 'w \<Rightarrow> FlowResult option \<Rightarrow> LearningEvent \<Rightarrow> bool" where
  "goldmane_shows h c w f ev \<longleftrightarrow>
     (\<exists>key t src dst. f = Some \<lparr>fr_Flow = Some \<lparr>cf_Key = Some key, cf_StartTime = t\<rparr>\<rparr> \<and>
        fk_Action key = Allow \<and> fk_Reporter key = Dst \<and> isWorkload (key_source key) \<and> isWorkload (key_dest key) \<and>
        calico_resolve h c w (wr_zero\<lparr>wr_Namespace := fk_SourceNamespace key, wr_OwnerName := fk_SourceName key\<rparr>) = Inr src \<and>
        calico_resolve h c w (wr_zero\<lparr>wr_Namespace := fk_DestNamespace key, wr_OwnerName := fk_DestName key\<rparr>) = Inr dst \<and>
        le_Source ev = Some src \<and> le_Dest ev = Some dst \<and> sint (le_DstPort ev) = sint (fk_DestPort key) \<and>
        le_Protocol ev = to_upper (fk_Proto key) \<and> le_Backend ev = PolicyBackendKubernetes)"

text \<open>A flow that is no reply and was not dropped.\<close>

definition hubble_shows :: "helpers \<Rightarrow> 'w client \<Rightarrow> 'w \<Rightarrow> GetFlowsResponse option \<Rightarrow> LearningEvent \<Rightarrow> bool" where
  "hubble_shows h c w f ev \<longleftrightarrow>
     (\<exists>flow s d src dst. f = Some (GetFlowsResponse_Flow (Some flow)) \<and> hf_IsReply flow \<noteq> Some True \<and> hf_Verdict flow \<noteq> DROPPED \<and>
        fromEndpointToWorkloadRef (hf_Source flow) = Inr s \<and> fromEndpointToWorkloadRef (hf_Destination flow) = Inr d \<and>
        cilium_resolve h c w s = Inr src \<and> cilium_resolve h c w d = Inr dst \<and>
        le_Source ev = Some src \<and> le_Dest ev = Some dst \<and> extractPortAndProtocol flow = Inr (le_DstPort ev, le_Protocol ev) \<and>
        le_Backend ev = PolicyBackendKubernetes)"

text \<open>A record of type \<open>learn\<close> with the SPIFFE identity of the source and the pod and port of the destination.\<close>

definition otlp_shows :: "helpers \<Rightarrow> 'w client \<Rightarrow> 'w \<Rightarrow> strmap \<Rightarrow> LearningEvent \<Rightarrow> bool" where
  "otlp_shows h c w attrs ev \<longleftrightarrow>
     (\<exists>src dst. map_get0 attrs eventTypeKey = EventTypeLearn \<and>
        map_get0 attrs srcIdentityKey = spiffeURIPrefix @ wr_Identity src \<and> wr_Identity src \<noteq> [] \<and>
        Get h c w \<lparr>nn_Namespace = map_get0 attrs dstNamespaceKey, nn_Name = map_get0 attrs dstNameKey\<rparr> = Inr dst \<and> IsSupported dst \<and>
        le_Source ev = Some src \<and> le_Dest ev = Some dst \<and> parsePort (map_get0 attrs dstPortKey) = Inr (le_DstPort ev) \<and>
        le_Backend ev = PolicyBackendIstio)"

definition shows_event :: "helpers \<Rightarrow> 'w client \<Rightarrow> message \<times> 'w \<Rightarrow> LearningEvent \<Rightarrow> bool" where
  "shows_event h c x ev \<longleftrightarrow>
     (case x of
        (Goldmane now f, w) \<Rightarrow> goldmane_shows h c w f ev
      | (Hubble now f, w) \<Rightarrow> hubble_shows h c w f ev
      | (Otlp now ra r, w) \<Rightarrow> otlp_shows h c w (mergeAttrMaps ra (attrMap (log_Attributes r))) ev)"

lemma resolveParsedFlow_enqueue:
  "resolveParsedFlow res c w parsed = Some (processFlowEnqueue ev) \<Longrightarrow>
     \<exists>ev0 s d src dst. parsed = processFlowEnqueue ev0 \<and> le_Source ev0 = Some s \<and> le_Dest ev0 = Some d \<and> res s = Inr src \<and> res d = Inr dst \<and>
       ev = ev0\<lparr>le_Source := Some src, le_Dest := Some dst\<rparr>"
  by (auto simp: resolveParsedFlow_def resolveOutcome_def Let_def split: processFlowResult.splits option.splits sum.splits if_splits)

lemma parseCalicoFlow_enqueue:
  assumes "parseCalicoFlow now f = processFlowEnqueue ev"
  shows "\<exists>key t. f = Some \<lparr>fr_Flow = Some \<lparr>cf_Key = Some key, cf_StartTime = t\<rparr>\<rparr> \<and> fk_Action key = Allow \<and> fk_Reporter key = Dst \<and>
    isWorkload (key_source key) \<and> isWorkload (key_dest key) \<and>
    le_Source ev = Some (wr_zero\<lparr>wr_Namespace := fk_SourceNamespace key, wr_OwnerName := fk_SourceName key\<rparr>) \<and>
    le_Dest ev = Some (wr_zero\<lparr>wr_Namespace := fk_DestNamespace key, wr_OwnerName := fk_DestName key\<rparr>) \<and>
    sint (le_DstPort ev) = sint (fk_DestPort key) \<and> le_Protocol ev = to_upper (fk_Proto key) \<and> le_Backend ev = PolicyBackendKubernetes"
proof -
  have "discardCalicoFlow None" by (simp add: discardCalicoFlow_def)
  with assms obtain fr flow key where "f = Some fr" "fr_Flow fr = Some flow" "cf_Key flow = Some key" and keep: "\<not> discardCalicoFlow (Some key)"
    by (cases f; cases "fr_Flow (the f)"; cases "cf_Key (the (fr_Flow (the f)))") (auto simp: parseCalicoFlow_def split: if_splits)
  then have f: "f = Some \<lparr>fr_Flow = Some \<lparr>cf_Key = Some key, cf_StartTime = cf_StartTime flow\<rparr>\<rparr>" by (cases fr; cases flow) simp
  have port: "sint (scast (fk_DestPort key) :: int32) = sint (fk_DestPort key)"
    using discardCalicoFlow_port [OF keep] sint_of_sint_port by blast
  from assms f keep port show ?thesis
    by (auto simp: parseCalicoFlow_def extract_after_discard Let_def split: if_splits Reporter.splits)
       (auto simp: discardCalicoFlow_def Let_def split: if_splits FlowAction.splits)
qed

lemma parseCiliumFlowResponse_enqueue:
  assumes "parseCiliumFlowResponse now flow = Some (processFlowEnqueue ev)"
  shows "\<exists>s d. hf_IsReply flow \<noteq> Some True \<and> hf_Verdict flow \<noteq> DROPPED \<and> fromEndpointToWorkloadRef (hf_Source flow) = Inr s \<and>
    fromEndpointToWorkloadRef (hf_Destination flow) = Inr d \<and> le_Source ev = Some s \<and> le_Dest ev = Some d \<and>
    extractPortAndProtocol flow = Inr (le_DstPort ev, le_Protocol ev) \<and> le_Backend ev = PolicyBackendKubernetes"
proof -
  have kept: "\<exists>s. r = Some s \<and> fromEndpointToWorkloadRef e = Inr s" if "ciliumWorkloadRef e = Inr (r, False)" for e r
    using that by (auto simp: ciliumWorkloadRef_def split: sum.splits if_splits)
  have no: "dropped_flow now flow p q s1 b1 s2 b2 \<noteq> Some (processFlowEnqueue ev)" for p q s1 b1 s2 b2
    by (auto simp: dropped_flow_def split: sum.splits prod.splits option.splits if_splits)
  from assms no show ?thesis
    by (auto simp: parseCiliumFlowResponse_def discardFlow_def split: sum.splits prod.splits if_splits dest!: kept)
qed

lemma istio_learning_event_shows:
  assumes "istio_learning_event h (Some \<lparr>en_client = Some c\<rparr>) w attrs = Some (Some ev)" and "map_get0 attrs eventTypeKey = EventTypeLearn"
  shows "otlp_shows h c w attrs ev"
  using assms
  by (auto simp: istio_learning_event_def GetWorkloadRef_def otlp_shows_def Let_def split: prod.splits if_splits sum.splits
      dest: cut_prefix_found)

section \<open>Events come from messages\<close>

text \<open>A scraper leaves the cluster alone and puts at most an event into the channel that the message shows.\<close>

lemma stream_step_channel:
  assumes "stream_step codec process sc m = Some sc'"
  shows "lr_cluster (sc_learner sc') = lr_cluster (sc_learner sc) \<and>
    (\<forall>ev \<in> set (lr_eventChan (sc_learner sc')). ev \<in> set (lr_eventChan (sc_learner sc)) \<or>
       process (lr_cluster (sc_learner sc)) m = Some (processFlowEnqueue ev))"
  using assms
  by (auto simp: stream_step_def handle_result_def enqueueEvent_def Let_def split: option.splits processFlowResult.splits prod.splits if_splits)

lemma export_record_channel:
  assumes "export_record h e codec now ra sc r = Some sc'"
  shows "lr_cluster (sc_learner sc') = lr_cluster (sc_learner sc) \<and>
    (\<forall>ev \<in> set (lr_eventChan (sc_learner sc')). ev \<in> set (lr_eventChan (sc_learner sc)) \<or>
       map_get0 (mergeAttrMaps ra (attrMap (log_Attributes r))) eventTypeKey = EventTypeLearn \<and>
       istio_learning_event h e (lr_cluster (sc_learner sc)) (mergeAttrMaps ra (attrMap (log_Attributes r))) = Some (Some ev))"
  using assms
  by (auto simp: export_record_def enqueueLearningEvent_def recordPolicyEvent_def enqueueEvent_def Let_def
      split: option.splits prod.splits if_splits)

lemma receives_channel:
  assumes "receives h c sc m sc'"
  shows "lr_cluster (sc_learner sc') = lr_cluster (sc_learner sc) \<and>
    (\<forall>ev \<in> set (lr_eventChan (sc_learner sc')). ev \<in> set (lr_eventChan (sc_learner sc)) \<or> shows_event h c (m, lr_cluster (sc_learner sc)) ev)"
proof (cases m)
  case (Goldmane now f)
  have "goldmane_shows h c w f ev" if "resolveParsedFlow (calico_resolve h c w) c w (parseCalicoFlow now f) = Some (processFlowEnqueue ev)" for w ev
    using resolveParsedFlow_enqueue [OF that] parseCalicoFlow_enqueue [of now f] unfolding goldmane_shows_def by fastforce
  with Goldmane assms show ?thesis by (auto simp: receives_def shows_event_def dest!: stream_step_channel)
next
  case (Hubble now f)
  have "hubble_shows h c w f ev" if "cilium_processFlow h c now w f = Some (processFlowEnqueue ev)" for w ev
  proof -
    from that obtain flow parsed where f: "f = Some (GetFlowsResponse_Flow (Some flow))" "parseCiliumFlowResponse now flow = Some parsed"
      "resolveParsedFlow (cilium_resolve h c w) c w parsed = Some (processFlowEnqueue ev)"
      by (auto simp: cilium_processFlow_def split: option.splits GetFlowsResponse.splits)
    from resolveParsedFlow_enqueue [OF f(3)] parseCiliumFlowResponse_enqueue [of now flow] f(1,2) show ?thesis
      unfolding hubble_shows_def by fastforce
  qed
  with Hubble assms show ?thesis by (auto simp: receives_def shows_event_def dest!: stream_step_channel)
next
  case (Otlp now ra r)
  with assms istio_learning_event_shows [of h c] show ?thesis
    by (auto simp: receives_def shows_event_def dest!: export_record_channel)
qed

lemma run_init_simps [simp]: "sys_cluster (run_init zero w logger n) = w" "sys_chan (run_init zero w logger n) = []" "sys_queue (run_init zero w logger n) = []"
  by (simp_all add: run_init_def NewLearningReconciler_def)

lemma set_cluster_simps [simp]:
  "sys_cluster (set_cluster s w) = w" "sys_chan (set_cluster s w) = sys_chan s" "sys_queue (set_cluster s w) = sys_queue s"
  by (simp_all add: set_cluster_def set_learner_def)

text \<open>The projections of a run: to the transition system of the wired controller, and to the runs of Provenance.\<close>

lemma whole_run_reachable: "whole_run h c v w ms tr s \<Longrightarrow> reachable h c s"
proof (induction rule: whole_run.induct)
  case (message ms tr s m sc)
  then have "sys_step h c s (s\<lparr>sys_scraper := sc\<rparr>)"
    by (cases m) (auto simp: receives_def intro: sys_step.calico sys_step.cilium sys_step.istio)
  with message show ?case by (blast intro: reachable.step)
next
  case (deliver ms tr s ev rest)
  from reachable.step [OF deliver.IH sys_step.deliver [OF deliver.hyps(2)]] show ?case .
qed (auto simp: set_cluster_def intro: reachable.start reachable.step sys_step.deliver sys_step.learn sys_step.sync sys_step.environment)

lemma reconcileKubernetesProposal_channel:
  "reconcileKubernetesProposal h c now l wk peer d proto port = Some (l', e) \<Longrightarrow> lr_eventChan l' = lr_eventChan l"
  by (auto simp: reconcileKubernetesProposal_def evaluateMonitorViolation_def sendMonitorViolation_def Let_def
      split: sum.splits list.splits prod.splits if_splits option.splits)

lemma learning_channel: "learning_Reconcile h c now l ev = Some (l', e) \<Longrightarrow> lr_eventChan l' = lr_eventChan l"
  by (auto simp: learning_Reconcile_def processIstioLearningEvent_def updateProposal_def processKubernetesLearningEvent_def Let_def
      split: option.splits sum.splits list.splits prod.splits if_splits dest!: reconcileKubernetesProposal_channel)

lemma whole_run_learn: "whole_run h c v w ms tr s \<Longrightarrow> learn_run h c v w tr (sys_cluster s)"
proof (induction rule: whole_run.induct)
  case (message ms tr s m sc)
  then show ?case using receives_channel by fastforce
next
  case (learn ms tr s xs ev ys q now l e)
  then show ?case by (auto simp: set_learner_def intro: learn_run.learn)
next
  case (sync ms tr s f visit now r e)
  then have "learn_run h c v w tr (ss_cluster (sync_view s))" by (simp add: sync_view_def)
  from learn_run.sync [OF this sync.hyps(2,3)] show ?case by (simp add: put_sync_def set_learner_def)
next
  case (policy ms tr s p req p' e)
  then show ?case using learn_run.policy [of h c v w tr p req p' e] by simp
qed (auto simp: set_learner_def intro: learn_run.idle learn_run.proposal learn_run.user)

text \<open>Every event that is pending or was handled is shown by a message.\<close>

lemma whole_run_shown:
  "whole_run h c v w ms tr s \<Longrightarrow>
     \<forall>ev. ev \<in> set (sys_chan s) \<or> ev \<in> set (sys_queue s) \<or> Observed ev \<in> set tr \<longrightarrow> (\<exists>x \<in> set ms. shows_event h c x ev)"
proof (induction rule: whole_run.induct)
  case (message ms tr s m sc)
  from receives_channel [OF message.hyps(3)] message.IH show ?case by auto
next
  case (learn ms tr s xs ev ys q now l e)
  with learning_channel [OF learn.hyps(5)] show ?case by (auto simp: set_learner_def)
next
  case (sync ms tr s f visit now r e)
  then show ?case by (simp add: put_sync_def set_learner_def)
next
  case (user ms tr s act w')
  then show ?case by (auto simp: wrote_def)
qed (auto simp: set_learner_def)

section \<open>Properties\<close>

text \<open>A permission that messages account for: one of them shows a flow between the workload that the name stands for and the peer.\<close>

definition message_grants ::
    "helpers \<Rightarrow> 'w client \<Rightarrow> (message \<times> 'w) list \<Rightarrow> NamespacedName \<Rightarrow> PolicyType \<Rightarrow>
     NetworkPolicyPeer list \<times> NetworkPolicyPort option \<Rightarrow> bool" where
  "message_grants h c ms k d g \<longleftrightarrow>
     (\<exists>x \<in> set ms. \<exists>ev wk peer. shows_event h c x ev \<and> le_Backend ev = PolicyBackendKubernetes \<and> learned_for ev wk peer d \<and>
        k = proposal_key wk d \<and>
        (case buildPeerAndPort peer (le_Protocol ev) (le_DstPort ev) of (y, q) \<Rightarrow> peer_grant (formatLabelSelector h) y q g))"

definition message_permits :: "helpers \<Rightarrow> 'w client \<Rightarrow> (message \<times> 'w) list \<Rightarrow> NamespacedName \<Rightarrow> string \<Rightarrow> int32 \<Rightarrow> bool" where
  "message_permits h c ms k i p \<longleftrightarrow>
     (\<exists>x \<in> set ms. \<exists>ev dest source. shows_event h c x ev \<and> le_Backend ev = PolicyBackendIstio \<and> le_Dest ev = Some dest \<and>
        le_Source ev = Some source \<and> k = proposal_key dest PolicyTypeIngress \<and> (wr_Identity source = i \<or> wr_Identity source = ''*'') \<and> p = le_DstPort ev)"

lemma shows_event_backend:
  assumes "shows_event h c x ev" and "le_Backend ev \<noteq> PolicyBackendIstio"
  shows "le_Backend ev = PolicyBackendKubernetes"
  using assms by (cases x) (auto simp: shows_event_def goldmane_shows_def hubble_shows_def otlp_shows_def split: message.splits)

lemma observed_grant_message:
  assumes "whole_run h c v w ms tr s" and "observed_grant (formatLabelSelector h) tr k d g"
  shows "message_grants h c ms k d g"
proof -
  from assms(2) obtain ev wk peer where *: "Observed ev \<in> set tr" "le_Backend ev \<noteq> PolicyBackendIstio" "learned_for ev wk peer d" "k = proposal_key wk d"
    "case buildPeerAndPort peer (le_Protocol ev) (le_DstPort ev) of (y, q) \<Rightarrow> peer_grant (formatLabelSelector h) y q g"
    by (auto simp: observed_grant_def)
  with whole_run_shown [OF assms(1)] obtain x where x: "x \<in> set ms" "shows_event h c x ev" by blast
  from shows_event_backend [OF x(2) *(2)] * x show ?thesis unfolding message_grants_def by (intro bexI [of _ x] exI conjI) simp_all
qed

text \<open>The port of an Istio event is one that the rule is learned for, and no other matches it.\<close>

lemma observed_permit_message:
  assumes "whole_run h c v w ms tr s" and "observed_permit tr k i p"
  shows "message_permits h c ms k i p"
proof -
  from assms(2) obtain ev dest source where *: "Observed ev \<in> set tr" "le_Backend ev = PolicyBackendIstio" "le_Dest ev = Some dest"
    "le_Source ev = Some source" "k = proposal_key dest PolicyTypeIngress" "wr_Identity source = i \<or> wr_Identity source = ''*''"
    "istioPortMatches (fmt_int (sint (le_DstPort ev))) p"
    unfolding observed_permit_def by blast
  with whole_run_shown [OF assms(1)] obtain x where x: "x \<in> set ms" "shows_event h c x ev" by blast
  with *(2) have "0 \<le> sint (le_DstPort ev)"
    by (cases x) (auto simp: shows_event_def goldmane_shows_def hubble_shows_def otlp_shows_def parsePort_Inr sint_port split: message.splits)
  with *(7) istioPortMatches_port_string [of "le_DstPort ev" p] have "p = le_DstPort ev" by (simp add: port_string_def)
  with * x show ?thesis unfolding message_permits_def by blast
qed

text \<open>C3. What is enforced was seen or was written by somebody. The whole program runs on a cluster: the scrapers receive any
  messages, events are queued, repeated and handled, proposals are promoted, policies rendered and statuses synchronised in any order, with any
  failures, on reads that lag behind the API server by any amount, while users and other clients write. A NetworkPolicy that then
  lets a pair of peers and port pass was there at the start or was placed by another client, or the pair was granted by a proposal or
  policy of its name that was there at the start or was edited, or a message has shown it: an allowed flow, reported by the provider, between
  the workload and direction that the name stands for and an equal peer, on that port and protocol. Likewise the rules of an
  AuthorizationPolicy permit an identity on a port only if they were there or were placed, if such a proposal or policy did, or if a
  record has shown that SPIFFE identity (or \<open>*\<close>) on exactly that port of the named workload. The controllers never widen a policy beyond
  what was observed or written, and never move a permission from one workload to another.\<close>

theorem enforced_permissions_observed:
  assumes "store_client c v" and "whole_run h c v w ms tr s"
  shows "(\<forall>k sp d g. ho_np v (sys_cluster s) k sp \<and> d \<in> {PolicyTypeIngress, PolicyTypeEgress} \<and> g \<in> np_grants d sp \<longrightarrow>
      ho_np v w k sp \<or> PlacedNP k sp \<in> set tr \<or> payload_grants v w tr k d g \<or> message_grants h c ms k d g) \<and>
    (\<forall>k rs i p. ho_ap v (sys_cluster s) k rs \<and> apRulesPermit rs i p \<longrightarrow>
      ho_ap v w k rs \<or> PlacedAP k rs \<in> set tr \<or> payload_permits v w tr k i p \<or> message_permits h c ms k i p)"
proof -
  note origin = run_origin [OF assms(1) whole_run_learn [OF assms(2)]]
  show ?thesis
  proof (intro conjI allI impI)
    fix k sp d g
    assume "ho_np v (sys_cluster s) k sp \<and> d \<in> {PolicyTypeIngress, PolicyTypeEgress} \<and> g \<in> np_grants d sp"
    with conjunct1 [OF origin] have "ho_np v w k sp \<or> PlacedNP k sp \<in> set tr \<or> payload_grants v w tr k d g \<or>
        observed_grant (formatLabelSelector h) tr k d g" by blast
    with observed_grant_message [OF assms(2)]
    show "ho_np v w k sp \<or> PlacedNP k sp \<in> set tr \<or> payload_grants v w tr k d g \<or> message_grants h c ms k d g" by blast
  next
    fix k rs i p
    assume "ho_ap v (sys_cluster s) k rs \<and> apRulesPermit rs i p"
    with conjunct2 [OF origin] have "ho_ap v w k rs \<or> PlacedAP k rs \<in> set tr \<or> payload_permits v w tr k i p \<or> observed_permit tr k i p" by blast
    with observed_permit_message [OF assms(2)]
    show "ho_ap v w k rs \<or> PlacedAP k rs \<in> set tr \<or> payload_permits v w tr k i p \<or> message_permits h c ms k i p" by blast
  qed
qed

text \<open>From a message to its enforcement: Goldmane reports a flow, it is learned, the caches catch up, a user labels the
  proposal, the proposal is promoted, the policy is reconciled.\<close>

definition sample_start :: lagging where
  "sample_start =
     in_sync (empty_store\<lparr>st_workloads := [sample_deployment ''ns'' ''web'', sample_deployment ''ns'' ''api''],
        st_pods := [sample_pod ''ns'' ''web'', sample_pod ''ns'' ''api'']\<rparr>)"

definition sample_goldmane :: "FlowResult option" where
  "sample_goldmane = Some \<lparr>fr_Flow = Some \<lparr>cf_Key = Some
     \<lparr>fk_SourceName = ''web-abc-*'', fk_SourceNamespace = ''ns'', fk_SourceType = WorkloadEndpoint,
      fk_DestName = ''api-abc-*'', fk_DestNamespace = ''ns'', fk_DestType = WorkloadEndpoint, fk_DestPort = 80, fk_Proto = ''tcp'',
      fk_Reporter = Dst, fk_Action = Allow, fk_Policies = None\<rparr>, cf_StartTime = 7\<rparr>\<rparr>"

definition sample_event :: LearningEvent where
  "sample_event = \<lparr>le_Source = Some ((sample_wk ''web'')\<lparr>wr_Identity := []\<rparr>), le_Dest = Some ((sample_wk ''api'')\<lparr>wr_Identity := []\<rparr>), le_DstPort = 80,
     le_Protocol = ''TCP'', le_Backend = PolicyBackendKubernetes\<rparr>"

lemma sample_processed:
  "resolveParsedFlow (calico_resolve mem_helpers (lag_client sample_index) sample_start) (lag_client sample_index) sample_start
     (parseCalicoFlow 0 sample_goldmane) = Some (processFlowEnqueue sample_event)"
  by code_simp

definition sample_learned_by :: "Observation Buffer \<Rightarrow> (lagging LearningReconciler \<times> error option) option" where
  "sample_learned_by b = learning_Reconcile mem_helpers (lag_client sample_index) 0
     \<lparr>lr_cluster = sample_start, lr_eventChan = [], lr_violationBuffer = b, lr_violationOtelLogger = Some []\<rparr> sample_event"

definition sample_small :: "Observation Buffer" where
  "sample_small = \<lparr>buf = [], pos = 0, capacity = 0\<rparr>"

definition sample_after_learning :: lagging where
  "sample_after_learning = lr_cluster (fst (the (sample_learned_by sample_small)))"

lemma sample_learns: "map_option (lr_cluster \<circ> fst) (sample_learned_by b) = Some sample_after_learning"
  by code_simp

definition sample_label :: "lagging \<Rightarrow> lagging" where
  "sample_label w =
     in_sync ((lg_server w)\<lparr>st_wnpps := map (\<lambda>p. p\<lparr>wnpp_Meta := (wnpp_Meta p)\<lparr>om_Labels := [(ProposalPromoteLabelKey, ''protect'')]\<rparr>\<rparr>)
       (st_wnpps (lg_server w))\<rparr>)"

definition sample_after_promotion :: lagging where
  "sample_after_promotion = fst (proposal_Reconcile mem_helpers (lag_client sample_index) (sample_label sample_after_learning) sample_req)"

definition sample_enforces :: "(lagging PolicyReconciler \<times> error option) option" where
  "sample_enforces = policy_Reconcile mem_helpers (lag_client sample_index)
     \<lparr>pr_cluster = lag_refresh sample_after_promotion, pr_selectorOverlaps = None, pr_duplicateTargets = None\<rparr> sample_req"

lemma sample_enforced:
  "sample_enforces \<noteq> None"
  "case mem_find np_Meta (st_nps (lg_server (pr_cluster (fst (the sample_enforces))))) sample_req of
     Inl _ \<Rightarrow> False | Inr np \<Rightarrow> length (Egress (np_Spec np)) = 1"
  by code_simp+

lemma mem_find_map:
  assumes "\<And>x. meta_key (meta (f x)) = meta_key (meta x)"
  shows "mem_find meta (map f xs) k = Inr y \<Longrightarrow> \<exists>x. mem_find meta xs k = Inr x \<and> y = f x"
  using assms by (induction xs) (auto simp: mem_find_def split: if_splits)

lemma label_touches: "wrote lag_holdings Touched w (sample_label w)"
  by (auto simp: wrote_def adds_def sample_label_def lag_holdings_def store_holdings_def Let_def meta_key_def dest!: mem_find_map [rotated])

abbreviation sample_messages :: "(message \<times> lagging) list" where
  "sample_messages \<equiv> [(Goldmane 0 sample_goldmane, sample_start)]"

abbreviation sample_trace :: "action list" where
  "sample_trace \<equiv> [Observed sample_event, Touched, Touched]"

lemma sample_whole_run:
  "\<exists>s. whole_run mem_helpers (lag_client sample_index) lag_holdings sample_start sample_messages sample_trace s \<and>
     sys_cluster s = pr_cluster (fst (the sample_enforces))"
proof -
  let ?run = "whole_run mem_helpers (lag_client sample_index) lag_holdings sample_start"
  let ?s0 = "run_init sample_observation sample_start (Some []) None :: lagging System"
  let ?b = "New sample_observation"
  have room: "2 \<le> rb_room ?b" by (simp add: New_def NewWithSize_def rb_room_def maxBufferEntries_def)
  let ?l = "\<lparr>lr_cluster = sample_start, lr_eventChan = [], lr_violationBuffer = ?b, lr_violationOtelLogger = Some []\<rparr> :: lagging LearningReconciler"
  have s0: "?s0 = \<lparr>sys_scraper = \<lparr>sc_learner = ?l, sc_FlowDumperBuffer = None\<rparr>, sys_queue = [], sys_metrics = Some newAttributionMetrics\<rparr>"
    by (simp add: run_init_def NewLearningReconciler_def)
  let ?sc = "\<lparr>sc_learner = ?l\<lparr>lr_eventChan := [sample_event]\<rparr>, sc_FlowDumperBuffer = None\<rparr>"
  have "receives mem_helpers (lag_client sample_index) (sys_scraper ?s0) (Goldmane 0 sample_goldmane) ?sc"
    unfolding receives_def s0
    by (auto simp: stream_step_def dumpFlow_def sample_processed handle_result_def enqueueEvent_def defaultEventChannelBufferSize_def)
  from whole_run.message [OF whole_run.start _ this] room have
    "?run sample_messages [] (?s0\<lparr>sys_scraper := ?sc\<rparr>)" by (simp add: s0 has_room_def)
  from whole_run.deliver [OF this] have
    1: "?run sample_messages [] \<lparr>sys_scraper = \<lparr>sc_learner = ?l, sc_FlowDumperBuffer = None\<rparr>, sys_queue = [sample_event],
       sys_metrics = Some newAttributionMetrics\<rparr>"
    by (simp add: s0 set_learner_def)
  from sample_learns [of ?b] obtain l e where l: "learning_Reconcile mem_helpers (lag_client sample_index) 0 ?l sample_event = Some (l, e)"
    "lr_cluster l = sample_after_learning" by (auto simp: sample_learned_by_def)
  from whole_run.learn [OF 1, where xs = "[]" and ys = "[]" and q = "[]" and ev = sample_event and now = 0 and l = l and e = e] l(1) room
  obtain s where 2: "?run sample_messages [Observed sample_event] s" "sys_cluster s = sample_after_learning"
    using l(2) by (auto simp: has_room_def set_learner_def)
  from whole_run.user [OF 2(1) label_touches]
  have 3: "?run sample_messages [Observed sample_event, Touched] (set_cluster s (sample_label sample_after_learning))" using 2(2) by simp
  obtain e2 where "proposal_Reconcile mem_helpers (lag_client sample_index) (sample_label sample_after_learning) sample_req = (sample_after_promotion, e2)"
    by (cases "proposal_Reconcile mem_helpers (lag_client sample_index) (sample_label sample_after_learning) sample_req") (simp add: sample_after_promotion_def)
  with whole_run.proposal [OF 3, of sample_req sample_after_promotion e2]
  obtain s' where 4: "?run sample_messages [Observed sample_event, Touched] s'" "sys_cluster s' = sample_after_promotion" by auto
  from whole_run.user [OF 4(1) refresh_touches] 4(2)
  have 5: "?run sample_messages sample_trace (set_cluster s' (lag_refresh sample_after_promotion))" by simp
  from sample_enforced(1) obtain r e3 where r: "sample_enforces = Some (r, e3)" by auto
  from whole_run.policy [OF 5 _ r [unfolded sample_enforces_def]] show ?thesis unfolding r by (auto intro!: exI)
qed

lemma rule_grants_some: "\<exists>g. g \<in> rule_grants peers ports"
  by (cases ports) (auto simp: rule_grants_def)

theorem enforced_permissions_observed_witness:
  "\<exists>sp g. ho_np lag_holdings (pr_cluster (fst (the sample_enforces))) sample_req sp \<and> g \<in> np_grants PolicyTypeEgress sp \<and>
     message_grants mem_helpers (lag_client sample_index) sample_messages sample_req PolicyTypeEgress g"
proof -
  let ?c = "lag_client sample_index"
  from sample_whole_run obtain s where s: "whole_run mem_helpers ?c lag_holdings sample_start sample_messages sample_trace s"
    "sys_cluster s = pr_cluster (fst (the sample_enforces))" by blast
  from sample_enforced(2) obtain np where np: "mem_find np_Meta (st_nps (lg_server (sys_cluster s))) sample_req = Inr np" "length (Egress (np_Spec np)) = 1"
    unfolding s(2) by (auto split: sum.splits)
  then have h: "ho_np lag_holdings (sys_cluster s) sample_req (np_Spec np)" by (auto simp: lag_holdings_def store_holdings_def)
  from np(2) obtain r where "Egress (np_Spec np) = [r]" by (auto simp: length_one)
  with rule_grants_some [of "To r" "egress_Ports r"] obtain g where g: "g \<in> np_grants PolicyTypeEgress (np_Spec np)"
    by (auto simp: np_grants_def)
  have "\<not> ho_np lag_holdings sample_start sample_req (np_Spec np)" "PlacedNP sample_req (np_Spec np) \<notin> set sample_trace"
    "\<not> payload_grants lag_holdings sample_start sample_trace sample_req PolicyTypeEgress g"
    by (auto simp: payload_grants_def lag_holdings_def store_holdings_def sample_start_def mem_find_def empty_store_def Let_def)
  with enforced_permissions_observed [OF lag_store.store_client_axioms s(1)] h g
  have "message_grants mem_helpers ?c sample_messages sample_req PolicyTypeEgress g" by blast
  with h g show ?thesis unfolding s(2) [symmetric] by blast
qed

end
