(* ===== verification/GoHeap.thy ===== *)
theory GoHeap
  imports Prelude
begin

text \<open>
  Go's memory as far as aliasing matters: a heap of blocks with an allocation counter, slices and
  pointers into it, and what the language does with them (\<^verbatim>\<open>make\<close>, \<^verbatim>\<open>new\<close>, \<^verbatim>\<open>copy\<close>, indexing). A block is
  the backing array of slices, or the variable that \<^verbatim>\<open>new\<close> returns, an array of one element. The type \<open>'b\<close> of
  blocks has one constructor \<open>mk\<close> per element type, with the projection \<open>un\<close>.

  The locale \<open>deep_copy\<close> is the contract of a deep copy. The lemmas inside it and after it build a deep copy
  of a slice, of a pointer and of a struct from the deep copies of the parts.
\<close>

section \<open>Heap, slices and pointers\<close>

type_synonym addr = nat

record 'b gheap =
  h_next :: addr
  h_mem :: "addr \<Rightarrow> 'b"

record gslice =
  s_addr :: addr
  s_off :: nat
  s_len :: nat
  s_cap :: nat

text \<open>A pointer to a struct may point into an array, as \<^verbatim>\<open>&list.Items[i]\<close> does.\<close>

type_synonym gptr = "addr \<times> nat"

definition alloc :: "'b \<Rightarrow> 'b gheap \<Rightarrow> 'b gheap \<times> addr" where
  "alloc b h = (h\<lparr>h_next := Suc (h_next h), h_mem := (h_mem h)(h_next h := b)\<rparr>, h_next h)"

definition put :: "addr \<Rightarrow> 'b \<Rightarrow> 'b gheap \<Rightarrow> 'b gheap" where
  "put a b h = h\<lparr>h_mem := (h_mem h)(a := b)\<rparr>"

definition make_slice :: "('a list \<Rightarrow> 'b) \<Rightarrow> 'a \<Rightarrow> nat \<Rightarrow> 'b gheap \<Rightarrow> 'b gheap \<times> gslice" where
  "make_slice mk zero n h =
     (let (h', a) = alloc (mk (replicate n zero)) h
      in (h', \<lparr>s_addr = a, s_off = 0, s_len = n, s_cap = n\<rparr>))"

definition slice_get :: "('b \<Rightarrow> 'a list) \<Rightarrow> 'b gheap \<Rightarrow> gslice \<Rightarrow> nat \<Rightarrow> 'a" where
  "slice_get un h s i = un (h_mem h (s_addr s)) ! (s_off s + i)"

definition slice_set :: "('a list \<Rightarrow> 'b) \<Rightarrow> ('b \<Rightarrow> 'a list) \<Rightarrow> gslice \<Rightarrow> nat \<Rightarrow> 'a \<Rightarrow> 'b gheap \<Rightarrow> 'b gheap" where
  "slice_set mk un s i v h = put (s_addr s) (mk ((un (h_mem h (s_addr s)))[s_off s + i := v])) h"

definition slice_elems :: "('b \<Rightarrow> 'a list) \<Rightarrow> 'b gheap \<Rightarrow> gslice \<Rightarrow> 'a list" where
  "slice_elems un h s = take (s_len s) (drop (s_off s) (un (h_mem h (s_addr s))))"

text \<open>The builtin \<^verbatim>\<open>copy(dst, src)\<close> copies the first elements, as many as both slices have.\<close>

definition copy_slice :: "('a list \<Rightarrow> 'b) \<Rightarrow> ('b \<Rightarrow> 'a list) \<Rightarrow> gslice \<Rightarrow> gslice \<Rightarrow> 'b gheap \<Rightarrow> 'b gheap" where
  "copy_slice mk un dst src h =
     (let n = min (s_len dst) (s_len src);
          old = un (h_mem h (s_addr dst))
      in put (s_addr dst)
           (mk (take (s_off dst) old @ take n (slice_elems un h src) @ drop (s_off dst + n) old)) h)"

section \<open>The shapes of generated copies\<close>

text \<open>\<^verbatim>\<open>for i := range *in { (*in)[i].DeepCopyInto(&(*out)[i]) }\<close>. The callee is a function from the heap and the
  struct it copies to the heap and the struct it writes.\<close>

definition copy_into_each ::
    "('a list \<Rightarrow> 'b) \<Rightarrow> ('b \<Rightarrow> 'a list) \<Rightarrow> ('b gheap \<Rightarrow> 'a \<Rightarrow> 'b gheap \<times> 'a) \<Rightarrow> gslice \<Rightarrow> gslice \<Rightarrow> nat list \<Rightarrow>
     'b gheap \<Rightarrow> 'b gheap" where
  "copy_into_each mk un into src dst is h =
     foldl (\<lambda>h i. let (h', v) = into h (slice_get un h src i) in slice_set mk un dst i v h') h is"

text \<open>A slice of structs: nil stays nil, otherwise \<^verbatim>\<open>make\<close> and the loop.\<close>

definition slice_DeepCopyInto ::
    "('a list \<Rightarrow> 'b) \<Rightarrow> ('b \<Rightarrow> 'a list) \<Rightarrow> 'a \<Rightarrow> ('b gheap \<Rightarrow> 'a \<Rightarrow> 'b gheap \<times> 'a) \<Rightarrow>
     'b gheap \<Rightarrow> gslice option \<Rightarrow> 'b gheap \<times> gslice option" where
  "slice_DeepCopyInto mk un zero into h sl =
     (case sl of
        None \<Rightarrow> (h, None)
      | Some s \<Rightarrow>
          let (h1, t) = make_slice mk zero (s_len s) h
          in (copy_into_each mk un into s t [0..<s_len s] h1, Some t))"

text \<open>A slice of strings: nil stays nil, otherwise \<^verbatim>\<open>make\<close> and \<^verbatim>\<open>copy\<close>.\<close>

definition slice_copy ::
    "('a list \<Rightarrow> 'b) \<Rightarrow> ('b \<Rightarrow> 'a list) \<Rightarrow> 'a \<Rightarrow> 'b gheap \<Rightarrow> gslice option \<Rightarrow> 'b gheap \<times> gslice option" where
  "slice_copy mk un zero h sl =
     (case sl of
        None \<Rightarrow> (h, None)
      | Some s \<Rightarrow>
          let (h1, t) = make_slice mk zero (s_len s) h
          in (copy_slice mk un t s h1, Some t))"

text \<open>A pointer: nil stays nil, otherwise \<^verbatim>\<open>new\<close> and \<^verbatim>\<open>DeepCopyInto\<close>. This is the shape of every \<^verbatim>\<open>DeepCopy\<close> method and of
  the pointer fields.\<close>

definition pointer_DeepCopy ::
    "('a list \<Rightarrow> 'b) \<Rightarrow> ('b \<Rightarrow> 'a list) \<Rightarrow> 'a \<Rightarrow> ('b gheap \<Rightarrow> 'a \<Rightarrow> 'b gheap \<times> 'a) \<Rightarrow>
     'b gheap \<Rightarrow> gptr option \<Rightarrow> 'b gheap \<times> gptr option" where
  "pointer_DeepCopy mk un zero into h p =
     (case p of
        None \<Rightarrow> (h, None)
      | Some (a, i) \<Rightarrow>
          let (h1, b) = alloc (mk [zero]) h;
              (h2, v) = into h1 (un (h_mem h1 a) ! i)
          in (put b (mk [v]) h2, Some (b, 0)))"

section \<open>Values and footprints\<close>

text \<open>What a slice or a pointer denotes in a heap, the blocks it reaches, and that it is well-formed: within
  its block, with allocated blocks only.\<close>

definition slice_val :: "('b \<Rightarrow> 'a list) \<Rightarrow> ('b gheap \<Rightarrow> 'a \<Rightarrow> 'v) \<Rightarrow> 'b gheap \<Rightarrow> gslice option \<Rightarrow> 'v list option" where
  "slice_val un val h sl = map_option (\<lambda>s. map (val h) (slice_elems un h s)) sl"

definition slice_reach :: "('b \<Rightarrow> 'a list) \<Rightarrow> ('b gheap \<Rightarrow> 'a \<Rightarrow> addr set) \<Rightarrow> 'b gheap \<Rightarrow> gslice option \<Rightarrow> addr set" where
  "slice_reach un reach h sl =
     (case sl of None \<Rightarrow> {} | Some s \<Rightarrow> insert (s_addr s) (\<Union> (set (map (reach h) (slice_elems un h s)))))"

definition slice_ok :: "('b \<Rightarrow> 'a list) \<Rightarrow> ('b gheap \<Rightarrow> 'a \<Rightarrow> bool) \<Rightarrow> 'b gheap \<Rightarrow> gslice option \<Rightarrow> bool" where
  "slice_ok un ok h sl =
     (case sl of
        None \<Rightarrow> True
      | Some s \<Rightarrow> s_addr s < h_next h \<and> s_len s \<le> s_cap s \<and> s_off s + s_cap s \<le> length (un (h_mem h (s_addr s))) \<and>
          list_all (ok h) (slice_elems un h s))"

definition pointer_val :: "('b \<Rightarrow> 'a list) \<Rightarrow> ('b gheap \<Rightarrow> 'a \<Rightarrow> 'v) \<Rightarrow> 'b gheap \<Rightarrow> gptr option \<Rightarrow> 'v option" where
  "pointer_val un val h p = map_option (\<lambda>(a, i). val h (un (h_mem h a) ! i)) p"

definition pointer_reach :: "('b \<Rightarrow> 'a list) \<Rightarrow> ('b gheap \<Rightarrow> 'a \<Rightarrow> addr set) \<Rightarrow> 'b gheap \<Rightarrow> gptr option \<Rightarrow> addr set" where
  "pointer_reach un reach h p =
     (case p of None \<Rightarrow> {} | Some (a, i) \<Rightarrow> insert a (reach h (un (h_mem h a) ! i)))"

definition pointer_ok :: "('b \<Rightarrow> 'a list) \<Rightarrow> ('b gheap \<Rightarrow> 'a \<Rightarrow> bool) \<Rightarrow> 'b gheap \<Rightarrow> gptr option \<Rightarrow> bool" where
  "pointer_ok un ok h p =
     (case p of
        None \<Rightarrow> True
      | Some (a, i) \<Rightarrow> a < h_next h \<and> i < length (un (h_mem h a)) \<and> ok h (un (h_mem h a) ! i))"

text \<open>A heap extends another one: only blocks allocated since differ.\<close>

definition heap_ext :: "'b gheap \<Rightarrow> 'b gheap \<Rightarrow> bool" where
  "heap_ext h h' \<longleftrightarrow> h_next h \<le> h_next h' \<and> (\<forall>a<h_next h. h_mem h' a = h_mem h a)"

lemma heap_ext_refl [simp]: "heap_ext h h"
  by (simp add: heap_ext_def)

lemma heap_ext_trans [trans]: "heap_ext h h' \<Longrightarrow> heap_ext h' h'' \<Longrightarrow> heap_ext h h''"
  by (auto simp: heap_ext_def)

lemma heap_ext_next: "heap_ext h h' \<Longrightarrow> h_next h \<le> h_next h'"
  by (simp add: heap_ext_def)

lemma put_simps [simp]:
  "h_next (put a b h) = h_next h" "h_mem (put a b h) = (h_mem h)(a := b)"
  by (simp_all add: put_def)

lemma heap_ext_put: "heap_ext h h' \<Longrightarrow> h_next h \<le> a \<Longrightarrow> heap_ext h (put a b h')"
  by (auto simp: heap_ext_def)

lemma heap_ext_alloc: "heap_ext h (fst (alloc b h))"
  by (simp add: alloc_def heap_ext_def)

lemma slice_elems_nth:
  "i < length (slice_elems un h s) \<Longrightarrow> slice_elems un h s ! i = un (h_mem h (s_addr s)) ! (s_off s + i)"
  by (auto simp: slice_elems_def)

section \<open>The contract of a deep copy\<close>

text \<open>What a value is depends on its footprint only, the footprint is allocated, and a copy leaves every old
  block alone, denotes the same value, and reaches only blocks that are new.\<close>

locale deep_copy =
  fixes into :: "'b gheap \<Rightarrow> 'a \<Rightarrow> 'b gheap \<times> 'a"
    and val :: "'b gheap \<Rightarrow> 'a \<Rightarrow> 'v"
    and reach :: "'b gheap \<Rightarrow> 'a \<Rightarrow> addr set"
    and ok :: "'b gheap \<Rightarrow> 'a \<Rightarrow> bool"
  assumes frame: "ok h x \<Longrightarrow> h_next h \<le> h_next h' \<Longrightarrow> \<forall>a\<in>reach h x. h_mem h' a = h_mem h a \<Longrightarrow>
      val h' x = val h x \<and> reach h' x = reach h x \<and> ok h' x"
    and allocated: "ok h x \<Longrightarrow> reach h x \<subseteq> {..<h_next h}"
    and copies: "ok h x \<Longrightarrow> into h x = (h', y) \<Longrightarrow>
      heap_ext h h' \<and> val h' y = val h x \<and> reach h' y \<subseteq> {h_next h..<h_next h'} \<and> ok h' y"
begin

lemma frame_ext:
  "ok h x \<Longrightarrow> heap_ext h h' \<Longrightarrow> val h' x = val h x \<and> reach h' x = reach h x \<and> ok h' x"
  using allocated [of h x] by (intro frame) (auto simp: heap_ext_def)

lemma frame_put:
  "ok h x \<Longrightarrow> a \<notin> reach h x \<Longrightarrow>
     val (put a b h) x = val h x \<and> reach (put a b h) x = reach h x \<and> ok (put a b h) x"
  by (intro frame) auto

text \<open>Writes through the copy do not change the original, and writes through the original do not change the
  copy.\<close>

lemma isolated:
  assumes "ok h x" and "into h x = (h', y)" and "h_next h' \<le> h_next h''"
  shows "(\<forall>a. a \<notin> reach h' y \<and> a < h_next h' \<longrightarrow> h_mem h'' a = h_mem h' a) \<Longrightarrow> val h'' x = val h x"
    and "(\<forall>a. a \<notin> reach h x \<and> a < h_next h' \<longrightarrow> h_mem h'' a = h_mem h' a) \<Longrightarrow> val h'' y = val h x"
proof -
  note c = copies [OF assms(1,2)]
  then have x: "val h' x = val h x \<and> reach h' x = reach h x \<and> ok h' x" using frame_ext assms(1) by blast
  have disj: "reach h x \<inter> reach h' y = {}" using c allocated [OF assms(1)] by force
  show "val h'' x = val h x" if "\<forall>a. a \<notin> reach h' y \<and> a < h_next h' \<longrightarrow> h_mem h'' a = h_mem h' a"
    using frame [of h' x h''] x that disj assms(3) allocated [of h' x] by fastforce
  show "val h'' y = val h x" if "\<forall>a. a \<notin> reach h x \<and> a < h_next h' \<longrightarrow> h_mem h'' a = h_mem h' a"
    using frame [of h' y h''] c that disj assms(3) allocated [of h' y] by fastforce
qed

text \<open>One element: a struct that is copied in a heap that has grown since.\<close>

lemma copies_later:
  assumes "ok h x" and "heap_ext h h1" and "into h1 x = (h2, y)"
  shows "heap_ext h h2 \<and> heap_ext h1 h2 \<and> val h2 y = val h x \<and> reach h2 y \<subseteq> {h_next h1..<h_next h2} \<and> ok h2 y"
  using copies [OF _ assms(3)] frame_ext [OF assms(1,2)] heap_ext_trans [OF assms(2)] by auto

text \<open>The state of the loop after some indices: the elements written so far are copies, outside the array.\<close>

definition loop_inv :: "('b \<Rightarrow> 'a list) \<Rightarrow> 'b gheap \<Rightarrow> 'a list \<Rightarrow> nat \<Rightarrow> 'b gheap \<Rightarrow> bool" where
  "loop_inv un h xs k hk \<longleftrightarrow>
     heap_ext h hk \<and> h_next h < h_next hk \<and> length (un (h_mem hk (h_next h))) = length xs \<and>
     (\<forall>i<k. let y = un (h_mem hk (h_next h)) ! i in
        val hk y = val h (xs ! i) \<and> reach hk y \<subseteq> {h_next h<..<h_next hk} \<and> ok hk y)"

lemma loop_inv_step:
  assumes un: "\<And>ys. un (mk ys) = ys" and inv: "loop_inv un h xs k hk" and k: "k < length xs" "ok h (xs ! k)"
    and "into hk (xs ! k) = (h', v)" and a: "a = h_next h"
  shows "loop_inv un h xs (Suc k) (put a (mk ((un (h_mem h' a))[k := v])) h')"
proof -
  let ?p = "put a (mk ((un (h_mem h' a))[k := v])) h'"
  from inv have h: "heap_ext h hk" "h_next h < h_next hk" by (auto simp: loop_inv_def)
  note c = copies_later [OF k(2) h(1) assms(5)]
  then have blk: "h_mem h' a = h_mem hk a" using h(2) a by (simp add: heap_ext_def)
  with inv a have len: "length (un (h_mem h' a)) = length xs" by (simp add: loop_inv_def)
  have new: "val ?p v = val h (xs ! k) \<and> reach ?p v \<subseteq> {a<..<h_next ?p} \<and> ok ?p v"
    using c h(2) a frame_put [of h' v a "mk ((un (h_mem h' a))[k := v])"] by fastforce
  have old: "val ?p y = val h (xs ! i) \<and> reach ?p y \<subseteq> {a<..<h_next ?p} \<and> ok ?p y"
    if i: "i < k" and y: "y = un (h_mem hk a) ! i" for i y
  proof -
    from inv i y a have y': "val hk y = val h (xs ! i)" "reach hk y \<subseteq> {a<..<h_next hk}" "ok hk y"
      by (auto simp: loop_inv_def Let_def)
    then have "val h' y = val h (xs ! i) \<and> reach h' y \<subseteq> {a<..<h_next hk} \<and> ok h' y"
      using frame_ext [of hk y h'] c by auto
    then show ?thesis
      using frame_put [of h' y a "mk ((un (h_mem h' a))[k := v])"] c heap_ext_next [of hk h'] by fastforce
  qed
  have "\<forall>i<Suc k. let y = un (h_mem ?p a) ! i in
      val ?p y = val h (xs ! i) \<and> reach ?p y \<subseteq> {a<..<h_next ?p} \<and> ok ?p y"
  proof (intro allI impI)
    fix i assume "i < Suc k"
    then consider "i < k" | "i = k" by linarith
    then show "let y = un (h_mem ?p a) ! i in
        val ?p y = val h (xs ! i) \<and> reach ?p y \<subseteq> {a<..<h_next ?p} \<and> ok ?p y"
    proof cases
      case 1 with old [of i "un (h_mem hk a) ! i"] show ?thesis unfolding Let_def by (simp add: un blk)
    next
      case 2
      with k len have "un (h_mem ?p a) ! i = v" by (simp add: un)
      with new 2 show ?thesis by (simp only: Let_def)
    qed
  qed
  moreover have "heap_ext h ?p" using c a by (simp add: heap_ext_put)
  moreover have "h_next h < h_next ?p" using h(2) c heap_ext_next [of hk h'] by simp
  moreover have "length (un (h_mem ?p a)) = length xs" using len by (simp add: un)
  ultimately show ?thesis using a by (simp add: loop_inv_def)
qed

lemma loop_inv_fold:
  assumes un: "\<And>ys. un (mk ys) = ys" and "loop_inv un h xs 0 h1" and "list_all (ok h) xs"
    and src: "s_addr s < h_next h" "slice_elems un h s = xs" "s_len s = length xs"
    and dst: "s_addr t = h_next h" "s_off t = 0" and "k \<le> length xs"
  shows "loop_inv un h xs k (copy_into_each mk un into s t [0..<k] h1)"
  using assms(9)
proof (induction k)
  case 0
  with assms(2) show ?case by (simp add: copy_into_each_def)
next
  case (Suc k)
  let ?hk = "copy_into_each mk un into s t [0..<k] h1"
  from Suc have inv: "loop_inv un h xs k ?hk" by simp
  from inv src(1) have "h_mem ?hk (s_addr s) = h_mem h (s_addr s)" by (simp add: loop_inv_def heap_ext_def)
  with src Suc.prems slice_elems_nth [of k un h s] have get: "slice_get un ?hk s k = xs ! k"
    by (simp add: slice_get_def)
  obtain h' v where c: "into ?hk (xs ! k) = (h', v)" by (cases "into ?hk (xs ! k)") auto
  have "copy_into_each mk un into s t [0..<Suc k] h1 = put (h_next h) (mk ((un (h_mem h' (h_next h)))[k := v])) h'"
    using get c dst by (simp add: copy_into_each_def slice_set_def)
  with loop_inv_step [OF un inv _ _ c refl] Suc.prems assms(3) show ?case
    by (simp add: list_all_length)
qed

lemma loop_inv_start:
  "un (mk (replicate n zero)) = replicate n zero \<Longrightarrow> n = length xs \<Longrightarrow>
     loop_inv un h xs 0 (fst (alloc (mk (replicate n zero)) h))"
  using heap_ext_alloc [of h] by (simp add: loop_inv_def) (simp add: alloc_def)

lemma slice_frame:
  assumes "slice_ok un ok h sl" and "h_next h \<le> h_next h'"
    and "\<forall>a\<in>slice_reach un reach h sl. h_mem h' a = h_mem h a"
  shows "slice_val un val h' sl = slice_val un val h sl \<and>
    slice_reach un reach h' sl = slice_reach un reach h sl \<and> slice_ok un ok h' sl"
proof (cases sl)
  case None
  then show ?thesis by (simp add: slice_val_def slice_reach_def slice_ok_def)
next
  case (Some s)
  from assms(3) Some have eq: "slice_elems un h' s = slice_elems un h s" "h_mem h' (s_addr s) = h_mem h (s_addr s)"
    by (simp_all add: slice_elems_def slice_reach_def)
  have "val h' x = val h x \<and> reach h' x = reach h x \<and> ok h' x" if "x \<in> set (slice_elems un h s)" for x
    using frame [of h x h'] that assms Some by (auto simp: slice_ok_def slice_reach_def list_all_iff)
  with eq assms(1,2) Some show ?thesis
    by (auto simp: slice_val_def slice_reach_def slice_ok_def list_all_iff)
qed

lemma slice_copies:
  assumes un: "\<And>ys. un (mk ys) = ys"
    and "slice_ok un ok h sl" and "slice_DeepCopyInto mk un zero into h sl = (h', r)"
  shows "heap_ext h h' \<and> slice_val un val h' r = slice_val un val h sl \<and>
    slice_reach un reach h' r \<subseteq> {h_next h..<h_next h'} \<and> slice_ok un ok h' r"
proof (cases sl)
  case None
  with assms(3) show ?thesis by (auto simp: slice_DeepCopyInto_def slice_val_def slice_reach_def slice_ok_def)
next
  case (Some s)
  let ?xs = "slice_elems un h s" and ?t = "\<lparr>s_addr = h_next h, s_off = 0, s_len = s_len s, s_cap = s_len s\<rparr>"
  let ?h1 = "fst (alloc (mk (replicate (s_len s) zero)) h)"
  from assms(2) Some have s: "s_addr s < h_next h" "list_all (ok h) ?xs" "s_len s = length ?xs"
    by (auto simp: slice_ok_def slice_elems_def)
  from assms(3) Some have h': "h' = copy_into_each mk un into s ?t [0..<s_len s] ?h1" and r: "r = Some ?t"
    by (auto simp: slice_DeepCopyInto_def make_slice_def alloc_def)
  have inv: "loop_inv un h ?xs (s_len s) h'"
    unfolding h' by (rule loop_inv_fold [where un = un and mk = mk, OF un loop_inv_start])
      (use s un in simp_all)
  then have el2: "length (un (h_mem h' (h_next h))) = length ?xs" by (simp add: loop_inv_def)
  with s(3) [symmetric] have "slice_elems un h' ?t = un (h_mem h' (h_next h))" unfolding slice_elems_def [of _ _ ?t] by simp
  note el = this el2
  let ?ys = "un (h_mem h' (h_next h))"
  from inv el(2) s(3) have all: "val h' (?ys ! i) = val h (?xs ! i) \<and> reach h' (?ys ! i) \<subseteq> {h_next h<..<h_next h'} \<and> ok h' (?ys ! i)"
    if "i < length ?ys" for i using that unfolding loop_inv_def Let_def by simp
  then have "map (val h') ?ys = map (val h) ?xs" using el(2) by (simp add: list_eq_iff_nth_eq)
  then have "slice_val un val h' r = slice_val un val h sl" using el(1) Some r by (simp add: slice_val_def)
  moreover have each: "\<forall>y\<in>set ?ys. reach h' y \<subseteq> {h_next h<..<h_next h'} \<and> ok h' y"
    using all unfolding all_set_conv_all_nth by blast
  moreover from inv have h: "heap_ext h h'" "h_next h < h_next h'" by (simp_all add: loop_inv_def)
  moreover have "slice_reach un reach h' r \<subseteq> {h_next h..<h_next h'}"
  proof -
    have "\<forall>y\<in>set ?ys. reach h' y \<subseteq> {h_next h..<h_next h'}" using each by fastforce
    with h el(1) r show ?thesis by (simp add: slice_reach_def UN_subset_iff)
  qed
  moreover have "slice_ok un ok h' r" using each h el s(3) r by (simp add: slice_ok_def list_all_iff)
  ultimately show ?thesis by blast
qed

text \<open>Hence the generated copy of a slice of structs is a deep copy if the copy of the structs is one.\<close>

lemma deep_copy_slice:
  assumes "\<And>ys. un (mk ys) = ys"
  shows "deep_copy (slice_DeepCopyInto mk un zero into) (slice_val un val) (slice_reach un reach) (slice_ok un ok)"
proof
  show "slice_reach un reach h sl \<subseteq> {..<h_next h}" if "slice_ok un ok h sl" for h sl
    using that allocated by (fastforce simp: slice_reach_def slice_ok_def list_all_iff split: option.splits)
qed (rule slice_frame slice_copies [OF assms], assumption+)+

text \<open>The same for a pointer, and so for the method \<^verbatim>\<open>DeepCopy\<close> of the struct.\<close>

lemma pointer_copies:
  assumes un: "\<And>ys. un (mk ys) = ys"
    and "pointer_ok un ok h p" and "pointer_DeepCopy mk un zero into h p = (h', q)"
  shows "heap_ext h h' \<and> pointer_val un val h' q = pointer_val un val h p \<and>
    pointer_reach un reach h' q \<subseteq> {h_next h..<h_next h'} \<and> pointer_ok un ok h' q"
proof (cases p)
  case None
  with assms(3) show ?thesis by (auto simp: pointer_DeepCopy_def pointer_val_def pointer_reach_def pointer_ok_def)
next
  case (Some ai)
  obtain a i where ai: "ai = (a, i)" by (cases ai)
  let ?x = "un (h_mem h a) ! i"
  define h1 where "h1 = fst (alloc (mk [zero]) h)"
  then have al: "alloc (mk [zero]) h = (h1, h_next h)" and n: "h_next h1 = Suc (h_next h)"
    and ext1: "heap_ext h h1" by (simp_all add: alloc_def heap_ext_def)
  from assms(2) Some ai have x: "a < h_next h" "ok h ?x" by (auto simp: pointer_ok_def)
  obtain h2 v where c: "into h1 ?x = (h2, v)" by (cases "into h1 ?x") auto
  have "h_mem h1 a = h_mem h a" using x(1) ext1 by (simp add: heap_ext_def)
  with assms(3) Some ai c have h': "h' = put (h_next h) (mk [v]) h2" and q: "q = Some (h_next h, 0)"
    by (simp_all add: pointer_DeepCopy_def al)
  note cp = copies_later [OF x(2) ext1 c]
  have v: "val h' v = val h ?x \<and> reach h' v \<subseteq> {Suc (h_next h)..<h_next h'} \<and> ok h' v"
    using frame_put [of h2 v "h_next h" "mk [v]"] cp n unfolding h' by fastforce
  moreover have ext: "heap_ext h h'" "h_next h < h_next h'"
    using cp heap_ext_next [of h1 h2] n unfolding h' by (auto intro: heap_ext_put)
  moreover have "un (h_mem h' (h_next h)) = [v]" using un unfolding h' by simp
  ultimately show ?thesis using Some ai q
    by (fastforce simp: pointer_val_def pointer_reach_def pointer_ok_def)
qed

lemma deep_copy_pointer:
  assumes "\<And>ys. un (mk ys) = ys"
  shows "deep_copy (pointer_DeepCopy mk un zero into) (pointer_val un val) (pointer_reach un reach) (pointer_ok un ok)"
proof
  show "pointer_reach un reach h p \<subseteq> {..<h_next h}" if "pointer_ok un ok h p" for h p
    using that allocated by (fastforce simp: pointer_reach_def pointer_ok_def split: option.splits)
  show "pointer_val un val h' p = pointer_val un val h p \<and> pointer_reach un reach h' p = pointer_reach un reach h p \<and>
      pointer_ok un ok h' p"
    if "pointer_ok un ok h p" "h_next h \<le> h_next h'" "\<forall>a\<in>pointer_reach un reach h p. h_mem h' a = h_mem h a" for h p h'
  proof (cases p)
    case (Some ai)
    with that frame [of h "un (h_mem h (fst ai)) ! snd ai" h'] show ?thesis
      by (auto simp: pointer_val_def pointer_reach_def pointer_ok_def split: prod.splits)
  qed (simp_all add: pointer_val_def pointer_reach_def pointer_ok_def)
qed (rule pointer_copies [OF assms], assumption+)

text \<open>A struct is copied by assigning it and then copying the part \<open>get x\<close> that holds references, with the rest
  (\<open>V\<close> ignores that part) assigned.\<close>

lemma deep_copy_struct:
  assumes "\<And>h x. into' h x = (let (h', b) = into h (get x) in (h', upd b x))"
    and "\<And>h x. val' h x = V x (val h (get x))"
    and "\<And>h x. reach' h x = reach h (get x)" and "\<And>h x. ok' h x = ok h (get x)"
    and "\<And>b x. get (upd b x) = b" and "\<And>b x. V (upd b x) = V x"
  shows "deep_copy into' val' reach' ok'"
proof
  show "heap_ext h h' \<and> val' h' y = val' h x \<and> reach' h' y \<subseteq> {h_next h..<h_next h'} \<and> ok' h' y"
    if "ok' h x" "into' h x = (h', y)" for h x h' y
    using that copies [of h "get x"] by (auto simp: assms split: prod.splits)
  show "val' h' x = val' h x \<and> reach' h' x = reach' h x \<and> ok' h' x"
    if "ok' h x" "h_next h \<le> h_next h'" "\<forall>a\<in>reach' h x. h_mem h' a = h_mem h a" for h x h'
    using that frame [of h "get x" h'] unfolding assms(2-4) by simp
  show "reach' h x \<subseteq> {..<h_next h}" if "ok' h x" for h x
    using that allocated [of h "get x"] unfolding assms(3,4) by simp
qed

end

text \<open>Two parts, copied one after the other.\<close>

definition pair_DeepCopyInto ::
    "('h \<Rightarrow> 'a \<Rightarrow> 'h \<times> 'a) \<Rightarrow> ('h \<Rightarrow> 'c \<Rightarrow> 'h \<times> 'c) \<Rightarrow> 'h \<Rightarrow> 'a \<times> 'c \<Rightarrow> 'h \<times> 'a \<times> 'c" where
  "pair_DeepCopyInto into1 into2 h p =
     (let (h1, x) = into1 h (fst p); (h2, y) = into2 h1 (snd p) in (h2, x, y))"

definition both :: "('r \<Rightarrow> 'r \<Rightarrow> 's) \<Rightarrow> ('h \<Rightarrow> 'a \<Rightarrow> 'r) \<Rightarrow> ('h \<Rightarrow> 'c \<Rightarrow> 'r) \<Rightarrow> 'h \<Rightarrow> 'a \<times> 'c \<Rightarrow> 's" where
  "both f r1 r2 h p = f (r1 h (fst p)) (r2 h (snd p))"

lemma deep_copy_pair:
  assumes "deep_copy into1 val1 reach1 ok1" and "deep_copy into2 val2 reach2 ok2"
  shows "deep_copy (pair_DeepCopyInto into1 into2) (\<lambda>h p. (val1 h (fst p), val2 h (snd p)))
     (both (\<union>) reach1 reach2) (both (\<and>) ok1 ok2)"
proof
  show "heap_ext h h' \<and> (val1 h' (fst q), val2 h' (snd q)) = (val1 h (fst p), val2 h (snd p)) \<and>
      both (\<union>) reach1 reach2 h' q \<subseteq> {h_next h..<h_next h'} \<and> both (\<and>) ok1 ok2 h' q"
    if ok: "both (\<and>) ok1 ok2 h p" and cp: "pair_DeepCopyInto into1 into2 h p = (h', q)" for h p h' q
  proof -
    from cp obtain h1 where c: "into1 h (fst p) = (h1, fst q)" "into2 h1 (snd p) = (h', snd q)"
      by (auto simp: pair_DeepCopyInto_def split: prod.splits)
    from ok have o: "ok1 h (fst p)" "ok2 h (snd p)" by (simp_all add: both_def)
    note one = deep_copy.copies [OF assms(1) o(1) c(1)]
    then have two: "heap_ext h h' \<and> heap_ext h1 h' \<and> val2 h' (snd q) = val2 h (snd p) \<and>
        reach2 h' (snd q) \<subseteq> {h_next h1..<h_next h'} \<and> ok2 h' (snd q)"
      using deep_copy.copies_later [OF assms(2) o(2) _ c(2)] by blast
    then have "val1 h' (fst q) = val1 h1 (fst q) \<and> reach1 h' (fst q) = reach1 h1 (fst q) \<and> ok1 h' (fst q)"
      using deep_copy.frame_ext [OF assms(1)] one by blast
    with one two heap_ext_next [of h h1] heap_ext_next [of h1 h'] show ?thesis
      by (fastforce simp: both_def)
  qed
  show "(val1 h' (fst p), val2 h' (snd p)) = (val1 h (fst p), val2 h (snd p)) \<and>
      both (\<union>) reach1 reach2 h' p = both (\<union>) reach1 reach2 h p \<and> both (\<and>) ok1 ok2 h' p"
    if "both (\<and>) ok1 ok2 h p" "h_next h \<le> h_next h'" "\<forall>a\<in>both (\<union>) reach1 reach2 h p. h_mem h' a = h_mem h a" for h p h'
    using that deep_copy.frame [OF assms(1), of h "fst p" h'] deep_copy.frame [OF assms(2), of h "snd p" h']
    unfolding both_def by simp
  show "both (\<union>) reach1 reach2 h p \<subseteq> {..<h_next h}" if "both (\<and>) ok1 ok2 h p" for h p
    using that deep_copy.allocated [OF assms(1), of h "fst p"] deep_copy.allocated [OF assms(2), of h "snd p"]
    unfolding both_def by simp
qed

text \<open>Data without references is copied by assignment.\<close>

interpretation plain: deep_copy "\<lambda>h x. (h, x)" "\<lambda>h x. x" "\<lambda>h x. {}" "\<lambda>h x. True"
  by unfold_locales auto

text \<open>A slice of such data is copied with \<^verbatim>\<open>copy\<close>, with the same effect as the loop.\<close>

lemma deep_copy_plain_slice:
  assumes un: "\<And>ys. un (mk ys) = ys"
  shows "deep_copy (slice_copy mk un zero) (slice_val un (\<lambda>h x. x)) (slice_reach un (\<lambda>h x. {})) (slice_ok un (\<lambda>h x. True))"
proof
  note loop = plain.deep_copy_slice [of un mk, OF un]
  show "slice_reach un (\<lambda>h x. {}) h sl \<subseteq> {..<h_next h}" if "slice_ok un (\<lambda>h x. True) h sl" for h sl
    using deep_copy.allocated [OF loop that] .
  show "heap_ext h h' \<and> slice_val un (\<lambda>h x. x) h' r = slice_val un (\<lambda>h x. x) h sl \<and>
      slice_reach un (\<lambda>h x. {}) h' r \<subseteq> {h_next h..<h_next h'} \<and> slice_ok un (\<lambda>h x. True) h' r"
    if "slice_ok un (\<lambda>h x. True) h sl" "slice_copy mk un zero h sl = (h', r)" for h sl h' r
  proof (cases sl)
    case None
    with that show ?thesis by (auto simp: slice_copy_def slice_val_def slice_reach_def slice_ok_def)
  next
    case (Some s)
    let ?t = "\<lparr>s_addr = h_next h, s_off = 0, s_len = s_len s, s_cap = s_len s\<rparr>"
    let ?h1 = "fst (alloc (mk (replicate (s_len s) zero)) h)" and ?xs = "slice_elems un h s"
    from that(1) Some have s: "s_addr s < h_next h" "length ?xs = s_len s" by (auto simp: slice_ok_def slice_elems_def)
    then have "slice_elems un ?h1 s = ?xs" by (simp add: slice_elems_def alloc_def)
    with that(2) Some s(2) have h': "h' = put (h_next h) (mk ?xs) ?h1" and r: "r = Some ?t"
      by (auto simp: slice_copy_def copy_slice_def make_slice_def alloc_def un)
    then have el: "slice_elems un h' ?t = ?xs" using s(2) by (simp add: slice_elems_def [of _ _ ?t] un)
    have "heap_ext h h'" unfolding h' by (intro heap_ext_put heap_ext_alloc) simp
    moreover have "h_next h < h_next h'" unfolding h' by (simp add: alloc_def)
    ultimately show ?thesis using el s(2) r Some h'
      by (auto simp: slice_val_def slice_reach_def slice_ok_def list_all_iff un)
  qed
qed (rule deep_copy.frame [OF plain.deep_copy_slice [of un mk, OF un]], assumption+)

end
