(* ===== verification/DeepCopy.thy ===== *)
theory DeepCopy
  imports GoHeap ViolationRecords
begin

text \<open>
  The deep copies of the API types (\<^verbatim>\<open>api/v1alpha1/zz_generated.deepcopy.go\<close>). The rest of the development treats the
  API objects as values: a controller that changes a copy of an object does not change the object. Here the objects are what Go has
  in memory, structs with slices and pointers into a heap, and the generated functions are shown to give the
  value semantics: a copy denotes the same value, the original is unchanged, and nothing reachable from the
  copy is reachable from the original.

  The memory layout of a type of \<open>ApiTypes\<close> is the record with a \<open>g\<close> in front: a slice is \<open>None\<close> for nil
  or its header, a pointer \<open>None\<close> or an address. Structs of other packages (label selectors, metadata,
  conditions, times, NetworkPolicy specifications) are values of a type \<open>'x\<close>, opaque to this code; their
  \<^verbatim>\<open>DeepCopyInto\<close> methods and zero values are the argument \<open>third_party\<close>. \<open>third_party_ok\<close> is what those methods are documented to
  do, relative to a view of what the opaque structs denote and reach.
\<close>

section \<open>Structs in memory\<close>

record gIstioSource = g_Principals :: "gslice option"
record gIstioFrom = g_Source :: gIstioSource
record gIstioOperation = g_Ports :: "gslice option"
record gIstioTo = g_Operation :: gIstioOperation

record gIstioAuthorizationPolicyRule =
  g_From :: "gslice option"
  g_To :: "gslice option"

record 'x gIstioAuthorizationPolicySpec =
  g_Selector :: 'x
  g_Rules :: "gslice option"

record gPolicyBackendSpec =
  g_Backend :: PolicyBackend
  g_Kubernetes :: "gptr option"
  g_Istio :: "gptr option"

record 'x gWorkloadRef =
  g_wr_Namespace :: string
  g_wr_OwnerKind :: WorkloadKind
  g_wr_OwnerName :: string
  g_wr_Identity :: string
  g_wr_Selector :: 'x

record 'x gViolationInfo =
  g_Timestamp :: 'x
  g_vi_Source :: "'x gWorkloadRef"
  g_Dest :: "'x gWorkloadRef"
  g_vi_Protocol :: Protocol
  g_DstPort :: int32
  g_Action :: WorkloadNetworkPolicyMode
  g_DenyingPolicyNamespace :: string
  g_DenyingPolicyName :: string

record 'x gViolationRecord =
  g_Info :: "'x gViolationInfo"
  g_ID :: int64

record 'x gAcknowledgedViolationRecord =
  g_Violation :: "'x gViolationRecord"
  g_Reason :: string
  g_AcknowledgedAt :: 'x

record gWorkloadNetworkPolicySpec =
  g_spec_Backend :: gPolicyBackendSpec
  g_spec_Targeting :: WorkloadTargetingSpec
  g_spec_Mode :: WorkloadNetworkPolicyMode

record gWorkloadNetworkPolicyStatus =
  g_Conditions :: "gslice option"
  g_ObservedGeneration :: int64
  g_ViolationCount :: int64
  g_ActiveViolationCount :: int64
  g_Violations :: "gslice option"
  g_AcknowledgedViolations :: "gslice option"

record TypeMeta =
  tm_Kind :: string
  tm_APIVersion :: string

record 'x gWorkloadNetworkPolicy =
  g_wnp_TypeMeta :: TypeMeta
  g_wnp_ObjectMeta :: 'x
  g_wnp_Spec :: gWorkloadNetworkPolicySpec
  g_wnp_Status :: gWorkloadNetworkPolicyStatus

record 'x gWorkloadNetworkPolicyList =
  g_wnps_TypeMeta :: TypeMeta
  g_wnps_ListMeta :: 'x
  g_wnps_Items :: "gslice option"

record gWorkloadNetworkPolicyProposalSpec =
  g_pspec_Backend :: gPolicyBackendSpec
  g_pspec_Targeting :: WorkloadTargetingSpec

record gWorkloadNetworkPolicyProposalStatus =
  g_pstatus_Conditions :: "gslice option"

record 'x gWorkloadNetworkPolicyProposal =
  g_wnpp_TypeMeta :: TypeMeta
  g_wnpp_ObjectMeta :: 'x
  g_wnpp_Spec :: gWorkloadNetworkPolicyProposalSpec
  g_wnpp_Status :: gWorkloadNetworkPolicyProposalStatus

record 'x gWorkloadNetworkPolicyProposalList =
  g_wnpps_TypeMeta :: TypeMeta
  g_wnpps_ListMeta :: 'x
  g_wnpps_Items :: "gslice option"

text \<open>The blocks of the heap: an array for every type that the code allocates with \<^verbatim>\<open>make\<close> or \<^verbatim>\<open>new\<close>. \<open>AExternal\<close>
  holds the opaque structs.\<close>

datatype 'x gblock =
     AStrings "string list"
  | AExternal "'x list"
  | AIstioSource "gIstioSource list"
  | AIstioFrom "gIstioFrom list"
  | AIstioOperation "gIstioOperation list"
  | AIstioTo "gIstioTo list"
  | AIstioAuthorizationPolicyRule "gIstioAuthorizationPolicyRule list"
  | AIstioAuthorizationPolicySpec "'x gIstioAuthorizationPolicySpec list"
  | APolicyBackendSpec "gPolicyBackendSpec list"
  | AWorkloadRef "'x gWorkloadRef list"
  | AWorkloadTargetRef "WorkloadTargetRef list"
  | AWorkloadTargetingSpec "WorkloadTargetingSpec list"
  | AViolationInfo "'x gViolationInfo list"
  | AViolationRecord "'x gViolationRecord list"
  | AViolationRecordKey "ViolationRecordKey list"
  | AAcknowledgedViolationRecord "'x gAcknowledgedViolationRecord list"
  | AWorkloadNetworkPolicySpec "gWorkloadNetworkPolicySpec list"
  | AWorkloadNetworkPolicyStatus "gWorkloadNetworkPolicyStatus list"
  | AWorkloadNetworkPolicy "'x gWorkloadNetworkPolicy list"
  | AWorkloadNetworkPolicyList "'x gWorkloadNetworkPolicyList list"
  | AWorkloadNetworkPolicyProposalSpec "gWorkloadNetworkPolicyProposalSpec list"
  | AWorkloadNetworkPolicyProposalStatus "gWorkloadNetworkPolicyProposalStatus list"
  | AWorkloadNetworkPolicyProposal "'x gWorkloadNetworkPolicyProposal list"
  | AWorkloadNetworkPolicyProposalList "'x gWorkloadNetworkPolicyProposalList list"

definition un_Strings :: "'x gblock \<Rightarrow> string list" where
  "un_Strings b = (case b of AStrings xs \<Rightarrow> xs | _ \<Rightarrow> [])"

definition un_External :: "'x gblock \<Rightarrow> 'x list" where
  "un_External b = (case b of AExternal xs \<Rightarrow> xs | _ \<Rightarrow> [])"

definition un_IstioSource :: "'x gblock \<Rightarrow> gIstioSource list" where
  "un_IstioSource b = (case b of AIstioSource xs \<Rightarrow> xs | _ \<Rightarrow> [])"

definition un_IstioFrom :: "'x gblock \<Rightarrow> gIstioFrom list" where
  "un_IstioFrom b = (case b of AIstioFrom xs \<Rightarrow> xs | _ \<Rightarrow> [])"

definition un_IstioOperation :: "'x gblock \<Rightarrow> gIstioOperation list" where
  "un_IstioOperation b = (case b of AIstioOperation xs \<Rightarrow> xs | _ \<Rightarrow> [])"

definition un_IstioTo :: "'x gblock \<Rightarrow> gIstioTo list" where
  "un_IstioTo b = (case b of AIstioTo xs \<Rightarrow> xs | _ \<Rightarrow> [])"

definition un_IstioAuthorizationPolicyRule :: "'x gblock \<Rightarrow> gIstioAuthorizationPolicyRule list" where
  "un_IstioAuthorizationPolicyRule b = (case b of AIstioAuthorizationPolicyRule xs \<Rightarrow> xs | _ \<Rightarrow> [])"

definition un_IstioAuthorizationPolicySpec :: "'x gblock \<Rightarrow> 'x gIstioAuthorizationPolicySpec list" where
  "un_IstioAuthorizationPolicySpec b = (case b of AIstioAuthorizationPolicySpec xs \<Rightarrow> xs | _ \<Rightarrow> [])"

definition un_PolicyBackendSpec :: "'x gblock \<Rightarrow> gPolicyBackendSpec list" where
  "un_PolicyBackendSpec b = (case b of APolicyBackendSpec xs \<Rightarrow> xs | _ \<Rightarrow> [])"

definition un_WorkloadRef :: "'x gblock \<Rightarrow> 'x gWorkloadRef list" where
  "un_WorkloadRef b = (case b of AWorkloadRef xs \<Rightarrow> xs | _ \<Rightarrow> [])"

definition un_WorkloadTargetRef :: "'x gblock \<Rightarrow> WorkloadTargetRef list" where
  "un_WorkloadTargetRef b = (case b of AWorkloadTargetRef xs \<Rightarrow> xs | _ \<Rightarrow> [])"

definition un_WorkloadTargetingSpec :: "'x gblock \<Rightarrow> WorkloadTargetingSpec list" where
  "un_WorkloadTargetingSpec b = (case b of AWorkloadTargetingSpec xs \<Rightarrow> xs | _ \<Rightarrow> [])"

definition un_ViolationInfo :: "'x gblock \<Rightarrow> 'x gViolationInfo list" where
  "un_ViolationInfo b = (case b of AViolationInfo xs \<Rightarrow> xs | _ \<Rightarrow> [])"

definition un_ViolationRecord :: "'x gblock \<Rightarrow> 'x gViolationRecord list" where
  "un_ViolationRecord b = (case b of AViolationRecord xs \<Rightarrow> xs | _ \<Rightarrow> [])"

definition un_ViolationRecordKey :: "'x gblock \<Rightarrow> ViolationRecordKey list" where
  "un_ViolationRecordKey b = (case b of AViolationRecordKey xs \<Rightarrow> xs | _ \<Rightarrow> [])"

definition un_AcknowledgedViolationRecord :: "'x gblock \<Rightarrow> 'x gAcknowledgedViolationRecord list" where
  "un_AcknowledgedViolationRecord b = (case b of AAcknowledgedViolationRecord xs \<Rightarrow> xs | _ \<Rightarrow> [])"

definition un_WorkloadNetworkPolicySpec :: "'x gblock \<Rightarrow> gWorkloadNetworkPolicySpec list" where
  "un_WorkloadNetworkPolicySpec b = (case b of AWorkloadNetworkPolicySpec xs \<Rightarrow> xs | _ \<Rightarrow> [])"

definition un_WorkloadNetworkPolicyStatus :: "'x gblock \<Rightarrow> gWorkloadNetworkPolicyStatus list" where
  "un_WorkloadNetworkPolicyStatus b = (case b of AWorkloadNetworkPolicyStatus xs \<Rightarrow> xs | _ \<Rightarrow> [])"

definition un_WorkloadNetworkPolicy :: "'x gblock \<Rightarrow> 'x gWorkloadNetworkPolicy list" where
  "un_WorkloadNetworkPolicy b = (case b of AWorkloadNetworkPolicy xs \<Rightarrow> xs | _ \<Rightarrow> [])"

definition un_WorkloadNetworkPolicyList :: "'x gblock \<Rightarrow> 'x gWorkloadNetworkPolicyList list" where
  "un_WorkloadNetworkPolicyList b = (case b of AWorkloadNetworkPolicyList xs \<Rightarrow> xs | _ \<Rightarrow> [])"

definition un_WorkloadNetworkPolicyProposalSpec :: "'x gblock \<Rightarrow> gWorkloadNetworkPolicyProposalSpec list" where
  "un_WorkloadNetworkPolicyProposalSpec b = (case b of AWorkloadNetworkPolicyProposalSpec xs \<Rightarrow> xs | _ \<Rightarrow> [])"

definition un_WorkloadNetworkPolicyProposalStatus :: "'x gblock \<Rightarrow> gWorkloadNetworkPolicyProposalStatus list" where
  "un_WorkloadNetworkPolicyProposalStatus b = (case b of AWorkloadNetworkPolicyProposalStatus xs \<Rightarrow> xs | _ \<Rightarrow> [])"

definition un_WorkloadNetworkPolicyProposal :: "'x gblock \<Rightarrow> 'x gWorkloadNetworkPolicyProposal list" where
  "un_WorkloadNetworkPolicyProposal b = (case b of AWorkloadNetworkPolicyProposal xs \<Rightarrow> xs | _ \<Rightarrow> [])"

definition un_WorkloadNetworkPolicyProposalList :: "'x gblock \<Rightarrow> 'x gWorkloadNetworkPolicyProposalList list" where
  "un_WorkloadNetworkPolicyProposalList b = (case b of AWorkloadNetworkPolicyProposalList xs \<Rightarrow> xs | _ \<Rightarrow> [])"

lemma un_array [simp]:
  "un_Strings (AStrings xsStrings) = xsStrings"
  "un_External (AExternal xsExternal) = xsExternal"
  "un_IstioSource (AIstioSource xsIstioSource) = xsIstioSource"
  "un_IstioFrom (AIstioFrom xsIstioFrom) = xsIstioFrom"
  "un_IstioOperation (AIstioOperation xsIstioOperation) = xsIstioOperation"
  "un_IstioTo (AIstioTo xsIstioTo) = xsIstioTo"
  "un_IstioAuthorizationPolicyRule (AIstioAuthorizationPolicyRule xsIstioAuthorizationPolicyRule) = xsIstioAuthorizationPolicyRule"
  "un_IstioAuthorizationPolicySpec (AIstioAuthorizationPolicySpec xsIstioAuthorizationPolicySpec) = xsIstioAuthorizationPolicySpec"
  "un_PolicyBackendSpec (APolicyBackendSpec xsPolicyBackendSpec) = xsPolicyBackendSpec"
  "un_WorkloadRef (AWorkloadRef xsWorkloadRef) = xsWorkloadRef"
  "un_WorkloadTargetRef (AWorkloadTargetRef xsWorkloadTargetRef) = xsWorkloadTargetRef"
  "un_WorkloadTargetingSpec (AWorkloadTargetingSpec xsWorkloadTargetingSpec) = xsWorkloadTargetingSpec"
  "un_ViolationInfo (AViolationInfo xsViolationInfo) = xsViolationInfo"
  "un_ViolationRecord (AViolationRecord xsViolationRecord) = xsViolationRecord"
  "un_ViolationRecordKey (AViolationRecordKey xsViolationRecordKey) = xsViolationRecordKey"
  "un_AcknowledgedViolationRecord (AAcknowledgedViolationRecord xsAcknowledgedViolationRecord) = xsAcknowledgedViolationRecord"
  "un_WorkloadNetworkPolicySpec (AWorkloadNetworkPolicySpec xsWorkloadNetworkPolicySpec) = xsWorkloadNetworkPolicySpec"
  "un_WorkloadNetworkPolicyStatus (AWorkloadNetworkPolicyStatus xsWorkloadNetworkPolicyStatus) = xsWorkloadNetworkPolicyStatus"
  "un_WorkloadNetworkPolicy (AWorkloadNetworkPolicy xsWorkloadNetworkPolicy) = xsWorkloadNetworkPolicy"
  "un_WorkloadNetworkPolicyList (AWorkloadNetworkPolicyList xsWorkloadNetworkPolicyList) = xsWorkloadNetworkPolicyList"
  "un_WorkloadNetworkPolicyProposalSpec (AWorkloadNetworkPolicyProposalSpec xsWorkloadNetworkPolicyProposalSpec) = xsWorkloadNetworkPolicyProposalSpec"
  "un_WorkloadNetworkPolicyProposalStatus (AWorkloadNetworkPolicyProposalStatus xsWorkloadNetworkPolicyProposalStatus) = xsWorkloadNetworkPolicyProposalStatus"
  "un_WorkloadNetworkPolicyProposal (AWorkloadNetworkPolicyProposal xsWorkloadNetworkPolicyProposal) = xsWorkloadNetworkPolicyProposal"
  "un_WorkloadNetworkPolicyProposalList (AWorkloadNetworkPolicyProposalList xsWorkloadNetworkPolicyProposalList) = xsWorkloadNetworkPolicyProposalList"
  by (simp_all add: un_Strings_def un_External_def un_IstioSource_def un_IstioFrom_def un_IstioOperation_def un_IstioTo_def un_IstioAuthorizationPolicyRule_def un_IstioAuthorizationPolicySpec_def un_PolicyBackendSpec_def un_WorkloadRef_def un_WorkloadTargetRef_def un_WorkloadTargetingSpec_def un_ViolationInfo_def un_ViolationRecord_def un_ViolationRecordKey_def un_AcknowledgedViolationRecord_def un_WorkloadNetworkPolicySpec_def un_WorkloadNetworkPolicyStatus_def un_WorkloadNetworkPolicy_def un_WorkloadNetworkPolicyList_def un_WorkloadNetworkPolicyProposalSpec_def un_WorkloadNetworkPolicyProposalStatus_def un_WorkloadNetworkPolicyProposal_def un_WorkloadNetworkPolicyProposalList_def)

type_synonym 'x mem = "'x gblock gheap"

text \<open>The methods of the other packages, and the zero values of their types.\<close>

record 'x third_party =
  LabelSelector_DeepCopyInto :: "'x mem \<Rightarrow> 'x \<Rightarrow> 'x mem \<times> 'x"
  NetworkPolicySpec_DeepCopyInto :: "'x mem \<Rightarrow> 'x \<Rightarrow> 'x mem \<times> 'x"
  ObjectMeta_DeepCopyInto :: "'x mem \<Rightarrow> 'x \<Rightarrow> 'x mem \<times> 'x"
  ListMeta_DeepCopyInto :: "'x mem \<Rightarrow> 'x \<Rightarrow> 'x mem \<times> 'x"
  Condition_DeepCopyInto :: "'x mem \<Rightarrow> 'x \<Rightarrow> 'x mem \<times> 'x"
  Time_DeepCopyInto :: "'x mem \<Rightarrow> 'x \<Rightarrow> 'x mem \<times> 'x"
  LabelSelector_zero :: 'x
  NetworkPolicySpec_zero :: 'x
  ObjectMeta_zero :: 'x
  ListMeta_zero :: 'x
  Condition_zero :: 'x
  Time_zero :: 'x

section \<open>Zero values\<close>

definition IstioSource_zero :: gIstioSource where
  "IstioSource_zero = \<lparr>g_Principals = None\<rparr>"

definition IstioFrom_zero :: gIstioFrom where
  "IstioFrom_zero = \<lparr>g_Source = IstioSource_zero\<rparr>"

definition IstioOperation_zero :: gIstioOperation where
  "IstioOperation_zero = \<lparr>g_Ports = None\<rparr>"

definition IstioTo_zero :: gIstioTo where
  "IstioTo_zero = \<lparr>g_Operation = IstioOperation_zero\<rparr>"

definition IstioAuthorizationPolicyRule_zero :: gIstioAuthorizationPolicyRule where
  "IstioAuthorizationPolicyRule_zero = \<lparr>g_From = None, g_To = None\<rparr>"

definition IstioAuthorizationPolicySpec_zero :: "'x third_party \<Rightarrow> 'x gIstioAuthorizationPolicySpec" where
  "IstioAuthorizationPolicySpec_zero tp = \<lparr>g_Selector = LabelSelector_zero tp, g_Rules = None\<rparr>"

definition PolicyBackendSpec_zero :: gPolicyBackendSpec where
  "PolicyBackendSpec_zero = \<lparr>g_Backend = [], g_Kubernetes = None, g_Istio = None\<rparr>"

definition WorkloadRef_zero :: "'x third_party \<Rightarrow> 'x gWorkloadRef" where
  "WorkloadRef_zero tp = \<lparr>g_wr_Namespace = [], g_wr_OwnerKind = [], g_wr_OwnerName = [], g_wr_Identity = [],
     g_wr_Selector = LabelSelector_zero tp\<rparr>"

definition WorkloadTargetRef_zero :: WorkloadTargetRef where
  "WorkloadTargetRef_zero = \<lparr>tr_Kind = [], tr_Name = []\<rparr>"

definition WorkloadTargetingSpec_zero :: WorkloadTargetingSpec where
  "WorkloadTargetingSpec_zero = \<lparr>TargetRef = WorkloadTargetRef_zero, Direction = []\<rparr>"

definition ViolationInfo_zero :: "'x third_party \<Rightarrow> 'x gViolationInfo" where
  "ViolationInfo_zero tp = \<lparr>g_Timestamp = Time_zero tp, g_vi_Source = WorkloadRef_zero tp, g_Dest = WorkloadRef_zero tp,
     g_vi_Protocol = [], g_DstPort = 0, g_Action = [], g_DenyingPolicyNamespace = [], g_DenyingPolicyName = []\<rparr>"

definition ViolationRecord_zero :: "'x third_party \<Rightarrow> 'x gViolationRecord" where
  "ViolationRecord_zero tp = \<lparr>g_Info = ViolationInfo_zero tp, g_ID = 0\<rparr>"

definition ViolationRecordKey_zero :: ViolationRecordKey where
  "ViolationRecordKey_zero = \<lparr>SrcNamespace = [], SrcOwnerKind = [], SrcOwnerName = [], SrcIdentity = [], DstNamespace = [],
     DstOwnerKind = [], DstOwnerName = [], DstIdentity = [], key_Protocol = [], key_DstPort = 0, key_Action = [],
     key_DenyingPolicyNamespace = [], key_DenyingPolicyName = []\<rparr>"

definition AcknowledgedViolationRecord_zero :: "'x third_party \<Rightarrow> 'x gAcknowledgedViolationRecord" where
  "AcknowledgedViolationRecord_zero tp =
     \<lparr>g_Violation = ViolationRecord_zero tp, g_Reason = [], g_AcknowledgedAt = Time_zero tp\<rparr>"

definition WorkloadNetworkPolicySpec_zero :: gWorkloadNetworkPolicySpec where
  "WorkloadNetworkPolicySpec_zero =
     \<lparr>g_spec_Backend = PolicyBackendSpec_zero, g_spec_Targeting = WorkloadTargetingSpec_zero, g_spec_Mode = []\<rparr>"

definition WorkloadNetworkPolicyStatus_zero :: gWorkloadNetworkPolicyStatus where
  "WorkloadNetworkPolicyStatus_zero = \<lparr>g_Conditions = None, g_ObservedGeneration = 0, g_ViolationCount = 0,
     g_ActiveViolationCount = 0, g_Violations = None, g_AcknowledgedViolations = None\<rparr>"

definition TypeMeta_zero :: TypeMeta where
  "TypeMeta_zero = \<lparr>tm_Kind = [], tm_APIVersion = []\<rparr>"

definition WorkloadNetworkPolicy_zero :: "'x third_party \<Rightarrow> 'x gWorkloadNetworkPolicy" where
  "WorkloadNetworkPolicy_zero tp = \<lparr>g_wnp_TypeMeta = TypeMeta_zero, g_wnp_ObjectMeta = ObjectMeta_zero tp,
     g_wnp_Spec = WorkloadNetworkPolicySpec_zero, g_wnp_Status = WorkloadNetworkPolicyStatus_zero\<rparr>"

definition WorkloadNetworkPolicyList_zero :: "'x third_party \<Rightarrow> 'x gWorkloadNetworkPolicyList" where
  "WorkloadNetworkPolicyList_zero tp =
     \<lparr>g_wnps_TypeMeta = TypeMeta_zero, g_wnps_ListMeta = ListMeta_zero tp, g_wnps_Items = None\<rparr>"

definition WorkloadNetworkPolicyProposalSpec_zero :: gWorkloadNetworkPolicyProposalSpec where
  "WorkloadNetworkPolicyProposalSpec_zero =
     \<lparr>g_pspec_Backend = PolicyBackendSpec_zero, g_pspec_Targeting = WorkloadTargetingSpec_zero\<rparr>"

definition WorkloadNetworkPolicyProposalStatus_zero :: gWorkloadNetworkPolicyProposalStatus where
  "WorkloadNetworkPolicyProposalStatus_zero = \<lparr>g_pstatus_Conditions = None\<rparr>"

definition WorkloadNetworkPolicyProposal_zero :: "'x third_party \<Rightarrow> 'x gWorkloadNetworkPolicyProposal" where
  "WorkloadNetworkPolicyProposal_zero tp = \<lparr>g_wnpp_TypeMeta = TypeMeta_zero, g_wnpp_ObjectMeta = ObjectMeta_zero tp,
     g_wnpp_Spec = WorkloadNetworkPolicyProposalSpec_zero, g_wnpp_Status = WorkloadNetworkPolicyProposalStatus_zero\<rparr>"

definition WorkloadNetworkPolicyProposalList_zero :: "'x third_party \<Rightarrow> 'x gWorkloadNetworkPolicyProposalList" where
  "WorkloadNetworkPolicyProposalList_zero tp =
     \<lparr>g_wnpps_TypeMeta = TypeMeta_zero, g_wnpps_ListMeta = ListMeta_zero tp, g_wnpps_Items = None\<rparr>"

section \<open>The generated functions\<close>

text \<open>A \<^verbatim>\<open>DeepCopyInto\<close> takes the heap and \<open>*in\<close> and gives the heap and the final \<open>*out\<close>, which starts as \<open>*in\<close>.\<close>

definition IstioSource_DeepCopyInto ::
    "'x mem \<Rightarrow> gIstioSource \<Rightarrow> 'x mem \<times> gIstioSource" where
  "IstioSource_DeepCopyInto h x =
     (let out = x;
          (h1, v1) = slice_copy AStrings un_Strings [] h (g_Principals x);
          out = out\<lparr>g_Principals := v1\<rparr>
      in (h1, out))"

definition IstioSource_DeepCopy ::
    "'x mem \<Rightarrow> gptr option \<Rightarrow> 'x mem \<times> gptr option" where
  "IstioSource_DeepCopy = pointer_DeepCopy AIstioSource un_IstioSource IstioSource_zero IstioSource_DeepCopyInto"

definition IstioFrom_DeepCopyInto ::
    "'x mem \<Rightarrow> gIstioFrom \<Rightarrow> 'x mem \<times> gIstioFrom" where
  "IstioFrom_DeepCopyInto h x =
     (let out = x;
          (h1, v1) = IstioSource_DeepCopyInto h (g_Source x);
          out = out\<lparr>g_Source := v1\<rparr>
      in (h1, out))"

definition IstioFrom_DeepCopy ::
    "'x mem \<Rightarrow> gptr option \<Rightarrow> 'x mem \<times> gptr option" where
  "IstioFrom_DeepCopy = pointer_DeepCopy AIstioFrom un_IstioFrom IstioFrom_zero IstioFrom_DeepCopyInto"

definition IstioOperation_DeepCopyInto ::
    "'x mem \<Rightarrow> gIstioOperation \<Rightarrow> 'x mem \<times> gIstioOperation" where
  "IstioOperation_DeepCopyInto h x =
     (let out = x;
          (h1, v1) = slice_copy AStrings un_Strings [] h (g_Ports x);
          out = out\<lparr>g_Ports := v1\<rparr>
      in (h1, out))"

definition IstioOperation_DeepCopy ::
    "'x mem \<Rightarrow> gptr option \<Rightarrow> 'x mem \<times> gptr option" where
  "IstioOperation_DeepCopy = pointer_DeepCopy AIstioOperation un_IstioOperation
     IstioOperation_zero IstioOperation_DeepCopyInto"

definition IstioTo_DeepCopyInto ::
    "'x mem \<Rightarrow> gIstioTo \<Rightarrow> 'x mem \<times> gIstioTo" where
  "IstioTo_DeepCopyInto h x =
     (let out = x;
          (h1, v1) = IstioOperation_DeepCopyInto h (g_Operation x);
          out = out\<lparr>g_Operation := v1\<rparr>
      in (h1, out))"

definition IstioTo_DeepCopy ::
    "'x mem \<Rightarrow> gptr option \<Rightarrow> 'x mem \<times> gptr option" where
  "IstioTo_DeepCopy = pointer_DeepCopy AIstioTo un_IstioTo IstioTo_zero IstioTo_DeepCopyInto"

definition IstioAuthorizationPolicyRule_DeepCopyInto ::
    "'x mem \<Rightarrow> gIstioAuthorizationPolicyRule \<Rightarrow> 'x mem \<times> gIstioAuthorizationPolicyRule" where
  "IstioAuthorizationPolicyRule_DeepCopyInto h x =
     (let out = x;
          (h1, v1) = slice_DeepCopyInto AIstioFrom un_IstioFrom IstioFrom_zero IstioFrom_DeepCopyInto h (g_From x);
          out = out\<lparr>g_From := v1\<rparr>;
          (h2, v2) = slice_DeepCopyInto AIstioTo un_IstioTo IstioTo_zero IstioTo_DeepCopyInto h1 (g_To x);
          out = out\<lparr>g_To := v2\<rparr>
      in (h2, out))"

definition IstioAuthorizationPolicyRule_DeepCopy ::
    "'x mem \<Rightarrow> gptr option \<Rightarrow> 'x mem \<times> gptr option" where
  "IstioAuthorizationPolicyRule_DeepCopy = pointer_DeepCopy AIstioAuthorizationPolicyRule un_IstioAuthorizationPolicyRule
     IstioAuthorizationPolicyRule_zero IstioAuthorizationPolicyRule_DeepCopyInto"

definition IstioAuthorizationPolicySpec_DeepCopyInto ::
    "'x third_party \<Rightarrow> 'x mem \<Rightarrow> 'x gIstioAuthorizationPolicySpec \<Rightarrow> 'x mem \<times> 'x gIstioAuthorizationPolicySpec" where
  "IstioAuthorizationPolicySpec_DeepCopyInto tp h x =
     (let out = x;
          (h1, v1) = LabelSelector_DeepCopyInto tp h (g_Selector x);
          out = out\<lparr>g_Selector := v1\<rparr>;
          (h2, v2) = slice_DeepCopyInto AIstioAuthorizationPolicyRule un_IstioAuthorizationPolicyRule
            IstioAuthorizationPolicyRule_zero IstioAuthorizationPolicyRule_DeepCopyInto h1 (g_Rules x);
          out = out\<lparr>g_Rules := v2\<rparr>
      in (h2, out))"

definition IstioAuthorizationPolicySpec_DeepCopy ::
    "'x third_party \<Rightarrow> 'x mem \<Rightarrow> gptr option \<Rightarrow> 'x mem \<times> gptr option" where
  "IstioAuthorizationPolicySpec_DeepCopy tp = pointer_DeepCopy AIstioAuthorizationPolicySpec un_IstioAuthorizationPolicySpec
     (IstioAuthorizationPolicySpec_zero tp) (IstioAuthorizationPolicySpec_DeepCopyInto tp)"

definition PolicyBackendSpec_DeepCopyInto ::
    "'x third_party \<Rightarrow> 'x mem \<Rightarrow> gPolicyBackendSpec \<Rightarrow> 'x mem \<times> gPolicyBackendSpec" where
  "PolicyBackendSpec_DeepCopyInto tp h x =
     (let out = x;
          (h1, v1) = pointer_DeepCopy AExternal un_External
            (NetworkPolicySpec_zero tp) (NetworkPolicySpec_DeepCopyInto tp) h (g_Kubernetes x);
          out = out\<lparr>g_Kubernetes := v1\<rparr>;
          (h2, v2) = pointer_DeepCopy AIstioAuthorizationPolicySpec un_IstioAuthorizationPolicySpec
            (IstioAuthorizationPolicySpec_zero tp) (IstioAuthorizationPolicySpec_DeepCopyInto tp) h1 (g_Istio x);
          out = out\<lparr>g_Istio := v2\<rparr>
      in (h2, out))"

definition PolicyBackendSpec_DeepCopy ::
    "'x third_party \<Rightarrow> 'x mem \<Rightarrow> gptr option \<Rightarrow> 'x mem \<times> gptr option" where
  "PolicyBackendSpec_DeepCopy tp = pointer_DeepCopy APolicyBackendSpec un_PolicyBackendSpec
     PolicyBackendSpec_zero (PolicyBackendSpec_DeepCopyInto tp)"

definition WorkloadRef_DeepCopyInto ::
    "'x third_party \<Rightarrow> 'x mem \<Rightarrow> 'x gWorkloadRef \<Rightarrow> 'x mem \<times> 'x gWorkloadRef" where
  "WorkloadRef_DeepCopyInto tp h x =
     (let out = x;
          (h1, v1) = LabelSelector_DeepCopyInto tp h (g_wr_Selector x);
          out = out\<lparr>g_wr_Selector := v1\<rparr>
      in (h1, out))"

definition WorkloadRef_DeepCopy ::
    "'x third_party \<Rightarrow> 'x mem \<Rightarrow> gptr option \<Rightarrow> 'x mem \<times> gptr option" where
  "WorkloadRef_DeepCopy tp = pointer_DeepCopy AWorkloadRef un_WorkloadRef
     (WorkloadRef_zero tp) (WorkloadRef_DeepCopyInto tp)"

definition WorkloadTargetRef_DeepCopyInto ::
    "'x mem \<Rightarrow> WorkloadTargetRef \<Rightarrow> 'x mem \<times> WorkloadTargetRef" where
  "WorkloadTargetRef_DeepCopyInto h x =
     (let out = x
      in (h, out))"

definition WorkloadTargetRef_DeepCopy ::
    "'x mem \<Rightarrow> gptr option \<Rightarrow> 'x mem \<times> gptr option" where
  "WorkloadTargetRef_DeepCopy = pointer_DeepCopy AWorkloadTargetRef un_WorkloadTargetRef
     WorkloadTargetRef_zero WorkloadTargetRef_DeepCopyInto"

definition WorkloadTargetingSpec_DeepCopyInto ::
    "'x mem \<Rightarrow> WorkloadTargetingSpec \<Rightarrow> 'x mem \<times> WorkloadTargetingSpec" where
  "WorkloadTargetingSpec_DeepCopyInto h x =
     (let out = x;
          out = out\<lparr>TargetRef := TargetRef x\<rparr>
      in (h, out))"

definition WorkloadTargetingSpec_DeepCopy ::
    "'x mem \<Rightarrow> gptr option \<Rightarrow> 'x mem \<times> gptr option" where
  "WorkloadTargetingSpec_DeepCopy = pointer_DeepCopy AWorkloadTargetingSpec un_WorkloadTargetingSpec
     WorkloadTargetingSpec_zero WorkloadTargetingSpec_DeepCopyInto"

definition ViolationInfo_DeepCopyInto ::
    "'x third_party \<Rightarrow> 'x mem \<Rightarrow> 'x gViolationInfo \<Rightarrow> 'x mem \<times> 'x gViolationInfo" where
  "ViolationInfo_DeepCopyInto tp h x =
     (let out = x;
          (h1, v1) = Time_DeepCopyInto tp h (g_Timestamp x);
          out = out\<lparr>g_Timestamp := v1\<rparr>;
          (h2, v2) = WorkloadRef_DeepCopyInto tp h1 (g_vi_Source x);
          out = out\<lparr>g_vi_Source := v2\<rparr>;
          (h3, v3) = WorkloadRef_DeepCopyInto tp h2 (g_Dest x);
          out = out\<lparr>g_Dest := v3\<rparr>
      in (h3, out))"

definition ViolationInfo_DeepCopy ::
    "'x third_party \<Rightarrow> 'x mem \<Rightarrow> gptr option \<Rightarrow> 'x mem \<times> gptr option" where
  "ViolationInfo_DeepCopy tp = pointer_DeepCopy AViolationInfo un_ViolationInfo
     (ViolationInfo_zero tp) (ViolationInfo_DeepCopyInto tp)"

definition ViolationRecord_DeepCopyInto ::
    "'x third_party \<Rightarrow> 'x mem \<Rightarrow> 'x gViolationRecord \<Rightarrow> 'x mem \<times> 'x gViolationRecord" where
  "ViolationRecord_DeepCopyInto tp h x =
     (let out = x;
          (h1, v1) = ViolationInfo_DeepCopyInto tp h (g_Info x);
          out = out\<lparr>g_Info := v1\<rparr>
      in (h1, out))"

definition ViolationRecord_DeepCopy ::
    "'x third_party \<Rightarrow> 'x mem \<Rightarrow> gptr option \<Rightarrow> 'x mem \<times> gptr option" where
  "ViolationRecord_DeepCopy tp = pointer_DeepCopy AViolationRecord un_ViolationRecord
     (ViolationRecord_zero tp) (ViolationRecord_DeepCopyInto tp)"

definition ViolationRecordKey_DeepCopyInto ::
    "'x mem \<Rightarrow> ViolationRecordKey \<Rightarrow> 'x mem \<times> ViolationRecordKey" where
  "ViolationRecordKey_DeepCopyInto h x =
     (let out = x
      in (h, out))"

definition ViolationRecordKey_DeepCopy ::
    "'x mem \<Rightarrow> gptr option \<Rightarrow> 'x mem \<times> gptr option" where
  "ViolationRecordKey_DeepCopy = pointer_DeepCopy AViolationRecordKey un_ViolationRecordKey
     ViolationRecordKey_zero ViolationRecordKey_DeepCopyInto"

definition AcknowledgedViolationRecord_DeepCopyInto ::
    "'x third_party \<Rightarrow> 'x mem \<Rightarrow> 'x gAcknowledgedViolationRecord \<Rightarrow> 'x mem \<times> 'x gAcknowledgedViolationRecord" where
  "AcknowledgedViolationRecord_DeepCopyInto tp h x =
     (let out = x;
          (h1, v1) = ViolationRecord_DeepCopyInto tp h (g_Violation x);
          out = out\<lparr>g_Violation := v1\<rparr>;
          (h2, v2) = Time_DeepCopyInto tp h1 (g_AcknowledgedAt x);
          out = out\<lparr>g_AcknowledgedAt := v2\<rparr>
      in (h2, out))"

definition AcknowledgedViolationRecord_DeepCopy ::
    "'x third_party \<Rightarrow> 'x mem \<Rightarrow> gptr option \<Rightarrow> 'x mem \<times> gptr option" where
  "AcknowledgedViolationRecord_DeepCopy tp = pointer_DeepCopy AAcknowledgedViolationRecord un_AcknowledgedViolationRecord
     (AcknowledgedViolationRecord_zero tp) (AcknowledgedViolationRecord_DeepCopyInto tp)"

definition WorkloadNetworkPolicySpec_DeepCopyInto ::
    "'x third_party \<Rightarrow> 'x mem \<Rightarrow> gWorkloadNetworkPolicySpec \<Rightarrow> 'x mem \<times> gWorkloadNetworkPolicySpec" where
  "WorkloadNetworkPolicySpec_DeepCopyInto tp h x =
     (let out = x;
          (h1, v1) = PolicyBackendSpec_DeepCopyInto tp h (g_spec_Backend x);
          out = out\<lparr>g_spec_Backend := v1\<rparr>;
          out = out\<lparr>g_spec_Targeting := g_spec_Targeting x\<rparr>
      in (h1, out))"

definition WorkloadNetworkPolicySpec_DeepCopy ::
    "'x third_party \<Rightarrow> 'x mem \<Rightarrow> gptr option \<Rightarrow> 'x mem \<times> gptr option" where
  "WorkloadNetworkPolicySpec_DeepCopy tp = pointer_DeepCopy AWorkloadNetworkPolicySpec un_WorkloadNetworkPolicySpec
     WorkloadNetworkPolicySpec_zero (WorkloadNetworkPolicySpec_DeepCopyInto tp)"

definition WorkloadNetworkPolicyStatus_DeepCopyInto ::
    "'x third_party \<Rightarrow> 'x mem \<Rightarrow> gWorkloadNetworkPolicyStatus \<Rightarrow> 'x mem \<times> gWorkloadNetworkPolicyStatus" where
  "WorkloadNetworkPolicyStatus_DeepCopyInto tp h x =
     (let out = x;
          (h1, v1) = slice_DeepCopyInto AExternal un_External
            (Condition_zero tp) (Condition_DeepCopyInto tp) h (g_Conditions x);
          out = out\<lparr>g_Conditions := v1\<rparr>;
          (h2, v2) = slice_DeepCopyInto AViolationRecord un_ViolationRecord
            (ViolationRecord_zero tp) (ViolationRecord_DeepCopyInto tp) h1 (g_Violations x);
          out = out\<lparr>g_Violations := v2\<rparr>;
          (h3, v3) = slice_DeepCopyInto AAcknowledgedViolationRecord un_AcknowledgedViolationRecord
            (AcknowledgedViolationRecord_zero tp) (AcknowledgedViolationRecord_DeepCopyInto tp) h2 (g_AcknowledgedViolations x);
          out = out\<lparr>g_AcknowledgedViolations := v3\<rparr>
      in (h3, out))"

definition WorkloadNetworkPolicyStatus_DeepCopy ::
    "'x third_party \<Rightarrow> 'x mem \<Rightarrow> gptr option \<Rightarrow> 'x mem \<times> gptr option" where
  "WorkloadNetworkPolicyStatus_DeepCopy tp = pointer_DeepCopy AWorkloadNetworkPolicyStatus un_WorkloadNetworkPolicyStatus
     WorkloadNetworkPolicyStatus_zero (WorkloadNetworkPolicyStatus_DeepCopyInto tp)"

definition WorkloadNetworkPolicy_DeepCopyInto ::
    "'x third_party \<Rightarrow> 'x mem \<Rightarrow> 'x gWorkloadNetworkPolicy \<Rightarrow> 'x mem \<times> 'x gWorkloadNetworkPolicy" where
  "WorkloadNetworkPolicy_DeepCopyInto tp h x =
     (let out = x;
          out = out\<lparr>g_wnp_TypeMeta := g_wnp_TypeMeta x\<rparr>;
          (h1, v1) = ObjectMeta_DeepCopyInto tp h (g_wnp_ObjectMeta x);
          out = out\<lparr>g_wnp_ObjectMeta := v1\<rparr>;
          (h2, v2) = WorkloadNetworkPolicySpec_DeepCopyInto tp h1 (g_wnp_Spec x);
          out = out\<lparr>g_wnp_Spec := v2\<rparr>;
          (h3, v3) = WorkloadNetworkPolicyStatus_DeepCopyInto tp h2 (g_wnp_Status x);
          out = out\<lparr>g_wnp_Status := v3\<rparr>
      in (h3, out))"

definition WorkloadNetworkPolicy_DeepCopy ::
    "'x third_party \<Rightarrow> 'x mem \<Rightarrow> gptr option \<Rightarrow> 'x mem \<times> gptr option" where
  "WorkloadNetworkPolicy_DeepCopy tp = pointer_DeepCopy AWorkloadNetworkPolicy un_WorkloadNetworkPolicy
     (WorkloadNetworkPolicy_zero tp) (WorkloadNetworkPolicy_DeepCopyInto tp)"

definition WorkloadNetworkPolicyList_DeepCopyInto ::
    "'x third_party \<Rightarrow> 'x mem \<Rightarrow> 'x gWorkloadNetworkPolicyList \<Rightarrow> 'x mem \<times> 'x gWorkloadNetworkPolicyList" where
  "WorkloadNetworkPolicyList_DeepCopyInto tp h x =
     (let out = x;
          out = out\<lparr>g_wnps_TypeMeta := g_wnps_TypeMeta x\<rparr>;
          (h1, v1) = ListMeta_DeepCopyInto tp h (g_wnps_ListMeta x);
          out = out\<lparr>g_wnps_ListMeta := v1\<rparr>;
          (h2, v2) = slice_DeepCopyInto AWorkloadNetworkPolicy un_WorkloadNetworkPolicy
            (WorkloadNetworkPolicy_zero tp) (WorkloadNetworkPolicy_DeepCopyInto tp) h1 (g_wnps_Items x);
          out = out\<lparr>g_wnps_Items := v2\<rparr>
      in (h2, out))"

definition WorkloadNetworkPolicyList_DeepCopy ::
    "'x third_party \<Rightarrow> 'x mem \<Rightarrow> gptr option \<Rightarrow> 'x mem \<times> gptr option" where
  "WorkloadNetworkPolicyList_DeepCopy tp = pointer_DeepCopy AWorkloadNetworkPolicyList un_WorkloadNetworkPolicyList
     (WorkloadNetworkPolicyList_zero tp) (WorkloadNetworkPolicyList_DeepCopyInto tp)"

definition WorkloadNetworkPolicyProposalSpec_DeepCopyInto ::
    "'x third_party \<Rightarrow> 'x mem \<Rightarrow> gWorkloadNetworkPolicyProposalSpec \<Rightarrow> 'x mem \<times> gWorkloadNetworkPolicyProposalSpec" where
  "WorkloadNetworkPolicyProposalSpec_DeepCopyInto tp h x =
     (let out = x;
          (h1, v1) = PolicyBackendSpec_DeepCopyInto tp h (g_pspec_Backend x);
          out = out\<lparr>g_pspec_Backend := v1\<rparr>;
          out = out\<lparr>g_pspec_Targeting := g_pspec_Targeting x\<rparr>
      in (h1, out))"

definition WorkloadNetworkPolicyProposalSpec_DeepCopy ::
    "'x third_party \<Rightarrow> 'x mem \<Rightarrow> gptr option \<Rightarrow> 'x mem \<times> gptr option" where
  "WorkloadNetworkPolicyProposalSpec_DeepCopy tp = pointer_DeepCopy AWorkloadNetworkPolicyProposalSpec un_WorkloadNetworkPolicyProposalSpec
     WorkloadNetworkPolicyProposalSpec_zero (WorkloadNetworkPolicyProposalSpec_DeepCopyInto tp)"

definition WorkloadNetworkPolicyProposalStatus_DeepCopyInto ::
    "'x third_party \<Rightarrow> 'x mem \<Rightarrow> gWorkloadNetworkPolicyProposalStatus \<Rightarrow> 'x mem \<times> gWorkloadNetworkPolicyProposalStatus" where
  "WorkloadNetworkPolicyProposalStatus_DeepCopyInto tp h x =
     (let out = x;
          (h1, v1) = slice_DeepCopyInto AExternal un_External
            (Condition_zero tp) (Condition_DeepCopyInto tp) h (g_pstatus_Conditions x);
          out = out\<lparr>g_pstatus_Conditions := v1\<rparr>
      in (h1, out))"

definition WorkloadNetworkPolicyProposalStatus_DeepCopy ::
    "'x third_party \<Rightarrow> 'x mem \<Rightarrow> gptr option \<Rightarrow> 'x mem \<times> gptr option" where
  "WorkloadNetworkPolicyProposalStatus_DeepCopy tp = pointer_DeepCopy AWorkloadNetworkPolicyProposalStatus un_WorkloadNetworkPolicyProposalStatus
     WorkloadNetworkPolicyProposalStatus_zero (WorkloadNetworkPolicyProposalStatus_DeepCopyInto tp)"

definition WorkloadNetworkPolicyProposal_DeepCopyInto ::
    "'x third_party \<Rightarrow> 'x mem \<Rightarrow> 'x gWorkloadNetworkPolicyProposal \<Rightarrow> 'x mem \<times> 'x gWorkloadNetworkPolicyProposal" where
  "WorkloadNetworkPolicyProposal_DeepCopyInto tp h x =
     (let out = x;
          out = out\<lparr>g_wnpp_TypeMeta := g_wnpp_TypeMeta x\<rparr>;
          (h1, v1) = ObjectMeta_DeepCopyInto tp h (g_wnpp_ObjectMeta x);
          out = out\<lparr>g_wnpp_ObjectMeta := v1\<rparr>;
          (h2, v2) = WorkloadNetworkPolicyProposalSpec_DeepCopyInto tp h1 (g_wnpp_Spec x);
          out = out\<lparr>g_wnpp_Spec := v2\<rparr>;
          (h3, v3) = WorkloadNetworkPolicyProposalStatus_DeepCopyInto tp h2 (g_wnpp_Status x);
          out = out\<lparr>g_wnpp_Status := v3\<rparr>
      in (h3, out))"

definition WorkloadNetworkPolicyProposal_DeepCopy ::
    "'x third_party \<Rightarrow> 'x mem \<Rightarrow> gptr option \<Rightarrow> 'x mem \<times> gptr option" where
  "WorkloadNetworkPolicyProposal_DeepCopy tp = pointer_DeepCopy AWorkloadNetworkPolicyProposal un_WorkloadNetworkPolicyProposal
     (WorkloadNetworkPolicyProposal_zero tp) (WorkloadNetworkPolicyProposal_DeepCopyInto tp)"

definition WorkloadNetworkPolicyProposalList_DeepCopyInto ::
    "'x third_party \<Rightarrow> 'x mem \<Rightarrow> 'x gWorkloadNetworkPolicyProposalList \<Rightarrow> 'x mem \<times> 'x gWorkloadNetworkPolicyProposalList" where
  "WorkloadNetworkPolicyProposalList_DeepCopyInto tp h x =
     (let out = x;
          out = out\<lparr>g_wnpps_TypeMeta := g_wnpps_TypeMeta x\<rparr>;
          (h1, v1) = ListMeta_DeepCopyInto tp h (g_wnpps_ListMeta x);
          out = out\<lparr>g_wnpps_ListMeta := v1\<rparr>;
          (h2, v2) = slice_DeepCopyInto AWorkloadNetworkPolicyProposal un_WorkloadNetworkPolicyProposal
            (WorkloadNetworkPolicyProposal_zero tp) (WorkloadNetworkPolicyProposal_DeepCopyInto tp) h1 (g_wnpps_Items x);
          out = out\<lparr>g_wnpps_Items := v2\<rparr>
      in (h2, out))"

definition WorkloadNetworkPolicyProposalList_DeepCopy ::
    "'x third_party \<Rightarrow> 'x mem \<Rightarrow> gptr option \<Rightarrow> 'x mem \<times> gptr option" where
  "WorkloadNetworkPolicyProposalList_DeepCopy tp = pointer_DeepCopy AWorkloadNetworkPolicyProposalList un_WorkloadNetworkPolicyProposalList
     (WorkloadNetworkPolicyProposalList_zero tp) (WorkloadNetworkPolicyProposalList_DeepCopyInto tp)"

text \<open>\<^verbatim>\<open>DeepCopyObject\<close> returns an interface, and an interface that holds a nil pointer is not a nil interface.\<close>

datatype runtime_Object =
    NilObject
  | WorkloadNetworkPolicyObject "gptr option"
  | WorkloadNetworkPolicyListObject "gptr option"
  | WorkloadNetworkPolicyProposalObject "gptr option"
  | WorkloadNetworkPolicyProposalListObject "gptr option"

definition WorkloadNetworkPolicy_DeepCopyObject ::
    "'x third_party \<Rightarrow> 'x mem \<Rightarrow> gptr option \<Rightarrow> 'x mem \<times> runtime_Object" where
  "WorkloadNetworkPolicy_DeepCopyObject tp h p =
     (let (h', c) = WorkloadNetworkPolicy_DeepCopy tp h p
      in (h', if c \<noteq> None then WorkloadNetworkPolicyObject c else NilObject))"

definition WorkloadNetworkPolicyList_DeepCopyObject ::
    "'x third_party \<Rightarrow> 'x mem \<Rightarrow> gptr option \<Rightarrow> 'x mem \<times> runtime_Object" where
  "WorkloadNetworkPolicyList_DeepCopyObject tp h p =
     (let (h', c) = WorkloadNetworkPolicyList_DeepCopy tp h p
      in (h', if c \<noteq> None then WorkloadNetworkPolicyListObject c else NilObject))"

definition WorkloadNetworkPolicyProposal_DeepCopyObject ::
    "'x third_party \<Rightarrow> 'x mem \<Rightarrow> gptr option \<Rightarrow> 'x mem \<times> runtime_Object" where
  "WorkloadNetworkPolicyProposal_DeepCopyObject tp h p =
     (let (h', c) = WorkloadNetworkPolicyProposal_DeepCopy tp h p
      in (h', if c \<noteq> None then WorkloadNetworkPolicyProposalObject c else NilObject))"

definition WorkloadNetworkPolicyProposalList_DeepCopyObject ::
    "'x third_party \<Rightarrow> 'x mem \<Rightarrow> gptr option \<Rightarrow> 'x mem \<times> runtime_Object" where
  "WorkloadNetworkPolicyProposalList_DeepCopyObject tp h p =
     (let (h', c) = WorkloadNetworkPolicyProposalList_DeepCopy tp h p
      in (h', if c \<noteq> None then WorkloadNetworkPolicyProposalListObject c else NilObject))"

end
