(* ===== verification/DeepCopyLaws.thy ===== *)
theory DeepCopyLaws
  imports DeepCopy
begin

text \<open>
  What the structs of \<open>DeepCopy\<close> denote, as values of \<open>ApiTypes\<close>, the blocks they reach, and that every
  generated function is a deep copy in the sense of the locale \<open>deep_copy\<close>: each by the laws for slices, pointers and
  structs of \<open>GoHeap\<close> from the functions it calls. The properties at the end are those the controllers rely on.
\<close>

section \<open>Values, footprints and well-formedness\<close>

text \<open>What the opaque structs denote and reach is given by a view; \<open>'l\<close> is what a \<^verbatim>\<open>ListMeta\<close> denotes.\<close>

record ('x, 'l) view =
  tv_LabelSelector :: "'x mem \<Rightarrow> 'x \<Rightarrow> LabelSelector"
  tv_NetworkPolicySpec :: "'x mem \<Rightarrow> 'x \<Rightarrow> NetworkPolicySpec"
  tv_ObjectMeta :: "'x mem \<Rightarrow> 'x \<Rightarrow> ObjectMeta"
  tv_ListMeta :: "'x mem \<Rightarrow> 'x \<Rightarrow> 'l"
  tv_Condition :: "'x mem \<Rightarrow> 'x \<Rightarrow> Condition"
  tv_Time :: "'x mem \<Rightarrow> 'x \<Rightarrow> time"
  tv_reach :: "'x mem \<Rightarrow> 'x \<Rightarrow> addr set"
  tv_ok :: "'x mem \<Rightarrow> 'x \<Rightarrow> bool"

definition third_party_ok :: "'x third_party \<Rightarrow> ('x, 'l) view \<Rightarrow> bool" where
  "third_party_ok tp tv \<longleftrightarrow>
     deep_copy (LabelSelector_DeepCopyInto tp) (tv_LabelSelector tv) (tv_reach tv) (tv_ok tv) \<and>
     deep_copy (NetworkPolicySpec_DeepCopyInto tp) (tv_NetworkPolicySpec tv) (tv_reach tv) (tv_ok tv) \<and>
     deep_copy (ObjectMeta_DeepCopyInto tp) (tv_ObjectMeta tv) (tv_reach tv) (tv_ok tv) \<and>
     deep_copy (ListMeta_DeepCopyInto tp) (tv_ListMeta tv) (tv_reach tv) (tv_ok tv) \<and>
     deep_copy (Condition_DeepCopyInto tp) (tv_Condition tv) (tv_reach tv) (tv_ok tv) \<and>
     deep_copy (Time_DeepCopyInto tp) (tv_Time tv) (tv_reach tv) (tv_ok tv)"

text \<open>The model's lists do not distinguish nil from empty.\<close>

definition list_of :: "'a list option \<Rightarrow> 'a list" where
  "list_of xs = (case xs of None \<Rightarrow> [] | Some ys \<Rightarrow> ys)"

definition IstioSource_val :: "'x mem \<Rightarrow> gIstioSource \<Rightarrow> IstioSource" where
  "IstioSource_val h x =
     \<lparr>Principals = list_of (slice_val un_Strings (\<lambda>h x. x) h (g_Principals x))\<rparr>"

definition IstioSource_reach :: "'x mem \<Rightarrow> gIstioSource \<Rightarrow> addr set" where
  "IstioSource_reach h x =
     slice_reach un_Strings (\<lambda>h x. {}) h (g_Principals x)"

definition IstioSource_ok :: "'x mem \<Rightarrow> gIstioSource \<Rightarrow> bool" where
  "IstioSource_ok h x \<longleftrightarrow>
     slice_ok un_Strings (\<lambda>h x. True) h (g_Principals x)"

definition IstioFrom_val :: "'x mem \<Rightarrow> gIstioFrom \<Rightarrow> IstioFrom" where
  "IstioFrom_val h x =
     \<lparr>Source = IstioSource_val h (g_Source x)\<rparr>"

definition IstioFrom_reach :: "'x mem \<Rightarrow> gIstioFrom \<Rightarrow> addr set" where
  "IstioFrom_reach h x =
     IstioSource_reach h (g_Source x)"

definition IstioFrom_ok :: "'x mem \<Rightarrow> gIstioFrom \<Rightarrow> bool" where
  "IstioFrom_ok h x \<longleftrightarrow>
     IstioSource_ok h (g_Source x)"

definition IstioOperation_val :: "'x mem \<Rightarrow> gIstioOperation \<Rightarrow> IstioOperation" where
  "IstioOperation_val h x =
     \<lparr>Ports = list_of (slice_val un_Strings (\<lambda>h x. x) h (g_Ports x))\<rparr>"

definition IstioOperation_reach :: "'x mem \<Rightarrow> gIstioOperation \<Rightarrow> addr set" where
  "IstioOperation_reach h x =
     slice_reach un_Strings (\<lambda>h x. {}) h (g_Ports x)"

definition IstioOperation_ok :: "'x mem \<Rightarrow> gIstioOperation \<Rightarrow> bool" where
  "IstioOperation_ok h x \<longleftrightarrow>
     slice_ok un_Strings (\<lambda>h x. True) h (g_Ports x)"

definition IstioTo_val :: "'x mem \<Rightarrow> gIstioTo \<Rightarrow> IstioTo" where
  "IstioTo_val h x =
     \<lparr>Operation = IstioOperation_val h (g_Operation x)\<rparr>"

definition IstioTo_reach :: "'x mem \<Rightarrow> gIstioTo \<Rightarrow> addr set" where
  "IstioTo_reach h x =
     IstioOperation_reach h (g_Operation x)"

definition IstioTo_ok :: "'x mem \<Rightarrow> gIstioTo \<Rightarrow> bool" where
  "IstioTo_ok h x \<longleftrightarrow>
     IstioOperation_ok h (g_Operation x)"

definition IstioAuthorizationPolicyRule_val :: "'x mem \<Rightarrow> gIstioAuthorizationPolicyRule \<Rightarrow> IstioAuthorizationPolicyRule" where
  "IstioAuthorizationPolicyRule_val h x =
     \<lparr>rule_From = list_of (slice_val un_IstioFrom IstioFrom_val h (g_From x)), rule_To = list_of (slice_val
     un_IstioTo IstioTo_val h (g_To x))\<rparr>"

definition IstioAuthorizationPolicyRule_reach :: "'x mem \<Rightarrow> gIstioAuthorizationPolicyRule \<Rightarrow> addr set" where
  "IstioAuthorizationPolicyRule_reach h x =
     slice_reach un_IstioFrom IstioFrom_reach h (g_From x) \<union>
     slice_reach un_IstioTo IstioTo_reach h (g_To x)"

definition IstioAuthorizationPolicyRule_ok :: "'x mem \<Rightarrow> gIstioAuthorizationPolicyRule \<Rightarrow> bool" where
  "IstioAuthorizationPolicyRule_ok h x \<longleftrightarrow>
     slice_ok un_IstioFrom IstioFrom_ok h (g_From x) \<and>
     slice_ok un_IstioTo IstioTo_ok h (g_To x)"

definition IstioAuthorizationPolicySpec_val :: "('x, 'l) view \<Rightarrow> 'x mem \<Rightarrow> 'x gIstioAuthorizationPolicySpec \<Rightarrow> IstioAuthorizationPolicySpec" where
  "IstioAuthorizationPolicySpec_val tv h x =
     \<lparr>Selector = tv_LabelSelector tv h (g_Selector x), Rules = list_of (slice_val
     un_IstioAuthorizationPolicyRule IstioAuthorizationPolicyRule_val h (g_Rules x))\<rparr>"

definition IstioAuthorizationPolicySpec_reach :: "('x, 'l) view \<Rightarrow> 'x mem \<Rightarrow> 'x gIstioAuthorizationPolicySpec \<Rightarrow> addr set" where
  "IstioAuthorizationPolicySpec_reach tv h x =
     tv_reach tv h (g_Selector x) \<union>
     slice_reach un_IstioAuthorizationPolicyRule IstioAuthorizationPolicyRule_reach h (g_Rules x)"

definition IstioAuthorizationPolicySpec_ok :: "('x, 'l) view \<Rightarrow> 'x mem \<Rightarrow> 'x gIstioAuthorizationPolicySpec \<Rightarrow> bool" where
  "IstioAuthorizationPolicySpec_ok tv h x \<longleftrightarrow>
     tv_ok tv h (g_Selector x) \<and>
     slice_ok un_IstioAuthorizationPolicyRule IstioAuthorizationPolicyRule_ok h (g_Rules x)"

definition PolicyBackendSpec_val :: "('x, 'l) view \<Rightarrow> 'x mem \<Rightarrow> gPolicyBackendSpec \<Rightarrow> PolicyBackendSpec" where
  "PolicyBackendSpec_val tv h x =
     \<lparr>Backend = g_Backend x, Kubernetes = pointer_val un_External (tv_NetworkPolicySpec tv) h (g_Kubernetes x),
     Istio = pointer_val un_IstioAuthorizationPolicySpec (IstioAuthorizationPolicySpec_val tv) h (g_Istio x)\<rparr>"

definition PolicyBackendSpec_reach :: "('x, 'l) view \<Rightarrow> 'x mem \<Rightarrow> gPolicyBackendSpec \<Rightarrow> addr set" where
  "PolicyBackendSpec_reach tv h x =
     pointer_reach un_External (tv_reach tv) h (g_Kubernetes x) \<union>
     pointer_reach un_IstioAuthorizationPolicySpec (IstioAuthorizationPolicySpec_reach tv) h (g_Istio x)"

definition PolicyBackendSpec_ok :: "('x, 'l) view \<Rightarrow> 'x mem \<Rightarrow> gPolicyBackendSpec \<Rightarrow> bool" where
  "PolicyBackendSpec_ok tv h x \<longleftrightarrow>
     pointer_ok un_External (tv_ok tv) h (g_Kubernetes x) \<and>
     pointer_ok un_IstioAuthorizationPolicySpec (IstioAuthorizationPolicySpec_ok tv) h (g_Istio x)"

definition WorkloadRef_val :: "('x, 'l) view \<Rightarrow> 'x mem \<Rightarrow> 'x gWorkloadRef \<Rightarrow> WorkloadRef" where
  "WorkloadRef_val tv h x =
     \<lparr>wr_Namespace = g_wr_Namespace x, wr_OwnerKind = g_wr_OwnerKind x, wr_OwnerName = g_wr_OwnerName x,
     wr_Identity = g_wr_Identity x, wr_Selector = tv_LabelSelector tv h (g_wr_Selector x)\<rparr>"

definition WorkloadRef_reach :: "('x, 'l) view \<Rightarrow> 'x mem \<Rightarrow> 'x gWorkloadRef \<Rightarrow> addr set" where
  "WorkloadRef_reach tv h x =
     tv_reach tv h (g_wr_Selector x)"

definition WorkloadRef_ok :: "('x, 'l) view \<Rightarrow> 'x mem \<Rightarrow> 'x gWorkloadRef \<Rightarrow> bool" where
  "WorkloadRef_ok tv h x \<longleftrightarrow>
     tv_ok tv h (g_wr_Selector x)"

definition ViolationInfo_val :: "('x, 'l) view \<Rightarrow> 'x mem \<Rightarrow> 'x gViolationInfo \<Rightarrow> ViolationInfo" where
  "ViolationInfo_val tv h x =
     \<lparr>Timestamp = tv_Time tv h (g_Timestamp x), vi_Source = WorkloadRef_val tv h (g_vi_Source x), Dest =
     WorkloadRef_val tv h (g_Dest x), vi_Protocol = g_vi_Protocol x, DstPort = g_DstPort x, Action = g_Action x,
     DenyingPolicyNamespace = g_DenyingPolicyNamespace x, DenyingPolicyName = g_DenyingPolicyName x\<rparr>"

definition ViolationInfo_reach :: "('x, 'l) view \<Rightarrow> 'x mem \<Rightarrow> 'x gViolationInfo \<Rightarrow> addr set" where
  "ViolationInfo_reach tv h x =
     tv_reach tv h (g_Timestamp x) \<union>
     WorkloadRef_reach tv h (g_vi_Source x) \<union>
     WorkloadRef_reach tv h (g_Dest x)"

definition ViolationInfo_ok :: "('x, 'l) view \<Rightarrow> 'x mem \<Rightarrow> 'x gViolationInfo \<Rightarrow> bool" where
  "ViolationInfo_ok tv h x \<longleftrightarrow>
     tv_ok tv h (g_Timestamp x) \<and>
     WorkloadRef_ok tv h (g_vi_Source x) \<and>
     WorkloadRef_ok tv h (g_Dest x)"

definition ViolationRecord_val :: "('x, 'l) view \<Rightarrow> 'x mem \<Rightarrow> 'x gViolationRecord \<Rightarrow> ViolationRecord" where
  "ViolationRecord_val tv h x =
     \<lparr>Info = ViolationInfo_val tv h (g_Info x), ID = g_ID x\<rparr>"

definition ViolationRecord_reach :: "('x, 'l) view \<Rightarrow> 'x mem \<Rightarrow> 'x gViolationRecord \<Rightarrow> addr set" where
  "ViolationRecord_reach tv h x =
     ViolationInfo_reach tv h (g_Info x)"

definition ViolationRecord_ok :: "('x, 'l) view \<Rightarrow> 'x mem \<Rightarrow> 'x gViolationRecord \<Rightarrow> bool" where
  "ViolationRecord_ok tv h x \<longleftrightarrow>
     ViolationInfo_ok tv h (g_Info x)"

definition AcknowledgedViolationRecord_val :: "('x, 'l) view \<Rightarrow> 'x mem \<Rightarrow> 'x gAcknowledgedViolationRecord \<Rightarrow> AcknowledgedViolationRecord" where
  "AcknowledgedViolationRecord_val tv h x =
     \<lparr>Violation = ViolationRecord_val tv h (g_Violation x), Reason = g_Reason x, AcknowledgedAt = tv_Time tv h
     (g_AcknowledgedAt x)\<rparr>"

definition AcknowledgedViolationRecord_reach :: "('x, 'l) view \<Rightarrow> 'x mem \<Rightarrow> 'x gAcknowledgedViolationRecord \<Rightarrow> addr set" where
  "AcknowledgedViolationRecord_reach tv h x =
     ViolationRecord_reach tv h (g_Violation x) \<union>
     tv_reach tv h (g_AcknowledgedAt x)"

definition AcknowledgedViolationRecord_ok :: "('x, 'l) view \<Rightarrow> 'x mem \<Rightarrow> 'x gAcknowledgedViolationRecord \<Rightarrow> bool" where
  "AcknowledgedViolationRecord_ok tv h x \<longleftrightarrow>
     ViolationRecord_ok tv h (g_Violation x) \<and>
     tv_ok tv h (g_AcknowledgedAt x)"

definition WorkloadNetworkPolicySpec_val :: "('x, 'l) view \<Rightarrow> 'x mem \<Rightarrow> gWorkloadNetworkPolicySpec \<Rightarrow> WorkloadNetworkPolicySpec" where
  "WorkloadNetworkPolicySpec_val tv h x =
     \<lparr>spec_Backend = PolicyBackendSpec_val tv h (g_spec_Backend x), spec_Targeting = g_spec_Targeting x,
     spec_Mode = g_spec_Mode x\<rparr>"

definition WorkloadNetworkPolicySpec_reach :: "('x, 'l) view \<Rightarrow> 'x mem \<Rightarrow> gWorkloadNetworkPolicySpec \<Rightarrow> addr set" where
  "WorkloadNetworkPolicySpec_reach tv h x =
     PolicyBackendSpec_reach tv h (g_spec_Backend x)"

definition WorkloadNetworkPolicySpec_ok :: "('x, 'l) view \<Rightarrow> 'x mem \<Rightarrow> gWorkloadNetworkPolicySpec \<Rightarrow> bool" where
  "WorkloadNetworkPolicySpec_ok tv h x \<longleftrightarrow>
     PolicyBackendSpec_ok tv h (g_spec_Backend x)"

definition WorkloadNetworkPolicyStatus_val :: "('x, 'l) view \<Rightarrow> 'x mem \<Rightarrow> gWorkloadNetworkPolicyStatus \<Rightarrow> WorkloadNetworkPolicyStatus" where
  "WorkloadNetworkPolicyStatus_val tv h x =
     \<lparr>Conditions = list_of (slice_val un_External (tv_Condition tv) h (g_Conditions x)), ObservedGeneration =
     g_ObservedGeneration x, ViolationCount = g_ViolationCount x, ActiveViolationCount = g_ActiveViolationCount x,
     Violations = list_of (slice_val un_ViolationRecord (ViolationRecord_val tv) h (g_Violations x)),
     AcknowledgedViolations = list_of (slice_val un_AcknowledgedViolationRecord (AcknowledgedViolationRecord_val tv) h
     (g_AcknowledgedViolations x))\<rparr>"

definition WorkloadNetworkPolicyStatus_reach :: "('x, 'l) view \<Rightarrow> 'x mem \<Rightarrow> gWorkloadNetworkPolicyStatus \<Rightarrow> addr set" where
  "WorkloadNetworkPolicyStatus_reach tv h x =
     slice_reach un_External (tv_reach tv) h (g_Conditions x) \<union>
     slice_reach un_ViolationRecord (ViolationRecord_reach tv) h (g_Violations x) \<union>
     slice_reach un_AcknowledgedViolationRecord (AcknowledgedViolationRecord_reach tv) h (g_AcknowledgedViolations x)"

definition WorkloadNetworkPolicyStatus_ok :: "('x, 'l) view \<Rightarrow> 'x mem \<Rightarrow> gWorkloadNetworkPolicyStatus \<Rightarrow> bool" where
  "WorkloadNetworkPolicyStatus_ok tv h x \<longleftrightarrow>
     slice_ok un_External (tv_ok tv) h (g_Conditions x) \<and>
     slice_ok un_ViolationRecord (ViolationRecord_ok tv) h (g_Violations x) \<and>
     slice_ok un_AcknowledgedViolationRecord (AcknowledgedViolationRecord_ok tv) h (g_AcknowledgedViolations x)"

definition WorkloadNetworkPolicy_val :: "('x, 'l) view \<Rightarrow> 'x mem \<Rightarrow> 'x gWorkloadNetworkPolicy \<Rightarrow> TypeMeta \<times> WorkloadNetworkPolicy" where
  "WorkloadNetworkPolicy_val tv h x =
     (g_wnp_TypeMeta x, \<lparr>wnp_Meta = tv_ObjectMeta tv h (g_wnp_ObjectMeta x), wnp_Spec =
     WorkloadNetworkPolicySpec_val tv h (g_wnp_Spec x), wnp_Status = WorkloadNetworkPolicyStatus_val tv h
     (g_wnp_Status x)\<rparr>)"

definition WorkloadNetworkPolicy_reach :: "('x, 'l) view \<Rightarrow> 'x mem \<Rightarrow> 'x gWorkloadNetworkPolicy \<Rightarrow> addr set" where
  "WorkloadNetworkPolicy_reach tv h x =
     tv_reach tv h (g_wnp_ObjectMeta x) \<union>
     WorkloadNetworkPolicySpec_reach tv h (g_wnp_Spec x) \<union>
     WorkloadNetworkPolicyStatus_reach tv h (g_wnp_Status x)"

definition WorkloadNetworkPolicy_ok :: "('x, 'l) view \<Rightarrow> 'x mem \<Rightarrow> 'x gWorkloadNetworkPolicy \<Rightarrow> bool" where
  "WorkloadNetworkPolicy_ok tv h x \<longleftrightarrow>
     tv_ok tv h (g_wnp_ObjectMeta x) \<and>
     WorkloadNetworkPolicySpec_ok tv h (g_wnp_Spec x) \<and>
     WorkloadNetworkPolicyStatus_ok tv h (g_wnp_Status x)"

definition WorkloadNetworkPolicyList_val :: "('x, 'l) view \<Rightarrow> 'x mem \<Rightarrow> 'x gWorkloadNetworkPolicyList \<Rightarrow> TypeMeta \<times> 'l \<times> (TypeMeta \<times> WorkloadNetworkPolicy) list" where
  "WorkloadNetworkPolicyList_val tv h x =
     (g_wnps_TypeMeta x, tv_ListMeta tv h (g_wnps_ListMeta x), list_of (slice_val un_WorkloadNetworkPolicy
     (WorkloadNetworkPolicy_val tv) h (g_wnps_Items x)))"

definition WorkloadNetworkPolicyList_reach :: "('x, 'l) view \<Rightarrow> 'x mem \<Rightarrow> 'x gWorkloadNetworkPolicyList \<Rightarrow> addr set" where
  "WorkloadNetworkPolicyList_reach tv h x =
     tv_reach tv h (g_wnps_ListMeta x) \<union>
     slice_reach un_WorkloadNetworkPolicy (WorkloadNetworkPolicy_reach tv) h (g_wnps_Items x)"

definition WorkloadNetworkPolicyList_ok :: "('x, 'l) view \<Rightarrow> 'x mem \<Rightarrow> 'x gWorkloadNetworkPolicyList \<Rightarrow> bool" where
  "WorkloadNetworkPolicyList_ok tv h x \<longleftrightarrow>
     tv_ok tv h (g_wnps_ListMeta x) \<and>
     slice_ok un_WorkloadNetworkPolicy (WorkloadNetworkPolicy_ok tv) h (g_wnps_Items x)"

definition WorkloadNetworkPolicyProposalSpec_val :: "('x, 'l) view \<Rightarrow> 'x mem \<Rightarrow> gWorkloadNetworkPolicyProposalSpec \<Rightarrow> WorkloadNetworkPolicyProposalSpec" where
  "WorkloadNetworkPolicyProposalSpec_val tv h x =
     \<lparr>pspec_Backend = PolicyBackendSpec_val tv h (g_pspec_Backend x), pspec_Targeting = g_pspec_Targeting
     x\<rparr>"

definition WorkloadNetworkPolicyProposalSpec_reach :: "('x, 'l) view \<Rightarrow> 'x mem \<Rightarrow> gWorkloadNetworkPolicyProposalSpec \<Rightarrow> addr set" where
  "WorkloadNetworkPolicyProposalSpec_reach tv h x =
     PolicyBackendSpec_reach tv h (g_pspec_Backend x)"

definition WorkloadNetworkPolicyProposalSpec_ok :: "('x, 'l) view \<Rightarrow> 'x mem \<Rightarrow> gWorkloadNetworkPolicyProposalSpec \<Rightarrow> bool" where
  "WorkloadNetworkPolicyProposalSpec_ok tv h x \<longleftrightarrow>
     PolicyBackendSpec_ok tv h (g_pspec_Backend x)"

definition WorkloadNetworkPolicyProposalStatus_val :: "('x, 'l) view \<Rightarrow> 'x mem \<Rightarrow> gWorkloadNetworkPolicyProposalStatus \<Rightarrow> Condition list" where
  "WorkloadNetworkPolicyProposalStatus_val tv h x =
     list_of (slice_val un_External (tv_Condition tv) h (g_pstatus_Conditions x))"

definition WorkloadNetworkPolicyProposalStatus_reach :: "('x, 'l) view \<Rightarrow> 'x mem \<Rightarrow> gWorkloadNetworkPolicyProposalStatus \<Rightarrow> addr set" where
  "WorkloadNetworkPolicyProposalStatus_reach tv h x =
     slice_reach un_External (tv_reach tv) h (g_pstatus_Conditions x)"

definition WorkloadNetworkPolicyProposalStatus_ok :: "('x, 'l) view \<Rightarrow> 'x mem \<Rightarrow> gWorkloadNetworkPolicyProposalStatus \<Rightarrow> bool" where
  "WorkloadNetworkPolicyProposalStatus_ok tv h x \<longleftrightarrow>
     slice_ok un_External (tv_ok tv) h (g_pstatus_Conditions x)"

definition WorkloadNetworkPolicyProposal_val :: "('x, 'l) view \<Rightarrow> 'x mem \<Rightarrow> 'x gWorkloadNetworkPolicyProposal \<Rightarrow> TypeMeta \<times> WorkloadNetworkPolicyProposal" where
  "WorkloadNetworkPolicyProposal_val tv h x =
     (g_wnpp_TypeMeta x, \<lparr>wnpp_Meta = tv_ObjectMeta tv h (g_wnpp_ObjectMeta x), wnpp_Spec =
     WorkloadNetworkPolicyProposalSpec_val tv h (g_wnpp_Spec x), wnpp_Conditions =
     WorkloadNetworkPolicyProposalStatus_val tv h (g_wnpp_Status x)\<rparr>)"

definition WorkloadNetworkPolicyProposal_reach :: "('x, 'l) view \<Rightarrow> 'x mem \<Rightarrow> 'x gWorkloadNetworkPolicyProposal \<Rightarrow> addr set" where
  "WorkloadNetworkPolicyProposal_reach tv h x =
     tv_reach tv h (g_wnpp_ObjectMeta x) \<union>
     WorkloadNetworkPolicyProposalSpec_reach tv h (g_wnpp_Spec x) \<union>
     WorkloadNetworkPolicyProposalStatus_reach tv h (g_wnpp_Status x)"

definition WorkloadNetworkPolicyProposal_ok :: "('x, 'l) view \<Rightarrow> 'x mem \<Rightarrow> 'x gWorkloadNetworkPolicyProposal \<Rightarrow> bool" where
  "WorkloadNetworkPolicyProposal_ok tv h x \<longleftrightarrow>
     tv_ok tv h (g_wnpp_ObjectMeta x) \<and>
     WorkloadNetworkPolicyProposalSpec_ok tv h (g_wnpp_Spec x) \<and>
     WorkloadNetworkPolicyProposalStatus_ok tv h (g_wnpp_Status x)"

definition WorkloadNetworkPolicyProposalList_val :: "('x, 'l) view \<Rightarrow> 'x mem \<Rightarrow> 'x gWorkloadNetworkPolicyProposalList \<Rightarrow> TypeMeta \<times> 'l \<times> (TypeMeta \<times> WorkloadNetworkPolicyProposal) list" where
  "WorkloadNetworkPolicyProposalList_val tv h x =
     (g_wnpps_TypeMeta x, tv_ListMeta tv h (g_wnpps_ListMeta x), list_of (slice_val un_WorkloadNetworkPolicyProposal
     (WorkloadNetworkPolicyProposal_val tv) h (g_wnpps_Items x)))"

definition WorkloadNetworkPolicyProposalList_reach :: "('x, 'l) view \<Rightarrow> 'x mem \<Rightarrow> 'x gWorkloadNetworkPolicyProposalList \<Rightarrow> addr set" where
  "WorkloadNetworkPolicyProposalList_reach tv h x =
     tv_reach tv h (g_wnpps_ListMeta x) \<union>
     slice_reach un_WorkloadNetworkPolicyProposal (WorkloadNetworkPolicyProposal_reach tv) h (g_wnpps_Items x)"

definition WorkloadNetworkPolicyProposalList_ok :: "('x, 'l) view \<Rightarrow> 'x mem \<Rightarrow> 'x gWorkloadNetworkPolicyProposalList \<Rightarrow> bool" where
  "WorkloadNetworkPolicyProposalList_ok tv h x \<longleftrightarrow>
     tv_ok tv h (g_wnpps_ListMeta x) \<and>
     slice_ok un_WorkloadNetworkPolicyProposal (WorkloadNetworkPolicyProposal_ok tv) h (g_wnpps_Items x)"

section \<open>Every generated function is a deep copy\<close>

lemma third_party_okD:
  assumes "third_party_ok tp tv"
  shows "deep_copy (LabelSelector_DeepCopyInto tp) (tv_LabelSelector tv) (tv_reach tv) (tv_ok tv)"
    and "deep_copy (NetworkPolicySpec_DeepCopyInto tp) (tv_NetworkPolicySpec tv) (tv_reach tv) (tv_ok tv)"
    and "deep_copy (ObjectMeta_DeepCopyInto tp) (tv_ObjectMeta tv) (tv_reach tv) (tv_ok tv)"
    and "deep_copy (ListMeta_DeepCopyInto tp) (tv_ListMeta tv) (tv_reach tv) (tv_ok tv)"
    and "deep_copy (Condition_DeepCopyInto tp) (tv_Condition tv) (tv_reach tv) (tv_ok tv)"
    and "deep_copy (Time_DeepCopyInto tp) (tv_Time tv) (tv_reach tv) (tv_ok tv)"
  using assms by (simp_all add: third_party_ok_def)

lemma deep_copy_IstioSource:
  "deep_copy IstioSource_DeepCopyInto IstioSource_val IstioSource_reach IstioSource_ok"
proof -
  note p1 = deep_copy_plain_slice [of un_Strings AStrings "[]", OF un_array(1)]
  show ?thesis
    by (rule deep_copy.deep_copy_struct [OF p1,
          where get = "g_Principals"
            and upd = "\<lambda>b x. x\<lparr>g_Principals := b\<rparr>"
            and V = "\<lambda>x v1. \<lparr>Principals = list_of v1\<rparr>"])
      (auto simp: IstioSource_DeepCopyInto_def IstioSource_val_def IstioSource_reach_def IstioSource_ok_def pair_DeepCopyInto_def both_def
        split: prod.splits)
qed

lemma deep_copy_IstioFrom:
  "deep_copy IstioFrom_DeepCopyInto IstioFrom_val IstioFrom_reach IstioFrom_ok"
proof -
  note p1 = deep_copy_IstioSource
  show ?thesis
    by (rule deep_copy.deep_copy_struct [OF p1,
          where get = "g_Source"
            and upd = "\<lambda>b x. x\<lparr>g_Source := b\<rparr>"
            and V = "\<lambda>x v1. \<lparr>Source = v1\<rparr>"])
      (auto simp: IstioFrom_DeepCopyInto_def IstioFrom_val_def IstioFrom_reach_def IstioFrom_ok_def pair_DeepCopyInto_def both_def
        split: prod.splits)
qed

lemma deep_copy_IstioOperation:
  "deep_copy IstioOperation_DeepCopyInto IstioOperation_val IstioOperation_reach IstioOperation_ok"
proof -
  note p1 = deep_copy_plain_slice [of un_Strings AStrings "[]", OF un_array(1)]
  show ?thesis
    by (rule deep_copy.deep_copy_struct [OF p1,
          where get = "g_Ports"
            and upd = "\<lambda>b x. x\<lparr>g_Ports := b\<rparr>"
            and V = "\<lambda>x v1. \<lparr>Ports = list_of v1\<rparr>"])
      (auto simp: IstioOperation_DeepCopyInto_def IstioOperation_val_def IstioOperation_reach_def IstioOperation_ok_def pair_DeepCopyInto_def both_def
        split: prod.splits)
qed

lemma deep_copy_IstioTo:
  "deep_copy IstioTo_DeepCopyInto IstioTo_val IstioTo_reach IstioTo_ok"
proof -
  note p1 = deep_copy_IstioOperation
  show ?thesis
    by (rule deep_copy.deep_copy_struct [OF p1,
          where get = "g_Operation"
            and upd = "\<lambda>b x. x\<lparr>g_Operation := b\<rparr>"
            and V = "\<lambda>x v1. \<lparr>Operation = v1\<rparr>"])
      (auto simp: IstioTo_DeepCopyInto_def IstioTo_val_def IstioTo_reach_def IstioTo_ok_def pair_DeepCopyInto_def both_def
        split: prod.splits)
qed

lemma deep_copy_IstioAuthorizationPolicyRule:
  "deep_copy IstioAuthorizationPolicyRule_DeepCopyInto IstioAuthorizationPolicyRule_val IstioAuthorizationPolicyRule_reach IstioAuthorizationPolicyRule_ok"
proof -
  note p1 = deep_copy.deep_copy_slice [OF deep_copy_IstioFrom, of un_IstioFrom AIstioFrom IstioFrom_zero, OF un_array(4)]
  note p2 = deep_copy.deep_copy_slice [OF deep_copy_IstioTo, of un_IstioTo AIstioTo IstioTo_zero, OF un_array(6)]
  show ?thesis
    by (rule deep_copy.deep_copy_struct [OF deep_copy_pair [OF p1 p2],
          where get = "\<lambda>x. (g_From x, g_To x)"
            and upd = "\<lambda>b x. x\<lparr>g_From := fst b, g_To := snd b\<rparr>"
            and V = "\<lambda>x (v1, v2). \<lparr>rule_From = list_of v1, rule_To = list_of v2\<rparr>"])
      (auto simp: IstioAuthorizationPolicyRule_DeepCopyInto_def IstioAuthorizationPolicyRule_val_def IstioAuthorizationPolicyRule_reach_def IstioAuthorizationPolicyRule_ok_def pair_DeepCopyInto_def both_def
        split: prod.splits)
qed

lemma deep_copy_IstioAuthorizationPolicySpec:
  assumes "third_party_ok tp tv"
  shows "deep_copy (IstioAuthorizationPolicySpec_DeepCopyInto tp) (IstioAuthorizationPolicySpec_val tv) (IstioAuthorizationPolicySpec_reach tv) (IstioAuthorizationPolicySpec_ok tv)"
proof -
  note p1 = third_party_okD(1) [OF assms]
  note p2 = deep_copy.deep_copy_slice [OF deep_copy_IstioAuthorizationPolicyRule, of un_IstioAuthorizationPolicyRule AIstioAuthorizationPolicyRule IstioAuthorizationPolicyRule_zero, OF un_array(7)]
  show ?thesis
    by (rule deep_copy.deep_copy_struct [OF deep_copy_pair [OF p1 p2],
          where get = "\<lambda>x. (g_Selector x, g_Rules x)"
            and upd = "\<lambda>b x. x\<lparr>g_Selector := fst b, g_Rules := snd b\<rparr>"
            and V = "\<lambda>x (v1, v2). \<lparr>Selector = v1, Rules = list_of v2\<rparr>"])
      (auto simp: IstioAuthorizationPolicySpec_DeepCopyInto_def IstioAuthorizationPolicySpec_val_def IstioAuthorizationPolicySpec_reach_def IstioAuthorizationPolicySpec_ok_def pair_DeepCopyInto_def both_def
        split: prod.splits)
qed

lemma deep_copy_PolicyBackendSpec:
  assumes "third_party_ok tp tv"
  shows "deep_copy (PolicyBackendSpec_DeepCopyInto tp) (PolicyBackendSpec_val tv) (PolicyBackendSpec_reach tv) (PolicyBackendSpec_ok tv)"
proof -
  note p1 = deep_copy.deep_copy_pointer [OF third_party_okD(2) [OF assms], of un_External AExternal "NetworkPolicySpec_zero tp", OF un_array(2)]
  note p2 = deep_copy.deep_copy_pointer [OF deep_copy_IstioAuthorizationPolicySpec [OF assms], of un_IstioAuthorizationPolicySpec AIstioAuthorizationPolicySpec "IstioAuthorizationPolicySpec_zero tp", OF un_array(8)]
  show ?thesis
    by (rule deep_copy.deep_copy_struct [OF deep_copy_pair [OF p1 p2],
          where get = "\<lambda>x. (g_Kubernetes x, g_Istio x)"
            and upd = "\<lambda>b x. x\<lparr>g_Kubernetes := fst b, g_Istio := snd b\<rparr>"
            and V = "\<lambda>x (v1, v2). \<lparr>Backend = g_Backend x, Kubernetes = v1, Istio = v2\<rparr>"])
      (auto simp: PolicyBackendSpec_DeepCopyInto_def PolicyBackendSpec_val_def PolicyBackendSpec_reach_def PolicyBackendSpec_ok_def pair_DeepCopyInto_def both_def
        split: prod.splits)
qed

lemma deep_copy_WorkloadRef:
  assumes "third_party_ok tp tv"
  shows "deep_copy (WorkloadRef_DeepCopyInto tp) (WorkloadRef_val tv) (WorkloadRef_reach tv) (WorkloadRef_ok tv)"
proof -
  note p1 = third_party_okD(1) [OF assms]
  show ?thesis
    by (rule deep_copy.deep_copy_struct [OF p1,
          where get = "g_wr_Selector"
            and upd = "\<lambda>b x. x\<lparr>g_wr_Selector := b\<rparr>"
            and V = "\<lambda>x v1. \<lparr>wr_Namespace = g_wr_Namespace x, wr_OwnerKind = g_wr_OwnerKind x, wr_OwnerName = g_wr_OwnerName
              x, wr_Identity = g_wr_Identity x, wr_Selector = v1\<rparr>"])
      (auto simp: WorkloadRef_DeepCopyInto_def WorkloadRef_val_def WorkloadRef_reach_def WorkloadRef_ok_def pair_DeepCopyInto_def both_def
        split: prod.splits)
qed

lemma deep_copy_ViolationInfo:
  assumes "third_party_ok tp tv"
  shows "deep_copy (ViolationInfo_DeepCopyInto tp) (ViolationInfo_val tv) (ViolationInfo_reach tv) (ViolationInfo_ok tv)"
proof -
  note p1 = third_party_okD(6) [OF assms]
  note p2 = deep_copy_WorkloadRef [OF assms]
  note p3 = deep_copy_WorkloadRef [OF assms]
  show ?thesis
    by (rule deep_copy.deep_copy_struct [OF deep_copy_pair [OF p1 deep_copy_pair [OF p2 p3]],
          where get = "\<lambda>x. (g_Timestamp x, g_vi_Source x, g_Dest x)"
            and upd = "\<lambda>b x. x\<lparr>g_Timestamp := fst b, g_vi_Source := fst (snd b), g_Dest := snd (snd b)\<rparr>"
            and V = "\<lambda>x (v1, v2, v3). \<lparr>Timestamp = v1, vi_Source = v2, Dest = v3, vi_Protocol = g_vi_Protocol x, DstPort = g_DstPort x,
              Action = g_Action x, DenyingPolicyNamespace = g_DenyingPolicyNamespace x, DenyingPolicyName =
              g_DenyingPolicyName x\<rparr>"])
      (auto simp: ViolationInfo_DeepCopyInto_def ViolationInfo_val_def ViolationInfo_reach_def ViolationInfo_ok_def pair_DeepCopyInto_def both_def
        split: prod.splits)
qed

lemma deep_copy_ViolationRecord:
  assumes "third_party_ok tp tv"
  shows "deep_copy (ViolationRecord_DeepCopyInto tp) (ViolationRecord_val tv) (ViolationRecord_reach tv) (ViolationRecord_ok tv)"
proof -
  note p1 = deep_copy_ViolationInfo [OF assms]
  show ?thesis
    by (rule deep_copy.deep_copy_struct [OF p1,
          where get = "g_Info"
            and upd = "\<lambda>b x. x\<lparr>g_Info := b\<rparr>"
            and V = "\<lambda>x v1. \<lparr>Info = v1, ID = g_ID x\<rparr>"])
      (auto simp: ViolationRecord_DeepCopyInto_def ViolationRecord_val_def ViolationRecord_reach_def ViolationRecord_ok_def pair_DeepCopyInto_def both_def
        split: prod.splits)
qed

lemma deep_copy_AcknowledgedViolationRecord:
  assumes "third_party_ok tp tv"
  shows "deep_copy (AcknowledgedViolationRecord_DeepCopyInto tp) (AcknowledgedViolationRecord_val tv) (AcknowledgedViolationRecord_reach tv) (AcknowledgedViolationRecord_ok tv)"
proof -
  note p1 = deep_copy_ViolationRecord [OF assms]
  note p2 = third_party_okD(6) [OF assms]
  show ?thesis
    by (rule deep_copy.deep_copy_struct [OF deep_copy_pair [OF p1 p2],
          where get = "\<lambda>x. (g_Violation x, g_AcknowledgedAt x)"
            and upd = "\<lambda>b x. x\<lparr>g_Violation := fst b, g_AcknowledgedAt := snd b\<rparr>"
            and V = "\<lambda>x (v1, v2). \<lparr>Violation = v1, Reason = g_Reason x, AcknowledgedAt = v2\<rparr>"])
      (auto simp: AcknowledgedViolationRecord_DeepCopyInto_def AcknowledgedViolationRecord_val_def AcknowledgedViolationRecord_reach_def AcknowledgedViolationRecord_ok_def pair_DeepCopyInto_def both_def
        split: prod.splits)
qed

lemma deep_copy_WorkloadNetworkPolicySpec:
  assumes "third_party_ok tp tv"
  shows "deep_copy (WorkloadNetworkPolicySpec_DeepCopyInto tp) (WorkloadNetworkPolicySpec_val tv) (WorkloadNetworkPolicySpec_reach tv) (WorkloadNetworkPolicySpec_ok tv)"
proof -
  note p1 = deep_copy_PolicyBackendSpec [OF assms]
  show ?thesis
    by (rule deep_copy.deep_copy_struct [OF p1,
          where get = "g_spec_Backend"
            and upd = "\<lambda>b x. x\<lparr>g_spec_Backend := b\<rparr>"
            and V = "\<lambda>x v1. \<lparr>spec_Backend = v1, spec_Targeting = g_spec_Targeting x, spec_Mode = g_spec_Mode x\<rparr>"])
      (auto simp: WorkloadNetworkPolicySpec_DeepCopyInto_def WorkloadNetworkPolicySpec_val_def WorkloadNetworkPolicySpec_reach_def WorkloadNetworkPolicySpec_ok_def pair_DeepCopyInto_def both_def
        split: prod.splits)
qed

lemma deep_copy_WorkloadNetworkPolicyStatus:
  assumes "third_party_ok tp tv"
  shows "deep_copy (WorkloadNetworkPolicyStatus_DeepCopyInto tp) (WorkloadNetworkPolicyStatus_val tv) (WorkloadNetworkPolicyStatus_reach tv) (WorkloadNetworkPolicyStatus_ok tv)"
proof -
  note p1 = deep_copy.deep_copy_slice [OF third_party_okD(5) [OF assms], of un_External AExternal "Condition_zero tp", OF un_array(2)]
  note p2 = deep_copy.deep_copy_slice [OF deep_copy_ViolationRecord [OF assms], of un_ViolationRecord AViolationRecord "ViolationRecord_zero tp", OF un_array(14)]
  note p3 = deep_copy.deep_copy_slice [OF deep_copy_AcknowledgedViolationRecord [OF assms], of un_AcknowledgedViolationRecord AAcknowledgedViolationRecord "AcknowledgedViolationRecord_zero tp", OF un_array(16)]
  show ?thesis
    by (rule deep_copy.deep_copy_struct [OF deep_copy_pair [OF p1 deep_copy_pair [OF p2 p3]],
          where get = "\<lambda>x. (g_Conditions x, g_Violations x, g_AcknowledgedViolations x)"
            and upd = "\<lambda>b x. x\<lparr>g_Conditions := fst b, g_Violations := fst (snd b), g_AcknowledgedViolations := snd (snd b)\<rparr>"
            and V = "\<lambda>x (v1, v2, v3). \<lparr>Conditions = list_of v1, ObservedGeneration = g_ObservedGeneration x, ViolationCount =
              g_ViolationCount x, ActiveViolationCount = g_ActiveViolationCount x, Violations = list_of v2,
              AcknowledgedViolations = list_of v3\<rparr>"])
      (auto simp: WorkloadNetworkPolicyStatus_DeepCopyInto_def WorkloadNetworkPolicyStatus_val_def WorkloadNetworkPolicyStatus_reach_def WorkloadNetworkPolicyStatus_ok_def pair_DeepCopyInto_def both_def
        split: prod.splits)
qed

lemma deep_copy_WorkloadNetworkPolicy:
  assumes "third_party_ok tp tv"
  shows "deep_copy (WorkloadNetworkPolicy_DeepCopyInto tp) (WorkloadNetworkPolicy_val tv) (WorkloadNetworkPolicy_reach tv) (WorkloadNetworkPolicy_ok tv)"
proof -
  note p1 = third_party_okD(3) [OF assms]
  note p2 = deep_copy_WorkloadNetworkPolicySpec [OF assms]
  note p3 = deep_copy_WorkloadNetworkPolicyStatus [OF assms]
  show ?thesis
    by (rule deep_copy.deep_copy_struct [OF deep_copy_pair [OF p1 deep_copy_pair [OF p2 p3]],
          where get = "\<lambda>x. (g_wnp_ObjectMeta x, g_wnp_Spec x, g_wnp_Status x)"
            and upd = "\<lambda>b x. x\<lparr>g_wnp_ObjectMeta := fst b, g_wnp_Spec := fst (snd b), g_wnp_Status := snd (snd b)\<rparr>"
            and V = "\<lambda>x (v1, v2, v3). (g_wnp_TypeMeta x, \<lparr>wnp_Meta = v1, wnp_Spec = v2, wnp_Status = v3\<rparr>)"])
      (auto simp: WorkloadNetworkPolicy_DeepCopyInto_def WorkloadNetworkPolicy_val_def WorkloadNetworkPolicy_reach_def WorkloadNetworkPolicy_ok_def pair_DeepCopyInto_def both_def
        split: prod.splits)
qed

lemma deep_copy_WorkloadNetworkPolicyList:
  assumes "third_party_ok tp tv"
  shows "deep_copy (WorkloadNetworkPolicyList_DeepCopyInto tp) (WorkloadNetworkPolicyList_val tv) (WorkloadNetworkPolicyList_reach tv) (WorkloadNetworkPolicyList_ok tv)"
proof -
  note p1 = third_party_okD(4) [OF assms]
  note p2 = deep_copy.deep_copy_slice [OF deep_copy_WorkloadNetworkPolicy [OF assms], of un_WorkloadNetworkPolicy AWorkloadNetworkPolicy "WorkloadNetworkPolicy_zero tp", OF un_array(19)]
  show ?thesis
    by (rule deep_copy.deep_copy_struct [OF deep_copy_pair [OF p1 p2],
          where get = "\<lambda>x. (g_wnps_ListMeta x, g_wnps_Items x)"
            and upd = "\<lambda>b x. x\<lparr>g_wnps_ListMeta := fst b, g_wnps_Items := snd b\<rparr>"
            and V = "\<lambda>x (v1, v2). (g_wnps_TypeMeta x, v1, list_of v2)"])
      (auto simp: WorkloadNetworkPolicyList_DeepCopyInto_def WorkloadNetworkPolicyList_val_def WorkloadNetworkPolicyList_reach_def WorkloadNetworkPolicyList_ok_def pair_DeepCopyInto_def both_def
        split: prod.splits)
qed

lemma deep_copy_WorkloadNetworkPolicyProposalSpec:
  assumes "third_party_ok tp tv"
  shows "deep_copy (WorkloadNetworkPolicyProposalSpec_DeepCopyInto tp) (WorkloadNetworkPolicyProposalSpec_val tv) (WorkloadNetworkPolicyProposalSpec_reach tv) (WorkloadNetworkPolicyProposalSpec_ok tv)"
proof -
  note p1 = deep_copy_PolicyBackendSpec [OF assms]
  show ?thesis
    by (rule deep_copy.deep_copy_struct [OF p1,
          where get = "g_pspec_Backend"
            and upd = "\<lambda>b x. x\<lparr>g_pspec_Backend := b\<rparr>"
            and V = "\<lambda>x v1. \<lparr>pspec_Backend = v1, pspec_Targeting = g_pspec_Targeting x\<rparr>"])
      (auto simp: WorkloadNetworkPolicyProposalSpec_DeepCopyInto_def WorkloadNetworkPolicyProposalSpec_val_def WorkloadNetworkPolicyProposalSpec_reach_def WorkloadNetworkPolicyProposalSpec_ok_def pair_DeepCopyInto_def both_def
        split: prod.splits)
qed

lemma deep_copy_WorkloadNetworkPolicyProposalStatus:
  assumes "third_party_ok tp tv"
  shows "deep_copy (WorkloadNetworkPolicyProposalStatus_DeepCopyInto tp) (WorkloadNetworkPolicyProposalStatus_val tv) (WorkloadNetworkPolicyProposalStatus_reach tv) (WorkloadNetworkPolicyProposalStatus_ok tv)"
proof -
  note p1 = deep_copy.deep_copy_slice [OF third_party_okD(5) [OF assms], of un_External AExternal "Condition_zero tp", OF un_array(2)]
  show ?thesis
    by (rule deep_copy.deep_copy_struct [OF p1,
          where get = "g_pstatus_Conditions"
            and upd = "\<lambda>b x. x\<lparr>g_pstatus_Conditions := b\<rparr>"
            and V = "\<lambda>x v1. list_of v1"])
      (auto simp: WorkloadNetworkPolicyProposalStatus_DeepCopyInto_def WorkloadNetworkPolicyProposalStatus_val_def WorkloadNetworkPolicyProposalStatus_reach_def WorkloadNetworkPolicyProposalStatus_ok_def pair_DeepCopyInto_def both_def
        split: prod.splits)
qed

lemma deep_copy_WorkloadNetworkPolicyProposal:
  assumes "third_party_ok tp tv"
  shows "deep_copy (WorkloadNetworkPolicyProposal_DeepCopyInto tp) (WorkloadNetworkPolicyProposal_val tv) (WorkloadNetworkPolicyProposal_reach tv) (WorkloadNetworkPolicyProposal_ok tv)"
proof -
  note p1 = third_party_okD(3) [OF assms]
  note p2 = deep_copy_WorkloadNetworkPolicyProposalSpec [OF assms]
  note p3 = deep_copy_WorkloadNetworkPolicyProposalStatus [OF assms]
  show ?thesis
    by (rule deep_copy.deep_copy_struct [OF deep_copy_pair [OF p1 deep_copy_pair [OF p2 p3]],
          where get = "\<lambda>x. (g_wnpp_ObjectMeta x, g_wnpp_Spec x, g_wnpp_Status x)"
            and upd = "\<lambda>b x. x\<lparr>g_wnpp_ObjectMeta := fst b, g_wnpp_Spec := fst (snd b), g_wnpp_Status := snd (snd b)\<rparr>"
            and V = "\<lambda>x (v1, v2, v3). (g_wnpp_TypeMeta x, \<lparr>wnpp_Meta = v1, wnpp_Spec = v2, wnpp_Conditions = v3\<rparr>)"])
      (auto simp: WorkloadNetworkPolicyProposal_DeepCopyInto_def WorkloadNetworkPolicyProposal_val_def WorkloadNetworkPolicyProposal_reach_def WorkloadNetworkPolicyProposal_ok_def pair_DeepCopyInto_def both_def
        split: prod.splits)
qed

lemma deep_copy_WorkloadNetworkPolicyProposalList:
  assumes "third_party_ok tp tv"
  shows "deep_copy (WorkloadNetworkPolicyProposalList_DeepCopyInto tp) (WorkloadNetworkPolicyProposalList_val tv) (WorkloadNetworkPolicyProposalList_reach tv) (WorkloadNetworkPolicyProposalList_ok tv)"
proof -
  note p1 = third_party_okD(4) [OF assms]
  note p2 = deep_copy.deep_copy_slice [OF deep_copy_WorkloadNetworkPolicyProposal [OF assms], of un_WorkloadNetworkPolicyProposal AWorkloadNetworkPolicyProposal "WorkloadNetworkPolicyProposal_zero tp", OF un_array(23)]
  show ?thesis
    by (rule deep_copy.deep_copy_struct [OF deep_copy_pair [OF p1 p2],
          where get = "\<lambda>x. (g_wnpps_ListMeta x, g_wnpps_Items x)"
            and upd = "\<lambda>b x. x\<lparr>g_wnpps_ListMeta := fst b, g_wnpps_Items := snd b\<rparr>"
            and V = "\<lambda>x (v1, v2). (g_wnpps_TypeMeta x, v1, list_of v2)"])
      (auto simp: WorkloadNetworkPolicyProposalList_DeepCopyInto_def WorkloadNetworkPolicyProposalList_val_def WorkloadNetworkPolicyProposalList_reach_def WorkloadNetworkPolicyProposalList_ok_def pair_DeepCopyInto_def both_def
        split: prod.splits)
qed

text \<open>The types without references are copied by assignment.\<close>

lemma plain_DeepCopyInto:
  "WorkloadTargetRef_DeepCopyInto = (\<lambda>h x. (h, x))"
  "WorkloadTargetingSpec_DeepCopyInto = (\<lambda>h x. (h, x))"
  "ViolationRecordKey_DeepCopyInto = (\<lambda>h x. (h, x))"
  by (auto simp: fun_eq_iff WorkloadTargetRef_DeepCopyInto_def WorkloadTargetingSpec_DeepCopyInto_def
      ViolationRecordKey_DeepCopyInto_def)

interpretation istioSource: deep_copy IstioSource_DeepCopyInto IstioSource_val IstioSource_reach IstioSource_ok
  by (rule deep_copy_IstioSource)

interpretation istioRule: deep_copy IstioAuthorizationPolicyRule_DeepCopyInto IstioAuthorizationPolicyRule_val
    IstioAuthorizationPolicyRule_reach IstioAuthorizationPolicyRule_ok
  by (rule deep_copy_IstioAuthorizationPolicyRule)

interpretation targetingSpec: deep_copy WorkloadTargetingSpec_DeepCopyInto "\<lambda>h x. x" "\<lambda>h x. {}" "\<lambda>h x. True"
  unfolding plain_DeepCopyInto by unfold_locales auto

section \<open>The methods of the root objects\<close>

text \<open>A pointer to a policy, to a proposal or to a list of them: its value, its footprint, its well-formedness.\<close>

definition policy_at :: "('x, 'l) view \<Rightarrow> 'x mem \<Rightarrow> gptr option \<Rightarrow> (TypeMeta \<times> WorkloadNetworkPolicy) option" where
  "policy_at tv = pointer_val un_WorkloadNetworkPolicy (WorkloadNetworkPolicy_val tv)"

definition policy_reach :: "('x, 'l) view \<Rightarrow> 'x mem \<Rightarrow> gptr option \<Rightarrow> addr set" where
  "policy_reach tv = pointer_reach un_WorkloadNetworkPolicy (WorkloadNetworkPolicy_reach tv)"

definition policy_ok :: "('x, 'l) view \<Rightarrow> 'x mem \<Rightarrow> gptr option \<Rightarrow> bool" where
  "policy_ok tv = pointer_ok un_WorkloadNetworkPolicy (WorkloadNetworkPolicy_ok tv)"

definition policies_at ::
    "('x, 'l) view \<Rightarrow> 'x mem \<Rightarrow> gptr option \<Rightarrow> (TypeMeta \<times> 'l \<times> (TypeMeta \<times> WorkloadNetworkPolicy) list) option" where
  "policies_at tv = pointer_val un_WorkloadNetworkPolicyList (WorkloadNetworkPolicyList_val tv)"

definition policies_reach :: "('x, 'l) view \<Rightarrow> 'x mem \<Rightarrow> gptr option \<Rightarrow> addr set" where
  "policies_reach tv = pointer_reach un_WorkloadNetworkPolicyList (WorkloadNetworkPolicyList_reach tv)"

definition policies_ok :: "('x, 'l) view \<Rightarrow> 'x mem \<Rightarrow> gptr option \<Rightarrow> bool" where
  "policies_ok tv = pointer_ok un_WorkloadNetworkPolicyList (WorkloadNetworkPolicyList_ok tv)"

definition proposal_at :: "('x, 'l) view \<Rightarrow> 'x mem \<Rightarrow> gptr option \<Rightarrow> (TypeMeta \<times> WorkloadNetworkPolicyProposal) option" where
  "proposal_at tv = pointer_val un_WorkloadNetworkPolicyProposal (WorkloadNetworkPolicyProposal_val tv)"

definition proposal_reach :: "('x, 'l) view \<Rightarrow> 'x mem \<Rightarrow> gptr option \<Rightarrow> addr set" where
  "proposal_reach tv = pointer_reach un_WorkloadNetworkPolicyProposal (WorkloadNetworkPolicyProposal_reach tv)"

definition proposal_ok :: "('x, 'l) view \<Rightarrow> 'x mem \<Rightarrow> gptr option \<Rightarrow> bool" where
  "proposal_ok tv = pointer_ok un_WorkloadNetworkPolicyProposal (WorkloadNetworkPolicyProposal_ok tv)"

definition proposals_at ::
    "('x, 'l) view \<Rightarrow> 'x mem \<Rightarrow> gptr option \<Rightarrow> (TypeMeta \<times> 'l \<times> (TypeMeta \<times> WorkloadNetworkPolicyProposal) list) option" where
  "proposals_at tv = pointer_val un_WorkloadNetworkPolicyProposalList (WorkloadNetworkPolicyProposalList_val tv)"

definition proposals_reach :: "('x, 'l) view \<Rightarrow> 'x mem \<Rightarrow> gptr option \<Rightarrow> addr set" where
  "proposals_reach tv = pointer_reach un_WorkloadNetworkPolicyProposalList (WorkloadNetworkPolicyProposalList_reach tv)"

definition proposals_ok :: "('x, 'l) view \<Rightarrow> 'x mem \<Rightarrow> gptr option \<Rightarrow> bool" where
  "proposals_ok tv = pointer_ok un_WorkloadNetworkPolicyProposalList (WorkloadNetworkPolicyProposalList_ok tv)"

lemma deep_copy_roots:
  assumes "third_party_ok tp tv"
  shows "deep_copy (WorkloadNetworkPolicy_DeepCopy tp) (policy_at tv) (policy_reach tv) (policy_ok tv)"
    and "deep_copy (WorkloadNetworkPolicyList_DeepCopy tp) (policies_at tv) (policies_reach tv) (policies_ok tv)"
    and "deep_copy (WorkloadNetworkPolicyProposal_DeepCopy tp) (proposal_at tv) (proposal_reach tv) (proposal_ok tv)"
    and "deep_copy (WorkloadNetworkPolicyProposalList_DeepCopy tp) (proposals_at tv) (proposals_reach tv) (proposals_ok tv)"
  unfolding policy_at_def policy_reach_def policy_ok_def WorkloadNetworkPolicy_DeepCopy_def
    policies_at_def policies_reach_def policies_ok_def WorkloadNetworkPolicyList_DeepCopy_def
    proposal_at_def proposal_reach_def proposal_ok_def WorkloadNetworkPolicyProposal_DeepCopy_def
    proposals_at_def proposals_reach_def proposals_ok_def WorkloadNetworkPolicyProposalList_DeepCopy_def
  by (intro deep_copy.deep_copy_pointer deep_copy_WorkloadNetworkPolicy deep_copy_WorkloadNetworkPolicyList
      deep_copy_WorkloadNetworkPolicyProposal deep_copy_WorkloadNetworkPolicyProposalList assms; simp)+

text \<open>A copy of an object: the old blocks are unchanged, and the copy denotes what the original does without sharing a block
  with it.\<close>

definition copy_of ::
    "('x mem \<Rightarrow> gptr option \<Rightarrow> 'v) \<Rightarrow> ('x mem \<Rightarrow> gptr option \<Rightarrow> addr set) \<Rightarrow>
     'x mem \<Rightarrow> gptr \<Rightarrow> 'x mem \<Rightarrow> gptr \<Rightarrow> bool" where
  "copy_of at reach h p h' q \<longleftrightarrow>
     heap_ext h h' \<and> at h' (Some p) = at h (Some p) \<and> at h' (Some q) = at h (Some p) \<and>
     reach h' (Some p) \<inter> reach h' (Some q) = {}"

lemma deep_copy_copy_of:
  assumes "deep_copy cp at reach ok" and "ok h (Some p)" and "cp h (Some p) = (h', Some q)"
  shows "copy_of at reach h p h' q"
  using deep_copy.copies [OF assms] deep_copy.frame_ext [OF assms(1,2), of h'] deep_copy.allocated [OF assms(1,2)]
  by (force simp: copy_of_def)

lemma pointer_DeepCopy_Some: "\<exists>h' q. pointer_DeepCopy mk un zero into h (Some p) = (h', Some q)"
  by (auto simp: pointer_DeepCopy_def split: prod.splits)

lemmas root_DeepCopy_defs = WorkloadNetworkPolicy_DeepCopy_def WorkloadNetworkPolicyList_DeepCopy_def
  WorkloadNetworkPolicyProposal_DeepCopy_def WorkloadNetworkPolicyProposalList_DeepCopy_def

lemmas root_DeepCopyObject_defs = WorkloadNetworkPolicy_DeepCopyObject_def WorkloadNetworkPolicyList_DeepCopyObject_def
  WorkloadNetworkPolicyProposal_DeepCopyObject_def WorkloadNetworkPolicyProposalList_DeepCopyObject_def

section \<open>A memory to run on\<close>

text \<open>Opaque structs that are a string, or a reference to one: the copy of a reference allocates. Every struct of
  another package is read as that string.\<close>

datatype sample_ext = XVal string | XRef "gptr option"

definition sample_copy :: "sample_ext mem \<Rightarrow> sample_ext \<Rightarrow> sample_ext mem \<times> sample_ext" where
  "sample_copy h x =
     (case x of
        XVal s \<Rightarrow> (h, XVal s)
      | XRef p \<Rightarrow> let (h', q) = pointer_DeepCopy AExternal un_External (XVal []) (\<lambda>h x. (h, x)) h p in (h', XRef q))"

definition sample_string :: "sample_ext mem \<Rightarrow> sample_ext \<Rightarrow> string" where
  "sample_string h x =
     (case x of XVal s \<Rightarrow> s | XRef p \<Rightarrow> (case pointer_val un_External (\<lambda>h x. x) h p of Some (XVal s) \<Rightarrow> s | _ \<Rightarrow> []))"

definition sample_tp :: "sample_ext third_party" where
  "sample_tp =
     \<lparr>LabelSelector_DeepCopyInto = sample_copy, NetworkPolicySpec_DeepCopyInto = sample_copy,
      ObjectMeta_DeepCopyInto = sample_copy, ListMeta_DeepCopyInto = sample_copy, Condition_DeepCopyInto = sample_copy,
      Time_DeepCopyInto = sample_copy, LabelSelector_zero = XVal [], NetworkPolicySpec_zero = XVal [],
      ObjectMeta_zero = XVal [], ListMeta_zero = XVal [], Condition_zero = XVal [], Time_zero = XVal []\<rparr>"

definition sample_view :: "(sample_ext, string) view" where
  "sample_view =
     \<lparr>tv_LabelSelector = \<lambda>h x. \<lparr>MatchLabels = [(''app'', sample_string h x)], MatchExpressions = []\<rparr>,
      tv_NetworkPolicySpec = \<lambda>h x. empty_np_spec\<lparr>PolicyTypes := [sample_string h x]\<rparr>,
      tv_ObjectMeta = \<lambda>h x. meta_named ''default'' (sample_string h x), tv_ListMeta = sample_string,
      tv_Condition = \<lambda>h x. zero_condition\<lparr>cond_Type := sample_string h x\<rparr>,
      tv_Time = \<lambda>h x. int (length (sample_string h x)),
      tv_reach = \<lambda>h x. (case x of XVal s \<Rightarrow> {} | XRef p \<Rightarrow> pointer_reach un_External (\<lambda>h x. {}) h p),
      tv_ok = \<lambda>h x. (case x of XVal s \<Rightarrow> True | XRef p \<Rightarrow> pointer_ok un_External (\<lambda>h x. True) h p)\<rparr>"

lemma sample_copy_deep:
  "deep_copy sample_copy (\<lambda>h x. F (sample_string h x)) (tv_reach sample_view) (tv_ok sample_view)"
proof -
  note p = plain.deep_copy_pointer [of un_External AExternal "XVal []", OF un_array(2)]
  show ?thesis
  proof
    fix h :: "sample_ext mem" and x h'
    assume ok: "tv_ok sample_view h x"
    show "tv_reach sample_view h x \<subseteq> {..<h_next h}"
      using ok deep_copy.allocated [OF p] by (auto simp: sample_view_def split: sample_ext.splits)
    show "F (sample_string h' x) = F (sample_string h x) \<and> tv_reach sample_view h' x = tv_reach sample_view h x \<and>
        tv_ok sample_view h' x"
      if "h_next h \<le> h_next h'" "\<forall>a\<in>tv_reach sample_view h x. h_mem h' a = h_mem h a"
    proof (cases x)
      case (XRef r)
      with ok that deep_copy.frame [OF p, of h r h'] show ?thesis by (simp add: sample_view_def sample_string_def)
    qed (simp add: sample_view_def sample_string_def)
    show "heap_ext h h' \<and> F (sample_string h' y) = F (sample_string h x) \<and>
        tv_reach sample_view h' y \<subseteq> {h_next h..<h_next h'} \<and> tv_ok sample_view h' y"
      if "sample_copy h x = (h', y)" for y
    proof (cases x)
      case (XVal s)
      with that show ?thesis by (auto simp: sample_view_def sample_copy_def)
    next
      case (XRef r)
      with that obtain q where q: "pointer_DeepCopy AExternal un_External (XVal []) (\<lambda>h x. (h, x)) h r = (h', q)" "y = XRef q"
        by (auto simp: sample_copy_def split: prod.splits)
      with ok XRef deep_copy.copies [OF p _ q(1)] show ?thesis by (simp add: sample_view_def sample_string_def)
    qed
  qed
qed

lemma sample_third_party_ok: "third_party_ok sample_tp sample_view"
  using sample_copy_deep [where F = "\<lambda>s. \<lparr>MatchLabels = [(''app'', s)], MatchExpressions = []\<rparr>"]
    sample_copy_deep [where F = "\<lambda>s. empty_np_spec\<lparr>PolicyTypes := [s]\<rparr>"]
    sample_copy_deep [where F = "\<lambda>s. meta_named ''default'' s"] sample_copy_deep [where F = "\<lambda>s. s"]
    sample_copy_deep [where F = "\<lambda>s. zero_condition\<lparr>cond_Type := s\<rparr>"] sample_copy_deep [where F = "\<lambda>s. int (length s)"]
  by (simp add: third_party_ok_def sample_tp_def sample_view_def)

text \<open>A list of two Istio policies: the first has a rule with a principal, and both refer to one selector; and a list of one proposal.\<close>

definition sample_policy :: "gptr \<Rightarrow> string \<Rightarrow> sample_ext gWorkloadNetworkPolicy" where
  "sample_policy istio name =
     (WorkloadNetworkPolicy_zero sample_tp)\<lparr>g_wnp_ObjectMeta := XVal name,
       g_wnp_Spec := WorkloadNetworkPolicySpec_zero\<lparr>g_spec_Backend :=
         \<lparr>g_Backend = ''istio'', g_Kubernetes = None, g_Istio = Some istio\<rparr>\<rparr>\<rparr>"

definition whole :: "addr \<Rightarrow> nat \<Rightarrow> gslice option" where
  "whole a n = Some \<lparr>s_addr = a, s_off = 0, s_len = n, s_cap = n\<rparr>"

definition sample_mem :: "sample_ext mem" where
  "sample_mem =
     \<lparr>h_next = 10,
      h_mem = (\<lambda>a. AStrings [])
        (0 := AWorkloadNetworkPolicyList [\<lparr>g_wnps_TypeMeta = TypeMeta_zero, g_wnps_ListMeta = XVal ''7'', g_wnps_Items = whole 1 2\<rparr>],
         1 := AWorkloadNetworkPolicy [sample_policy (2, 0) ''one'', sample_policy (3, 0) ''two''],
         2 := AIstioAuthorizationPolicySpec [\<lparr>g_Selector = XRef (Some (7, 0)), g_Rules = whole 4 1\<rparr>],
         3 := AIstioAuthorizationPolicySpec [\<lparr>g_Selector = XRef (Some (7, 0)), g_Rules = None\<rparr>],
         4 := AIstioAuthorizationPolicyRule [\<lparr>g_From = whole 5 1, g_To = None\<rparr>],
         5 := AIstioFrom [\<lparr>g_Source = \<lparr>g_Principals = whole 6 1\<rparr>\<rparr>],
         6 := AStrings [''cluster.local/ns/a/sa/b''],
         7 := AExternal [XVal ''api''],
         8 := AWorkloadNetworkPolicyProposalList [\<lparr>g_wnpps_TypeMeta = TypeMeta_zero, g_wnpps_ListMeta = XVal ''7'', g_wnpps_Items = whole 9 1\<rparr>],
         9 := AWorkloadNetworkPolicyProposal [(WorkloadNetworkPolicyProposal_zero sample_tp)\<lparr>g_wnpp_ObjectMeta := XRef (Some (7, 0))\<rparr>])\<rparr>"

lemmas memory_defs = whole_def sample_policy_def sample_view_def slice_val_def slice_ok_def slice_reach_def slice_elems_def
  pointer_val_def pointer_ok_def pointer_reach_def list_of_def
  WorkloadNetworkPolicyProposalList_ok_def WorkloadNetworkPolicyProposal_ok_def WorkloadNetworkPolicyProposalSpec_ok_def
  WorkloadNetworkPolicyProposalStatus_ok_def WorkloadNetworkPolicyProposal_zero_def WorkloadNetworkPolicyProposalSpec_zero_def
  WorkloadNetworkPolicyProposalStatus_zero_def WorkloadNetworkPolicyList_ok_def WorkloadNetworkPolicy_ok_def WorkloadNetworkPolicySpec_ok_def WorkloadNetworkPolicyStatus_ok_def
  PolicyBackendSpec_ok_def IstioAuthorizationPolicySpec_ok_def IstioAuthorizationPolicyRule_ok_def IstioFrom_ok_def IstioSource_ok_def
  WorkloadNetworkPolicy_zero_def WorkloadNetworkPolicySpec_zero_def WorkloadNetworkPolicyStatus_zero_def PolicyBackendSpec_zero_def

lemma sample_mem_ok:
  "policy_ok sample_view sample_mem (Some (1, 0))" "policies_ok sample_view sample_mem (Some (0, 0))"
  "proposal_ok sample_view sample_mem (Some (9, 0))" "proposals_ok sample_view sample_mem (Some (8, 0))"
  by (simp_all add: policy_ok_def policies_ok_def proposal_ok_def proposals_ok_def sample_mem_def memory_defs)

section \<open>Properties\<close>

text \<open>C16. A deep copy of a policy is isolated from it. The status synchronisation, the selector scope and the proposal controller
  take a copy of an object as the base of a patch and then change the object, or change the copy. \<open>DeepCopy\<close> of a policy returns a pointer
  that denotes the same policy and shares no block of memory with the original, which it leaves unchanged; and whatever
  is written later through the copy the original denotes the same policy, and the other way round.\<close>

theorem DeepCopy_isolated:
  assumes "third_party_ok tp tv" and "policy_ok tv h (Some p)" and "WorkloadNetworkPolicy_DeepCopy tp h (Some p) = (h', q)"
  shows "\<exists>p'. q = Some p' \<and> copy_of (policy_at tv) (policy_reach tv) h p h' p' \<and>
    (\<forall>h''. h_next h' \<le> h_next h'' \<longrightarrow>
       ((\<forall>a. a \<notin> policy_reach tv h' q \<and> a < h_next h' \<longrightarrow> h_mem h'' a = h_mem h' a) \<longrightarrow>
          policy_at tv h'' (Some p) = policy_at tv h (Some p)) \<and>
       ((\<forall>a. a \<notin> policy_reach tv h (Some p) \<and> a < h_next h' \<longrightarrow> h_mem h'' a = h_mem h' a) \<longrightarrow>
          policy_at tv h'' q = policy_at tv h (Some p)))"
proof -
  note d = deep_copy_roots(1) [OF assms(1)]
  from assms(3) pointer_DeepCopy_Some obtain p' where p': "q = Some p'"
    unfolding WorkloadNetworkPolicy_DeepCopy_def by (metis prod.inject)
  with deep_copy_copy_of [OF d assms(2)] assms(3) deep_copy.isolated [OF d assms(2,3)] show ?thesis by blast
qed

theorem DeepCopy_isolated_witness:
  "\<exists>h' q. WorkloadNetworkPolicy_DeepCopy sample_tp sample_mem (Some (1, 0)) = (h', Some q) \<and>
     policy_at sample_view h' (Some q) = policy_at sample_view sample_mem (Some (1, 0)) \<and>
     policy_at sample_view (put (fst q) (AWorkloadNetworkPolicy []) h') (Some (1, 0)) =
       policy_at sample_view sample_mem (Some (1, 0))"
proof -
  obtain h' q where c: "WorkloadNetworkPolicy_DeepCopy sample_tp sample_mem (Some (1, 0)) = (h', q)" by fastforce
  from DeepCopy_isolated [OF sample_third_party_ok sample_mem_ok(1) c] obtain p' where q: "q = Some p'"
    and "copy_of (policy_at sample_view) (policy_reach sample_view) sample_mem (1, 0) h' p'"
    and iso: "\<forall>h''. h_next h' \<le> h_next h'' \<longrightarrow>
       (\<forall>a. a \<notin> policy_reach sample_view h' q \<and> a < h_next h' \<longrightarrow> h_mem h'' a = h_mem h' a) \<longrightarrow>
          policy_at sample_view h'' (Some (1, 0)) = policy_at sample_view sample_mem (Some (1, 0))"
    by blast
  moreover have "fst p' \<in> policy_reach sample_view h' q"
    using q by (cases p') (simp add: policy_reach_def pointer_reach_def)
  ultimately show ?thesis using c by (auto simp: copy_of_def)
qed

text \<open>\<open>DeepCopyObject\<close>, by which the client library copies objects in and out of its caches. For the two kinds and their
  lists, a nil pointer gives the nil interface, not an interface that holds a nil pointer; any other pointer gives
  an object of the same kind, which denotes the same value and shares no memory with the original.\<close>

lemma DeepCopyObject_ok:
  assumes "third_party_ok tp tv" and "policy_ok tv h (Some p)" and "policies_ok tv h (Some ps)"
    and "proposal_ok tv h (Some r)" and "proposals_ok tv h (Some rs)"
  shows "(\<exists>h' q. WorkloadNetworkPolicy_DeepCopyObject tp h (Some p) = (h', WorkloadNetworkPolicyObject (Some q)) \<and>
        copy_of (policy_at tv) (policy_reach tv) h p h' q) \<and>
    (\<exists>h' q. WorkloadNetworkPolicyList_DeepCopyObject tp h (Some ps) = (h', WorkloadNetworkPolicyListObject (Some q)) \<and>
        copy_of (policies_at tv) (policies_reach tv) h ps h' q) \<and>
    (\<exists>h' q. WorkloadNetworkPolicyProposal_DeepCopyObject tp h (Some r) = (h', WorkloadNetworkPolicyProposalObject (Some q)) \<and>
        copy_of (proposal_at tv) (proposal_reach tv) h r h' q) \<and>
    (\<exists>h' q. WorkloadNetworkPolicyProposalList_DeepCopyObject tp h (Some rs) = (h', WorkloadNetworkPolicyProposalListObject (Some q)) \<and>
        copy_of (proposals_at tv) (proposals_reach tv) h rs h' q) \<and>
    WorkloadNetworkPolicy_DeepCopyObject tp h None = (h, NilObject) \<and>
    WorkloadNetworkPolicyList_DeepCopyObject tp h None = (h, NilObject) \<and>
    WorkloadNetworkPolicyProposal_DeepCopyObject tp h None = (h, NilObject) \<and>
    WorkloadNetworkPolicyProposalList_DeepCopyObject tp h None = (h, NilObject)"
proof -
  note d = deep_copy_roots [OF assms(1)]
  obtain h1 q1 where 1: "WorkloadNetworkPolicy_DeepCopy tp h (Some p) = (h1, Some q1)"
    using pointer_DeepCopy_Some unfolding root_DeepCopy_defs by metis
  obtain h2 q2 where 2: "WorkloadNetworkPolicyList_DeepCopy tp h (Some ps) = (h2, Some q2)"
    using pointer_DeepCopy_Some unfolding root_DeepCopy_defs by metis
  obtain h3 q3 where 3: "WorkloadNetworkPolicyProposal_DeepCopy tp h (Some r) = (h3, Some q3)"
    using pointer_DeepCopy_Some unfolding root_DeepCopy_defs by metis
  obtain h4 q4 where 4: "WorkloadNetworkPolicyProposalList_DeepCopy tp h (Some rs) = (h4, Some q4)"
    using pointer_DeepCopy_Some unfolding root_DeepCopy_defs by metis
  have nil: "WorkloadNetworkPolicy_DeepCopy tp h None = (h, None)" "WorkloadNetworkPolicyList_DeepCopy tp h None = (h, None)"
    "WorkloadNetworkPolicyProposal_DeepCopy tp h None = (h, None)" "WorkloadNetworkPolicyProposalList_DeepCopy tp h None = (h, None)"
    by (simp_all add: root_DeepCopy_defs pointer_DeepCopy_def)
  show ?thesis
    using deep_copy_copy_of [OF d(1) assms(2) 1] deep_copy_copy_of [OF d(2) assms(3) 2]
      deep_copy_copy_of [OF d(3) assms(4) 3] deep_copy_copy_of [OF d(4) assms(5) 4]
    by (simp add: root_DeepCopyObject_defs 1 2 3 4 nil)
qed

end
