(* ===== verification/Schema.thy ===== *)
theory Schema
  imports ProposalReconciler
begin

text \<open>
  The schema of the custom resources: the validation markers of \<^verbatim>\<open>api/v1alpha1/policy_backend_spec.go\<close>, \<^verbatim>\<open>workload_ref.go\<close> and
  \<^verbatim>\<open>workloadnetworkpolicy_types.go\<close>, which the API server checks on every write, next to its own rule for names. It is the type
  of the stored objects; the controllers have to produce well-typed ones, or their writes are refused.
  The step relation \<open>learned\<close> has the life of a proposal: created by a first event, extended by further ones.
\<close>

section \<open>The schema\<close>

text \<open>The pattern of \<open>WorkloadTargetRef.Name\<close>, also Kubernetes' pattern for the names of objects, as an automaton:
  at the start of a label, after a letter or digit, and after a dash.\<close>

datatype dns_state = DnsStart | DnsIn | DnsDash

definition dns_alnum :: "char \<Rightarrow> bool" where
  "dns_alnum c \<longleftrightarrow> (let n = (of_char c :: nat) in 48 \<le> n \<and> n \<le> 57 \<or> 97 \<le> n \<and> n \<le> 122)"

definition dns_step :: "dns_state \<Rightarrow> char \<Rightarrow> dns_state option" where
  "dns_step st c =
     (if dns_alnum c then Some DnsIn
      else if c = CHR ''-'' then (if st = DnsStart then None else Some DnsDash)
      else if c = CHR ''.'' then (if st = DnsIn then Some DnsStart else None)
      else None)"

fun dns_run :: "dns_state \<Rightarrow> string \<Rightarrow> dns_state option" where
  "dns_run st [] = Some st"
| "dns_run st (c # cs) = (case dns_step st c of None \<Rightarrow> None | Some st' \<Rightarrow> dns_run st' cs)"

definition dns_subdomain :: "string \<Rightarrow> bool" where
  "dns_subdomain s \<longleftrightarrow> dns_run DnsStart s = Some DnsIn"

definition target_ref_valid :: "WorkloadTargetRef \<Rightarrow> bool" where
  "target_ref_valid t \<longleftrightarrow>
     tr_Kind t \<in> {WorkloadKindDeployment, WorkloadKindStatefulSet, WorkloadKindDaemonSet} \<and>
     1 \<le> length (tr_Name t) \<and> length (tr_Name t) \<le> 253 \<and> dns_subdomain (tr_Name t)"

definition spec_valid :: "PolicyBackendSpec \<Rightarrow> WorkloadTargetingSpec \<Rightarrow> bool" where
  "spec_valid b t \<longleftrightarrow> backend_valid b \<and> targeting_valid b t \<and> target_ref_valid (TargetRef t) \<and>
     Direction t \<in> {PolicyTypeIngress, PolicyTypeEgress}"

definition proposal_valid :: "WorkloadNetworkPolicyProposal \<Rightarrow> bool" where
  "proposal_valid p \<longleftrightarrow> spec_valid (pspec_Backend (wnpp_Spec p)) (pspec_Targeting (wnpp_Spec p))"

definition policy_valid :: "WorkloadNetworkPolicy \<Rightarrow> bool" where
  "policy_valid p \<longleftrightarrow> spec_valid (wnp_Backend p) (spec_Targeting (wnp_Spec p)) \<and>
     wnp_Mode p \<in> {WorkloadNetworkPolicyModeMonitor, WorkloadNetworkPolicyModeProtect}"

text \<open>An update is refused when it changes the backend.\<close>

definition update_valid :: "WorkloadNetworkPolicyProposal \<Rightarrow> WorkloadNetworkPolicyProposal \<Rightarrow> bool" where
  "update_valid old new \<longleftrightarrow>
     proposal_valid new \<and> Backend (pspec_Backend (wnpp_Spec new)) = Backend (pspec_Backend (wnpp_Spec old))"

definition object_name_valid :: "string \<Rightarrow> bool" where
  "object_name_valid n \<longleftrightarrow> length n \<le> 253 \<and> dns_subdomain n"

section \<open>Registration\<close>

text \<open>\<^verbatim>\<open>groupversion_info.go\<close>: the kinds of the group. The scheme is third-party; \<open>AddKnownTypes\<close> takes the kinds by the
  names of their Go types.\<close>

record 's scheme_ops =
  AddKnownTypes :: "'s \<Rightarrow> GroupVersionInfo \<Rightarrow> string list \<Rightarrow> 's"
  AddToGroupVersion :: "'s \<Rightarrow> GroupVersionInfo \<Rightarrow> 's"

definition addKnownTypes :: "'s scheme_ops \<Rightarrow> 's \<Rightarrow> 's \<times> error option" where
  "addKnownTypes ops scheme =
     (let scheme = AddKnownTypes ops scheme GroupVersion
            [''WorkloadNetworkPolicy'', ''WorkloadNetworkPolicyList'', ''WorkloadNetworkPolicyProposal'',
             ''WorkloadNetworkPolicyProposalList'']
      in (AddToGroupVersion ops scheme GroupVersion, None))"

section \<open>The life of a proposal\<close>

text \<open>The workloads that learning is well-typed for: a supported kind, a selector, and a name of Kubernetes that leaves room for the
  kind and the direction in the name of the proposal. Kubernetes allows names of up to 253 characters; the lemma
  \<open>long_name_refused\<close> below shows what becomes of a longer one.\<close>

definition workload_typed :: "WorkloadRef \<Rightarrow> bool" where
  "workload_typed wk \<longleftrightarrow> IsSupported wk \<and> selector_nonempty (wr_Selector wk) \<and> dns_subdomain (wr_OwnerName wk) \<and>
     length (wr_OwnerName wk) \<le> 233"

text \<open>The proposal of the workload \<open>kind/name\<close> in one direction. Every event brings the workload with the selector
  that it has at the time.\<close>

inductive learned ::
    "helpers \<Rightarrow> WorkloadTargetRef \<Rightarrow> PolicyBackend \<Rightarrow> PolicyType \<Rightarrow> WorkloadNetworkPolicyProposal \<Rightarrow> bool"
  for h t
where
  first_kubernetes: "workload_typed wk \<Longrightarrow> t = \<lparr>tr_Kind = wr_OwnerKind wk, tr_Name = wr_OwnerName wk\<rparr> \<Longrightarrow>
    d \<in> {PolicyTypeIngress, PolicyTypeEgress} \<Longrightarrow>
    mutateKubernetesProposal h wk peer d protocol port (getProposalMetadata wk d) = Inr p \<Longrightarrow>
    learned h t PolicyBackendKubernetes d p"
| next_kubernetes: "learned h t PolicyBackendKubernetes d p \<Longrightarrow> workload_typed wk \<Longrightarrow>
    t = \<lparr>tr_Kind = wr_OwnerKind wk, tr_Name = wr_OwnerName wk\<rparr> \<Longrightarrow>
    mutateKubernetesProposal h wk peer d protocol port p = Inr p' \<Longrightarrow>
    learned h t PolicyBackendKubernetes d p'"
| first_istio: "workload_typed wk \<Longrightarrow> t = \<lparr>tr_Kind = wr_OwnerKind wk, tr_Name = wr_OwnerName wk\<rparr> \<Longrightarrow>
    mutateIstioProposal wk peer port (getProposalMetadata wk PolicyTypeIngress) = Inr p \<Longrightarrow>
    learned h t PolicyBackendIstio PolicyTypeIngress p"
| next_istio: "learned h t PolicyBackendIstio PolicyTypeIngress p \<Longrightarrow> workload_typed wk \<Longrightarrow>
    t = \<lparr>tr_Kind = wr_OwnerKind wk, tr_Name = wr_OwnerName wk\<rparr> \<Longrightarrow>
    mutateIstioProposal wk peer port p = Inr p' \<Longrightarrow>
    learned h t PolicyBackendIstio PolicyTypeIngress p'"

section \<open>Names\<close>

lemma dns_run_append: "dns_run st (xs @ ys) = Option.bind (dns_run st xs) (\<lambda>st'. dns_run st' ys)"
  by (induction xs arbitrary: st) (auto split: option.splits)

lemma dns_run_dash: "dns_run DnsStart s = Some DnsIn \<Longrightarrow> dns_run DnsDash s = Some DnsIn"
  by (cases s) (auto simp: dns_step_def split: if_splits)

lemma dns_ends:
  "dns_run DnsStart ''deployment-'' = Some DnsDash" "dns_run DnsStart ''statefulset-'' = Some DnsDash"
  "dns_run DnsStart ''daemonset-'' = Some DnsDash"
  "dns_run DnsIn ''-ingress'' = Some DnsIn" "dns_run DnsIn ''-egress'' = Some DnsIn"
  by code_simp+

lemma proposal_name_valid:
  assumes "workload_typed wk" and "d \<in> {PolicyTypeIngress, PolicyTypeEgress}"
  shows "object_name_valid (getProposalName wk d)"
proof -
  define k where "k = to_lower (wr_OwnerKind wk) @ ''-''"
  define e where "e = ''-'' @ to_lower d"
  from assms(1) have "dns_run DnsStart k = Some DnsDash \<and> length k \<le> 12"
    using dns_ends(1-3) by (auto simp: k_def workload_typed_def IsSupported_def lower_names simp del: dns_run.simps)
  moreover from assms(2) have "dns_run DnsIn e = Some DnsIn \<and> length e \<le> 8"
    using dns_ends(4,5) by (auto simp: e_def lower_names simp del: dns_run.simps)
  moreover have "getProposalName wk d = k @ wr_OwnerName wk @ e" by (simp add: getProposalName_def k_def e_def)
  moreover have "dns_run DnsDash (wr_OwnerName wk) = Some DnsIn" "length (wr_OwnerName wk) \<le> 233"
    using assms(1) by (auto simp: workload_typed_def dns_subdomain_def intro: dns_run_dash)
  ultimately show ?thesis by (simp add: object_name_valid_def dns_subdomain_def dns_run_append)
qed

section \<open>Learning keeps the schema\<close>

definition has_type :: "PolicyBackend \<Rightarrow> WorkloadTargetRef \<Rightarrow> PolicyType \<Rightarrow> WorkloadNetworkPolicyProposal \<Rightarrow> bool" where
  "has_type b t d p \<longleftrightarrow> proposal_valid p \<and> Backend (pspec_Backend (wnpp_Spec p)) = b \<and>
     pspec_Targeting (wnpp_Spec p) = \<lparr>TargetRef = t, Direction = d\<rparr>"

text \<open>The name of a workload can be valid and that of its proposals not: the API server refuses them, and nothing is ever learned.\<close>

lemma long_name_refused:
  assumes "IsSupported wk" and "d \<in> {PolicyTypeIngress, PolicyTypeEgress}" and "236 < length (wr_OwnerName wk)"
  shows "\<not> object_name_valid (getProposalName wk d)"
proof -
  have "9 \<le> length (to_lower (wr_OwnerKind wk))" using assms(1) by (auto simp: IsSupported_def lower_names)
  moreover have "6 \<le> length (to_lower d)" using assms(2) by (auto simp: lower_names)
  ultimately have "253 < length (getProposalName wk d)" using assms(3) by (simp add: getProposalName_def)
  then show ?thesis by (simp add: object_name_valid_def dns_subdomain_def)
qed

lemma workload_typed_target:
  "workload_typed wk \<Longrightarrow> target_ref_valid \<lparr>tr_Kind = wr_OwnerKind wk, tr_Name = wr_OwnerName wk\<rparr>"
  by (auto simp: workload_typed_def target_ref_valid_def IsSupported_def dns_subdomain_def Suc_le_eq)

lemmas schema_defs = has_type_def proposal_valid_def spec_valid_def backend_valid_def targeting_valid_def

lemma mutate_returns:
  "d \<in> {PolicyTypeIngress, PolicyTypeEgress} \<Longrightarrow> \<exists>p'. mutateKubernetesProposal h wk peer d protocol port p = Inr p'"
  "\<exists>p'. mutateIstioProposal wk peer port p = Inr p'"
  by (auto simp: mutateKubernetesProposal_def mutateIstioProposal_def Let_def split: prod.splits)

lemma mutateKubernetesProposal_typed:
  assumes "workload_typed wk" and "t = \<lparr>tr_Kind = wr_OwnerKind wk, tr_Name = wr_OwnerName wk\<rparr>"
    and "d \<in> {PolicyTypeIngress, PolicyTypeEgress}"
    and "p = getProposalMetadata wk d \<or> has_type PolicyBackendKubernetes t d p"
    and "mutateKubernetesProposal h wk peer d protocol port p = Inr p'"
  shows "has_type PolicyBackendKubernetes t d p'"
  using assms workload_typed_target [OF assms(1)]
  by (auto simp: mutateKubernetesProposal_def schema_defs workloadTargetingSpec_def getProposalMetadata_def Let_def
      empty_np_spec_def workload_typed_def split: option.splits prod.splits if_splits)

lemma mutateIstioProposal_typed:
  assumes "workload_typed wk" and "t = \<lparr>tr_Kind = wr_OwnerKind wk, tr_Name = wr_OwnerName wk\<rparr>"
    and "p = getProposalMetadata wk PolicyTypeIngress \<or> has_type PolicyBackendIstio t PolicyTypeIngress p"
    and "mutateIstioProposal wk peer port p = Inr p'"
  shows "has_type PolicyBackendIstio t PolicyTypeIngress p'"
  using assms workload_typed_target [OF assms(1)]
  by (auto simp: mutateIstioProposal_def schema_defs workloadTargetingSpec_def getProposalMetadata_def Let_def
      upsertIstioLearnedRule_def workload_typed_def split: option.splits prod.splits if_splits)

lemma learned_has_type:
  assumes "learned h t b d p"
  shows "has_type b t d p \<and> d \<in> {PolicyTypeIngress, PolicyTypeEgress} \<and> (b = PolicyBackendIstio \<longrightarrow> d = PolicyTypeIngress)"
  using assms
proof (induction rule: learned.induct)
  case (first_kubernetes wk d peer protocol port p)
  then show ?case using mutateKubernetesProposal_typed [OF first_kubernetes(1-3) _ first_kubernetes(4)] by auto
next
  case (next_kubernetes d p wk peer protocol port p')
  then show ?case using mutateKubernetesProposal_typed [OF next_kubernetes(2,3) _ _ next_kubernetes(4)] by auto
next
  case (first_istio wk peer port p)
  then show ?case using mutateIstioProposal_typed [OF first_istio(1,2) _ first_istio(3)] by auto
next
  case (next_istio p wk peer port p')
  then show ?case using mutateIstioProposal_typed [OF next_istio(2,3) _ next_istio(4)] by auto
qed

text \<open>A proposal of one backend that gets an event of the other one, after the cluster has changed its provider, ends up with
  both payloads: its update is refused, for this event and every later one.\<close>

lemma foreign_backend_refused:
  assumes "proposal_valid p"
  shows "Backend (pspec_Backend (wnpp_Spec p)) = PolicyBackendIstio \<Longrightarrow>
      mutateKubernetesProposal h wk peer d protocol port p = Inr p' \<Longrightarrow> \<not> update_valid p p'"
    and "Backend (pspec_Backend (wnpp_Spec p)) = PolicyBackendKubernetes \<Longrightarrow>
      mutateIstioProposal wk peer port p = Inr p' \<Longrightarrow> \<not> update_valid p p'"
  using assms
  by (auto simp: mutateKubernetesProposal_def mutateIstioProposal_def schema_defs update_valid_def Let_def
      split: option.splits prod.splits if_splits)

section \<open>Properties\<close>

text \<open>C14. Learning and promotion respect the schema. Every proposal that learning creates and extends, from any sequence of events for
  its workload, satisfies the validation rules of the resource; the next event for the workload gives an
  update that the API server accepts, with the backend unchanged, under a name that it accepts; and
  promoting the proposal in either mode gives a policy that satisfies the rules of policies.\<close>

theorem learning_well_typed:
  assumes "learned h t b d p"
  shows "proposal_valid p \<and> Backend (pspec_Backend (wnpp_Spec p)) = b \<and>
    pspec_Targeting (wnpp_Spec p) = \<lparr>TargetRef = t, Direction = d\<rparr> \<and>
    (\<forall>wk peer protocol port. workload_typed wk \<and> t = \<lparr>tr_Kind = wr_OwnerKind wk, tr_Name = wr_OwnerName wk\<rparr> \<longrightarrow>
       object_name_valid (getProposalName wk d) \<and>
       (b = PolicyBackendKubernetes \<longrightarrow>
          (\<exists>p'. mutateKubernetesProposal h wk peer d protocol port p = Inr p' \<and> update_valid p p')) \<and>
       (b = PolicyBackendIstio \<longrightarrow> (\<exists>p'. mutateIstioProposal wk peer port p = Inr p' \<and> update_valid p p'))) \<and>
    (\<forall>mode policy. mode \<in> {WorkloadNetworkPolicyModeMonitor, WorkloadNetworkPolicyModeProtect} \<longrightarrow>
       SetPromotedLabel (Some (promoted_policy p mode)) (wnpp_Name p) = Inr policy \<longrightarrow> policy_valid policy)"
proof -
  note ty = learned_has_type [OF assms]
  have upd: "update_valid p p'" if "has_type b t d p'" for p' using that ty by (simp add: has_type_def update_valid_def)
  have "\<exists>p'. mutateKubernetesProposal h wk peer d protocol port p = Inr p' \<and> update_valid p p'"
    if "workload_typed wk" "t = \<lparr>tr_Kind = wr_OwnerKind wk, tr_Name = wr_OwnerName wk\<rparr>" "b = PolicyBackendKubernetes"
    for wk peer protocol port
    using mutateKubernetesProposal_typed [OF that(1,2)] mutate_returns(1) that ty upd by metis
  moreover have "\<exists>p'. mutateIstioProposal wk peer port p = Inr p' \<and> update_valid p p'"
    if "workload_typed wk" "t = \<lparr>tr_Kind = wr_OwnerKind wk, tr_Name = wr_OwnerName wk\<rparr>" "b = PolicyBackendIstio" for wk peer port
    using mutateIstioProposal_typed [OF that(1,2)] mutate_returns(2) [of wk peer port p] that ty upd by metis
  moreover have "policy_valid policy"
    if "mode \<in> {WorkloadNetworkPolicyModeMonitor, WorkloadNetworkPolicyModeProtect}"
      "SetPromotedLabel (Some (promoted_policy p mode)) (wnpp_Name p) = Inr policy" for mode policy
    using that ty
    by (auto simp: SetPromotedLabel_def promoted_policy_def policy_valid_def has_type_def proposal_valid_def split: if_splits)
  ultimately show ?thesis using ty proposal_name_valid by (simp add: has_type_def)
qed

lemma sample_wk_typed: "workload_typed (sample_wk ''api'')"
  by code_simp

lemma sample_learned_twice:
  "\<exists>p. learned mem_helpers \<lparr>tr_Kind = wr_OwnerKind (sample_wk ''api''), tr_Name = ''api''\<rparr> PolicyBackendKubernetes PolicyTypeEgress p"
proof -
  let ?wk = "sample_wk ''api''" and ?d = PolicyTypeEgress
  let ?t = "\<lparr>tr_Kind = wr_OwnerKind ?wk, tr_Name = ''api''\<rparr>"
  have d: "?d \<in> {PolicyTypeIngress, PolicyTypeEgress}" by simp
  have t: "?t = \<lparr>tr_Kind = wr_OwnerKind ?wk, tr_Name = wr_OwnerName ?wk\<rparr>" by (simp add: sample_wk_def sample_ref_def)
  obtain p where p: "mutateKubernetesProposal mem_helpers ?wk (sample_wk ''db'') ?d ''TCP'' 80 (getProposalMetadata ?wk ?d) = Inr p"
    using mutate_returns(1) [OF d] by blast
  obtain p' where p': "mutateKubernetesProposal mem_helpers ?wk (sample_wk ''db'') ?d ''UDP'' 53 p = Inr p'"
    using mutate_returns(1) [OF d] by blast
  from learned.next_kubernetes [OF learned.first_kubernetes [OF sample_wk_typed t d p] sample_wk_typed t p'] show ?thesis by blast
qed

theorem learning_well_typed_witness:
  "\<exists>p p'. learned mem_helpers \<lparr>tr_Kind = wr_OwnerKind (sample_wk ''api''), tr_Name = ''api''\<rparr> PolicyBackendKubernetes PolicyTypeEgress p \<and>
     proposal_valid p \<and> mutateKubernetesProposal mem_helpers (sample_wk ''api'') (sample_wk ''web'') PolicyTypeEgress ''TCP'' 443 p = Inr p' \<and>
     update_valid p p'"
proof -
  obtain p where p: "learned mem_helpers \<lparr>tr_Kind = wr_OwnerKind (sample_wk ''api''), tr_Name = ''api''\<rparr>
      PolicyBackendKubernetes PolicyTypeEgress p" using sample_learned_twice by blast
  have t: "\<lparr>tr_Kind = wr_OwnerKind (sample_wk ''api''), tr_Name = ''api''\<rparr> =
      \<lparr>tr_Kind = wr_OwnerKind (sample_wk ''api''), tr_Name = wr_OwnerName (sample_wk ''api'')\<rparr>" by (simp add: sample_wk_def sample_ref_def)
  from learning_well_typed [OF p] p sample_wk_typed t show ?thesis by blast
qed

end
