(* ===== verification/Spec2Isabelle.thy ===== *)
theory Spec2Isabelle
  imports RingBuf ViolationRecords StatusSync PolicyReconciler Webhook ProposalReconciler
    System Ztunnel ProviderTls StreamClients IstioServer StatusLoop Watches Tailer FlowDumper Startup EndToEnd
    DeepCopyLaws Schema
begin

text \<open>
  A verification development of the kubewarden network enforcer. The enforcer watches the traffic of
  a Kubernetes cluster, learns per workload and direction which flows occur
  (WorkloadNetworkPolicyProposal), lets a user promote what was learned to a policy
  (WorkloadNetworkPolicy) in monitor or protect mode, renders the policy to a NetworkPolicy or an
  Istio AuthorizationPolicy, and reports the flows that violate it in the policy's status.

  \<^bold>\<open>The parts and how they interact.\<close> Scrapers (Calico, Cilium, Istio) turn messages of the flow
  providers into learning events, put into the channel of the learning controller, and into
  violation observations, put into a ring buffer and exported to OpenTelemetry. The learning
  controller merges an event into the workload's proposal, or, once the proposal is promoted in
  monitor mode, checks the flow against the policy and records an observation itself. The proposal
  controller repairs ownership, removes leftovers and promotes. The policy controller resolves
  conflicts between policies with one target, checks what the selector selects, and renders. The
  webhook keeps targets unique. The status synchronisation drains the ring buffer, attributes each
  observation to a policy and recomputes the statuses, which also acknowledges violations on the
  user's request. The agent on each node tails ztunnel logs, parses them and checkpoints its
  offsets.

  \<^bold>\<open>How the code is modelled.\<close> A Go struct is a record, an enumeration or a tagged union a datatype, a
  string enumeration the string with a definition per constant, an \<open>int32\<close> or \<open>int64\<close> a word (positions of
  the ring buffer are integers with the wrap-around written out), a pointer that may be nil an option,
  a map an association list in iteration order. A function that returns an error has a sum type with
  the error on the left; one that changes state takes and returns the state; one that can panic
  returns an option with \<open>None\<close> for the panic. Loops over slices are structural recursions, so every
  definition is total; there is no fuel anywhere. The one loop without a bound, the reconnection of a stream, is a
  partial function in option, with a theorem that it returns. Loops that wait for messages, requests or ticks are functions
  of the list of those that arrive. Time is an integer of nanoseconds, passed as an argument wherever the
  code reads the clock. Logging is left out.

  The Kubernetes client, apimachinery's helpers, the manager, JSON codecs, the file system, crypto/tls,
  gRPC, the retry library and the file consumer are not part of the repository. They are arguments: the records
  \<open>client\<close> and \<open>helpers\<close> (KubeClient), \<open>fs_ops\<close> and \<open>codec\<close> (Persister), \<open>decode\<close> (Ztunnel), \<open>flow_codec\<close> (FlowParser), \<open>tls_env\<close> (TlsUtil),
  \<open>api_reader\<close> (CertSource), \<open>loop_io\<close> (Reconnect), \<open>attempt_io\<close> (StreamClients), \<open>fc_ops\<close> (Tailer), \<open>setup_env\<close> (Startup), \<open>third_party\<close>
  (DeepCopy), \<open>scheme_ops\<close> (Schema). A theorem that
  needs documented behaviour of them has it as a hypothesis with a name (\<open>field_index_ok\<close>,
  \<open>create_or_update_ok\<close>, \<open>owner_helpers_ok\<close>, \<open>create_wnp_ok\<close>, \<open>delete_wnpp_local\<close>, \<open>fs_ok\<close>, \<open>codec_ok\<close>, \<open>retry_ok\<close> and
  \<open>loop_io_ok\<close>, \<open>map_func_ok\<close>, \<open>selector_ok\<close>, \<open>cached\<close>, \<open>data_plane_ok\<close>, \<open>store_client\<close>, \<open>optimistic\<close> and
  \<open>optimistic_client\<close>, \<open>third_party_ok\<close>). MemCluster has a cluster in memory that satisfies what is
  asked of the client, LagCluster one whose reads are stale, Persister a file system, Reconnect a retry library; the witnesses of the theorems run on them.

  \<^bold>\<open>The theories.\<close>
  \<^item> Prelude: the fragments of Go's strings, strconv, slices, net and maps that occur, with their
    lemmas (decimal parse and print are inverse, cutting, stable sorting).
  \<^item> RingBuf (\<^verbatim>\<open>internal/ringbuf/buffer.go\<close>): \<open>Record\<close> and \<open>Drain\<close> on the array with position and capacity. The
    locale \<open>bounded_recorder\<close> is the contract the clients use; its interpretation on the code refines every
    history of calls to a bounded newest-first list.
  \<^item> ApiTypes, PolicyHelpers, ViolationRecords (\<^verbatim>\<open>api/v1alpha1\<close>): the custom resources, the comparison of
    rules (locale \<open>unordered_equality\<close>, interpreted for strings, peers and ports: comparing without order is
    multiset equality), and the bookkeeping of violations: merging with the cap of 100 records,
    identifiers, clearing what the policy permits, acknowledging by annotation, and their composition
    \<open>RecomputeStatus\<close> with its invariant.
  \<^item> GoHeap, DeepCopy, DeepCopyLaws (\<^verbatim>\<open>api/v1alpha1/zz_generated.deepcopy.go\<close>): the development treats the API objects as
    values, so a controller that changes a copy of an object does not change the object. That is justified here. GoHeap has Go's slices and pointers on a
    heap with an allocation counter; its locale \<open>deep_copy\<close> is the contract of a copy, with the laws that build the copy of a
    slice, a pointer or a struct from the copies of its parts, interpreted for the API types. A copy denotes the same value of ApiTypes and
    shares no memory with the original.
  \<^item> Schema (the validation markers of \<^verbatim>\<open>api/v1alpha1\<close>, \<^verbatim>\<open>groupversion_info.go\<close>): the type of the stored objects, and that learning and
    promotion are well-typed, by rule induction on the life of a proposal. The lemma \<open>foreign_backend_refused\<close> shows where they
    are not: a proposal of the other backend.
  \<^item> KubeClient, MemCluster: the boundary to the API, errors as values with wrapping, and the cluster in
    memory.
  \<^item> Violation (\<^verbatim>\<open>internal/violation\<close>): observations and the exported record, read back by its schema.
  \<^item> Workload (\<^verbatim>\<open>internal/workload\<close>): from a pod to its workload, selectors, the index by target and the exact
    answer of the lookup.
  \<^item> Learning (\<^verbatim>\<open>internal/controller/learning_*.go\<close>, \<^verbatim>\<open>monitor_kubernetes.go\<close>, \<^verbatim>\<open>workload_selectors.go\<close>,
    \<^verbatim>\<open>promoted_policy_lookup.go\<close>, \<^verbatim>\<open>internal/types/types.go\<close>): the locale \<open>rule_learning\<close> is what learning promises
    of a rule set, interpreted for egress and ingress rules; what is learned is stored, and monitoring
    reports exactly what was not learned. Three lemmas show where the code does not do what its
    comments say: \<open>learned_rules_never_clear\<close>, \<open>istio_learning_narrows_open_rule\<close> and
    \<open>monitor_of_istio_policy_panics\<close>.
  \<^item> StatusSync (\<^verbatim>\<open>workloadnetworkpolicystatus_sync.go\<close>, \<^verbatim>\<open>violation_attribution_metrics.go\<close>): one cycle: the
    ownership index, attribution (sound and unambiguous), correlation (every observation accounted for
    once), acknowledgements exported after the status patch, no panic.
  \<^item> PolicyReconciler (\<^verbatim>\<open>workloadnetworkpolicy_*.go\<close>, \<^verbatim>\<open>policy_labels.go\<close>): the duplicate check with the oldest policy
    as the one winner, the selector scope behind the Ready condition, the retained policy, and the two
    renderers, which never write a foreign object. What is Ready is enforced on the target workload alone.
  \<^item> Watches (\<open>SetupWithManager\<close>, \<open>duplicateTargetHandler\<close> and the predicates of \<^verbatim>\<open>workloadnetworkpolicy_*.go\<close>): which policies an event enqueues.
    No event that changes the verdict of the selector scope or of the duplicate check on a policy is missed.
  \<^item> StatusLoop (\<open>Start\<close> of the status synchronisation): the loop over the cycles, which accounts for every observation
    across failed cycles.
  \<^item> Webhook (\<^verbatim>\<open>workloadnetworkpolicy_webhook.go\<close>): the webhook is advisory. For every history of admissions, concurrent ones and
    stale reads included, two policies share a target only by a race, and the duplicate check of the controller finds it.
  \<^item> ProposalReconciler (\<^verbatim>\<open>workloadnetworkpolicyproposal_controller.go\<close>): ownership and promotion; the name of a
    proposal determines its workload. A patch leaves the server's answer in memory, so what is promoted is that.
  \<^item> FlowParser, CalicoScraper, CiliumScraper (\<^verbatim>\<open>internal/scraper\<close>): the classification of flows, the resolution
    of their ends, and the receive loops. The locale \<open>flow_processor\<close> is what a provider's processing promises
    to the loop; it is interpreted for both providers.
  \<^item> IstioScraper (\<^verbatim>\<open>internal/scraper/istio_scraper.go\<close>, \<^verbatim>\<open>internal/istio\<close>): OTLP records to events and observations,
    and enrichment. IstioServer: the server around it, from the listener to the shutdown.
  \<^item> Reconnect (\<^verbatim>\<open>internal/scraper/scraper_helpers.go\<close>), StreamClients (\<open>Start\<close> and \<open>stream\<close> of the Calico and Cilium scrapers): the
    reconnection loop on the documented behaviour of the retry library. The locale \<open>stream_client\<close> is what an attempt promises
    to the loop, interpreted for both scrapers; the loop ends only for a reason and returns when its context is done. The
    lemma \<open>deadline_ends_loop_silently\<close> shows an ending that the code does not mean.
  \<^item> FlowDumper (\<^verbatim>\<open>internal/flowdumper\<close>): the HTTP handler; what it writes is read back as the dumped flows.
  \<^item> System (\<open>run\<close> of \<^verbatim>\<open>cmd/controller/main.go\<close>): the wiring of the scrapers, the learning controller and the
    status synchronisation to one buffer and one channel, as a step relation whose steps are the calls that
    are atomic for the others, with an invariant of all reachable states.
  \<^item> Controllers: all controllers on one cluster, in any order. The locale \<open>quiet_client\<close> is a part of the cluster that the writes to policies
    and proposals leave alone; every object of the data plane is explained by a policy that was read. Provenance: such runs with the flows that
    are observed and the writes of users in between. The locale \<open>store_client\<close> is the client as a store of objects that a write adds to, whatever its
    reads return of what was ever stored; \<open>backend_invariant\<close> is a predicate on the payloads of proposals and policies that learning keeps and that
    therefore every step of every controller keeps; its instance is that each permission was there at the start, was written by a
    user, or was observed.
  \<^item> LagCluster: a cluster whose reads come from a cache that lags behind the API server, as those of the manager's client do, and that may move on
    between two reads of one call. \<open>optimistic\<close> and
    the locale \<open>optimistic_client\<close> are the server's side of an update: it is refused unless the version that \<open>CreateOrUpdate\<close> read is still there. Hence stale
    reads cost no NetworkPolicy of another controller its rules and lose no concurrently learned flow. The lemmas \<open>late_adoption\<close>, \<open>stale_delete\<close>
    and \<open>stale_patch\<close> show what does reach a foreign object: one without a controller that appears between the two reads, a deletion by name, and a patch
    without a version.
  \<^item> EndToEnd: the steps of System and of Provenance in one relation, on lagging reads. What a NetworkPolicy or an AuthorizationPolicy permits is
    traced through rendering, promotion and learning back to a message of a flow provider, or to a write of a user.
  \<^item> Ztunnel (\<^verbatim>\<open>internal/ztunnel\<close>), Persister (\<^verbatim>\<open>internal/tailer/persister.go\<close>): the log parser and the durable
    checkpoint store, also for a process that dies in any of its calls of the operating system. Tailer (\<^verbatim>\<open>internal/tailer/tailer.go\<close>, \<^verbatim>\<open>cmd/agent/main.go\<close>): the tailer around the file consumer and its
    recovery from a refused checkpoint.
  \<^item> TlsUtil (\<^verbatim>\<open>internal/tlsutil\<close>), CertSource (\<^verbatim>\<open>internal/certsource\<close>), ProviderTls (\<open>setupProviderScraper\<close> of
    \<^verbatim>\<open>cmd/controller/main.go\<close> and the credentials of the scrapers): from the provider flags to the mutual-TLS
    configuration of the connection, which is never silently downgraded to plaintext.
  \<^item> Startup (\<open>run\<close> and \<open>main\<close> of \<^verbatim>\<open>cmd/controller/main.go\<close>, \<^verbatim>\<open>internal/events\<close>, \<^verbatim>\<open>internal/types/otlp\<close>, the indexers and the \<open>SetupWithManager\<close>
    functions): starting up as a sequence of actions, which is completed exactly if nothing fails.

  This theory has the two properties that span components: the scrapers only feed valid events to the
  learning controller, and a learned flow that is promoted and reconciled is in the NetworkPolicy.

  \<^bold>\<open>Bounds.\<close> The ring buffer keeps its position in a 64-bit integer that only a drain resets; the theorems about
  it ask for room for the records that are added (\<open>rb_room\<close>), which is about nine quintillion. The
  statuses keep at most 100 violations, the learning channel 4096 events, as in the code. Ports lie
  between 0 and 65535, for parsed strings between 1 and 65535.

  \<^bold>\<open>Not modelled.\<close> What third-party code does inside (the manager and its caches, gRPC, HTTP, the TLS handshake, the
  retry library, the file consumer, the OpenTelemetry exporters, flag parsing), logging, the generated gRPC stubs and protobuf descriptors, and the
  fixtures of the unit tests. Concurrency is modelled at the granularity of the calls that the code makes atomic: the ring
  buffer and the checkpoint store work under a mutex, and each controller handles one object at a time.
  Of the Goldmane messages, generated from
  a protocol description, the types and accessors that the scraper uses are modelled. The program itself has no other part that is left out; the
  constant of \<^verbatim>\<open>internal/types/loglevel\<close> only chooses a verbosity.
\<close>

section \<open>Properties that span components\<close>

text \<open>C17. From flow sources to the learning controller. Whatever messages Goldmane or Hubble send, the receive
  loops of both scrapers run without a panic as long as the buffers have room for the messages, leave
  the cluster alone, and keep the invariant of the learning channel: both ends of every event are
  existing workloads of a supported kind, with their own non-empty selectors.\<close>

theorem scrapers_feed_valid_events:
  assumes "w = lr_cluster (sc_learner s)" and "list_all (learned_ok h c w) (lr_eventChan (sc_learner s))"
    and "buffers_ok s (length ms)" and "buffers_ok s (length ms')"
  shows "(\<exists>s'. calico_stream h c now codec s ms = Some s' \<and> lr_cluster (sc_learner s') = w \<and>
            list_all (learned_ok h c w) (lr_eventChan (sc_learner s'))) \<and>
    (\<exists>s'. cilium_stream h c now codec' s ms' = Some s' \<and> lr_cluster (sc_learner s') = w \<and>
            list_all (learned_ok h c w) (lr_eventChan (sc_learner s')))"
  using assms calico.loop_ok [of s ms h c codec now] cilium.loop_ok [of s ms' h c codec' now]
  by (simp add: calico_stream_def cilium_stream_def)

theorem scrapers_feed_valid_events_witness:
  "\<exists>s'. calico_stream mem_helpers (mem_client sample_index) 0 no_codec (sample_scraper []) [None] = Some s' \<and>
     list_all (learned_ok mem_helpers (mem_client sample_index) (lr_cluster (sc_learner (sample_scraper [])))) (lr_eventChan (sc_learner s'))"
proof -
  let ?s = "sample_scraper []"
  have "buffers_ok ?s (Suc 0)"
    by (simp add: buffers_ok_def sample_scraper_def sample_learner_def NewLearningReconciler_def rb_inv_def rb_room_def)
  moreover have "lr_eventChan (sc_learner ?s) = []" by (simp add: sample_scraper_def sample_learner_def NewLearningReconciler_def)
  ultimately show ?thesis
    using scrapers_feed_valid_events [where s = ?s and h = mem_helpers and c = "mem_client sample_index" and ms = "[None]"
        and ms' = "[None]" and now = 0 and codec = no_codec and codec' = no_codec, OF refl]
    by auto
qed

text \<open>C2. A learned flow is enforced. If a workload's proposal, as the promotion sees it after the ownership step, has a flow and the label for protect
  mode, no policy has its name yet, the promotion succeeds, and the policy that the API server then has is reconciled with success, then the cluster has a
  NetworkPolicy whose specification is exactly the proposal's and which therefore has the flow; it is
  controlled by the policy, and the policy is marked as promoted from the proposal.\<close>

theorem learned_flow_enforced:
  assumes "create_wnp_ok c truth" and "delete_wnpp_local c truth" and "create_or_update_ok (getNP c) (createOrUpdateNP c) np_Meta np_Spec"
    and "owner_helpers_ok h" and "\<forall>w k np. getNP c w k = Inr np \<longrightarrow> meta_key (np_Meta np) = k"
    and "getWNPP c w req = Inr p0" and "om_DeletionTimestamp (wnpp_Meta p0) = None"
    and "reconcileOwnership h c w p0 = (w1, p, Inr False)"
    and "Kubernetes (pspec_Backend (wnpp_Spec p)) = Some spec" and "flow_in (formatLabelSelector h) d spec f"
    and "HasPromotionLabel (Some p) = (WorkloadNetworkPolicyModeProtect, True)"
    and "hasPromotedPolicy c w1 (wnpp_Namespace p) (wnpp_Name p) = Inr False" and "truth w1 (meta_key (wnpp_Meta p)) = None"
    and "proposal_Reconcile h c w req = (w2, None)"
    and "truth w2 (meta_key (wnpp_Meta p)) = Some pol" and "reconcileK8sPolicy h c w2 pol = Some (w3, None)"
  shows "HasPromotedLabel (Some pol) (wnpp_Name p) \<and>
    (\<exists>np. getNP c w3 (meta_key (wnpp_Meta p)) = Inr np \<and> np_Spec np = spec \<and>
       flow_in (formatLabelSelector h) d (np_Spec np) f \<and>
       isControlledBy h (om_OwnerReferences (np_Meta np)) (om_UID (wnp_Meta pol)))"
proof -
  from promotion_outcome [OF assms(1,2,6-8,12,11,14)] assms(13,15) have pol: "promotion_of p WorkloadNetworkPolicyModeProtect pol" by auto
  then have k: "Kubernetes (wnp_Backend pol) = Some spec" and m: "wnp_Mode pol \<noteq> WorkloadNetworkPolicyModeMonitor"
    using assms(9) by (auto simp: promotion_of_def)
  from reconcileK8sPolicy_stores [OF assms(3) _ assms(4) k assms(16) m] assms(5) obtain np where
    "getNP c w3 (meta_key (wnp_Meta pol)) = Inr np" "np_Spec np = spec"
    "isControlledBy h (om_OwnerReferences (np_Meta np)) (om_UID (wnp_Meta pol))" by auto
  with assms(10) pol show ?thesis by (auto simp: promotion_of_def)
qed

definition sample_flow :: "NetworkPolicyPeer \<times> NetworkPolicyPort" where
  "sample_flow = buildPeerAndPort (sample_wk ''api'') ''TCP'' 80"

definition sample_learned :: NetworkPolicySpec where
  "sample_learned = empty_np_spec\<lparr>Egress := [\<lparr>To = [fst sample_flow], egress_Ports = [snd sample_flow]\<rparr>]\<rparr>"

definition sample_protect :: WorkloadNetworkPolicyProposal where
  "sample_protect = sample_proposal\<lparr>
     wnpp_Meta := (wnpp_Meta sample_proposal)\<lparr>om_Labels := [(ProposalPromoteLabelKey, ''protect'')]\<rparr>,
     wnpp_Spec := (wnpp_Spec sample_proposal)\<lparr>pspec_Backend := \<lparr>Backend = ''kubernetes'', Kubernetes = Some sample_learned, Istio = None\<rparr>\<rparr>\<rparr>"

definition sample_protect_store :: store where
  "sample_protect_store = sample_proposals\<lparr>st_wnpps := [sample_protect]\<rparr>"

theorem learned_flow_enforced_witness:
  "\<exists>w2 pol w3 np. proposal_Reconcile mem_helpers (mem_client sample_index) sample_protect_store sample_req = (w2, None) \<and>
     getWNP (mem_client sample_index) w2 sample_req = Inr pol \<and>
     reconcileK8sPolicy mem_helpers (mem_client sample_index) w2 pol = Some (w3, None) \<and>
     getNP (mem_client sample_index) w3 sample_req = Inr np \<and>
     flow_in (formatLabelSelector mem_helpers) ''Egress'' (np_Spec np) sample_flow"
proof -
  let ?c = "mem_client sample_index"
  let ?o = "reconcileOwnership mem_helpers ?c sample_protect_store sample_protect"
  let ?w1 = "fst ?o" and ?p = "fst (snd ?o)"
  let ?w2 = "fst (proposal_Reconcile mem_helpers ?c sample_protect_store sample_req)"
  let ?pol = "projr (getWNP ?c ?w2 sample_req)"
  have "snd (snd ?o) = Inr False" by code_simp
  then have o: "?o = (?w1, ?p, Inr False)" by (metis prod.collapse)
  have prom: "hasPromotedPolicy ?c ?w1 (wnpp_Namespace ?p) (wnpp_Name ?p) = Inr False" by code_simp
  have key: "meta_key (wnpp_Meta ?p) = sample_req" by code_simp
  have "length (st_wnps ?w1) = 0" by code_simp
  then have free: "mem_truth ?w1 (meta_key (wnpp_Meta ?p)) = None" by (simp add: has_obj_def mem_find_def)
  have "snd (proposal_Reconcile mem_helpers ?c sample_protect_store sample_req) = None" by code_simp
  then have r: "proposal_Reconcile mem_helpers ?c sample_protect_store sample_req = (?w2, None)" by (metis prod.collapse)
  have "\<not> isl (getWNP ?c ?w2 sample_req)" by code_simp
  then have pol: "getWNP ?c ?w2 sample_req = Inr ?pol" by simp
  then have pol': "mem_truth ?w2 (meta_key (wnpp_Meta ?p)) = Some ?pol" unfolding key by (simp add: mem_client_def)
  have "map_option snd (reconcileK8sPolicy mem_helpers ?c ?w2 ?pol) = Some None" by code_simp
  then obtain w3 where w3: "reconcileK8sPolicy mem_helpers ?c ?w2 ?pol = Some (w3, None)" by auto
  have g: "getWNPP ?c sample_protect_store sample_req = Inr sample_protect" "om_DeletionTimestamp (wnpp_Meta sample_protect) = None"
    by (simp_all add: mem_client_def mem_find_def sample_protect_store_def sample_proposals_def sample_protect_def sample_proposal_def
        meta_named_def meta_key_def)
  have k: "Kubernetes (pspec_Backend (wnpp_Spec ?p)) = Some sample_learned" by code_simp
  have lab: "HasPromotionLabel (Some ?p) = (WorkloadNetworkPolicyModeProtect, True)" by code_simp
  have fl: "flow_in (formatLabelSelector mem_helpers) ''Egress'' sample_learned sample_flow" by code_simp
  have keys: "\<forall>w k np. getNP ?c w k = Inr np \<longrightarrow> meta_key (np_Meta np) = k"
    by (auto simp: mem_client_def dest: mem_find_key)
  from learned_flow_enforced [OF mem_client_creates mem_client_upserts(1) mem_helpers_owner keys g o k fl lab prom free r pol' w3]
    key r pol w3 show ?thesis by auto
qed

end
